(* ===== verification/Prelude.thy ===== *)
theory Prelude
  imports Main "HOL-Library.Product_Lexorder"
begin

text \<open>
  Shared ground of the development: the collections of rules that the component proofs are
  run with, the type synonyms of identifiers and instants, and the facts on lists that every
  table operation needs (an \<^verbatim>\<open>UPDATE\<close> is a conditional map over the rows of a table, a
  \<^verbatim>\<open>SELECT\<close> a filter, an \<^verbatim>\<open>ORDER BY\<close> a stable sort).
\<close>

section \<open>Rule collections\<close>

named_theorems run_simps \<open>what a successful run of an action says about its worlds\<close>
named_theorems tenant_rules \<open>actions that write only the rows of the tenant they run for\<close>
named_theorems keeps_rules \<open>actions that relate the database before them to the one after them\<close>
named_theorems go_defs \<open>definitions of the code that evaluation unfolds\<close>
named_theorems frame_simps \<open>fields and tables that an operation leaves alone\<close>

section \<open>Names of the model's basic types\<close>

type_synonym uuid = nat   \<comment> \<open>a 128-bit identifier; its textual form is a parameter\<close>
type_synonym time = int   \<comment> \<open>an instant, in microseconds\<close>

definition uuid_Nil :: uuid where
  "uuid_Nil = 0"

section \<open>Updates and counts over the rows of a table\<close>

definition upd_where :: "('a \<Rightarrow> bool) \<Rightarrow> ('a \<Rightarrow> 'a) \<Rightarrow> 'a list \<Rightarrow> 'a list" where
  "upd_where P f xs = map (\<lambda>x. if P x then f x else x) xs"

definition count_where :: "('a \<Rightarrow> bool) \<Rightarrow> 'a list \<Rightarrow> nat" where
  "count_where P xs = length (filter P xs)"

lemma upd_where_Nil [simp]: "upd_where P f [] = []"
  by (simp add: upd_where_def)

lemma upd_where_Cons [simp]:
  "upd_where P f (x # xs) = (if P x then f x else x) # upd_where P f xs"
  by (simp add: upd_where_def)

lemma length_upd_where [simp]: "length (upd_where P f xs) = length xs"
  by (simp add: upd_where_def)

lemma in_set_upd_where:
  "y \<in> set (upd_where P f xs) \<longleftrightarrow> (\<exists>x \<in> set xs. y = (if P x then f x else x))"
  by (auto simp: upd_where_def)

lemma upd_where_done: "(\<And>x. P x \<Longrightarrow> \<not> P (f x)) \<Longrightarrow> y \<in> set (upd_where P f xs) \<Longrightarrow> \<not> P y"
  by (induction xs) (auto split: if_splits)

lemma upd_where_id: "(\<And>x. x \<in> set xs \<Longrightarrow> \<not> P x) \<Longrightarrow> upd_where P f xs = xs"
  by (induction xs) auto

lemma map_upd_where:
  "(\<And>x. x \<in> set xs \<Longrightarrow> P x \<Longrightarrow> g (f x) = g x) \<Longrightarrow> map g (upd_where P f xs) = map g xs"
  by (induction xs) auto

lemma filter_upd_where_other:
  "(\<And>x. x \<in> set xs \<Longrightarrow> P x \<Longrightarrow> \<not> Q x \<and> \<not> Q (f x)) \<Longrightarrow>
   filter Q (upd_where P f xs) = filter Q xs"
  by (induction xs) auto

lemma filter_upd_where_same:
  "(\<And>x. x \<in> set xs \<Longrightarrow> P x \<Longrightarrow> Q (f x) = Q x) \<Longrightarrow>
   filter Q (upd_where P f xs) = upd_where P f (filter Q xs)"
  by (induction xs) auto

lemma filter_upd_where_none:
  "(\<And>x. Q x \<Longrightarrow> P x) \<Longrightarrow> (\<And>x. P x \<Longrightarrow> \<not> Q (f x)) \<Longrightarrow> filter Q (upd_where P f xs) = []"
  by (induction xs) auto

text \<open>The one row that an update by a unique key changes.\<close>

lemma upd_where_key:
  assumes "distinct (map f xs)" "t \<in> set xs" "\<And>u. u \<in> set xs \<Longrightarrow> P u \<longleftrightarrow> f u = f t"
  shows "upd_where P g xs = upd_where (\<lambda>u. u = t) g xs"
proof -
  have "P u \<longleftrightarrow> u = t" if "u \<in> set xs" for u
    using assms that by (metis distinct_map inj_onD)
  then show ?thesis unfolding upd_where_def by (intro map_cong) auto
qed

lemma count_where_Nil [simp]: "count_where P [] = 0"
  by (simp add: count_where_def)

lemma count_where_Cons [simp]:
  "count_where P (x # xs) = (if P x then Suc (count_where P xs) else count_where P xs)"
  by (simp add: count_where_def)

lemma count_where_append [simp]: "count_where P (xs @ ys) = count_where P xs + count_where P ys"
  by (simp add: count_where_def)

lemma count_where_zero: "count_where P xs = 0 \<longleftrightarrow> (\<forall>x \<in> set xs. \<not> P x)"
  by (induction xs) auto

lemma count_where_pos: "0 < count_where P xs \<longleftrightarrow> (\<exists>x \<in> set xs. P x)"
  by (induction xs) auto

section \<open>The first row of an ordered result\<close>

text \<open>
  \<^verbatim>\<open>ORDER BY k LIMIT 1\<close>: the head of the rows sorted by \<open>k\<close>. The sort is stable, so rows
  with equal keys keep the order of the table, which stands for the order the database would
  break such ties in.
\<close>

definition first_by :: "('a \<Rightarrow> 'k::linorder) \<Rightarrow> 'a list \<Rightarrow> 'a option" where
  "first_by k xs = (case sort_key k xs of [] \<Rightarrow> None | x # _ \<Rightarrow> Some x)"

lemma first_by_None [simp]: "first_by k xs = None \<longleftrightarrow> xs = []"
proof -
  have "sort_key k xs = [] \<longleftrightarrow> xs = []"
    by (metis length_0_conv length_sort)
  then show ?thesis
    by (auto simp: first_by_def split: list.splits)
qed

lemma first_by_in: "first_by k xs = Some x \<Longrightarrow> x \<in> set xs"
  by (metis (no_types, lifting) first_by_def list.case_eq_if list.set_sel(1) option.distinct(1)
      option.inject set_sort)

lemma first_by_least:
  assumes "first_by k xs = Some x" and "y \<in> set xs"
  shows "k x \<le> k y"
proof -
  from assms(1) obtain ys where s: "sort_key k xs = x # ys"
    by (auto simp: first_by_def split: list.splits)
  have "sorted (map k (sort_key k xs))"
    by simp
  with s have "\<forall>z \<in> set (x # ys). k x \<le> k z"
    by auto
  moreover from s have "set (x # ys) = set xs"
    by (metis set_sort)
  ultimately show ?thesis
    using assms(2) by blast
qed

text \<open>The first row of a result in the table's own order.\<close>

definition first_row :: "('a \<Rightarrow> bool) \<Rightarrow> 'a list \<Rightarrow> 'a option" where
  "first_row P xs = List.find P xs"

lemma first_row_Nil [simp]: "first_row P [] = None"
  by (simp add: first_row_def)

lemma first_row_Cons [simp]:
  "first_row P (x # xs) = (if P x then Some x else first_row P xs)"
  by (simp add: first_row_def)

lemma first_row_SomeD: "first_row P xs = Some x \<Longrightarrow> x \<in> set xs \<and> P x"
  by (induction xs) (auto split: if_splits)

lemma first_row_None: "first_row P xs = None \<longleftrightarrow> (\<forall>x \<in> set xs. \<not> P x)"
  by (induction xs) auto

lemma first_row_unique:
  assumes "x \<in> set xs" "P x" and "\<And>y. y \<in> set xs \<Longrightarrow> P y \<Longrightarrow> y = x"
  shows "first_row P xs = Some x"
proof (cases "first_row P xs")
  case None
  with assms(1,2) show ?thesis by (auto simp: first_row_None)
next
  case (Some y)
  with assms(3) show ?thesis by (auto dest: first_row_SomeD)
qed

lemma first_row_filter [simp]: "first_row P (filter Q xs) = first_row (\<lambda>x. Q x \<and> P x) xs"
  by (induction xs) auto

section \<open>Injective keys\<close>

lemma distinct_map_eqD:
  "distinct (map g xs) \<Longrightarrow> x \<in> set xs \<Longrightarrow> y \<in> set xs \<Longrightarrow> g x = g y \<Longrightarrow> x = y"
  by (meson distinct_map inj_onD)

lemma first_row_key:
  "distinct (map g xs) \<Longrightarrow> x \<in> set xs \<Longrightarrow> first_row (\<lambda>y. g y = g x) xs = Some x"
  by (rule first_row_unique) (auto dest: distinct_map_eqD)

lemma filter_key: "distinct (map g xs) \<Longrightarrow> x \<in> set xs \<Longrightarrow> filter (\<lambda>y. g y = g x) xs = [x]"
  by (induction xs) (auto simp: filter_empty_conv image_iff)

lemma first_row_snoc: "first_row P (xs @ [x]) = (case first_row P xs of Some y \<Rightarrow> Some y | None \<Rightarrow> if P x then Some x else None)"
  by (induction xs) (auto simp: first_row_def)

end
