(* ===== verification/Domain.thy ===== *)
theory Domain
  imports Prelude
begin

text \<open>
  The rows of the database, one record per table. The first group has the fields of the structs
  of \<^verbatim>\<open>internal/domain/tenant_models.go\<close> in their order; the extensions add the columns that
  the migrations created and those structs leave out. A nullable column (a Go pointer) is an
  \<open>option\<close>. Money is in kobo, weight in grams, both integers; the ticket status is the
  enumeration of the column's check constraint (migration 0007).
\<close>

section \<open>Tenants and users\<close>

record plant =
  pl_ID :: uuid
  pl_Slug :: string
  pl_Name :: string
  pl_City :: "string option"
  pl_Address :: "string option"
  pl_Phone :: "string option"
  pl_LogoPath :: "string option"
  pl_CustomDomain :: "string option"
  pl_DomainStatus :: string
  pl_Status :: string
  pl_Timezone :: string
  pl_PrimaryColor :: string
  pl_SecondaryColor :: string
  pl_ButtonColor :: string
  pl_ButtonTextColor :: string
  pl_FontFamily :: string
  pl_TermiiSenderID :: "string option"
  pl_PaystackSubaccountCode :: "string option"
  pl_CreatedAt :: time
  pl_UpdatedAt :: time

record plant_row = plant +
  pl_LegalBusinessName :: "string option"
  pl_CACNumber :: "string option"
  pl_State :: "string option"
  pl_NMDPRALicenseNumber :: "string option"
  pl_BankCode :: "string option"
  pl_BankName :: "string option"
  pl_BankAccountNumber :: "string option"
  pl_BankAccountName :: "string option"
  pl_FoundingRank :: "int option"

record user =
  us_ID :: uuid
  us_PlantID :: uuid
  us_Name :: string
  us_Phone :: string
  us_Role :: string
  us_PinHash :: "string option"
  us_PasswordHash :: "string option"
  us_Active :: bool
  us_CanEditPrice :: bool
  us_CanManageStaff :: bool
  us_CanManagePumps :: bool
  us_CreatedAt :: time
  us_UpdatedAt :: time

record user_row = user +
  us_Email :: "string option"

section \<open>Prices, shifts and tickets\<close>

record price =
  pr_ID :: uuid
  pr_PlantID :: uuid
  pr_PricePerKg :: int
  pr_EffectiveFrom :: time
  pr_SetBy :: "uuid option"
  pr_CreatedAt :: time

record shift =
  sh_ID :: uuid
  sh_PlantID :: uuid
  sh_UserID :: uuid
  sh_DeviceID :: "string option"
  sh_PumpID :: "uuid option"
  sh_OpenedAt :: time
  sh_ClosedAt :: "time option"
  sh_OpeningCashKobo :: int
  sh_ClosingCashKobo :: "int option"
  sh_TokensIssued :: int
  sh_TokensReturned :: "int option"
  sh_Notes :: "string option"
  sh_CreatedAt :: time
  sh_UpdatedAt :: time

datatype ticket_status =
  Pending | Paid | Dispensing | Filled | Issue | Cancelled | Expired | Voided

record ticket =
  tk_ID :: uuid
  tk_PlantID :: uuid
  tk_Reference :: string
  tk_Code :: string
  tk_CustomerName :: "string option"
  tk_CustomerPhone :: "string option"
  tk_SizeGrams :: int
  tk_RatePerKg :: int
  tk_PriceID :: "uuid option"
  tk_Amount :: int
  tk_Channel :: string
  tk_Status :: ticket_status
  tk_NetGrams :: "int option"
  tk_EmptyWeightGrams :: "int option"
  tk_FilledWeightGrams :: "int option"
  tk_FilledAt :: "time option"
  tk_FilledShiftID :: "uuid option"
  tk_ConfirmedAt :: "time option"
  tk_PaidAt :: "time option"
  tk_ExpiresAt :: "time option"
  tk_SoldBy :: "uuid option"
  tk_ShiftID :: "uuid option"
  tk_PumpID :: "uuid option"
  tk_DispensingStartedAt :: "time option"
  tk_DispensingStartedBy :: "uuid option"
  tk_ClosedBy :: "uuid option"
  tk_CloseNote :: "string option"
  tk_VoidReason :: "string option"
  tk_VoidedBy :: "uuid option"
  tk_VoidedAt :: "time option"
  tk_IdempotencyKey :: "string option"
  tk_CreatedAt :: time
  tk_UpdatedAt :: time

section \<open>Cash and the activity log\<close>

record cash_movement =
  cm_ID :: uuid
  cm_PlantID :: uuid
  cm_ShiftID :: uuid
  cm_Kind :: string
  cm_AmountKobo :: int
  cm_CountedKobo :: "int option"
  cm_TicketID :: "uuid option"
  cm_RecordedBy :: "uuid option"
  cm_Note :: "string option"
  cm_CreatedAt :: time

text \<open>The values that the code puts into a log entry's \<^verbatim>\<open>detail\<close> object.\<close>

datatype detail_value = DStr string | DInt int | DBool bool | DUuid "uuid option" | DTime time

record activity_log =
  al_ID :: nat
  al_PlantID :: "uuid option"
  al_ActorID :: "uuid option"
  al_Action :: string
  al_Subject :: "string option"
  al_Detail :: "(string \<times> detail_value) list"
  al_CreatedAt :: time

section \<open>Tables that only their own packages read\<close>

record pump_row =
  pu_ID :: uuid
  pu_PlantID :: uuid
  pu_Name :: string
  pu_Status :: string
  pu_SortOrder :: int
  pu_CreatedAt :: time
  pu_UpdatedAt :: time

record hours_row =
  ph_ID :: uuid
  ph_PlantID :: uuid
  ph_DayOfWeek :: int
  ph_Segment :: int
  ph_OpensAt :: "(nat \<times> nat) option"   \<comment> \<open>a \<^verbatim>\<open>TIME\<close>: hour and minute\<close>
  ph_ClosesAt :: "(nat \<times> nat) option"
  ph_Closed :: bool

record review_row =
  rv_ID :: uuid
  rv_PlantID :: uuid
  rv_TicketID :: uuid
  rv_Token :: string
  rv_Rating :: "int option"
  rv_Note :: "string option"
  rv_RequestedAt :: time
  rv_SubmittedAt :: "time option"

record buyer_row =
  by_ID :: uuid
  by_Name :: string
  by_Phone :: string
  by_PhoneKey :: string
  by_Email :: "string option"
  by_State :: string
  by_Source :: "string option"
  by_OfferRank :: "int option"
  by_CreatedAt :: time

section \<open>Banks\<close>

record Bank =
  bk_Name :: string
  bk_Code :: string

section \<open>The database\<close>

record db =
  db_plants :: "plant_row list"
  db_reserved :: "string list"
  db_users :: "user_row list"
  db_prices :: "price list"
  db_shifts :: "shift list"
  db_tickets :: "ticket list"
  db_cash :: "cash_movement list"
  db_log :: "activity_log list"
  db_pumps :: "pump_row list"
  db_hours :: "hours_row list"
  db_reviews :: "review_row list"
  db_buyers :: "buyer_row list"

end
