(* ===== verification/GoStrings.thy ===== *)
theory GoStrings
  imports Prelude "HOL-Library.Sublist"
begin

text \<open>
  Go strings are sequences of bytes, here lists of characters. The functions of the standard
  library that the code uses on them: \<^verbatim>\<open>strings.TrimSpace\<close>, \<^verbatim>\<open>Fields\<close>, \<^verbatim>\<open>ToLower\<close>, the prefix and
  suffix operations, the first rune of a string, and the number formats \<^verbatim>\<open>%d\<close>, \<^verbatim>\<open>%04d\<close> and
  \<^verbatim>\<open>%x\<close>. White space is what \<^verbatim>\<open>unicode.IsSpace\<close> accepts, in its UTF-8 encoding; those encodings
  start with a byte that no other rune contains, so looking for them byte by byte finds exactly
  the runes that Go's decoder finds, also in malformed text.
\<close>

section \<open>White space\<close>

definition space_encodings :: "string list" where
  "space_encodings =
    [[CHR 0x09], [CHR 0x0A], [CHR 0x0B], [CHR 0x0C], [CHR 0x0D], [CHR 0x20],
     [CHR 0xC2, CHR 0x85], [CHR 0xC2, CHR 0xA0], [CHR 0xE1, CHR 0x9A, CHR 0x80],
     [CHR 0xE2, CHR 0x80, CHR 0xA8], [CHR 0xE2, CHR 0x80, CHR 0xA9],
     [CHR 0xE2, CHR 0x80, CHR 0xAF], [CHR 0xE2, CHR 0x81, CHR 0x9F],
     [CHR 0xE3, CHR 0x80, CHR 0x80], [CHR 0xE2, CHR 0x80, CHR 0x80],
     [CHR 0xE2, CHR 0x80, CHR 0x81], [CHR 0xE2, CHR 0x80, CHR 0x82],
     [CHR 0xE2, CHR 0x80, CHR 0x83], [CHR 0xE2, CHR 0x80, CHR 0x84],
     [CHR 0xE2, CHR 0x80, CHR 0x85], [CHR 0xE2, CHR 0x80, CHR 0x86],
     [CHR 0xE2, CHR 0x80, CHR 0x87], [CHR 0xE2, CHR 0x80, CHR 0x88],
     [CHR 0xE2, CHR 0x80, CHR 0x89], [CHR 0xE2, CHR 0x80, CHR 0x8A]]"

text \<open>The length of the white-space rune at the head of \<open>s\<close>, 0 when there is none.\<close>

definition space_at :: "string \<Rightarrow> nat" where
  "space_at s = (case List.find (\<lambda>e. prefix e s) space_encodings of None \<Rightarrow> 0 | Some e \<Rightarrow> length e)"

definition space_end :: "string \<Rightarrow> nat" where
  "space_end s = (case List.find (\<lambda>e. suffix e s) space_encodings of None \<Rightarrow> 0 | Some e \<Rightarrow> length e)"

function trim_left :: "string \<Rightarrow> string" where
  "trim_left s = (if s = [] \<or> space_at s = 0 then s else trim_left (drop (space_at s) s))"
  by auto

termination by (relation "measure length") auto

function trim_right :: "string \<Rightarrow> string" where
  "trim_right s = (if s = [] \<or> space_end s = 0 then s else trim_right (take (length s - space_end s) s))"
  by auto

termination by (relation "measure length") auto

declare trim_left.simps [simp del] trim_right.simps [simp del]

definition TrimSpace :: "string \<Rightarrow> string" where
  "TrimSpace s = trim_right (trim_left s)"

lemma trim_left_stop: "s = [] \<or> space_at s = 0 \<Longrightarrow> trim_left s = s"
  by (subst trim_left.simps) simp

lemma trim_left_step:
  "s \<noteq> [] \<Longrightarrow> space_at s \<noteq> 0 \<Longrightarrow> trim_left s = trim_left (drop (space_at s) s)"
  by (subst trim_left.simps) simp

lemma trim_right_stop: "s = [] \<or> space_end s = 0 \<Longrightarrow> trim_right s = s"
  by (subst trim_right.simps) simp

lemma trim_right_step:
  "s \<noteq> [] \<Longrightarrow> space_end s \<noteq> 0 \<Longrightarrow> trim_right s = trim_right (take (length s - space_end s) s)"
  by (subst trim_right.simps) simp

lemma trim_left_fixed: "trim_left s = [] \<or> space_at (trim_left s) = 0"
proof (induction s rule: trim_left.induct)
  case (1 s)
  then show ?case
    by (cases "s = [] \<or> space_at s = 0") (auto simp: trim_left_stop trim_left_step)
qed

lemma trim_right_fixed: "trim_right s = [] \<or> space_end (trim_right s) = 0"
proof (induction s rule: trim_right.induct)
  case (1 s)
  then show ?case
    by (cases "s = [] \<or> space_end s = 0") (auto simp: trim_right_stop trim_right_step)
qed

lemma trim_right_prefix: "prefix (trim_right s) s"
proof (induction s rule: trim_right.induct)
  case (1 s)
  then show ?case
    by (cases "s = [] \<or> space_end s = 0")
      (auto simp: trim_right_stop trim_right_step intro: prefix_order.trans take_is_prefix)
qed

text \<open>A trimmed string starts and ends with something else than white space.\<close>

lemma space_at_prefix:
  assumes "prefix t s" "space_at s = 0"
  shows "space_at t = 0"
proof -
  have "\<not> prefix e s" if "e \<in> set space_encodings" for e
  proof
    assume "prefix e s"
    with that obtain e' where e': "List.find (\<lambda>e. prefix e s) space_encodings = Some e'"
      by (meson find_None_iff not_Some_eq)
    then have "space_at s = length e'" by (simp add: space_at_def)
    moreover from e' have "e' \<in> set space_encodings" by (auto simp: find_Some_iff)
    moreover note assms(2)
    ultimately show False
      by (auto simp: space_encodings_def)
  qed
  with assms(1) have "List.find (\<lambda>e. prefix e t) space_encodings = None"
    by (auto simp: find_None_iff intro: prefix_order.trans)
  then show ?thesis by (simp add: space_at_def)
qed

lemma TrimSpace_fixed:
  "TrimSpace s = [] \<or> space_at (TrimSpace s) = 0 \<and> space_end (TrimSpace s) = 0"
  unfolding TrimSpace_def
  using trim_right_fixed [of "trim_left s"] trim_left_fixed [of s]
    space_at_prefix [OF trim_right_prefix [of "trim_left s"]]
  by (auto simp: trim_right_stop)

lemma TrimSpace_idem [simp]: "TrimSpace (TrimSpace s) = TrimSpace s"
proof -
  have "trim_left (TrimSpace s) = TrimSpace s" "trim_right (TrimSpace s) = TrimSpace s"
    using TrimSpace_fixed [of s] by (auto intro: trim_left_stop trim_right_stop)
  then show ?thesis by (simp add: TrimSpace_def [of "TrimSpace s"])
qed

lemma TrimSpace_Nil [simp]: "TrimSpace [] = []"
  by (simp add: TrimSpace_def trim_left_stop trim_right_stop)

text \<open>\<^verbatim>\<open>strings.Fields\<close>: \<open>acc\<close> holds the current field, reversed.\<close>

function fields_from :: "string \<Rightarrow> string \<Rightarrow> string list" where
  "fields_from acc s =
     (if s = [] then (if acc = [] then [] else [rev acc])
      else if space_at s = 0 then fields_from (hd s # acc) (tl s)
      else (if acc = [] then [] else [rev acc]) @ fields_from [] (drop (space_at s) s))"
  by auto

termination by (relation "measure (length \<circ> snd)") auto

declare fields_from.simps [simp del]

definition Fields :: "string \<Rightarrow> string list" where
  "Fields s = fields_from [] s"

text \<open>What evaluates them on literals.\<close>

lemmas string_eval = trim_left_stop trim_left_step trim_right_stop trim_right_step space_at_def
  space_end_def space_encodings_def TrimSpace_def Fields_def fields_from.simps suffix_to_prefix

section \<open>Letters and digits\<close>

text \<open>
  \<^verbatim>\<open>strings.ToLower\<close>, exact wherever the result is ASCII: besides the capital letters, two
  non-ASCII runes have an ASCII lower case (the Kelvin sign and the dotted capital I). The
  bytes of other runes are kept.
\<close>

definition lower_byte :: "char \<Rightarrow> char" where
  "lower_byte c = (let n = of_char c :: nat in if 65 \<le> n \<and> n \<le> 90 then char_of (n + 32) else c)"

fun ToLower :: "string \<Rightarrow> string" where
  "ToLower [] = []"
| "ToLower (c # s) =
     (if c = CHR 0xE2 \<and> take 2 s = [CHR 0x84, CHR 0xAA] then CHR ''k'' # ToLower (drop 2 s)
      else if c = CHR 0xC4 \<and> take 1 s = [CHR 0xB0] then CHR ''i'' # ToLower (drop 1 s)
      else lower_byte c # ToLower s)"

definition is_digit :: "char \<Rightarrow> bool" where
  "is_digit c \<longleftrightarrow> 48 \<le> (of_char c :: nat) \<and> (of_char c :: nat) \<le> 57"

definition is_lower :: "char \<Rightarrow> bool" where
  "is_lower c \<longleftrightarrow> 97 \<le> (of_char c :: nat) \<and> (of_char c :: nat) \<le> 122"

definition digit :: "nat \<Rightarrow> char" where
  "digit n = char_of (48 + n mod 10)"

definition hex_digit :: "nat \<Rightarrow> char" where
  "hex_digit n = (let k = n mod 16 in if k < 10 then char_of (48 + k) else char_of (87 + k))"

lemma of_char_digit [simp]: "of_char (digit n) = 48 + n mod 10"
proof -
  have "n mod 10 < 10" by simp
  then show ?thesis by (simp add: digit_def)
qed

lemma is_digit_digit [simp]: "is_digit (digit n)"
  using mod_less_divisor [of 10 n] by (simp add: is_digit_def)

lemma digit_inj: "digit m = digit n \<longleftrightarrow> m mod 10 = n mod 10"
proof
  assume "digit m = digit n"
  then have "(of_char (digit m) :: nat) = of_char (digit n)" by simp
  then show "m mod 10 = n mod 10" by simp
qed (simp add: digit_def)

text \<open>\<^verbatim>\<open>%04d\<close> of a number below 10000, \<^verbatim>\<open>%d\<close> of a natural number, and \<^verbatim>\<open>%x\<close> of bytes.\<close>

definition fmt04 :: "nat \<Rightarrow> string" where
  "fmt04 n = [digit (n div 1000), digit (n div 100), digit (n div 10), digit n]"

fun dec_of :: "nat \<Rightarrow> string" where
  "dec_of n = (if n < 10 then [digit n] else dec_of (n div 10) @ [digit n])"

declare dec_of.simps [simp del]

definition itoa :: "int \<Rightarrow> string" where
  "itoa n = (if n < 0 then CHR ''-'' # dec_of (nat (- n)) else dec_of (nat n))"

definition hex_of :: "nat list \<Rightarrow> string" where
  "hex_of bs = concat (map (\<lambda>b. [hex_digit (b div 16), hex_digit b]) bs)"

lemma length_fmt04 [simp]: "length (fmt04 n) = 4"
  by (simp add: fmt04_def)

lemma fmt04_digits: "c \<in> set (fmt04 n) \<Longrightarrow> is_digit c"
  by (auto simp: fmt04_def)

lemma fmt04_inj:
  assumes "m < 10000" "n < 10000" "fmt04 m = fmt04 n"
  shows "m = n"
proof -
  have split: "k = (k div 1000 mod 10) * 1000 + (k div 100 mod 10) * 100 + (k div 10 mod 10) * 10 + k mod 10"
    if "k < 10000" for k :: nat
  proof -
    have q: "k div 100 = k div 10 div 10" "k div 1000 = k div 10 div 10 div 10"
      by (simp_all add: div_mult2_eq [symmetric])
    have s: "m = 10 * (m div 10) + m mod 10" for m :: nat by simp
    have "k div 10 div 10 div 10 mod 10 = k div 10 div 10 div 10"
      using that by (simp add: div_mult2_eq [symmetric])
    with s [of k] s [of "k div 10"] s [of "k div 10 div 10"] show ?thesis
      unfolding q by linarith
  qed
  from assms(3) have "m div 1000 mod 10 = n div 1000 mod 10" "m div 100 mod 10 = n div 100 mod 10"
    "m div 10 mod 10 = n div 10 mod 10" "m mod 10 = n mod 10"
    by (simp_all add: fmt04_def digit_inj)
  with split [OF assms(1)] split [OF assms(2)] show ?thesis by simp
qed

lemma length_hex_of [simp]: "length (hex_of bs) = 2 * length bs"
  by (induction bs) (auto simp: hex_of_def)

lemma hex_digit_lower: "is_digit (hex_digit n) \<or> is_lower (hex_digit n)"
proof -
  have "n mod 16 < 16" by simp
  then show ?thesis
    by (auto simp: hex_digit_def is_digit_def is_lower_def Let_def)
qed

lemma hex_of_chars: "c \<in> set (hex_of bs) \<Longrightarrow> is_digit c \<or> is_lower c"
  by (simp add: hex_of_def) (metis hex_digit_lower)

section \<open>Runes\<close>

definition byte :: "char \<Rightarrow> nat" where
  "byte c = of_char c"

definition cont :: "char \<Rightarrow> bool" where
  "cont c \<longleftrightarrow> 128 \<le> byte c \<and> byte c < 192"

text \<open>The width of the rune that \<^verbatim>\<open>utf8.DecodeRune\<close> reads, 0 for a malformed one.\<close>

definition rune_len :: "nat \<Rightarrow> nat" where
  "rune_len b = (if b < 128 then 1 else if b < 194 then 0 else if b < 224 then 2
     else if b < 240 then 3 else if b < 245 then 4 else 0)"

definition second_ok :: "nat \<Rightarrow> nat \<Rightarrow> bool" where
  "second_ok b0 b1 \<longleftrightarrow>
     (if b0 = 224 then 160 else if b0 = 240 then 144 else 128) \<le> b1 \<and>
     b1 \<le> (if b0 = 237 then 159 else if b0 = 244 then 143 else 191)"

definition rune_width :: "string \<Rightarrow> nat" where
  "rune_width s = (case s of [] \<Rightarrow> 0 | c # r \<Rightarrow>
     (let k = rune_len (byte c) in
      if k \<le> 1 then k
      else if k - 1 \<le> length r \<and> second_ok (byte c) (byte (hd r)) \<and> list_all cont (take (k - 1) r)
      then k else 0))"

text \<open>The first rune of \<open>[]rune(s)\<close> as text; a malformed one is U+FFFD.\<close>

definition first_rune :: "string \<Rightarrow> string" where
  "first_rune s = (if rune_width s = 0 then [CHR 0xEF, CHR 0xBF, CHR 0xBD] else take (rune_width s) s)"

section \<open>Prefixes and suffixes\<close>

definition HasPrefix :: "string \<Rightarrow> string \<Rightarrow> bool" where
  "HasPrefix s p = (take (length p) s = p)"

definition HasSuffix :: "string \<Rightarrow> string \<Rightarrow> bool" where
  "HasSuffix s p \<longleftrightarrow> length p \<le> length s \<and> drop (length s - length p) s = p"

definition TrimPrefix :: "string \<Rightarrow> string \<Rightarrow> string" where
  "TrimPrefix s p = (if HasPrefix s p then drop (length p) s else s)"

definition TrimSuffix :: "string \<Rightarrow> string \<Rightarrow> string" where
  "TrimSuffix s p = (if HasSuffix s p then take (length s - length p) s else s)"

lemma HasPrefix_iff: "HasPrefix s p \<longleftrightarrow> (\<exists>r. s = p @ r)"
  by (auto simp: HasPrefix_def) (metis append_take_drop_id)

lemma HasSuffix_iff: "HasSuffix s p \<longleftrightarrow> (\<exists>r. s = r @ p)"
  by (auto simp: HasSuffix_def) (metis append_take_drop_id)

text \<open>\<^verbatim>\<open>strings.Contains\<close>.\<close>

definition contains_text :: "string \<Rightarrow> string \<Rightarrow> bool" where
  "contains_text s sub = list_ex (\<lambda>k. HasPrefix (drop k s) sub) [0..<Suc (length s)]"

lemma contains_text_iff: "contains_text s sub \<longleftrightarrow> (\<exists>a r. s = a @ sub @ r)"
proof
  assume "contains_text s sub"
  then obtain k where "HasPrefix (drop k s) sub"
    unfolding contains_text_def list_ex_iff by blast
  then obtain r where "drop k s = sub @ r" by (auto simp: HasPrefix_iff)
  then have "s = take k s @ sub @ r" by (metis append_take_drop_id)
  then show "\<exists>a r. s = a @ sub @ r" by blast
next
  assume "\<exists>a r. s = a @ sub @ r"
  then obtain a r where s: "s = a @ sub @ r" by blast
  then have "HasPrefix (drop (length a) s) sub" "length a \<in> set [0..<Suc (length s)]"
    by (auto simp: HasPrefix_def)
  then show "contains_text s sub" unfolding contains_text_def list_ex_iff by blast
qed

lemma contains_text_length: "contains_text s sub \<Longrightarrow> length sub \<le> length s"
  by (auto simp: contains_text_iff)

lemma TrimSuffix_append [simp]: "TrimSuffix (r @ p) p = r"
  by (simp add: TrimSuffix_def HasSuffix_def)

lemma TrimPrefix_append [simp]: "TrimPrefix (p @ r) p = r"
  by (simp add: TrimPrefix_def HasPrefix_def)

end
