(* ===== verification/Clock.thy ===== *)
theory Clock
  imports Domain GoStrings
begin

text \<open>
  Instants as text: the proleptic Gregorian calendar and the layouts of Go's
  \<^verbatim>\<open>time.Format\<close> that the pages use. An instant counts microseconds from the beginning of 1970
  in UTC; the offset of the process's zone (\<^verbatim>\<open>time.Local\<close>) at an instant is a parameter. The
  calendar is computed as Go's \<^verbatim>\<open>time\<close> package does, by cycles of 400, 100, 4 and 1 years.
\<close>

section \<open>The calendar\<close>

definition leap_year :: "int \<Rightarrow> bool" where
  "leap_year y \<longleftrightarrow> y mod 4 = 0 \<and> (y mod 100 \<noteq> 0 \<or> y mod 400 = 0)"

definition days_before :: "nat list" where
  "days_before = [0, 31, 59, 90, 120, 151, 181, 212, 243, 273, 304, 334, 365]"

text \<open>Month and day of a day of the year, both counted from 1.\<close>

definition month_day :: "bool \<Rightarrow> nat \<Rightarrow> nat \<times> nat" where
  "month_day leap yday =
     (if leap \<and> yday = 59 then (2, 29)
      else let d = (if leap \<and> 59 < yday then yday - 1 else yday); m = d div 31
           in if days_before ! (m + 1) \<le> d then (m + 2, d - days_before ! (m + 1) + 1)
              else (m + 1, d - days_before ! m + 1))"

record calendar_date =
  cd_Year :: int
  cd_Month :: nat
  cd_Day :: nat

text \<open>\<open>epoch_days\<close>: from 1 January of the year 1 to 1 January 1970.\<close>

definition epoch_days :: int where "epoch_days = 719162"

definition civil :: "int \<Rightarrow> calendar_date" where
  "civil days =
     (let d0 = days + epoch_days;
          n400 = d0 div 146097; d1 = d0 mod 146097;
          n100 = min 3 (d1 div 36524); d2 = d1 - 36524 * n100;
          n4 = d2 div 1461; d3 = d2 mod 1461;
          n1 = min 3 (d3 div 365); yday = nat (d3 - 365 * n1);
          y = 400 * n400 + 100 * n100 + 4 * n4 + n1 + 1;
          md = month_day (leap_year y) yday
      in \<lparr>cd_Year = y, cd_Month = fst md, cd_Day = snd md\<rparr>)"

text \<open>The day number of a date, written independently of \<open>civil\<close>.\<close>

definition year_day :: "bool \<Rightarrow> nat \<Rightarrow> nat \<Rightarrow> nat" where
  "year_day leap m d = days_before ! (m - 1) + (if leap \<and> 2 < m then 1 else 0) + d - 1"

definition day_number :: "calendar_date \<Rightarrow> int" where
  "day_number c =
     (let y = cd_Year c - 1
      in 365 * y + y div 4 - y div 100 + y div 400
         + int (year_day (leap_year (cd_Year c)) (cd_Month c) (cd_Day c)) - epoch_days)"

text \<open>A day of a common year lies in the month that its 31-day bucket suggests, or in the next.\<close>

definition bucket_ok :: "nat \<Rightarrow> bool" where
  "bucket_ok d \<longleftrightarrow> (let m = d div 31; k = (if days_before ! (m + 1) \<le> d then m + 1 else m)
     in k < 12 \<and> days_before ! k \<le> d \<and> (2 \<le> k \<longleftrightarrow> 59 \<le> d))"

lemma bucket:
  assumes "d < 365"
  shows "bucket_ok d"
proof -
  define m where "m = d div 31"
  have m: "31 * m \<le> d" "d < 31 * m + 31"
    unfolding m_def by (simp_all add: times_div_less_eq_dividend dividend_less_times_div)
  with assms have "m < 12" by linarith
  then have "m = 0 \<or> m = 1 \<or> m = 2 \<or> m = 3 \<or> m = 4 \<or> m = 5 \<or> m = 6 \<or> m = 7 \<or> m = 8
    \<or> m = 9 \<or> m = 10 \<or> m = 11" by presburger
  then consider "m = 0" | "m = 1" | "m = 2" | "m = 3" | "m = 4" | "m = 5" | "m = 6" | "m = 7" | "m = 8"
    | "m = 9" | "m = 10" | "m = 11" by blast
  then show ?thesis
    using m assms unfolding bucket_ok_def m_def [symmetric] Let_def
    by cases (simp_all add: days_before_def)
qed

lemma month_day_bucket:
  assumes "bucket_ok d" and "d = (if leap \<and> 59 < yday then yday - 1 else yday)"
  shows "year_day leap (fst (month_day leap yday)) (snd (month_day leap yday)) = yday \<and>
    fst (month_day leap yday) \<in> {1..12} \<and> 1 \<le> snd (month_day leap yday)"
proof (cases "leap \<and> yday = 59")
  case True
  then show ?thesis by (simp add: month_day_def year_day_def days_before_def)
next
  case False
  define k where "k = (if days_before ! (d div 31 + 1) \<le> d then d div 31 + 1 else d div 31)"
  have k: "k < 12" "days_before ! k \<le> d" "2 \<le> k \<longleftrightarrow> 59 \<le> d"
    using assms(1) unfolding bucket_ok_def k_def Let_def by blast+
  have md: "month_day leap yday = (k + 1, d - days_before ! k + 1)"
    using False unfolding month_day_def assms(2) [symmetric] Let_def k_def by auto
  have "leap \<and> 59 \<le> d \<longleftrightarrow> leap \<and> 59 < yday"
    using assms(2) False by auto
  then show ?thesis
    unfolding md year_day_def using k assms(2) by auto
qed

lemma month_day_ok:
  assumes "yday < 365 \<or> leap \<and> yday = 365"
  shows "year_day leap (fst (month_day leap yday)) (snd (month_day leap yday)) = yday"
    and "fst (month_day leap yday) \<in> {1..12}" "1 \<le> snd (month_day leap yday)"
proof -
  have "(if leap \<and> 59 < yday then yday - 1 else yday) < 365" using assms by auto
  from month_day_bucket [OF bucket [OF this] refl]
  show "year_day leap (fst (month_day leap yday)) (snd (month_day leap yday)) = yday"
    "fst (month_day leap yday) \<in> {1..12}" "1 \<le> snd (month_day leap yday)" by blast+
qed

text \<open>The years counted by cycles.\<close>

lemma cycles:
  fixes a b c e :: int
  assumes "0 \<le> b" "b \<le> 3" "0 \<le> c" "c \<le> 24" "0 \<le> e" "e \<le> 3"
  defines "y \<equiv> 400 * a + 100 * b + 4 * c + e"
  shows "y div 4 = 100 * a + 25 * b + c" "y div 100 = 4 * a + b" "y div 400 = a"
    and "leap_year (y + 1) \<longleftrightarrow> e = 3 \<and> (c \<noteq> 24 \<or> b = 3)"
proof -
  have y: "y = 4 * (100 * a + 25 * b + c) + e" "y = 100 * (4 * a + b) + (4 * c + e)"
    "y = 400 * a + (100 * b + 4 * c + e)"
    by (simp_all add: y_def)
  show "y div 4 = 100 * a + 25 * b + c" "y div 100 = 4 * a + b" "y div 400 = a"
    using assms by (auto intro!: int_div_pos_eq [OF y(1)] int_div_pos_eq [OF y(2)] int_div_pos_eq [OF y(3)])
  have "(y + 1) mod 4 = (if e = 3 then 0 else e + 1)"
    using assms by (auto intro!: int_mod_pos_eq [of _ 4 "100 * a + 25 * b + c + (if e = 3 then 1 else 0)"])
  moreover have "(y + 1) mod 100 = (if c = 24 \<and> e = 3 then 0 else 4 * c + e + 1)"
    using assms by (auto intro!: int_mod_pos_eq [of _ 100 "4 * a + b + (if c = 24 \<and> e = 3 then 1 else 0)"])
  moreover have "(y + 1) mod 400 = (if b = 3 \<and> c = 24 \<and> e = 3 then 0 else 100 * b + 4 * c + e + 1)"
    using assms by (auto intro!: int_mod_pos_eq [of _ 400 "a + (if b = 3 \<and> c = 24 \<and> e = 3 then 1 else 0)"])
  ultimately show "leap_year (y + 1) \<longleftrightarrow> e = 3 \<and> (c \<noteq> 24 \<or> b = 3)"
    using assms(1-6) by (auto simp: leap_year_def)
qed

text \<open>Quotient and remainder by a positive number, as linear facts.\<close>

lemma div_facts:
  fixes n k :: int
  assumes "0 < k"
  shows "n = k * (n div k) + n mod k" "0 \<le> n mod k" "n mod k < k"
  using assms by simp_all

lemma civil_parts:
  fixes d1 :: int
  assumes "0 \<le> d1" "d1 < 146097"
  defines "n100 \<equiv> min 3 (d1 div 36524)"
  defines "d2 \<equiv> d1 - 36524 * n100"
  defines "n4 \<equiv> d2 div 1461"
  defines "d3 \<equiv> d2 mod 1461"
  defines "n1 \<equiv> min 3 (d3 div 365)"
  defines "yd \<equiv> d3 - 365 * n1"
  shows "0 \<le> n100" "n100 \<le> 3" "0 \<le> n4" "n4 \<le> 24" "0 \<le> n1" "n1 \<le> 3" "0 \<le> yd"
    and "d1 = 36524 * n100 + 1461 * n4 + 365 * n1 + yd"
    and "yd < 365 \<or> yd = 365 \<and> n1 = 3 \<and> (n4 \<noteq> 24 \<or> n100 = 3)"
proof -
  note q = div_facts [of 36524 d1, OF zero_less_numeral]
  show n100: "0 \<le> n100" "n100 \<le> 3"
    using assms(1) by (auto simp: n100_def pos_imp_zdiv_nonneg_iff)
  have d2: "0 \<le> d2" "d2 < 36525" "n100 < 3 \<Longrightarrow> d2 < 36524"
    using q assms(1,2) unfolding d2_def n100_def min_def by (auto split: if_splits)
  note r = div_facts [of 1461 d2, OF zero_less_numeral, folded n4_def d3_def]
  show n4: "0 \<le> n4" "n4 \<le> 24" using r d2 by linarith+
  note t = div_facts [of 365 d3, OF zero_less_numeral]
  show n1: "0 \<le> n1" "n1 \<le> 3"
    using r(2) by (auto simp: n1_def pos_imp_zdiv_nonneg_iff)
  show "0 \<le> yd" using t r unfolding yd_def n1_def min_def by (auto split: if_splits)
  show "d1 = 36524 * n100 + 1461 * n4 + 365 * n1 + yd"
    using r(1) by (simp add: yd_def d2_def)
  have "yd < 366" "n1 < 3 \<Longrightarrow> yd < 365"
    using t r unfolding yd_def n1_def min_def by (auto split: if_splits)
  moreover have "d3 < 1460" if "n4 = 24" "n100 < 3" using that d2 r(1) by linarith
  ultimately show "yd < 365 \<or> yd = 365 \<and> n1 = 3 \<and> (n4 \<noteq> 24 \<or> n100 = 3)"
    using n1 n4 n100 unfolding yd_def by linarith
qed

lemma day_number_civil: "day_number (civil days) = days"
  and civil_ranges: "cd_Month (civil days) \<in> {1..12}" "1 \<le> cd_Day (civil days)"
proof -
  define d0 where "d0 = days + epoch_days"
  define n400 where "n400 = d0 div 146097"
  define d1 where "d1 = d0 mod 146097"
  define n100 where "n100 = min 3 (d1 div 36524)"
  define d2 where "d2 = d1 - 36524 * n100"
  define n4 where "n4 = d2 div 1461"
  define d3 where "d3 = d2 mod 1461"
  define n1 where "n1 = min 3 (d3 div 365)"
  define yd where "yd = d3 - 365 * n1"
  have d1: "0 \<le> d1" "d1 < 146097" and d0: "d0 = 146097 * n400 + d1"
    by (simp_all add: d1_def n400_def)
  note parts = civil_parts [OF d1, folded n100_def, folded d2_def, folded n4_def d3_def, folded n1_def, folded yd_def]
  define y where "y = 400 * n400 + 100 * n100 + 4 * n4 + n1"
  note cyc = cycles [OF parts(1-6), of n400, folded y_def]
  have cv: "civil days = \<lparr>cd_Year = y + 1, cd_Month = fst (month_day (leap_year (y + 1)) (nat yd)),
      cd_Day = snd (month_day (leap_year (y + 1)) (nat yd))\<rparr>"
    unfolding civil_def Let_def y_def yd_def n1_def d3_def n4_def d2_def n100_def d1_def n400_def d0_def
    by (rule refl)
  have ok: "nat yd < 365 \<or> leap_year (y + 1) \<and> nat yd = 365"
    using parts(9) cyc(4) by auto
  have "day_number (civil days) = 365 * y + y div 4 - y div 100 + y div 400 + yd - epoch_days"
    using month_day_ok(1) [OF ok] parts(7) by (simp add: day_number_def cv Let_def)
  also have "\<dots> = days"
    using d0 parts(8) cyc(1-3) y_def d0_def by linarith
  finally show "day_number (civil days) = days" .
  show "cd_Month (civil days) \<in> {1..12}" "1 \<le> cd_Day (civil days)"
    using month_day_ok(2,3) [OF ok] by (simp_all add: cv)
qed

section \<open>Layouts\<close>

text \<open>
  The elements of a layout, as \<^verbatim>\<open>time.Format\<close> reads them off \<^verbatim>\<open>2\<close>, \<^verbatim>\<open>02\<close>, \<^verbatim>\<open>Jan\<close>, \<^verbatim>\<open>01\<close>,
  \<^verbatim>\<open>2006\<close>, \<^verbatim>\<open>15\<close>, \<^verbatim>\<open>3\<close>, \<^verbatim>\<open>04\<close>, \<^verbatim>\<open>PM\<close> and the text in between.
\<close>

datatype layout_item = Day | Day2 | MonthName | Month2 | Year4 | Hour24 | Hour12 | Minute2 | HalfDay | Text string

definition month_names :: "string list" where
  "month_names = [''Jan'', ''Feb'', ''Mar'', ''Apr'', ''May'', ''Jun'', ''Jul'', ''Aug'', ''Sep'', ''Oct'',
     ''Nov'', ''Dec'']"

definition pad2 :: "nat \<Rightarrow> string" where
  "pad2 n = [digit (n div 10), digit n]"

definition pad4 :: "int \<Rightarrow> string" where
  "pad4 y = (if 0 \<le> y \<and> y < 10000 then fmt04 (nat y) else itoa y)"

definition day_microseconds :: int where "day_microseconds = 86400000000"

fun layout_text :: "calendar_date \<Rightarrow> nat \<Rightarrow> layout_item \<Rightarrow> string" where
  "layout_text c minutes Day = itoa (int (cd_Day c))"
| "layout_text c minutes Day2 = pad2 (cd_Day c)"
| "layout_text c minutes MonthName = month_names ! (cd_Month c - 1)"
| "layout_text c minutes Month2 = pad2 (cd_Month c)"
| "layout_text c minutes Year4 = pad4 (cd_Year c)"
| "layout_text c minutes Hour24 = pad2 (minutes div 60)"
| "layout_text c minutes Hour12 =
     (let h = minutes div 60 mod 12 in itoa (int (if h = 0 then 12 else h)))"
| "layout_text c minutes Minute2 = pad2 (minutes mod 60)"
| "layout_text c minutes HalfDay = (if 12 * 60 \<le> minutes then ''PM'' else ''AM'')"
| "layout_text c minutes (Text s) = s"

definition time_Format :: "(time \<Rightarrow> int) \<Rightarrow> layout_item list \<Rightarrow> time \<Rightarrow> string" where
  "time_Format zone layout t =
     (let local = t + zone t;
          minutes = nat (local mod day_microseconds div 60000000);
          c = civil (local div day_microseconds)
      in concat (map (layout_text c minutes) layout))"

definition layout_date :: "layout_item list" where   \<comment> \<open>\<^verbatim>\<open>2 Jan 2006\<close>\<close>
  "layout_date = [Day, Text '' '', MonthName, Text '' '', Year4]"

definition layout_short :: "layout_item list" where  \<comment> \<open>\<^verbatim>\<open>2 Jan, 15:04\<close>\<close>
  "layout_short = [Day, Text '' '', MonthName, Text '', '', Hour24, Text '':'', Minute2]"

definition layout_clock :: "layout_item list" where  \<comment> \<open>\<^verbatim>\<open>3:04 PM\<close>\<close>
  "layout_clock = [Hour12, Text '':'', Minute2, Text '' '', HalfDay]"

definition layout_stamp :: "layout_item list" where  \<comment> \<open>\<^verbatim>\<open>2006-01-02 15:04\<close>\<close>
  "layout_stamp = [Year4, Text ''-'', Month2, Text ''-'', Day2, Text '' '', Hour24, Text '':'', Minute2]"

end
