(* ===== verification/TenantDB.thy ===== *)
theory TenantDB
  imports Domain
begin

text \<open>
  Database access as the code sees it (\<^verbatim>\<open>internal/tenantdb/tenantdb.go\<close>): actions that run
  statements one after the other, return a value or a Go error, and leave a world behind. A
  failed statement poisons its transaction, as PostgreSQL does: every later statement of the
  same transaction is refused with SQLSTATE 25P02 until it is rolled back. Row-level security
  (migration 0001) restricts what the application's role reads and writes to the rows of
  \<^verbatim>\<open>app.current_plant_id\<close>; the administrator's role bypasses it. What the code cannot
  decide - random draws, generated identifiers, the clock, statements that fail because the
  server or the connection does - is an argument of the model, the record \<open>env\<close>, so that
  every theorem holds for all of it.
\<close>

section \<open>Go errors\<close>

text \<open>
  The error values the code passes around: pgx's \<^verbatim>\<open>ErrNoRows\<close>, a server error with its
  SQLSTATE, any other driver failure, a failing random source, a package's sentinel
  (\<^verbatim>\<open>var Err... = errors.New\<close>, compared by identity), an error made on the spot, and
  \<^verbatim>\<open>fmt.Errorf\<close> with \<^verbatim>\<open>%w\<close>.
\<close>

datatype go_err =
    ErrNoRows
  | PgError string
  | DriverErr
  | RandErr
  | Sentinel string
  | ErrorString string
  | Wrap string go_err

fun errors_is :: "go_err \<Rightarrow> go_err \<Rightarrow> bool" where
  "errors_is (Wrap m e) t = (Wrap m e = t \<or> errors_is e t)"
| "errors_is e t = (e = t)"

fun isUniqueViolation :: "go_err \<Rightarrow> bool" where
  "isUniqueViolation (PgError code) = (code = ''23505'')"
| "isUniqueViolation (Wrap m e) = isUniqueViolation e"
| "isUniqueViolation e = False"

section \<open>Worlds\<close>

datatype fault =
    Fine            \<comment> \<open>the request reached the server and came back\<close>
  | Broken          \<comment> \<open>it failed without an effect\<close>
  | BrokenApplied   \<comment> \<open>it took effect, but its acknowledgement was lost\<close>

record env =
  e_fault :: "nat \<Rightarrow> fault"           \<comment> \<open>what happens to the n-th request\<close>
  e_uuid :: "nat \<Rightarrow> uuid"             \<comment> \<open>\<^verbatim>\<open>gen_random_uuid()\<close>\<close>
  e_rand :: "nat \<Rightarrow> nat option"       \<comment> \<open>\<^verbatim>\<open>crypto/rand\<close>, \<open>None\<close> when the source fails\<close>
  e_wall :: "nat \<Rightarrow> time"             \<comment> \<open>\<^verbatim>\<open>time.Now()\<close>\<close>
  e_uuid_str :: "uuid \<Rightarrow> string"      \<comment> \<open>\<^verbatim>\<open>uuid.UUID.String\<close>\<close>
  e_uuid_parse :: "string \<Rightarrow> uuid option"   \<comment> \<open>\<^verbatim>\<open>uuid.Parse\<close>\<close>
  e_upper :: "string \<Rightarrow> string"       \<comment> \<open>\<^verbatim>\<open>unicode.ToUpper\<close> beyond ASCII\<close>
  e_zone :: "time \<Rightarrow> int"             \<comment> \<open>offset of \<^verbatim>\<open>time.Local\<close> at an instant\<close>
  e_days_ago :: "int \<Rightarrow> time \<Rightarrow> time"  \<comment> \<open>\<^verbatim>\<open>t - interval 'n days'\<close>, likewise\<close>
  e_day_start :: "time \<Rightarrow> time"       \<comment> \<open>\<^verbatim>\<open>date_trunc('day', t)\<close> in the session's zone\<close>

datatype role =
    AdminRole                     \<comment> \<open>gatstogo_admin, BYPASSRLS\<close>
  | AppRole "uuid option"         \<comment> \<open>gatstogo_app with app.current_plant_id, if set\<close>

record world =
  w_db :: db
  w_role :: role
  w_aborted :: bool
  w_now :: time                   \<comment> \<open>\<^verbatim>\<open>now()\<close>, the transaction's timestamp\<close>
  w_tick :: nat
  w_files :: "string \<rightharpoonup> string"              \<comment> \<open>the files under the upload directory\<close>
  w_banks :: "Bank list \<times> time"              \<comment> \<open>the Paystack client's cached list of banks\<close>
  w_env :: env

text \<open>
  An action on a state \<open>'s\<close>: most work on \<open>world\<close>, the handlers that also use Redis on a
  world paired with the state of the Redis server.
\<close>

type_synonym ('s, 'a) sact = "'s \<Rightarrow> (go_err + 'a) \<times> 's"
type_synonym 'a act = "(world, 'a) sact"

section \<open>Sequencing\<close>

definition ret :: "'a \<Rightarrow> ('s, 'a) sact" where
  "ret a w = (Inr a, w)"

definition fail :: "go_err \<Rightarrow> ('s, 'a) sact" where
  "fail e w = (Inl e, w)"

definition bind :: "('s, 'a) sact \<Rightarrow> ('a \<Rightarrow> ('s, 'b) sact) \<Rightarrow> ('s, 'b) sact" where
  "bind m f w = (case m w of (Inl e, w') \<Rightarrow> (Inl e, w') | (Inr a, w') \<Rightarrow> f a w')"

text \<open>
  \<open>attempt\<close> hands the error to the code instead of returning it: the \<^verbatim>\<open>if err != nil\<close>
  blocks that do something other than \<^verbatim>\<open>return err\<close>.
\<close>

definition attempt :: "('s, 'a) sact \<Rightarrow> ('s, go_err + 'a) sact" where
  "attempt m w = (case m w of (r, w') \<Rightarrow> (Inr r, w'))"

definition ask_env :: "env act" where
  "ask_env w = (Inr (w_env w), w)"

definition rand_int :: "nat \<Rightarrow> nat act" where
  "rand_int n w =
     (let w' = w\<lparr>w_tick := Suc (w_tick w)\<rparr> in
      case e_rand (w_env w) (w_tick w) of None \<Rightarrow> (Inl RandErr, w') | Some k \<Rightarrow> (Inr (k mod n), w'))"

text \<open>\<^verbatim>\<open>rand.Read\<close> into \<open>n\<close> bytes: the draw is read off as \<open>n\<close> base-256 digits.\<close>

fun bytes_of :: "nat \<Rightarrow> nat \<Rightarrow> nat list" where
  "bytes_of 0 k = []"
| "bytes_of (Suc n) k = (k mod 256) # bytes_of n (k div 256)"

definition rand_bytes :: "nat \<Rightarrow> nat list act" where
  "rand_bytes n w =
     (let w' = w\<lparr>w_tick := Suc (w_tick w)\<rparr> in
      case e_rand (w_env w) (w_tick w) of None \<Rightarrow> (Inl RandErr, w') | Some k \<Rightarrow> (Inr (bytes_of n k), w'))"

definition time_Now :: "time act" where
  "time_Now w = (Inr (e_wall (w_env w) (w_tick w)), w\<lparr>w_tick := Suc (w_tick w)\<rparr>)"

section \<open>Tables and row-level security\<close>

record 'r tab =
  t_rows :: "db \<Rightarrow> 'r list"
  t_put :: "'r list \<Rightarrow> db \<Rightarrow> db"
  t_plant :: "'r \<Rightarrow> uuid option"
  t_viol :: "db \<Rightarrow> string option"     \<comment> \<open>SQLSTATE of a constraint the table breaks\<close>
  t_touch :: "time \<Rightarrow> 'r \<Rightarrow> 'r"        \<comment> \<open>the \<^verbatim>\<open>set_updated_at\<close> trigger\<close>

definition visible :: "role \<Rightarrow> uuid option \<Rightarrow> bool" where
  "visible r p = (case r of AdminRole \<Rightarrow> True
                  | AppRole None \<Rightarrow> False
                  | AppRole (Some q) \<Rightarrow> p = Some q)"

lemma visible_simps [simp]:
  "visible AdminRole p"
  "\<not> visible (AppRole None) p"
  "visible (AppRole (Some q)) p \<longleftrightarrow> p = Some q"
  by (simp_all add: visible_def)

text \<open>The rows of the tenant tables whose plant satisfies a condition.\<close>

definition restrict_db :: "(uuid option \<Rightarrow> bool) \<Rightarrow> db \<Rightarrow> db" where
  "restrict_db V d = d\<lparr>
     db_plants := filter (\<lambda>x. V (Some (pl_ID x))) (db_plants d),
     db_users := filter (\<lambda>x. V (Some (us_PlantID x))) (db_users d),
     db_prices := filter (\<lambda>x. V (Some (pr_PlantID x))) (db_prices d),
     db_shifts := filter (\<lambda>x. V (Some (sh_PlantID x))) (db_shifts d),
     db_tickets := filter (\<lambda>x. V (Some (tk_PlantID x))) (db_tickets d),
     db_cash := filter (\<lambda>x. V (Some (cm_PlantID x))) (db_cash d),
     db_log := filter (\<lambda>x. V (al_PlantID x)) (db_log d),
     db_pumps := filter (\<lambda>x. V (Some (pu_PlantID x))) (db_pumps d),
     db_hours := filter (\<lambda>x. V (Some (ph_PlantID x))) (db_hours d),
     db_reviews := filter (\<lambda>x. V (Some (rv_PlantID x))) (db_reviews d)\<rparr>"

text \<open>The database as a role sees it: what every \<^verbatim>\<open>SELECT\<close> reads.\<close>

definition visible_db :: "role \<Rightarrow> db \<Rightarrow> db" where
  "visible_db r d = restrict_db (visible r) d"

section \<open>Statements\<close>

definition exec_stmt :: "(world \<Rightarrow> string + ('a \<times> db)) \<Rightarrow> 'a act" where
  "exec_stmt f w =
     (let w' = w\<lparr>w_tick := Suc (w_tick w)\<rparr> in
      if w_aborted w then (Inl (PgError ''25P02''), w')
      else if e_fault (w_env w) (w_tick w) \<noteq> Fine then (Inl DriverErr, w'\<lparr>w_aborted := True\<rparr>)
      else case f w of
             Inl code \<Rightarrow> (Inl (PgError code), w'\<lparr>w_aborted := True\<rparr>)
           | Inr (a, d) \<Rightarrow> (Inr a, w'\<lparr>w_db := d\<rparr>))"

definition query :: "(db \<Rightarrow> 'a) \<Rightarrow> 'a act" where
  "query f = exec_stmt (\<lambda>w. Inr (f (visible_db (w_role w) (w_db w)), w_db w))"

text \<open>A \<^verbatim>\<open>SELECT\<close> that mentions \<^verbatim>\<open>now()\<close>.\<close>

definition query_at :: "(env \<Rightarrow> time \<Rightarrow> db \<Rightarrow> 'a) \<Rightarrow> 'a act" where
  "query_at f = exec_stmt (\<lambda>w. Inr (f (w_env w) (w_now w) (visible_db (w_role w) (w_db w)), w_db w))"

text \<open>\<^verbatim>\<open>QueryRow\<close> and \<^verbatim>\<open>Scan\<close>: no row is the error \<^verbatim>\<open>pgx.ErrNoRows\<close>, and aborts nothing.\<close>

definition query_row :: "(db \<Rightarrow> 'a option) \<Rightarrow> 'a act" where
  "query_row f = bind (query f) (\<lambda>r. case r of None \<Rightarrow> fail ErrNoRows | Some a \<Rightarrow> ret a)"

definition checked :: "'r tab \<Rightarrow> 'a \<Rightarrow> db \<Rightarrow> string + ('a \<times> db)" where
  "checked T a d = (case t_viol T d of Some code \<Rightarrow> Inl code | None \<Rightarrow> Inr (a, d))"

text \<open>
  \<^verbatim>\<open>UPDATE T SET f WHERE P\<close>: only the rows that the role sees are candidates, the trigger
  touches the changed rows, and the table's constraints are checked on the result. The value
  is what \<^verbatim>\<open>RETURNING *\<close> would be, the changed rows; its length is \<^verbatim>\<open>RowsAffected\<close>.
\<close>

definition exec_update :: "'r tab \<Rightarrow> ('r \<Rightarrow> bool) \<Rightarrow> (time \<Rightarrow> 'r \<Rightarrow> 'r) \<Rightarrow> 'r list act" where
  "exec_update T P f = exec_stmt (\<lambda>w.
     let Q = (\<lambda>r. visible (w_role w) (t_plant T r) \<and> P r);
         g = (\<lambda>r. t_touch T (w_now w) (f (w_now w) r))
     in checked T (map g (filter Q (t_rows T (w_db w))))
          (t_put T (upd_where Q g (t_rows T (w_db w))) (w_db w)))"

text \<open>
  \<^verbatim>\<open>INSERT INTO T ... RETURNING *\<close>. The isolation policies have no \<^verbatim>\<open>WITH CHECK\<close> of
  their own, so their condition is also checked on a new row (SQLSTATE 42501).
\<close>

definition exec_insert :: "'r tab \<Rightarrow> (time \<Rightarrow> uuid \<Rightarrow> 'r) \<Rightarrow> 'r act" where
  "exec_insert T mk = exec_stmt (\<lambda>w.
     let r = mk (w_now w) (e_uuid (w_env w) (w_tick w))
     in if visible (w_role w) (t_plant T r)
        then checked T r (t_put T (t_rows T (w_db w) @ [r]) (w_db w))
        else Inl ''42501'')"

text \<open>
  \<^verbatim>\<open>INSERT ... SELECT ... WHERE\<close> and \<^verbatim>\<open>INSERT ... ON CONFLICT DO NOTHING\<close>: the row is
  inserted only under a condition on what the role sees, on the whole database and on the row;
  the value is the row, if there is one.
\<close>

definition exec_insert_when ::
  "'r tab \<Rightarrow> (db \<Rightarrow> db \<Rightarrow> 'r \<Rightarrow> bool) \<Rightarrow> (time \<Rightarrow> uuid \<Rightarrow> 'r) \<Rightarrow> 'r option act" where
  "exec_insert_when T C mk = exec_stmt (\<lambda>w.
     let r = mk (w_now w) (e_uuid (w_env w) (w_tick w))
     in if \<not> C (visible_db (w_role w) (w_db w)) (w_db w) r then Inr (None, w_db w)
        else if visible (w_role w) (t_plant T r)
        then checked T (Some r) (t_put T (t_rows T (w_db w) @ [r]) (w_db w))
        else Inl ''42501'')"

text \<open>
  \<^verbatim>\<open>INSERT ... ON CONFLICT (key) DO UPDATE\<close>: a row with the key of the new one is changed
  instead, provided that the role may write it.
\<close>

definition exec_upsert ::
  "'r tab \<Rightarrow> ('r \<Rightarrow> 'k) \<Rightarrow> (time \<Rightarrow> uuid \<Rightarrow> 'r) \<Rightarrow> ('r \<Rightarrow> 'r) \<Rightarrow> 'r act" where
  "exec_upsert T key mk f = exec_stmt (\<lambda>w.
     let r = mk (w_now w) (e_uuid (w_env w) (w_tick w));
         g = (\<lambda>x. t_touch T (w_now w) (f x))
     in if \<not> visible (w_role w) (t_plant T r) then Inl ''42501''
        else if \<exists>x \<in> set (t_rows T (w_db w)). key x = key r
        then if \<forall>x \<in> set (t_rows T (w_db w)). key x = key r \<longrightarrow> visible (w_role w) (t_plant T x)
             then checked T r (t_put T (upd_where (\<lambda>x. visible (w_role w) (t_plant T x) \<and> key x = key r) g
                    (t_rows T (w_db w))) (w_db w))
             else Inl ''42501''
        else checked T r (t_put T (t_rows T (w_db w) @ [r]) (w_db w)))"

definition exec_delete :: "'r tab \<Rightarrow> ('r \<Rightarrow> bool) \<Rightarrow> nat act" where
  "exec_delete T P = exec_stmt (\<lambda>w.
     let Q = (\<lambda>r. visible (w_role w) (t_plant T r) \<and> P r)
     in checked T (count_where Q (t_rows T (w_db w)))
          (t_put T (filter (\<lambda>r. \<not> Q r) (t_rows T (w_db w))) (w_db w)))"

section \<open>Transactions\<close>

text \<open>
  \<^verbatim>\<open>WithTenant\<close>: acquire a connection, begin, scope the transaction to the plant with
  \<^verbatim>\<open>set_config(..., true)\<close>, run the body, commit. Any error of the body, of the scoping
  statement or of the commit rolls back. A commit whose acknowledgement is lost has taken
  effect although an error is returned; a commit of a poisoned transaction is a rollback that
  pgx reports as an error.
\<close>

definition request :: "go_err \<Rightarrow> unit act" where
  "request e w =
     (let w' = w\<lparr>w_tick := Suc (w_tick w)\<rparr> in
      if e_fault (w_env w) (w_tick w) = Fine then (Inr (), w') else (Inl e, w'))"

definition rollback :: "world \<Rightarrow> world \<Rightarrow> world" where
  "rollback w0 w = w\<lparr>w_db := w_db w0, w_role := w_role w0, w_aborted := w_aborted w0, w_now := w_now w0\<rparr>"

definition commit :: "world \<Rightarrow> world \<Rightarrow> (go_err + unit) \<times> world" where
  "commit w0 w =
     (let done = w\<lparr>w_role := w_role w0, w_aborted := w_aborted w0, w_now := w_now w0,
                   w_tick := Suc (w_tick w)\<rparr>
      in if w_aborted w then (Inl DriverErr, rollback w0 done)
         else case e_fault (w_env w) (w_tick w) of
                Fine \<Rightarrow> (Inr (), done)
              | Broken \<Rightarrow> (Inl DriverErr, rollback w0 done)
              | BrokenApplied \<Rightarrow> (Inl DriverErr, done))"

definition in_tx :: "role \<Rightarrow> world \<Rightarrow> world" where
  "in_tx r w = w\<lparr>w_role := r, w_aborted := False, w_now := e_wall (w_env w) (w_tick w)\<rparr>"

definition WithTenant :: "uuid \<Rightarrow> 'a act \<Rightarrow> 'a act" where
  "WithTenant plantID fn w0 =
     (case request (Wrap ''tenantdb: acquire connection'' DriverErr) w0 of
        (Inl e, w) \<Rightarrow> (Inl e, w)
      | (Inr _, w) \<Rightarrow>
     (case request (Wrap ''tenantdb: begin transaction'' DriverErr) w of
        (Inl e, w) \<Rightarrow> (Inl e, w)
      | (Inr _, w) \<Rightarrow>
     (case exec_stmt (\<lambda>v. Inr ((), w_db v)) (in_tx (AppRole None) w) of
        (Inl e, w1) \<Rightarrow> (Inl (Wrap ''tenantdb: set tenant scope'' e), rollback w0 w1)
      | (Inr _, w1) \<Rightarrow>
     (case fn (w1\<lparr>w_role := AppRole (Some plantID)\<rparr>) of
        (Inl e, w2) \<Rightarrow> (Inl e, rollback w0 w2)
      | (Inr a, w2) \<Rightarrow>
     (case commit w0 w2 of
        (Inl e, w3) \<Rightarrow> (Inl (Wrap ''tenantdb: commit'' e), w3)
      | (Inr _, w3) \<Rightarrow> (Inr a, w3))))))"

text \<open>
  \<^verbatim>\<open>adminDB.Begin ... tx.Commit\<close>, with the deferred rollback: the same on the pool of the
  role that bypasses row-level security, with no tenant to scope to.
\<close>

definition with_admin_tx :: "'a act \<Rightarrow> 'a act" where
  "with_admin_tx fn w0 =
     (case request DriverErr w0 of
        (Inl e, w) \<Rightarrow> (Inl e, w)
      | (Inr _, w) \<Rightarrow>
     (case fn (in_tx AdminRole w) of
        (Inl e, w2) \<Rightarrow> (Inl e, rollback w0 w2)
      | (Inr a, w2) \<Rightarrow>
     (case commit w0 w2 of
        (Inl e, w3) \<Rightarrow> (Inl e, w3)
      | (Inr _, w3) \<Rightarrow> (Inr a, w3))))"

text \<open>
  One statement run on the administrator's pool itself, its own transaction. The code only reads
  this way, so that an answer that is lost is the same as a request that fails.
\<close>

definition on_admin_pool :: "'a act \<Rightarrow> 'a act" where
  "on_admin_pool m w0 =
     (case m (in_tx AdminRole w0) of
        (r, w) \<Rightarrow> (r, w\<lparr>w_role := w_role w0, w_aborted := w_aborted w0, w_now := w_now w0\<rparr>))"

end
