(* ===== verification/Schema.thy ===== *)
theory Schema
  imports TenantDB
begin

text \<open>
  The tables as the migrations declare them: for each, how its rows are read and replaced, the
  tenant a row belongs to, the constraints that a statement is checked against (with the
  SQLSTATE the server answers: 23514 check, 23505 unique, 23503 foreign key, 22003 out of the
  column's range) and the \<^verbatim>\<open>updated_at\<close> trigger. The locale \<open>tenant_table\<close> is the contract
  between a table and row-level security; every table of the schema is an instance of it.
\<close>

section \<open>Constraints\<close>

definition first_violation :: "(bool \<times> string) list \<Rightarrow> string option" where
  "first_violation cs = map_option snd (List.find fst cs)"

lemma first_violation_simps [simp]:
  "first_violation [] = None"
  "first_violation ((b, c) # cs) = (if b then Some c else first_violation cs)"
  by (simp_all add: first_violation_def)

definition int4 :: "int \<Rightarrow> bool" where
  "int4 n \<longleftrightarrow> - (2 ^ 31) \<le> n \<and> n < 2 ^ 31"

definition fk :: "uuid list \<Rightarrow> uuid option \<Rightarrow> bool" where
  "fk ids x = (case x of None \<Rightarrow> True | Some i \<Rightarrow> i \<in> set ids)"

lemma fk_simps [simp]: "fk ids None" "fk ids (Some i) \<longleftrightarrow> i \<in> set ids"
  by (simp_all add: fk_def)

definition plant_ids :: "db \<Rightarrow> uuid list" where "plant_ids d = map pl_ID (db_plants d)"
definition user_ids :: "db \<Rightarrow> uuid list" where "user_ids d = map us_ID (db_users d)"
definition shift_ids :: "db \<Rightarrow> uuid list" where "shift_ids d = map sh_ID (db_shifts d)"
definition ticket_ids :: "db \<Rightarrow> uuid list" where "ticket_ids d = map tk_ID (db_tickets d)"
definition pump_ids :: "db \<Rightarrow> uuid list" where "pump_ids d = map pu_ID (db_pumps d)"
definition price_ids :: "db \<Rightarrow> uuid list" where "price_ids d = map pr_ID (db_prices d)"

lemmas id_list_defs = plant_ids_def user_ids_def shift_ids_def ticket_ids_def pump_ids_def
  price_ids_def

definition plants_viol :: "db \<Rightarrow> string option" where
  "plants_viol d = first_violation
     [(\<exists>p \<in> set (db_plants d). pl_Status p \<notin> {''provisioning'', ''active'', ''suspended'', ''closed''}, ''23514''),
      (\<exists>p \<in> set (db_plants d). pl_DomainStatus p \<notin> {''none'', ''pending'', ''active'', ''broken''}, ''23514''),
      (\<exists>p \<in> set (db_plants d). case pl_FoundingRank p of None \<Rightarrow> False | Some r \<Rightarrow> r < 1 \<or> 50 < r, ''23514''),
      (\<not> distinct (map pl_ID (db_plants d)), ''23505''),
      (\<not> distinct (map pl_Slug (db_plants d)), ''23505''),
      (\<not> distinct (List.map_filter pl_CustomDomain (db_plants d)), ''23505''),
      (\<not> distinct (List.map_filter pl_FoundingRank (db_plants d)), ''23505'')]"

definition users_viol :: "db \<Rightarrow> string option" where
  "users_viol d = first_violation
     [(\<exists>u \<in> set (db_users d). us_Role u \<notin> {''owner'', ''manager'', ''cashier'', ''operator'', ''admin''}, ''23514''),
      (\<not> distinct (map us_ID (db_users d)), ''23505''),
      (\<not> distinct (map (\<lambda>u. (us_PlantID u, us_Phone u)) (db_users d)), ''23505''),
      (\<exists>u \<in> set (db_users d). us_PlantID u \<notin> set (plant_ids d), ''23503'')]"

definition prices_viol :: "db \<Rightarrow> string option" where
  "prices_viol d = first_violation
     [(\<exists>p \<in> set (db_prices d). pr_PricePerKg p \<le> 0, ''23514''),
      (\<not> distinct (map pr_ID (db_prices d)), ''23505''),
      (\<exists>p \<in> set (db_prices d). pr_PlantID p \<notin> set (plant_ids d), ''23503''),
      (\<exists>p \<in> set (db_prices d). \<not> fk (user_ids d) (pr_SetBy p), ''23503'')]"

definition open_shifts :: "shift list \<Rightarrow> shift list" where
  "open_shifts ss = filter (\<lambda>s. sh_ClosedAt s = None) ss"

definition shifts_viol :: "db \<Rightarrow> string option" where
  "shifts_viol d = first_violation
     [(\<exists>s \<in> set (db_shifts d). \<not> int4 (sh_TokensIssued s), ''22003''),
      (\<exists>s \<in> set (db_shifts d). case sh_TokensReturned s of None \<Rightarrow> False | Some n \<Rightarrow> \<not> int4 n, ''22003''),
      (\<not> distinct (map sh_ID (db_shifts d)), ''23505''),
      (\<not> distinct (map (\<lambda>s. (sh_PlantID s, sh_UserID s)) (open_shifts (db_shifts d))), ''23505''),
      (\<exists>s \<in> set (db_shifts d). sh_PlantID s \<notin> set (plant_ids d) \<or> sh_UserID s \<notin> set (user_ids d), ''23503''),
      (\<exists>s \<in> set (db_shifts d). \<not> fk (pump_ids d) (sh_PumpID s), ''23503'')]"

text \<open>The partial unique index \<^verbatim>\<open>idx_tickets_open_code\<close>, as migration 0007 recreates it.\<close>

definition open_code :: "ticket \<Rightarrow> bool" where
  "open_code t \<longleftrightarrow> tk_Status t \<in> {Pending, Paid, Dispensing}"

definition code_keys :: "ticket list \<Rightarrow> (uuid \<times> string) list" where
  "code_keys ts = map (\<lambda>t. (tk_PlantID t, tk_Code t)) (filter open_code ts)"

definition ticket_check :: "ticket \<Rightarrow> bool" where
  "ticket_check t \<longleftrightarrow> 0 < tk_SizeGrams t \<and>
     tk_Channel t \<in> {''transfer'', ''terminal'', ''ussd'', ''cash''}"

definition ticket_fks :: "db \<Rightarrow> ticket \<Rightarrow> bool" where
  "ticket_fks d t \<longleftrightarrow> tk_PlantID t \<in> set (plant_ids d) \<and>
     fk (price_ids d) (tk_PriceID t) \<and>
     fk (shift_ids d) (tk_FilledShiftID t) \<and> fk (shift_ids d) (tk_ShiftID t) \<and>
     fk (user_ids d) (tk_SoldBy t) \<and> fk (user_ids d) (tk_VoidedBy t) \<and>
     fk (user_ids d) (tk_DispensingStartedBy t) \<and> fk (user_ids d) (tk_ClosedBy t) \<and>
     fk (pump_ids d) (tk_PumpID t)"

definition ticket_ranges :: "ticket \<Rightarrow> bool" where
  "ticket_ranges t \<longleftrightarrow> int4 (tk_SizeGrams t) \<and> pred_option int4 (tk_NetGrams t) \<and>
     pred_option int4 (tk_EmptyWeightGrams t) \<and> pred_option int4 (tk_FilledWeightGrams t)"

definition tickets_viol :: "db \<Rightarrow> string option" where
  "tickets_viol d = first_violation
     [(\<exists>t \<in> set (db_tickets d). \<not> ticket_ranges t, ''22003''),
      (\<exists>t \<in> set (db_tickets d). \<not> ticket_check t, ''23514''),
      (\<not> distinct (map tk_ID (db_tickets d)), ''23505''),
      (\<not> distinct (map (\<lambda>t. (tk_PlantID t, tk_Reference t)) (db_tickets d)), ''23505''),
      (\<not> distinct (code_keys (db_tickets d)), ''23505''),
      (\<exists>t \<in> set (db_tickets d). \<not> ticket_fks d t, ''23503'')]"

definition cash_viol :: "db \<Rightarrow> string option" where
  "cash_viol d = first_violation
     [(\<exists>c \<in> set (db_cash d). cm_Kind c \<notin> {''opening_float'', ''sale'', ''deposit'', ''payout'', ''count'', ''closing''}, ''23514''),
      (\<not> distinct (map cm_ID (db_cash d)), ''23505''),
      (\<exists>c \<in> set (db_cash d). cm_PlantID c \<notin> set (plant_ids d) \<or> cm_ShiftID c \<notin> set (shift_ids d), ''23503''),
      (\<exists>c \<in> set (db_cash d). \<not> fk (ticket_ids d) (cm_TicketID c) \<or> \<not> fk (user_ids d) (cm_RecordedBy c), ''23503'')]"

definition log_viol :: "db \<Rightarrow> string option" where
  "log_viol d = first_violation
     [(\<exists>l \<in> set (db_log d). \<not> fk (plant_ids d) (al_PlantID l) \<or> \<not> fk (user_ids d) (al_ActorID l), ''23503'')]"

definition pumps_viol :: "db \<Rightarrow> string option" where
  "pumps_viol d = first_violation
     [(\<exists>p \<in> set (db_pumps d). \<not> int4 (pu_SortOrder p), ''22003''),
      (\<exists>p \<in> set (db_pumps d). pu_Status p \<notin> {''working'', ''not_working'', ''maintenance''}, ''23514''),
      (\<not> distinct (map pu_ID (db_pumps d)), ''23505''),
      (\<not> distinct (map (\<lambda>p. (pu_PlantID p, pu_Name p)) (db_pumps d)), ''23505''),
      (\<exists>p \<in> set (db_pumps d). pu_PlantID p \<notin> set (plant_ids d), ''23503'')]"

definition hours_viol :: "db \<Rightarrow> string option" where
  "hours_viol d = first_violation
     [(\<exists>h \<in> set (db_hours d). ph_DayOfWeek h < 0 \<or> 6 < ph_DayOfWeek h, ''23514''),
      (\<exists>h \<in> set (db_hours d). ph_Segment h < 1 \<or> 3 < ph_Segment h, ''23514''),
      (\<not> distinct (map ph_ID (db_hours d)), ''23505''),
      (\<not> distinct (map (\<lambda>h. (ph_PlantID h, ph_DayOfWeek h, ph_Segment h)) (db_hours d)), ''23505''),
      (\<exists>h \<in> set (db_hours d). ph_PlantID h \<notin> set (plant_ids d), ''23503'')]"

definition reviews_viol :: "db \<Rightarrow> string option" where
  "reviews_viol d = first_violation
     [(\<exists>r \<in> set (db_reviews d). case rv_Rating r of None \<Rightarrow> False | Some n \<Rightarrow> n < 1 \<or> 5 < n, ''23514''),
      (\<not> distinct (map rv_ID (db_reviews d)), ''23505''),
      (\<not> distinct (map rv_Token (db_reviews d)), ''23505''),
      (\<not> distinct (map (\<lambda>r. (rv_PlantID r, rv_TicketID r)) (db_reviews d)), ''23505''),
      (\<exists>r \<in> set (db_reviews d). rv_PlantID r \<notin> set (plant_ids d) \<or> rv_TicketID r \<notin> set (ticket_ids d), ''23503'')]"

section \<open>The tables\<close>

definition plants_tab :: "plant_row tab" where
  "plants_tab = \<lparr>t_rows = db_plants, t_put = (\<lambda>rs d. d\<lparr>db_plants := rs\<rparr>),
     t_plant = (\<lambda>r. Some (pl_ID r)), t_viol = plants_viol,
     t_touch = (\<lambda>n r. r\<lparr>pl_UpdatedAt := n\<rparr>)\<rparr>"

definition users_tab :: "user_row tab" where
  "users_tab = \<lparr>t_rows = db_users, t_put = (\<lambda>rs d. d\<lparr>db_users := rs\<rparr>),
     t_plant = (\<lambda>r. Some (us_PlantID r)), t_viol = users_viol,
     t_touch = (\<lambda>n r. r\<lparr>us_UpdatedAt := n\<rparr>)\<rparr>"

definition prices_tab :: "price tab" where
  "prices_tab = \<lparr>t_rows = db_prices, t_put = (\<lambda>rs d. d\<lparr>db_prices := rs\<rparr>),
     t_plant = (\<lambda>r. Some (pr_PlantID r)), t_viol = prices_viol, t_touch = (\<lambda>_ r. r)\<rparr>"

definition shifts_tab :: "shift tab" where
  "shifts_tab = \<lparr>t_rows = db_shifts, t_put = (\<lambda>rs d. d\<lparr>db_shifts := rs\<rparr>),
     t_plant = (\<lambda>r. Some (sh_PlantID r)), t_viol = shifts_viol,
     t_touch = (\<lambda>n r. r\<lparr>sh_UpdatedAt := n\<rparr>)\<rparr>"

definition tickets_tab :: "ticket tab" where
  "tickets_tab = \<lparr>t_rows = db_tickets, t_put = (\<lambda>rs d. d\<lparr>db_tickets := rs\<rparr>),
     t_plant = (\<lambda>r. Some (tk_PlantID r)), t_viol = tickets_viol,
     t_touch = (\<lambda>n r. r\<lparr>tk_UpdatedAt := n\<rparr>)\<rparr>"

definition cash_tab :: "cash_movement tab" where
  "cash_tab = \<lparr>t_rows = db_cash, t_put = (\<lambda>rs d. d\<lparr>db_cash := rs\<rparr>),
     t_plant = (\<lambda>r. Some (cm_PlantID r)), t_viol = cash_viol, t_touch = (\<lambda>_ r. r)\<rparr>"

definition log_tab :: "activity_log tab" where
  "log_tab = \<lparr>t_rows = db_log, t_put = (\<lambda>rs d. d\<lparr>db_log := rs\<rparr>),
     t_plant = al_PlantID, t_viol = log_viol, t_touch = (\<lambda>_ r. r)\<rparr>"

definition pumps_tab :: "pump_row tab" where
  "pumps_tab = \<lparr>t_rows = db_pumps, t_put = (\<lambda>rs d. d\<lparr>db_pumps := rs\<rparr>),
     t_plant = (\<lambda>r. Some (pu_PlantID r)), t_viol = pumps_viol,
     t_touch = (\<lambda>n r. r\<lparr>pu_UpdatedAt := n\<rparr>)\<rparr>"

definition hours_tab :: "hours_row tab" where
  "hours_tab = \<lparr>t_rows = db_hours, t_put = (\<lambda>rs d. d\<lparr>db_hours := rs\<rparr>),
     t_plant = (\<lambda>r. Some (ph_PlantID r)), t_viol = hours_viol, t_touch = (\<lambda>_ r. r)\<rparr>"

definition reviews_tab :: "review_row tab" where
  "reviews_tab = \<lparr>t_rows = db_reviews, t_put = (\<lambda>rs d. d\<lparr>db_reviews := rs\<rparr>),
     t_plant = (\<lambda>r. Some (rv_PlantID r)), t_viol = reviews_viol, t_touch = (\<lambda>_ r. r)\<rparr>"

lemmas tab_defs = plants_tab_def users_tab_def prices_tab_def shifts_tab_def tickets_tab_def
  cash_tab_def log_tab_def pumps_tab_def hours_tab_def reviews_tab_def

lemma tab_rows [simp]:
  "t_rows plants_tab = db_plants" "t_rows users_tab = db_users" "t_rows prices_tab = db_prices"
  "t_rows shifts_tab = db_shifts" "t_rows tickets_tab = db_tickets" "t_rows cash_tab = db_cash"
  "t_rows log_tab = db_log" "t_rows pumps_tab = db_pumps" "t_rows hours_tab = db_hours"
  "t_rows reviews_tab = db_reviews"
  by (simp_all add: tab_defs)

lemma tab_put [simp]:
  "t_put plants_tab rs1 d = d\<lparr>db_plants := rs1\<rparr>" "t_put users_tab rs2 d = d\<lparr>db_users := rs2\<rparr>"
  "t_put prices_tab rs3 d = d\<lparr>db_prices := rs3\<rparr>" "t_put shifts_tab rs4 d = d\<lparr>db_shifts := rs4\<rparr>"
  "t_put tickets_tab rs5 d = d\<lparr>db_tickets := rs5\<rparr>" "t_put cash_tab rs6 d = d\<lparr>db_cash := rs6\<rparr>"
  "t_put log_tab rs7 d = d\<lparr>db_log := rs7\<rparr>" "t_put pumps_tab rs8 d = d\<lparr>db_pumps := rs8\<rparr>"
  "t_put hours_tab rs9 d = d\<lparr>db_hours := rs9\<rparr>" "t_put reviews_tab rs10 d = d\<lparr>db_reviews := rs10\<rparr>"
  by (simp_all add: tab_defs)

lemma tab_plant [simp]:
  "t_plant plants_tab r1 = Some (pl_ID r1)" "t_plant users_tab r2 = Some (us_PlantID r2)"
  "t_plant prices_tab r3 = Some (pr_PlantID r3)" "t_plant shifts_tab r4 = Some (sh_PlantID r4)"
  "t_plant tickets_tab r5 = Some (tk_PlantID r5)" "t_plant cash_tab r6 = Some (cm_PlantID r6)"
  "t_plant log_tab r7 = al_PlantID r7" "t_plant pumps_tab r8 = Some (pu_PlantID r8)"
  "t_plant hours_tab r9 = Some (ph_PlantID r9)" "t_plant reviews_tab r10 = Some (rv_PlantID r10)"
  by (simp_all add: tab_defs)

lemma tab_touch [simp]:
  "t_touch plants_tab n r1 = r1\<lparr>pl_UpdatedAt := n\<rparr>" "t_touch users_tab n r2 = r2\<lparr>us_UpdatedAt := n\<rparr>"
  "t_touch prices_tab n r3 = r3" "t_touch shifts_tab n r4 = r4\<lparr>sh_UpdatedAt := n\<rparr>"
  "t_touch tickets_tab n r5 = r5\<lparr>tk_UpdatedAt := n\<rparr>" "t_touch cash_tab n r6 = r6"
  "t_touch log_tab n r7 = r7" "t_touch pumps_tab n r8 = r8\<lparr>pu_UpdatedAt := n\<rparr>"
  "t_touch hours_tab n r9 = r9" "t_touch reviews_tab n r10 = r10"
  by (simp_all add: tab_defs)

lemma tab_viol [simp]:
  "t_viol plants_tab = plants_viol" "t_viol users_tab = users_viol"
  "t_viol prices_tab = prices_viol" "t_viol shifts_tab = shifts_viol"
  "t_viol tickets_tab = tickets_viol" "t_viol cash_tab = cash_viol" "t_viol log_tab = log_viol"
  "t_viol pumps_tab = pumps_viol" "t_viol hours_tab = hours_viol"
  "t_viol reviews_tab = reviews_viol"
  by (simp_all add: tab_defs)

section \<open>The contract of a tenant's table\<close>

text \<open>What the rows of every plant other than \<open>p\<close> are.\<close>

definition others :: "uuid \<Rightarrow> db \<Rightarrow> db" where
  "others p d = restrict_db (\<lambda>q. q \<noteq> Some p) d"

text \<open>
  An action that, run in a transaction scoped to plant \<open>p\<close>, leaves the rows of every other
  plant as they were and stays in its transaction, whether it returns or fails.
\<close>

definition writes_own :: "uuid \<Rightarrow> 'a act \<Rightarrow> bool" where
  "writes_own p m \<longleftrightarrow> (\<forall>w. w_role w = AppRole (Some p) \<longrightarrow>
     others p (w_db (snd (m w))) = others p (w_db w) \<and>
     w_role (snd (m w)) = w_role w \<and> w_now (snd (m w)) = w_now w \<and> w_env (snd (m w)) = w_env w)"

lemma writes_own_exec_stmt:
  assumes "\<And>w a d. w_role w = AppRole (Some p) \<Longrightarrow> f w = Inr (a, d) \<Longrightarrow> others p d = others p (w_db w)"
  shows "writes_own p (exec_stmt f)"
  using assms by (auto simp: writes_own_def exec_stmt_def Let_def split: sum.splits prod.splits)

locale tenant_table =
  fixes T :: "'r tab"
  assumes rows_put: "t_rows T (t_put T rs d) = rs"
    and put_rows: "t_put T (t_rows T d) d = d"
    and put_put: "t_put T rs (t_put T rs' d) = t_put T rs d"
    and touch_plant: "t_plant T (t_touch T n r) = t_plant T r"
    and others_put: "filter (\<lambda>r. t_plant T r \<noteq> Some p) rs = filter (\<lambda>r. t_plant T r \<noteq> Some p) (t_rows T d)
      \<Longrightarrow> others p (t_put T rs d) = others p d"
begin

lemma update_writes_own:
  assumes "\<And>n r. t_plant T (f n r) = t_plant T r"
  shows "writes_own p (exec_update T P f)"
  unfolding exec_update_def
proof (rule writes_own_exec_stmt)
  fix w a d
  assume r: "w_role w = AppRole (Some p)"
    and s: "(let Q = \<lambda>r. visible (w_role w) (t_plant T r) \<and> P r;
          g = \<lambda>r. t_touch T (w_now w) (f (w_now w) r)
      in checked T (map g (filter Q (t_rows T (w_db w))))
           (t_put T (upd_where Q g (t_rows T (w_db w))) (w_db w))) = Inr (a, d)"
  have "others p (t_put T (upd_where (\<lambda>r. visible (w_role w) (t_plant T r) \<and> P r)
      (\<lambda>r. t_touch T (w_now w) (f (w_now w) r)) (t_rows T (w_db w))) (w_db w)) = others p (w_db w)"
    by (rule others_put, rule filter_upd_where_other) (simp add: r touch_plant assms)
  with s show "others p d = others p (w_db w)"
    by (auto simp: checked_def Let_def split: option.splits)
qed

lemma insert_writes_own: "writes_own p (exec_insert T mk)"
  unfolding exec_insert_def
proof (rule writes_own_exec_stmt)
  fix w a d
  assume r: "w_role w = AppRole (Some p)"
    and s: "(let r = mk (w_now w) (e_uuid (w_env w) (w_tick w))
      in if visible (w_role w) (t_plant T r)
         then checked T r (t_put T (t_rows T (w_db w) @ [r]) (w_db w)) else Inl ''42501'') = Inr (a, d)"
  then have "t_plant T a = Some p" "d = t_put T (t_rows T (w_db w) @ [a]) (w_db w)"
    by (auto simp: checked_def Let_def split: option.splits if_splits)
  then show "others p d = others p (w_db w)"
    by (auto intro!: others_put)
qed

lemma insert_when_writes_own: "writes_own p (exec_insert_when T C mk)"
  unfolding exec_insert_when_def
proof (rule writes_own_exec_stmt)
  fix w a d
  assume r: "w_role w = AppRole (Some p)"
    and s: "(let r = mk (w_now w) (e_uuid (w_env w) (w_tick w))
      in if \<not> C (visible_db (w_role w) (w_db w)) (w_db w) r then Inr (None, w_db w)
         else if visible (w_role w) (t_plant T r)
         then checked T (Some r) (t_put T (t_rows T (w_db w) @ [r]) (w_db w)) else Inl ''42501'') = Inr (a, d)"
  show "others p d = others p (w_db w)"
  proof (cases a)
    case None
    with s show ?thesis
      by (auto simp: checked_def Let_def split: option.splits if_splits)
  next
    case (Some x)
    with r s have "t_plant T x = Some p" "d = t_put T (t_rows T (w_db w) @ [x]) (w_db w)"
      by (auto simp: checked_def Let_def split: option.splits if_splits)
    then show ?thesis by (auto intro!: others_put)
  qed
qed

lemma upsert_writes_own:
  assumes "\<And>r. t_plant T (f r) = t_plant T r"
  shows "writes_own p (exec_upsert T key mk f)"
  unfolding exec_upsert_def
proof (rule writes_own_exec_stmt)
  fix w a d
  let ?r = "mk (w_now w) (e_uuid (w_env w) (w_tick w))"
  let ?new = "t_put T (t_rows T (w_db w) @ [?r]) (w_db w)"
  let ?upd = "t_put T (upd_where (\<lambda>x. visible (w_role w) (t_plant T x) \<and> key x = key ?r)
      (\<lambda>x. t_touch T (w_now w) (f x)) (t_rows T (w_db w))) (w_db w)"
  assume r: "w_role w = AppRole (Some p)"
    and s: "(let r = mk (w_now w) (e_uuid (w_env w) (w_tick w)); g = \<lambda>x. t_touch T (w_now w) (f x)
     in if \<not> visible (w_role w) (t_plant T r) then Inl ''42501''
        else if \<exists>x \<in> set (t_rows T (w_db w)). key x = key r
        then if \<forall>x \<in> set (t_rows T (w_db w)). key x = key r \<longrightarrow> visible (w_role w) (t_plant T x)
             then checked T r (t_put T (upd_where (\<lambda>x. visible (w_role w) (t_plant T x) \<and> key x = key r) g
                    (t_rows T (w_db w))) (w_db w))
             else Inl ''42501''
        else checked T r (t_put T (t_rows T (w_db w) @ [r]) (w_db w))) = Inr (a, d)"
  from s have v: "visible (w_role w) (t_plant T ?r)" and d: "d = ?new \<or> d = ?upd"
    by (auto simp: checked_def Let_def split: if_splits option.splits)
  have "others p ?new = others p (w_db w)"
    using v r by (auto intro!: others_put)
  moreover have "others p ?upd = others p (w_db w)"
    by (rule others_put, rule filter_upd_where_other) (simp add: r touch_plant assms)
  ultimately show "others p d = others p (w_db w)" using d by auto
qed

lemma delete_writes_own: "writes_own p (exec_delete T P)"
  unfolding exec_delete_def
proof (rule writes_own_exec_stmt)
  fix w a d
  assume r: "w_role w = AppRole (Some p)"
    and s: "(let Q = \<lambda>r. visible (w_role w) (t_plant T r) \<and> P r
      in checked T (count_where Q (t_rows T (w_db w)))
           (t_put T (filter (\<lambda>r. \<not> Q r) (t_rows T (w_db w))) (w_db w))) = Inr (a, d)"
  have "others p (t_put T (filter (\<lambda>r. \<not> (visible (w_role w) (t_plant T r) \<and> P r)) (t_rows T (w_db w))) (w_db w))
      = others p (w_db w)"
    by (rule others_put) (auto simp: r intro!: filter_cong)
  with s show "others p d = others p (w_db w)"
    by (auto simp: checked_def Let_def split: option.splits)
qed

end

interpretation plants_tt: tenant_table plants_tab
  by unfold_locales (auto simp: others_def restrict_db_def)

interpretation users_tt: tenant_table users_tab
  by unfold_locales (auto simp: others_def restrict_db_def)

interpretation prices_tt: tenant_table prices_tab
  by unfold_locales (auto simp: others_def restrict_db_def)

interpretation shifts_tt: tenant_table shifts_tab
  by unfold_locales (auto simp: others_def restrict_db_def)

interpretation tickets_tt: tenant_table tickets_tab
  by unfold_locales (auto simp: others_def restrict_db_def)

interpretation cash_tt: tenant_table cash_tab
  by unfold_locales (auto simp: others_def restrict_db_def)

interpretation log_tt: tenant_table log_tab
  by unfold_locales (auto simp: others_def restrict_db_def)

interpretation pumps_tt: tenant_table pumps_tab
  by unfold_locales (auto simp: others_def restrict_db_def)

interpretation hours_tt: tenant_table hours_tab
  by unfold_locales (auto simp: others_def restrict_db_def)

interpretation reviews_tt: tenant_table reviews_tab
  by unfold_locales (auto simp: others_def restrict_db_def)

lemmas table_writes_own [tenant_rules] =
  plants_tt.update_writes_own users_tt.update_writes_own prices_tt.update_writes_own
  shifts_tt.update_writes_own tickets_tt.update_writes_own cash_tt.update_writes_own
  log_tt.update_writes_own pumps_tt.update_writes_own hours_tt.update_writes_own
  reviews_tt.update_writes_own
  plants_tt.insert_writes_own users_tt.insert_writes_own prices_tt.insert_writes_own
  shifts_tt.insert_writes_own tickets_tt.insert_writes_own cash_tt.insert_writes_own
  log_tt.insert_writes_own pumps_tt.insert_writes_own hours_tt.insert_writes_own
  reviews_tt.insert_writes_own
  hours_tt.delete_writes_own
  hours_tt.upsert_writes_own pumps_tt.insert_when_writes_own reviews_tt.insert_when_writes_own

end
