(* ===== verification/Actions.thy ===== *)
theory Actions
  imports Schema
begin

text \<open>
  The rules that the component proofs are run with. \<open>runs m w a w'\<close> is a successful run; its
  equations (collection \<open>run_simps\<close>) turn a run of a composed action into facts about the
  worlds in between. \<open>calm\<close> worlds are those whose requests all reach the server. The rules of
  \<open>tenant_rules\<close> show by composition that an action writes only its own tenant's rows.
\<close>

section \<open>Successful runs\<close>

definition runs :: "('s, 'a) sact \<Rightarrow> 's \<Rightarrow> 'a \<Rightarrow> 's \<Rightarrow> bool" where
  "runs m w a w' \<longleftrightarrow> m w = (Inr a, w')"

text \<open>The world after a statement that succeeded and left the database \<open>d\<close>.\<close>

definition stepped :: "world \<Rightarrow> db \<Rightarrow> world" where
  "stepped w d = w\<lparr>w_tick := Suc (w_tick w), w_db := d\<rparr>"

lemma stepped_simps [simp]:
  "w_db (stepped w d) = d" "w_role (stepped w d) = w_role w" "w_now (stepped w d) = w_now w"
  "w_aborted (stepped w d) = w_aborted w" "w_env (stepped w d) = w_env w"
  "w_tick (stepped w d) = Suc (w_tick w)"
  by (simp_all add: stepped_def)

text \<open>A statement can succeed here: the transaction is not poisoned and the request gets through.\<close>

definition ready :: "world \<Rightarrow> bool" where
  "ready w \<longleftrightarrow> \<not> w_aborted w \<and> e_fault (w_env w) (w_tick w) = Fine"

lemma runs_ret [run_simps]: "runs (ret a) w b w' \<longleftrightarrow> b = a \<and> w' = w"
  by (auto simp: runs_def ret_def)

lemma runs_fail [run_simps]: "\<not> runs (fail e) w b w'"
  by (simp add: runs_def fail_def)

lemma runs_bind [run_simps]:
  "runs (bind m f) w b w' \<longleftrightarrow> (\<exists>a w1. runs m w a w1 \<and> runs (f a) w1 b w')"
  by (auto simp: runs_def bind_def split: prod.splits sum.splits)

lemma runs_if [run_simps]:
  "runs (if c then m else n) w b w' \<longleftrightarrow> (c \<longrightarrow> runs m w b w') \<and> (\<not> c \<longrightarrow> runs n w b w')"
  by auto

lemma runs_case_option [run_simps]:
  "runs (case x of None \<Rightarrow> m | Some a \<Rightarrow> n a) w b w' \<longleftrightarrow>
     (x = None \<longrightarrow> runs m w b w') \<and> (\<forall>a. x = Some a \<longrightarrow> runs (n a) w b w')"
  by (cases x) auto

lemma runs_attempt:
  "runs (attempt m) w (Inr a) w' \<longleftrightarrow> runs m w a w'"
  "runs (attempt m) w (Inl e) w' \<longleftrightarrow> m w = (Inl e, w')"
  by (auto simp: runs_def attempt_def split: prod.splits)

lemma runs_case_sum:
  "runs (case r of Inl e \<Rightarrow> f e | Inr a \<Rightarrow> g a) w b w' \<longleftrightarrow>
     (\<exists>e. r = Inl e \<and> runs (f e) w b w') \<or> (\<exists>a. r = Inr a \<and> runs (g a) w b w')"
  by (cases r) auto

lemma runs_attempt_result: "runs (attempt m) w r w' \<longleftrightarrow> m w = (r, w')"
  by (auto simp: runs_def attempt_def split: prod.splits)

lemma runs_ask_env [run_simps]: "runs ask_env w b w' \<longleftrightarrow> b = w_env w \<and> w' = w"
  by (auto simp: runs_def ask_env_def)

lemma runs_rand_int [run_simps]:
  "runs (rand_int n) w k w' \<longleftrightarrow>
     (\<exists>j. e_rand (w_env w) (w_tick w) = Some j \<and> k = j mod n) \<and> w' = stepped w (w_db w)"
  by (auto simp: runs_def rand_int_def stepped_def Let_def split: option.splits)

lemma runs_rand_bytes [run_simps]:
  "runs (rand_bytes n) w k w' \<longleftrightarrow>
     (\<exists>j. e_rand (w_env w) (w_tick w) = Some j \<and> k = bytes_of n j) \<and> w' = stepped w (w_db w)"
  by (auto simp: runs_def rand_bytes_def stepped_def Let_def split: option.splits)

lemma runs_time_Now [run_simps]:
  "runs time_Now w b w' \<longleftrightarrow> b = e_wall (w_env w) (w_tick w) \<and> w' = stepped w (w_db w)"
  by (auto simp: runs_def time_Now_def stepped_def)

lemma runs_exec_stmt:
  "runs (exec_stmt f) w a w' \<longleftrightarrow> ready w \<and> (\<exists>d. f w = Inr (a, d) \<and> w' = stepped w d)"
  by (auto simp: runs_def exec_stmt_def ready_def stepped_def Let_def split: sum.splits prod.splits)

lemma runs_query [run_simps]:
  "runs (query f) w a w' \<longleftrightarrow>
     ready w \<and> a = f (visible_db (w_role w) (w_db w)) \<and> w' = stepped w (w_db w)"
  by (auto simp: query_def runs_exec_stmt)

lemma runs_query_at [run_simps]:
  "runs (query_at f) w a w' \<longleftrightarrow>
     ready w \<and> a = f (w_env w) (w_now w) (visible_db (w_role w) (w_db w)) \<and> w' = stepped w (w_db w)"
  by (auto simp: query_at_def runs_exec_stmt)

lemma runs_query_row [run_simps]:
  "runs (query_row f) w a w' \<longleftrightarrow>
     ready w \<and> f (visible_db (w_role w) (w_db w)) = Some a \<and> w' = stepped w (w_db w)"
  by (auto simp: query_row_def run_simps)

definition updated :: "'r tab \<Rightarrow> ('r \<Rightarrow> bool) \<Rightarrow> (time \<Rightarrow> 'r \<Rightarrow> 'r) \<Rightarrow> world \<Rightarrow> 'r list" where
  "updated T P f w = upd_where (\<lambda>r. visible (w_role w) (t_plant T r) \<and> P r)
     (\<lambda>r. t_touch T (w_now w) (f (w_now w) r)) (t_rows T (w_db w))"

lemma runs_exec_update [run_simps]:
  "runs (exec_update T P f) w rs w' \<longleftrightarrow>
     ready w \<and> t_viol T (t_put T (updated T P f w) (w_db w)) = None \<and>
     rs = map (\<lambda>r. t_touch T (w_now w) (f (w_now w) r))
            (filter (\<lambda>r. visible (w_role w) (t_plant T r) \<and> P r) (t_rows T (w_db w))) \<and>
     w' = stepped w (t_put T (updated T P f w) (w_db w))"
  by (auto simp: exec_update_def runs_exec_stmt checked_def updated_def Let_def split: option.splits)

definition inserted :: "'r tab \<Rightarrow> (time \<Rightarrow> uuid \<Rightarrow> 'r) \<Rightarrow> world \<Rightarrow> 'r" where
  "inserted T mk w = mk (w_now w) (e_uuid (w_env w) (w_tick w))"

lemma runs_exec_insert [run_simps]:
  "runs (exec_insert T mk) w r w' \<longleftrightarrow>
     ready w \<and> r = inserted T mk w \<and> visible (w_role w) (t_plant T r) \<and>
     t_viol T (t_put T (t_rows T (w_db w) @ [r]) (w_db w)) = None \<and>
     w' = stepped w (t_put T (t_rows T (w_db w) @ [r]) (w_db w))"
  by (auto simp: exec_insert_def runs_exec_stmt checked_def inserted_def Let_def
      split: option.splits if_splits)

lemma runs_exec_insert_when [run_simps]:
  "runs (exec_insert_when T C mk) w x w' \<longleftrightarrow>
     ready w \<and>
     (if C (visible_db (w_role w) (w_db w)) (w_db w) (inserted T mk w)
      then x = Some (inserted T mk w) \<and> visible (w_role w) (t_plant T (inserted T mk w)) \<and>
        t_viol T (t_put T (t_rows T (w_db w) @ [inserted T mk w]) (w_db w)) = None \<and>
        w' = stepped w (t_put T (t_rows T (w_db w) @ [inserted T mk w]) (w_db w))
      else x = None \<and> w' = stepped w (w_db w))"
  by (auto simp: exec_insert_when_def runs_exec_stmt checked_def inserted_def Let_def
      split: option.splits if_splits)

lemma runs_exec_delete [run_simps]:
  "runs (exec_delete T P) w n w' \<longleftrightarrow>
     ready w \<and> n = count_where (\<lambda>r. visible (w_role w) (t_plant T r) \<and> P r) (t_rows T (w_db w)) \<and>
     t_viol T (t_put T (filter (\<lambda>r. \<not> (visible (w_role w) (t_plant T r) \<and> P r)) (t_rows T (w_db w))) (w_db w)) = None \<and>
     w' = stepped w (t_put T (filter (\<lambda>r. \<not> (visible (w_role w) (t_plant T r) \<and> P r)) (t_rows T (w_db w))) (w_db w))"
  by (auto simp: exec_delete_def runs_exec_stmt checked_def Let_def split: option.splits)

section \<open>What a tenant's transaction reads\<close>

lemma visible_db_app [simp]:
  "db_plants (visible_db (AppRole (Some p)) d) = filter (\<lambda>r. pl_ID r = p) (db_plants d)"
  "db_users (visible_db (AppRole (Some p)) d) = filter (\<lambda>r. us_PlantID r = p) (db_users d)"
  "db_prices (visible_db (AppRole (Some p)) d) = filter (\<lambda>r. pr_PlantID r = p) (db_prices d)"
  "db_shifts (visible_db (AppRole (Some p)) d) = filter (\<lambda>r. sh_PlantID r = p) (db_shifts d)"
  "db_tickets (visible_db (AppRole (Some p)) d) = filter (\<lambda>r. tk_PlantID r = p) (db_tickets d)"
  "db_cash (visible_db (AppRole (Some p)) d) = filter (\<lambda>r. cm_PlantID r = p) (db_cash d)"
  "db_log (visible_db (AppRole (Some p)) d) = filter (\<lambda>r. al_PlantID r = Some p) (db_log d)"
  "db_pumps (visible_db (AppRole (Some p)) d) = filter (\<lambda>r. pu_PlantID r = p) (db_pumps d)"
  "db_hours (visible_db (AppRole (Some p)) d) = filter (\<lambda>r. ph_PlantID r = p) (db_hours d)"
  "db_reviews (visible_db (AppRole (Some p)) d) = filter (\<lambda>r. rv_PlantID r = p) (db_reviews d)"
  by (simp_all add: visible_db_def restrict_db_def)

lemma visible_db_admin [simp]: "visible_db AdminRole d = d"
  by (simp add: visible_db_def restrict_db_def)

section \<open>Statements that get through, and those that do not\<close>

lemma query_ready:
  "ready w \<Longrightarrow> query f w = (Inr (f (visible_db (w_role w) (w_db w))), stepped w (w_db w))"
  by (simp add: query_def exec_stmt_def ready_def stepped_def Let_def)

lemma query_at_ready:
  "ready w \<Longrightarrow> query_at f w = (Inr (f (w_env w) (w_now w) (visible_db (w_role w) (w_db w))), stepped w (w_db w))"
  by (simp add: query_at_def exec_stmt_def ready_def stepped_def Let_def)

lemma query_row_ready:
  "ready w \<Longrightarrow> query_row f w =
     ((case f (visible_db (w_role w) (w_db w)) of None \<Rightarrow> Inl ErrNoRows | Some a \<Rightarrow> Inr a),
      stepped w (w_db w))"
  by (simp add: query_row_def bind_def query_ready fail_def ret_def split: option.splits)

lemma query_row_result:
  assumes "query_row f w = (r, w')"
  shows "w_db w' = w_db w" "w_role w' = w_role w" "w_env w' = w_env w" "w_now w' = w_now w"
    "\<And>a. r = Inr a \<Longrightarrow> f (visible_db (w_role w) (w_db w)) = Some a \<and> \<not> w_aborted w \<and> w_aborted w' = w_aborted w"
  using assms
  by (auto simp: query_row_def bind_def query_def exec_stmt_def Let_def fail_def ret_def
      split: if_splits option.splits)

lemma exec_update_db:
  "w_db (snd (exec_update T P f w)) = w_db w \<or>
   w_db (snd (exec_update T P f w)) = t_put T (updated T P f w) (w_db w)"
  by (auto simp: exec_update_def exec_stmt_def checked_def updated_def Let_def split: option.splits)

section \<open>Poisoned transactions\<close>

lemma exec_stmt_aborted:
  "w_aborted w \<Longrightarrow> exec_stmt f w = (Inl (PgError ''25P02''), w\<lparr>w_tick := Suc (w_tick w)\<rparr>)"
  by (simp add: exec_stmt_def)

text \<open>Every error of a statement, other than \<^verbatim>\<open>ErrNoRows\<close>, leaves its transaction poisoned.\<close>

lemma exec_stmt_error_aborts: "exec_stmt f w = (Inl e, w') \<Longrightarrow> w_aborted w'"
  by (auto simp: exec_stmt_def Let_def split: if_splits sum.splits prod.splits)

lemma exec_insert_error_aborts: "exec_insert T mk w = (Inl e, w') \<Longrightarrow> w_aborted w'"
  unfolding exec_insert_def by (rule exec_stmt_error_aborts)

lemma exec_insert_aborted:
  "w_aborted w \<Longrightarrow> exec_insert T mk w = (Inl (PgError ''25P02''), w\<lparr>w_tick := Suc (w_tick w)\<rparr>)"
  unfolding exec_insert_def by (rule exec_stmt_aborted)

section \<open>Writing only one's own rows\<close>

lemma writes_own_ret [tenant_rules]: "writes_own p (ret a)"
  by (simp add: writes_own_def ret_def)

lemma writes_own_fail [tenant_rules]: "writes_own p (fail e)"
  by (simp add: writes_own_def fail_def)

lemma writes_own_bind [tenant_rules]:
  assumes "writes_own p m" and "\<And>a. writes_own p (f a)"
  shows "writes_own p (bind m f)"
proof (unfold writes_own_def, intro allI impI)
  fix w :: world assume r: "w_role w = AppRole (Some p)"
  obtain x w1 where m: "m w = (x, w1)" by (cases "m w")
  from assms(1) r m have 1: "others p (w_db w1) = others p (w_db w)" "w_role w1 = AppRole (Some p)"
    "w_now w1 = w_now w" "w_env w1 = w_env w"
    by (auto simp: writes_own_def dest!: spec [of _ w])
  show "others p (w_db (snd (bind m f w))) = others p (w_db w) \<and>
      w_role (snd (bind m f w)) = w_role w \<and> w_now (snd (bind m f w)) = w_now w \<and>
      w_env (snd (bind m f w)) = w_env w"
  proof (cases x)
    case (Inl e)
    with m 1 r show ?thesis by (simp add: bind_def)
  next
    case (Inr a)
    with assms(2) [of a] m 1 r show ?thesis by (simp add: bind_def writes_own_def)
  qed
qed

lemma writes_own_attempt [tenant_rules]: "writes_own p m \<Longrightarrow> writes_own p (attempt m)"
  by (simp add: writes_own_def attempt_def case_prod_unfold)

lemma writes_own_ask_env [tenant_rules]: "writes_own p ask_env"
  by (simp add: writes_own_def ask_env_def)

lemma writes_own_rand_int [tenant_rules]: "writes_own p (rand_int n)"
  by (simp add: writes_own_def rand_int_def Let_def split: option.splits)

lemma writes_own_rand_bytes [tenant_rules]: "writes_own p (rand_bytes n)"
  by (simp add: writes_own_def rand_bytes_def Let_def split: option.splits)

lemma writes_own_time_Now [tenant_rules]: "writes_own p time_Now"
  by (simp add: writes_own_def time_Now_def)

lemma writes_own_query [tenant_rules]: "writes_own p (query f)"
  unfolding query_def by (rule writes_own_exec_stmt) auto

lemma writes_own_query_at [tenant_rules]: "writes_own p (query_at f)"
  unfolding query_at_def by (rule writes_own_exec_stmt) auto

lemma writes_own_case_option [tenant_rules]:
  "writes_own p m \<Longrightarrow> (\<And>a. writes_own p (n a)) \<Longrightarrow>
   writes_own p (case x of None \<Rightarrow> m | Some a \<Rightarrow> n a)"
  by (cases x) auto

lemma writes_own_case_sum [tenant_rules]:
  "(\<And>e. writes_own p (m e)) \<Longrightarrow> (\<And>a. writes_own p (n a)) \<Longrightarrow>
   writes_own p (case x of Inl e \<Rightarrow> m e | Inr a \<Rightarrow> n a)"
  by (cases x) auto

lemma writes_own_if [tenant_rules]:
  "writes_own p m \<Longrightarrow> writes_own p n \<Longrightarrow> writes_own p (if c then m else n)"
  by simp

lemma writes_own_case_prod [tenant_rules]:
  "(\<And>a b. writes_own p (m a b)) \<Longrightarrow> writes_own p (case x of (a, b) \<Rightarrow> m a b)"
  by (cases x) auto

lemma writes_own_case_status [tenant_rules]:
  "writes_own p a \<Longrightarrow> writes_own p b \<Longrightarrow> writes_own p c \<Longrightarrow> writes_own p d \<Longrightarrow>
   writes_own p e \<Longrightarrow> writes_own p f \<Longrightarrow> writes_own p g \<Longrightarrow> writes_own p h \<Longrightarrow>
   writes_own p (case s of Pending \<Rightarrow> a | Paid \<Rightarrow> b | Dispensing \<Rightarrow> c | Filled \<Rightarrow> d
     | Issue \<Rightarrow> e | Cancelled \<Rightarrow> f | Expired \<Rightarrow> g | Voided \<Rightarrow> h)"
  by (cases s) auto

lemma writes_own_query_row [tenant_rules]: "writes_own p (query_row f)"
  unfolding query_row_def by (intro tenant_rules)

section \<open>Transactions\<close>

lemma rollback_db [simp]: "w_db (rollback w0 w) = w_db w0"
  by (simp add: rollback_def)

lemma request_db: "request e w = (r, w') \<Longrightarrow> w_db w' = w_db w \<and> w_env w' = w_env w \<and> w_role w' = w_role w"
  by (auto simp: request_def Let_def split: if_splits)

text \<open>
  The outcomes of \<^verbatim>\<open>WithTenant\<close>: nothing has changed and an error is returned, or the body ran
  to its end in a transaction scoped to the plant and all of its effects are in.
\<close>

lemma WithTenant_cases:
  assumes "WithTenant p fn w = (r, w')"
  obtains (rolled_back) e where "r = Inl e" "w_db w' = w_db w"
  | (committed) a w1 w2 where "w_role w1 = AppRole (Some p)" "w_db w1 = w_db w" "w_env w1 = w_env w"
      "\<not> w_aborted w1" "fn w1 = (Inr a, w2)" "w_db w' = w_db w2" "\<not> w_aborted w2"
      "r = Inr a \<or> r = Inl (Wrap ''tenantdb: commit'' DriverErr)"
proof -
  obtain r1 u where 1: "request (Wrap ''tenantdb: acquire connection'' DriverErr) w = (r1, u)"
    by (cases "request (Wrap ''tenantdb: acquire connection'' DriverErr) w")
  obtain r2 v where 2: "request (Wrap ''tenantdb: begin transaction'' DriverErr) u = (r2, v)"
    by (cases "request (Wrap ''tenantdb: begin transaction'' DriverErr) u")
  obtain r3 x where 3: "exec_stmt (\<lambda>v. Inr ((), w_db v)) (in_tx (AppRole None) v) = (r3, x)"
    by (cases "exec_stmt (\<lambda>v. Inr ((), w_db v)) (in_tx (AppRole None) v)")
  obtain r4 y where 4: "fn (x\<lparr>w_role := AppRole (Some p)\<rparr>) = (r4, y)"
    by (cases "fn (x\<lparr>w_role := AppRole (Some p)\<rparr>)")
  obtain r5 z where 5: "commit w y = (r5, z)" by (cases "commit w y")
  have dbs: "w_db u = w_db w" "w_db v = w_db w" "w_env v = w_env w"
    using request_db [OF 1] request_db [OF 2] by auto
  show thesis
  proof (cases r1; cases r2; cases r3; cases r4)
    fix a1 a2 a3 a assume i: "r1 = Inr a1" "r2 = Inr a2" "r3 = Inr a3" "r4 = Inr a"
    have x: "\<not> w_aborted x" "w_db x = w_db w" "w_env x = w_env w"
      using 3 i dbs by (auto simp: exec_stmt_def in_tx_def Let_def split: if_splits)
    have r: "r = (case r5 of Inl e \<Rightarrow> Inl (Wrap ''tenantdb: commit'' e) | Inr _ \<Rightarrow> Inr a)" "w' = z"
      using assms 1 2 3 4 5 i by (auto simp: WithTenant_def split: sum.splits)
    have "(\<exists>e. r5 = Inl e \<and> w_db z = w_db w) \<or>
        (\<not> w_aborted y \<and> w_db z = w_db y \<and> (r5 = Inr () \<or> r5 = Inl DriverErr))"
      using 5 by (auto simp: commit_def Let_def split: if_splits fault.splits)
    then show thesis
    proof
      assume "\<exists>e. r5 = Inl e \<and> w_db z = w_db w"
      with r show thesis by (auto intro: rolled_back)
    next
      assume "\<not> w_aborted y \<and> w_db z = w_db y \<and> (r5 = Inr () \<or> r5 = Inl DriverErr)"
      with r x 4 i show thesis
        by (intro committed [of "x\<lparr>w_role := AppRole (Some p)\<rparr>" a y]) auto
    qed
  qed (use assms 1 2 3 4 dbs in \<open>auto simp: WithTenant_def intro: rolled_back\<close>)
qed

text \<open>Atomicity: an action that fails inside \<^verbatim>\<open>WithTenant\<close> leaves the database as it was.\<close>

lemma WithTenant_body_error:
  assumes "WithTenant p fn w = (r, w')" and "\<And>w1 w2 a. fn w1 \<noteq> (Inr a, w2)"
  shows "w_db w' = w_db w"
  using assms(1) by (cases rule: WithTenant_cases) (use assms(2) in auto)

text \<open>Isolation: the rows of every other plant survive any body that writes only its own.\<close>

lemma WithTenant_isolation:
  assumes "writes_own p fn" and "WithTenant p fn w = (r, w')"
  shows "others p (w_db w') = others p (w_db w)"
  using assms(2)
proof (cases rule: WithTenant_cases)
  case (rolled_back e)
  then show ?thesis by simp
next
  case (committed a w1 w2)
  with assms(1) show ?thesis
    by (force simp: writes_own_def dest!: spec [of _ w1])
qed

lemma runs_WithTenant:
  assumes "runs (WithTenant p fn) w a w'"
  obtains w1 w2 where "w_role w1 = AppRole (Some p)" "w_db w1 = w_db w" "w_env w1 = w_env w"
    "\<not> w_aborted w1" "runs fn w1 a w2" "w_db w' = w_db w2"
proof -
  from assms have "WithTenant p fn w = (Inr a, w')" by (simp add: runs_def)
  then show thesis
    by (cases rule: WithTenant_cases) (auto simp: runs_def intro: that)
qed

lemma runs_with_admin_tx:
  assumes "runs (with_admin_tx fn) w a w'"
  obtains w1 w2 where "w_role w1 = AdminRole" "w_db w1 = w_db w" "w_env w1 = w_env w"
    "\<not> w_aborted w1" "runs fn w1 a w2" "w_db w' = w_db w2"
proof -
  obtain r u where u: "request DriverErr w = (r, u)" by (cases "request DriverErr w")
  from request_db [OF u] assms show thesis
    by (intro that [of "in_tx AdminRole u" "snd (fn (in_tx AdminRole u))"])
      (auto simp: runs_def with_admin_tx_def u in_tx_def commit_def Let_def
        split: prod.splits sum.splits if_splits fault.splits)
qed

section \<open>Relations between the database before and after\<close>

text \<open>
  \<open>keeps R m\<close>: whatever happens in \<open>m\<close>, an error included, the database it leaves is related by
  \<open>R\<close> to the one it found. The locale has the rules for any preorder \<open>R\<close> on databases; the
  components interpret it with the way their rows may evolve.
\<close>

definition keeps :: "(db \<Rightarrow> db \<Rightarrow> bool) \<Rightarrow> 'a act \<Rightarrow> bool" where
  "keeps R m \<longleftrightarrow> (\<forall>w. R (w_db w) (w_db (snd (m w))))"

lemma keepsD: "keeps R m \<Longrightarrow> m w = (r, w') \<Longrightarrow> R (w_db w) (w_db w')"
  by (metis keeps_def snd_conv)

locale db_preorder =
  fixes R :: "db \<Rightarrow> db \<Rightarrow> bool"
  assumes refl: "R d d" and trans: "R d d' \<Longrightarrow> R d' d'' \<Longrightarrow> R d d''"
begin

lemma keeps_pure [keeps_rules]:
  "keeps R (ret a)" "keeps R (fail e)" "keeps R ask_env" "keeps R (rand_int n)"
  "keeps R (rand_bytes n)" "keeps R time_Now" "keeps R (request e)"
  by (simp_all add: keeps_def ret_def fail_def ask_env_def rand_int_def rand_bytes_def
      time_Now_def request_def Let_def refl split: option.splits)

lemma keeps_bind [keeps_rules]:
  assumes "keeps R m" and "\<And>a. keeps R (f a)"
  shows "keeps R (bind m f)"
proof (unfold keeps_def, intro allI)
  fix w
  obtain x w1 where m: "m w = (x, w1)" by (cases "m w")
  with assms(1) have "R (w_db w) (w_db w1)" by (rule keepsD)
  then show "R (w_db w) (w_db (snd (bind m f w)))"
    using assms(2) m by (cases x) (auto simp: bind_def keeps_def intro: trans)
qed

lemma keeps_attempt [keeps_rules]: "keeps R m \<Longrightarrow> keeps R (attempt m)"
  by (simp add: keeps_def attempt_def case_prod_unfold)

lemma keeps_exec_stmt:
  assumes "\<And>w a d. f w = Inr (a, d) \<Longrightarrow> R (w_db w) d"
  shows "keeps R (exec_stmt f)"
  using assms by (auto simp: keeps_def exec_stmt_def Let_def refl split: sum.splits prod.splits)

lemma keeps_query [keeps_rules]: "keeps R (query f)"
  unfolding query_def by (rule keeps_exec_stmt) (auto simp: refl)

lemma keeps_query_at [keeps_rules]: "keeps R (query_at f)"
  unfolding query_at_def by (rule keeps_exec_stmt) (auto simp: refl)

lemma keeps_query_row [keeps_rules]: "keeps R (query_row f)"
  unfolding query_row_def
  by (intro keeps_bind keeps_query) (auto simp: keeps_pure split: option.splits)

text \<open>A statement after a read may rely on what was read.\<close>

lemma keeps_bind_query_row:
  assumes "\<And>a w. f (visible_db (w_role w) (w_db w)) = Some a \<Longrightarrow> R (w_db w) (w_db (snd (g a w)))"
  shows "keeps R (bind (query_row f) g)"
proof (unfold keeps_def, intro allI)
  fix w
  obtain r w1 where q: "query_row f w = (r, w1)" by (cases "query_row f w")
  note q' = query_row_result [OF q]
  show "R (w_db w) (w_db (snd (bind (query_row f) g w)))"
  proof (cases r)
    case (Inl e)
    with q q'(1) show ?thesis by (simp add: bind_def refl)
  next
    case (Inr a)
    with q'(5) have "f (visible_db (w_role w1) (w_db w1)) = Some a" by (simp add: q'(1,2))
    from assms [OF this] q q'(1) Inr show ?thesis by (simp add: bind_def)
  qed
qed

text \<open>The same where the code looks at the error of the read first.\<close>

lemma keeps_bind_attempt_query_row:
  assumes "\<And>e. keeps R (g (Inl e))"
    and "\<And>a w. f (visible_db (w_role w) (w_db w)) = Some a \<Longrightarrow> R (w_db w) (w_db (snd (g (Inr a) w)))"
  shows "keeps R (bind (attempt (query_row f)) g)"
proof (unfold keeps_def, intro allI)
  fix w
  obtain r w1 where q: "query_row f w = (r, w1)" by (cases "query_row f w")
  note q' = query_row_result [OF q]
  show "R (w_db w) (w_db (snd (bind (attempt (query_row f)) g w)))"
  proof (cases r)
    case (Inl e)
    with q q'(1) assms(1) [of e, unfolded keeps_def, rule_format, of w1] show ?thesis
      by (simp add: bind_def attempt_def)
  next
    case (Inr a)
    with q'(5) have "f (visible_db (w_role w1) (w_db w1)) = Some a" by (simp add: q'(1,2))
    from assms(2) [OF this] q q'(1) Inr show ?thesis by (simp add: bind_def attempt_def)
  qed
qed

lemma update_at:
  assumes "R (w_db w) (t_put T (updated T P f w) (w_db w))"
  shows "R (w_db w) (w_db (snd (exec_update T P f w)))"
  using exec_update_db [of T P f w] assms refl by metis

lemma keeps_update:
  assumes "\<And>Q n d. R d (t_put T (upd_where (\<lambda>r. Q r \<and> P r) (\<lambda>r. t_touch T n (f n r)) (t_rows T d)) d)"
  shows "keeps R (exec_update T P f)"
  unfolding exec_update_def
  by (rule keeps_exec_stmt) (auto simp: checked_def Let_def assms split: option.splits)

lemma keeps_insert:
  assumes "\<And>n i d. t_viol T (t_put T (t_rows T d @ [mk n i]) d) = None \<Longrightarrow> R d (t_put T (t_rows T d @ [mk n i]) d)"
  shows "keeps R (exec_insert T mk)"
  unfolding exec_insert_def
  by (rule keeps_exec_stmt) (auto simp: checked_def Let_def assms split: option.splits if_splits)

lemma keeps_insert_when:
  assumes "\<And>n i d. t_viol T (t_put T (t_rows T d @ [mk n i]) d) = None \<Longrightarrow> R d (t_put T (t_rows T d @ [mk n i]) d)"
  shows "keeps R (exec_insert_when T C mk)"
  unfolding exec_insert_when_def
  by (rule keeps_exec_stmt) (auto simp: checked_def Let_def assms refl split: option.splits if_splits)

lemma keeps_upsert:
  assumes "\<And>r d. R d (t_put T (t_rows T d @ [r]) d)"
    and "\<And>Q g d. R d (t_put T (upd_where Q g (t_rows T d)) d)"
  shows "keeps R (exec_upsert T key mk f)"
  unfolding exec_upsert_def
  by (rule keeps_exec_stmt) (auto simp: checked_def Let_def assms split: option.splits if_splits)

lemma keeps_delete:
  assumes "\<And>Q d. R d (t_put T (filter (\<lambda>r. \<not> (Q r \<and> P r)) (t_rows T d)) d)"
  shows "keeps R (exec_delete T P)"
  unfolding exec_delete_def
proof (rule keeps_exec_stmt)
  fix w a d
  let ?Q = "\<lambda>r. visible (w_role w) (t_plant T r)"
  assume "(let Q = \<lambda>r. ?Q r \<and> P r
      in checked T (count_where Q (t_rows T (w_db w)))
           (t_put T (filter (\<lambda>r. \<not> Q r) (t_rows T (w_db w))) (w_db w))) = Inr (a, d)"
  then have "d = t_put T (filter (\<lambda>r. \<not> (?Q r \<and> P r)) (t_rows T (w_db w))) (w_db w)"
    unfolding checked_def Let_def by (cases "t_viol T (t_put T (filter (\<lambda>r. \<not> (?Q r \<and> P r)) (t_rows T (w_db w))) (w_db w))") simp_all
  then show "R (w_db w) d"
    using assms [of "w_db w" ?Q] by (simp only:)
qed

text \<open>Statements on tables that the relation does not speak of.\<close>

lemma keeps_any:
  assumes "\<And>rs d. R d (t_put T rs d)"
  shows "keeps R (exec_update T P f)" "keeps R (exec_insert T mk)" "keeps R (exec_insert_when T C mk)"
    "keeps R (exec_upsert T key mk g)" "keeps R (exec_delete T P)"
  by (intro keeps_update keeps_insert keeps_insert_when keeps_upsert keeps_delete assms)+

lemma keeps_case_option [keeps_rules]:
  "keeps R m \<Longrightarrow> (\<And>a. keeps R (n a)) \<Longrightarrow> keeps R (case x of None \<Rightarrow> m | Some a \<Rightarrow> n a)"
  by (cases x) auto

lemma keeps_case_sum [keeps_rules]:
  "(\<And>e. keeps R (m e)) \<Longrightarrow> (\<And>a. keeps R (n a)) \<Longrightarrow> keeps R (case x of Inl e \<Rightarrow> m e | Inr a \<Rightarrow> n a)"
  by (cases x) auto

lemma keeps_case_prod [keeps_rules]:
  "(\<And>a b. keeps R (m a b)) \<Longrightarrow> keeps R (case x of (a, b) \<Rightarrow> m a b)"
  by (cases x) auto

lemma keeps_if [keeps_rules]: "keeps R m \<Longrightarrow> keeps R n \<Longrightarrow> keeps R (if c then m else n)"
  by simp

lemma keeps_WithTenant [keeps_rules]:
  assumes "keeps R fn"
  shows "keeps R (WithTenant p fn)"
proof (unfold keeps_def, intro allI)
  fix w
  obtain r w' where W: "WithTenant p fn w = (r, w')" by (cases "WithTenant p fn w")
  then show "R (w_db w) (w_db (snd (WithTenant p fn w)))"
  proof (cases rule: WithTenant_cases)
    case (rolled_back e)
    with W show ?thesis by (simp add: refl)
  next
    case (committed a w1 w2)
    with W keepsD [OF assms committed(5)] show ?thesis by simp
  qed
qed

lemma keeps_with_admin_tx [keeps_rules]:
  assumes "keeps R fn"
  shows "keeps R (with_admin_tx fn)"
proof -
  have in_tx: "w_db (in_tx r v) = w_db v" for r v by (simp add: in_tx_def)
  have "R (w_db v) (w_db v')" if "fn (in_tx r v) = (x, v')" for r v x v'
    using keepsD [OF assms that] by (simp add: in_tx)
  then show ?thesis
    by (auto simp: keeps_def with_admin_tx_def commit_def Let_def refl
        dest: request_db split: prod.splits sum.splits fault.splits) (metis request_db)+
qed

lemma keeps_on_admin_pool [keeps_rules]:
  assumes "keeps R m"
  shows "keeps R (on_admin_pool m)"
proof -
  have "R (w_db w) (w_db (snd (m (in_tx AdminRole w))))" for w
    using assms [unfolded keeps_def, rule_format, of "in_tx AdminRole w"] by (simp add: in_tx_def)
  then show ?thesis by (simp add: keeps_def on_admin_pool_def case_prod_unfold)
qed

end

end
