(* ===== verification/Redis.thy ===== *)
theory Redis
  imports Actions GoStrings
begin

text \<open>
  The Redis server as the code uses it through go-redis: a parameter \<open>rdb\<close>, which answers a
  command and moves on a state of its own. What the code relies on is the documented effect of
  the ten commands it sends, the function \<open>redis_doc\<close> on a store of values with their remaining
  lifetimes; \<open>redis_ok\<close> states that the server has it, an unanswered command being applied or
  not. Handlers run on a world paired with the server's state.
\<close>

section \<open>Commands\<close>

datatype cmd =
    GET string
  | SET string string time
  | SETNX string string time
  | INCR string
  | EXPIRE string time
  | DEL string
  | TTL string
  | EXISTS string
  | GETDEL string
  | PING

datatype reply = RNil | RStr string | RInt int | RBool bool | ROk

type_synonym 's redis = "cmd \<Rightarrow> 's \<Rightarrow> (go_err + reply) \<times> 's"

text \<open>A value, and its remaining lifetime if it has one.\<close>

type_synonym store = "string \<rightharpoonup> string \<times> time option"

definition redis_Nil :: go_err where
  "redis_Nil = Sentinel ''redis: nil''"

section \<open>What the commands do\<close>

definition digits_int :: "string \<Rightarrow> int" where
  "digits_int s = foldl (\<lambda>n c. n * 10 + int (byte c - 48)) 0 s"

definition counter_value :: "string \<Rightarrow> int option" where
  "counter_value v = (if v \<noteq> [] \<and> list_all is_digit v then Some (digits_int v) else None)"

text \<open>\<^verbatim>\<open>TTL\<close> answers in whole seconds, rounded; go-redis passes the codes -2 and -1 on.\<close>

definition ttl_reply :: "(string \<times> time option) option \<Rightarrow> int" where
  "ttl_reply e = (case e of None \<Rightarrow> - 2 | Some (v, None) \<Rightarrow> - 1
     | Some (v, Some r) \<Rightarrow> (r + 500000) div 1000000 * 1000000)"

fun redis_doc :: "cmd \<Rightarrow> store \<Rightarrow> (go_err + reply) \<times> store" where
  "redis_doc (GET k) m = (Inr (case m k of None \<Rightarrow> RNil | Some (v, r) \<Rightarrow> RStr v), m)"
| "redis_doc (SET k v t) m = (Inr ROk, m(k \<mapsto> (v, Some t)))"
| "redis_doc (SETNX k v t) m =
     (case m k of None \<Rightarrow> (Inr (RBool True), m(k \<mapsto> (v, Some t))) | Some e \<Rightarrow> (Inr (RBool False), m))"
| "redis_doc (INCR k) m =
     (case m k of None \<Rightarrow> (Inr (RInt 1), m(k \<mapsto> (''1'', None)))
      | Some (v, r) \<Rightarrow> (case counter_value v of None \<Rightarrow> (Inl DriverErr, m)
                       | Some n \<Rightarrow> (Inr (RInt (n + 1)), m(k \<mapsto> (itoa (n + 1), r)))))"
| "redis_doc (EXPIRE k t) m =
     (case m k of None \<Rightarrow> (Inr (RBool False), m) | Some (v, r) \<Rightarrow> (Inr (RBool True), m(k \<mapsto> (v, Some t))))"
| "redis_doc (DEL k) m = (Inr (RInt (if m k = None then 0 else 1)), m(k := None))"
| "redis_doc (TTL k) m = (Inr (RInt (ttl_reply (m k))), m)"
| "redis_doc (EXISTS k) m = (Inr (RInt (if m k = None then 0 else 1)), m)"
| "redis_doc (GETDEL k) m = (Inr (case m k of None \<Rightarrow> RNil | Some (v, r) \<Rightarrow> RStr v), m(k := None))"
| "redis_doc PING m = (Inr (RStr ''PONG''), m)"

text \<open>The passing of time: keys expire when their lifetime is used up.\<close>

definition elapse :: "time \<Rightarrow> store \<Rightarrow> store" where
  "elapse dt m = (\<lambda>k. case m k of None \<Rightarrow> None | Some (v, None) \<Rightarrow> Some (v, None)
     | Some (v, Some r) \<Rightarrow> if r \<le> dt then None else Some (v, Some (r - dt)))"

definition redis_ok :: "'s redis \<Rightarrow> ('s \<Rightarrow> store) \<Rightarrow> bool" where
  "redis_ok rdb view \<longleftrightarrow> (\<forall>c s. case rdb c s of
     (Inr r, s') \<Rightarrow> redis_doc c (view s) = (Inr r, view s')
   | (Inl e, s') \<Rightarrow> view s' = view s \<or> view s' = snd (redis_doc c (view s)))"

lemma redis_okD:
  "redis_ok rdb view \<Longrightarrow> rdb c s = (Inr r, s') \<Longrightarrow> redis_doc c (view s) = (Inr r, view s')"
  by (auto simp: redis_ok_def dest!: spec [of _ c] spec [of _ s])

lemma redis_ok_error:
  "redis_ok rdb view \<Longrightarrow> rdb c s = (Inl e, s') \<Longrightarrow> view s' = view s \<or> view s' = snd (redis_doc c (view s))"
  by (auto simp: redis_ok_def dest!: spec [of _ c] spec [of _ s])

text \<open>A server that holds the store itself and never fails.\<close>

definition memory_redis :: "store redis" where
  "memory_redis = redis_doc"

lemma memory_redis_ok: "redis_ok memory_redis (\<lambda>m. m)"
  by (auto simp: redis_ok_def memory_redis_def split: sum.splits option.splits prod.splits)

section \<open>Handlers' actions\<close>

type_synonym ('s, 'a) hact = "(world \<times> 's, 'a) sact"

definition db_act :: "'a act \<Rightarrow> ('s, 'a) hact" where
  "db_act m ws = (case m (fst ws) of (r, w') \<Rightarrow> (r, (w', snd ws)))"

definition send :: "'s redis \<Rightarrow> cmd \<Rightarrow> ('s, reply) hact" where
  "send rdb c ws = (case rdb c (snd ws) of (r, s') \<Rightarrow> (r, (fst ws, s')))"

text \<open>The typed results of go-redis.\<close>

definition as_string :: "reply \<Rightarrow> ('s, string) hact" where
  "as_string r = (case r of RStr v \<Rightarrow> ret v | RNil \<Rightarrow> fail redis_Nil | _ \<Rightarrow> fail DriverErr)"

definition as_int :: "reply \<Rightarrow> ('s, int) hact" where
  "as_int r = (case r of RInt n \<Rightarrow> ret n | _ \<Rightarrow> fail DriverErr)"

definition as_bool :: "reply \<Rightarrow> ('s, bool) hact" where
  "as_bool r = (case r of RBool b \<Rightarrow> ret b | _ \<Rightarrow> fail DriverErr)"

definition rGet :: "'s redis \<Rightarrow> string \<Rightarrow> ('s, string) hact" where
  "rGet rdb k = bind (send rdb (GET k)) as_string"
definition rGetDel :: "'s redis \<Rightarrow> string \<Rightarrow> ('s, string) hact" where
  "rGetDel rdb k = bind (send rdb (GETDEL k)) as_string"
definition rSet :: "'s redis \<Rightarrow> string \<Rightarrow> string \<Rightarrow> time \<Rightarrow> ('s, unit) hact" where
  "rSet rdb k v t = bind (send rdb (SET k v t)) (\<lambda>_. ret ())"
definition rSetNX :: "'s redis \<Rightarrow> string \<Rightarrow> string \<Rightarrow> time \<Rightarrow> ('s, bool) hact" where
  "rSetNX rdb k v t = bind (send rdb (SETNX k v t)) as_bool"
definition rIncr :: "'s redis \<Rightarrow> string \<Rightarrow> ('s, int) hact" where
  "rIncr rdb k = bind (send rdb (INCR k)) as_int"
definition rExpire :: "'s redis \<Rightarrow> string \<Rightarrow> time \<Rightarrow> ('s, bool) hact" where
  "rExpire rdb k t = bind (send rdb (EXPIRE k t)) as_bool"
definition rDel :: "'s redis \<Rightarrow> string \<Rightarrow> ('s, int) hact" where
  "rDel rdb k = bind (send rdb (DEL k)) as_int"
definition rTTL :: "'s redis \<Rightarrow> string \<Rightarrow> ('s, int) hact" where
  "rTTL rdb k = bind (send rdb (TTL k)) as_int"
definition rExists :: "'s redis \<Rightarrow> string \<Rightarrow> ('s, int) hact" where
  "rExists rdb k = bind (send rdb (EXISTS k)) as_int"

text \<open>A call whose result and error the code both drop.\<close>

definition ignore :: "('s, 'a) sact \<Rightarrow> ('s, unit) sact" where
  "ignore m = bind (attempt m) (\<lambda>_. ret ())"

section \<open>Their runs\<close>

lemma runs_db_act [run_simps]:
  "runs (db_act m) ws a ws' \<longleftrightarrow> runs m (fst ws) a (fst ws') \<and> snd ws' = snd ws"
  by (cases ws') (auto simp: runs_def db_act_def split: prod.splits)

lemma runs_send:
  "runs (send rdb c) ws r ws' \<longleftrightarrow> rdb c (snd ws) = (Inr r, snd ws') \<and> fst ws' = fst ws"
  by (cases ws') (auto simp: runs_def send_def split: prod.splits)

lemma runs_as [simp]:
  "runs (as_string r) ws v ws' \<longleftrightarrow> r = RStr v \<and> ws' = ws"
  "runs (as_int r) ws n ws' \<longleftrightarrow> r = RInt n \<and> ws' = ws"
  "runs (as_bool r) ws b ws' \<longleftrightarrow> r = RBool b \<and> ws' = ws"
  by (auto simp: as_string_def as_int_def as_bool_def run_simps split: reply.splits)

lemma runs_sent:
  assumes "redis_ok rdb view" "runs (bind (send rdb c) f) ws a ws'"
  obtains r ws1 where "redis_doc c (view (snd ws)) = (Inr r, view (snd ws1))" "fst ws1 = fst ws"
    "runs (f r) ws1 a ws'"
proof -
  from assms(2) obtain r ws1 where *: "rdb c (snd ws) = (Inr r, snd ws1)" "fst ws1 = fst ws" "runs (f r) ws1 a ws'"
    by (auto simp: runs_bind runs_send)
  show thesis by (rule that [OF redis_okD [OF assms(1) *(1)] *(2,3)])
qed

text \<open>What a successful call leaves in the store.\<close>

lemma runs_rGet:
  assumes "redis_ok rdb view" "runs (rGet rdb k) ws v ws'"
  shows "fst ws' = fst ws \<and> view (snd ws') = view (snd ws) \<and> (\<exists>r. view (snd ws) k = Some (v, r))"
  by (rule runs_sent [OF assms(1) assms(2) [unfolded rGet_def]]) (auto split: option.splits)

lemma runs_rGetDel:
  assumes "redis_ok rdb view" "runs (rGetDel rdb k) ws v ws'"
  shows "fst ws' = fst ws \<and> view (snd ws') = (view (snd ws))(k := None) \<and> (\<exists>r. view (snd ws) k = Some (v, r))"
  by (rule runs_sent [OF assms(1) assms(2) [unfolded rGetDel_def]]) (auto split: option.splits)

lemma runs_rSet:
  assumes "redis_ok rdb view" "runs (rSet rdb k v t) ws u ws'"
  shows "fst ws' = fst ws \<and> view (snd ws') = (view (snd ws))(k \<mapsto> (v, Some t))"
  by (rule runs_sent [OF assms(1) assms(2) [unfolded rSet_def]]) (auto simp: runs_ret)

lemma runs_rSetNX:
  assumes "redis_ok rdb view" "runs (rSetNX rdb k v t) ws b ws'"
  shows "fst ws' = fst ws \<and> b = (view (snd ws) k = None) \<and>
    view (snd ws') = (if b then (view (snd ws))(k \<mapsto> (v, Some t)) else view (snd ws))"
  by (rule runs_sent [OF assms(1) assms(2) [unfolded rSetNX_def]]) (auto split: option.splits)

lemma runs_rDel:
  assumes "redis_ok rdb view" "runs (rDel rdb k) ws n ws'"
  shows "fst ws' = fst ws \<and> view (snd ws') = (view (snd ws))(k := None)"
  by (rule runs_sent [OF assms(1) assms(2) [unfolded rDel_def]]) auto

lemma runs_rTTL:
  assumes "redis_ok rdb view" "runs (rTTL rdb k) ws n ws'"
  shows "fst ws' = fst ws \<and> view (snd ws') = view (snd ws) \<and> n = ttl_reply (view (snd ws) k)"
  by (rule runs_sent [OF assms(1) assms(2) [unfolded rTTL_def]]) auto

lemma runs_rExists:
  assumes "redis_ok rdb view" "runs (rExists rdb k) ws n ws'"
  shows "fst ws' = fst ws \<and> view (snd ws') = view (snd ws) \<and> n = (if view (snd ws) k = None then 0 else 1)"
  by (rule runs_sent [OF assms(1) assms(2) [unfolded rExists_def]]) auto

lemma runs_rExpire:
  assumes "redis_ok rdb view" "runs (rExpire rdb k t) ws b ws'"
  shows "fst ws' = fst ws \<and> (case view (snd ws) k of
     None \<Rightarrow> \<not> b \<and> view (snd ws') = view (snd ws)
   | Some (v, r) \<Rightarrow> b \<and> view (snd ws') = (view (snd ws))(k \<mapsto> (v, Some t)))"
  by (rule runs_sent [OF assms(1) assms(2) [unfolded rExpire_def]]) (auto split: option.splits)

lemma runs_rIncr:
  assumes "redis_ok rdb view" "runs (rIncr rdb k) ws n ws'"
  shows "fst ws' = fst ws \<and> (case view (snd ws) k of
     None \<Rightarrow> n = 1 \<and> view (snd ws') = (view (snd ws))(k \<mapsto> (''1'', None))
   | Some (v, r) \<Rightarrow> counter_value v = Some (n - 1) \<and> view (snd ws') = (view (snd ws))(k \<mapsto> (itoa n, r)))"
  by (rule runs_sent [OF assms(1) assms(2) [unfolded rIncr_def]]) (auto split: option.splits)

text \<open>Counters read back what they wrote.\<close>

lemma digits_int_snoc: "digits_int (s @ [c]) = digits_int s * 10 + int (byte c - 48)"
  by (simp add: digits_int_def)

lemma dec_of_digits: "dec_of n \<noteq> [] \<and> list_all is_digit (dec_of n) \<and> digits_int (dec_of n) = int n"
proof (induction n rule: dec_of.induct)
  case (1 n)
  show ?case
  proof (cases "n < 10")
    case True
    then have "dec_of n = [digit n]" by (subst dec_of.simps) simp
    with True show ?thesis by (simp add: digits_int_def byte_def)
  next
    case False
    with 1 have "dec_of (n div 10) \<noteq> [] \<and> list_all is_digit (dec_of (n div 10)) \<and>
        digits_int (dec_of (n div 10)) = int (n div 10)" by simp
    moreover have "dec_of n = dec_of (n div 10) @ [digit n]"
      using False by (subst dec_of.simps) simp
    moreover have "int (n div 10) * 10 + int (n mod 10) = int n"
      by (metis div_mult_mod_eq of_nat_add of_nat_mult of_nat_numeral)
    ultimately show ?thesis by (simp add: digits_int_snoc byte_def)
  qed
qed

lemma counter_value_itoa [simp]: "0 \<le> n \<Longrightarrow> counter_value (itoa n) = Some n"
  using dec_of_digits [of "nat n"] by (simp add: counter_value_def itoa_def)

lemma counter_value_one [simp]: "counter_value ''1'' = Some 1"
  by (simp add: counter_value_def is_digit_def digits_int_def byte_def)

end
