(* ===== verification/RateLimits.thy ===== *)
theory RateLimits
  imports Redis
begin

text \<open>
  The three rate limits on Redis: \<open>PINLimiter\<close> of \<^verbatim>\<open>internal/shifts/shifts.go\<close> (wrong PINs per
  member of staff), \<open>CodeStore\<close> of \<^verbatim>\<open>internal/receipts/receipts.go\<close> (one-time codes per plant and
  phone, with a cooldown on requests and a lockout on guesses) and \<open>checkIPRateLimit\<close> of
  \<^verbatim>\<open>cmd/server/accounts.go\<close>. Durations are in microseconds. What the first two have in common
  is the contract \<open>attempt_limiter\<close>: a counter of failures and a lock that it trips.
\<close>

section \<open>Durations\<close>

definition Second :: time where "Second = 1000000"
definition Minute :: time where "Minute = 60 * Second"
definition Hour :: time where "Hour = 60 * Minute"

lemmas duration_defs = Second_def Minute_def Hour_def

section \<open>The PIN limiter\<close>

definition MaxPINAttempts :: int where "MaxPINAttempts = 5"
definition LockoutTTL :: time where "LockoutTTL = 20 * Second"
definition attemptWindow :: time where "attemptWindow = 5 * Minute"

definition attemptsKey :: "env \<Rightarrow> uuid \<Rightarrow> string" where
  "attemptsKey v userID = ''pin_attempts:'' @ e_uuid_str v userID"

definition lockKey :: "env \<Rightarrow> uuid \<Rightarrow> string" where
  "lockKey v userID = ''pin_locked:'' @ e_uuid_str v userID"

definition Locked :: "'s redis \<Rightarrow> uuid \<Rightarrow> ('s, bool \<times> time) hact" where
  "Locked rdb userID =
     bind (db_act ask_env) (\<lambda>v.
     bind (rTTL rdb (lockKey v userID)) (\<lambda>ttl.
     if 0 < ttl then ret (True, ttl) else ret (False, 0)))"

definition RecordFailure :: "'s redis \<Rightarrow> uuid \<Rightarrow> ('s, unit) hact" where
  "RecordFailure rdb userID =
     bind (db_act ask_env) (\<lambda>v.
     let key = attemptsKey v userID in
     bind (rIncr rdb key) (\<lambda>n.
     bind (if n = 1 then bind (rExpire rdb key attemptWindow) (\<lambda>_. ret ()) else ret ()) (\<lambda>_.
     if MaxPINAttempts \<le> n
     then bind (rSet rdb (lockKey v userID) ''1'' LockoutTTL) (\<lambda>_. ignore (rDel rdb key))
     else ret ())))"

definition Reset :: "'s redis \<Rightarrow> uuid \<Rightarrow> ('s, unit) hact" where
  "Reset rdb userID =
     bind (db_act ask_env) (\<lambda>v. bind (rDel rdb (attemptsKey v userID)) (\<lambda>_. ret ()))"

section \<open>One-time codes\<close>

definition CodeTTL :: time where "CodeTTL = 10 * Minute"
definition MaxVerifyAttempts :: int where "MaxVerifyAttempts = 5"
definition VerifyLockoutTTL :: time where "VerifyLockoutTTL = 5 * Minute"
definition ResendCooldown :: time where "ResendCooldown = 60 * Second"

definition receipts_ErrLocked :: go_err where
  "receipts_ErrLocked = Sentinel ''receipts: too many attempts, try again later''"
definition ErrCooldown :: go_err where
  "ErrCooldown = Sentinel ''receipts: a code was already sent recently, wait before requesting another''"

definition codeKey :: "env \<Rightarrow> uuid \<Rightarrow> string \<Rightarrow> string" where
  "codeKey v plantID phone = ''receipt_code:'' @ e_uuid_str v plantID @ '':'' @ phone"
definition failKey :: "env \<Rightarrow> uuid \<Rightarrow> string \<Rightarrow> string" where
  "failKey v plantID phone = ''receipt_code_fail:'' @ e_uuid_str v plantID @ '':'' @ phone"
definition codeLockKey :: "env \<Rightarrow> uuid \<Rightarrow> string \<Rightarrow> string" where
  "codeLockKey v plantID phone = ''receipt_code_lock:'' @ e_uuid_str v plantID @ '':'' @ phone"
definition cooldownKey :: "env \<Rightarrow> uuid \<Rightarrow> string \<Rightarrow> string" where
  "cooldownKey v plantID phone = ''receipt_code_cooldown:'' @ e_uuid_str v plantID @ '':'' @ phone"

definition fmt06 :: "nat \<Rightarrow> string" where
  "fmt06 n = [digit (n div 100000), digit (n div 10000)] @ fmt04 n"

definition newCode :: "string act" where
  "newCode = bind (rand_int 1000000) (\<lambda>n. ret (fmt06 n))"

definition RequestCode :: "'s redis \<Rightarrow> uuid \<Rightarrow> string \<Rightarrow> ('s, string) hact" where
  "RequestCode rdb plantID phone =
     bind (db_act ask_env) (\<lambda>v.
     bind (rSetNX rdb (cooldownKey v plantID phone) ''1'' ResendCooldown) (\<lambda>acquired.
     if \<not> acquired then fail ErrCooldown
     else
       bind (db_act newCode) (\<lambda>code.
       bind (rSet rdb (codeKey v plantID phone) code CodeTTL) (\<lambda>_.
       ret code))))"

definition recordFailure :: "'s redis \<Rightarrow> uuid \<Rightarrow> string \<Rightarrow> ('s, unit) hact" where
  "recordFailure rdb plantID phone =
     bind (db_act ask_env) (\<lambda>v.
     let key = failKey v plantID phone in
     bind (rIncr rdb key) (\<lambda>n.
     bind (if n = 1 then bind (rExpire rdb key CodeTTL) (\<lambda>_. ret ()) else ret ()) (\<lambda>_.
     if MaxVerifyAttempts \<le> n then rSet rdb (codeLockKey v plantID phone) ''1'' VerifyLockoutTTL
     else ret ())))"

definition VerifyCode :: "'s redis \<Rightarrow> uuid \<Rightarrow> string \<Rightarrow> string \<Rightarrow> ('s, bool) hact" where
  "VerifyCode rdb plantID phone submitted =
     (if submitted = '''' then ret False
      else
        bind (db_act ask_env) (\<lambda>v.
        bind (rExists rdb (codeLockKey v plantID phone)) (\<lambda>locked.
        if 0 < locked then fail receipts_ErrLocked
        else
          bind (attempt (rGet rdb (codeKey v plantID phone))) (\<lambda>r.
          case r of
            Inl e \<Rightarrow> if errors_is e redis_Nil then ret False else fail e
          | Inr stored \<Rightarrow>
              if stored \<noteq> submitted
              then bind (ignore (recordFailure rdb plantID phone)) (\<lambda>_. ret False)
              else
                bind (ignore (rDel rdb (codeKey v plantID phone))) (\<lambda>_.
                bind (ignore (rDel rdb (failKey v plantID phone))) (\<lambda>_. ret True))))))"

section \<open>The limit per address\<close>

text \<open>The result is the pair that the function returns: allowed, and the error if there is one.\<close>

definition checkIPRateLimit ::
  "'s redis \<Rightarrow> string \<Rightarrow> string \<Rightarrow> int \<Rightarrow> time \<Rightarrow> ('s, bool \<times> go_err option) hact" where
  "checkIPRateLimit rdb keyPrefix ip maximum window =
     (let key = keyPrefix @ ip in
      bind (attempt (rIncr rdb key)) (\<lambda>r.
      case r of
        Inl e \<Rightarrow> ret (True, Some e)
      | Inr n \<Rightarrow>
          bind (attempt (if n = 1 then bind (rExpire rdb key window) (\<lambda>_. ret ()) else ret ())) (\<lambda>r.
          case r of Inl e \<Rightarrow> ret (True, Some e) | Inr _ \<Rightarrow> ret (n \<le> maximum, None))))"

section \<open>The contract of a limiter\<close>

text \<open>The number in a counter key, 0 when it is missing.\<close>

definition counted :: "store \<Rightarrow> string \<Rightarrow> int" where
  "counted m k = (case m k of None \<Rightarrow> 0
     | Some (v, r) \<Rightarrow> (case counter_value v of None \<Rightarrow> 0 | Some n \<Rightarrow> n))"

locale attempt_limiter =
  fixes failure :: "'s redis \<Rightarrow> ('s, unit) hact"
    and count :: "env \<Rightarrow> store \<Rightarrow> int" and locked :: "env \<Rightarrow> store \<Rightarrow> bool" and maximum :: int
  assumes same_world: "redis_ok rdb view \<Longrightarrow> runs (failure rdb) ws u ws' \<Longrightarrow> fst ws' = fst ws"
    and counts: "redis_ok rdb view \<Longrightarrow> runs (failure rdb) ws u ws' \<Longrightarrow>
      count (w_env (fst ws)) (view (snd ws)) + 1 < maximum \<Longrightarrow>
      count (w_env (fst ws)) (view (snd ws')) = count (w_env (fst ws)) (view (snd ws)) + 1"
    and locks: "redis_ok rdb view \<Longrightarrow> runs (failure rdb) ws u ws' \<Longrightarrow>
      maximum \<le> count (w_env (fst ws)) (view (snd ws)) + 1 \<Longrightarrow> locked (w_env (fst ws)) (view (snd ws'))"
begin

text \<open>\<open>n\<close> failures in a row.\<close>

fun failures :: "'s redis \<Rightarrow> nat \<Rightarrow> ('s, unit) hact" where
  "failures rdb 0 = ret ()"
| "failures rdb (Suc n) = bind (failures rdb n) (\<lambda>_. failure rdb)"

lemma failures_count:
  assumes "redis_ok rdb view" "runs (failures rdb n) ws u ws'"
    and "count (w_env (fst ws)) (view (snd ws)) + int n < maximum"
  shows "fst ws' = fst ws \<and>
    count (w_env (fst ws)) (view (snd ws')) = count (w_env (fst ws)) (view (snd ws)) + int n"
  using assms(2,3)
proof (induction n arbitrary: u ws')
  case 0
  then show ?case by (simp add: runs_ret)
next
  case (Suc n)
  from Suc.prems(1) obtain x w1 where 1: "runs (failures rdb n) ws x w1" "runs (failure rdb) w1 u ws'"
    by (auto simp: runs_bind)
  with Suc have "fst w1 = fst ws"
    "count (w_env (fst ws)) (view (snd w1)) = count (w_env (fst ws)) (view (snd ws)) + int n"
    by auto
  with same_world [OF assms(1) 1(2)] counts [OF assms(1) 1(2)] Suc.prems(2) show ?case by simp
qed

text \<open>A run of as many failures as the maximum ends locked.\<close>

lemma failures_lock:
  assumes "redis_ok rdb view" "runs (failures rdb n) ws u ws'" "0 < n"
    and "count (w_env (fst ws)) (view (snd ws)) + int n = maximum"
  shows "locked (w_env (fst ws)) (view (snd ws'))"
proof -
  obtain m where m: "n = Suc m" using assms(3) gr0_implies_Suc by blast
  with assms(2) obtain x w1 where 1: "runs (failures rdb m) ws x w1" "runs (failure rdb) w1 u ws'"
    by (auto simp: runs_bind)
  have "fst w1 = fst ws" "count (w_env (fst ws)) (view (snd w1)) + 1 = maximum"
    using failures_count [OF assms(1) 1(1)] assms(4) m by auto
  with locks [OF assms(1) 1(2)] show ?thesis by simp
qed

end

section \<open>Both limiters have it\<close>

lemma counted_incr:
  assumes "case m k of None \<Rightarrow> n = 1 \<and> m' = m(k \<mapsto> (''1'', None))
    | Some (v, r) \<Rightarrow> counter_value v = Some (n - 1) \<and> m' = m(k \<mapsto> (itoa n, r))"
  shows "n = counted m k + 1 \<and> 1 \<le> n \<and> counted m' k = n \<and> (\<forall>j. j \<noteq> k \<longrightarrow> m' j = m j)"
proof -
  have "0 \<le> c" if "counter_value v = Some c" for v c
  proof -
    have "0 \<le> foldl (\<lambda>n c. n * 10 + int (byte c - 48)) a v" if "0 \<le> a" for a :: int
      using that by (induction v arbitrary: a) auto
    with that show ?thesis by (auto simp: counter_value_def digits_int_def split: if_splits)
  qed
  then show ?thesis
    using assms by (force simp: counted_def split: option.splits prod.splits)
qed

lemma runs_count_and_lock:
  assumes "redis_ok rdb view"
    and "runs (bind (rIncr rdb key) (\<lambda>n.
       bind (if n = 1 then bind (rExpire rdb key window) (\<lambda>_. ret ()) else ret ()) (\<lambda>_. g n))) ws u ws'"
  obtains n ws1 where "runs (g n) ws1 u ws'" "fst ws1 = fst ws" "n = counted (view (snd ws)) key + 1"
    "counted (view (snd ws1)) key = n" "1 \<le> n"
proof -
  from assms(2) obtain n w1 x w2 where 1: "runs (rIncr rdb key) ws n w1"
    "runs (if n = 1 then bind (rExpire rdb key window) (\<lambda>_. ret ()) else ret ()) w1 x w2" "runs (g n) w2 u ws'"
    by (auto simp: runs_bind)
  from runs_rIncr [OF assms(1) 1(1)] have f1: "fst w1 = fst ws"
    and n: "n = counted (view (snd ws)) key + 1 \<and> 1 \<le> n \<and> counted (view (snd w1)) key = n \<and>
      (\<forall>j. j \<noteq> key \<longrightarrow> view (snd w1) j = view (snd ws) j)"
    using counted_incr by blast+
  have "fst w2 = fst w1 \<and> counted (view (snd w2)) key = counted (view (snd w1)) key"
  proof (cases "n = 1")
    case True
    with 1(2) obtain b where "runs (rExpire rdb key window) w1 b w2" by (auto simp: run_simps)
    from runs_rExpire [OF assms(1) this] show ?thesis
      by (auto simp: counted_def split: option.splits)
  next
    case False
    with 1(2) show ?thesis by (simp add: runs_ret)
  qed
  with f1 n show thesis by (intro that [OF 1(3)]) auto
qed

lemma runs_ignore_del:
  assumes "redis_ok rdb view" "runs (ignore (rDel rdb k)) ws u ws'" "j \<noteq> k"
  shows "fst ws' = fst ws \<and> view (snd ws') j = view (snd ws) j"
proof -
  obtain r s' where r: "rdb (DEL k) (snd ws) = (r, s')" by (cases "rdb (DEL k) (snd ws)")
  with assms(2) have "fst ws' = fst ws" "snd ws' = s'"
    by (auto simp: ignore_def rDel_def runs_def bind_def attempt_def send_def ret_def as_int_def fail_def
        split: sum.splits prod.splits reply.splits)
  moreover have "view s' j = view (snd ws) j"
  proof (cases r)
    case (Inl e)
    with redis_ok_error [OF assms(1)] r have "view s' = view (snd ws) \<or> view s' = snd (redis_doc (DEL k) (view (snd ws)))"
      by blast
    with assms(3) show ?thesis by auto
  next
    case (Inr x)
    with redis_okD [OF assms(1)] r have "redis_doc (DEL k) (view (snd ws)) = (Inr x, view s')" by blast
    then have "view s' = (view (snd ws))(k := None)" by simp
    with assms(3) show ?thesis by simp
  qed
  ultimately show ?thesis by simp
qed

definition pin_locked :: "uuid \<Rightarrow> env \<Rightarrow> store \<Rightarrow> bool" where
  "pin_locked userID v m \<longleftrightarrow> (\<exists>x. m (lockKey v userID) = Some (x, Some LockoutTTL))"

definition code_locked :: "uuid \<Rightarrow> string \<Rightarrow> env \<Rightarrow> store \<Rightarrow> bool" where
  "code_locked plantID phone v m \<longleftrightarrow> (\<exists>x. m (codeLockKey v plantID phone) = Some (x, Some VerifyLockoutTTL))"

lemma RecordFailure_effect:
  assumes "redis_ok rdb view" "runs (RecordFailure rdb userID) ws u ws'"
  shows "fst ws' = fst ws \<and>
    (let v = w_env (fst ws); n = counted (view (snd ws)) (attemptsKey v userID) + 1 in
     if MaxPINAttempts \<le> n then pin_locked userID v (view (snd ws'))
     else counted (view (snd ws')) (attemptsKey v userID) = n)"
proof -
  let ?v = "w_env (fst ws)"
  from assms(2) have "runs (bind (rIncr rdb (attemptsKey ?v userID)) (\<lambda>n.
       bind (if n = 1 then bind (rExpire rdb (attemptsKey ?v userID) attemptWindow) (\<lambda>_. ret ()) else ret ()) (\<lambda>_.
       if MaxPINAttempts \<le> n
       then bind (rSet rdb (lockKey ?v userID) ''1'' LockoutTTL) (\<lambda>_. ignore (rDel rdb (attemptsKey ?v userID)))
       else ret ()))) ws u ws'"
    by (auto simp: RecordFailure_def runs_bind [of "db_act ask_env"] runs_db_act runs_ask_env Let_def prod_eq_iff)
  then obtain n w1 where g: "runs (if MaxPINAttempts \<le> n
       then bind (rSet rdb (lockKey ?v userID) ''1'' LockoutTTL) (\<lambda>_. ignore (rDel rdb (attemptsKey ?v userID)))
       else ret ()) w1 u ws'" "fst w1 = fst ws" "n = counted (view (snd ws)) (attemptsKey ?v userID) + 1"
      "counted (view (snd w1)) (attemptsKey ?v userID) = n"
    by (rule runs_count_and_lock [OF assms(1)])
  show ?thesis
  proof (cases "MaxPINAttempts \<le> n")
    case False
    with g show ?thesis by (simp add: runs_ret)
  next
    case True
    with g(1) obtain y w2 where 2: "runs (rSet rdb (lockKey ?v userID) ''1'' LockoutTTL) w1 y w2"
      "runs (ignore (rDel rdb (attemptsKey ?v userID))) w2 u ws'"
      by (auto simp: runs_bind)
    have "lockKey ?v userID \<noteq> attemptsKey ?v userID" by (simp add: lockKey_def attemptsKey_def)
    from runs_ignore_del [OF assms(1) 2(2) this] runs_rSet [OF assms(1) 2(1)] g True show ?thesis
      by (auto simp: pin_locked_def Let_def)
  qed
qed

interpretation pin_limit: attempt_limiter "\<lambda>rdb. RecordFailure rdb userID"
    "\<lambda>v m. counted m (attemptsKey v userID)" "pin_locked userID" MaxPINAttempts for userID
  by unfold_locales (auto dest!: RecordFailure_effect simp: Let_def)

lemma recordFailure_effect:
  assumes "redis_ok rdb view" "runs (recordFailure rdb plantID phone) ws u ws'"
  shows "fst ws' = fst ws \<and>
    (let v = w_env (fst ws); n = counted (view (snd ws)) (failKey v plantID phone) + 1 in
     if MaxVerifyAttempts \<le> n then code_locked plantID phone v (view (snd ws'))
     else counted (view (snd ws')) (failKey v plantID phone) = n)"
proof -
  let ?v = "w_env (fst ws)"
  let ?k = "failKey ?v plantID phone"
  from assms(2) have "runs (bind (rIncr rdb ?k) (\<lambda>n.
       bind (if n = 1 then bind (rExpire rdb ?k CodeTTL) (\<lambda>_. ret ()) else ret ()) (\<lambda>_.
       if MaxVerifyAttempts \<le> n then rSet rdb (codeLockKey ?v plantID phone) ''1'' VerifyLockoutTTL else ret ()))) ws u ws'"
    by (auto simp: recordFailure_def runs_bind [of "db_act ask_env"] runs_db_act runs_ask_env Let_def prod_eq_iff)
  then obtain n w1 where g: "runs (if MaxVerifyAttempts \<le> n
       then rSet rdb (codeLockKey ?v plantID phone) ''1'' VerifyLockoutTTL else ret ()) w1 u ws'"
      "fst w1 = fst ws" "n = counted (view (snd ws)) ?k + 1" "counted (view (snd w1)) ?k = n"
    by (rule runs_count_and_lock [OF assms(1)])
  show ?thesis
  proof (cases "MaxVerifyAttempts \<le> n")
    case False
    with g show ?thesis by (simp add: runs_ret)
  next
    case True
    with g(1) have "runs (rSet rdb (codeLockKey ?v plantID phone) ''1'' VerifyLockoutTTL) w1 u ws'" by simp
    from runs_rSet [OF assms(1) this] g True show ?thesis
      by (auto simp: code_locked_def Let_def)
  qed
qed

interpretation code_limit: attempt_limiter "\<lambda>rdb. recordFailure rdb plantID phone"
    "\<lambda>v m. counted m (failKey v plantID phone)" "code_locked plantID phone" MaxVerifyAttempts
    for plantID phone
  by unfold_locales (auto dest!: recordFailure_effect simp: Let_def)

end
