(* ===== verification/AuditLog.thy ===== *)
theory AuditLog
  imports Actions
begin

text \<open>
  \<^verbatim>\<open>internal/audit/audit.go\<close>: \<open>Log\<close> appends one row to the activity log, in the transaction of
  the write that it records. The detail object keeps its fields in the order the code names
  them; \<^verbatim>\<open>json.Marshal\<close> cannot fail on the values the code puts there. The log's interface to
  its clients is the locale \<open>append_only\<close>: a log that is only ever appended to.
\<close>

definition Log :: "uuid option \<Rightarrow> uuid option \<Rightarrow> string \<Rightarrow> string \<Rightarrow> (string \<times> detail_value) list \<Rightarrow> unit act"
  where
  "Log plantID actorID action subject detail =
     bind (exec_insert log_tab (\<lambda>now i.
       \<lparr>al_ID = i, al_PlantID = plantID, al_ActorID = actorID, al_Action = action,
        al_Subject = Some subject, al_Detail = detail, al_CreatedAt = now\<rparr>)) (\<lambda>_. ret ())"

lemma writes_own_Log [tenant_rules]: "writes_own p (Log q a act s d)"
  unfolding Log_def by (intro tenant_rules)

section \<open>Tables that only grow\<close>

text \<open>One table's rows are a prefix of what they become.\<close>

definition grows :: "'r tab \<Rightarrow> db \<Rightarrow> db \<Rightarrow> bool" where
  "grows T d d' \<longleftrightarrow> (\<exists>new. t_rows T d' = t_rows T d @ new)"

locale append_only =
  fixes T :: "'r tab"
  assumes read_back: "t_rows T (t_put T rs d) = rs"

sublocale append_only \<subseteq> db_preorder "grows T"
  by unfold_locales (auto simp: grows_def)

context append_only
begin

lemma keeps_own_insert: "keeps (grows T) (exec_insert T mk)"
  by (rule keeps_insert) (auto simp: grows_def read_back)

lemma keeps_own_insert_when: "keeps (grows T) (exec_insert_when T C mk)"
  by (rule keeps_insert_when) (auto simp: grows_def read_back)

text \<open>Statements on other tables do not touch it.\<close>

lemma other:
  assumes "\<And>rs d. t_rows T (t_put U rs d) = t_rows T d"
  shows "keeps (grows T) (exec_update U P f)" "keeps (grows T) (exec_insert U mk)"
    "keeps (grows T) (exec_insert_when U C mk)" "keeps (grows T) (exec_upsert U key mk g)"
    "keeps (grows T) (exec_delete U P)"
  by (intro keeps_any; simp add: grows_def assms)+

end

interpretation log_grows: append_only log_tab
  by unfold_locales simp

interpretation prices_grow: append_only prices_tab
  by unfold_locales simp

interpretation cash_grows: append_only cash_tab
  by unfold_locales simp

lemmas grows_own [keeps_rules] = log_grows.keeps_own_insert prices_grow.keeps_own_insert
  cash_grows.keeps_own_insert

lemmas log_grows_other [keeps_rules] =
  log_grows.other [of plants_tab, simplified]
  log_grows.other [of users_tab, simplified]
  log_grows.other [of prices_tab, simplified]
  log_grows.other [of shifts_tab, simplified]
  log_grows.other [of tickets_tab, simplified]
  log_grows.other [of cash_tab, simplified]
  log_grows.other [of pumps_tab, simplified]
  log_grows.other [of hours_tab, simplified]
  log_grows.other [of reviews_tab, simplified]

lemmas prices_grow_other [keeps_rules] =
  prices_grow.other [of plants_tab, simplified]
  prices_grow.other [of users_tab, simplified]
  prices_grow.other [of shifts_tab, simplified]
  prices_grow.other [of tickets_tab, simplified]
  prices_grow.other [of cash_tab, simplified]
  prices_grow.other [of log_tab, simplified]
  prices_grow.other [of pumps_tab, simplified]
  prices_grow.other [of hours_tab, simplified]
  prices_grow.other [of reviews_tab, simplified]

lemmas cash_grows_other [keeps_rules] =
  cash_grows.other [of plants_tab, simplified]
  cash_grows.other [of users_tab, simplified]
  cash_grows.other [of prices_tab, simplified]
  cash_grows.other [of shifts_tab, simplified]
  cash_grows.other [of tickets_tab, simplified]
  cash_grows.other [of log_tab, simplified]
  cash_grows.other [of pumps_tab, simplified]
  cash_grows.other [of hours_tab, simplified]
  cash_grows.other [of reviews_tab, simplified]

lemma keeps_log_Log [keeps_rules]:
  "keeps (grows log_tab) (Log q a act s d)" "keeps (grows prices_tab) (Log q a act s d)"
  "keeps (grows cash_tab) (Log q a act s d)"
  unfolding Log_def by (intro keeps_rules)+

end
