(* ===== verification/Reviews.thy ===== *)
theory Reviews
  imports Complex_Main AuditLog GoStrings
begin

text \<open>
  \<^verbatim>\<open>internal/reviews/reviews.go\<close>: one review request per ticket, found again or created with a
  fresh token, its submission, and the lists and averages of the submitted ones. The average is
  the exact one of the database's \<^verbatim>\<open>numeric\<close> type, before it is rounded into a float64.
\<close>

section \<open>Tokens\<close>

text \<open>\<^verbatim>\<open>base64.RawURLEncoding\<close>: no padding, and \<^verbatim>\<open>-\<close> and \<^verbatim>\<open>_\<close> for the last two digits.\<close>

definition base64_digit :: "nat \<Rightarrow> char" where
  "base64_digit n = (let k = n mod 64 in
     if k < 26 then char_of (65 + k) else if k < 52 then char_of (71 + k)
     else if k < 62 then char_of (k - 4) else if k = 62 then CHR ''-'' else CHR ''_'')"

fun base64url :: "nat list \<Rightarrow> string" where
  "base64url [] = ''''"
| "base64url [a] = [base64_digit (a div 4), base64_digit (a * 16)]"
| "base64url [a, b] = [base64_digit (a div 4), base64_digit (a * 16 + b div 16), base64_digit (b * 4)]"
| "base64url (a # b # c # r) =
     [base64_digit (a div 4), base64_digit (a * 16 + b div 16), base64_digit (b * 4 + c div 64),
      base64_digit c] @ base64url r"

definition newToken :: "nat \<Rightarrow> string act" where
  "newToken n = bind (rand_bytes n) (\<lambda>b. ret (base64url b))"

section \<open>Requests\<close>

definition reviews_ErrNotFound :: go_err where
  "reviews_ErrNotFound = Sentinel ''reviews: not found''"
definition ErrAlreadySubmitted :: go_err where
  "ErrAlreadySubmitted = Sentinel ''reviews: already submitted''"
definition ErrInvalidRating :: go_err where
  "ErrInvalidRating = Sentinel ''reviews: rating must be between 1 and 5''"

record Request =
  rq_ID :: uuid
  rq_Token :: string
  rq_TicketID :: uuid

definition new_review :: "uuid \<Rightarrow> uuid \<Rightarrow> string \<Rightarrow> time \<Rightarrow> uuid \<Rightarrow> review_row" where
  "new_review plantID ticketID token now i =
     \<lparr>rv_ID = i, rv_PlantID = plantID, rv_TicketID = ticketID, rv_Token = token, rv_Rating = None,
      rv_Note = None, rv_RequestedAt = now, rv_SubmittedAt = None\<rparr>"

definition select_request :: "uuid \<Rightarrow> uuid \<Rightarrow> Request act" where
  "select_request plantID ticketID =
     query_row (\<lambda>d. map_option (\<lambda>r. \<lparr>rq_ID = rv_ID r, rq_Token = rv_Token r, rq_TicketID = ticketID\<rparr>)
       (first_row (\<lambda>r. rv_PlantID r = plantID \<and> rv_TicketID r = ticketID) (db_reviews d)))"

fun request_attempts :: "uuid \<Rightarrow> uuid \<Rightarrow> nat \<Rightarrow> (Request \<times> bool) act" where
  "request_attempts plantID ticketID 0 =
     fail (ErrorString ''reviews: could not allocate unique token'')"
| "request_attempts plantID ticketID (Suc n) =
     bind (newToken 24) (\<lambda>token.
     bind (attempt (exec_insert_when reviews_tab
       (\<lambda>v d r. \<forall>x \<in> set (db_reviews d). (rv_PlantID x, rv_TicketID x) \<noteq> (rv_PlantID r, rv_TicketID r))
       (new_review plantID ticketID token))) (\<lambda>r.
     case r of
       Inr (Some row) \<Rightarrow> ret (\<lparr>rq_ID = rv_ID row, rq_Token = token, rq_TicketID = ticketID\<rparr>, True)
     | Inr None \<Rightarrow> bind (select_request plantID ticketID) (\<lambda>q. ret (q, False))
     | Inl e \<Rightarrow> if isUniqueViolation e then request_attempts plantID ticketID n else fail e))"

definition EnsureRequest :: "uuid \<Rightarrow> uuid \<Rightarrow> (Request \<times> bool) act" where
  "EnsureRequest plantID ticketID =
     bind (attempt (select_request plantID ticketID)) (\<lambda>r.
     case r of
       Inr q \<Rightarrow> ret (q, False)
     | Inl e \<Rightarrow> if \<not> errors_is e ErrNoRows then fail e else request_attempts plantID ticketID 5)"

record Target =
  tg_Token :: string
  tg_TicketID :: uuid
  tg_TicketReference :: string
  tg_Rating :: "int option"
  tg_Note :: string
  tg_SubmittedAt :: "time option"

definition note_text :: "string option \<Rightarrow> string" where
  "note_text n = (case n of None \<Rightarrow> '''' | Some s \<Rightarrow> s)"

text \<open>The inner join with \<^verbatim>\<open>tickets\<close>.\<close>

definition review_ticket :: "db \<Rightarrow> review_row \<Rightarrow> ticket option" where
  "review_ticket d r = first_row (\<lambda>t. tk_ID t = rv_TicketID r \<and> tk_PlantID t = rv_PlantID r) (db_tickets d)"

definition GetTarget :: "uuid \<Rightarrow> string \<Rightarrow> Target act" where
  "GetTarget plantID token0 =
     (let token = TrimSpace token0 in
      if token = '''' then fail reviews_ErrNotFound
      else
        bind (attempt (query_row (\<lambda>d. first_row (\<lambda>x. True)
          (List.map_filter (\<lambda>r. map_option (\<lambda>t. (r, t)) (review_ticket d r))
            (filter (\<lambda>r. rv_PlantID r = plantID \<and> rv_Token r = token) (db_reviews d)))))) (\<lambda>res.
        case res of
          Inl e \<Rightarrow> fail (if errors_is e ErrNoRows then reviews_ErrNotFound else e)
        | Inr (r, t) \<Rightarrow> ret \<lparr>tg_Token = rv_Token r, tg_TicketID = rv_TicketID r,
            tg_TicketReference = tk_Reference t, tg_Rating = rv_Rating r, tg_Note = note_text (rv_Note r),
            tg_SubmittedAt = rv_SubmittedAt r\<rparr>))"

definition Submit :: "uuid \<Rightarrow> string \<Rightarrow> int \<Rightarrow> string \<Rightarrow> unit act" where
  "Submit plantID token rating note0 =
     (if rating < 1 \<or> 5 < rating then fail ErrInvalidRating
      else
        let note = TrimSpace note0 in
        bind (exec_update reviews_tab
          (\<lambda>r. rv_PlantID r = plantID \<and> rv_Token r = TrimSpace token \<and> rv_SubmittedAt r = None)
          (\<lambda>now r. r\<lparr>rv_Rating := Some rating, rv_Note := (if note = '''' then None else Some note),
                     rv_SubmittedAt := Some now\<rparr>)) (\<lambda>rs.
        if rs = []
        then bind (GetTarget plantID token) (\<lambda>t.
             if tg_SubmittedAt t \<noteq> None then fail ErrAlreadySubmitted else fail reviews_ErrNotFound)
        else ret ()))"

section \<open>Lists and averages\<close>

record Row =
  rw_ID :: uuid
  rw_TicketReference :: string
  rw_CustomerPhone :: string
  rw_Rating :: int
  rw_Note :: string
  rw_SubmittedAt :: time

definition reviews_List :: "uuid \<Rightarrow> int \<Rightarrow> Row list act" where
  "reviews_List plantID limit0 =
     (let limit = (if limit0 \<le> 0 then 25 else nat limit0) in
      query (\<lambda>d. map (\<lambda>(r, t). \<lparr>rw_ID = rv_ID r, rw_TicketReference = tk_Reference t,
          rw_CustomerPhone = note_text (tk_CustomerPhone t), rw_Rating = the (rv_Rating r),
          rw_Note = note_text (rv_Note r), rw_SubmittedAt = the (rv_SubmittedAt r)\<rparr>)
        (take limit (sort_key (\<lambda>(r, t). - the (rv_SubmittedAt r))
          (List.map_filter (\<lambda>r. map_option (\<lambda>t. (r, t)) (review_ticket d r))
            (filter (\<lambda>r. rv_PlantID r = plantID \<and> rv_SubmittedAt r \<noteq> None) (db_reviews d)))))))"

definition Stats :: "uuid \<Rightarrow> (nat \<times> rat) act" where
  "Stats plantID =
     query (\<lambda>d. let rs = filter (\<lambda>r. rv_PlantID r = plantID \<and> rv_SubmittedAt r \<noteq> None) (db_reviews d);
                    rated = List.map_filter rv_Rating rs
                in (length rs, if rated = [] then 0
                               else of_int (sum_list rated) / of_nat (length rated)))"

end
