(* ===== verification/Sessions.thy ===== *)
theory Sessions
  imports RateLimits Reviews
begin

text \<open>
  Login sessions (\<^verbatim>\<open>internal/session\<close>: the store on Redis and the cookies) and password-reset
  tokens (\<^verbatim>\<open>internal/passwordreset\<close>). The JSON form of a session is a parameter, the pair
  \<open>codec\<close>; the code relies on reading back what it wrote, which \<^verbatim>\<open>encoding/json\<close> promises of
  texts in UTF-8 (\<open>codec_ok\<close>): other bytes are replaced, and an instant outside the years 0 to
  9999 is refused by \<^verbatim>\<open>Marshal\<close>. Both stores have the
  contract \<open>token_store\<close>: what is issued under a token is found there, and no other token is
  touched.
\<close>

section \<open>Sessions\<close>

record Data =
  sd_UserID :: string
  sd_Role :: string
  sd_Name :: string
  sd_PlantID :: string
  sd_ShiftID :: string
  sd_PumpID :: string
  sd_Phone :: string
  sd_CanEditPrice :: bool
  sd_CanManageStaff :: bool
  sd_CanManagePumps :: bool
  sd_CreatedAt :: time

record codec =
  jc_Marshal :: "Data \<Rightarrow> string option"
  jc_Unmarshal :: "string \<Rightarrow> Data option"

text \<open>Bytes that are a sequence of well-formed runes, and a session all of whose texts are.\<close>

fun utf8_valid :: "string \<Rightarrow> bool" where
  "utf8_valid [] = True"
| "utf8_valid (c # s) = (rune_width (c # s) \<noteq> 0 \<and> utf8_valid (drop (rune_width (c # s) - 1) s))"

definition utf8_texts :: "Data \<Rightarrow> bool" where
  "utf8_texts d \<longleftrightarrow> list_all utf8_valid
     [sd_UserID d, sd_Role d, sd_Name d, sd_PlantID d, sd_ShiftID d, sd_PumpID d, sd_Phone d]"

definition codec_ok :: "codec \<Rightarrow> bool" where
  "codec_ok jc \<longleftrightarrow> (\<forall>d b. jc_Marshal jc d = Some b \<and> utf8_texts d \<longrightarrow> jc_Unmarshal jc b = Some d)"

definition session_ErrNotFound :: go_err where
  "session_ErrNotFound = Sentinel ''session: not found''"

definition keyPrefix :: string where "keyPrefix = ''session:''"
definition OwnerTTL :: time where "OwnerTTL = 12 * Hour"
definition StaffBackstopTTL :: time where "StaffBackstopTTL = 24 * Hour"
definition ReceiptSessionTTL :: time where "ReceiptSessionTTL = 30 * Minute"

definition session_Create :: "'s redis \<Rightarrow> codec \<Rightarrow> Data \<Rightarrow> time \<Rightarrow> ('s, string) hact" where
  "session_Create rdb jc data ttl =
     bind (db_act (newToken 32)) (\<lambda>token.
     bind (db_act time_Now) (\<lambda>now.
     (case jc_Marshal jc (data\<lparr>sd_CreatedAt := now\<rparr>) of
        None \<Rightarrow> fail DriverErr
      | Some b \<Rightarrow> bind (rSet rdb (keyPrefix @ token) b ttl) (\<lambda>_. ret token))))"

definition session_Load :: "'s redis \<Rightarrow> codec \<Rightarrow> string \<Rightarrow> ('s, Data) hact" where
  "session_Load rdb jc token =
     bind (attempt (rGet rdb (keyPrefix @ token))) (\<lambda>r.
     case r of
       Inl e \<Rightarrow> fail (if errors_is e redis_Nil then session_ErrNotFound else e)
     | Inr b \<Rightarrow> (case jc_Unmarshal jc b of None \<Rightarrow> fail DriverErr | Some d \<Rightarrow> ret d))"

definition session_Touch :: "'s redis \<Rightarrow> string \<Rightarrow> time \<Rightarrow> ('s, unit) hact" where
  "session_Touch rdb token ttl =
     bind (rExpire rdb (keyPrefix @ token) ttl) (\<lambda>ok.
     if \<not> ok then fail session_ErrNotFound else ret ())"

definition session_SetShift :: "'s redis \<Rightarrow> codec \<Rightarrow> string \<Rightarrow> string \<Rightarrow> ('s, unit) hact" where
  "session_SetShift rdb jc token shiftID =
     bind (session_Load rdb jc token) (\<lambda>data.
     (case jc_Marshal jc (data\<lparr>sd_ShiftID := shiftID\<rparr>) of
        None \<Rightarrow> fail DriverErr
      | Some b \<Rightarrow> rSet rdb (keyPrefix @ token) b StaffBackstopTTL))"

definition session_Delete :: "'s redis \<Rightarrow> string \<Rightarrow> ('s, unit) hact" where
  "session_Delete rdb token = bind (rDel rdb (keyPrefix @ token)) (\<lambda>_. ret ())"

section \<open>Cookies\<close>

datatype same_site = SameSiteLaxMode | SameSiteStrictMode

record cookie =
  ck_Name :: string
  ck_Value :: string
  ck_Path :: string
  ck_Domain :: string
  ck_HttpOnly :: bool
  ck_Secure :: bool
  ck_SameSite :: same_site
  ck_MaxAge :: int

definition CookieOwner :: string where "CookieOwner = ''gtg_owner_session''"
definition CookieAdmin :: string where "CookieAdmin = ''gtg_admin_session''"
definition CookieStaff :: string where "CookieStaff = ''gtg_staff_session''"
definition CookieReceipts :: string where "CookieReceipts = ''gtg_receipts_session''"
definition legacyCookieName :: string where "legacyCookieName = ''gtg_session''"

definition SecureCookies :: "string \<Rightarrow> bool" where
  "SecureCookies APP_ENV \<longleftrightarrow> APP_ENV \<noteq> ''development''"

definition setSessionCookie :: "string \<Rightarrow> string \<Rightarrow> string \<Rightarrow> int \<Rightarrow> cookie" where
  "setSessionCookie APP_ENV name value maxAge =
     \<lparr>ck_Name = name, ck_Value = value, ck_Path = ''/'', ck_Domain = '''', ck_HttpOnly = True,
      ck_Secure = SecureCookies APP_ENV, ck_SameSite = SameSiteLaxMode, ck_MaxAge = maxAge\<rparr>"

text \<open>The \<^verbatim>\<open>Set-Cookie\<close> headers, in order.\<close>

definition WriteCookie :: "string \<Rightarrow> string \<Rightarrow> string \<Rightarrow> time \<Rightarrow> cookie list" where
  "WriteCookie APP_ENV kind token ttl =
     [setSessionCookie APP_ENV kind token (ttl div Second),
      setSessionCookie APP_ENV legacyCookieName '''' (- 1)]"

definition ClearCookie :: "string \<Rightarrow> string \<Rightarrow> cookie list" where
  "ClearCookie APP_ENV kind =
     [setSessionCookie APP_ENV kind '''' (- 1), setSessionCookie APP_ENV legacyCookieName '''' (- 1)]"

text \<open>The request's cookies as pairs of a name and a value; \<^verbatim>\<open>r.Cookie\<close> takes the first.\<close>

definition ReadCookie :: "(string \<times> string) list \<Rightarrow> string \<Rightarrow> string option" where
  "ReadCookie cookies kind =
     (case first_row (\<lambda>c. fst c = kind) cookies of
        None \<Rightarrow> None | Some c \<Rightarrow> if snd c = '''' then None else Some (snd c))"

section \<open>Password-reset tokens\<close>

definition reset_TTL :: time where "reset_TTL = 1 * Hour"
definition reset_keyPrefix :: string where "reset_keyPrefix = ''password_reset:''"

definition ErrInvalidOrExpired :: go_err where
  "ErrInvalidOrExpired = Sentinel ''passwordreset: token is invalid or expired''"

definition IssueToken :: "'s redis \<Rightarrow> uuid \<Rightarrow> ('s, string) hact" where
  "IssueToken rdb userID =
     bind (db_act (rand_bytes 32)) (\<lambda>raw.
     let token = hex_of raw in
     bind (db_act ask_env) (\<lambda>v.
     bind (rSet rdb (reset_keyPrefix @ token) (e_uuid_str v userID) reset_TTL) (\<lambda>_.
     ret token)))"

definition parse_user :: "(go_err + string) \<Rightarrow> ('s, uuid) hact" where
  "parse_user r =
     (case r of
        Inl e \<Rightarrow> fail (if errors_is e redis_Nil then ErrInvalidOrExpired else e)
      | Inr raw \<Rightarrow> bind (db_act ask_env) (\<lambda>v.
          case e_uuid_parse v raw of None \<Rightarrow> fail ErrInvalidOrExpired | Some u \<Rightarrow> ret u))"

definition Peek :: "'s redis \<Rightarrow> string \<Rightarrow> ('s, uuid) hact" where
  "Peek rdb token = bind (attempt (rGet rdb (reset_keyPrefix @ token))) parse_user"

definition Consume :: "'s redis \<Rightarrow> string \<Rightarrow> ('s, uuid) hact" where
  "Consume rdb token = bind (attempt (rGetDel rdb (reset_keyPrefix @ token))) parse_user"

section \<open>The contract of a token store\<close>

text \<open>
  \<open>issue x\<close> returns a token; \<open>stored v b x\<close> says that the text \<open>b\<close> stands for \<open>x\<close> in the
  environment \<open>v\<close>, and \<open>good v x\<close> that such a text is read back as \<open>x\<close>.
\<close>

locale token_store =
  fixes issue :: "'s redis \<Rightarrow> 'x \<Rightarrow> ('s, string) hact"
    and find :: "'s redis \<Rightarrow> string \<Rightarrow> ('s, 'x) hact"
    and key :: "string \<Rightarrow> string"
    and lifetime :: "time"
    and stored :: "env \<Rightarrow> string \<Rightarrow> 'x \<Rightarrow> bool"
    and good :: "env \<Rightarrow> 'x \<Rightarrow> bool"
  assumes issued: "redis_ok rdb view \<Longrightarrow> runs (issue rdb x) ws tok ws' \<Longrightarrow>
      \<exists>b y. view (snd ws') = (view (snd ws))(key tok \<mapsto> (b, Some lifetime)) \<and>
        stored (w_env (fst ws)) b y \<and> w_env (fst ws') = w_env (fst ws)"
    and found: "redis_ok rdb view \<Longrightarrow> runs (find rdb tok) ws x ws' \<Longrightarrow>
      \<exists>b r. view (snd ws) (key tok) = Some (b, r) \<and> (\<forall>y. good (w_env (fst ws)) y \<and> stored (w_env (fst ws)) b y \<longrightarrow> x = y)"
    and key_inj: "key t = key t' \<longleftrightarrow> t = t'"
begin

text \<open>What one login stores is not seen under any other token.\<close>

lemma issue_other:
  assumes "redis_ok rdb view" "runs (issue rdb x) ws tok ws'" "t \<noteq> tok"
  shows "view (snd ws') (key t) = view (snd ws) (key t)"
  using issued [OF assms(1,2)] assms(3) by (auto simp: key_inj)

text \<open>A token that the store does not hold is not found.\<close>

lemma unknown_token:
  assumes "redis_ok rdb view" "view (snd ws) (key tok) = None"
  shows "\<not> runs (find rdb tok) ws x ws'"
  using found [OF assms(1)] assms(2) by fastforce

text \<open>It is gone when its lifetime is over.\<close>

lemma expires:
  assumes "redis_ok rdb view" "runs (issue rdb x) ws tok ws'" "lifetime \<le> dt"
    and "view (snd ws'') = elapse dt (view (snd ws'))"
  shows "\<not> runs (find rdb tok) ws'' y w"
proof -
  from issued [OF assms(1,2)] obtain b where "view (snd ws') (key tok) = Some (b, Some lifetime)" by auto
  with assms(3,4) have "view (snd ws'') (key tok) = None" by (simp add: elapse_def)
  then show ?thesis by (rule unknown_token [OF assms(1)])
qed

end

lemma runs_newToken:
  "runs (newToken n) w tok w' \<longleftrightarrow>
     (\<exists>j. e_rand (w_env w) (w_tick w) = Some j \<and> tok = base64url (bytes_of n j)) \<and> w' = stepped w (w_db w)"
  by (auto simp: newToken_def run_simps)

lemma runs_session_Create:
  assumes "redis_ok rdb view" "runs (session_Create rdb jc d ttl) ws tok ws'"
  shows "\<exists>now b. jc_Marshal jc (d\<lparr>sd_CreatedAt := now\<rparr>) = Some b \<and> (\<exists>n. now = e_wall (w_env (fst ws)) n) \<and>
    view (snd ws') = (view (snd ws))(keyPrefix @ tok \<mapsto> (b, Some ttl)) \<and>
    w_env (fst ws') = w_env (fst ws) \<and> w_db (fst ws') = w_db (fst ws)"
proof -
  from assms(2) obtain now b w1 w2 u where 1: "runs (db_act (newToken 32)) ws tok w1"
    "runs (db_act time_Now) w1 now w2" "jc_Marshal jc (d\<lparr>sd_CreatedAt := now\<rparr>) = Some b"
    "runs (rSet rdb (keyPrefix @ tok) b ttl) w2 u ws'"
    by (auto simp: session_Create_def runs_bind runs_ret runs_fail split: option.splits)
  from 1(1,2) have "snd w2 = snd ws" "w_env (fst w2) = w_env (fst ws)" "w_db (fst w2) = w_db (fst ws)"
    "\<exists>n. now = e_wall (w_env (fst ws)) n"
    by (auto simp: runs_db_act runs_newToken runs_time_Now)
  with runs_rSet [OF assms(1) 1(4)] 1(3) show ?thesis by auto
qed

lemma runs_session_Load:
  assumes "redis_ok rdb view" "runs (session_Load rdb jc tok) ws d ws'"
  shows "fst ws' = fst ws \<and> view (snd ws') = view (snd ws) \<and>
    (\<exists>b r. view (snd ws) (keyPrefix @ tok) = Some (b, r) \<and> jc_Unmarshal jc b = Some d)"
proof -
  from assms(2) obtain r w1 where 1: "runs (attempt (rGet rdb (keyPrefix @ tok))) ws r w1"
    "runs (case r of Inl e \<Rightarrow> fail (if errors_is e redis_Nil then session_ErrNotFound else e)
       | Inr b \<Rightarrow> (case jc_Unmarshal jc b of None \<Rightarrow> fail DriverErr | Some d \<Rightarrow> ret d)) w1 d ws'"
    by (auto simp: session_Load_def runs_bind)
  from 1(2) obtain b where b: "r = Inr b" "jc_Unmarshal jc b = Some d" "ws' = w1"
    by (cases r) (auto simp: runs_fail runs_ret split: option.splits)
  with 1(1) have "runs (rGet rdb (keyPrefix @ tok)) ws b ws'" by (simp add: runs_attempt)
  from runs_rGet [OF assms(1) this] b(2) show ?thesis by auto
qed

interpretation session_tokens: token_store "\<lambda>rdb d. session_Create rdb jc d OwnerTTL"
    "\<lambda>rdb. session_Load rdb jc" "(@) keyPrefix" OwnerTTL
    "\<lambda>v b d. jc_Marshal jc d = Some b" "\<lambda>v d. codec_ok jc \<and> utf8_texts d" for jc
proof unfold_locales
  fix rdb :: "'s redis" and view :: "'s \<Rightarrow> store" and x ws tok ws'
  assume "redis_ok rdb view" "runs (session_Create rdb jc x OwnerTTL) ws tok ws'"
  from runs_session_Create [OF this] show "\<exists>b y. view (snd ws') = (view (snd ws))(keyPrefix @ tok \<mapsto> (b, Some OwnerTTL)) \<and>
      jc_Marshal jc y = Some b \<and> w_env (fst ws') = w_env (fst ws)"
    by blast
next
  fix rdb :: "'s redis" and view :: "'s \<Rightarrow> store" and tok ws x ws'
  assume "redis_ok rdb view" "runs (session_Load rdb jc tok) ws x ws'"
  from runs_session_Load [OF this] show "\<exists>b r. view (snd ws) (keyPrefix @ tok) = Some (b, r) \<and>
      (\<forall>y. (codec_ok jc \<and> utf8_texts y) \<and> jc_Marshal jc y = Some b \<longrightarrow> x = y)"
    by (auto simp: codec_ok_def)
qed simp

definition uuid_ok :: "env \<Rightarrow> bool" where
  "uuid_ok v \<longleftrightarrow> (\<forall>i. e_uuid_parse v (e_uuid_str v i) = Some i)"

lemma runs_IssueToken:
  assumes "redis_ok rdb view" "runs (IssueToken rdb userID) ws tok ws'"
  shows "view (snd ws') = (view (snd ws))(reset_keyPrefix @ tok \<mapsto> (e_uuid_str (w_env (fst ws)) userID, Some reset_TTL)) \<and>
    w_env (fst ws') = w_env (fst ws)"
proof -
  from assms(2) obtain raw w1 v w2 u where 1: "runs (db_act (rand_bytes 32)) ws raw w1"
    "runs (db_act ask_env) w1 v w2" "runs (rSet rdb (reset_keyPrefix @ hex_of raw) (e_uuid_str v userID) reset_TTL) w2 u ws'"
    "tok = hex_of raw"
    by (auto simp: IssueToken_def runs_bind runs_ret Let_def)
  from 1(1,2) have "snd w2 = snd ws" "w_env (fst w2) = w_env (fst ws)" "v = w_env (fst ws)"
    by (auto simp: runs_db_act runs_rand_bytes runs_ask_env)
  with runs_rSet [OF assms(1) 1(3)] 1(4) show ?thesis by auto
qed

lemma runs_parse_user:
  "runs (parse_user r) ws u ws' \<longleftrightarrow>
     (\<exists>raw. r = Inr raw \<and> e_uuid_parse (w_env (fst ws)) raw = Some u) \<and> ws' = ws"
  by (cases r) (auto simp: parse_user_def run_simps prod_eq_iff split: option.splits)

lemma runs_Peek:
  assumes "redis_ok rdb view" "runs (Peek rdb tok) ws u ws'"
  shows "fst ws' = fst ws \<and> view (snd ws') = view (snd ws) \<and>
    (\<exists>b r. view (snd ws) (reset_keyPrefix @ tok) = Some (b, r) \<and> e_uuid_parse (w_env (fst ws)) b = Some u)"
proof -
  from assms(2) obtain b where "runs (rGet rdb (reset_keyPrefix @ tok)) ws b ws'"
    "e_uuid_parse (w_env (fst ws')) b = Some u"
    by (auto simp: Peek_def runs_bind runs_parse_user runs_attempt)
  with runs_rGet [OF assms(1) this(1)] show ?thesis by auto
qed

lemma runs_Consume:
  assumes "redis_ok rdb view" "runs (Consume rdb tok) ws u ws'"
  shows "fst ws' = fst ws \<and> view (snd ws') = (view (snd ws))(reset_keyPrefix @ tok := None) \<and>
    (\<exists>b r. view (snd ws) (reset_keyPrefix @ tok) = Some (b, r) \<and> e_uuid_parse (w_env (fst ws)) b = Some u)"
proof -
  from assms(2) obtain b where "runs (rGetDel rdb (reset_keyPrefix @ tok)) ws b ws'"
    "e_uuid_parse (w_env (fst ws')) b = Some u"
    by (auto simp: Consume_def runs_bind runs_parse_user runs_attempt)
  with runs_rGetDel [OF assms(1) this(1)] show ?thesis by auto
qed

interpretation reset_tokens: token_store IssueToken Consume "(@) reset_keyPrefix" reset_TTL
    "\<lambda>v b u. b = e_uuid_str v u" "\<lambda>v u. uuid_ok v"
proof unfold_locales
  fix rdb :: "'s redis" and view :: "'s \<Rightarrow> store" and x ws tok ws'
  assume "redis_ok rdb view" "runs (IssueToken rdb x) ws tok ws'"
  from runs_IssueToken [OF this] show "\<exists>b y. view (snd ws') = (view (snd ws))(reset_keyPrefix @ tok \<mapsto> (b, Some reset_TTL)) \<and>
      b = e_uuid_str (w_env (fst ws)) y \<and> w_env (fst ws') = w_env (fst ws)"
    by blast
next
  fix rdb :: "'s redis" and view :: "'s \<Rightarrow> store" and tok ws x ws'
  assume "redis_ok rdb view" "runs (Consume rdb tok) ws x ws'"
  from runs_Consume [OF this] show "\<exists>b r. view (snd ws) (reset_keyPrefix @ tok) = Some (b, r) \<and>
      (\<forall>y. uuid_ok (w_env (fst ws)) \<and> b = e_uuid_str (w_env (fst ws)) y \<longrightarrow> x = y)"
    by (auto simp: uuid_ok_def)
qed simp

end
