(* ===== verification/Shifts.thy ===== *)
theory Shifts
  imports AuditLog GoStrings "HOL-Library.List_Lexorder" "HOL-Library.Char_ord"
begin

text \<open>
  \<^verbatim>\<open>internal/shifts/shifts.go\<close>, the part on the database: the staff list, the life of a shift
  and its two token counters, the running totals, and the manual cash movements. Names are
  ordered byte by byte (the "C" collation). The PIN limiter of the same file is in \<open>RateLimits\<close>.
\<close>

section \<open>Staff list\<close>

record StaffMember =
  sm_ID :: uuid
  sm_Name :: string
  sm_Role :: string

definition staff_role :: "string \<Rightarrow> bool" where
  "staff_role r \<longleftrightarrow> r = ''manager'' \<or> r = ''cashier'' \<or> r = ''operator''"

definition ListStaff :: "uuid \<Rightarrow> StaffMember list act" where
  "ListStaff plantID =
     query (\<lambda>d. map (\<lambda>u. \<lparr>sm_ID = us_ID u, sm_Name = us_Name u, sm_Role = us_Role u\<rparr>)
       (sort_key us_Name (filter (\<lambda>u. us_PlantID u = plantID \<and> us_Active u \<and> staff_role (us_Role u))
          (db_users d))))"

section \<open>The life of a shift\<close>

record Shift =
  sf_ID :: uuid
  sf_UserID :: uuid
  sf_PumpID :: "uuid option"
  sf_OpenedAt :: time
  sf_OpeningCashKobo :: int
  sf_TokensIssued :: int
  sf_TokensReturned :: int

definition open_shift_of :: "uuid \<Rightarrow> uuid \<Rightarrow> shift \<Rightarrow> bool" where
  "open_shift_of plantID userID s \<longleftrightarrow>
     sh_PlantID s = plantID \<and> sh_UserID s = userID \<and> sh_ClosedAt s = None"

definition shift_view :: "shift \<Rightarrow> Shift" where
  "shift_view s = \<lparr>sf_ID = sh_ID s, sf_UserID = sh_UserID s, sf_PumpID = sh_PumpID s,
     sf_OpenedAt = sh_OpenedAt s, sf_OpeningCashKobo = sh_OpeningCashKobo s,
     sf_TokensIssued = sh_TokensIssued s,
     sf_TokensReturned = (case sh_TokensReturned s of None \<Rightarrow> 0 | Some n \<Rightarrow> n)\<rparr>"

definition findOpen :: "uuid \<Rightarrow> uuid \<Rightarrow> Shift option act" where
  "findOpen plantID userID =
     bind (attempt (query_row (\<lambda>d. first_row (open_shift_of plantID userID) (db_shifts d)))) (\<lambda>r.
     case r of
       Inl e \<Rightarrow> if errors_is e ErrNoRows then ret None else fail e
     | Inr s \<Rightarrow> ret (Some (shift_view s)))"

text \<open>A Go map; a later row of the same user would overwrite an earlier one.\<close>

definition OpenShiftStarts :: "uuid \<Rightarrow> (uuid \<rightharpoonup> time) act" where
  "OpenShiftStarts plantID =
     query (\<lambda>d. foldl (\<lambda>m s. m(sh_UserID s \<mapsto> sh_OpenedAt s)) Map.empty
       (filter (\<lambda>s. sh_PlantID s = plantID \<and> sh_ClosedAt s = None) (db_shifts d)))"

definition new_shift :: "uuid \<Rightarrow> uuid \<Rightarrow> string option \<Rightarrow> int \<Rightarrow> uuid option \<Rightarrow> time \<Rightarrow> uuid \<Rightarrow> shift" where
  "new_shift plantID userID device openingCashKobo pumpID now i =
     \<lparr>sh_ID = i, sh_PlantID = plantID, sh_UserID = userID, sh_DeviceID = device, sh_PumpID = pumpID,
      sh_OpenedAt = now, sh_ClosedAt = None, sh_OpeningCashKobo = openingCashKobo,
      sh_ClosingCashKobo = None, sh_TokensIssued = 0, sh_TokensReturned = None, sh_Notes = None,
      sh_CreatedAt = now, sh_UpdatedAt = now\<rparr>"

definition movement ::
  "uuid \<Rightarrow> uuid \<Rightarrow> string \<Rightarrow> int \<Rightarrow> int option \<Rightarrow> uuid option \<Rightarrow> uuid option \<Rightarrow> string option \<Rightarrow> time \<Rightarrow> uuid \<Rightarrow> cash_movement"
  where
  "movement plantID shiftID kind amount counted ticketID recordedBy note now i =
     \<lparr>cm_ID = i, cm_PlantID = plantID, cm_ShiftID = shiftID, cm_Kind = kind, cm_AmountKobo = amount,
      cm_CountedKobo = counted, cm_TicketID = ticketID, cm_RecordedBy = recordedBy, cm_Note = note,
      cm_CreatedAt = now\<rparr>"

definition StartOrResume :: "uuid \<Rightarrow> uuid \<Rightarrow> int \<Rightarrow> string \<Rightarrow> uuid option \<Rightarrow> (Shift \<times> bool) act" where
  "StartOrResume plantID userID openingCashKobo deviceID pumpID =
     bind (findOpen plantID userID) (\<lambda>existing.
     case existing of
       Some s \<Rightarrow> ret (s, True)
     | None \<Rightarrow>
         bind (exec_insert shifts_tab (new_shift plantID userID
           (if deviceID \<noteq> '''' then Some deviceID else None) openingCashKobo pumpID)) (\<lambda>s.
         bind (exec_insert cash_tab (movement plantID (sh_ID s) ''opening_float'' openingCashKobo None None
           (Some userID) (Some ''Shift opening float''))) (\<lambda>_.
         ret (\<lparr>sf_ID = sh_ID s, sf_UserID = userID, sf_PumpID = pumpID, sf_OpenedAt = sh_OpenedAt s,
               sf_OpeningCashKobo = openingCashKobo, sf_TokensIssued = 0, sf_TokensReturned = 0\<rparr>, False))))"

definition shifts_nullIfEmpty :: "string \<Rightarrow> string option" where
  "shifts_nullIfEmpty s = (if s = '''' then None else Some s)"

definition Close :: "uuid \<Rightarrow> uuid \<Rightarrow> uuid \<Rightarrow> int \<Rightarrow> string \<Rightarrow> unit act" where
  "Close plantID shiftID userID closingCashKobo notes =
     bind (exec_update shifts_tab
       (\<lambda>s. sh_ID s = shiftID \<and> sh_PlantID s = plantID \<and> sh_UserID s = userID \<and> sh_ClosedAt s = None)
       (\<lambda>now s. s\<lparr>sh_ClosedAt := Some now, sh_ClosingCashKobo := Some closingCashKobo,
                  sh_Notes := shifts_nullIfEmpty notes\<rparr>)) (\<lambda>rs.
     if rs = [] then fail (ErrorString ''shifts: not found, or already closed'')
     else bind (exec_insert cash_tab (movement plantID shiftID ''closing'' closingCashKobo
            (Some closingCashKobo) None (Some userID) (Some ''Shift closing count''))) (\<lambda>_. ret ()))"

section \<open>Token counters\<close>

text \<open>
  \<^verbatim>\<open>UPDATE ... RETURNING\<close> scanned with \<^verbatim>\<open>QueryRow\<close>: the first row, or \<^verbatim>\<open>pgx.ErrNoRows\<close>, which
  these two functions replace by an error of their own.
\<close>

definition returning_one :: "('r \<Rightarrow> 'a) \<Rightarrow> string \<Rightarrow> 'r list \<Rightarrow> 'a act" where
  "returning_one f msg rs = (case rs of [] \<Rightarrow> fail (ErrorString msg) | r # _ \<Rightarrow> ret (f r))"

definition IncrementTokensIssued :: "uuid \<Rightarrow> uuid \<Rightarrow> int act" where
  "IncrementTokensIssued plantID shiftID =
     bind (exec_update shifts_tab
       (\<lambda>s. sh_ID s = shiftID \<and> sh_PlantID s = plantID \<and> sh_ClosedAt s = None)
       (\<lambda>now s. s\<lparr>sh_TokensIssued := sh_TokensIssued s + 1\<rparr>))
     (returning_one sh_TokensIssued ''shifts: not found, or already closed'')"

definition IncrementTokensReturned :: "uuid \<Rightarrow> uuid \<Rightarrow> int act" where
  "IncrementTokensReturned plantID shiftID =
     bind (exec_update shifts_tab
       (\<lambda>s. sh_ID s = shiftID \<and> sh_PlantID s = plantID \<and> sh_ClosedAt s = None)
       (\<lambda>now s. s\<lparr>sh_TokensReturned := Some ((case sh_TokensReturned s of None \<Rightarrow> 0 | Some n \<Rightarrow> n) + 1)\<rparr>))
     (returning_one (\<lambda>s. the (sh_TokensReturned s)) ''shifts: not found, or already closed'')"

section \<open>Totals and cash movements\<close>

definition Summary :: "uuid \<Rightarrow> uuid \<Rightarrow> (nat \<times> int \<times> int) act" where
  "Summary plantID shiftID =
     bind (query (\<lambda>d. let ts = filter (\<lambda>t. tk_PlantID t = plantID \<and> tk_FilledShiftID t = Some shiftID \<and>
         tk_Status t = Filled) (db_tickets d) in (length ts, sum_list (map tk_SizeGrams ts)))) (\<lambda>(fills, grams).
     bind (query (\<lambda>d. sum_list (map cm_AmountKobo (filter (\<lambda>c. cm_PlantID c = plantID \<and>
         cm_ShiftID c = shiftID \<and> cm_Kind c = ''sale'') (db_cash d))))) (\<lambda>cash.
     ret (fills, grams, cash)))"

definition ErrNoOpenShift :: go_err where
  "ErrNoOpenShift = Sentinel ''shifts: no open shift to record this against''"

definition MostRecentOpenShiftID :: "uuid \<Rightarrow> uuid act" where
  "MostRecentOpenShiftID plantID =
     bind (attempt (query_row (\<lambda>d. first_by (\<lambda>s. - sh_OpenedAt s)
       (filter (\<lambda>s. sh_PlantID s = plantID \<and> sh_ClosedAt s = None) (db_shifts d))))) (\<lambda>r.
     case r of
       Inl e \<Rightarrow> fail (if errors_is e ErrNoRows then ErrNoOpenShift else e)
     | Inr s \<Rightarrow> ret (sh_ID s))"

definition cashMovementKinds :: "string \<Rightarrow> bool" where
  "cashMovementKinds k \<longleftrightarrow> k = ''deposit'' \<or> k = ''payout'' \<or> k = ''count''"

text \<open>The message quotes the kind with \<^verbatim>\<open>%q\<close>; the model puts plain quotation marks around it.\<close>

definition RecordCashMovement ::
  "uuid \<Rightarrow> uuid \<Rightarrow> string \<Rightarrow> int \<Rightarrow> int option \<Rightarrow> uuid \<Rightarrow> string \<Rightarrow> unit act" where
  "RecordCashMovement plantID shiftID kind amountKobo countedKobo recordedBy note =
     (if \<not> cashMovementKinds kind
      then fail (ErrorString (''shifts: '' @ [CHR 0x22] @ kind @ [CHR 0x22] @ '' is not a valid manual cash movement kind''))
      else bind (exec_insert cash_tab (movement plantID shiftID kind amountKobo countedKobo None
             (Some recordedBy) (shifts_nullIfEmpty note))) (\<lambda>_. ret ()))"

end
