(* ===== verification/Staff.thy ===== *)
theory Staff
  imports Shifts
begin

text \<open>
  \<^verbatim>\<open>internal/auth/password.go\<close> and \<^verbatim>\<open>internal/staff/staff.go\<close>. The bcrypt package is a
  parameter: hashing, which takes a fresh salt at every call, and comparing. What the code
  relies on is \<open>bcrypt_ok\<close>: the hash of a secret compares equal to that secret.
\<close>

section \<open>Passwords and PINs\<close>

record bcrypt =
  bc_GenerateFromPassword :: "nat \<Rightarrow> string \<Rightarrow> go_err + string"
  bc_Compare :: "string \<Rightarrow> string \<Rightarrow> bool"

definition bcrypt_ok :: "bcrypt \<Rightarrow> bool" where
  "bcrypt_ok bc \<longleftrightarrow> (\<forall>n s h. bc_GenerateFromPassword bc n s = Inr h \<longrightarrow>
     h \<noteq> '''' \<and> bc_Compare bc h s)"

definition HashPassword :: "bcrypt \<Rightarrow> string \<Rightarrow> string act" where
  "HashPassword bc plain w =
     (bc_GenerateFromPassword bc (w_tick w) plain, w\<lparr>w_tick := Suc (w_tick w)\<rparr>)"

definition VerifyPassword :: "bcrypt \<Rightarrow> string \<Rightarrow> string \<Rightarrow> bool" where
  "VerifyPassword bc hash plain = (if hash = '''' then False else bc_Compare bc hash plain)"

section \<open>Staff\<close>

definition staff_ErrMissingField :: go_err where
  "staff_ErrMissingField = Sentinel ''staff: name, phone, and PIN are required''"
definition staff_ErrInvalidRole :: go_err where
  "staff_ErrInvalidRole = Sentinel ''staff: role must be manager, cashier, or operator''"
definition staff_ErrInvalidPIN :: go_err where
  "staff_ErrInvalidPIN = Sentinel ''staff: PIN must be exactly 4 digits''"
definition staff_ErrPINTaken :: go_err where
  "staff_ErrPINTaken = Sentinel ''staff: that PIN is already used by another staff member at this plant''"
definition staff_ErrPhoneTaken :: go_err where
  "staff_ErrPhoneTaken = Sentinel ''staff: a staff member with that phone number already exists at this plant''"
definition staff_ErrNotFound :: go_err where
  "staff_ErrNotFound = Sentinel ''staff: not found''"

definition validPIN :: "string \<Rightarrow> bool" where
  "validPIN pin \<longleftrightarrow> length pin = 4 \<and> list_all is_digit pin"

definition pinAlreadyUsed :: "bcrypt \<Rightarrow> uuid \<Rightarrow> string \<Rightarrow> bool act" where
  "pinAlreadyUsed bc plantID pin =
     bind (query (\<lambda>d. List.map_filter us_PinHash
       (filter (\<lambda>u. us_PlantID u = plantID \<and> staff_role (us_Role u) \<and> us_PinHash u \<noteq> None) (db_users d)))) (\<lambda>hashes.
     ret (\<exists>h \<in> set hashes. VerifyPassword bc h pin))"

record CreateParams =
  cp_Name :: string
  cp_Phone :: string
  cp_Role :: string
  cp_PIN :: string

definition new_staff :: "uuid \<Rightarrow> string \<Rightarrow> string \<Rightarrow> string \<Rightarrow> string \<Rightarrow> time \<Rightarrow> uuid \<Rightarrow> user_row" where
  "new_staff plantID name phone role pinHash now i =
     \<lparr>us_ID = i, us_PlantID = plantID, us_Name = name, us_Phone = phone, us_Role = role,
      us_PinHash = Some pinHash, us_PasswordHash = None, us_Active = True, us_CanEditPrice = False,
      us_CanManageStaff = False, us_CanManagePumps = False, us_CreatedAt = now, us_UpdatedAt = now,
      us_Email = None\<rparr>"

definition staff_Create :: "bcrypt \<Rightarrow> uuid \<Rightarrow> CreateParams \<Rightarrow> uuid act" where
  "staff_Create bc plantID p =
     (let name = TrimSpace (cp_Name p); phone = TrimSpace (cp_Phone p); pin = TrimSpace (cp_PIN p) in
      if name = '''' \<or> phone = '''' \<or> pin = '''' then fail staff_ErrMissingField
      else if \<not> staff_role (cp_Role p) then fail staff_ErrInvalidRole
      else if \<not> validPIN pin then fail staff_ErrInvalidPIN
      else
        bind (pinAlreadyUsed bc plantID pin) (\<lambda>taken.
        if taken then fail staff_ErrPINTaken
        else
          bind (HashPassword bc pin) (\<lambda>pinHash.
          bind (attempt (exec_insert users_tab (new_staff plantID name phone (cp_Role p) pinHash))) (\<lambda>r.
          case r of
            Inl e \<Rightarrow> fail (if isUniqueViolation e then staff_ErrPhoneTaken else e)
          | Inr u \<Rightarrow> ret (us_ID u)))))"

definition staff_SetActive :: "uuid \<Rightarrow> uuid \<Rightarrow> bool \<Rightarrow> unit act" where
  "staff_SetActive plantID userID active =
     bind (exec_update users_tab
       (\<lambda>u. us_ID u = userID \<and> us_PlantID u = plantID \<and> staff_role (us_Role u))
       (\<lambda>now u. u\<lparr>us_Active := active\<rparr>)) (\<lambda>rs.
     if rs = [] then fail staff_ErrNotFound else ret ())"

end
