(* ===== verification/Hours.thy ===== *)
theory Hours
  imports AuditLog GoStrings
begin

text \<open>
  \<^verbatim>\<open>internal/hours/hours.go\<close>: a plant's weekly opening hours. The rules of a time zone are a
  parameter, the record \<open>location\<close>: the local weekday of an instant, and the instant that
  \<^verbatim>\<open>time.Date\<close> gives for an hour and a minute of the local day of an instant. Zones with a
  constant offset, which the code itself falls back to, are \<open>fixed_zone\<close>.
\<close>

section \<open>Time zones\<close>

record location =
  lc_weekday :: "time \<Rightarrow> nat"
  lc_date :: "time \<Rightarrow> int \<Rightarrow> int \<Rightarrow> time"

definition microsecond_minute :: int where "microsecond_minute = 60000000"
definition microsecond_day :: int where "microsecond_day = 1440 * microsecond_minute"

definition fixed_zone :: "int \<Rightarrow> location" where
  "fixed_zone offset =
     \<lparr>lc_weekday = (\<lambda>t. nat (((t + offset) div microsecond_day + 4) mod 7)),
      lc_date = (\<lambda>t h m. (t + offset) div microsecond_day * microsecond_day
                         + (h * 60 + m) * microsecond_minute - offset)\<rparr>"

definition WAT :: location where
  "WAT = fixed_zone (60 * microsecond_minute)"

section \<open>Times of the day\<close>

definition digit_value :: "char \<Rightarrow> nat" where
  "digit_value c = byte c - 48"

text \<open>\<^verbatim>\<open>time.Parse("15:04", s)\<close>: one or two digits of the hour, two of the minute.\<close>

fun parse_hhmm :: "string \<Rightarrow> (nat \<times> nat) option" where
  "parse_hhmm [a, x, c, d] =
     (if is_digit a \<and> x = CHR '':'' \<and> is_digit c \<and> is_digit d \<and> digit_value c * 10 + digit_value d < 60
      then Some (digit_value a, digit_value c * 10 + digit_value d) else None)"
| "parse_hhmm [a, b, x, c, d] =
     (if is_digit a \<and> is_digit b \<and> x = CHR '':'' \<and> is_digit c \<and> is_digit d \<and>
         digit_value a * 10 + digit_value b < 24 \<and> digit_value c * 10 + digit_value d < 60
      then Some (digit_value a * 10 + digit_value b, digit_value c * 10 + digit_value d) else None)"
| "parse_hhmm _ = None"

definition validHHMM :: "string \<Rightarrow> bool" where
  "validHHMM s \<longleftrightarrow> parse_hhmm s \<noteq> None"

definition two_digits :: "nat \<Rightarrow> string" where
  "two_digits n = [digit (n div 10), digit n]"

definition hhmm :: "nat \<times> nat \<Rightarrow> string" where
  "hhmm hm = two_digits (fst hm) @ '':'' @ two_digits (snd hm)"

text \<open>\<^verbatim>\<open>COALESCE(opens_at::text, '')\<close>.\<close>

definition time_text :: "(nat \<times> nat) option \<Rightarrow> string" where
  "time_text t = (case t of None \<Rightarrow> '''' | Some hm \<Rightarrow> hhmm hm @ '':00'')"

definition trimSeconds :: "string \<Rightarrow> string" where
  "trimSeconds s = (if 5 \<le> length s then take 5 s else s)"

definition formatRange :: "string \<Rightarrow> string \<Rightarrow> string" where
  "formatRange opens closes = opens @ ''-'' @ closes"

text \<open>\<^verbatim>\<open>strings.Split(s, ":")\<close>, and \<^verbatim>\<open>strconv.Atoi\<close> with its error ignored.\<close>

fun split_on :: "char \<Rightarrow> string \<Rightarrow> string list" where
  "split_on x [] = [[]]"
| "split_on x (c # s) =
     (if c = x then [] # split_on x s
      else case split_on x s of [] \<Rightarrow> [[c]] | p # ps \<Rightarrow> (c # p) # ps)"

definition digits_value :: "string \<Rightarrow> int" where
  "digits_value s = foldl (\<lambda>n c. n * 10 + int (digit_value c)) 0 s"

definition Atoi_value :: "string \<Rightarrow> int option" where
  "Atoi_value s = (case s of
     [] \<Rightarrow> None
   | c # r \<Rightarrow>
       (let (neg, ds) = (if c = CHR ''-'' then (True, r) else if c = CHR ''+'' then (False, r) else (False, s)) in
        if ds = [] \<or> \<not> list_all is_digit ds then None
        else Some (if neg then - digits_value ds else digits_value ds)))"

definition Atoi :: "string \<Rightarrow> int option" where
  "Atoi s = (case Atoi_value s of None \<Rightarrow> None | Some n \<Rightarrow> if - (2 ^ 63) \<le> n \<and> n < 2 ^ 63 then Some n else None)"

text \<open>With the error dropped: 0 for a malformed number, the nearest value for one out of range.\<close>

definition atoi_or_0 :: "string \<Rightarrow> int" where
  "atoi_or_0 s = (case Atoi_value s of None \<Rightarrow> 0 | Some n \<Rightarrow> max (- (2 ^ 63)) (min (2 ^ 63 - 1) n))"

definition timeInRange :: "location \<Rightarrow> time \<Rightarrow> string \<Rightarrow> string \<Rightarrow> bool" where
  "timeInRange loc now opens closes =
     (case (split_on (CHR '':'') opens, split_on (CHR '':'') closes) of
        ([o1, o2], [c1, c2]) \<Rightarrow>
          (let start = lc_date loc now (atoi_or_0 o1) (atoi_or_0 o2);
               end0 = lc_date loc now (atoi_or_0 c1) (atoi_or_0 c2);
               end1 = (if \<not> start < end0 then end0 + microsecond_day else end0)
           in (now = start \<or> start < now) \<and> now < end1)
      | _ \<Rightarrow> False)"

section \<open>The weekly schedule\<close>

record Segment =
  sg_DayOfWeek :: int
  sg_Segment :: int
  sg_OpensAt :: string
  sg_ClosesAt :: string
  sg_Closed :: bool

record Day =
  dy_DayOfWeek :: int
  dy_Label :: string
  dy_Segments :: "Segment list"
  dy_Closed :: bool
  dy_Unset :: bool

definition dayLabels :: "string list" where
  "dayLabels = [''Sunday'', ''Monday'', ''Tuesday'', ''Wednesday'', ''Thursday'', ''Friday'', ''Saturday'']"

definition defaultWeek :: "Day list" where
  "defaultWeek = map (\<lambda>i. \<lparr>dy_DayOfWeek = int i, dy_Label = dayLabels ! i, dy_Segments = [],
     dy_Closed = False, dy_Unset = False\<rparr>) [0 ..< 7]"

definition row_segment :: "hours_row \<Rightarrow> Segment" where
  "row_segment h = \<lparr>sg_DayOfWeek = ph_DayOfWeek h, sg_Segment = ph_Segment h,
     sg_OpensAt = trimSeconds (time_text (ph_OpensAt h)),
     sg_ClosesAt = trimSeconds (time_text (ph_ClosesAt h)), sg_Closed = ph_Closed h\<rparr>"

definition add_segment :: "Day list \<Rightarrow> Segment \<Rightarrow> Day list" where
  "add_segment days s =
     (let i = nat (sg_DayOfWeek s); d = days ! i
      in days[i := d\<lparr>dy_Segments := dy_Segments d @ [s], dy_Closed := sg_Closed s\<rparr>])"

definition default_segment :: "int \<Rightarrow> Segment" where
  "default_segment i = \<lparr>sg_DayOfWeek = i, sg_Segment = 1, sg_OpensAt = ''08:00'', sg_ClosesAt = ''18:00'',
     sg_Closed = False\<rparr>"

definition Week :: "uuid \<Rightarrow> Day list act" where
  "Week plantID =
     query (\<lambda>d. let segs = map row_segment (sort_key (\<lambda>h. (ph_DayOfWeek h, ph_Segment h))
                    (filter (\<lambda>h. ph_PlantID h = plantID) (db_hours d)));
                    seen = set (map sg_DayOfWeek segs)
                in map (\<lambda>dy. if dy_DayOfWeek dy \<in> seen then dy
                             else dy\<lparr>dy_Segments := [default_segment (dy_DayOfWeek dy)], dy_Unset := True\<rparr>)
                     (foldl add_segment defaultWeek segs))"

record TodayStatus =
  ts_IsOpen :: bool
  ts_Label :: string

definition join_labels :: "string list \<Rightarrow> string" where
  "join_labels ls = (case ls of [] \<Rightarrow> '''' | l # r \<Rightarrow> foldl (\<lambda>a b. a @ '', '' @ b) l r)"

fun status_loop :: "location \<Rightarrow> time \<Rightarrow> string list \<Rightarrow> hours_row list \<Rightarrow> TodayStatus" where
  "status_loop loc now labels [] =
     (if labels = [] then \<lparr>ts_IsOpen = False, ts_Label = ''Closed today''\<rparr>
      else \<lparr>ts_IsOpen = False, ts_Label = ''Today '' @ join_labels labels\<rparr>)"
| "status_loop loc now labels (h # hs) =
     (let opens = trimSeconds (time_text (ph_OpensAt h)); closes = trimSeconds (time_text (ph_ClosesAt h)) in
      if ph_Closed h \<or> opens = '''' \<or> closes = '''' then status_loop loc now labels hs
      else let labels' = labels @ [formatRange opens closes] in
           if timeInRange loc now opens closes
           then \<lparr>ts_IsOpen = True, ts_Label = ''Open today '' @ join_labels labels'\<rparr>
           else status_loop loc now labels' hs)"

definition StatusNow :: "(string \<Rightarrow> location option) \<Rightarrow> uuid \<Rightarrow> string \<Rightarrow> TodayStatus act" where
  "StatusNow LoadLocation plantID timezone =
     (let loc = (case LoadLocation (TrimSpace timezone) of None \<Rightarrow> WAT | Some l \<Rightarrow> l) in
      bind time_Now (\<lambda>now.
      query (\<lambda>d. let rows = sort_key ph_Segment (filter (\<lambda>h. ph_PlantID h = plantID \<and>
                   ph_DayOfWeek h = int (lc_weekday loc now)) (db_hours d))
                 in if rows = [] then \<lparr>ts_IsOpen = True, ts_Label = ''Hours not set''\<rparr>
                    else status_loop loc now [] rows)))"

section \<open>Replacing the schedule\<close>

definition new_hours :: "uuid \<Rightarrow> int \<Rightarrow> int \<Rightarrow> (nat \<times> nat) option \<Rightarrow> (nat \<times> nat) option \<Rightarrow> bool \<Rightarrow> time \<Rightarrow> uuid \<Rightarrow> hours_row"
  where
  "new_hours plantID day seg opens closes closed now i =
     \<lparr>ph_ID = i, ph_PlantID = plantID, ph_DayOfWeek = day, ph_Segment = seg, ph_OpensAt = opens,
      ph_ClosesAt = closes, ph_Closed = closed\<rparr>"

fun insert_segments :: "uuid \<Rightarrow> Segment list \<Rightarrow> unit act" where
  "insert_segments plantID [] = ret ()"
| "insert_segments plantID (s # ss) =
     (if sg_DayOfWeek s < 0 \<or> 6 < sg_DayOfWeek s \<or> sg_Segment s < 1 \<or> 3 < sg_Segment s
      then insert_segments plantID ss
      else if sg_Closed s
      then bind (exec_upsert hours_tab (\<lambda>h. (ph_PlantID h, ph_DayOfWeek h, ph_Segment h))
             (new_hours plantID (sg_DayOfWeek s) 1 None None True)
             (\<lambda>h. h\<lparr>ph_Closed := True, ph_OpensAt := None, ph_ClosesAt := None\<rparr>)) (\<lambda>_.
           insert_segments plantID ss)
      else if \<not> validHHMM (sg_OpensAt s) \<or> \<not> validHHMM (sg_ClosesAt s)
      then insert_segments plantID ss
      else bind (exec_insert hours_tab (new_hours plantID (sg_DayOfWeek s) (sg_Segment s)
             (parse_hhmm (sg_OpensAt s)) (parse_hhmm (sg_ClosesAt s)) False)) (\<lambda>_.
           insert_segments plantID ss))"

definition ReplaceWeek :: "uuid \<Rightarrow> Segment list \<Rightarrow> unit act" where
  "ReplaceWeek plantID segments =
     bind (exec_delete hours_tab (\<lambda>h. ph_PlantID h = plantID)) (\<lambda>_.
     insert_segments plantID segments)"

text \<open>The form of the owner's dashboard, two segments a day.\<close>

definition form_segment :: "(string \<Rightarrow> string) \<Rightarrow> nat \<Rightarrow> nat \<Rightarrow> Segment list" where
  "form_segment value day seg =
     (let open1 = TrimSpace (value (''open_'' @ dec_of day @ ''_'' @ dec_of seg));
          close1 = TrimSpace (value (''close_'' @ dec_of day @ ''_'' @ dec_of seg))
      in if open1 = '''' \<and> close1 = '''' then []
         else [\<lparr>sg_DayOfWeek = int day, sg_Segment = int seg, sg_OpensAt = open1, sg_ClosesAt = close1,
                sg_Closed = False\<rparr>])"

definition ParseWeekForm :: "(string \<Rightarrow> string) \<Rightarrow> Segment list" where
  "ParseWeekForm value = concat (map (\<lambda>day.
     if value (''closed_'' @ dec_of day) = ''true''
     then [\<lparr>sg_DayOfWeek = int day, sg_Segment = 1, sg_OpensAt = '''', sg_ClosesAt = '''', sg_Closed = True\<rparr>]
     else concat (map (form_segment value day) [1, 2])) [0 ..< 7])"

end
