(* ===== verification/GoFloat.thy ===== *)
theory GoFloat
  imports Complex_Main "HOL-Library.Log_Nat"
begin

text \<open>
  Go's \<^verbatim>\<open>float64\<close> as the code uses it: IEEE 754 binary64 values, of which the finite ones are
  the rationals they denote (the code never observes the sign of a zero), with every operation
  the exact result rounded to the nearest value, ties to even. \<^verbatim>\<open>math.Round\<close> rounds half away
  from zero. The conversion to \<^verbatim>\<open>int64\<close> truncates; out of range the language leaves its result
  to the implementation, and the model takes the one of the amd64 code generator.
\<close>

section \<open>Values and rounding\<close>

datatype float64 = Fin rat | PosInf | NegInf | NaN

text \<open>Rounding of a non-negative rational to an integer, ties to even.\<close>

definition round_even :: "rat \<Rightarrow> int" where
  "round_even x = (let n = \<lfloor>x\<rfloor>; d = x - of_int n in
     if d < 1/2 then n else if 1/2 < d then n + 1 else if even n then n else n + 1)"

text \<open>The exponent of the binade of a positive rational: \<open>2 powi e \<le> x < 2 powi (e + 1)\<close>.\<close>

definition binade :: "rat \<Rightarrow> int" where
  "binade x = (let (p, q) = quotient_of x;
                   e = int (floorlog 2 (nat p)) - int (floorlog 2 (nat q))
               in if 2 powi e \<le> x then e else e - 1)"

text \<open>The spacing of the values around a positive rational, subnormal ones included.\<close>

definition quantum :: "rat \<Rightarrow> rat" where
  "quantum x = 2 powi (max (binade x - 52) (- 1074))"

definition round_pos :: "rat \<Rightarrow> rat" where
  "round_pos x = of_int (round_even (x / quantum x)) * quantum x"

definition max_float :: rat where
  "max_float = 2 ^ 1024"

definition fl :: "rat \<Rightarrow> float64" where
  "fl x = (if x = 0 then Fin 0
     else if 0 < x then (if round_pos x < max_float then Fin (round_pos x) else PosInf)
     else (if round_pos (- x) < max_float then Fin (- round_pos (- x)) else NegInf))"

section \<open>Operations\<close>

definition of_int64 :: "int \<Rightarrow> float64" where
  "of_int64 n = fl (of_int n)"

definition signed_inf :: "bool \<Rightarrow> float64" where
  "signed_inf neg = (if neg then NegInf else PosInf)"

fun sign_neg :: "float64 \<Rightarrow> bool" where
  "sign_neg (Fin x) = (x < 0)"
| "sign_neg NegInf = True"
| "sign_neg _ = False"

definition is_zero :: "float64 \<Rightarrow> bool" where
  "is_zero a \<longleftrightarrow> a = Fin 0"

fun fmul :: "float64 \<Rightarrow> float64 \<Rightarrow> float64" where
  "fmul (Fin x) (Fin y) = fl (x * y)"
| "fmul a b = (if a = NaN \<or> b = NaN \<or> is_zero a \<or> is_zero b then NaN
               else signed_inf (sign_neg a \<noteq> sign_neg b))"

fun fdiv :: "float64 \<Rightarrow> float64 \<Rightarrow> float64" where
  "fdiv (Fin x) (Fin y) =
     (if y \<noteq> 0 then fl (x / y) else if x = 0 then NaN else signed_inf (x < 0))"
| "fdiv NaN b = NaN"
| "fdiv a NaN = NaN"
| "fdiv (Fin x) b = Fin 0"
| "fdiv a (Fin y) = signed_inf (sign_neg a \<noteq> (y < 0))"
| "fdiv a b = NaN"

fun flt :: "float64 \<Rightarrow> float64 \<Rightarrow> bool" where
  "flt (Fin x) (Fin y) = (x < y)"
| "flt NaN b = False"
| "flt a NaN = False"
| "flt a b = (a \<noteq> b \<and> (a = NegInf \<or> b = PosInf))"

definition fle :: "float64 \<Rightarrow> float64 \<Rightarrow> bool" where
  "fle a b \<longleftrightarrow> flt a b \<or> (a = b \<and> a \<noteq> NaN)"

text \<open>\<^verbatim>\<open>math.Round\<close>; its finite results are representable.\<close>

definition round_away :: "rat \<Rightarrow> int" where
  "round_away x = (if 0 \<le> x then \<lfloor>x + 1/2\<rfloor> else - \<lfloor>1/2 - x\<rfloor>)"

fun Round :: "float64 \<Rightarrow> float64" where
  "Round (Fin x) = Fin (of_int (round_away x))"
| "Round a = a"

definition int64_min :: int where
  "int64_min = - (2 ^ 63)"

fun to_int64 :: "float64 \<Rightarrow> int" where
  "to_int64 (Fin x) =
     (let n = (if 0 \<le> x then \<lfloor>x\<rfloor> else \<lceil>x\<rceil>) in
      if int64_min \<le> n \<and> n < 2 ^ 63 then n else int64_min)"
| "to_int64 _ = int64_min"

section \<open>How far rounding is off\<close>

lemma floorlog_powi:
  assumes "0 < n"
  shows "2 powi (int (floorlog 2 n) - 1) \<le> (of_nat n :: rat)" "(of_nat n :: rat) < 2 powi (int (floorlog 2 n))"
proof -
  from floorlog_bounds [of n 2] assms have b: "2 ^ (floorlog 2 n - 1) \<le> n" "n < 2 ^ floorlog 2 n"
    by auto
  from assms have "0 < floorlog 2 n" by (simp add: floorlog_def)
  then have "(2 :: rat) powi (int (floorlog 2 n) - 1) = of_nat (2 ^ (floorlog 2 n - 1))"
    by (simp add: power_int_def nat_diff_distrib)
  with b(1) show "2 powi (int (floorlog 2 n) - 1) \<le> (of_nat n :: rat)"
    by (metis of_nat_le_iff)
  have "(2 :: rat) powi (int (floorlog 2 n)) = of_nat (2 ^ floorlog 2 n)"
    by (simp add: power_int_def)
  with b(2) show "(of_nat n :: rat) < 2 powi (int (floorlog 2 n))"
    by (metis of_nat_less_iff)
qed

lemma binade_bounds:
  assumes "0 < x"
  shows "2 powi (binade x) \<le> x" "x < 2 powi (binade x + 1)"
proof -
  obtain p q where pq: "quotient_of x = (p, q)" by (cases "quotient_of x")
  then have q: "0 < q" and x: "x = of_int p / of_int q"
    using quotient_of_denom_pos quotient_of_div by blast+
  with assms have p: "0 < p" by (simp add: zero_less_divide_iff)
  define a where "a = int (floorlog 2 (nat p))"
  define c where "c = int (floorlog 2 (nat q))"
  have P: "2 powi (a - 1) \<le> (of_int p :: rat)" "(of_int p :: rat) < 2 powi a"
    using floorlog_powi [of "nat p"] p by (auto simp: a_def)
  have Q: "2 powi (c - 1) \<le> (of_int q :: rat)" "(of_int q :: rat) < 2 powi c"
    using floorlog_powi [of "nat q"] q by (auto simp: c_def)
  have up: "x < 2 powi (a - c + 1)"
  proof -
    have "(of_int p :: rat) < 2 powi (a - c + 1) * 2 powi (c - 1)"
      using P(2) by (simp flip: power_int_add)
    also have "\<dots> \<le> 2 powi (a - c + 1) * of_int q"
      using Q(1) by (intro mult_left_mono) auto
    finally show ?thesis using q by (simp add: x divide_less_eq)
  qed
  have low: "2 powi (a - c - 1) \<le> x"
  proof -
    have "2 powi (a - c - 1) * (of_int q :: rat) \<le> 2 powi (a - c - 1) * 2 powi c"
      using Q(2) by (intro mult_left_mono) auto
    also have "\<dots> \<le> of_int p"
      using P(1) by (simp flip: power_int_add)
    finally show ?thesis using q by (simp add: x le_divide_eq)
  qed
  have "binade x = (if 2 powi (a - c) \<le> x then a - c else a - c - 1)"
    by (simp add: binade_def pq a_def c_def)
  with up low show "2 powi (binade x) \<le> x" "x < 2 powi (binade x + 1)"
    by (auto simp: not_le)
qed

lemma round_even_error: "\<bar>of_int (round_even x) - x\<bar> \<le> 1/2"
proof -
  have "of_int \<lfloor>x\<rfloor> \<le> x" "x < of_int \<lfloor>x\<rfloor> + 1" by linarith+
  then show ?thesis by (auto simp: round_even_def Let_def abs_le_iff)
qed

lemma round_even_int [simp]: "round_even (of_int n) = n"
  by (simp add: round_even_def)

lemma quantum_pos [simp]: "0 < quantum x"
  by (simp add: quantum_def)

lemma round_pos_error_quantum: "\<bar>round_pos x - x\<bar> \<le> quantum x / 2"
proof -
  have "round_pos x - x = (of_int (round_even (x / quantum x)) - x / quantum x) * quantum x"
    by (simp add: round_pos_def algebra_simps less_imp_neq [OF quantum_pos, symmetric])
  then have "\<bar>round_pos x - x\<bar> = \<bar>of_int (round_even (x / quantum x)) - x / quantum x\<bar> * quantum x"
    by (simp add: abs_mult abs_of_pos)
  also have "\<dots> \<le> 1/2 * quantum x"
    by (intro mult_right_mono round_even_error) (simp add: less_imp_le)
  finally show ?thesis by simp
qed

text \<open>In the normal range the relative error is at most \<open>2 ^ -53\<close>.\<close>

lemma round_pos_error:
  assumes "2 powi (- 1022) \<le> x"
  shows "\<bar>round_pos x - x\<bar> \<le> x / 2 ^ 53"
proof -
  have pos: "0 < x" by (rule less_le_trans [OF _ assms]) simp
  have "- 1022 \<le> binade x"
  proof (rule ccontr)
    assume "\<not> ?thesis"
    then have "(2 :: rat) powi (binade x + 1) \<le> 2 powi (- 1022)"
      by (intro power_int_increasing) auto
    with binade_bounds(2) [OF pos] assms show False by simp
  qed
  then have "max (binade x - 52) (- 1074) = binade x - 52" by simp
  then have "quantum x = 2 powi (binade x - 52)" by (simp only: quantum_def)
  also have "\<dots> = 2 powi (binade x) / 2 ^ 52"
    by (simp add: power_int_diff)
  also have "\<dots> \<le> x / 2 ^ 52"
    using binade_bounds(1) [OF pos] by (intro divide_right_mono) auto
  finally have "quantum x / 2 \<le> x / 2 ^ 53" by simp
  with round_pos_error_quantum [of x] show ?thesis by linarith
qed

lemma fl_finite:
  assumes "2 powi (- 1022) \<le> x" "x \<le> 2 ^ 1000"
  obtains y where "fl x = Fin y" "\<bar>y - x\<bar> \<le> x / 2 ^ 53"
proof -
  have pos: "0 < x" by (rule less_le_trans [OF _ assms(1)]) simp
  from round_pos_error [OF assms(1)] have e: "\<bar>round_pos x - x\<bar> \<le> x / 2 ^ 53" .
  have "x / 2 ^ 53 \<le> x" using pos by simp
  with e have "round_pos x \<le> 2 * x" by linarith
  also have "\<dots> \<le> 2 * 2 ^ 1000" using assms(2) by simp
  also have "\<dots> < max_float" unfolding max_float_def by simp
  finally have "fl x = Fin (round_pos x)" using pos by (simp add: fl_def)
  from this e show thesis by (rule that)
qed

text \<open>Dyadic fractions with a numerator of up to 53 bits are exact.\<close>

lemma fl_dyadic:
  assumes "0 < n" "n < 2 ^ 53" "j \<le> 1000"
  shows "fl (of_int n / 2 ^ j) = Fin (of_int n / 2 ^ j)"
proof -
  let ?x = "of_int n / 2 ^ j :: rat"
  have n: "1 \<le> (of_int n :: rat)" using assms(1) by simp
  have n2: "(of_int n :: rat) < 2 ^ 53"
    using assms(2) by (metis of_int_less_iff of_int_numeral of_int_power)
  have x: "0 < ?x" using n by simp
  have xl: "2 powi (- int j) \<le> ?x" using n by (simp add: power_int_minus field_simps)
  have xu: "?x < 2 powi (53 - int j)" using n2 by (simp add: power_int_diff field_simps)
  have "binade ?x \<le> 52 - int j"
  proof (rule ccontr)
    assume "\<not> ?thesis"
    then have "(2 :: rat) powi (53 - int j) \<le> 2 powi (binade ?x)"
      by (intro power_int_increasing) auto
    with binade_bounds(1) [OF x] xu show False by simp
  qed
  moreover have "- int j \<le> binade ?x"
  proof (rule ccontr)
    assume "\<not> ?thesis"
    then have "(2 :: rat) powi (binade ?x + 1) \<le> 2 powi (- int j)"
      by (intro power_int_increasing) auto
    with binade_bounds(2) [OF x] xl show False by simp
  qed
  ultimately have "max (binade ?x - 52) (- 1074) = - int (nat (52 - int j - binade ?x) + j)"
    using assms(3) by simp
  then obtain k where k: "quantum ?x = 2 powi (- int (k + j))"
    unfolding quantum_def by metis
  then have q: "quantum ?x = 1 / (2 ^ k * 2 ^ j)"
    by (simp only: power_int_minus power_int_of_nat power_add inverse_eq_divide)
  have "?x / quantum ?x = of_int (n * 2 ^ k)"
    by (simp add: q)
  then have "round_pos ?x = of_int (n * 2 ^ k) * quantum ?x"
    by (simp only: round_pos_def round_even_int)
  also have "\<dots> = ?x" by (simp add: q)
  finally have r: "round_pos ?x = ?x" .
  have "?x \<le> of_int n" using n by (simp add: divide_le_eq)
  also have "\<dots> < max_float" using n2 unfolding max_float_def
    by (rule less_trans) simp
  finally show ?thesis using x r by (simp add: fl_def)
qed

text \<open>So are integers of up to 53 bits.\<close>

lemma fl_of_int_pos: "0 < n \<Longrightarrow> n < 2 ^ 53 \<Longrightarrow> fl (of_int n) = Fin (of_int n)"
  using fl_dyadic [of n 0] by simp

lemma fl_neg: "0 < x \<Longrightarrow> fl x = Fin y \<Longrightarrow> fl (- x) = Fin (- y)"
  by (auto simp: fl_def split: if_splits)

lemma fl_of_int:
  assumes "\<bar>n\<bar> < 2 ^ 53"
  shows "fl (of_int n) = Fin (of_int n)"
proof (cases "n = 0")
  case True
  then show ?thesis by (simp add: fl_def)
next
  case False
  with assms fl_of_int_pos [of n] fl_of_int_pos [of "- n"] fl_neg [of "of_int (- n)"]
  show ?thesis by (cases "0 < n") auto
qed

lemma of_int64_exact: "\<bar>n\<bar> < 2 ^ 53 \<Longrightarrow> of_int64 n = Fin (of_int n)"
  by (simp add: of_int64_def fl_of_int)

section \<open>Rounded quotients of integers\<close>

text \<open>
  The quotient of two integers, rounded to a \<^verbatim>\<open>float64\<close> and then to an integer, is the exact
  quotient rounded half up: the first rounding is finer than the distance of the quotient from
  the nearest tie it does not meet.
\<close>

lemma round_quotient:
  assumes "0 \<le> N" "N < 2 ^ 52" "0 < p" "p < 2 ^ 53"
  obtains y where "fl (of_int N / of_int p) = Fin y" "0 \<le> y"
    "round_away y = (2 * N + p) div (2 * p)"
proof (cases "N = 0")
  case True
  with assms show thesis by (intro that [of 0]) (auto simp: fl_def round_away_def floor_eq_iff)
next
  case False
  let ?x = "of_int N / of_int p :: rat"
  define k where "k = (2 * N + p) div (2 * p)"
  have P: "0 < (of_int p :: rat)" using assms(3) by simp
  have N: "1 \<le> (of_int N :: rat)" using assms(1) False by linarith
  have p53: "(of_int p :: rat) \<le> 2 ^ 53"
    using assms(4) by (metis of_int_le_iff of_int_numeral of_int_power less_imp_le)
  have N52: "(of_int N :: rat) < 2 ^ 52"
    using assms(2) by (metis of_int_less_iff of_int_numeral of_int_power)
  have low: "2 powi (- 1022) \<le> ?x"
  proof -
    have "(2 :: rat) powi (- 1022) * of_int p \<le> 2 powi (- 1022) * 2 ^ 53"
      using p53 by (intro mult_left_mono) auto
    also have "\<dots> \<le> 1" by simp
    also note N
    finally show ?thesis using P by (simp add: le_divide_eq)
  qed
  have "?x \<le> of_int N" using P N assms(3) by (simp add: divide_le_eq)
  also have "\<dots> \<le> 2 ^ 1000" using N52 by (rule less_imp_le [OF less_trans]) simp
  finally obtain y where y: "fl ?x = Fin y" "\<bar>y - ?x\<bar> \<le> ?x / 2 ^ 53"
    using fl_finite [OF low] by blast
  have "?x / 2 ^ 53 < 1 / (2 * of_int p)"
    using P N52 by (simp add: field_simps)
  with y(2) have e: "\<bar>y - ?x\<bar> < 1 / (2 * of_int p)" by linarith
  have kb: "2 * p * k \<le> 2 * N + p" "2 * N + p + 1 \<le> 2 * p * k + 2 * p"
  proof -
    have "2 * N + p = 2 * p * k + (2 * N + p) mod (2 * p)" by (simp add: k_def)
    moreover have "0 \<le> (2 * N + p) mod (2 * p)" "(2 * N + p) mod (2 * p) < 2 * p"
      using assms(3) by simp_all
    ultimately show "2 * p * k \<le> 2 * N + p" "2 * N + p + 1 \<le> 2 * p * k + 2 * p" by linarith+
  qed
  have up: "y + 1/2 < of_int k + 1"
  proof -
    have "(of_int (2 * N + p + 1) :: rat) \<le> of_int (2 * p * k + 2 * p)"
      using kb(2) by (simp only: of_int_le_iff)
    then have "?x + 1/2 + 1 / (2 * of_int p) \<le> of_int k + 1"
      using P by (simp add: field_simps)
    with e show ?thesis by linarith
  qed
  have "of_int k \<le> y + 1/2"
  proof (cases "2 * p * k = 2 * N + p")
    case True
    then have "(of_int (2 * p * k) :: rat) = of_int (2 * N + p)" by simp
    then have x: "?x = of_int (2 * k - 1) / 2 ^ 1" using P by (simp add: field_simps)
    have "0 < ?x" using P N by simp
    then have "0 < 2 * k - 1" unfolding x by (simp add: zero_less_divide_iff)
    moreover have "2 * k - 1 < 2 ^ 53"
    proof -
      have "p * (2 * k - 1) = 2 * N" using True by (simp add: algebra_simps)
      then have "2 * k - 1 \<le> 2 * N"
        using assms(3) \<open>0 < 2 * k - 1\<close> mult_right_mono [of 1 p "2 * k - 1"] by simp
      with assms(2) show ?thesis by simp
    qed
    ultimately have "fl ?x = Fin ?x" unfolding x by (intro fl_dyadic) auto
    with y(1) have "y = ?x" by simp
    moreover have "of_int (2 * k - 1) / 2 ^ 1 + 1/2 = (of_int k :: rat)"
      by (simp add: field_simps)
    ultimately show ?thesis using x by (metis order_refl)
  next
    case False
    with kb(1) have "2 * p * k + 1 \<le> 2 * N + p" by linarith
    then have "(of_int (2 * p * k + 1) :: rat) \<le> of_int (2 * N + p)"
      by (simp only: of_int_le_iff)
    then have "of_int (2 * p * k + 1) / (2 * of_int p) \<le> (of_int (2 * N + p) / (2 * of_int p) :: rat)"
      using P by (intro divide_right_mono) auto
    then have "of_int k + 1 / (2 * of_int p) \<le> ?x + 1/2"
      using P by (simp add: add_divide_distrib)
    with e show ?thesis by linarith
  qed
  moreover have "0 \<le> y"
  proof -
    have "0 \<le> ?x" using P N by simp
    moreover have "z / 2 ^ 53 \<le> z" if "0 \<le> z" for z :: rat using that by simp
    ultimately have "?x / 2 ^ 53 \<le> ?x" by blast
    with y(2) show ?thesis by linarith
  qed
  ultimately have "round_away y = k" using up
    by (simp add: round_away_def floor_unique)
  with y(1) \<open>0 \<le> y\<close> show thesis by (intro that) (auto simp: k_def)
qed

lemma to_int64_of_int: "int64_min \<le> n \<Longrightarrow> n < 2 ^ 63 \<Longrightarrow> to_int64 (Fin (of_int n)) = n"
  by simp

text \<open>The rounded quotient, as the code writes it.\<close>

lemma to_int64_round_quotient:
  assumes "0 \<le> N" "N < 2 ^ 52" "0 < p" "p < 2 ^ 53"
  shows "to_int64 (Round (fdiv (Fin (of_int N)) (Fin (of_int p)))) = (2 * N + p) div (2 * p)"
proof -
  obtain y where y: "fl (of_int N / of_int p) = Fin y" "0 \<le> y"
    "round_away y = (2 * N + p) div (2 * p)"
    by (rule round_quotient [OF assms])
  have "0 \<le> (2 * N + p) div (2 * p)" using assms by (simp add: pos_imp_zdiv_nonneg_iff)
  moreover have "(2 * N + p) div (2 * p) \<le> (2 * N + p) div 1"
    using assms by (intro zdiv_mono2) auto
  then have "(2 * N + p) div (2 * p) < 2 ^ 63" using assms by simp
  ultimately have "to_int64 (Fin (of_int ((2 * N + p) div (2 * p)))) = (2 * N + p) div (2 * p)"
    by (intro to_int64_of_int) (auto simp: int64_min_def)
  moreover have "fdiv (Fin (of_int N)) (Fin (of_int p)) = Fin y"
    using assms(3) y(1) by simp
  ultimately show ?thesis using y(3) by (simp only: Round.simps)
qed

lemma fmul_exact:
  assumes "\<bar>m * n\<bar> < 2 ^ 53"
  shows "fmul (Fin (of_int m)) (Fin (of_int n)) = Fin (of_int (m * n))"
  using fl_of_int [OF assms] by simp

end
