(* ===== verification/GoParse.thy ===== *)
theory GoParse
  imports GoFloat GoStrings
begin

text \<open>
  Parsing and escaping of Go's standard library, as the handlers use it: \<^verbatim>\<open>strconv.ParseFloat\<close>
  with its whole grammar (signs, decimal and hexadecimal mantissas, exponents, underscores,
  infinities and NaN), \<^verbatim>\<open>strings.EqualFold\<close> and \<^verbatim>\<open>strings.Index\<close>, and \<^verbatim>\<open>url.QueryEscape\<close> and
  \<^verbatim>\<open>url.PathEscape\<close>. The theorems at the end say which inputs pass for a positive amount.
\<close>

section \<open>ParseFloat\<close>

definition is_hex_letter :: "char \<Rightarrow> bool" where
  "is_hex_letter c \<longleftrightarrow> 97 \<le> byte (lower_byte c) \<and> byte (lower_byte c) \<le> 102"

definition digit_of :: "char \<Rightarrow> nat" where
  "digit_of c = (if is_digit c then byte c - 48 else byte (lower_byte c) - 87)"

definition mant_char :: "bool \<Rightarrow> char \<Rightarrow> bool" where
  "mant_char hex c \<longleftrightarrow> c = CHR ''_'' \<or> c = CHR ''.'' \<or> is_digit c \<or> (hex \<and> is_hex_letter c)"

definition take_sign :: "string \<Rightarrow> bool \<times> string" where
  "take_sign s = (case s of [] \<Rightarrow> (False, [])
     | c # r \<Rightarrow> if c = CHR ''-'' then (True, r) else if c = CHR ''+'' then (False, r) else (False, s))"

text \<open>\<^verbatim>\<open>underscoreOK\<close>: the last class seen is a digit (0), an underscore, or something else.\<close>

fun underscores_from :: "bool \<Rightarrow> char \<Rightarrow> string \<Rightarrow> bool" where
  "underscores_from hex prev [] = (prev \<noteq> CHR ''_'')"
| "underscores_from hex prev (c # s) =
     (if is_digit c \<or> (hex \<and> is_hex_letter c) then underscores_from hex (CHR ''0'') s
      else if c = CHR ''_'' then prev = CHR ''0'' \<and> underscores_from hex (CHR ''_'') s
      else prev \<noteq> CHR ''_'' \<and> underscores_from hex (CHR ''!'') s)"

definition underscoreOK :: "string \<Rightarrow> bool" where
  "underscoreOK s0 =
     (let s = snd (take_sign s0) in
      case s of
        z # b # r \<Rightarrow>
          if z = CHR ''0'' \<and> lower_byte b \<in> {CHR ''b'', CHR ''o'', CHR ''x''}
          then underscores_from (lower_byte b = CHR ''x'') (CHR ''0'') r
          else underscores_from False (CHR ''^'') s
      | _ \<Rightarrow> underscores_from False (CHR ''^'') s)"

text \<open>The exponent, which stops growing at five digits.\<close>

definition exponent_value :: "string \<Rightarrow> int" where
  "exponent_value ds = foldl (\<lambda>e c. if e < 10000 then e * 10 + int (digit_of c) else e) 0 ds"

definition parse_exponent :: "bool \<Rightarrow> string \<Rightarrow> int option" where
  "parse_exponent hex rest =
     (case rest of
        [] \<Rightarrow> if hex then None else Some 0
      | c # t \<Rightarrow>
          if lower_byte c \<noteq> (if hex then CHR ''p'' else CHR ''e'') then None
          else let (neg, u) = take_sign t in
               if u = [] \<or> \<not> is_digit (hd u) \<or> \<not> list_all (\<lambda>c. is_digit c \<or> c = CHR ''_'') u then None
               else let e = exponent_value (filter is_digit u) in Some (if neg then - e else e))"

definition scale :: "int \<Rightarrow> int \<Rightarrow> rat" where
  "scale b e = (if 0 \<le> e then of_int b ^ nat e else 1 / of_int b ^ nat (- e))"

text \<open>\<^verbatim>\<open>ErrRange\<close> for a value that rounds to an infinity.\<close>

definition in_range :: "float64 \<Rightarrow> float64 option" where
  "in_range x = (case x of Fin y \<Rightarrow> Some x | _ \<Rightarrow> None)"

lemma in_range_Some [simp]: "in_range x = Some y \<longleftrightarrow> y = x \<and> (\<exists>r. x = Fin r)"
  by (auto simp: in_range_def split: float64.splits)

definition parse_number :: "string \<Rightarrow> float64 option" where
  "parse_number s =
     (let (neg, r) = take_sign s;
          hex = (2 < length r \<and> r ! 0 = CHR ''0'' \<and> lower_byte (r ! 1) = CHR ''x'');
          b = (if hex then drop 2 r else r);
          m = takeWhile (mant_char hex) b;
          rest = dropWhile (mant_char hex) b;
          digits = filter (\<lambda>c. c \<noteq> CHR ''_'' \<and> c \<noteq> CHR ''.'') m;
          frac = length (filter (\<lambda>c. c \<noteq> CHR ''_'' \<and> c \<noteq> CHR ''.'') (dropWhile (\<lambda>c. c \<noteq> CHR ''.'') m));
          mant = foldl (\<lambda>n c. n * (if hex then 16 else 10) + int (digit_of c)) 0 digits
      in if digits = [] \<or> 1 < length (filter (\<lambda>c. c = CHR ''.'') m) then None
         else case parse_exponent hex rest of
                None \<Rightarrow> None
              | Some e \<Rightarrow>
                  if CHR ''_'' \<in> set s \<and> \<not> underscoreOK s then None
                  else let v = of_int mant * (if hex then scale 2 (e - 4 * int frac) else scale 10 (e - int frac));
                           v' = (if neg then - v else v)
                       in in_range (fl v'))"

text \<open>\<open>None\<close> when the returned error is not nil: a syntax error, or a value out of range.\<close>

definition ParseFloat :: "string \<Rightarrow> float64 option" where
  "ParseFloat s =
     (let (neg, r) = take_sign s; l = map lower_byte r in
      if l = ''inf'' \<or> l = ''infinity'' then Some (signed_inf neg)
      else if map lower_byte s = ''nan'' then Some NaN
      else parse_number s)"

section \<open>Strings\<close>

text \<open>\<^verbatim>\<open>strings.EqualFold\<close> with an ASCII string: two other runes fold to ASCII letters.\<close>

fun fold_ascii :: "string \<Rightarrow> string" where
  "fold_ascii [] = []"
| "fold_ascii (c # s) =
     (if c = CHR 0xE2 \<and> take 2 s = [CHR 0x84, CHR 0xAA] then CHR ''k'' # fold_ascii (drop 2 s)
      else if c = CHR 0xC5 \<and> take 1 s = [CHR 0xBF] then CHR ''s'' # fold_ascii (drop 1 s)
      else lower_byte c # fold_ascii s)"

definition EqualFold :: "string \<Rightarrow> string \<Rightarrow> bool" where
  "EqualFold s t \<longleftrightarrow> fold_ascii s = fold_ascii t"

text \<open>\<^verbatim>\<open>strings.Index(s, c)\<close> for one character: what is before it, if it occurs.\<close>

definition before_char :: "char \<Rightarrow> string \<Rightarrow> string option" where
  "before_char c s = (if c \<in> set s then Some (takeWhile (\<lambda>x. x \<noteq> c) s) else None)"

section \<open>Escaping\<close>

definition is_alnum :: "char \<Rightarrow> bool" where
  "is_alnum c \<longleftrightarrow> is_digit c \<or> is_lower (lower_byte c)"

definition hex_upper :: "nat \<Rightarrow> char" where
  "hex_upper n = (let k = n mod 16 in if k < 10 then char_of (48 + k) else char_of (55 + k))"

definition percent :: "char \<Rightarrow> string" where
  "percent c = [CHR ''%'', hex_upper (byte c div 16), hex_upper (byte c)]"

definition unreserved :: "char \<Rightarrow> bool" where
  "unreserved c \<longleftrightarrow> is_alnum c \<or> c \<in> set ''-_.~''"

definition QueryEscape :: "string \<Rightarrow> string" where
  "QueryEscape s = concat (map (\<lambda>c. if unreserved c then [c] else if c = CHR '' '' then ''+'' else percent c) s)"

text \<open>\<^verbatim>\<open>url.PathEscape\<close> keeps the delimiters that a path segment may hold.\<close>

definition PathEscape :: "string \<Rightarrow> string" where
  "PathEscape s = concat (map (\<lambda>c. if unreserved c \<or> c \<in> set ''$&+=:@'' then [c] else percent c) s)"

section \<open>Amounts that pass the handlers' checks\<close>

text \<open>
  An accepted input is a finite value, an infinity or NaN, and NaN is the one value that is
  neither below nor above zero.
\<close>

lemma parse_number_finite: "parse_number s = Some x \<Longrightarrow> \<exists>y. x = Fin y"
  unfolding parse_number_def Let_def
  by (clarsimp split: prod.splits if_splits option.splits)

lemma ParseFloat_NaN: "ParseFloat s = Some NaN \<longleftrightarrow> map lower_byte s = ''nan''"
proof
  assume "ParseFloat s = Some NaN"
  then show "map lower_byte s = ''nan''"
    by (auto simp: ParseFloat_def signed_inf_def Let_def split: prod.splits if_splits dest: parse_number_finite)
next
  assume *: "map lower_byte s = ''nan''"
  then obtain c r where s: "s = c # r" by (cases s) auto
  with * have "lower_byte c = CHR ''n''" "map lower_byte r = ''an''" by auto
  moreover from this(1) have "c \<noteq> CHR ''-''" "c \<noteq> CHR ''+''" by (auto simp: lower_byte_def)
  ultimately show "ParseFloat s = Some NaN"
    using * s by (simp add: ParseFloat_def take_sign_def)
qed

end
