(* ===== verification/Format.thy ===== *)
theory Format
  imports GoParse Prelude
begin

text \<open>
  The text that the program shows: amounts, weights and words of \<^verbatim>\<open>cmd/server/main.go\<close>, the
  labels of \<^verbatim>\<open>cmd/server/tickets.go\<close> and \<^verbatim>\<open>receipts.go\<close>, the messages of \<^verbatim>\<open>notifications.go\<close>,
  and the addresses they contain. Strings are the bytes of their UTF-8 form.
\<close>

section \<open>JSON\<close>

text \<open>The values that the program encodes; an object is the list of its fields.\<close>

datatype json =
    JStr string | JInt int | JNum rat | JBool bool | JNull | JUuid uuid | JTime time
  | JArr "json list" | JObj "(string \<times> json) list"

section \<open>Numbers\<close>

fun chunks3 :: "string \<Rightarrow> string" where
  "chunks3 [] = []"
| "chunks3 (c # s) = CHR '','' # take 3 (c # s) @ chunks3 (drop 2 s)"

definition formatWholeNumber :: "int \<Rightarrow> string" where
  "formatWholeNumber n =
     (let s = itoa n in
      if length s \<le> 3 then s
      else let prefix = (if length s mod 3 = 0 then 3 else length s mod 3)
           in take prefix s @ chunks3 (drop prefix s))"

definition naira_sign :: string where
  "naira_sign = [CHR 0xE2, CHR 0x82, CHR 0xA6]"

definition formatNaira :: "int \<Rightarrow> string" where
  "formatNaira kobo =
     naira_sign @ formatWholeNumber (to_int64 (Round (fdiv (of_int64 kobo) (of_int64 100))))"

definition signedNaira :: "int \<Rightarrow> string" where
  "signedNaira kobo =
     (if 0 < kobo then ''+'' @ formatNaira kobo
      else if kobo < 0 then ''-'' @ formatNaira (- kobo) else formatNaira 0)"

definition fmt02 :: "int \<Rightarrow> string" where
  "fmt02 n = [digit (nat n div 10), digit (nat n)]"

definition kg_text :: "int \<Rightarrow> string" where
  "kg_text grams = (let hundredths = (grams + 5) div 10
     in formatWholeNumber (hundredths div 100) @ ''.'' @ fmt02 (hundredths mod 100) @ '' kg'')"

definition formatKg :: "int \<Rightarrow> string" where
  "formatKg grams = (if grams < 0 then ''-'' @ kg_text (- grams) else kg_text grams)"

definition signedKg :: "int \<Rightarrow> string" where
  "signedKg grams =
     (if 0 < grams then ''+'' @ formatKg grams
      else if grams < 0 then ''-'' @ formatKg (- grams) else formatKg 0)"

section \<open>Words\<close>

definition fallbackString :: "string \<Rightarrow> string \<Rightarrow> string" where
  "fallbackString value fallback = (if TrimSpace value = '''' then fallback else TrimSpace value)"

definition ptrString :: "string option \<Rightarrow> string \<Rightarrow> string" where
  "ptrString value fallback = (case value of None \<Rightarrow> fallback
     | Some s \<Rightarrow> if TrimSpace s = '''' then fallback else TrimSpace s)"

text \<open>
  \<^verbatim>\<open>strings.Title\<close>, exact on ASCII (the channels and statuses it is applied to): a letter
  that follows a separator becomes a capital.
\<close>

definition separator :: "char \<Rightarrow> bool" where
  "separator c \<longleftrightarrow> byte c < 128 \<and> \<not> is_alnum c \<and> c \<noteq> CHR ''_''"

fun title_from :: "bool \<Rightarrow> string \<Rightarrow> string" where
  "title_from sep [] = []"
| "title_from sep (c # s) =
     (if sep \<and> is_lower c then char_of (byte c - 32) else c) # title_from (separator c) s"

definition humanize :: "string \<Rightarrow> string \<Rightarrow> string" where
  "humanize value fallback =
     (let v = TrimSpace (map (\<lambda>c. if c = CHR ''_'' then CHR '' '' else c) value) in
      if v = '''' then fallback else title_from True v)"

definition channelLabel :: "string \<Rightarrow> string" where
  "channelLabel dbChannel =
     (if dbChannel = ''transfer'' then ''Bank transfer''
      else if dbChannel = ''terminal'' then ''Card''
      else if dbChannel = ''ussd'' then ''USSD''
      else if dbChannel = ''cash'' then ''Cash''
      else humanize dbChannel ''Payment channel'')"

definition mapCustomerChannel :: "string \<Rightarrow> (string \<times> string list) option" where
  "mapCustomerChannel input =
     (if input = ''transfer'' then Some (''transfer'', [''bank_transfer''])
      else if input = ''terminal'' then Some (''terminal'', [''card''])
      else if input = ''ussd'' then Some (''ussd'', [''ussd''])
      else None)"

definition displayPhone :: "string \<Rightarrow> string" where
  "displayPhone normalized = (if length normalized = 10 then ''0'' @ normalized else normalized)"

definition shortReviewTicketRef :: "string \<Rightarrow> string \<Rightarrow> string" where
  "shortReviewTicketRef reference plantSlug = TrimPrefix reference (plantSlug @ ''-'')"

definition star :: string where "star = [CHR 0xE2, CHR 0x98, CHR 0x85]"
definition no_star :: string where "no_star = [CHR 0xE2, CHR 0x98, CHR 0x86]"

definition reviewStarsText :: "int \<Rightarrow> string" where
  "reviewStarsText rating0 =
     (let r1 = (if rating0 < 0 then 0 else rating0); rating = (if 5 < r1 then 5 else r1)
      in concat (replicate (nat rating) star) @ concat (replicate (nat (5 - rating)) no_star))"

section \<open>Addresses\<close>

text \<open>\<^verbatim>\<open>net.SplitHostPort\<close>.\<close>

definition after_last :: "char \<Rightarrow> string \<Rightarrow> string" where
  "after_last c s = rev (takeWhile (\<lambda>x. x \<noteq> c) (rev s))"

definition SplitHostPort :: "string \<Rightarrow> (string \<times> string) option" where
  "SplitHostPort s =
     (if CHR '':'' \<notin> set s then None
      else let port = after_last (CHR '':'') s; i = length s - length port - 1 in
           if hd s = CHR ''[''
           then (case before_char (CHR '']'') s of
                   None \<Rightarrow> None
                 | Some p \<Rightarrow>
                     if length p + 1 \<noteq> i then None
                     else if CHR ''['' \<in> set (drop 1 s) \<or> CHR '']'' \<in> set (drop i s) then None
                     else Some (drop 1 p, port))
           else if CHR '':'' \<in> set (take i s) \<or> CHR ''['' \<in> set s \<or> CHR '']'' \<in> set s then None
           else Some (take i s, port))"

text \<open>
  \<^verbatim>\<open>url.Parse\<close> is given by the parts that the code keeps: scheme, user information as it is
  printed, and host; \<open>None\<close> when it fails.
\<close>

type_synonym url_parser = "string \<Rightarrow> (string \<times> string \<times> string) option"

definition trim_slashes :: "string \<Rightarrow> string" where
  "trim_slashes s = rev (dropWhile (\<lambda>c. c = CHR ''/'') (rev s))"

definition tenantAbsoluteURL :: "url_parser \<Rightarrow> string \<Rightarrow> string \<Rightarrow> string \<Rightarrow> string" where
  "tenantAbsoluteURL parse appBaseURL slug path =
     (let base = trim_slashes (TrimSpace appBaseURL) in
      case parse base of
        None \<Rightarrow> base @ path
      | Some (scheme, user, host) \<Rightarrow>
          if scheme = '''' \<or> host = '''' then base @ path
          else let host' = (case SplitHostPort host of
                     Some (h, p) \<Rightarrow> slug @ ''.'' @ h @ '':'' @ p
                   | None \<Rightarrow> slug @ ''.'' @ host)
               in scheme @ ''://'' @ user @ host' @ path)"

definition ticketEmail :: "string \<Rightarrow> string \<Rightarrow> string" where
  "ticketEmail baseEmail reference =
     (case before_char (CHR ''@'') baseEmail of
        None \<Rightarrow> baseEmail
      | Some p \<Rightarrow> p @ ''+'' @ reference @ drop (length p) baseEmail)"

section \<open>Messages\<close>

datatype message = SMS string string string | Email string string string

definition nl :: string where "nl = [CHR 0x0A]"

definition oneLine :: "string \<Rightarrow> string" where
  "oneLine v = (case Fields v of [] \<Rightarrow> '''' | f # fs \<Rightarrow> f @ concat (map (\<lambda>g. CHR '' '' # g) fs))"

record dispensingNotification =
  dn_PlantName :: string
  dn_TermiiSenderID :: string
  dn_CustomerPhone :: string
  dn_Code :: string
  dn_SizeLabel :: string
  dn_PumpName :: string
  dn_ReviewURL :: string

definition dispensingMessage :: "dispensingNotification \<Rightarrow> string" where
  "dispensingMessage n =
     (let pump = (if TrimSpace (dn_PumpName n) = '''' then ''your assigned pump'' else TrimSpace (dn_PumpName n));
          message = dn_PlantName n @ '': gas dispensing has started for code '' @ dn_Code n
            @ ''. You paid for '' @ dn_SizeLabel n @ ''. Your pump is '' @ pump @ ''.''
      in if TrimSpace (dn_ReviewURL n) = '''' then message
         else message @ '' Rate your experience: '' @ TrimSpace (dn_ReviewURL n))"

text \<open>What a notification sends; a failure to send is only logged.\<close>

definition notifyDispensingStarted :: "dispensingNotification \<Rightarrow> message list" where
  "notifyDispensingStarted n =
     (let phone = TrimSpace (dn_CustomerPhone n) in
      if phone = '''' then [] else [SMS (dn_TermiiSenderID n) phone (dispensingMessage n)])"

record plantApprovalNotification =
  an_PlantName :: string
  an_Slug :: string
  an_PreviousStatus :: string
  an_OwnerName :: string
  an_OwnerPhone :: string
  an_OwnerEmail :: string
  an_TermiiSenderID :: string

definition shouldNotifyPlantApproved :: "string \<Rightarrow> string \<Rightarrow> bool" where
  "shouldNotifyPlantApproved previousStatus newStatus \<longleftrightarrow>
     EqualFold (TrimSpace previousStatus) ''provisioning'' \<and> EqualFold (TrimSpace newStatus) ''active''"

definition notifyPlantApproved :: "url_parser \<Rightarrow> string \<Rightarrow> plantApprovalNotification \<Rightarrow> message list" where
  "notifyPlantApproved parse appBaseURL n =
     (let loginURL = tenantAbsoluteURL parse appBaseURL (an_Slug n) ''/owner/login'';
          ownerName = (if TrimSpace (an_OwnerName n) = '''' then ''there'' else TrimSpace (an_OwnerName n));
          phone = TrimSpace (an_OwnerPhone n);
          email = TrimSpace (an_OwnerEmail n)
      in (if phone = '''' then [] else [SMS (an_TermiiSenderID n) phone
            (''Hi '' @ ownerName @ '', '' @ an_PlantName n @ '' has been approved on GatsToGo. Log in: '' @ loginURL
             @ '' Use your phone number and the password you created during application.'')])
       @ (if email = '''' then [] else [Email email
            (''Your '' @ an_PlantName n @ '' GatsToGo account is approved'')
            (''Hello '' @ ownerName @ '','' @ nl @ nl
             @ ''Your plant application for '' @ an_PlantName n @ '' has been approved.'' @ nl @ nl
             @ ''Sign in here: '' @ loginURL @ nl @ nl
             @ ''Use your phone number and the password you created during your application. If you need a new password, use the ''
             @ [CHR 0x22] @ ''Forgot password'' @ [CHR 0x22] @ '' link on the sign-in page.'' @ nl @ nl
             @ ''Welcome to GatsToGo.'')]))"

record plantApplicationNotification =
  pa_PlantID :: string
  pa_PlantName :: string
  pa_Slug :: string
  pa_City :: string
  pa_State :: string
  pa_OwnerName :: string
  pa_OwnerPhone :: string
  pa_OwnerEmail :: string
  pa_LegalBusinessName :: string
  pa_CACNumber :: string
  pa_NMDPRALicense :: string

definition applicationAdminEmail :: "string \<Rightarrow> plantApplicationNotification \<Rightarrow> string \<times> string" where
  "applicationAdminEmail appBaseURL n =
     (''New GatsToGo application: '' @ oneLine (pa_PlantName n),
      ''A new plant has applied on /get-started and is waiting for review.'' @ nl @ nl
      @ ''Plant: '' @ pa_PlantName n @ '' ('' @ pa_Slug n @ '')'' @ nl
      @ ''Location: '' @ oneLine (pa_City n @ '', '' @ pa_State n) @ nl
      @ ''Business: '' @ pa_LegalBusinessName n @ nl
      @ ''CAC: '' @ pa_CACNumber n @ nl
      @ ''NMDPRA licence: '' @ pa_NMDPRALicense n @ nl @ nl
      @ ''Owner: '' @ pa_OwnerName n @ nl
      @ ''Phone: '' @ pa_OwnerPhone n @ nl
      @ ''Email: '' @ pa_OwnerEmail n @ nl @ nl
      @ ''Review and approve: '' @ trim_slashes (TrimSpace appBaseURL) @ ''/admin/plants/'' @ pa_PlantID n @ nl)"

definition applicationApplicantEmail :: "plantApplicationNotification \<Rightarrow> string \<times> string" where
  "applicationApplicantEmail n =
     (let ownerName = (if oneLine (pa_OwnerName n) = '''' then ''there'' else oneLine (pa_OwnerName n)) in
      (''We received your GatsToGo application'',
       ''Hello '' @ ownerName @ '','' @ nl @ nl
       @ ''Thanks for applying to put '' @ pa_PlantName n
       @ '' on GatsToGo. We have your details and will review them shortly.'' @ nl @ nl
       @ ''Your page is not live yet. Once we have verified your information we will email you your sign-in link, and text you as well when SMS is available.'' @ nl @ nl
       @ ''If anything is wrong with what you submitted, just reply to this email.'' @ nl @ nl
       @ ''The GatsToGo team''))"

definition notifyNewApplication :: "string \<Rightarrow> string \<Rightarrow> plantApplicationNotification \<Rightarrow> message list" where
  "notifyNewApplication supportEmail appBaseURL n =
     (let admin = TrimSpace supportEmail; owner = TrimSpace (pa_OwnerEmail n);
          a = applicationAdminEmail appBaseURL n; b = applicationApplicantEmail n
      in (if admin = '''' then [] else [Email admin (fst a) (snd a)])
       @ (if owner = '''' then [] else [Email owner (fst b) (snd b)]))"

end
