(* ===== verification/Payments.thy ===== *)
theory Payments
  imports TenantDB Format
begin

text \<open>
  \<^verbatim>\<open>internal/payments/paystack.go\<close>: the requests that the client builds and how it reads the
  answers. Paystack itself (\<open>pc_Do\<close>, the answer to the n-th request: an error, or a status code
  and a body), the decoding of its JSON into the structs of the code, and HMAC-SHA512 are
  parameters.
\<close>

section \<open>The client\<close>

record InitializeParams =
  ip_Email :: string
  ip_AmountKobo :: int
  ip_Reference :: string
  ip_CallbackURL :: string
  ip_Channels :: "string list"
  ip_Subaccount :: string
  ip_Bearer :: string

record InitializeResult =
  ir_AuthorizationURL :: string
  ir_AccessCode :: string
  ir_Reference :: string

record VerifyResult =
  vr_Status :: string
  vr_Reference :: string
  vr_AmountKobo :: int
  vr_Channel :: string
  vr_Currency :: string
  vr_GatewayResponse :: string

record WebhookEvent =
  we_Event :: string
  we_Reference :: string
  we_Status :: string
  we_Amount :: int

record http_call =
  hc_Method :: string
  hc_URL :: string
  hc_Authorization :: string
  hc_Body :: "(string \<times> json) list option"

record paystack =
  pc_SecretKey :: string
  pc_BaseURL :: string
  pc_Do :: "http_call \<Rightarrow> nat \<Rightarrow> go_err + (int \<times> string)"
  pc_Envelope :: "string \<Rightarrow> bool \<times> string"         \<comment> \<open>status and message, zero values if malformed\<close>
  pc_DecodeInitialize :: "string \<Rightarrow> InitializeResult option"
  pc_DecodeVerify :: "string \<Rightarrow> VerifyResult option"
  pc_DecodeAccountName :: "string \<Rightarrow> string option"
  pc_DecodeSubaccount :: "string \<Rightarrow> string option"
  pc_DecodeBanks :: "string \<Rightarrow> Bank list option"
  pc_DecodeEvent :: "string \<Rightarrow> WebhookEvent option"
  pc_hmac512 :: "string \<Rightarrow> string \<Rightarrow> nat list"

definition defaultBaseURL :: string where
  "defaultBaseURL = ''https://api.paystack.co''"

definition baseURL :: "paystack \<Rightarrow> string" where
  "baseURL c = (if pc_BaseURL c \<noteq> '''' then pc_BaseURL c else defaultBaseURL)"

definition ErrAPI :: "int \<Rightarrow> string \<Rightarrow> go_err" where
  "ErrAPI code msg = ErrorString (''paystack: '' @ msg @ '' (http '' @ itoa code @ '')'')"

text \<open>\<^verbatim>\<open>do\<close>: one request, and its answer decoded into the result.\<close>

definition read_answer :: "paystack \<Rightarrow> (string \<Rightarrow> 'a option) \<Rightarrow> int \<times> string \<Rightarrow> go_err + 'a" where
  "read_answer c decode a =
     (let (code, body) = a; (ok, message) = pc_Envelope c body in
      if code < 200 \<or> 300 \<le> code \<or> \<not> ok
      then Inl (ErrAPI code (if message = '''' then ''unexpected response from Paystack'' else message))
      else case decode body of
             None \<Rightarrow> Inl (Wrap ''paystack: decode response'' DriverErr)
           | Some x \<Rightarrow> Inr x)"

definition paystack_do ::
  "paystack \<Rightarrow> string \<Rightarrow> string \<Rightarrow> (string \<times> json) list option \<Rightarrow> (string \<Rightarrow> 'a option) \<Rightarrow> 'a act" where
  "paystack_do c meth path body decode w =
     (let call = \<lparr>hc_Method = meth, hc_URL = baseURL c @ path,
                  hc_Authorization = ''Bearer '' @ pc_SecretKey c, hc_Body = body\<rparr>;
          w' = w\<lparr>w_tick := Suc (w_tick w)\<rparr>
      in case pc_Do c call (w_tick w) of
           Inl e \<Rightarrow> (Inl e, w')
         | Inr a \<Rightarrow> (read_answer c decode a, w'))"

section \<open>Transactions\<close>

definition initialize_fields :: "InitializeParams \<Rightarrow> (string \<times> json) list" where
  "initialize_fields p =
     [(''email'', JStr (ip_Email p)), (''amount'', JInt (ip_AmountKobo p)),
      (''reference'', JStr (ip_Reference p)), (''callback_url'', JStr (ip_CallbackURL p)),
      (''channels'', JArr (map JStr (ip_Channels p)))]
     @ (if ip_Subaccount p \<noteq> ''''
        then (''subaccount'', JStr (ip_Subaccount p))
             # (if ip_Bearer p \<noteq> '''' then [(''bearer'', JStr (ip_Bearer p))] else [])
        else [])"

definition Initialize :: "paystack \<Rightarrow> InitializeParams \<Rightarrow> InitializeResult act" where
  "Initialize c p =
     paystack_do c ''POST'' ''/transaction/initialize'' (Some (initialize_fields p)) (pc_DecodeInitialize c)"

definition Verify :: "paystack \<Rightarrow> string \<Rightarrow> VerifyResult act" where
  "Verify c reference =
     paystack_do c ''GET'' (''/transaction/verify/'' @ PathEscape reference) None (pc_DecodeVerify c)"

section \<open>Accounts and banks\<close>

text \<open>98.5\<close>

definition PlantSettlementPercentage :: rat where
  "PlantSettlementPercentage = 985 / 10"

definition ResolveAccount :: "paystack \<Rightarrow> string \<Rightarrow> string \<Rightarrow> string act" where
  "ResolveAccount c accountNumber bankCode =
     paystack_do c ''GET'' (''/bank/resolve?account_number='' @ QueryEscape accountNumber
       @ ''&bank_code='' @ QueryEscape bankCode) None (pc_DecodeAccountName c)"

record CreateSubaccountParams =
  cs_BusinessName :: string
  cs_SettlementBank :: string
  cs_AccountNumber :: string
  cs_PercentageCharge :: rat

text \<open>The percentage is sent as a JSON number.\<close>

definition subaccount_fields :: "CreateSubaccountParams \<Rightarrow> (string \<times> json) list" where
  "subaccount_fields p =
     [(''business_name'', JStr (cs_BusinessName p)), (''settlement_bank'', JStr (cs_SettlementBank p)),
      (''account_number'', JStr (cs_AccountNumber p)),
      (''percentage_charge'', JNum (cs_PercentageCharge p))]"

definition CreateSubaccount :: "paystack \<Rightarrow> CreateSubaccountParams \<Rightarrow> string act" where
  "CreateSubaccount c p =
     paystack_do c ''POST'' ''/subaccount'' (Some (subaccount_fields p)) (pc_DecodeSubaccount c)"

definition ListBanks :: "paystack \<Rightarrow> Bank list act" where
  "ListBanks c = paystack_do c ''GET'' ''/bank?currency=NGN'' None (pc_DecodeBanks c)"

definition bankListTTL :: time where
  "bankListTTL = 3600000000"

definition fallbackBanks :: "Bank list" where
  "fallbackBanks = map (\<lambda>(n, c). \<lparr>bk_Name = n, bk_Code = c\<rparr>)
     [(''Access Bank'', ''044''), (''Citibank Nigeria'', ''023''), (''Ecobank Nigeria'', ''050''),
      (''Fidelity Bank'', ''070''), (''First Bank of Nigeria'', ''011''),
      (''First City Monument Bank'', ''214''), (''Guaranty Trust Bank'', ''058''),
      (''Heritage Bank'', ''030''), (''Jaiz Bank'', ''301''), (''Keystone Bank'', ''082''),
      (''Kuda Bank'', ''50211''), (''PalmPay'', ''999991''), (''Polaris Bank'', ''076''),
      (''Providus Bank'', ''101''), (''Stanbic IBTC Bank'', ''221''),
      (''Standard Chartered Bank'', ''068''), (''Sterling Bank'', ''232''), (''SunTrust Bank'', ''100''),
      (''Union Bank of Nigeria'', ''032''), (''United Bank for Africa'', ''033''),
      (''Unity Bank'', ''215''), (''Wema Bank'', ''035''), (''Zenith Bank'', ''057'')]"

text \<open>The lock makes reading and writing the cached list atomic.\<close>

definition cached_banks :: "(Bank list \<times> time) act" where
  "cached_banks w = (Inr (w_banks w), w)"

definition cache_banks :: "Bank list \<Rightarrow> time \<Rightarrow> unit act" where
  "cache_banks banks now w = (Inr (), w\<lparr>w_banks := (banks, now)\<rparr>)"

definition BanksWithFallback :: "paystack \<Rightarrow> Bank list act" where
  "BanksWithFallback c =
     bind cached_banks (\<lambda>(cache, cachedAt).
     bind (if cache \<noteq> [] then bind time_Now (\<lambda>now. ret (now - cachedAt < bankListTTL)) else ret False) (\<lambda>fresh.
     if fresh then ret cache
     else
       bind (attempt (ListBanks c)) (\<lambda>r.
       case r of
         Inl e \<Rightarrow> ret fallbackBanks
       | Inr banks \<Rightarrow>
           if banks = [] then ret fallbackBanks
           else bind time_Now (\<lambda>now. bind (cache_banks banks now) (\<lambda>_. ret banks)))))"

definition BankName :: "paystack \<Rightarrow> string \<Rightarrow> string act" where
  "BankName c code =
     bind (BanksWithFallback c) (\<lambda>banks.
     ret (case first_row (\<lambda>b. bk_Code b = code) banks of None \<Rightarrow> '''' | Some b \<Rightarrow> bk_Name b))"

section \<open>Webhooks\<close>

definition VerifyWebhookSignature :: "paystack \<Rightarrow> string \<Rightarrow> string \<Rightarrow> bool" where
  "VerifyWebhookSignature c body signatureHex =
     (if signatureHex = '''' then False else hex_of (pc_hmac512 c (pc_SecretKey c) body) = signatureHex)"

end
