(* ===== verification/Http.thy ===== *)
theory Http
  imports Sessions Staff Hours Payments
begin

text \<open>
  Requests, responses and the server's configuration, as the handlers of \<^verbatim>\<open>cmd/server\<close> see
  them. A handler is an action on the database world paired with the state of Redis; what it
  writes is a value, the \<open>response\<close>. A page is the name of its template with the data given to
  it; instants in it stand for their formatted text.
\<close>

section \<open>Responses\<close>

datatype body =
    Redirect string                          \<comment> \<open>\<^verbatim>\<open>http.Redirect\<close> with 303\<close>
  | HttpError nat string
  | JSON nat "(string \<times> json) list"
  | StatusOnly nat
  | NotFound                                 \<comment> \<open>\<^verbatim>\<open>renderNotFound\<close>\<close>
  | Page nat string "(string \<times> json) list"
  | Content string string                    \<comment> \<open>a content type and what is sent with it\<close>

record response =
  re_cookies :: "cookie list"
  re_sent :: "message list"    \<comment> \<open>handed to the SMS and email senders\<close>
  re_body :: body

definition plain :: "body \<Rightarrow> response" where
  "plain b = \<lparr>re_cookies = [], re_sent = [], re_body = b\<rparr>"

definition with_cookies :: "cookie list \<Rightarrow> response \<Rightarrow> response" where
  "with_cookies cs r = r\<lparr>re_cookies := cs @ re_cookies r\<rparr>"

definition sending :: "message list \<Rightarrow> response \<Rightarrow> response" where
  "sending ms r = r\<lparr>re_sent := ms @ re_sent r\<rparr>"

definition writeJSON :: "nat \<Rightarrow> (string \<times> json) list \<Rightarrow> response" where
  "writeJSON status payload = plain (JSON status payload)"

definition writeJSONError :: "nat \<Rightarrow> string \<Rightarrow> response" where
  "writeJSONError status message = writeJSON status [(''error'', JStr message)]"

definition redirect :: "string \<Rightarrow> response" where
  "redirect url = plain (Redirect url)"

definition http_error :: "nat \<Rightarrow> string \<Rightarrow> response" where
  "http_error status message = plain (HttpError status message)"

definition not_found_page :: response where
  "not_found_page = plain NotFound"

section \<open>Requests\<close>

record http_request =
  hr_Method :: string
  hr_Host :: string
  hr_TLS :: bool
  hr_RemoteAddr :: string
  hr_Header :: "string \<Rightarrow> string"
  hr_cookies :: "(string \<times> string) list"
  hr_form_ok :: bool                       \<comment> \<open>\<^verbatim>\<open>ParseForm\<close> succeeds\<close>
  hr_FormValue :: "string \<Rightarrow> string"
  hr_URLParam :: "string \<Rightarrow> string"
  hr_Query :: "string \<Rightarrow> string"
  hr_body :: "string option"               \<comment> \<open>\<^verbatim>\<open>None\<close> when reading it fails\<close>
  hr_logo :: "(string \<times> nat) option"        \<comment> \<open>the attached logo and its declared size\<close>

definition form :: "http_request \<Rightarrow> string \<Rightarrow> string" where
  "form r k = TrimSpace (hr_FormValue r k)"

definition requestScheme :: "http_request \<Rightarrow> string" where
  "requestScheme r =
     (if hr_TLS r \<or> EqualFold (hr_Header r ''X-Forwarded-Proto'') ''https'' then ''https'' else ''http'')"

definition clientIP :: "http_request \<Rightarrow> string" where
  "clientIP r =
     (let fwd = hr_Header r ''X-Forwarded-For'' in
      if fwd \<noteq> '''' then TrimSpace (takeWhile (\<lambda>c. c \<noteq> CHR '','') fwd)
      else case SplitHostPort (hr_RemoteAddr r) of None \<Rightarrow> hr_RemoteAddr r | Some (h, p) \<Rightarrow> h)"

section \<open>The authenticated identity\<close>

record Actor =
  ac_UserID :: uuid
  ac_Name :: string
  ac_Role :: string
  ac_PlantID :: "uuid option"
  ac_ShiftID :: "uuid option"
  ac_PumpID :: "uuid option"
  ac_Phone :: string
  ac_Token :: string
  ac_CanEditPrice :: bool
  ac_CanManageStaff :: bool
  ac_CanManagePumps :: bool

section \<open>The server\<close>

text \<open>
  \<^verbatim>\<open>Server\<close> and the package variables that \<^verbatim>\<open>main\<close> sets. Redis, bcrypt, the JSON codec of
  sessions, HMAC-SHA256, \<^verbatim>\<open>url.Parse\<close>, \<^verbatim>\<open>http.DetectContentType\<close>,
  \<^verbatim>\<open>mail.ParseAddress\<close> and the text of an error are what it is configured with; the two database
  pools are the roles of \<open>WithTenant\<close> and \<open>with_admin_tx\<close>.
\<close>

record 's server =
  sv_Redis :: "'s redis"
  sv_Paystack :: paystack
  sv_codec :: codec
  sv_bcrypt :: bcrypt
  sv_hmac256 :: "string \<Rightarrow> string \<Rightarrow> nat list"
  sv_Secret :: string
  sv_APP_ENV :: string
  sv_BaseDomain :: string
  sv_AppBaseURL :: string
  sv_NotificationEmail :: string
  sv_SupportEmail :: string
  sv_ParseURL :: url_parser
  sv_LoadLocation :: "string \<Rightarrow> location option"
  sv_DetectContentType :: "string \<Rightarrow> string"
  sv_ParseAddress :: "string \<Rightarrow> bool"
  sv_ErrText :: "go_err \<Rightarrow> string"
  sv_Getenv :: "string \<Rightarrow> string"

section \<open>Composing handlers\<close>

type_synonym 's handler = "http_request \<Rightarrow> ('s, response) hact"

text \<open>A transaction whose error the handler looks at.\<close>

definition in_tenant :: "uuid \<Rightarrow> 'a act \<Rightarrow> ('s, go_err + 'a) hact" where
  "in_tenant plantID m = attempt (db_act (WithTenant plantID m))"

definition guard_else :: "bool \<Rightarrow> response \<Rightarrow> ('s, response) hact \<Rightarrow> ('s, response) hact" where
  "guard_else ok r k = (if ok then k else ret r)"

lemma guard_else_simps [simp]: "guard_else True r k = k" "guard_else False r k = ret r"
  by (simp_all add: guard_else_def)

lemma runs_guard_else [run_simps]:
  "runs (guard_else ok r k) ws x ws' \<longleftrightarrow> (if ok then runs k ws x ws' else x = r \<and> ws' = ws)"
  by (simp add: guard_else_def runs_ret)

end
