(* ===== verification/Middleware.thy ===== *)
theory Middleware
  imports Http
begin

text \<open>
  What runs before a handler: the CSRF tokens of \<^verbatim>\<open>internal/csrf\<close>, and of \<^verbatim>\<open>internal/middleware\<close>
  the host check with the tenant lookup (\<^verbatim>\<open>tenant.go\<close>), the four session guards
  (\<^verbatim>\<open>session.go\<close>) and the CSRF check (\<^verbatim>\<open>csrf.go\<close>). A middleware is a function from the next
  handler to a handler; the request context is what it passes on, the plant and the actor.
\<close>

section \<open>CSRF tokens\<close>

definition ErrNoSecret :: go_err where
  "ErrNoSecret = Sentinel ''csrf: Secret is not configured''"

definition csrf_Token :: "'s server \<Rightarrow> string \<Rightarrow> go_err + string" where
  "csrf_Token sv sessionToken =
     (if sv_Secret sv = '''' then Inl ErrNoSecret
      else Inr (base64url (sv_hmac256 sv (sv_Secret sv) sessionToken)))"

definition csrf_Verify :: "'s server \<Rightarrow> string \<Rightarrow> string \<Rightarrow> bool" where
  "csrf_Verify sv sessionToken submitted =
     (if submitted = '''' then False
      else case csrf_Token sv sessionToken of Inl e \<Rightarrow> False | Inr expected \<Rightarrow> expected = submitted)"

text \<open>\<^verbatim>\<open>csrfToken, _ := csrf.Token(...)\<close>: empty on an error.\<close>

definition csrf_token_or_empty :: "'s server \<Rightarrow> string \<Rightarrow> string" where
  "csrf_token_or_empty sv sessionToken = (case csrf_Token sv sessionToken of Inl e \<Rightarrow> '''' | Inr t \<Rightarrow> t)"

definition NewPublicToken :: "string act" where
  "NewPublicToken = bind (rand_bytes 32) (\<lambda>b. ret (base64url b))"

definition VerifyPublic :: "string \<Rightarrow> string \<Rightarrow> bool" where
  "VerifyPublic cookieValue submitted \<longleftrightarrow> cookieValue \<noteq> '''' \<and> submitted \<noteq> '''' \<and> cookieValue = submitted"

definition PublicCSRFCookie :: string where "PublicCSRFCookie = ''gtg_csrf''"
definition publicCSRFCookieTTL :: time where "publicCSRFCookieTTL = 24 * Hour"

text \<open>The token, and the cookies that are set.\<close>

definition minted_cookie :: "'s server \<Rightarrow> go_err + string \<Rightarrow> string \<times> cookie list" where
  "minted_cookie sv t =
     (case t of Inl e \<Rightarrow> ('''', [])
      | Inr token \<Rightarrow> (token, [\<lparr>ck_Name = PublicCSRFCookie, ck_Value = token, ck_Path = ''/'', ck_Domain = '''',
          ck_HttpOnly = False, ck_Secure = SecureCookies (sv_APP_ENV sv), ck_SameSite = SameSiteLaxMode,
          ck_MaxAge = publicCSRFCookieTTL div Second\<rparr>]))"

definition request_cookie :: "http_request \<Rightarrow> string \<Rightarrow> string option" where
  "request_cookie r name = map_option snd (first_row (\<lambda>c. fst c = name) (hr_cookies r))"

definition EnsurePublicCSRFCookie :: "'s server \<Rightarrow> http_request \<Rightarrow> ('s, string \<times> cookie list) hact" where
  "EnsurePublicCSRFCookie sv r =
     (case request_cookie r PublicCSRFCookie of
        Some v \<Rightarrow> if v \<noteq> '''' then ret (v, [])
                  else bind (attempt (db_act NewPublicToken)) (\<lambda>t. ret (minted_cookie sv t))
      | None \<Rightarrow> bind (attempt (db_act NewPublicToken)) (\<lambda>t. ret (minted_cookie sv t)))"

definition invalid_csrf :: response where
  "invalid_csrf = http_error 403 ''Invalid or missing CSRF token''"

definition CSRF :: "'s server \<Rightarrow> Actor option \<Rightarrow> 's handler \<Rightarrow> 's handler" where
  "CSRF sv actor next r =
     (if hr_Method r = ''GET'' \<or> hr_Method r = ''HEAD'' \<or> hr_Method r = ''OPTIONS'' then next r
      else
        let header = hr_Header r ''X-CSRF-Token'';
            submitted = (if header = '''' then hr_FormValue r ''csrf_token'' else header)
        in case actor of
             Some a \<Rightarrow> if \<not> csrf_Verify sv (ac_Token a) submitted then ret invalid_csrf else next r
           | None \<Rightarrow>
               (case request_cookie r PublicCSRFCookie of
                  None \<Rightarrow> ret invalid_csrf
                | Some v \<Rightarrow> if \<not> VerifyPublic v submitted then ret invalid_csrf else next r))"

section \<open>Hosts and tenants\<close>

definition stripHostPort :: "string \<Rightarrow> string" where
  "stripHostPort host = (case before_char (CHR '':'') host of None \<Rightarrow> host | Some h \<Rightarrow> h)"

definition ExtractSubdomain :: "string \<Rightarrow> string" where
  "ExtractSubdomain host =
     (let parts = split_on (CHR ''.'') (stripHostPort host) in
      if length parts < 2 then '''' else hd parts)"

definition hasBaseDomainSuffix :: "string \<Rightarrow> string \<Rightarrow> bool" where
  "hasBaseDomainSuffix host baseDomain =
     (if baseDomain = '''' then False else HasSuffix (stripHostPort host) (''.'' @ baseDomain))"

definition IsMarketingHost :: "string \<Rightarrow> string \<Rightarrow> bool" where
  "IsMarketingHost host0 baseDomain =
     (let host = stripHostPort host0 in
      if host = '''' then False
      else if baseDomain \<noteq> '''' \<and> (EqualFold host baseDomain \<or> EqualFold host (''www.'' @ baseDomain)) then True
      else let slug = ExtractSubdomain host in slug = '''' \<or> slug = ''www'')"

definition IsTenantHost :: "string \<Rightarrow> string \<Rightarrow> bool" where
  "IsTenantHost host baseDomain =
     (let slug = ExtractSubdomain host in
      if slug = '''' \<or> slug = ''www'' \<or> slug = ''admin'' \<or> slug = ''api'' then False
      else hasBaseDomainSuffix host baseDomain)"

text \<open>The tenant lookup runs on the administrator's pool.\<close>

definition Tenant :: "'s server \<Rightarrow> (plant \<Rightarrow> 's handler) \<Rightarrow> 's handler" where
  "Tenant sv next r =
     (let host = hr_Host r; slug = ExtractSubdomain host in
      if slug = '''' \<or> slug = ''www'' \<or> slug = ''admin'' \<or> slug = ''api'' \<or>
         \<not> hasBaseDomainSuffix host (sv_BaseDomain sv)
      then ret not_found_page
      else
        bind (attempt (db_act (on_admin_pool (query_row (\<lambda>d. map_option plant.truncate
          (first_row (\<lambda>p. pl_Slug p = slug \<and> pl_Status p = ''active'') (db_plants d))))))) (\<lambda>res.
        case res of
          Inl e \<Rightarrow> ret not_found_page
        | Inr plant \<Rightarrow> next plant r))"

section \<open>Session guards\<close>

definition RoleOwner :: string where "RoleOwner = ''owner''"
definition RoleManager :: string where "RoleManager = ''manager''"
definition RoleCashier :: string where "RoleCashier = ''cashier''"
definition RoleOperator :: string where "RoleOperator = ''operator''"
definition RoleAdmin :: string where "RoleAdmin = ''admin''"
definition RoleCustomer :: string where "RoleCustomer = ''customer''"

lemmas role_defs = RoleOwner_def RoleManager_def RoleCashier_def RoleOperator_def RoleAdmin_def
  RoleCustomer_def

definition clearing :: "'s server \<Rightarrow> string \<Rightarrow> response \<Rightarrow> response" where
  "clearing sv kind = with_cookies (ClearCookie (sv_APP_ENV sv) kind)"

definition renewing :: "'s server \<Rightarrow> string \<Rightarrow> string \<Rightarrow> time \<Rightarrow> ('s, response) hact \<Rightarrow> ('s, response) hact" where
  "renewing sv kind token ttl k =
     bind (ignore (session_Touch (sv_Redis sv) token ttl)) (\<lambda>_.
     bind k (\<lambda>resp. ret (with_cookies (WriteCookie (sv_APP_ENV sv) kind token ttl) resp)))"

definition staff_session_role :: "string \<Rightarrow> bool" where
  "staff_session_role role \<longleftrightarrow> role = RoleManager \<or> role = RoleCashier \<or> role = RoleOperator"

definition actor_of :: "Data \<Rightarrow> uuid \<Rightarrow> uuid option \<Rightarrow> uuid option \<Rightarrow> uuid option \<Rightarrow> string \<Rightarrow> Actor" where
  "actor_of data userID plantID shiftID pumpID token =
     \<lparr>ac_UserID = userID, ac_Name = sd_Name data, ac_Role = sd_Role data, ac_PlantID = plantID,
      ac_ShiftID = shiftID, ac_PumpID = pumpID, ac_Phone = '''', ac_Token = token,
      ac_CanEditPrice = sd_CanEditPrice data, ac_CanManageStaff = sd_CanManageStaff data,
      ac_CanManagePumps = sd_CanManagePumps data\<rparr>"

text \<open>The session of a request's cookie: \<open>None\<close> without a cookie, else what loading it returns.\<close>

definition load_cookie :: "'s server \<Rightarrow> http_request \<Rightarrow> string \<Rightarrow> ('s, (string \<times> (go_err + Data)) option) hact" where
  "load_cookie sv r kind =
     (case ReadCookie (hr_cookies r) kind of
        None \<Rightarrow> ret None
      | Some token \<Rightarrow> bind (attempt (session_Load (sv_Redis sv) (sv_codec sv) token)) (\<lambda>d. ret (Some (token, d))))"

definition RequireOwnerSession :: "'s server \<Rightarrow> plant option \<Rightarrow> (Actor \<Rightarrow> 's handler) \<Rightarrow> 's handler" where
  "RequireOwnerSession sv plant next r =
     (case plant of None \<Rightarrow> ret (http_error 404 ''Plant not found'') | Some p \<Rightarrow>
      let login = redirect ''/owner/login''; refuse = ret (clearing sv CookieOwner login) in
      bind (load_cookie sv r CookieOwner) (\<lambda>s.
      case s of
        None \<Rightarrow> ret login
      | Some (token, Inl e) \<Rightarrow> refuse
      | Some (token, Inr data) \<Rightarrow>
          bind (db_act ask_env) (\<lambda>v.
          if (sd_Role data \<noteq> RoleOwner \<and> sd_Role data \<noteq> RoleManager) \<or>
             sd_PlantID data \<noteq> e_uuid_str v (pl_ID p)
          then refuse
          else
            case e_uuid_parse v (sd_UserID data) of None \<Rightarrow> refuse | Some userID \<Rightarrow>
            renewing sv CookieOwner token OwnerTTL
              (next (actor_of data userID (Some (pl_ID p)) None None token) r))))"

definition RequireAdminSession :: "'s server \<Rightarrow> (Actor \<Rightarrow> 's handler) \<Rightarrow> 's handler" where
  "RequireAdminSession sv next r =
     (let login = redirect ''/admin/login''; refuse = ret (clearing sv CookieAdmin login) in
      bind (load_cookie sv r CookieAdmin) (\<lambda>s.
      case s of
        None \<Rightarrow> ret login
      | Some (token, Inl e) \<Rightarrow> refuse
      | Some (token, Inr data) \<Rightarrow>
          bind (db_act ask_env) (\<lambda>v.
          if sd_Role data \<noteq> RoleAdmin then refuse
          else
            case e_uuid_parse v (sd_UserID data) of None \<Rightarrow> refuse | Some userID \<Rightarrow>
            renewing sv CookieAdmin token OwnerTTL
              (next ((actor_of data userID None None None token)
                 \<lparr>ac_CanEditPrice := False, ac_CanManageStaff := False, ac_CanManagePumps := False\<rparr>) r))))"

text \<open>The optional pump of a staff session: \<open>None\<close> if it is there and malformed.\<close>

definition session_pump :: "env \<Rightarrow> string \<Rightarrow> uuid option option" where
  "session_pump v s = (if s \<noteq> '''' then map_option Some (e_uuid_parse v s) else Some None)"

definition RequireStaffSession :: "'s server \<Rightarrow> plant option \<Rightarrow> (Actor \<Rightarrow> 's handler) \<Rightarrow> 's handler" where
  "RequireStaffSession sv plant next r =
     (case plant of None \<Rightarrow> ret (http_error 404 ''Plant not found'') | Some p \<Rightarrow>
      let refuse = (\<lambda>msg. ret (clearing sv CookieStaff (writeJSONError 401 msg))) in
      bind (load_cookie sv r CookieStaff) (\<lambda>s.
      case s of
        None \<Rightarrow> ret (writeJSONError 401 ''not signed in'')
      | Some (token, Inl e) \<Rightarrow> refuse ''session expired''
      | Some (token, Inr data) \<Rightarrow>
          bind (db_act ask_env) (\<lambda>v.
          if \<not> staff_session_role (sd_Role data) \<or> sd_PlantID data \<noteq> e_uuid_str v (pl_ID p) \<or>
             sd_ShiftID data = ''''
          then refuse ''not signed in''
          else
            case e_uuid_parse v (sd_UserID data) of None \<Rightarrow> refuse ''session invalid'' | Some userID \<Rightarrow>
            case e_uuid_parse v (sd_ShiftID data) of None \<Rightarrow> refuse ''session invalid'' | Some shiftID \<Rightarrow>
            case session_pump v (sd_PumpID data) of None \<Rightarrow> refuse ''session invalid'' | Some pumpID \<Rightarrow>
            renewing sv CookieStaff token StaffBackstopTTL
              (next (actor_of data userID (Some (pl_ID p)) (Some shiftID) pumpID token) r))))"

definition receipt_actor :: "Data \<Rightarrow> uuid \<Rightarrow> string \<Rightarrow> Actor" where
  "receipt_actor data plantID token =
     \<lparr>ac_UserID = uuid_Nil, ac_Name = '''', ac_Role = sd_Role data, ac_PlantID = Some plantID,
      ac_ShiftID = None, ac_PumpID = None, ac_Phone = sd_Phone data, ac_Token = token,
      ac_CanEditPrice = False, ac_CanManageStaff = False, ac_CanManagePumps = False\<rparr>"

definition RequireReceiptSession :: "'s server \<Rightarrow> plant option \<Rightarrow> (Actor \<Rightarrow> 's handler) \<Rightarrow> 's handler" where
  "RequireReceiptSession sv plant next r =
     (case plant of None \<Rightarrow> ret (http_error 404 ''Plant not found'') | Some p \<Rightarrow>
      let back = redirect ''/receipts?error=session''; refuse = ret (clearing sv CookieReceipts back) in
      bind (load_cookie sv r CookieReceipts) (\<lambda>s.
      case s of
        None \<Rightarrow> ret back
      | Some (token, Inl e) \<Rightarrow> refuse
      | Some (token, Inr data) \<Rightarrow>
          bind (db_act ask_env) (\<lambda>v.
          if sd_Role data \<noteq> RoleCustomer \<or> sd_PlantID data \<noteq> e_uuid_str v (pl_ID p) \<or> sd_Phone data = ''''
          then refuse
          else renewing sv CookieReceipts token ReceiptSessionTTL
                 (next (receipt_actor data (pl_ID p) token) r))))"

end
