(* ===== verification/Tickets.thy ===== *)
theory Tickets
  imports AuditLog GoStrings GoFloat
begin

text \<open>
  \<^verbatim>\<open>internal/tickets/tickets.go\<close>: the price conversion, references and codes, and every statement
  that creates, redeems, dispenses, fills, pays, voids, lists and confirms a ticket. An
  operation is the action that runs its statements in the caller's transaction; the clauses of
  its SQL are the conditions, updates and orders of the corresponding statement of the model.
\<close>

section \<open>Price conversion\<close>

definition AmountFromGrams :: "int \<Rightarrow> int \<Rightarrow> int" where
  "AmountFromGrams sizeGrams pricePerKgKobo =
     to_int64 (Round (fdiv (fmul (of_int64 sizeGrams) (of_int64 pricePerKgKobo)) (of_int64 1000)))"

definition GramsFromAmount :: "int \<Rightarrow> int \<Rightarrow> int" where
  "GramsFromAmount amountKobo pricePerKgKobo =
     to_int64 (Round (fdiv (fmul (of_int64 amountKobo) (of_int64 1000)) (of_int64 pricePerKgKobo)))"

section \<open>References and codes\<close>

definition nullIfEmpty :: "string \<Rightarrow> string option" where
  "nullIfEmpty s = (let t = TrimSpace s in if t = [] then None else Some t)"

definition reference_char :: "char \<Rightarrow> bool" where
  "reference_char c \<longleftrightarrow> is_lower c \<or> is_digit c \<or> c = CHR ''-'' \<or> c = CHR ''.'' \<or> c = CHR ''=''"

definition sanitizeReferenceSegment :: "string \<Rightarrow> string" where
  "sanitizeReferenceSegment s =
     (let b = filter reference_char (ToLower (TrimSpace s)) in if b = [] then ''plant'' else b)"

definition randomHex :: "nat \<Rightarrow> string act" where
  "randomHex n = bind (rand_bytes n) (\<lambda>b. ret (hex_of b))"

definition NewReference :: "string \<Rightarrow> string act" where
  "NewReference plantSlug =
     bind (randomHex 6) (\<lambda>suffix. ret (sanitizeReferenceSegment plantSlug @ ''-'' @ suffix))"

definition NewCode :: "string act" where
  "NewCode = bind (rand_int 10000) (\<lambda>n. ret (fmt04 n))"

section \<open>Purchase\<close>

record Ticket =
  Ticket_ID :: uuid
  Ticket_Reference :: string
  Ticket_Code :: string

definition maxCodeAttempts :: nat where
  "maxCodeAttempts = 6"

record PurchaseParams =
  pp_PlantID :: uuid
  pp_PlantSlug :: string
  pp_PriceID :: uuid
  pp_RatePerKgKobo :: int
  pp_AmountKobo :: int
  pp_SizeGrams :: int
  pp_Channel :: string
  pp_CustomerName :: string
  pp_CustomerPhone :: string
  pp_Paid :: bool
  pp_SoldBy :: "uuid option"
  pp_ShiftID :: "uuid option"

text \<open>The row of the \<^verbatim>\<open>INSERT\<close>, with the columns it does not name at their defaults.\<close>

definition purchase_row :: "PurchaseParams \<Rightarrow> string \<Rightarrow> string \<Rightarrow> time option \<Rightarrow> time \<Rightarrow> uuid \<Rightarrow> ticket" where
  "purchase_row p reference code paidAt now i =
     \<lparr>tk_ID = i, tk_PlantID = pp_PlantID p, tk_Reference = reference, tk_Code = code,
      tk_CustomerName = nullIfEmpty (pp_CustomerName p),
      tk_CustomerPhone = nullIfEmpty (pp_CustomerPhone p),
      tk_SizeGrams = pp_SizeGrams p, tk_RatePerKg = pp_RatePerKgKobo p,
      tk_PriceID = Some (pp_PriceID p), tk_Amount = pp_AmountKobo p, tk_Channel = pp_Channel p,
      tk_Status = (if pp_Paid p then Paid else Pending),
      tk_NetGrams = None, tk_EmptyWeightGrams = None, tk_FilledWeightGrams = None,
      tk_FilledAt = None, tk_FilledShiftID = None, tk_ConfirmedAt = None, tk_PaidAt = paidAt,
      tk_ExpiresAt = None, tk_SoldBy = pp_SoldBy p, tk_ShiftID = pp_ShiftID p, tk_PumpID = None,
      tk_DispensingStartedAt = None, tk_DispensingStartedBy = None, tk_ClosedBy = None,
      tk_CloseNote = None, tk_VoidReason = None, tk_VoidedBy = None, tk_VoidedAt = None,
      tk_IdempotencyKey = None, tk_CreatedAt = now, tk_UpdatedAt = now\<rparr>"

fun purchase_attempts :: "PurchaseParams \<Rightarrow> string \<Rightarrow> time option \<Rightarrow> nat \<Rightarrow> Ticket act" where
  "purchase_attempts p reference paidAt 0 =
     fail (ErrorString ''tickets: could not allocate a unique redemption code after several attempts'')"
| "purchase_attempts p reference paidAt (Suc n) =
     bind NewCode (\<lambda>code.
     bind (attempt (exec_insert tickets_tab (purchase_row p reference code paidAt))) (\<lambda>r.
     case r of
       Inr row \<Rightarrow> ret \<lparr>Ticket_ID = tk_ID row, Ticket_Reference = reference, Ticket_Code = code\<rparr>
     | Inl e \<Rightarrow> if isUniqueViolation e then purchase_attempts p reference paidAt n else fail e))"

definition Purchase :: "PurchaseParams \<Rightarrow> Ticket act" where
  "Purchase p =
     bind (NewReference (pp_PlantSlug p)) (\<lambda>reference.
     bind (if pp_Paid p then bind time_Now (\<lambda>now. ret (Some now)) else ret None) (\<lambda>paidAt.
     purchase_attempts p reference paidAt maxCodeAttempts))"

definition CreatePending :: "PurchaseParams \<Rightarrow> Ticket act" where
  "CreatePending p = Purchase (p\<lparr>pp_Paid := False, pp_SoldBy := None, pp_ShiftID := None\<rparr>)"

definition CreatePaidCash :: "PurchaseParams \<Rightarrow> uuid \<Rightarrow> uuid \<Rightarrow> Ticket act" where
  "CreatePaidCash p soldBy shiftID =
     Purchase (p\<lparr>pp_Channel := ''cash'', pp_Paid := True, pp_SoldBy := Some soldBy,
                 pp_ShiftID := Some shiftID\<rparr>)"

section \<open>Redemption\<close>

record RedeemedTicket =
  rt_ID :: uuid
  rt_Initials :: string
  rt_SizeGrams :: int
  rt_AmountKobo :: int
  rt_Channel :: string
  rt_PumpID :: "uuid option"
  rt_PumpName :: string

definition ErrCodeNotFound :: go_err where
  "ErrCodeNotFound = Sentinel ''tickets: no ticket with that code''"
definition ErrCodeAlreadyRedeemed :: go_err where
  "ErrCodeAlreadyRedeemed = Sentinel ''tickets: this ticket has already been filled''"
definition ErrCodeNotPayable :: go_err where
  "ErrCodeNotPayable = Sentinel ''tickets: this ticket has not been paid for yet''"

definition to_upper_rune :: "(string \<Rightarrow> string) \<Rightarrow> string \<Rightarrow> string" where
  "to_upper_rune upper r =
     (case r of [c] \<Rightarrow> (if is_lower c then [char_of (byte c - 32)] else [c]) | _ \<Rightarrow> upper r)"

definition initialsFromName :: "(string \<Rightarrow> string) \<Rightarrow> string option \<Rightarrow> string" where
  "initialsFromName upper name =
     (case name of None \<Rightarrow> ''''
      | Some s \<Rightarrow> concat (map (\<lambda>f. to_upper_rune upper (first_rune f) @ ''.'') (take 2 (Fields s))))"

text \<open>\<^verbatim>\<open>LEFT JOIN pumps\<close> with \<^verbatim>\<open>COALESCE(p.name, '')\<close>.\<close>

definition pump_name :: "db \<Rightarrow> ticket \<Rightarrow> string" where
  "pump_name d t =
     (case first_row (\<lambda>p. tk_PumpID t = Some (pu_ID p) \<and> pu_PlantID p = tk_PlantID t) (db_pumps d) of
        None \<Rightarrow> '''' | Some p \<Rightarrow> pu_Name p)"

definition latest_with_code :: "uuid \<Rightarrow> string \<Rightarrow> db \<Rightarrow> ticket option" where
  "latest_with_code plantID code d =
     first_by (\<lambda>t. - tk_CreatedAt t) (filter (\<lambda>t. tk_PlantID t = plantID \<and> tk_Code t = code) (db_tickets d))"

definition Redeem :: "uuid \<Rightarrow> string \<Rightarrow> RedeemedTicket act" where
  "Redeem plantID code =
     bind ask_env (\<lambda>env.
     bind (attempt (query_row (\<lambda>d. map_option (\<lambda>t. (t, pump_name d t)) (latest_with_code plantID code d)))) (\<lambda>r.
     case r of
       Inl e \<Rightarrow> fail (if errors_is e ErrNoRows then ErrCodeNotFound else e)
     | Inr (t, pumpName) \<Rightarrow>
         (case tk_Status t of
            Paid \<Rightarrow> ret \<lparr>rt_ID = tk_ID t, rt_Initials = initialsFromName (e_upper env) (tk_CustomerName t),
                        rt_SizeGrams = tk_SizeGrams t, rt_AmountKobo = tk_Amount t,
                        rt_Channel = tk_Channel t, rt_PumpID = tk_PumpID t, rt_PumpName = pumpName\<rparr>
          | Dispensing \<Rightarrow> fail ErrCodeAlreadyRedeemed
          | Filled \<Rightarrow> fail ErrCodeAlreadyRedeemed
          | _ \<Rightarrow> fail ErrCodeNotPayable)))"

section \<open>Dispensing, filling, voiding and payment\<close>

definition not_empty_or :: "string \<Rightarrow> 'r list \<Rightarrow> unit act" where
  "not_empty_or msg rs = (if rs = [] then fail (ErrorString msg) else ret ())"

definition StartDispensing :: "uuid \<Rightarrow> uuid \<Rightarrow> uuid \<Rightarrow> unit act" where
  "StartDispensing plantID ticketID actorID =
     bind (exec_update tickets_tab
       (\<lambda>t. tk_ID t = ticketID \<and> tk_PlantID t = plantID \<and> tk_Status t = Paid)
       (\<lambda>now t. t\<lparr>tk_Status := Dispensing, tk_DispensingStartedAt := Some now,
                  tk_DispensingStartedBy := Some actorID\<rparr>))
     (not_empty_or ''tickets: not found, or not currently paid'')"

text \<open>The \<^verbatim>\<open>SET\<close> clause that \<^verbatim>\<open>CloseFilled\<close> and \<^verbatim>\<open>BulkCloseFilled\<close> share.\<close>

definition close_row :: "uuid \<Rightarrow> uuid \<Rightarrow> string \<Rightarrow> time \<Rightarrow> ticket \<Rightarrow> ticket" where
  "close_row shiftID actorID note now t =
     t\<lparr>tk_Status := Filled, tk_FilledAt := Some now, tk_FilledShiftID := Some shiftID,
       tk_ClosedBy := Some actorID, tk_CloseNote := nullIfEmpty note,
       tk_NetGrams := (case tk_NetGrams t of None \<Rightarrow> Some (tk_SizeGrams t) | Some n \<Rightarrow> Some n)\<rparr>"

definition CloseFilled :: "uuid \<Rightarrow> uuid \<Rightarrow> uuid \<Rightarrow> uuid \<Rightarrow> string \<Rightarrow> unit act" where
  "CloseFilled plantID ticketID shiftID actorID note =
     bind (exec_update tickets_tab
       (\<lambda>t. tk_ID t = ticketID \<and> tk_PlantID t = plantID \<and> tk_Status t = Dispensing)
       (close_row shiftID actorID note))
     (not_empty_or ''tickets: not found, or not currently dispensing'')"

definition BulkCloseFilled :: "uuid \<Rightarrow> uuid \<Rightarrow> uuid \<Rightarrow> uuid \<Rightarrow> string \<Rightarrow> nat act" where
  "BulkCloseFilled plantID pumpID shiftID actorID note =
     bind (exec_update tickets_tab
       (\<lambda>t. tk_PlantID t = plantID \<and> tk_PumpID t = Some pumpID \<and> tk_Status t = Dispensing)
       (close_row shiftID actorID note))
     (\<lambda>rs. ret (length rs))"

definition Fill :: "uuid \<Rightarrow> uuid \<Rightarrow> uuid \<Rightarrow> unit act" where
  "Fill plantID ticketID shiftID =
     bind (exec_update tickets_tab
       (\<lambda>t. tk_ID t = ticketID \<and> tk_PlantID t = plantID \<and> (tk_Status t = Paid \<or> tk_Status t = Dispensing))
       (\<lambda>now t. t\<lparr>tk_Status := Filled, tk_FilledAt := Some now, tk_FilledShiftID := Some shiftID,
          tk_NetGrams := (case tk_NetGrams t of None \<Rightarrow> Some (tk_SizeGrams t) | Some n \<Rightarrow> Some n)\<rparr>))
     (not_empty_or ''tickets: not found, or not currently paid'')"

definition MarkPaid :: "uuid \<Rightarrow> uuid \<Rightarrow> bool act" where
  "MarkPaid plantID ticketID =
     bind (query_row (\<lambda>d. map_option tk_Status
       (first_row (\<lambda>t. tk_ID t = ticketID \<and> tk_PlantID t = plantID) (db_tickets d)))) (\<lambda>status.
     case status of
       Paid \<Rightarrow> ret True
     | Dispensing \<Rightarrow> ret True
     | Filled \<Rightarrow> ret True
     | Pending \<Rightarrow>
         bind (exec_update tickets_tab (\<lambda>t. tk_ID t = ticketID \<and> tk_PlantID t = plantID)
           (\<lambda>now t. t\<lparr>tk_Status := Paid, tk_PaidAt := Some now\<rparr>)) (\<lambda>_. ret True)
     | _ \<Rightarrow> ret False)"

definition Void :: "uuid \<Rightarrow> uuid \<Rightarrow> uuid \<Rightarrow> string \<Rightarrow> unit act" where
  "Void plantID ticketID voidedBy reason =
     bind (exec_update tickets_tab
       (\<lambda>t. tk_ID t = ticketID \<and> tk_PlantID t = plantID \<and> (tk_Status t = Pending \<or> tk_Status t = Paid))
       (\<lambda>now t. t\<lparr>tk_Status := Voided, tk_VoidReason := Some reason, tk_VoidedBy := Some voidedBy,
                  tk_VoidedAt := Some now\<rparr>))
     (not_empty_or ''tickets: not found, or not in a voidable state'')"

section \<open>The customer's receipts\<close>

definition NormalizePhone :: "string \<Rightarrow> string" where
  "NormalizePhone phone =
     (let digits = filter is_digit phone in
      if 10 < length digits then drop (length digits - 10) digits else digits)"

text \<open>
  \<^verbatim>\<open>right(regexp_replace(customer_phone, '\D', '', 'g'), 10) = $n\<close>; on \<^verbatim>\<open>NULL\<close> the comparison
  is \<^verbatim>\<open>NULL\<close>, which selects nothing.
\<close>

definition sql_right :: "string \<Rightarrow> nat \<Rightarrow> string" where
  "sql_right s n = drop (length s - n) s"

definition phoneMatchSQL :: "ticket \<Rightarrow> string \<Rightarrow> bool" where
  "phoneMatchSQL t phone =
     (case tk_CustomerPhone t of None \<Rightarrow> False | Some s \<Rightarrow> sql_right (filter is_digit s) 10 = phone)"

definition ErrReceiptNotFound :: go_err where
  "ErrReceiptNotFound = Sentinel ''tickets: no receipt found for that phone number''"
definition ErrTicketNotConfirmable :: go_err where
  "ErrTicketNotConfirmable = Sentinel ''tickets: not found, not filled, or not yours''"

record ReceiptSummary =
  rs_Reference :: string
  rs_Status :: ticket_status
  rs_SizeGrams :: int
  rs_AmountKobo :: int
  rs_CreatedAt :: time
  rs_ConfirmedAt :: "time option"

definition ListByPhone :: "uuid \<Rightarrow> string \<Rightarrow> ReceiptSummary list act" where
  "ListByPhone plantID phone =
     query (\<lambda>d. map (\<lambda>t. \<lparr>rs_Reference = tk_Reference t, rs_Status = tk_Status t,
         rs_SizeGrams = tk_SizeGrams t, rs_AmountKobo = tk_Amount t, rs_CreatedAt = tk_CreatedAt t,
         rs_ConfirmedAt = tk_ConfirmedAt t\<rparr>)
       (take 50 (sort_key (\<lambda>t. - tk_CreatedAt t)
         (filter (\<lambda>t. tk_PlantID t = plantID \<and> phoneMatchSQL t phone) (db_tickets d)))))"

record Receipt =
  rc_Reference :: string
  rc_Code :: string
  rc_Status :: ticket_status
  rc_SizeGrams :: int
  rc_NetGrams :: "int option"
  rc_RatePerKgKobo :: int
  rc_AmountKobo :: int
  rc_Channel :: string
  rc_CreatedAt :: time
  rc_FilledAt :: "time option"
  rc_ConfirmedAt :: "time option"

definition GetReceipt :: "uuid \<Rightarrow> string \<Rightarrow> string \<Rightarrow> Receipt act" where
  "GetReceipt plantID reference phone =
     bind (attempt (query_row (\<lambda>d. first_row
       (\<lambda>t. tk_PlantID t = plantID \<and> tk_Reference t = reference \<and> phoneMatchSQL t phone)
       (db_tickets d)))) (\<lambda>r.
     case r of
       Inl e \<Rightarrow> fail (if errors_is e ErrNoRows then ErrReceiptNotFound else e)
     | Inr t \<Rightarrow> ret \<lparr>rc_Reference = reference, rc_Code = tk_Code t, rc_Status = tk_Status t,
         rc_SizeGrams = tk_SizeGrams t, rc_NetGrams = tk_NetGrams t,
         rc_RatePerKgKobo = tk_RatePerKg t, rc_AmountKobo = tk_Amount t, rc_Channel = tk_Channel t,
         rc_CreatedAt = tk_CreatedAt t, rc_FilledAt = tk_FilledAt t,
         rc_ConfirmedAt = tk_ConfirmedAt t\<rparr>)"

definition Confirm :: "uuid \<Rightarrow> string \<Rightarrow> string \<Rightarrow> unit act" where
  "Confirm plantID reference phone =
     bind (attempt (query_row (\<lambda>d. map_option (\<lambda>t. (tk_Status t, tk_ConfirmedAt t)) (first_row
       (\<lambda>t. tk_PlantID t = plantID \<and> tk_Reference t = reference \<and> phoneMatchSQL t phone)
       (db_tickets d))))) (\<lambda>r.
     case r of
       Inl e \<Rightarrow> fail (if errors_is e ErrNoRows then ErrTicketNotConfirmable else e)
     | Inr (status, confirmedAt) \<Rightarrow>
         if status \<noteq> Filled then fail ErrTicketNotConfirmable
         else if confirmedAt \<noteq> None then ret ()
         else bind (exec_update tickets_tab
                (\<lambda>t. tk_PlantID t = plantID \<and> tk_Reference t = reference)
                (\<lambda>now t. t\<lparr>tk_ConfirmedAt := Some now\<rparr>)) (\<lambda>_. ret ()))"

section \<open>The pump's queue and the webhook's lookup\<close>

record PumpQueueTicket =
  pq_ID :: uuid
  pq_Code :: string
  pq_Initials :: string
  pq_SizeGrams :: int
  pq_AmountKobo :: int
  pq_Channel :: string
  pq_StartedAt :: time

text \<open>\<^verbatim>\<open>ORDER BY dispensing_started_at NULLS LAST, created_at\<close>.\<close>

definition queue_key :: "ticket \<Rightarrow> int \<times> time \<times> time" where
  "queue_key t = (case tk_DispensingStartedAt t of None \<Rightarrow> (1, 0, tk_CreatedAt t)
                  | Some s \<Rightarrow> (0, s, tk_CreatedAt t))"

definition ListDispensingForPump :: "uuid \<Rightarrow> uuid \<Rightarrow> PumpQueueTicket list act" where
  "ListDispensingForPump plantID pumpID =
     bind ask_env (\<lambda>env.
     query (\<lambda>d. map (\<lambda>t. \<lparr>pq_ID = tk_ID t, pq_Code = tk_Code t,
         pq_Initials = initialsFromName (e_upper env) (tk_CustomerName t),
         pq_SizeGrams = tk_SizeGrams t, pq_AmountKobo = tk_Amount t, pq_Channel = tk_Channel t,
         pq_StartedAt = (case tk_DispensingStartedAt t of None \<Rightarrow> tk_UpdatedAt t | Some s \<Rightarrow> s)\<rparr>)
       (sort_key queue_key (filter (\<lambda>t. tk_PlantID t = plantID \<and> tk_PumpID t = Some pumpID \<and>
          tk_Status t = Dispensing) (db_tickets d)))))"

definition LookupPlantByReference :: "string \<Rightarrow> (uuid \<times> uuid) act" where
  "LookupPlantByReference reference =
     query_row (\<lambda>d. map_option (\<lambda>t. (tk_PlantID t, tk_ID t))
       (first_row (\<lambda>t. tk_Reference t = reference) (db_tickets d)))"

end
