(* ===== verification/Pumps.thy ===== *)
theory Pumps
  imports AuditLog GoStrings
begin

text \<open>
  \<^verbatim>\<open>internal/pumps/pumps.go\<close>: a plant's pumps, the assignment of a paid ticket to the least busy
  working pump (one statement with two common table expressions, run on the snapshot it starts
  from), and the check of the pump that a shift is opened on.
\<close>

record Pump =
  pm_ID :: uuid
  pm_Name :: string
  pm_Status :: string
  pm_SortOrder :: int
  pm_BusyCount :: nat
  pm_OpenShift :: bool

definition ErrNoWorkingPump :: go_err where
  "ErrNoWorkingPump = Sentinel ''pumps: no working pump is available''"
definition ErrPumpBusy :: go_err where
  "ErrPumpBusy = Sentinel ''pumps: pump already has an open operator shift''"
definition ErrPumpNotFound :: go_err where
  "ErrPumpNotFound = Sentinel ''pumps: not found''"

definition new_pump :: "uuid \<Rightarrow> string \<Rightarrow> string \<Rightarrow> int \<Rightarrow> time \<Rightarrow> uuid \<Rightarrow> pump_row" where
  "new_pump plantID name status sortOrder now i =
     \<lparr>pu_ID = i, pu_PlantID = plantID, pu_Name = name, pu_Status = status, pu_SortOrder = sortOrder,
      pu_CreatedAt = now, pu_UpdatedAt = now\<rparr>"

definition EnsureDefault :: "uuid \<Rightarrow> unit act" where
  "EnsureDefault plantID =
     bind (exec_insert_when pumps_tab (\<lambda>v d r. \<forall>p \<in> set (db_pumps v). pu_PlantID p \<noteq> plantID)
       (new_pump plantID ''Pump 1'' ''working'' 1)) (\<lambda>_. ret ())"

text \<open>\<^verbatim>\<open>COUNT(t.id) FILTER (WHERE t.status IN ('paid', 'dispensing'))\<close> over the joined tickets.\<close>

definition busy_count :: "db \<Rightarrow> pump_row \<Rightarrow> nat" where
  "busy_count d p = count_where (\<lambda>t. tk_PumpID t = Some (pu_ID p) \<and> tk_PlantID t = pu_PlantID p \<and>
     (tk_Status t = Paid \<or> tk_Status t = Dispensing)) (db_tickets d)"

definition has_open_shift :: "db \<Rightarrow> pump_row \<Rightarrow> bool" where
  "has_open_shift d p \<longleftrightarrow> (\<exists>s \<in> set (db_shifts d). sh_PlantID s = pu_PlantID p \<and>
     sh_PumpID s = Some (pu_ID p) \<and> sh_ClosedAt s = None)"

definition pumps_List :: "uuid \<Rightarrow> Pump list act" where
  "pumps_List plantID =
     bind (EnsureDefault plantID) (\<lambda>_.
     query (\<lambda>d. map (\<lambda>p. \<lparr>pm_ID = pu_ID p, pm_Name = pu_Name p, pm_Status = pu_Status p,
         pm_SortOrder = pu_SortOrder p, pm_BusyCount = busy_count d p, pm_OpenShift = has_open_shift d p\<rparr>)
       (sort_key (\<lambda>p. (pu_SortOrder p, pu_CreatedAt p))
         (filter (\<lambda>p. pu_PlantID p = plantID) (db_pumps d)))))"

definition pump_result :: "db \<Rightarrow> pump_row \<Rightarrow> Pump" where
  "pump_result d p = \<lparr>pm_ID = pu_ID p, pm_Name = pu_Name p, pm_Status = pu_Status p,
     pm_SortOrder = pu_SortOrder p, pm_BusyCount = busy_count d p, pm_OpenShift = False\<rparr>"

text \<open>The \<^verbatim>\<open>candidate\<close> expression.\<close>

definition candidate :: "uuid \<Rightarrow> db \<Rightarrow> pump_row option" where
  "candidate plantID d = first_by (\<lambda>p. (int (busy_count d p), pu_SortOrder p, pu_CreatedAt p))
     (filter (\<lambda>p. pu_PlantID p = plantID \<and> pu_Status p = ''working'') (db_pumps d))"

text \<open>The second branch of the \<^verbatim>\<open>UNION ALL\<close>: the pump that the ticket already has.\<close>

definition existing_pump :: "uuid \<Rightarrow> uuid \<Rightarrow> db \<Rightarrow> pump_row option" where
  "existing_pump plantID ticketID d =
     (case first_row (\<lambda>t. tk_ID t = ticketID \<and> tk_PlantID t = plantID \<and> tk_PumpID t \<noteq> None) (db_tickets d) of
        None \<Rightarrow> None
      | Some t \<Rightarrow> first_row (\<lambda>p. Some (pu_ID p) = tk_PumpID t \<and> pu_PlantID p = tk_PlantID t) (db_pumps d))"

definition assign_stmt :: "uuid \<Rightarrow> uuid \<Rightarrow> Pump option act" where
  "assign_stmt plantID ticketID = exec_stmt (\<lambda>w.
     let d = w_db w; v = visible_db (w_role w) d;
         free = (\<lambda>t. visible (w_role w) (Some (tk_PlantID t)) \<and>
                     tk_ID t = ticketID \<and> tk_PlantID t = plantID \<and> tk_PumpID t = None)
     in case candidate plantID v of
          Some c \<Rightarrow>
            if \<exists>t \<in> set (db_tickets d). free t
            then checked tickets_tab (Some (pump_result v c))
                   (d\<lparr>db_tickets := upd_where free (\<lambda>t. t\<lparr>tk_PumpID := Some (pu_ID c), tk_UpdatedAt := w_now w\<rparr>)
                        (db_tickets d)\<rparr>)
            else Inr (map_option (pump_result v) (existing_pump plantID ticketID v), d)
        | None \<Rightarrow> Inr (map_option (pump_result v) (existing_pump plantID ticketID v), d))"

definition AssignLeastBusy :: "uuid \<Rightarrow> uuid \<Rightarrow> Pump act" where
  "AssignLeastBusy plantID ticketID =
     bind (EnsureDefault plantID) (\<lambda>_.
     bind (assign_stmt plantID ticketID) (\<lambda>r.
     case r of None \<Rightarrow> fail ErrNoWorkingPump | Some p \<Rightarrow> ret p))"

definition ValidateShiftPump :: "uuid \<Rightarrow> uuid \<Rightarrow> uuid \<Rightarrow> unit act" where
  "ValidateShiftPump plantID pumpID userID =
     bind (attempt (query_row (\<lambda>d. map_option pu_Status
       (first_row (\<lambda>p. pu_ID p = pumpID \<and> pu_PlantID p = plantID) (db_pumps d))))) (\<lambda>r.
     case r of
       Inl e \<Rightarrow> fail (if errors_is e ErrNoRows then ErrPumpNotFound else e)
     | Inr status \<Rightarrow>
         if status \<noteq> ''working'' then fail ErrNoWorkingPump
         else bind (query (\<lambda>d. \<exists>s \<in> set (db_shifts d). sh_PlantID s = plantID \<and>
                sh_PumpID s = Some pumpID \<and> sh_UserID s \<noteq> userID \<and> sh_ClosedAt s = None)) (\<lambda>busy.
              if busy then fail ErrPumpBusy else ret ()))"

definition Upsert :: "uuid \<Rightarrow> uuid option \<Rightarrow> string \<Rightarrow> string \<Rightarrow> int \<Rightarrow> uuid act" where
  "Upsert plantID i name0 status0 sortOrder0 =
     (let name1 = TrimSpace name0;
          name = (if name1 = '''' then ''Pump 1'' else name1);
          status = (if status0 \<noteq> ''working'' \<and> status0 \<noteq> ''not_working'' \<and> status0 \<noteq> ''maintenance''
                    then ''working'' else status0);
          sortOrder = (if sortOrder0 \<le> 0 then 1 else sortOrder0)
      in if i = None \<or> i = Some uuid_Nil
         then bind (exec_insert pumps_tab (new_pump plantID name status sortOrder)) (\<lambda>p. ret (pu_ID p))
         else bind (exec_update pumps_tab (\<lambda>p. Some (pu_ID p) = i \<and> pu_PlantID p = plantID)
                (\<lambda>now p. p\<lparr>pu_Name := name, pu_Status := status, pu_SortOrder := sortOrder\<rparr>)) (\<lambda>rs.
              if rs = [] then fail ErrPumpNotFound else ret (the i)))"

end
