(* ===== verification/Prices.thy ===== *)
theory Prices
  imports AuditLog
begin

text \<open>
  \<^verbatim>\<open>internal/prices/prices.go\<close>: \<open>Set\<close>, which only ever appends to the price history, and the
  current price that \<^verbatim>\<open>loadCurrentPrice\<close> in \<^verbatim>\<open>cmd/server/tickets.go\<close> reads from it.
\<close>

definition ErrInvalidPrice :: go_err where
  "ErrInvalidPrice = Sentinel ''prices: price per kg must be greater than zero''"

definition prices_Set :: "uuid \<Rightarrow> int \<Rightarrow> uuid \<Rightarrow> uuid act" where
  "prices_Set plantID pricePerKgKobo setBy =
     (if pricePerKgKobo \<le> 0 then fail ErrInvalidPrice
      else bind (exec_insert prices_tab (\<lambda>now i. \<lparr>pr_ID = i, pr_PlantID = plantID,
             pr_PricePerKg = pricePerKgKobo, pr_EffectiveFrom = now, pr_SetBy = Some setBy,
             pr_CreatedAt = now\<rparr>)) (\<lambda>p. ret (pr_ID p)))"

definition loadCurrentPrice :: "uuid \<Rightarrow> (uuid \<times> int) act" where
  "loadCurrentPrice plantID =
     query_row (\<lambda>d. map_option (\<lambda>p. (pr_ID p, pr_PricePerKg p))
       (first_by (\<lambda>p. - pr_EffectiveFrom p) (filter (\<lambda>p. pr_PlantID p = plantID) (db_prices d))))"

end
