(* ===== verification/ServerTickets.thy ===== *)
theory ServerTickets
  imports Middleware Tickets Pumps Prices
begin

text \<open>
  \<^verbatim>\<open>cmd/server/tickets.go\<close>: the customer's purchase, the two ways a payment is confirmed (the
  browser that returns from Paystack, and the signed webhook), and voiding. The body of each
  transaction is an action of its own, so that the laws about it hold for any caller.
\<close>

definition errPlantClosed :: go_err where
  "errPlantClosed = Sentinel ''plant is currently closed''"

section \<open>Purchase\<close>

text \<open>\<^verbatim>\<open>int64(math.Round(naira * 100))\<close>.\<close>

definition kobo_of :: "float64 \<Rightarrow> int" where
  "kobo_of naira = to_int64 (Round (fmul naira (Fin 100)))"

definition wrap_error :: "string \<Rightarrow> 'a act \<Rightarrow> 'a act" where
  "wrap_error msg m = bind (attempt m) (\<lambda>r. case r of Inl e \<Rightarrow> fail (Wrap msg e) | Inr a \<Rightarrow> ret a)"

lemma runs_wrap_error [run_simps]: "runs (wrap_error s m) w a w' \<longleftrightarrow> runs m w a w'"
  by (auto simp: wrap_error_def runs_def bind_def attempt_def fail_def ret_def split: prod.splits sum.splits)

definition buyGas_tx ::
  "(string \<Rightarrow> location option) \<Rightarrow> plant \<Rightarrow> int \<Rightarrow> string \<Rightarrow> string \<Rightarrow> string \<Rightarrow> Ticket act" where
  "buyGas_tx LoadLocation plant amountKobo dbChannel name phone =
     bind (wrap_error ''load plant hours'' (StatusNow LoadLocation (pl_ID plant) (pl_Timezone plant))) (\<lambda>openStatus.
     if \<not> ts_IsOpen openStatus then fail errPlantClosed
     else
       bind (wrap_error ''load current price'' (loadCurrentPrice (pl_ID plant))) (\<lambda>(priceID, pricePerKg).
       if pricePerKg \<le> 0 then fail (ErrorString ''invalid current price for plant'')
       else let sizeGrams = GramsFromAmount amountKobo pricePerKg in
         if sizeGrams \<le> 0
         then fail (ErrorString ''amount too small to buy any gas at the current price'')
         else
           bind (CreatePending \<lparr>pp_PlantID = pl_ID plant, pp_PlantSlug = pl_Slug plant, pp_PriceID = priceID,
               pp_RatePerKgKobo = pricePerKg, pp_AmountKobo = amountKobo, pp_SizeGrams = sizeGrams,
               pp_Channel = dbChannel, pp_CustomerName = name, pp_CustomerPhone = phone,
               pp_Paid = False, pp_SoldBy = None, pp_ShiftID = None\<rparr>) (\<lambda>created.
           bind (Log (Some (pl_ID plant)) None ''ticket.created'' (Ticket_Reference created)
             [(''amount_kobo'', DInt amountKobo), (''size_grams'', DInt sizeGrams), (''channel'', DStr dbChannel)]) (\<lambda>_.
           ret created))))"

definition buyGasSubmitHandler :: "'s server \<Rightarrow> plant option \<Rightarrow> 's handler" where
  "buyGasSubmitHandler sv plant0 r =
     (case plant0 of None \<Rightarrow> ret not_found_page | Some plant \<Rightarrow>
      if \<not> hr_form_ok r then ret (redirect ''/?error=form'')
      else
        (case ParseFloat (form r ''amount'') of
           None \<Rightarrow> ret (redirect ''/?error=amount'')
         | Some amountNaira \<Rightarrow>
           if fle amountNaira (Fin 0) then ret (redirect ''/?error=amount'')
           else
             let amountKobo = kobo_of amountNaira; name = form r ''name''; phone = form r ''phone'' in
             if name = '''' \<or> phone = '''' then ret (redirect ''/?error=details'')
             else
               (case mapCustomerChannel (hr_FormValue r ''channel'') of
                  None \<Rightarrow> ret (redirect ''/?error=channel'')
                | Some (dbChannel, paystackChannels) \<Rightarrow>
                  bind (in_tenant (pl_ID plant) (buyGas_tx (sv_LoadLocation sv) plant amountKobo dbChannel name phone)) (\<lambda>res.
                  case res of
                    Inl e \<Rightarrow> ret (redirect (if errors_is e errPlantClosed then ''/?error=closed'' else ''/?error=server''))
                  | Inr ticket \<Rightarrow>
                    let subaccount = (case pl_PaystackSubaccountCode plant of None \<Rightarrow> '''' | Some c \<Rightarrow> c);
                        callbackURL = requestScheme r @ ''://'' @ hr_Host r @ ''/tickets/'' @ Ticket_Reference ticket @ ''/callback''
                    in bind (attempt (db_act (Initialize (sv_Paystack sv)
                         \<lparr>ip_Email = ticketEmail (sv_NotificationEmail sv) (Ticket_Reference ticket),
                          ip_AmountKobo = amountKobo, ip_Reference = Ticket_Reference ticket,
                          ip_CallbackURL = callbackURL, ip_Channels = paystackChannels,
                          ip_Subaccount = subaccount, ip_Bearer = ''subaccount''\<rparr>))) (\<lambda>init.
                       case init of
                         Inl e \<Rightarrow> ret (redirect ''/?error=payment'')
                       | Inr i \<Rightarrow> ret (redirect (ir_AuthorizationURL i)))))))"

section \<open>Payment confirmation\<close>

text \<open>The test that both confirmation paths make of Paystack's answer.\<close>

definition payment_confirmed :: "VerifyResult \<Rightarrow> int \<Rightarrow> bool" where
  "payment_confirmed verify amountKobo \<longleftrightarrow>
     \<not> (vr_Status verify \<noteq> ''success'' \<or> vr_AmountKobo verify \<noteq> amountKobo \<or>
        (vr_Currency verify \<noteq> '''' \<and> vr_Currency verify \<noteq> ''NGN''))"

text \<open>Paid or not, the code, the two labels, and the pump's name if one was assigned.\<close>

definition callback_tx ::
  "uuid \<Rightarrow> string \<Rightarrow> (go_err + VerifyResult) \<Rightarrow> (bool \<times> string \<times> string \<times> string \<times> string) act" where
  "callback_tx plantID reference verified =
     bind (query_row (\<lambda>d. map_option (\<lambda>t. (tk_ID t, tk_Code t, tk_Amount t, tk_SizeGrams t))
       (first_row (\<lambda>t. tk_PlantID t = plantID \<and> tk_Reference t = reference) (db_tickets d))))
       (\<lambda>(ticketID, code, amountKobo, sizeGrams).
     let amountLabel = formatNaira amountKobo; sizeLabel = formatKg sizeGrams;
         unconfirmed = ret (False, code, amountLabel, sizeLabel, '''')
     in case verified of
          Inl e \<Rightarrow> unconfirmed
        | Inr verify \<Rightarrow>
          if \<not> payment_confirmed verify amountKobo then unconfirmed
          else
            bind (MarkPaid plantID ticketID) (\<lambda>ok.
            if \<not> ok then unconfirmed
            else
              bind (attempt (AssignLeastBusy plantID ticketID)) (\<lambda>assigned.
              let pumpLabel = (case assigned of Inl e \<Rightarrow> '''' | Inr p \<Rightarrow> pm_Name p) in
              bind (Log (Some plantID) None ''ticket.paid'' reference [(''via'', DStr ''callback'')]) (\<lambda>_.
              ret (True, code, amountLabel, sizeLabel, pumpLabel)))))"

definition ticketCallbackHandler :: "'s server \<Rightarrow> plant option \<Rightarrow> 's handler" where
  "ticketCallbackHandler sv plant0 r =
     (case plant0 of None \<Rightarrow> ret not_found_page | Some plant \<Rightarrow>
      let reference = hr_URLParam r ''reference'' in
      bind (attempt (db_act (Verify (sv_Paystack sv) reference))) (\<lambda>verified.
      bind (in_tenant (pl_ID plant) (callback_tx (pl_ID plant) reference verified)) (\<lambda>res.
      case res of
        Inl e \<Rightarrow> ret (http_error 500 ''Something went wrong confirming your payment.'')
      | Inr (paid, code, amountLabel, sizeLabel, pumpLabel0) \<Rightarrow>
          let pumpLabel = (if pumpLabel0 = '''' then ''being assigned'' else pumpLabel0) in
          ret (plain (Page 200 ''TicketConfirmation'' [(''paid'', JBool paid), (''code'', JStr code),
            (''amount'', JStr amountLabel), (''size'', JStr sizeLabel), (''pump'', JStr pumpLabel)])))))"

definition webhook_tx :: "uuid \<Rightarrow> uuid \<Rightarrow> string \<Rightarrow> VerifyResult \<Rightarrow> unit act" where
  "webhook_tx plantID ticketID reference verify =
     bind (query_row (\<lambda>d. map_option tk_Amount
       (first_row (\<lambda>t. tk_ID t = ticketID \<and> tk_PlantID t = plantID) (db_tickets d)))) (\<lambda>amountKobo.
     if \<not> payment_confirmed verify amountKobo then ret ()
     else
       bind (MarkPaid plantID ticketID) (\<lambda>ok.
       if \<not> ok then ret ()
       else
         bind (attempt (AssignLeastBusy plantID ticketID)) (\<lambda>_.
         Log (Some plantID) None ''ticket.paid'' reference
           [(''via'', DStr ''webhook''), (''gateway_response'', DStr (vr_GatewayResponse verify))])))"

definition paystackWebhookHandler :: "'s server \<Rightarrow> 's handler" where
  "paystackWebhookHandler sv r =
     (case hr_body r of
        None \<Rightarrow> ret (http_error 400 ''bad request'')
      | Some body0 \<Rightarrow>
        let body = take 1048576 body0 in
        if \<not> VerifyWebhookSignature (sv_Paystack sv) body (hr_Header r ''X-Paystack-Signature'')
        then ret (http_error 401 ''invalid signature'')
        else
          case pc_DecodeEvent (sv_Paystack sv) body of
            None \<Rightarrow> ret (http_error 400 ''bad request'')
          | Some event \<Rightarrow>
            if we_Event event \<noteq> ''charge.success'' then ret (plain (StatusOnly 200))
            else
              let reference = we_Reference event in
              bind (attempt (db_act (on_admin_pool (LookupPlantByReference reference)))) (\<lambda>found.
              case found of
                Inl e \<Rightarrow> ret (plain (StatusOnly 200))
              | Inr (plantID, ticketID) \<Rightarrow>
                bind (attempt (db_act (Verify (sv_Paystack sv) reference))) (\<lambda>verified.
                case verified of
                  Inl e \<Rightarrow> ret (http_error 500 ''could not confirm transaction'')
                | Inr verify \<Rightarrow>
                  bind (in_tenant plantID (webhook_tx plantID ticketID reference verify)) (\<lambda>res.
                  case res of
                    Inl e \<Rightarrow> ret (http_error 500 ''processing failed'')
                  | Inr _ \<Rightarrow> ret (plain (StatusOnly 200))))))"

section \<open>Voiding\<close>

definition void_tx :: "uuid \<Rightarrow> string \<Rightarrow> uuid \<Rightarrow> string \<Rightarrow> unit act" where
  "void_tx plantID reference actorID reason =
     bind (query_row (\<lambda>d. map_option tk_ID
       (first_row (\<lambda>t. tk_PlantID t = plantID \<and> tk_Reference t = reference) (db_tickets d)))) (\<lambda>ticketID.
     bind (Void plantID ticketID actorID reason) (\<lambda>_.
     Log (Some plantID) (Some actorID) ''ticket.voided'' reference [(''reason'', DStr reason)]))"

definition ticketVoidHandler :: "'s server \<Rightarrow> plant option \<Rightarrow> Actor option \<Rightarrow> 's handler" where
  "ticketVoidHandler sv plant0 actor0 r =
     (case (plant0, actor0) of
        (Some plant, Some actor) \<Rightarrow>
          if \<not> hr_form_ok r then ret (redirect ''/owner'')
          else
            let reason = (if form r ''reason'' = '''' then ''Voided by owner'' else form r ''reason'') in
            bind (in_tenant (pl_ID plant) (void_tx (pl_ID plant) (hr_URLParam r ''reference'') (ac_UserID actor) reason)) (\<lambda>_.
            ret (redirect ''/owner''))
      | _ \<Rightarrow> ret (http_error 404 ''Not found''))"

end
