(* ===== verification/ServerTerminal.thy ===== *)
theory ServerTerminal
  imports ServerTickets Reviews
begin

text \<open>
  \<^verbatim>\<open>cmd/server/terminal.go\<close>: the JSON endpoints of the staff terminal - signing in with a PIN,
  redeeming a code, starting and closing a fill, cash sales, prices, pumps, staff, the end of a
  shift. As in \<open>ServerTickets\<close>, the body of each transaction is an action of its own.
\<close>

definition errTerminalForbidden :: go_err where
  "errTerminalForbidden = Sentinel ''terminal: forbidden''"

definition not_signed_in :: response where
  "not_signed_in = writeJSONError 401 ''not signed in''"

definition bad_submission :: response where
  "bad_submission = writeJSONError 400 ''could not read submission''"

definition errors_is_res :: "go_err + 'a \<Rightarrow> go_err \<Rightarrow> bool" where
  "errors_is_res r t = (case r of Inl e \<Rightarrow> errors_is e t | Inr _ \<Rightarrow> False)"

section \<open>Lists and permissions\<close>

record terminalManageStaff =
  ms_ID :: uuid
  ms_Name :: string
  ms_Role :: string
  ms_Active :: bool

definition role_rank :: "string \<Rightarrow> nat" where
  "role_rank r = (if r = ''manager'' then 1 else if r = ''cashier'' then 2 else 3)"

definition listTerminalManageStaff :: "uuid \<Rightarrow> terminalManageStaff list act" where
  "listTerminalManageStaff plantID =
     query (\<lambda>d. map (\<lambda>u. \<lparr>ms_ID = us_ID u, ms_Name = us_Name u, ms_Role = us_Role u, ms_Active = us_Active u\<rparr>)
       (sort_key (\<lambda>u. (role_rank (us_Role u), us_Name u))
         (filter (\<lambda>u. us_PlantID u = plantID \<and> staff_role (us_Role u)) (db_users d))))"

text \<open>The column of a permission; any other name is refused.\<close>

definition permission_of :: "string \<Rightarrow> (user_row \<Rightarrow> bool) option" where
  "permission_of permission =
     (if permission = ''can_edit_price'' then Some us_CanEditPrice
      else if permission = ''can_manage_staff'' then Some us_CanManageStaff
      else if permission = ''can_manage_pumps'' then Some us_CanManagePumps
      else None)"

definition active_manager :: "uuid \<Rightarrow> uuid \<Rightarrow> user_row \<Rightarrow> bool" where
  "active_manager plantID userID u \<longleftrightarrow>
     us_ID u = userID \<and> us_PlantID u = plantID \<and> us_Role u = ''manager'' \<and> us_Active u"

definition terminalManagerCan :: "uuid \<Rightarrow> uuid \<Rightarrow> string \<Rightarrow> unit act" where
  "terminalManagerCan plantID userID permission =
     (case permission_of permission of
        None \<Rightarrow> fail errTerminalForbidden
      | Some column \<Rightarrow>
          bind (attempt (query_row (\<lambda>d. map_option column
            (first_row (active_manager plantID userID) (db_users d))))) (\<lambda>r.
          case r of
            Inl e \<Rightarrow> fail (if errors_is e ErrNoRows then errTerminalForbidden else e)
          | Inr allowed \<Rightarrow> if \<not> allowed then fail errTerminalForbidden else ret ()))"

definition shiftCashHeld :: "uuid \<Rightarrow> uuid \<Rightarrow> int act" where
  "shiftCashHeld plantID shiftID = bind (Summary plantID shiftID) (\<lambda>(_, _, cash). ret cash)"

definition manage_staff_json :: "terminalManageStaff \<Rightarrow> json" where
  "manage_staff_json m = JObj [(''id'', JUuid (ms_ID m)), (''name'', JStr (ms_Name m)),
     (''role'', JStr (ms_Role m)), (''active'', JBool (ms_Active m))]"

definition pump_json :: "Pump \<Rightarrow> json" where
  "pump_json p = JObj [(''id'', JUuid (pm_ID p)), (''name'', JStr (pm_Name p)), (''status'', JStr (pm_Status p)),
     (''sort_order'', JInt (pm_SortOrder p)), (''busy_count'', JInt (int (pm_BusyCount p))),
     (''open_shift'', JBool (pm_OpenShift p))]"

section \<open>Signing in\<close>

definition pin_lookup_tx :: "uuid \<Rightarrow> uuid \<Rightarrow> user_row option act" where
  "pin_lookup_tx plantID userID =
     bind (attempt (query_row (\<lambda>d. first_row (\<lambda>u. us_ID u = userID \<and> us_PlantID u = plantID \<and> staff_role (us_Role u))
       (db_users d)))) (\<lambda>r.
     case r of
       Inr u \<Rightarrow> ret (Some u)
     | Inl e \<Rightarrow> if e = ErrNoRows then ret None else fail e)"

record pin_result =
  pn_Shift :: Shift
  pn_Resumed :: bool
  pn_PumpName :: string
  pn_Summary :: "nat \<times> int \<times> int"

text \<open>The name of the pump is read with its error dropped.\<close>

definition shift_pump_name :: "uuid \<Rightarrow> uuid option \<Rightarrow> string act" where
  "shift_pump_name plantID pumpID =
     (case pumpID of
        None \<Rightarrow> ret ''''
      | Some i \<Rightarrow>
          bind (attempt (query_row (\<lambda>d. map_option pu_Name
            (first_row (\<lambda>p. pu_ID p = i \<and> pu_PlantID p = plantID) (db_pumps d))))) (\<lambda>r.
          ret (case r of Inl e \<Rightarrow> '''' | Inr n \<Rightarrow> n)))"

definition start_shift_tx :: "uuid \<Rightarrow> uuid \<Rightarrow> int \<Rightarrow> string \<Rightarrow> uuid option \<Rightarrow> pin_result act" where
  "start_shift_tx plantID userID openingCashKobo deviceID requestedPumpID =
     bind (case requestedPumpID of None \<Rightarrow> ret () | Some p \<Rightarrow> ValidateShiftPump plantID p userID) (\<lambda>_.
     bind (StartOrResume plantID userID openingCashKobo deviceID requestedPumpID) (\<lambda>(sh, wasResumed).
     bind (shift_pump_name plantID (sf_PumpID sh)) (\<lambda>pumpName.
     bind (if \<not> wasResumed
           then Log (Some plantID) (Some userID) ''shift.opened'' '''' [(''opening_cash_kobo'', DInt (sf_OpeningCashKobo sh))]
           else ret ()) (\<lambda>_.
     bind (Summary plantID (sf_ID sh)) (\<lambda>s.
     ret \<lparr>pn_Shift = sh, pn_Resumed = wasResumed, pn_PumpName = pumpName, pn_Summary = s\<rparr>)))))"

definition pin_session :: "env \<Rightarrow> uuid \<Rightarrow> user_row \<Rightarrow> Shift \<Rightarrow> Data" where
  "pin_session v plantID u sh =
     \<lparr>sd_UserID = e_uuid_str v (us_ID u), sd_Role = us_Role u, sd_Name = us_Name u,
      sd_PlantID = e_uuid_str v plantID, sd_ShiftID = e_uuid_str v (sf_ID sh),
      sd_PumpID = (case sf_PumpID sh of None \<Rightarrow> '''' | Some p \<Rightarrow> e_uuid_str v p), sd_Phone = '''',
      sd_CanEditPrice = us_CanEditPrice u, sd_CanManageStaff = us_CanManageStaff u,
      sd_CanManagePumps = us_CanManagePumps u, sd_CreatedAt = 0\<rparr>"

definition pin_payload :: "'s server \<Rightarrow> env \<Rightarrow> user_row \<Rightarrow> pin_result \<Rightarrow> string \<Rightarrow> (string \<times> json) list" where
  "pin_payload sv v u res token =
     (let sh = pn_Shift res; (fills, grams, cash) = pn_Summary res in
      [(''shift_id'', JUuid (sf_ID sh)), (''user_id'', JUuid (us_ID u)), (''name'', JStr (us_Name u)),
       (''role'', JStr (us_Role u)), (''opened_at'', JTime (sf_OpenedAt sh)),
       (''opening_cash_kobo'', JInt (sf_OpeningCashKobo sh)),
       (''pump_id'', JStr (case sf_PumpID sh of None \<Rightarrow> '''' | Some p \<Rightarrow> e_uuid_str v p)),
       (''pump_name'', JStr (pn_PumpName res)), (''fills_completed'', JInt (int fills)),
       (''grams_dispensed'', JInt grams), (''cash_held_kobo'', JInt cash), (''resumed'', JBool (pn_Resumed res)),
       (''can_edit_price'', JBool (us_CanEditPrice u)), (''can_manage_staff'', JBool (us_CanManageStaff u)),
       (''can_manage_pumps'', JBool (us_CanManagePumps u)), (''csrf_token'', JStr (csrf_token_or_empty sv token))])"

text \<open>What follows a correct PIN.\<close>

definition pin_accepted ::
  "'s server \<Rightarrow> plant \<Rightarrow> user_row \<Rightarrow> int \<Rightarrow> string \<Rightarrow> uuid option \<Rightarrow> ('s, response) hact" where
  "pin_accepted sv plant u openingCashKobo deviceID requestedPumpID =
     bind (ignore (Reset (sv_Redis sv) (us_ID u))) (\<lambda>_.
     if us_Role u = RoleOperator \<and> requestedPumpID = None
     then ret (writeJSONError 400 ''operators must choose a pump'')
     else
       bind (in_tenant (pl_ID plant) (start_shift_tx (pl_ID plant) (us_ID u) openingCashKobo deviceID requestedPumpID)) (\<lambda>started.
       case started of
         Inl e \<Rightarrow> ret (writeJSONError 500 ''could not start shift'')
       | Inr res \<Rightarrow>
         bind (db_act ask_env) (\<lambda>v.
         bind (attempt (session_Create (sv_Redis sv) (sv_codec sv) (pin_session v (pl_ID plant) u (pn_Shift res)) StaffBackstopTTL)) (\<lambda>created.
         case created of
           Inl e \<Rightarrow> ret (writeJSONError 500 ''something went wrong'')
         | Inr token \<Rightarrow> ret (with_cookies (WriteCookie (sv_APP_ENV sv) CookieStaff token StaffBackstopTTL)
             (writeJSON 200 (pin_payload sv v u res token)))))))"

definition pin_matches :: "bcrypt \<Rightarrow> user_row option \<Rightarrow> string \<Rightarrow> bool" where
  "pin_matches bc found pin =
     (case found of None \<Rightarrow> False
      | Some u \<Rightarrow> us_Active u \<and> VerifyPassword bc (case us_PinHash u of None \<Rightarrow> '''' | Some h \<Rightarrow> h) pin)"

text \<open>The check of a PIN, behind the lock.\<close>

definition check_pin ::
  "'s server \<Rightarrow> plant \<Rightarrow> uuid \<Rightarrow> string \<Rightarrow> (user_row \<Rightarrow> ('s, response) hact) \<Rightarrow> ('s, response) hact" where
  "check_pin sv plant userID pin accepted =
     bind (attempt (Locked (sv_Redis sv) userID)) (\<lambda>lock.
     case lock of
       Inl e \<Rightarrow> ret (writeJSONError 500 ''something went wrong'')
     | Inr (locked, retryAfter) \<Rightarrow>
       if locked
       then ret (writeJSON 429 [(''error'', JStr ''terminal locked, try again shortly''),
              (''retry_after_seconds'', JInt (retryAfter div Second))])
       else
         bind (in_tenant (pl_ID plant) (pin_lookup_tx (pl_ID plant) userID)) (\<lambda>res.
         case res of
           Inl e \<Rightarrow> ret (writeJSONError 500 ''something went wrong'')
         | Inr found \<Rightarrow>
           if \<not> pin_matches (sv_bcrypt sv) found pin
           then bind (if found \<noteq> None then ignore (RecordFailure (sv_Redis sv) userID) else ret ()) (\<lambda>_.
                ret (writeJSONError 401 ''incorrect PIN''))
           else accepted (the found)))"

definition optional_uuid :: "env \<Rightarrow> string \<Rightarrow> uuid option option" where
  "optional_uuid v raw = (if raw = '''' then Some None else map_option Some (e_uuid_parse v raw))"

definition terminalPinHandler :: "'s server \<Rightarrow> plant option \<Rightarrow> 's handler" where
  "terminalPinHandler sv plant0 r =
     (case plant0 of None \<Rightarrow> ret not_found_page | Some plant \<Rightarrow>
      if \<not> hr_form_ok r then ret bad_submission
      else
        bind (db_act ask_env) (\<lambda>v.
        case e_uuid_parse v (hr_FormValue r ''user_id'') of
          None \<Rightarrow> ret (writeJSONError 400 ''choose your name'')
        | Some userID \<Rightarrow>
          let pin = hr_FormValue r ''pin'' in
          if pin = '''' then ret (writeJSONError 400 ''enter your PIN'')
          else
            case ParseFloat (form r ''opening_cash'') of
              None \<Rightarrow> ret (writeJSONError 400 ''enter the opening cash amount'')
            | Some openingCashNaira \<Rightarrow>
              if flt openingCashNaira (Fin 0) then ret (writeJSONError 400 ''enter the opening cash amount'')
              else
                case optional_uuid v (form r ''pump_id'') of
                  None \<Rightarrow> ret (writeJSONError 400 ''choose a valid pump'')
                | Some requestedPumpID \<Rightarrow>
                    check_pin sv plant userID pin (\<lambda>u.
                      pin_accepted sv plant u (kobo_of openingCashNaira) (form r ''device_id'') requestedPumpID)))"

section \<open>Redeeming and dispensing\<close>

definition terminalRedeemHandler :: "'s server \<Rightarrow> plant option \<Rightarrow> Actor option \<Rightarrow> 's handler" where
  "terminalRedeemHandler sv plant0 actor0 r =
     (case (plant0, actor0) of
        (Some plant, Some actor) \<Rightarrow>
          if ac_Role actor = RoleOperator then ret (writeJSONError 403 ''cashier or manager must start dispensing'')
          else if \<not> hr_form_ok r then ret bad_submission
          else let code = form r ''code'' in
            if length code \<noteq> 4 then ret (writeJSONError 400 ''enter a 4-digit code'')
            else
              bind (in_tenant (pl_ID plant) (Redeem (pl_ID plant) code)) (\<lambda>res.
              case res of
                Inr t \<Rightarrow> ret (writeJSON 200 [(''ticket_id'', JUuid (rt_ID t)), (''initials'', JStr (rt_Initials t)),
                    (''size_kg'', JStr (formatKg (rt_SizeGrams t))), (''amount'', JStr (formatNaira (rt_AmountKobo t))),
                    (''channel'', JStr (humanize (rt_Channel t) ''Payment channel'')),
                    (''pump'', JStr (fallbackString (rt_PumpName t) ''Assigned pump''))])
              | Inl e \<Rightarrow>
                  if errors_is e ErrCodeAlreadyRedeemed
                  then ret (writeJSONError 409 ''this code has already started dispensing or has been filled'')
                  else if errors_is e ErrCodeNotFound \<or> errors_is e ErrCodeNotPayable
                  then ret (writeJSONError 404 ''incorrect code'')
                  else ret (writeJSONError 500 ''something went wrong''))
      | _ \<Rightarrow> ret not_signed_in)"

text \<open>The texts for the SMS are read with the error dropped: zero values when the read fails.\<close>

definition fill_texts :: "uuid \<Rightarrow> uuid \<Rightarrow> (string \<times> string \<times> int \<times> string) act" where
  "fill_texts plantID ticketID =
     bind (attempt (query_row (\<lambda>d. map_option
       (\<lambda>t. (case tk_CustomerPhone t of None \<Rightarrow> '''' | Some p \<Rightarrow> p, tk_Code t, tk_SizeGrams t, pump_name d t))
       (first_row (\<lambda>t. tk_ID t = ticketID \<and> tk_PlantID t = plantID) (db_tickets d))))) (\<lambda>r.
     ret (case r of Inl e \<Rightarrow> ('''', '''', 0, '''') | Inr x \<Rightarrow> x))"

definition fill_tx ::
  "(string \<Rightarrow> string) \<Rightarrow> plant \<Rightarrow> uuid \<Rightarrow> Actor \<Rightarrow> dispensingNotification act" where
  "fill_tx absoluteURL plant ticketID actor =
     (if ac_Role actor = RoleOperator then fail errTerminalForbidden
      else
        bind (StartDispensing (pl_ID plant) ticketID (ac_UserID actor)) (\<lambda>_.
        bind (fill_texts (pl_ID plant) ticketID) (\<lambda>(phone, code, sizeGrams, pumpName).
        bind (EnsureRequest (pl_ID plant) ticketID) (\<lambda>(reviewReq, _).
        bind ask_env (\<lambda>v.
        bind (Log (Some (pl_ID plant)) (Some (ac_UserID actor)) ''ticket.dispensing_started'' (e_uuid_str v ticketID) []) (\<lambda>_.
        ret \<lparr>dn_PlantName = pl_Name plant, dn_TermiiSenderID = ptrString (pl_TermiiSenderID plant) '''',
             dn_CustomerPhone = phone, dn_Code = code, dn_SizeLabel = formatKg sizeGrams,
             dn_PumpName = pumpName, dn_ReviewURL = absoluteURL (''/reviews/'' @ rq_Token reviewReq)\<rparr>))))))"

definition terminalFillHandler :: "'s server \<Rightarrow> plant option \<Rightarrow> Actor option \<Rightarrow> 's handler" where
  "terminalFillHandler sv plant0 actor0 r =
     (case (plant0, actor0) of
        (Some plant, Some actor) \<Rightarrow>
          if ac_ShiftID actor = None then ret not_signed_in
          else if ac_Role actor = RoleOperator then ret (writeJSONError 403 ''cashier or manager must start dispensing'')
          else if \<not> hr_form_ok r then ret bad_submission
          else
            bind (db_act ask_env) (\<lambda>v.
            case e_uuid_parse v (hr_FormValue r ''ticket_id'') of
              None \<Rightarrow> ret (writeJSONError 400 ''invalid ticket'')
            | Some ticketID \<Rightarrow>
              bind (in_tenant (pl_ID plant)
                (fill_tx (tenantAbsoluteURL (sv_ParseURL sv) (sv_AppBaseURL sv) (pl_Slug plant)) plant ticketID actor)) (\<lambda>res.
              case res of
                Inl e \<Rightarrow>
                  if errors_is e errTerminalForbidden
                  then ret (writeJSONError 403 ''cashier or manager must start dispensing'')
                  else ret (writeJSONError 400 ''could not start dispensing'')
              | Inr notice \<Rightarrow> ret (sending (notifyDispensingStarted notice) (writeJSON 200 [(''ok'', JBool True)]))))
      | _ \<Rightarrow> ret not_signed_in)"

section \<open>Cash sales\<close>

text \<open>The weight that this handler computes on its own.\<close>

definition cash_sale_grams :: "int \<Rightarrow> int \<Rightarrow> int" where
  "cash_sale_grams amountKobo pricePerKg =
     to_int64 (Round (fdiv (fmul (of_int64 amountKobo) (Fin 1000)) (of_int64 pricePerKg)))"

text \<open>A missing pump is tolerated, any other failure is not.\<close>

definition assign_or_none :: "uuid \<Rightarrow> uuid \<Rightarrow> string act" where
  "assign_or_none plantID ticketID =
     bind (attempt (AssignLeastBusy plantID ticketID)) (\<lambda>r.
     case r of
       Inl e \<Rightarrow> if \<not> errors_is e ErrNoWorkingPump then fail e else ret ''''
     | Inr p \<Rightarrow> ret (pm_Name p))"

record cash_result =
  ca_Ticket :: Ticket
  ca_SizeGrams :: int
  ca_PricePerKg :: int
  ca_PumpName :: string
  ca_CashHeld :: int

definition cashSale_tx ::
  "(string \<Rightarrow> location option) \<Rightarrow> plant \<Rightarrow> uuid \<Rightarrow> uuid \<Rightarrow> int \<Rightarrow> string \<Rightarrow> cash_result act" where
  "cashSale_tx LoadLocation plant userID shiftID amountKobo phone =
     bind (StatusNow LoadLocation (pl_ID plant) (pl_Timezone plant)) (\<lambda>openStatus.
     if \<not> ts_IsOpen openStatus then fail errPlantClosed
     else
       bind (loadCurrentPrice (pl_ID plant)) (\<lambda>(priceID, pricePerKg).
       if pricePerKg \<le> 0 then fail (ErrorString ''cash sale price is not set'')
       else let sizeGrams = cash_sale_grams amountKobo pricePerKg in
         if sizeGrams \<le> 0 then fail (ErrorString ''cash sale amount is too small'')
         else
           bind (CreatePaidCash \<lparr>pp_PlantID = pl_ID plant, pp_PlantSlug = pl_Slug plant, pp_PriceID = priceID,
               pp_RatePerKgKobo = pricePerKg, pp_AmountKobo = amountKobo, pp_SizeGrams = sizeGrams,
               pp_Channel = '''', pp_CustomerName = '''', pp_CustomerPhone = phone,
               pp_Paid = False, pp_SoldBy = None, pp_ShiftID = None\<rparr> userID shiftID) (\<lambda>t.
           bind (assign_or_none (pl_ID plant) (Ticket_ID t)) (\<lambda>pumpName.
           bind (exec_insert cash_tab (movement (pl_ID plant) shiftID ''sale'' amountKobo None (Some (Ticket_ID t))
             (Some userID) (Some ''Cash sale at terminal''))) (\<lambda>_.
           bind (Log (Some (pl_ID plant)) (Some userID) ''ticket.cash_sale'' (Ticket_Reference t)
             [(''amount_kobo'', DInt amountKobo), (''size_grams'', DInt sizeGrams), (''pump'', DStr pumpName)]) (\<lambda>_.
           bind (shiftCashHeld (pl_ID plant) shiftID) (\<lambda>cashHeld.
           ret \<lparr>ca_Ticket = t, ca_SizeGrams = sizeGrams, ca_PricePerKg = pricePerKg, ca_PumpName = pumpName,
                ca_CashHeld = cashHeld\<rparr>)))))))"

definition terminalCashSaleHandler :: "'s server \<Rightarrow> plant option \<Rightarrow> Actor option \<Rightarrow> 's handler" where
  "terminalCashSaleHandler sv plant0 actor0 r =
     (case (plant0, actor0) of
        (Some plant, Some actor) \<Rightarrow>
          (case ac_ShiftID actor of None \<Rightarrow> ret not_signed_in | Some shiftID \<Rightarrow>
           if ac_Role actor = RoleOperator then ret (writeJSONError 403 ''cashier or manager must record cash sales'')
           else if \<not> hr_form_ok r then ret bad_submission
           else
             case ParseFloat (form r ''amount_naira'') of
               None \<Rightarrow> ret (writeJSONError 400 ''enter the cash amount'')
             | Some amountNaira \<Rightarrow>
               if fle amountNaira (Fin 0) then ret (writeJSONError 400 ''enter the cash amount'')
               else
                 let phone = form r ''phone''; amountKobo = kobo_of amountNaira in
                 bind (in_tenant (pl_ID plant)
                   (cashSale_tx (sv_LoadLocation sv) plant (ac_UserID actor) shiftID amountKobo phone)) (\<lambda>res.
                 case res of
                   Inl e \<Rightarrow>
                     if errors_is e errPlantClosed then ret (writeJSONError 403 ''Plant is currently closed'')
                     else ret (writeJSONError 500 ''could not record cash sale'')
                 | Inr c \<Rightarrow> ret (writeJSON 200 [(''ticket_id'', JUuid (Ticket_ID (ca_Ticket c))),
                     (''code'', JStr (Ticket_Code (ca_Ticket c))), (''amount'', JStr (formatNaira amountKobo)),
                     (''size_kg'', JStr (formatKg (ca_SizeGrams c))),
                     (''rate'', JStr (formatNaira (ca_PricePerKg c) @ ''/kg'')), (''pump'', JStr (ca_PumpName c)),
                     (''cash_held_kobo'', JInt (ca_CashHeld c))])))
      | _ \<Rightarrow> ret not_signed_in)"

end
