(* ===== verification/ServerCustomer.thy ===== *)
theory ServerCustomer
  imports ServerTerminal
begin

text \<open>
  What customers reach: the receipts page with its one-time codes (\<^verbatim>\<open>cmd/server/receipts.go\<close>),
  reviews (\<^verbatim>\<open>cmd/server/reviews.go\<close>) and the bank account preview (\<^verbatim>\<open>cmd/server/accounts.go\<close>).
\<close>

section \<open>Labels\<close>

definition status_text :: "ticket_status \<Rightarrow> string" where
  "status_text s = (case s of Pending \<Rightarrow> ''pending'' | Paid \<Rightarrow> ''paid'' | Dispensing \<Rightarrow> ''dispensing''
     | Filled \<Rightarrow> ''filled'' | Issue \<Rightarrow> ''issue'' | Cancelled \<Rightarrow> ''cancelled'' | Expired \<Rightarrow> ''expired''
     | Voided \<Rightarrow> ''voided'')"

definition receiptsErrorMessage :: "string \<Rightarrow> string" where
  "receiptsErrorMessage code =
     (if code = ''session'' then ''Your session expired. Enter your phone number again.''
      else if code = ''confirm'' then ''Could not confirm that receipt. It may not be ready to confirm yet.''
      else '''')"

definition receiptStatusLabel :: "ticket_status \<Rightarrow> bool \<Rightarrow> string" where
  "receiptStatusLabel status confirmed =
     (case status of
        Pending \<Rightarrow> ''Awaiting payment''
      | Paid \<Rightarrow> ''Awaiting fill''
      | Dispensing \<Rightarrow> ''Dispensing in progress''
      | Filled \<Rightarrow> if confirmed then ''Received'' else ''Ready to confirm''
      | Expired \<Rightarrow> ''Expired''
      | Voided \<Rightarrow> ''Voided''
      | _ \<Rightarrow> humanize (status_text status) ''Unknown'')"

definition receiptBadgeCSS :: "ticket_status \<Rightarrow> bool \<Rightarrow> string" where
  "receiptBadgeCSS status confirmed =
     (case status of
        Filled \<Rightarrow> if confirmed then ''badge-success'' else ''badge-pending''
      | Expired \<Rightarrow> ''badge-danger''
      | Voided \<Rightarrow> ''badge-danger''
      | _ \<Rightarrow> ''badge-pending'')"

definition time_or_blank :: "time option \<Rightarrow> json" where
  "time_or_blank t = (case t of None \<Rightarrow> JStr '''' | Some t \<Rightarrow> JTime t)"

definition toReceiptDetail :: "'s server \<Rightarrow> Receipt \<Rightarrow> string \<Rightarrow> json" where
  "toReceiptDetail sv rc sessionToken =
     (let confirmed = rc_ConfirmedAt rc \<noteq> None;
          netKg = (case rc_NetGrams rc of None \<Rightarrow> ''Awaiting fill''
                   | Some n \<Rightarrow> if 0 < n then formatKg n else ''Awaiting fill'')
      in JObj [(''Reference'', JStr (rc_Reference rc)), (''Code'', JStr (rc_Code rc)),
        (''StatusLabel'', JStr (receiptStatusLabel (rc_Status rc) confirmed)),
        (''BadgeCSS'', JStr (receiptBadgeCSS (rc_Status rc) confirmed)),
        (''Kg'', JStr (formatKg (rc_SizeGrams rc))), (''NetKg'', JStr netKg),
        (''Rate'', JStr (formatNaira (rc_RatePerKgKobo rc) @ ''/kg'')),
        (''Amount'', JStr (formatNaira (rc_AmountKobo rc))), (''Channel'', JStr (channelLabel (rc_Channel rc))),
        (''When'', JTime (rc_CreatedAt rc)), (''ConfirmedAt'', time_or_blank (rc_ConfirmedAt rc)),
        (''CanConfirm'', JBool (rc_Status rc = Filled \<and> \<not> confirmed)),
        (''ConfirmAction'', JStr (''/tickets/'' @ rc_Reference rc @ ''/confirm'')),
        (''CSRFToken'', JStr (csrf_token_or_empty sv sessionToken))])"

definition summary_item :: "string \<Rightarrow> ReceiptSummary \<Rightarrow> json" where
  "summary_item selectedRef item =
     (let confirmed = rs_ConfirmedAt item \<noteq> None in
      JObj [(''Reference'', JStr (rs_Reference item)), (''Href'', JStr (''/receipts?ticket='' @ rs_Reference item)),
        (''Kg'', JStr (formatKg (rs_SizeGrams item))), (''Amount'', JStr (formatNaira (rs_AmountKobo item))),
        (''When'', JTime (rs_CreatedAt item)), (''Selected'', JBool (rs_Reference item = selectedRef)),
        (''StatusLabel'', JStr (receiptStatusLabel (rs_Status item) confirmed)),
        (''BadgeCSS'', JStr (receiptBadgeCSS (rs_Status item) confirmed))])"

section \<open>The receipts page\<close>

definition loadReceiptSession ::
  "'s server \<Rightarrow> http_request \<Rightarrow> plant \<Rightarrow> ('s, (string \<times> string) option) hact" where
  "loadReceiptSession sv r plant =
     bind (load_cookie sv r CookieReceipts) (\<lambda>s.
     case s of
       None \<Rightarrow> ret None
     | Some (tok, Inl e) \<Rightarrow> ret None
     | Some (tok, Inr data) \<Rightarrow>
         bind (db_act ask_env) (\<lambda>v.
         if sd_Role data \<noteq> RoleCustomer \<or> sd_PlantID data \<noteq> e_uuid_str v (pl_ID plant) \<or> sd_Phone data = ''''
         then ret None
         else bind (ignore (session_Touch (sv_Redis sv) tok ReceiptSessionTTL)) (\<lambda>_.
              ret (Some (sd_Phone data, tok)))))"

definition receipts_view :: "string \<Rightarrow> string \<Rightarrow> string \<Rightarrow> string \<Rightarrow> body" where
  "receipts_view view csrfToken errorMsg phone =
     Page 200 ''CustomerReceipts'' [(''View'', JStr view), (''CSRFToken'', JStr csrfToken), (''ErrorMsg'', JStr errorMsg),
       (''Phone'', JStr phone)]"

text \<open>The list, and the receipt that is shown if there is one.\<close>

definition receipts_tx :: "'s server \<Rightarrow> uuid \<Rightarrow> string \<Rightarrow> string \<Rightarrow> string \<Rightarrow> (json list \<times> json option) act" where
  "receipts_tx sv plantID phone queryTicket sessionToken =
     bind (ListByPhone plantID phone) (\<lambda>summaries.
     let selectedRef = (if queryTicket = '''' \<and> summaries \<noteq> [] then rs_Reference (hd summaries) else queryTicket);
         items = map (summary_item selectedRef) summaries
     in if selectedRef = '''' then ret (items, None)
        else
          bind (attempt (GetReceipt plantID selectedRef phone)) (\<lambda>res.
          case res of
            Inl e \<Rightarrow> if errors_is e ErrReceiptNotFound then ret (items, None) else fail e
          | Inr receipt \<Rightarrow> ret (items, Some (toReceiptDetail sv receipt sessionToken))))"

definition receiptsPageHandler :: "'s server \<Rightarrow> plant option \<Rightarrow> 's handler" where
  "receiptsPageHandler sv plant0 r =
     (case plant0 of None \<Rightarrow> ret not_found_page | Some plant \<Rightarrow>
      bind (EnsurePublicCSRFCookie sv r) (\<lambda>(csrfToken, cookies).
      let errorMsg = receiptsErrorMessage (hr_Query r ''error'') in
      bind (loadReceiptSession sv r plant) (\<lambda>sess.
      case sess of
        None \<Rightarrow> ret (with_cookies cookies (plain (receipts_view ''lookup'' csrfToken errorMsg '''')))
      | Some (phone, sessionToken) \<Rightarrow>
          let set = cookies @ WriteCookie (sv_APP_ENV sv) CookieReceipts sessionToken ReceiptSessionTTL in
          bind (in_tenant (pl_ID plant) (receipts_tx sv (pl_ID plant) phone (hr_Query r ''ticket'') sessionToken)) (\<lambda>res.
          case res of
            Inl e \<Rightarrow> ret (with_cookies set (http_error 500 ''Could not load receipts''))
          | Inr (items, selected) \<Rightarrow> ret (with_cookies set (plain (Page 200 ''CustomerReceipts''
              ([(''View'', JStr ''list''), (''CSRFToken'', JStr csrfToken), (''ErrorMsg'', JStr errorMsg),
                (''Phone'', JStr (displayPhone phone)), (''Tickets'', JArr items),
                (''Selected'', (case selected of None \<Rightarrow> JNull | Some d \<Rightarrow> d))]))))))))"

definition renderReceipts :: "'s server \<Rightarrow> http_request \<Rightarrow> string \<Rightarrow> string \<Rightarrow> string \<Rightarrow> ('s, response) hact" where
  "renderReceipts sv r view phone errorMsg =
     bind (EnsurePublicCSRFCookie sv r) (\<lambda>(csrfToken, cookies).
     ret (with_cookies cookies (plain (receipts_view view csrfToken errorMsg phone))))"

definition renderReceiptsLookup :: "'s server \<Rightarrow> http_request \<Rightarrow> string \<Rightarrow> ('s, response) hact" where
  "renderReceiptsLookup sv r errorMsg = renderReceipts sv r ''lookup'' '''' errorMsg"

definition renderReceiptsVerify :: "'s server \<Rightarrow> http_request \<Rightarrow> string \<Rightarrow> string \<Rightarrow> ('s, response) hact" where
  "renderReceiptsVerify sv r phone errorMsg = renderReceipts sv r ''verify'' phone errorMsg"

section \<open>One-time codes\<close>

definition code_message :: "string \<Rightarrow> string \<Rightarrow> string" where
  "code_message plantName code =
     ''Your '' @ plantName @ '' receipts code is '' @ code @ ''. It expires in 10 minutes.''"

definition receiptsLookupHandler :: "'s server \<Rightarrow> plant option \<Rightarrow> 's handler" where
  "receiptsLookupHandler sv plant0 r =
     (case plant0 of None \<Rightarrow> ret not_found_page | Some plant \<Rightarrow>
      if \<not> hr_form_ok r then renderReceiptsLookup sv r ''Could not read that submission. Try again.''
      else
        let rawPhone = form r ''phone''; normalized = NormalizePhone rawPhone in
        if length normalized \<noteq> 10 then renderReceiptsLookup sv r ''Enter a valid phone number.''
        else
          bind (attempt (RequestCode (sv_Redis sv) (pl_ID plant) normalized)) (\<lambda>res.
          case res of
            Inl e \<Rightarrow>
              if errors_is e ErrCooldown
              then renderReceiptsVerify sv r rawPhone
                ''A code was already sent -- check your messages, or wait a moment and try resending.''
              else renderReceiptsLookup sv r ''Something went wrong. Try again.''
          | Inr code \<Rightarrow>
              bind (renderReceiptsVerify sv r rawPhone '''') (\<lambda>resp.
              ret (sending [SMS (ptrString (pl_TermiiSenderID plant) '''') rawPhone (code_message (pl_Name plant) code)] resp))))"

definition customer_session :: "env \<Rightarrow> uuid \<Rightarrow> string \<Rightarrow> Data" where
  "customer_session v plantID phone =
     \<lparr>sd_UserID = '''', sd_Role = RoleCustomer, sd_Name = '''', sd_PlantID = e_uuid_str v plantID, sd_ShiftID = '''',
      sd_PumpID = '''', sd_Phone = phone, sd_CanEditPrice = False, sd_CanManageStaff = False,
      sd_CanManagePumps = False, sd_CreatedAt = 0\<rparr>"

definition receiptsVerifyHandler :: "'s server \<Rightarrow> plant option \<Rightarrow> 's handler" where
  "receiptsVerifyHandler sv plant0 r =
     (case plant0 of None \<Rightarrow> ret not_found_page | Some plant \<Rightarrow>
      if \<not> hr_form_ok r then renderReceiptsLookup sv r ''Could not read that submission. Try again.''
      else
        let rawPhone = form r ''phone''; code = form r ''code'' in
        if rawPhone = '''' then renderReceiptsLookup sv r ''Enter your phone number.''
        else
          let normalized = NormalizePhone rawPhone in
          bind (attempt (VerifyCode (sv_Redis sv) (pl_ID plant) normalized code)) (\<lambda>res.
          case res of
            Inl e \<Rightarrow>
              if errors_is e receipts_ErrLocked
              then renderReceiptsVerify sv r rawPhone ''Too many wrong attempts. Wait a few minutes, then request a new code.''
              else renderReceiptsVerify sv r rawPhone ''Something went wrong. Try again.''
          | Inr ok \<Rightarrow>
            if \<not> ok then renderReceiptsVerify sv r rawPhone ''That code is incorrect or has expired.''
            else
              bind (db_act ask_env) (\<lambda>v.
              bind (attempt (session_Create (sv_Redis sv) (sv_codec sv) (customer_session v (pl_ID plant) normalized) ReceiptSessionTTL)) (\<lambda>created.
              case created of
                Inl e \<Rightarrow> renderReceiptsVerify sv r rawPhone ''Something went wrong. Try again.''
              | Inr token \<Rightarrow> ret (with_cookies (WriteCookie (sv_APP_ENV sv) CookieReceipts token ReceiptSessionTTL)
                  (redirect ''/receipts''))))))"

definition confirm_tx :: "uuid \<Rightarrow> string \<Rightarrow> string \<Rightarrow> unit act" where
  "confirm_tx plantID reference phone =
     bind (Confirm plantID reference phone) (\<lambda>_.
     Log (Some plantID) None ''ticket.confirmed'' reference [])"

definition receiptsConfirmHandler :: "'s server \<Rightarrow> plant option \<Rightarrow> Actor option \<Rightarrow> 's handler" where
  "receiptsConfirmHandler sv plant0 actor0 r =
     (case (plant0, actor0) of
        (Some plant, Some actor) \<Rightarrow>
          let reference = hr_URLParam r ''reference'' in
          bind (in_tenant (pl_ID plant) (confirm_tx (pl_ID plant) reference (ac_Phone actor))) (\<lambda>res.
          case res of
            Inl e \<Rightarrow> ret (redirect (''/receipts?ticket='' @ reference @ ''&error=confirm''))
          | Inr _ \<Rightarrow> ret (redirect (''/receipts?ticket='' @ reference)))
      | _ \<Rightarrow> ret (http_error 404 ''Not found''))"

section \<open>Reviews\<close>

definition reviewErrorMessage :: "string \<Rightarrow> string" where
  "reviewErrorMessage code =
     (if code = ''rating'' then ''Choose a rating from 1 to 5 stars.''
      else if code = ''form'' \<or> code = ''server'' then ''We could not save your review just now. Please try again.''
      else '''')"

definition reviewPageHandler :: "'s server \<Rightarrow> plant option \<Rightarrow> 's handler" where
  "reviewPageHandler sv plant0 r =
     (case plant0 of None \<Rightarrow> ret not_found_page | Some plant \<Rightarrow>
      let token = TrimSpace (hr_URLParam r ''token'') in
      bind (EnsurePublicCSRFCookie sv r) (\<lambda>(csrfToken, cookies).
      bind (in_tenant (pl_ID plant) (GetTarget (pl_ID plant) token)) (\<lambda>res.
      case res of
        Inl e \<Rightarrow> ret (with_cookies cookies (if errors_is e reviews_ErrNotFound then not_found_page
                    else http_error 500 ''Could not load review''))
      | Inr target \<Rightarrow> ret (with_cookies cookies (plain (Page 200 ''PlantReview''
          [(''CSRFToken'', JStr csrfToken), (''Token'', JStr token), (''TicketReference'', JStr (tg_TicketReference target)),
           (''AlreadySubmitted'', JBool (tg_SubmittedAt target \<noteq> None)),
           (''Rating'', JInt (case tg_Rating target of None \<Rightarrow> 0 | Some n \<Rightarrow> n)), (''Note'', JStr (tg_Note target)),
           (''ErrorMessage'', JStr (reviewErrorMessage (hr_Query r ''error'')))]))))))"

definition review_tx :: "uuid \<Rightarrow> string \<Rightarrow> int \<Rightarrow> string \<Rightarrow> unit act" where
  "review_tx plantID token rating note =
     bind (Submit plantID token rating note) (\<lambda>_.
     Log (Some plantID) None ''review.submitted'' token [(''rating'', DInt rating)])"

definition reviewSubmitHandler :: "'s server \<Rightarrow> plant option \<Rightarrow> 's handler" where
  "reviewSubmitHandler sv plant0 r =
     (case plant0 of None \<Rightarrow> ret not_found_page | Some plant \<Rightarrow>
      let token = TrimSpace (hr_URLParam r ''token''); page = ''/reviews/'' @ token in
      if \<not> hr_form_ok r then ret (redirect (page @ ''?error=form''))
      else
        case Atoi (form r ''rating'') of
          None \<Rightarrow> ret (redirect (page @ ''?error=rating''))
        | Some rating \<Rightarrow>
          bind (in_tenant (pl_ID plant) (review_tx (pl_ID plant) token rating (hr_FormValue r ''note''))) (\<lambda>res.
          ret (case res of
            Inr _ \<Rightarrow> redirect (page @ ''?submitted=1'')
          | Inl e \<Rightarrow>
              if errors_is e ErrAlreadySubmitted then redirect page
              else if errors_is e ErrInvalidRating then redirect (page @ ''?error=rating'')
              else if errors_is e reviews_ErrNotFound then not_found_page
              else redirect (page @ ''?error=server''))))"

section \<open>The bank account preview\<close>

definition resolveRateLimitMax :: int where "resolveRateLimitMax = 20"
definition resolveRateLimitWindow :: time where "resolveRateLimitWindow = 5 * Minute"

definition accountsResolveHandler :: "'s server \<Rightarrow> 's handler" where
  "accountsResolveHandler sv r =
     bind (checkIPRateLimit (sv_Redis sv) ''accounts_resolve_rl:'' (clientIP r) resolveRateLimitMax resolveRateLimitWindow) (\<lambda>(allowed, err).
     if err = None \<and> \<not> allowed
     then ret (writeJSONError 429 ''Too many requests. Please wait a moment and try again.'')
     else
       let accountNumber = TrimSpace (hr_Query r ''account_number''); bankCode = TrimSpace (hr_Query r ''bank_code'') in
       if accountNumber = '''' \<or> bankCode = ''''
       then ret (writeJSONError 400 ''Enter an account number and choose a bank.'')
       else
         bind (attempt (db_act (ResolveAccount (sv_Paystack sv) accountNumber bankCode))) (\<lambda>res.
         ret (case res of
           Inl e \<Rightarrow> writeJSONError 422 (''We couldn'' @ [CHR 0x27] @ ''t verify that account number. Double-check it and try again.'')
         | Inr name \<Rightarrow> writeJSON 200 [(''account_name'', JStr name)])))"

end
