(* ===== verification/ServerShift.thy ===== *)
theory ServerShift
  imports ServerTerminal
begin

text \<open>
  The second half of \<^verbatim>\<open>cmd/server/terminal.go\<close>: a pump's queue and the closing of its receipts,
  prices, pumps and staff by a manager, logging out, the end of a shift, and the restoring of a
  terminal session when the page is loaded.
\<close>

section \<open>The pump's queue\<close>

definition queue_json :: "PumpQueueTicket \<Rightarrow> json" where
  "queue_json row = JObj [(''ticket_id'', JUuid (pq_ID row)), (''code'', JStr (pq_Code row)),
     (''initials'', JStr (pq_Initials row)), (''size_kg'', JStr (formatKg (pq_SizeGrams row))),
     (''amount'', JStr (formatNaira (pq_AmountKobo row))), (''channel'', JStr (channelLabel (pq_Channel row))),
     (''started'', JTime (pq_StartedAt row))]"

definition terminalPumpQueueHandler :: "'s server \<Rightarrow> plant option \<Rightarrow> Actor option \<Rightarrow> 's handler" where
  "terminalPumpQueueHandler sv plant0 actor0 r =
     (case (plant0, actor0) of
        (Some plant, Some actor) \<Rightarrow>
          (case ac_PumpID actor of None \<Rightarrow> ret (writeJSONError 401 ''not signed in to a pump'') | Some pumpID \<Rightarrow>
           bind (in_tenant (pl_ID plant) (ListDispensingForPump (pl_ID plant) pumpID)) (\<lambda>res.
           case res of
             Inl e \<Rightarrow> ret (writeJSONError 500 ''could not load pump receipts'')
           | Inr rows \<Rightarrow> ret (writeJSON 200 [(''tickets'', JArr (map queue_json rows))])))
      | _ \<Rightarrow> ret (writeJSONError 401 ''not signed in to a pump''))"

section \<open>Closing receipts\<close>

definition closeReceipt_tx :: "uuid \<Rightarrow> uuid \<Rightarrow> uuid \<Rightarrow> uuid \<Rightarrow> string \<Rightarrow> (nat \<times> int) act" where
  "closeReceipt_tx plantID ticketID shiftID userID note =
     bind (CloseFilled plantID ticketID shiftID userID note) (\<lambda>_.
     bind ask_env (\<lambda>v.
     bind (Log (Some plantID) (Some userID) ''ticket.filled'' (e_uuid_str v ticketID) [(''note'', DStr note)]) (\<lambda>_.
     bind (Summary plantID shiftID) (\<lambda>(fills, grams, _).
     ret (fills, grams)))))"

definition terminalCloseReceiptHandler :: "'s server \<Rightarrow> plant option \<Rightarrow> Actor option \<Rightarrow> 's handler" where
  "terminalCloseReceiptHandler sv plant0 actor0 r =
     (case (plant0, actor0) of
        (Some plant, Some actor) \<Rightarrow>
          (case ac_ShiftID actor of None \<Rightarrow> ret not_signed_in | Some shiftID \<Rightarrow>
           if \<not> hr_form_ok r then ret bad_submission
           else
             bind (db_act ask_env) (\<lambda>v.
             case e_uuid_parse v (hr_FormValue r ''ticket_id'') of
               None \<Rightarrow> ret (writeJSONError 400 ''invalid ticket'')
             | Some ticketID \<Rightarrow>
               bind (in_tenant (pl_ID plant) (closeReceipt_tx (pl_ID plant) ticketID shiftID (ac_UserID actor) (form r ''note''))) (\<lambda>res.
               case res of
                 Inl e \<Rightarrow> ret (writeJSONError 400 ''could not close receipt'')
               | Inr (fills, grams) \<Rightarrow> ret (writeJSON 200 [(''ok'', JBool True), (''fills_completed'', JInt (int fills)),
                   (''grams_dispensed'', JInt grams)]))))
      | _ \<Rightarrow> ret not_signed_in)"

definition bulkClose_tx :: "uuid \<Rightarrow> uuid \<Rightarrow> uuid \<Rightarrow> uuid \<Rightarrow> string \<Rightarrow> (nat \<times> nat \<times> int) act" where
  "bulkClose_tx plantID pumpID shiftID userID note =
     bind (BulkCloseFilled plantID pumpID shiftID userID note) (\<lambda>count.
     bind ask_env (\<lambda>v.
     bind (Log (Some plantID) (Some userID) ''ticket.bulk_filled'' (e_uuid_str v pumpID)
       [(''count'', DInt (int count)), (''note'', DStr note)]) (\<lambda>_.
     bind (Summary plantID shiftID) (\<lambda>(fills, grams, _).
     ret (count, fills, grams)))))"

definition terminalBulkCloseReceiptsHandler :: "'s server \<Rightarrow> plant option \<Rightarrow> Actor option \<Rightarrow> 's handler" where
  "terminalBulkCloseReceiptsHandler sv plant0 actor0 r =
     (case (plant0, actor0) of
        (Some plant, Some actor) \<Rightarrow>
          (case (ac_ShiftID actor, ac_PumpID actor) of
             (Some shiftID, Some pumpID) \<Rightarrow>
               if \<not> hr_form_ok r then ret bad_submission
               else
                 bind (in_tenant (pl_ID plant) (bulkClose_tx (pl_ID plant) pumpID shiftID (ac_UserID actor) (form r ''note''))) (\<lambda>res.
                 case res of
                   Inl e \<Rightarrow> ret (writeJSONError 500 ''could not close receipts'')
                 | Inr (count, fills, grams) \<Rightarrow> ret (writeJSON 200 [(''ok'', JBool True), (''count'', JInt (int count)),
                     (''fills_completed'', JInt (int fills)), (''grams_dispensed'', JInt grams)]))
           | _ \<Rightarrow> ret (writeJSONError 401 ''not signed in to a pump''))
      | _ \<Rightarrow> ret (writeJSONError 401 ''not signed in to a pump''))"

section \<open>What managers change\<close>

definition pump_tx :: "uuid \<Rightarrow> uuid \<Rightarrow> uuid option \<Rightarrow> string \<Rightarrow> string \<Rightarrow> int \<Rightarrow> Pump list act" where
  "pump_tx plantID userID pumpID name status sortOrder =
     bind (terminalManagerCan plantID userID ''can_manage_pumps'') (\<lambda>_.
     bind (Upsert plantID pumpID name status sortOrder) (\<lambda>savedID.
     bind ask_env (\<lambda>v.
     bind (Log (Some plantID) (Some userID) ''pump.updated'' (e_uuid_str v savedID)
       [(''name'', DStr name), (''status'', DStr status), (''sort_order'', DInt sortOrder), (''source'', DStr ''terminal'')]) (\<lambda>_.
     pumps_List plantID))))"

definition terminalPumpHandler :: "'s server \<Rightarrow> plant option \<Rightarrow> Actor option \<Rightarrow> 's handler" where
  "terminalPumpHandler sv plant0 actor0 r =
     (case (plant0, actor0) of
        (Some plant, Some actor) \<Rightarrow>
          let forbidden = writeJSONError 403 ''you do not have permission to manage pumps'' in
          if ac_Role actor \<noteq> RoleManager then ret forbidden
          else if \<not> hr_form_ok r then ret bad_submission
          else
            bind (db_act ask_env) (\<lambda>v.
            case optional_uuid v (form r ''pump_id'') of
              None \<Rightarrow> ret (writeJSONError 400 ''invalid pump'')
            | Some pumpID \<Rightarrow>
              bind (in_tenant (pl_ID plant) (pump_tx (pl_ID plant) (ac_UserID actor) pumpID (form r ''name'') (form r ''status'')
                (atoi_or_0 (form r ''sort_order'')))) (\<lambda>res.
              case res of
                Inl e \<Rightarrow> ret (if errors_is e errTerminalForbidden then forbidden
                             else writeJSONError 500 ''could not save pump'')
              | Inr pumps \<Rightarrow> ret (writeJSON 200 [(''ok'', JBool True), (''pumps'', JArr (map pump_json pumps))])))
      | _ \<Rightarrow> ret not_signed_in)"

definition staffStatus_tx :: "uuid \<Rightarrow> uuid \<Rightarrow> uuid \<Rightarrow> bool \<Rightarrow> terminalManageStaff list act" where
  "staffStatus_tx plantID actorID userID active =
     bind (terminalManagerCan plantID actorID ''can_manage_staff'') (\<lambda>_.
     bind (staff_SetActive plantID userID active) (\<lambda>_.
     bind ask_env (\<lambda>v.
     bind (Log (Some plantID) (Some actorID) (if active then ''staff.activated'' else ''staff.deactivated'')
       (e_uuid_str v userID) [(''source'', DStr ''terminal'')]) (\<lambda>_.
     listTerminalManageStaff plantID))))"

definition terminalStaffStatusHandler :: "'s server \<Rightarrow> plant option \<Rightarrow> Actor option \<Rightarrow> 's handler" where
  "terminalStaffStatusHandler sv plant0 actor0 r =
     (case (plant0, actor0) of
        (Some plant, Some actor) \<Rightarrow>
          let forbidden = writeJSONError 403 ''you do not have permission to manage staff'' in
          if ac_Role actor \<noteq> RoleManager then ret forbidden
          else if \<not> hr_form_ok r then ret bad_submission
          else
            bind (db_act ask_env) (\<lambda>v.
            case e_uuid_parse v (form r ''user_id'') of
              None \<Rightarrow> ret (writeJSONError 400 ''invalid staff member'')
            | Some userID \<Rightarrow>
              if userID = ac_UserID actor then ret (writeJSONError 400 ''you cannot deactivate yourself'')
              else
                bind (in_tenant (pl_ID plant) (staffStatus_tx (pl_ID plant) (ac_UserID actor) userID
                  (hr_FormValue r ''active'' = ''true''))) (\<lambda>res.
                case res of
                  Inl e \<Rightarrow> ret (if errors_is e errTerminalForbidden then forbidden
                               else writeJSONError 500 ''could not update staff'')
                | Inr rows \<Rightarrow> ret (writeJSON 200 [(''ok'', JBool True), (''manage_staff'', JArr (map manage_staff_json rows))])))
      | _ \<Rightarrow> ret not_signed_in)"

definition setPrice_tx :: "uuid \<Rightarrow> uuid \<Rightarrow> int \<Rightarrow> unit act" where
  "setPrice_tx plantID userID priceKobo =
     bind (terminalManagerCan plantID userID ''can_edit_price'') (\<lambda>_.
     bind (prices_Set plantID priceKobo userID) (\<lambda>priceID.
     bind ask_env (\<lambda>v.
     Log (Some plantID) (Some userID) ''price.set'' (e_uuid_str v priceID)
       [(''price_per_kg_kobo'', DInt priceKobo), (''source'', DStr ''terminal'')])))"

definition terminalSetPriceHandler :: "'s server \<Rightarrow> plant option \<Rightarrow> Actor option \<Rightarrow> 's handler" where
  "terminalSetPriceHandler sv plant0 actor0 r =
     (case (plant0, actor0) of
        (Some plant, Some actor) \<Rightarrow>
          let forbidden = writeJSONError 403 ''you do not have permission to set prices'' in
          if ac_Role actor \<noteq> RoleManager then ret forbidden
          else if \<not> hr_form_ok r then ret bad_submission
          else
            (case ParseFloat (form r ''price_per_kg'') of
               None \<Rightarrow> ret (writeJSONError 400 ''enter a valid price'')
             | Some priceNaira \<Rightarrow>
               if fle priceNaira (Fin 0) then ret (writeJSONError 400 ''enter a valid price'')
               else
                 let priceKobo = kobo_of priceNaira in
                 bind (in_tenant (pl_ID plant) (setPrice_tx (pl_ID plant) (ac_UserID actor) priceKobo)) (\<lambda>res.
                 case res of
                   Inl e \<Rightarrow> ret (if errors_is e errTerminalForbidden then forbidden
                                else writeJSONError 500 ''could not save price'')
                 | Inr _ \<Rightarrow> ret (writeJSON 200 [(''ok'', JBool True), (''price_per_kg_kobo'', JInt priceKobo),
                     (''price'', JStr (formatNaira priceKobo @ ''/kg''))])))
      | _ \<Rightarrow> ret not_signed_in)"

section \<open>Leaving\<close>

definition terminalLogoutHandler :: "'s server \<Rightarrow> plant option \<Rightarrow> Actor option \<Rightarrow> 's handler" where
  "terminalLogoutHandler sv plant0 actor0 r =
     (case (plant0, actor0) of
        (Some plant, Some actor) \<Rightarrow>
          bind (in_tenant (pl_ID plant) (Log (Some (pl_ID plant)) (Some (ac_UserID actor)) ''terminal.logged_out'' ''''
            [(''shift_id'', DUuid (ac_ShiftID actor))])) (\<lambda>_.
          bind (ignore (session_Delete (sv_Redis sv) (ac_Token actor))) (\<lambda>_.
          ret (clearing sv CookieStaff (writeJSON 200 [(''ok'', JBool True)]))))
      | _ \<Rightarrow> ret not_signed_in)"

definition shiftEnd_tx :: "uuid \<Rightarrow> uuid \<Rightarrow> uuid \<Rightarrow> int \<Rightarrow> string \<Rightarrow> unit act" where
  "shiftEnd_tx plantID shiftID userID closingCashKobo notes =
     bind (Close plantID shiftID userID closingCashKobo notes) (\<lambda>_.
     bind ask_env (\<lambda>v.
     Log (Some plantID) (Some userID) ''shift.closed'' (e_uuid_str v shiftID) [(''closing_cash_kobo'', DInt closingCashKobo)]))"

definition terminalShiftEndHandler :: "'s server \<Rightarrow> plant option \<Rightarrow> Actor option \<Rightarrow> 's handler" where
  "terminalShiftEndHandler sv plant0 actor0 r =
     (case (plant0, actor0) of
        (Some plant, Some actor) \<Rightarrow>
          (case ac_ShiftID actor of None \<Rightarrow> ret not_signed_in | Some shiftID \<Rightarrow>
           if \<not> hr_form_ok r then ret bad_submission
           else
             case ParseFloat (form r ''closing_cash'') of
               None \<Rightarrow> ret (writeJSONError 400 ''enter the closing cash amount'')
             | Some closingCashNaira \<Rightarrow>
               if flt closingCashNaira (Fin 0) then ret (writeJSONError 400 ''enter the closing cash amount'')
               else
                 bind (in_tenant (pl_ID plant) (shiftEnd_tx (pl_ID plant) shiftID (ac_UserID actor)
                   (kobo_of closingCashNaira) (form r ''notes''))) (\<lambda>res.
                 case res of
                   Inl e \<Rightarrow> ret (writeJSONError 500 ''could not close shift'')
                 | Inr _ \<Rightarrow>
                     bind (ignore (session_Delete (sv_Redis sv) (ac_Token actor))) (\<lambda>_.
                     ret (clearing sv CookieStaff (writeJSON 200 [(''ok'', JBool True)])))))
      | _ \<Rightarrow> ret not_signed_in)"

section \<open>Restoring a session\<close>

record terminalSessionPayload =
  tp_ShiftID :: uuid
  tp_UserID :: uuid
  tp_Name :: string
  tp_Role :: string
  tp_OpeningCashKobo :: int
  tp_PumpID :: "uuid option"
  tp_PumpName :: string
  tp_Summary :: "nat \<times> int \<times> int"
  tp_CanEditPrice :: bool
  tp_CanManageStaff :: bool
  tp_CanManagePumps :: bool
  tp_CSRFToken :: string

definition session_tx :: "uuid \<Rightarrow> uuid \<Rightarrow> uuid \<Rightarrow> terminalSessionPayload act" where
  "session_tx plantID userID shiftID =
     bind (query_row (\<lambda>d.
       case (first_row (\<lambda>u. us_ID u = userID \<and> us_PlantID u = plantID \<and> staff_role (us_Role u)) (db_users d),
             first_row (\<lambda>s. sh_ID s = shiftID \<and> sh_UserID s = userID \<and> sh_PlantID s = plantID \<and> sh_ClosedAt s = None)
               (db_shifts d)) of
         (Some u, Some s) \<Rightarrow> Some (u, s, (case first_row (\<lambda>p. Some (pu_ID p) = sh_PumpID s \<and> pu_PlantID p = plantID)
             (db_pumps d) of None \<Rightarrow> '''' | Some p \<Rightarrow> pu_Name p))
       | _ \<Rightarrow> None)) (\<lambda>(u, s, pumpName).
     if \<not> us_Active u then fail errTerminalForbidden
     else
       bind (Summary plantID shiftID) (\<lambda>sum.
       ret \<lparr>tp_ShiftID = shiftID, tp_UserID = userID, tp_Name = us_Name u, tp_Role = us_Role u,
            tp_OpeningCashKobo = sh_OpeningCashKobo s, tp_PumpID = sh_PumpID s, tp_PumpName = pumpName,
            tp_Summary = sum, tp_CanEditPrice = us_CanEditPrice u, tp_CanManageStaff = us_CanManageStaff u,
            tp_CanManagePumps = us_CanManagePumps u, tp_CSRFToken = ''''\<rparr>))"

text \<open>The payload, if the session is restored, and the cookies that are set.\<close>

definition loadCurrentTerminalSession ::
  "'s server \<Rightarrow> uuid \<Rightarrow> http_request \<Rightarrow> ('s, terminalSessionPayload option \<times> cookie list) hact" where
  "loadCurrentTerminalSession sv plantID r =
     (let cleared = ret (None, ClearCookie (sv_APP_ENV sv) CookieStaff) in
      bind (load_cookie sv r CookieStaff) (\<lambda>s.
      case s of
        None \<Rightarrow> ret (None, [])
      | Some (token, Inl e) \<Rightarrow> cleared
      | Some (token, Inr data) \<Rightarrow>
          bind (db_act ask_env) (\<lambda>v.
          if \<not> staff_session_role (sd_Role data) \<or> sd_PlantID data \<noteq> e_uuid_str v plantID \<or> sd_ShiftID data = ''''
          then cleared
          else
            case e_uuid_parse v (sd_UserID data) of None \<Rightarrow> cleared | Some userID \<Rightarrow>
            case e_uuid_parse v (sd_ShiftID data) of None \<Rightarrow> cleared | Some shiftID \<Rightarrow>
            bind (in_tenant plantID (session_tx plantID userID shiftID)) (\<lambda>res.
            case res of
              Inl e \<Rightarrow> cleared
            | Inr payload \<Rightarrow>
                bind (ignore (session_Touch (sv_Redis sv) token StaffBackstopTTL)) (\<lambda>_.
                ret (Some (payload\<lparr>tp_CSRFToken := csrf_token_or_empty sv token\<rparr>),
                     WriteCookie (sv_APP_ENV sv) CookieStaff token StaffBackstopTTL))))))"

end
