(* ===== verification/Uploads.thy ===== *)
theory Uploads
  imports Actions
begin

text \<open>
  \<^verbatim>\<open>internal/uploads/uploads.go\<close>: the check and the saving of a plant's logo. The upload
  directory is the map \<open>w_files\<close> from names to contents; every operation on it can fail.
  \<^verbatim>\<open>http.DetectContentType\<close> is a parameter.
\<close>

definition ErrFileTooLarge :: go_err where
  "ErrFileTooLarge = Sentinel ''uploads: file exceeds the maximum allowed size''"
definition ErrUnsupportedType :: go_err where
  "ErrUnsupportedType = Sentinel ''uploads: file must be a PNG, JPEG, or WebP image''"
definition uploads_ErrInvalidSlug :: go_err where
  "uploads_ErrInvalidSlug = Sentinel ''uploads: invalid plant slug''"

definition MaxLogoBytes :: nat where "MaxLogoBytes = 2097152"

text \<open>The pattern \<^verbatim>\<open>^[a-z0-9]([a-z0-9-]{0,61}[a-z0-9])?$\<close>.\<close>

definition slug_alnum :: "char \<Rightarrow> bool" where
  "slug_alnum c \<longleftrightarrow> (48 \<le> (of_char c :: nat) \<and> (of_char c :: nat) \<le> 57) \<or>
     (97 \<le> (of_char c :: nat) \<and> (of_char c :: nat) \<le> 122)"

definition slugPattern :: "string \<Rightarrow> bool" where
  "slugPattern s \<longleftrightarrow> s \<noteq> [] \<and> length s \<le> 63 \<and> slug_alnum (hd s) \<and> slug_alnum (last s) \<and>
     list_all (\<lambda>c. slug_alnum c \<or> c = CHR ''-'') s"

definition allowedLogoTypes :: "(string \<times> string) list" where
  "allowedLogoTypes = [(''image/png'', ''.png''), (''image/jpeg'', ''.jpg''), (''image/webp'', ''.webp'')]"

definition PublicPrefix :: string where "PublicPrefix = ''/static/uploads''"

definition logo_file :: "string \<Rightarrow> string \<Rightarrow> string" where
  "logo_file slug ext = slug @ ''/logo'' @ ext"

text \<open>A file operation that takes effect or fails.\<close>

definition file_op :: "((string \<rightharpoonup> string) \<Rightarrow> (string \<rightharpoonup> string)) \<Rightarrow> unit act" where
  "file_op f w =
     (let w' = w\<lparr>w_tick := Suc (w_tick w)\<rparr> in
      if e_fault (w_env w) (w_tick w) = Fine then (Inr (), w'\<lparr>w_files := f (w_files w)\<rparr>)
      else (Inl DriverErr, w'))"

definition os_Remove :: "string \<Rightarrow> unit act" where
  "os_Remove name = bind (attempt (file_op (\<lambda>m. m(name := None)))) (\<lambda>_. ret ())"

fun remove_others :: "string \<Rightarrow> string \<Rightarrow> string list \<Rightarrow> unit act" where
  "remove_others slug ext [] = ret ()"
| "remove_others slug ext (e # es) =
     bind (if e \<noteq> ext then os_Remove (logo_file slug e) else ret ()) (\<lambda>_. remove_others slug ext es)"

text \<open>The content is written after the first 512 bytes have been looked at.\<close>

definition write_logo :: "string \<Rightarrow> string \<Rightarrow> unit act" where
  "write_logo dest content =
     (let sniff = take 512 content; rest = drop 512 content; remaining = MaxLogoBytes - length sniff in
      bind (file_op (\<lambda>m. m(dest \<mapsto> ''''))) (\<lambda>_.
      bind (attempt (file_op (\<lambda>m. m(dest \<mapsto> sniff)))) (\<lambda>r.
      case r of
        Inl e \<Rightarrow> bind (os_Remove dest) (\<lambda>_. fail e)
      | Inr _ \<Rightarrow>
          bind (attempt (file_op (\<lambda>m. m(dest \<mapsto> sniff @ take (remaining + 1) rest)))) (\<lambda>r.
          case r of
            Inl e \<Rightarrow> bind (os_Remove dest) (\<lambda>_. fail e)
          | Inr _ \<Rightarrow>
              if remaining < length (take (remaining + 1) rest)
              then bind (os_Remove dest) (\<lambda>_. fail ErrFileTooLarge)
              else ret ()))))"

text \<open>The size is the one that the part of the form declares, if the header is there.\<close>

definition SaveLogo :: "(string \<Rightarrow> string) \<Rightarrow> string \<Rightarrow> string \<Rightarrow> nat option \<Rightarrow> string act" where
  "SaveLogo DetectContentType slug content declared =
     (if \<not> slugPattern slug then fail uploads_ErrInvalidSlug
      else if (case declared of None \<Rightarrow> False | Some n \<Rightarrow> MaxLogoBytes < n) then fail ErrFileTooLarge
      else
        bind (file_op (\<lambda>m. m)) (\<lambda>_.
        case map_of allowedLogoTypes (DetectContentType (take 512 content)) of
          None \<Rightarrow> fail ErrUnsupportedType
        | Some ext \<Rightarrow>
            bind (file_op (\<lambda>m. m)) (\<lambda>_.
            bind (remove_others slug ext (map snd allowedLogoTypes)) (\<lambda>_.
            bind (write_logo (logo_file slug ext) content) (\<lambda>_.
            ret (PublicPrefix @ ''/'' @ logo_file slug ext))))))"

end
