(* ===== verification/ServerOwner.thy ===== *)
theory ServerOwner
  imports ServerShift Uploads
begin

text \<open>
  The owner's side: the dashboard's forms (\<^verbatim>\<open>cmd/server/owner_write.go\<close>) and the owner's login,
  logout and forgotten password (\<^verbatim>\<open>cmd/server/auth.go\<close>).
\<close>

section \<open>Permissions\<close>

text \<open>\<open>Inl\<close> is a failed lookup, which every caller treats like a refusal.\<close>

definition ownerActorCan :: "uuid \<Rightarrow> Actor \<Rightarrow> string \<Rightarrow> ('s, go_err + bool) hact" where
  "ownerActorCan plantID actor permission =
     (if ac_Role actor = RoleOwner then ret (Inr True)
      else if ac_Role actor \<noteq> RoleManager then ret (Inr False)
      else
        case permission_of permission of
          None \<Rightarrow> ret (Inr False)
        | Some column \<Rightarrow>
            bind (in_tenant plantID (query_row (\<lambda>d. map_option column
              (first_row (active_manager plantID (ac_UserID actor)) (db_users d))))) (\<lambda>r.
            ret (case r of
                   Inl e \<Rightarrow> if errors_is e ErrNoRows then Inr False else Inl e
                 | Inr allowed \<Rightarrow> Inr allowed)))"

text \<open>
  The shape of the dashboard's handlers: plant and actor, permission, form; \<open>denied\<close> and
  \<open>unreadable\<close> are the two redirects.
\<close>

definition owner_form ::
  "plant option \<Rightarrow> Actor option \<Rightarrow> string \<Rightarrow> string \<Rightarrow> string \<Rightarrow> (plant \<Rightarrow> Actor \<Rightarrow> 's handler) \<Rightarrow> 's handler" where
  "owner_form plant0 actor0 permission denied unreadable k r =
     (case (plant0, actor0) of
        (Some plant, Some actor) \<Rightarrow>
          bind (ownerActorCan (pl_ID plant) actor permission) (\<lambda>allowed.
          if allowed \<noteq> Inr True then ret (redirect denied)
          else if \<not> hr_form_ok r then ret (redirect unreadable)
          else k plant actor r)
      | _ \<Rightarrow> ret (http_error 404 ''Not found''))"

section \<open>Prices, staff, hours and pumps\<close>

definition ownerSetPrice_tx :: "uuid \<Rightarrow> uuid \<Rightarrow> int \<Rightarrow> unit act" where
  "ownerSetPrice_tx plantID userID priceKobo =
     bind (prices_Set plantID priceKobo userID) (\<lambda>priceID.
     bind ask_env (\<lambda>v.
     Log (Some plantID) (Some userID) ''price.set'' (e_uuid_str v priceID) [(''price_per_kg_kobo'', DInt priceKobo)]))"

definition ownerSetPriceHandler :: "'s server \<Rightarrow> plant option \<Rightarrow> Actor option \<Rightarrow> 's handler" where
  "ownerSetPriceHandler sv plant0 actor0 =
     owner_form plant0 actor0 ''can_edit_price'' ''/owner?error=price-permission#settings'' ''/owner?error=form#settings''
       (\<lambda>plant actor r.
        case ParseFloat (form r ''price_per_kg'') of
          None \<Rightarrow> ret (redirect ''/owner?error=price#settings'')
        | Some priceNaira \<Rightarrow>
          if fle priceNaira (Fin 0) then ret (redirect ''/owner?error=price#settings'')
          else
            bind (in_tenant (pl_ID plant) (ownerSetPrice_tx (pl_ID plant) (ac_UserID actor) (kobo_of priceNaira))) (\<lambda>res.
            ret (redirect (case res of Inl e \<Rightarrow> ''/owner?error=price#settings'' | Inr _ \<Rightarrow> ''/owner#settings''))))"

definition createStaff_tx :: "bcrypt \<Rightarrow> uuid \<Rightarrow> uuid \<Rightarrow> CreateParams \<Rightarrow> uuid act" where
  "createStaff_tx bc plantID actorID params =
     bind (staff_Create bc plantID params) (\<lambda>newID.
     bind ask_env (\<lambda>v.
     bind (Log (Some plantID) (Some actorID) ''staff.created'' (e_uuid_str v newID) [(''role'', DStr (cp_Role params))]) (\<lambda>_.
     ret newID)))"

definition ownerCreateStaffHandler :: "'s server \<Rightarrow> plant option \<Rightarrow> Actor option \<Rightarrow> 's handler" where
  "ownerCreateStaffHandler sv plant0 actor0 =
     owner_form plant0 actor0 ''can_manage_staff'' ''/owner?error=staff-permission#staff'' ''/owner?error=form#staff''
       (\<lambda>plant actor r.
        let params = \<lparr>cp_Name = hr_FormValue r ''name'', cp_Phone = hr_FormValue r ''phone'',
                      cp_Role = hr_FormValue r ''role'', cp_PIN = hr_FormValue r ''pin''\<rparr> in
        bind (in_tenant (pl_ID plant) (createStaff_tx (sv_bcrypt sv) (pl_ID plant) (ac_UserID actor) params)) (\<lambda>res.
        ret (redirect (case res of
            Inr _ \<Rightarrow> ''/owner#staff''
          | Inl e \<Rightarrow> ''/owner?error='' @ (if errors_is e staff_ErrPINTaken then ''staff-pin'' else ''staff'') @ ''#staff''))))"

definition ownerStaffStatus_tx :: "uuid \<Rightarrow> uuid \<Rightarrow> uuid \<Rightarrow> bool \<Rightarrow> unit act" where
  "ownerStaffStatus_tx plantID actorID userID active =
     bind (staff_SetActive plantID userID active) (\<lambda>_.
     bind ask_env (\<lambda>v.
     Log (Some plantID) (Some actorID) (if active then ''staff.activated'' else ''staff.deactivated'') (e_uuid_str v userID) []))"

definition ownerStaffStatusHandler :: "'s server \<Rightarrow> plant option \<Rightarrow> Actor option \<Rightarrow> 's handler" where
  "ownerStaffStatusHandler sv plant0 actor0 =
     owner_form plant0 actor0 ''can_manage_staff'' ''/owner?error=staff-permission#staff'' ''/owner?error=form#staff''
       (\<lambda>plant actor r.
        bind (db_act ask_env) (\<lambda>v.
        case e_uuid_parse v (hr_URLParam r ''id'') of
          None \<Rightarrow> ret (redirect ''/owner?error=staff-status#staff'')
        | Some userID \<Rightarrow>
          if ac_UserID actor = userID then ret (redirect ''/owner?error=staff-self#staff'')
          else
            bind (in_tenant (pl_ID plant) (ownerStaffStatus_tx (pl_ID plant) (ac_UserID actor) userID
              (hr_FormValue r ''active'' = ''true''))) (\<lambda>res.
            ret (redirect (case res of Inl e \<Rightarrow> ''/owner?error=staff-status#staff'' | Inr _ \<Rightarrow> ''/owner#staff'')))))"

definition permissions_tx :: "uuid \<Rightarrow> uuid \<Rightarrow> uuid \<Rightarrow> bool \<Rightarrow> bool \<Rightarrow> bool \<Rightarrow> unit act" where
  "permissions_tx plantID actorID userID canEditPrice canManageStaff canManagePumps =
     bind (exec_update users_tab (\<lambda>u. us_ID u = userID \<and> us_PlantID u = plantID \<and> us_Role u = ''manager'')
       (\<lambda>now u. u\<lparr>us_CanEditPrice := canEditPrice, us_CanManageStaff := canManageStaff,
                  us_CanManagePumps := canManagePumps\<rparr>)) (\<lambda>rs.
     if rs = [] then fail staff_ErrNotFound
     else
       bind ask_env (\<lambda>v.
       Log (Some plantID) (Some actorID) ''staff.permissions_updated'' (e_uuid_str v userID)
         [(''can_edit_price'', DBool canEditPrice), (''can_manage_staff'', DBool canManageStaff),
          (''can_manage_pumps'', DBool canManagePumps)]))"

definition ownerStaffPermissionsHandler :: "'s server \<Rightarrow> plant option \<Rightarrow> Actor option \<Rightarrow> 's handler" where
  "ownerStaffPermissionsHandler sv plant0 actor0 r =
     (case (plant0, actor0) of
        (Some plant, Some actor) \<Rightarrow>
          if ac_Role actor \<noteq> RoleOwner then ret (redirect ''/owner?error=staff-permission#staff'')
          else if \<not> hr_form_ok r then ret (redirect ''/owner?error=form#staff'')
          else
            bind (db_act ask_env) (\<lambda>v.
            case e_uuid_parse v (hr_URLParam r ''id'') of
              None \<Rightarrow> ret (redirect ''/owner?error=staff-status#staff'')
            | Some userID \<Rightarrow>
              bind (in_tenant (pl_ID plant) (permissions_tx (pl_ID plant) (ac_UserID actor) userID
                (hr_FormValue r ''can_edit_price'' = ''true'') (hr_FormValue r ''can_manage_staff'' = ''true'')
                (hr_FormValue r ''can_manage_pumps'' = ''true''))) (\<lambda>res.
              ret (redirect (case res of Inl e \<Rightarrow> ''/owner?error=staff-status#staff'' | Inr _ \<Rightarrow> ''/owner#staff''))))
      | _ \<Rightarrow> ret (http_error 404 ''Not found''))"

definition hours_tx :: "uuid \<Rightarrow> uuid \<Rightarrow> Segment list \<Rightarrow> unit act" where
  "hours_tx plantID actorID segments =
     bind (ReplaceWeek plantID segments) (\<lambda>_.
     bind ask_env (\<lambda>v.
     Log (Some plantID) (Some actorID) ''plant.hours_updated'' (e_uuid_str v plantID)
       [(''segments'', DInt (int (length segments)))]))"

definition ownerHoursHandler :: "'s server \<Rightarrow> plant option \<Rightarrow> Actor option \<Rightarrow> 's handler" where
  "ownerHoursHandler sv plant0 actor0 =
     owner_form plant0 actor0 ''can_manage_pumps'' ''/owner?error=pump-permission#operations'' ''/owner?error=form#operations''
       (\<lambda>plant actor r.
        bind (in_tenant (pl_ID plant) (hours_tx (pl_ID plant) (ac_UserID actor) (ParseWeekForm (hr_FormValue r)))) (\<lambda>res.
        ret (redirect (case res of Inl e \<Rightarrow> ''/owner?error=hours#operations'' | Inr _ \<Rightarrow> ''/owner#operations''))))"

definition ownerPump_tx :: "uuid \<Rightarrow> uuid \<Rightarrow> uuid option \<Rightarrow> string \<Rightarrow> string \<Rightarrow> int \<Rightarrow> uuid act" where
  "ownerPump_tx plantID actorID i name status sortOrder =
     bind (Upsert plantID i name status sortOrder) (\<lambda>pumpID.
     bind ask_env (\<lambda>v.
     bind (Log (Some plantID) (Some actorID) ''pump.updated'' (e_uuid_str v pumpID)
       [(''name'', DStr (TrimSpace name)), (''status'', DStr status)]) (\<lambda>_.
     ret pumpID)))"

definition ownerPumpHandler :: "'s server \<Rightarrow> plant option \<Rightarrow> Actor option \<Rightarrow> 's handler" where
  "ownerPumpHandler sv plant0 actor0 =
     owner_form plant0 actor0 ''can_manage_pumps'' ''/owner?error=pump-permission#operations'' ''/owner?error=form#operations''
       (\<lambda>plant actor r.
        bind (db_act ask_env) (\<lambda>v.
        case optional_uuid v (form r ''id'') of
          None \<Rightarrow> ret (redirect ''/owner?error=pump#operations'')
        | Some i \<Rightarrow>
          bind (in_tenant (pl_ID plant) (ownerPump_tx (pl_ID plant) (ac_UserID actor) i (hr_FormValue r ''name'')
            (hr_FormValue r ''status'') (atoi_or_0 (form r ''sort_order'')))) (\<lambda>res.
          ret (redirect (case res of Inl e \<Rightarrow> ''/owner?error=pump#operations'' | Inr _ \<Rightarrow> ''/owner#operations'')))))"

section \<open>Settings\<close>

definition is_hex_char :: "char \<Rightarrow> bool" where
  "is_hex_char c \<longleftrightarrow> is_digit c \<or> is_hex_letter c"

definition upper_byte :: "char \<Rightarrow> char" where
  "upper_byte c = (if is_lower c then char_of (byte c - 32) else c)"

definition ownerHexColorOrDefault :: "string \<Rightarrow> string \<Rightarrow> string option" where
  "ownerHexColorOrDefault value0 fallback =
     (let value = TrimSpace value0 in
      if value = '''' then Some fallback
      else let v = (if \<not> HasPrefix value ''#'' then ''#'' @ value else value) in
           if length v = 7 \<and> hd v = CHR ''#'' \<and> list_all is_hex_char (tl v)
           then Some (map upper_byte v) else None)"

text \<open>The attached file, if there is one: its content and its declared size.\<close>

type_synonym logo = "(string \<times> nat) option"

definition settings_tx ::
  "uuid \<Rightarrow> uuid \<Rightarrow> string \<Rightarrow> string \<Rightarrow> string \<Rightarrow> string \<Rightarrow> string \<times> string \<times> string \<times> string \<Rightarrow> string \<Rightarrow> unit act" where
  "settings_tx plantID actorID name city address phone colors logoPath =
     (let (primaryColor, buttonColor, secondaryColor, buttonTextColor) = colors;
          nullif = (\<lambda>s. if s = '''' then None else Some s)
      in bind (exec_update plants_tab (\<lambda>p. pl_ID p = plantID)
           (\<lambda>now p. p\<lparr>pl_Name := name, pl_City := nullif city, pl_Address := nullif address, pl_Phone := nullif phone,
              pl_PrimaryColor := primaryColor, pl_ButtonColor := buttonColor, pl_SecondaryColor := secondaryColor,
              pl_ButtonTextColor := buttonTextColor,
              pl_LogoPath := (if logoPath = '''' then pl_LogoPath p else Some logoPath)\<rparr>)) (\<lambda>_.
         bind ask_env (\<lambda>v.
         Log (Some plantID) (Some actorID) ''plant.settings_updated'' (e_uuid_str v plantID)
           [(''logo_updated'', DBool (logoPath \<noteq> ''''))])))"

definition save_optional_logo :: "(string \<Rightarrow> string) \<Rightarrow> string \<Rightarrow> logo \<Rightarrow> string act" where
  "save_optional_logo detect slug logo =
     (case logo of None \<Rightarrow> ret '''' | Some (content, declared) \<Rightarrow> SaveLogo detect slug content (Some declared))"

definition ownerUpdateSettingsHandler ::
  "'s server \<Rightarrow> (string \<Rightarrow> string) \<Rightarrow> logo \<Rightarrow> plant option \<Rightarrow> Actor option \<Rightarrow> 's handler" where
  "ownerUpdateSettingsHandler sv detect logo plant0 actor0 r =
     (case (plant0, actor0) of
        (Some plant, Some actor) \<Rightarrow>
          if \<not> hr_form_ok r then ret (redirect ''/owner?error=form#settings'')
          else let name = form r ''name'' in
            if name = '''' then ret (redirect ''/owner?error=settings#settings'')
            else
              let color_error = ret (redirect ''/owner?error=color#settings'') in
              case ownerHexColorOrDefault (hr_FormValue r ''primary_color'') ''#006B4D'' of None \<Rightarrow> color_error | Some primaryColor \<Rightarrow>
              case ownerHexColorOrDefault (hr_FormValue r ''button_color'') primaryColor of None \<Rightarrow> color_error | Some buttonColor \<Rightarrow>
              case ownerHexColorOrDefault (hr_FormValue r ''secondary_color'') ''#10B981'' of None \<Rightarrow> color_error | Some secondaryColor \<Rightarrow>
              case ownerHexColorOrDefault (hr_FormValue r ''button_text_color'') ''#F8FAFC'' of None \<Rightarrow> color_error | Some buttonTextColor \<Rightarrow>
              bind (attempt (db_act (save_optional_logo detect (pl_Slug plant) logo))) (\<lambda>saved.
              case saved of
                Inl e \<Rightarrow> ret (redirect ''/owner?error=logo#settings'')
              | Inr logoPath \<Rightarrow>
                bind (in_tenant (pl_ID plant) (settings_tx (pl_ID plant) (ac_UserID actor) name (form r ''city'') (form r ''address'')
                  (form r ''phone'') (primaryColor, buttonColor, secondaryColor, buttonTextColor) logoPath)) (\<lambda>res.
                ret (redirect (case res of Inl e \<Rightarrow> ''/owner?error=settings#settings'' | Inr _ \<Rightarrow> ''/owner#settings''))))
      | _ \<Rightarrow> ret (http_error 404 ''Not found''))"

section \<open>Changing a known password\<close>

definition errCurrentPasswordWrong :: go_err where
  "errCurrentPasswordWrong = Sentinel ''owner: current password is incorrect''"

definition ownerMinPasswordLength :: nat where "ownerMinPasswordLength = 8"

definition changePassword_tx :: "bcrypt \<Rightarrow> uuid \<Rightarrow> uuid \<Rightarrow> string \<Rightarrow> string \<Rightarrow> unit act" where
  "changePassword_tx bc plantID userID currentPassword newPassword =
     bind (query_row (\<lambda>d. map_option us_PasswordHash
       (first_row (\<lambda>u. us_ID u = userID \<and> us_PlantID u = plantID) (db_users d)))) (\<lambda>currentHash.
     if \<not> VerifyPassword bc (case currentHash of None \<Rightarrow> '''' | Some h \<Rightarrow> h) currentPassword
     then fail errCurrentPasswordWrong
     else
       bind (HashPassword bc newPassword) (\<lambda>newHash.
       bind (exec_update users_tab (\<lambda>u. us_ID u = userID \<and> us_PlantID u = plantID)
         (\<lambda>now u. u\<lparr>us_PasswordHash := Some newHash\<rparr>)) (\<lambda>_.
       Log (Some plantID) (Some userID) ''owner.password_changed'' '''' [])))"

definition ownerChangePasswordHandler :: "'s server \<Rightarrow> plant option \<Rightarrow> Actor option \<Rightarrow> 's handler" where
  "ownerChangePasswordHandler sv plant0 actor0 r =
     (case (plant0, actor0) of
        (Some plant, Some actor) \<Rightarrow>
          let back = (\<lambda>code. ret (redirect (''/owner/password?error='' @ code))) in
          if \<not> hr_form_ok r then back ''password-form''
          else
            let currentPassword = hr_FormValue r ''current_password''; newPassword = hr_FormValue r ''new_password'';
                confirm = hr_FormValue r ''new_password_confirm''
            in if currentPassword = '''' \<or> newPassword = '''' \<or> confirm = '''' then back ''password-missing''
               else if newPassword \<noteq> confirm then back ''password-mismatch''
               else if length newPassword < ownerMinPasswordLength then back ''password-short''
               else if newPassword = currentPassword then back ''password-same''
               else
                 bind (in_tenant (pl_ID plant) (changePassword_tx (sv_bcrypt sv) (pl_ID plant) (ac_UserID actor)
                   currentPassword newPassword)) (\<lambda>res.
                 case res of
                   Inl e \<Rightarrow> if errors_is e errCurrentPasswordWrong then back ''password-current'' else back ''password-form''
                 | Inr _ \<Rightarrow> ret (redirect ''/owner/password?done=1''))
      | _ \<Rightarrow> ret (http_error 404 ''Not found''))"

section \<open>Login\<close>

definition loginRateLimitMax :: int where "loginRateLimitMax = 10"
definition loginRateLimitWindow :: time where "loginRateLimitWindow = 15 * Minute"

definition renderOwnerLoginError :: "'s server \<Rightarrow> http_request \<Rightarrow> string \<Rightarrow> string \<Rightarrow> ('s, response) hact" where
  "renderOwnerLoginError sv r plantName message =
     bind (EnsurePublicCSRFCookie sv r) (\<lambda>(csrfToken, cookies).
     ret (with_cookies cookies (plain (Page 401 ''OwnerLogin'' [(''plant'', JStr plantName), (''error'', JStr message),
       (''csrf'', JStr csrfToken)]))))"

definition login_lookup_tx :: "uuid \<Rightarrow> string \<Rightarrow> user_row option act" where
  "login_lookup_tx plantID phone =
     bind (attempt (query_row (\<lambda>d. first_row (\<lambda>u. us_PlantID u = plantID \<and> us_Phone u = phone \<and>
       (us_Role u = ''owner'' \<or> us_Role u = ''manager'')) (db_users d)))) (\<lambda>r.
     case r of
       Inr u \<Rightarrow> ret (Some u)
     | Inl e \<Rightarrow> if e = ErrNoRows then ret None else fail e)"

definition password_matches :: "bcrypt \<Rightarrow> user_row option \<Rightarrow> string \<Rightarrow> bool" where
  "password_matches bc found password =
     (case found of None \<Rightarrow> False
      | Some u \<Rightarrow> us_Active u \<and> VerifyPassword bc (case us_PasswordHash u of None \<Rightarrow> '''' | Some h \<Rightarrow> h) password)"

definition owner_session :: "env \<Rightarrow> uuid \<Rightarrow> user_row \<Rightarrow> Data" where
  "owner_session v plantID u =
     \<lparr>sd_UserID = e_uuid_str v (us_ID u), sd_Role = us_Role u, sd_Name = us_Name u,
      sd_PlantID = e_uuid_str v plantID, sd_ShiftID = '''', sd_PumpID = '''', sd_Phone = '''',
      sd_CanEditPrice = us_CanEditPrice u, sd_CanManageStaff = us_CanManageStaff u,
      sd_CanManagePumps = us_CanManagePumps u, sd_CreatedAt = 0\<rparr>"

text \<open>Over the limit, unless the limit could not be checked.\<close>

definition rate_limited :: "'s server \<Rightarrow> string \<Rightarrow> http_request \<Rightarrow> int \<Rightarrow> time \<Rightarrow> ('s, bool) hact" where
  "rate_limited sv kp r maximum window =
     bind (checkIPRateLimit (sv_Redis sv) kp (clientIP r) maximum window) (\<lambda>(allowed, err).
     ret (err = None \<and> \<not> allowed))"

definition ownerLoginSubmitHandler :: "'s server \<Rightarrow> plant option \<Rightarrow> 's handler" where
  "ownerLoginSubmitHandler sv plant0 r =
     (case plant0 of None \<Rightarrow> ret not_found_page | Some plant \<Rightarrow>
      let wrong = renderOwnerLoginError sv r (pl_Name plant) in
      if \<not> hr_form_ok r then wrong ''Could not read that submission. Try again.''
      else
        bind (rate_limited sv ''owner_login_rl:'' r loginRateLimitMax loginRateLimitWindow) (\<lambda>limited.
        if limited then wrong ''Too many attempts. Please wait a few minutes and try again.''
        else
          let phone = form r ''phone''; password = hr_FormValue r ''password'' in
          if phone = '''' \<or> password = '''' then wrong ''Enter your phone number and password.''
          else
            bind (in_tenant (pl_ID plant) (login_lookup_tx (pl_ID plant) phone)) (\<lambda>res.
            case res of
              Inl e \<Rightarrow> wrong ''Something went wrong. Try again.''
            | Inr found \<Rightarrow>
              if \<not> password_matches (sv_bcrypt sv) found password then wrong ''Incorrect phone number or password.''
              else
                bind (db_act ask_env) (\<lambda>v.
                bind (attempt (session_Create (sv_Redis sv) (sv_codec sv) (owner_session v (pl_ID plant) (the found)) OwnerTTL)) (\<lambda>created.
                case created of
                  Inl e \<Rightarrow> wrong ''Something went wrong. Try again.''
                | Inr token \<Rightarrow> ret (with_cookies (WriteCookie (sv_APP_ENV sv) CookieOwner token OwnerTTL) (redirect ''/owner'')))))))"

definition logout_cookie :: "'s server \<Rightarrow> http_request \<Rightarrow> string \<Rightarrow> string \<Rightarrow> ('s, response) hact" where
  "logout_cookie sv r kind url =
     bind (case ReadCookie (hr_cookies r) kind of None \<Rightarrow> ret () | Some token \<Rightarrow> ignore (session_Delete (sv_Redis sv) token)) (\<lambda>_.
     ret (clearing sv kind (redirect url)))"

definition ownerLogoutHandler :: "'s server \<Rightarrow> 's handler" where
  "ownerLogoutHandler sv r = logout_cookie sv r CookieOwner ''/owner/login''"

section \<open>Forgotten passwords\<close>

definition forgotPasswordRateLimitMax :: int where "forgotPasswordRateLimitMax = 5"
definition forgotPasswordRateLimitWindow :: time where "forgotPasswordRateLimitWindow = 15 * Minute"

text \<open>The user and the address, when there is one to send to.\<close>

definition forgot_lookup_tx :: "uuid \<Rightarrow> string \<Rightarrow> (uuid \<times> string) option act" where
  "forgot_lookup_tx plantID phone =
     bind (attempt (query_row (\<lambda>d. first_row (\<lambda>u. us_PlantID u = plantID \<and> us_Phone u = phone \<and>
       (us_Role u = ''owner'' \<or> us_Role u = ''manager'') \<and> us_Active u) (db_users d)))) (\<lambda>r.
     case r of
       Inr u \<Rightarrow> (let email = (case us_Email u of None \<Rightarrow> '''' | Some e \<Rightarrow> TrimSpace e) in
                 ret (if email \<noteq> '''' then Some (us_ID u, email) else None))
     | Inl e \<Rightarrow> if e = ErrNoRows then ret None else fail e)"

definition reset_email :: "http_request \<Rightarrow> string \<Rightarrow> string \<Rightarrow> string \<Rightarrow> message" where
  "reset_email r plantName email token =
     Email email ''Reset your GatsToGo password''
       (''Someone requested a password reset for your '' @ plantName @ '' owner login on GatsToGo.'' @ nl @ nl
        @ ''Reset your password: '' @ requestScheme r @ ''://'' @ hr_Host r @ ''/owner/reset-password?token='' @ QueryEscape token
        @ nl @ nl @ ''This link expires in an hour. If you didn'' @ [CHR 0x27]
        @ ''t request this, you can safely ignore this email.'')"

definition ownerForgotPasswordSubmitHandler :: "'s server \<Rightarrow> plant option \<Rightarrow> 's handler" where
  "ownerForgotPasswordSubmitHandler sv plant0 r =
     (case plant0 of None \<Rightarrow> ret not_found_page | Some plant \<Rightarrow>
      let submitted = redirect ''/owner/forgot-password?submitted=1'' in
      if \<not> hr_form_ok r then ret (redirect ''/owner/forgot-password?error=form'')
      else
        bind (rate_limited sv ''forgot_password_rl:'' r forgotPasswordRateLimitMax forgotPasswordRateLimitWindow) (\<lambda>limited.
        if limited then ret (redirect ''/owner/forgot-password?error=rate-limit'')
        else let phone = form r ''phone'' in
          if phone = '''' then ret (redirect ''/owner/forgot-password?error=missing'')
          else
            bind (in_tenant (pl_ID plant) (forgot_lookup_tx (pl_ID plant) phone)) (\<lambda>res.
            case res of
              Inr (Some (userID, ownerEmail)) \<Rightarrow>
                bind (attempt (IssueToken (sv_Redis sv) userID)) (\<lambda>issued.
                case issued of
                  Inl e \<Rightarrow> ret submitted
                | Inr token \<Rightarrow> ret (sending [reset_email r (pl_Name plant) ownerEmail token] submitted))
            | _ \<Rightarrow> ret submitted)))"

definition reset_tx :: "uuid \<Rightarrow> uuid \<Rightarrow> string \<Rightarrow> unit act" where
  "reset_tx plantID userID newHash =
     bind (exec_update users_tab (\<lambda>u. us_ID u = userID \<and> us_PlantID u = plantID \<and>
         (us_Role u = ''owner'' \<or> us_Role u = ''manager''))
       (\<lambda>now u. u\<lparr>us_PasswordHash := Some newHash\<rparr>)) (\<lambda>rs.
     if rs = [] then fail ErrNoRows
     else Log (Some plantID) (Some userID) ''owner.password_reset'' '''' [])"

definition ownerResetPasswordSubmitHandler :: "'s server \<Rightarrow> plant option \<Rightarrow> 's handler" where
  "ownerResetPasswordSubmitHandler sv plant0 r =
     (case plant0 of None \<Rightarrow> ret not_found_page | Some plant \<Rightarrow>
      if \<not> hr_form_ok r then ret (redirect ''/owner/reset-password?error=form'')
      else
        let token = hr_FormValue r ''token''; newPassword = hr_FormValue r ''new_password'';
            confirm = hr_FormValue r ''new_password_confirm'';
            back = ''/owner/reset-password?token='' @ QueryEscape token
        in if newPassword = '''' \<or> confirm = '''' then ret (redirect (back @ ''&error=missing''))
           else if newPassword \<noteq> confirm then ret (redirect (back @ ''&error=mismatch''))
           else
             bind (attempt (Consume (sv_Redis sv) token)) (\<lambda>consumed.
             case consumed of
               Inl e \<Rightarrow> ret (redirect (back @ ''&error=invalid-token''))
             | Inr userID \<Rightarrow>
               bind (attempt (db_act (HashPassword (sv_bcrypt sv) newPassword))) (\<lambda>hashed.
               case hashed of
                 Inl e \<Rightarrow> ret (redirect (back @ ''&error=form''))
               | Inr newHash \<Rightarrow>
                 bind (in_tenant (pl_ID plant) (reset_tx (pl_ID plant) userID newHash)) (\<lambda>res.
                 ret (redirect (case res of Inl e \<Rightarrow> back @ ''&error=invalid-token'' | Inr _ \<Rightarrow> ''/owner/login''))))))"

end
