(* ===== verification/Dashboard.thy ===== *)
theory Dashboard
  imports Clock ServerCustomer ServerOwner
begin

text \<open>
  What the owner, the customer and the terminal are shown (\<^verbatim>\<open>cmd/server/main.go\<close>, lines 600 to
  1290 and 1550 to 1830; the pages of \<^verbatim>\<open>auth.go\<close> and \<^verbatim>\<open>owner_write.go\<close> that hold a form;
  \<open>terminalPageHandler\<close>). The loaders run in the caller's transaction and swallow their
  errors: after a failed statement the later ones of the transaction fail as well and their parts
  of the page stay empty. A page's data is the list of its fields; a field that the code leaves at
  its zero value is left out.
\<close>

section \<open>Labels\<close>

definition middle_dot :: string where
  "middle_dot = '' '' @ [CHR 0xC2, CHR 0xB7] @ '' ''"

definition bullet :: string where
  "bullet = [CHR 0xE2, CHR 0x80, CHR 0xA2]"

text \<open>\<^verbatim>\<open>strings.ToUpper\<close>, exact on ASCII (the statuses it is applied to).\<close>

definition ToUpper :: "string \<Rightarrow> string" where
  "ToUpper s = map (\<lambda>c. if is_lower c then char_of (byte c - 32) else c) s"

definition plantStatusLabel :: "string \<Rightarrow> string" where
  "plantStatusLabel rawStatus =
     (let resolved = ToLower (fallbackString rawStatus ''provisioning'')
      in if resolved = ''provisioning'' then ''UNDER REVIEW'' else ToUpper resolved)"

definition badgeForStatus :: "string \<Rightarrow> string" where
  "badgeForStatus status =
     (let s = ToLower status in
      if s \<in> {''active'', ''paid'', ''filled'', ''working''} then ''badge-ok''
      else if s \<in> {''pending'', ''provisioning'', ''dispensing'', ''maintenance''} then ''badge-warn''
      else if s \<in> {''voided'', ''suspended'', ''closed'', ''expired'', ''issue'', ''cancelled'', ''not_working''}
      then ''badge-danger''
      else ''badge-muted'')"

definition badgeForDomain :: "string \<Rightarrow> string" where
  "badgeForDomain status =
     (let s = ToLower status in
      if s = ''active'' then ''badge-ok'' else if s = ''pending'' then ''badge-warn''
      else if s = ''broken'' then ''badge-danger'' else ''badge-muted'')"

definition short_time :: "env \<Rightarrow> time \<Rightarrow> string" where
  "short_time v = time_Format (e_zone v) layout_short"

definition date_text :: "env \<Rightarrow> time \<Rightarrow> string" where
  "date_text v = time_Format (e_zone v) layout_date"

definition formatOptionalTime :: "env \<Rightarrow> time option \<Rightarrow> string \<Rightarrow> string" where
  "formatOptionalTime v value fallback = (case value of None \<Rightarrow> fallback | Some t \<Rightarrow> short_time v t)"

definition blank :: "string option \<Rightarrow> string" where   \<comment> \<open>\<^verbatim>\<open>COALESCE(x, '')\<close>\<close>
  "blank x = (case x of None \<Rightarrow> '''' | Some s \<Rightarrow> s)"

definition nullableString :: "string option \<Rightarrow> string \<Rightarrow> string" where
  "nullableString v fallback =
     (case v of None \<Rightarrow> fallback | Some s \<Rightarrow> if TrimSpace s = '''' then fallback else s)"

definition maskAccountNumber :: "string \<Rightarrow> string" where
  "maskAccountNumber v0 =
     (let v = TrimSpace v0; n = length v in
      if n \<le> 4 then v else concat (replicate (n - 4) bullet) @ drop (n - 4) v)"

text \<open>
  \<^verbatim>\<open>fmt.Sprintf("%.1f", avg)\<close> of the average that the database rounds to a \<^verbatim>\<open>float64\<close>; averages
  of ratings are not negative.
\<close>

definition fmt_1f :: "rat \<Rightarrow> string" where
  "fmt_1f q = (case fl q of
       Fin x \<Rightarrow> (let tenths = round_even (x * 10) in itoa (tenths div 10) @ ''.'' @ itoa (tenths mod 10))
     | _ \<Rightarrow> '''')"

definition formatReviewAverage :: "rat \<Rightarrow> nat \<Rightarrow> string" where
  "formatReviewAverage avg count = (if count = 0 then ''No reviews yet'' else fmt_1f avg @ '' / 5'')"

definition humanizeActivityAction :: "string \<Rightarrow> string" where
  "humanizeActivityAction action =
     (if action = ''price.set'' then ''Price updated''
      else if action = ''staff.created'' then ''Staff member added''
      else if action = ''staff.activated'' then ''Staff member activated''
      else if action = ''staff.deactivated'' then ''Staff member deactivated''
      else if action = ''cash.recorded'' then ''Cash entry recorded''
      else if action = ''shift.opened'' then ''Shift opened''
      else if action = ''shift.closed'' then ''Shift closed''
      else if action = ''ticket.created'' then ''Sale started''
      else if action = ''ticket.paid'' then ''Payment received''
      else if action = ''ticket.confirmed'' then ''Sale confirmed''
      else if action = ''ticket.filled'' then ''Order filled''
      else if action = ''ticket.bulk_filled'' then ''Receipts bulk closed''
      else if action = ''ticket.dispensing_started'' then ''Dispensing started''
      else if action = ''ticket.cash_sale'' then ''Cash sale recorded''
      else if action = ''ticket.voided'' then ''Sale voided''
      else if action = ''review.submitted'' then ''Customer review submitted''
      else if action = ''plant.created'' then ''Plant created''
      else if action = ''plant.status_changed'' then ''Plant status changed''
      else if action = ''plant.hours_updated'' then ''Opening hours updated''
      else if action = ''pump.updated'' then ''Pump updated''
      else if action = ''owner.password_changed'' then ''Owner password changed''
      else if action = ''owner.password_reset'' then ''Owner password reset''
      else humanize (map (\<lambda>c. if c = CHR ''.'' then CHR '' '' else c) action) ''Activity'')"

section \<open>Messages of the error codes\<close>

definition buyGasErrorMessage :: "string \<Rightarrow> string" where
  "buyGasErrorMessage code =
     (if code = ''amount'' then ''Enter a valid amount greater than zero.''
      else if code = ''details'' then ''Enter your name and phone number.''
      else if code = ''channel'' then ''Choose how you will pay.''
      else if code = ''closed'' then ''Plant is currently closed. You can still check the current price.''
      else if code = ''payment'' then ''We could not start your payment just now. Please try again.''
      else if code = ''form'' \<or> code = ''server'' then ''Something went wrong. Please try again.''
      else '''')"

definition quote :: string where "quote = [CHR 0x27]"

definition ownerErrorMessage :: "string \<Rightarrow> string" where
  "ownerErrorMessage code =
     (if code = ''price'' then ''Enter a valid price greater than zero.''
      else if code = ''price-permission'' then ''You do not have permission to edit the gas price.''
      else if code = ''staff'' then ''Check the staff details -- name, phone, role, and a 4-digit PIN are all required, and the phone number must not already be in use.''
      else if code = ''staff-pin'' then ''That PIN is already used by another staff member at this plant. Give each staff member a different 4-digit PIN.''
      else if code = ''staff-permission'' then ''You do not have permission to manage staff.''
      else if code = ''pump-permission'' then ''You do not have permission to manage pumps or opening hours.''
      else if code = ''pump'' then ''Could not save that pump. Check the name and status.''
      else if code = ''hours'' then ''Could not save those opening hours. Check the time format and try again.''
      else if code = ''staff-self'' then ''You cannot deactivate your own account.''
      else if code = ''staff-status'' then ''Could not update that staff member.''
      else if code = ''cash'' then ''Enter a valid amount, and make sure a shift is currently open.''
      else if code = ''settings'' then ''Could not save those settings. Check the plant name and try again.''
      else if code = ''color'' then ''Use valid hex colors, for example #006B4D.''
      else if code = ''logo'' then ''That image didn'' @ quote @ ''t work. Use a PNG, JPEG, or WebP file under 2MB, or leave the logo blank.''
      else if code = ''password-missing'' then ''Enter your current password and a new password.''
      else if code = ''password-mismatch'' then ''Those new passwords don'' @ quote @ ''t match.''
      else if code = ''password-current'' then ''That'' @ quote @ ''s not your current password.''
      else if code = ''password-short'' then ''Your new password needs at least 8 characters.''
      else if code = ''password-same'' then ''Choose a new password that'' @ quote @ ''s different from your current one.''
      else if code = ''password-form'' then ''Something went wrong. Please try again.''
      else if code = ''form'' then ''Something went wrong. Please try again.''
      else '''')"

definition ownerForgotPasswordErrorMessage :: "string \<Rightarrow> string" where
  "ownerForgotPasswordErrorMessage code =
     (if code = ''missing'' then ''Enter your phone number.''
      else if code = ''rate-limit'' then ''Too many requests. Please wait a moment and try again.''
      else if code = ''form'' then ''Something went wrong. Please try again.''
      else '''')"

definition ownerResetPasswordErrorMessage :: "string \<Rightarrow> string" where
  "ownerResetPasswordErrorMessage code =
     (if code = ''missing'' then ''Enter and confirm your new password.''
      else if code = ''mismatch'' then ''Those passwords don'' @ quote @ ''t match.''
      else if code = ''invalid-token'' then ''That link is invalid or has expired. Request a new one.''
      else if code = ''form'' then ''Something went wrong. Please try again.''
      else '''')"

section \<open>Integers of the machine\<close>

text \<open>\<^verbatim>\<open>int64\<close> arithmetic wraps, and division truncates towards zero.\<close>

definition wrap64 :: "int \<Rightarrow> int" where
  "wrap64 n = (n + 2 ^ 63) mod 2 ^ 64 - 2 ^ 63"

definition quot :: "int \<Rightarrow> int \<Rightarrow> int" where
  "quot a k = (if a < 0 then - ((- a) div k) else a div k)"

lemma wrap64_small: "- (2 ^ 63) \<le> n \<Longrightarrow> n < 2 ^ 63 \<Longrightarrow> wrap64 n = n"
  by (simp add: wrap64_def)

text \<open>
  \<^verbatim>\<open>Scan\<close> of \<^verbatim>\<open>numeric\<close> columns into \<^verbatim>\<open>int64\<close> variables stops at the first that does not fit;
  the variables after it keep their zero.
\<close>

definition scan_int64s :: "int list \<Rightarrow> int list" where
  "scan_int64s cols =
     (let ok = takeWhile (\<lambda>n. - (2 ^ 63) \<le> n \<and> n < 2 ^ 63) cols
      in ok @ replicate (length cols - length ok) 0)"

section \<open>Parts of the owner's dashboard\<close>

text \<open>The rows that a loader returns, none if its query fails; of the fields of a struct that a
  failed query leaves unset, and that so keep their zero, none is listed.\<close>

definition loaded :: "'a list act \<Rightarrow> 'a list act" where
  "loaded m = bind (attempt m) (\<lambda>r. ret (case r of Inl e \<Rightarrow> [] | Inr xs \<Rightarrow> xs))"

definition newest :: "('r \<Rightarrow> time) \<Rightarrow> nat \<Rightarrow> 'r list \<Rightarrow> 'r list" where
  "newest created limit rows = take limit (sort_key (\<lambda>r. - created r) rows)"

definition user_name :: "db \<Rightarrow> uuid option \<Rightarrow> string" where
  "user_name d i = (case first_row (\<lambda>u. Some (us_ID u) = i) (db_users d) of None \<Rightarrow> '''' | Some u \<Rightarrow> us_Name u)"

definition pump_name :: "db \<Rightarrow> uuid \<Rightarrow> uuid option \<Rightarrow> string" where
  "pump_name d plantID i =
     (case first_row (\<lambda>p. Some (pu_ID p) = i \<and> pu_PlantID p = plantID) (db_pumps d) of
        None \<Rightarrow> '''' | Some p \<Rightarrow> pu_Name p)"

definition owner_ticket_row :: "env \<Rightarrow> db \<Rightarrow> ticket \<Rightarrow> json" where
  "owner_ticket_row v d t =
     (let netGrams = (case tk_NetGrams t of None \<Rightarrow> 0 | Some n \<Rightarrow> n);
          phone = blank (tk_CustomerPhone t);
          status = ToUpper (fallbackString (status_text (tk_Status t)) ''pending'')
      in JObj [(''Reference'', JStr (fallbackString (tk_Reference t) ''No reference'')),
        (''Code'', JStr (fallbackString (tk_Code t) ''0000'')),
        (''Customer'', JStr (fallbackString (blank (tk_CustomerName t)) ''Walk-in customer'')),
        (''Phone'', JStr (if phone = '''' then ''No phone'' else phone)),
        (''Kg'', JStr (formatKg (tk_SizeGrams t))),
        (''NetKg'', JStr (if 0 < netGrams then formatKg netGrams else ''Awaiting fill'')),
        (''Rate'', JStr (formatNaira (tk_RatePerKg t) @ ''/kg'')),
        (''Amount'', JStr (formatNaira (tk_Amount t))),
        (''Channel'', JStr (channelLabel (tk_Channel t))),
        (''Pump'', JStr (fallbackString (pump_name d (tk_PlantID t) (tk_PumpID t)) ''Not assigned'')),
        (''Status'', JStr status), (''When'', JStr (short_time v (tk_CreatedAt t))),
        (''PaidAt'', JStr (formatOptionalTime v (tk_PaidAt t) ''Not paid yet'')),
        (''FilledAt'', JStr (formatOptionalTime v (tk_FilledAt t) ''Not filled yet'')),
        (''BadgeCSS'', JStr (badgeForStatus status))])"

definition loadOwnerTickets :: "uuid \<Rightarrow> json list act" where
  "loadOwnerTickets plantID = bind ask_env (\<lambda>v. loaded (query (\<lambda>d.
     map (owner_ticket_row v d)
       (newest tk_CreatedAt 8 (filter (\<lambda>t. tk_PlantID t = plantID) (db_tickets d))))))"

definition owner_staff_row :: "env \<Rightarrow> db \<Rightarrow> user_row \<Rightarrow> json" where
  "owner_staff_row v d u =
     JObj [(''ID'', JUuid (us_ID u)), (''Name'', JStr (fallbackString (us_Name u) ''Unnamed staff'')),
       (''Phone'', JStr (fallbackString (us_Phone u) ''No phone'')),
       (''Role'', JStr (humanize (us_Role u) ''Staff'')), (''IsManager'', JBool (us_Role u = ''manager'')),
       (''Active'', JBool (us_Active u)), (''CanEditPrice'', JBool (us_CanEditPrice u)),
       (''CanManageStaff'', JBool (us_CanManageStaff u)), (''CanManagePumps'', JBool (us_CanManagePumps u)),
       (''CanToggleActive'', JBool (staff_role (us_Role u))),
       (''Status'', JStr (if us_Active u then ''Active'' else ''Inactive'')),
       (''BadgeCSS'', JStr (if us_Active u then ''badge-ok'' else ''badge-muted'')),
       (''Joined'', JStr (date_text v (us_CreatedAt u))),
       (''SalesCount'', JInt (int (count_where (\<lambda>t. tk_SoldBy t = Some (us_ID u)) (db_tickets d)))),
       (''ShiftsCount'', JInt (int (count_where (\<lambda>s. sh_UserID s = us_ID u) (db_shifts d))))]"

definition loadOwnerStaff :: "uuid \<Rightarrow> json list act" where
  "loadOwnerStaff plantID = bind ask_env (\<lambda>v. loaded (query (\<lambda>d.
     map (owner_staff_row v d)
       (sort_key (\<lambda>u. (\<not> us_Active u, us_Role u, us_Name u))
         (filter (\<lambda>u. us_PlantID u = plantID \<and> staff_role (us_Role u)) (db_users d))))))"

definition owner_shift_row :: "env \<Rightarrow> db \<Rightarrow> shift \<times> string \<Rightarrow> json" where
  "owner_shift_row v d su =
     (let s = fst su in
      JObj [(''Staff'', JStr (fallbackString (snd su) ''Unnamed staff'')),
        (''Device'', JStr (fallbackString (blank (sh_DeviceID s)) ''No device'')),
        (''Pump'', JStr (fallbackString (pump_name d (sh_PlantID s) (sh_PumpID s)) ''No pump'')),
        (''Opened'', JStr (short_time v (sh_OpenedAt s))),
        (''Closed'', JStr (case sh_ClosedAt s of None \<Rightarrow> ''Open'' | Some t \<Rightarrow> short_time v t)),
        (''Tickets'', JInt (int (count_where (\<lambda>t. tk_ShiftID t = Some (sh_ID s) \<or> tk_FilledShiftID t = Some (sh_ID s))
           (db_tickets d)))),
        (''OpeningCash'', JStr (formatNaira (sh_OpeningCashKobo s))),
        (''ClosingCash'', JStr (case sh_ClosingCashKobo s of None \<Rightarrow> ''Open'' | Some k \<Rightarrow> formatNaira k)),
        (''TokensIssued'', JInt (sh_TokensIssued s)),
        (''TokensReturned'', JStr (case sh_TokensReturned s of None \<Rightarrow> ''Open'' | Some n \<Rightarrow> itoa n)),
        (''Notes'', JStr (fallbackString (blank (sh_Notes s)) ''No note'')),
        (''Status'', JStr (if sh_ClosedAt s = None then ''Open'' else ''Closed'')),
        (''BadgeCSS'', JStr (if sh_ClosedAt s = None then ''badge-warn'' else ''badge-ok''))])"

text \<open>A shift whose user is not seen falls out of the inner join.\<close>

definition with_user :: "db \<Rightarrow> shift \<Rightarrow> (shift \<times> string) option" where
  "with_user d s = map_option (\<lambda>u. (s, us_Name u)) (first_row (\<lambda>u. us_ID u = sh_UserID s) (db_users d))"

definition loadOwnerShifts :: "uuid \<Rightarrow> json list act" where
  "loadOwnerShifts plantID = bind ask_env (\<lambda>v. loaded (query (\<lambda>d.
     map (owner_shift_row v d)
       (newest (sh_OpenedAt \<circ> fst) 6
         (List.map_filter (with_user d) (filter (\<lambda>s. sh_PlantID s = plantID) (db_shifts d)))))))"

definition owner_cash_row :: "env \<Rightarrow> db \<Rightarrow> cash_movement \<Rightarrow> json" where
  "owner_cash_row v d c =
     (let recorder = user_name d (cm_RecordedBy c);
          code = (case first_row (\<lambda>t. Some (tk_ID t) = cm_TicketID c) (db_tickets d) of
                    None \<Rightarrow> '''' | Some t \<Rightarrow> tk_Code t);
          remark = blank (cm_Note c)
      in JObj [(''When'', JStr (short_time v (cm_CreatedAt c))),
        (''Kind'', JStr (humanize (cm_Kind c) ''Cash movement'')),
        (''Amount'', JStr (signedNaira (cm_AmountKobo c))),
        (''Counted'', JStr (case cm_CountedKobo c of None \<Rightarrow> ''Not counted'' | Some k \<Rightarrow> formatNaira k)),
        (''Recorder'', JStr (if recorder = '''' then ''System'' else recorder)),
        (''Ticket'', JStr (if code = '''' then ''No ticket'' else code)),
        (''Note'', JStr (if remark = '''' then ''No note'' else remark))])"

definition loadOwnerCashMovements :: "uuid \<Rightarrow> json list act" where
  "loadOwnerCashMovements plantID = bind ask_env (\<lambda>v. loaded (query (\<lambda>d.
     map (owner_cash_row v d)
       (newest cm_CreatedAt 10 (filter (\<lambda>c. cm_PlantID c = plantID) (db_cash d))))))"

definition owner_price_row :: "env \<Rightarrow> db \<Rightarrow> price \<Rightarrow> json" where
  "owner_price_row v d p =
     (let setBy = user_name d (pr_SetBy p) in
      JObj [(''EffectiveFrom'', JStr (short_time v (pr_EffectiveFrom p))),
        (''Price'', JStr (formatNaira (pr_PricePerKg p) @ ''/kg'')),
        (''CreatedAt'', JStr (short_time v (pr_CreatedAt p))),
        (''SetBy'', JStr (if setBy = '''' then ''System'' else setBy))])"

definition loadOwnerPriceHistory :: "uuid \<Rightarrow> json list act" where
  "loadOwnerPriceHistory plantID = bind ask_env (\<lambda>v. loaded (query (\<lambda>d.
     map (owner_price_row v d)
       (newest pr_EffectiveFrom 8 (filter (\<lambda>p. pr_PlantID p = plantID) (db_prices d))))))"

text \<open>The last segment of each number counts, as in the loop over the segments.\<close>

definition hours_of :: "Segment list \<Rightarrow> int \<Rightarrow> string \<times> string" where
  "hours_of segs k =
     (case filter (\<lambda>s. \<not> sg_Closed s \<and> sg_Segment s = k) segs of
        [] \<Rightarrow> ('''', '''')
      | ss \<Rightarrow> (sg_OpensAt (List.last ss), sg_ClosesAt (List.last ss)))"

definition owner_hours_row :: "Day \<Rightarrow> json" where
  "owner_hours_row dy =
     (let closed = (dy_Closed dy \<or> list_ex sg_Closed (dy_Segments dy));
          (open1, close1) = hours_of (dy_Segments dy) 1;
          (open2, close2) = hours_of (dy_Segments dy) 2;
          summary = (if dy_Unset dy then ''Not set (open all day)''
             else if closed then ''Closed''
             else if open2 \<noteq> '''' \<and> close2 \<noteq> ''''
             then open1 @ ''-'' @ close1 @ '', '' @ open2 @ ''-'' @ close2
             else if open1 \<noteq> '''' \<and> close1 \<noteq> '''' then open1 @ ''-'' @ close1
             else ''Hours not set'')
      in JObj [(''DayOfWeek'', JInt (dy_DayOfWeek dy)), (''Label'', JStr (dy_Label dy)),
        (''Closed'', JBool closed), (''Open1'', JStr open1), (''Close1'', JStr close1),
        (''Open2'', JStr open2), (''Close2'', JStr close2), (''Summary'', JStr summary)])"

definition loadOwnerHours :: "uuid \<Rightarrow> json list act" where
  "loadOwnerHours plantID = loaded (bind (Week plantID) (\<lambda>week. ret (map owner_hours_row week)))"

definition owner_pump_row :: "Pump \<Rightarrow> json" where
  "owner_pump_row p =
     JObj [(''ID'', JUuid (pm_ID p)), (''Name'', JStr (fallbackString (pm_Name p) ''Pump'')),
       (''StatusRaw'', JStr (pm_Status p)), (''Status'', JStr (humanize (pm_Status p) ''Working'')),
       (''SortOrder'', JInt (pm_SortOrder p)), (''BusyCount'', JInt (int (pm_BusyCount p))),
       (''OpenShift'', JBool (pm_OpenShift p)),
       (''BadgeCSS'', JStr (if pm_Status p = ''working'' then ''badge-ok''
          else if pm_Status p = ''maintenance'' then ''badge-warn'' else ''badge-danger''))]"

definition loadOwnerPumps :: "uuid \<Rightarrow> json list act" where
  "loadOwnerPumps plantID = loaded (bind (pumps_List plantID) (\<lambda>ps. ret (map owner_pump_row ps)))"

text \<open>Reviews with their number and average, for the owner and for the terminal.\<close>

definition reviews_with :: "(Row \<Rightarrow> json) \<Rightarrow> int \<Rightarrow> uuid \<Rightarrow> (json list \<times> nat \<times> string) act" where
  "reviews_with row limit plantID =
     bind (attempt (Stats plantID)) (\<lambda>r.
     case r of
       Inl e \<Rightarrow> ret ([], 0, ''No reviews yet'')
     | Inr (count, average) \<Rightarrow>
         bind (loaded (reviews_List plantID limit)) (\<lambda>rows.
         ret (map row rows, count, formatReviewAverage average count)))"

definition owner_review_row :: "env \<Rightarrow> string \<Rightarrow> Row \<Rightarrow> json" where
  "owner_review_row v slug r =
     JObj [(''Ticket'', JStr (shortReviewTicketRef (rw_TicketReference r) slug)),
       (''Phone'', JStr (fallbackString (rw_CustomerPhone r) ''No phone'')),
       (''Rating'', JInt (rw_Rating r)), (''Stars'', JStr (reviewStarsText (rw_Rating r))),
       (''Note'', JStr (fallbackString (rw_Note r) ''No note'')),
       (''SubmittedAt'', JStr (short_time v (rw_SubmittedAt r)))]"

definition loadOwnerReviews :: "plant \<Rightarrow> (json list \<times> nat \<times> string) act" where
  "loadOwnerReviews plant =
     bind ask_env (\<lambda>v. reviews_with (owner_review_row v (pl_Slug plant)) 50 (pl_ID plant))"

definition terminal_review_row :: "env \<Rightarrow> string \<Rightarrow> Row \<Rightarrow> json" where
  "terminal_review_row v slug r =
     JObj [(''ticket'', JStr (shortReviewTicketRef (rw_TicketReference r) slug)),
       (''phone'', JStr (fallbackString (rw_CustomerPhone r) ''No phone'')),
       (''rating'', JInt (rw_Rating r)), (''stars'', JStr (reviewStarsText (rw_Rating r))),
       (''note'', JStr (fallbackString (rw_Note r) ''No note'')),
       (''submitted_at'', JStr (short_time v (rw_SubmittedAt r)))]"

definition loadTerminalReviews :: "plant \<Rightarrow> (json list \<times> nat \<times> string) act" where
  "loadTerminalReviews plant =
     bind ask_env (\<lambda>v. reviews_with (terminal_review_row v (pl_Slug plant)) 30 (pl_ID plant))"

text \<open>The feed of a plant's log, or of the whole log.\<close>

definition activity_row :: "env \<Rightarrow> db \<Rightarrow> activity_log \<Rightarrow> json" where
  "activity_row v d l =
     (let actor = fallbackString (user_name d (al_ActorID l)) ''System'';
          when = short_time v (al_CreatedAt l);
          subject = blank (al_Subject l);
          subjectUserName = (case first_row (\<lambda>u. Some (e_uuid_str v (us_ID u)) = al_Subject l) (db_users d) of
             None \<Rightarrow> '''' | Some u \<Rightarrow> us_Name u);
          what = (if subjectUserName = '''' \<and> subject \<noteq> '''' \<and> e_uuid_parse v subject = None
                  then subject else subjectUserName)
      in JObj [(''Action'', JStr (humanizeActivityAction (al_Action l))),
        (''Detail'', JStr (if what = '''' then actor @ middle_dot @ when
           else actor @ middle_dot @ what @ middle_dot @ when))])"

definition loadActivity :: "uuid option \<Rightarrow> nat \<Rightarrow> json list act" where
  "loadActivity plantID limit = bind ask_env (\<lambda>v. loaded (query (\<lambda>d.
     map (activity_row v d)
       (newest al_CreatedAt limit
         (filter (\<lambda>l. plantID = None \<or> al_PlantID l = plantID) (db_log d))))))"

section \<open>The owner's dashboard\<close>

definition profile_fields :: "plant_row \<Rightarrow> (string \<times> json) list" where
  "profile_fields p =
     (case pl_FoundingRank p of None \<Rightarrow> [] | Some n \<Rightarrow> [(''FoundingRank'', JInt n)])
     @ [(''PlantState'', JStr (nullableString (pl_State p) ''State coming soon'')),
        (''PlantLegalBusinessName'', JStr (nullableString (pl_LegalBusinessName p) ''Not yet provided'')),
        (''PlantCACNumber'', JStr (nullableString (pl_CACNumber p) ''Not yet provided'')),
        (''PlantNMDPRALicense'', JStr (nullableString (pl_NMDPRALicenseNumber p) ''Not yet provided'')),
        (''PlantBankAccountName'', JStr (nullableString (pl_BankAccountName p) ''Not yet provided'')),
        (''PlantBankAccount'', JStr (case (pl_BankName p, pl_BankAccountNumber p) of
           (Some b, Some n) \<Rightarrow> b @ middle_dot @ maskAccountNumber n
         | _ \<Rightarrow> ''Not yet provided''))]"

definition loadPlantProfile :: "uuid \<Rightarrow> (string \<times> json) list act" where
  "loadPlantProfile plantID = loaded (query_row (\<lambda>d.
     map_option profile_fields (first_row (\<lambda>p. pl_ID p = plantID) (db_plants d))))"

definition plant_header :: "plant \<Rightarrow> string \<Rightarrow> (string \<times> json) list" where
  "plant_header plant today =
     [(''PlantName'', JStr (fallbackString (pl_Name plant) ''Your plant'')),
      (''PlantNameValue'', JStr (TrimSpace (pl_Name plant))),
      (''PlantSlug'', JStr (fallbackString (pl_Slug plant) ''plant-slug'')),
      (''PlantCity'', JStr (ptrString (pl_City plant) ''City coming soon'')),
      (''PlantCityValue'', JStr (ptrString (pl_City plant) '''')),
      (''PlantAddress'', JStr (ptrString (pl_Address plant) ''Plant address coming soon'')),
      (''PlantAddressValue'', JStr (ptrString (pl_Address plant) '''')),
      (''PlantPhone'', JStr (ptrString (pl_Phone plant) ''Phone number coming soon'')),
      (''PlantPhoneValue'', JStr (ptrString (pl_Phone plant) '''')),
      (''DomainStatus'', JStr (humanize (pl_DomainStatus plant) ''No domain yet'')),
      (''TodayLabel'', JStr today),
      (''PlantLogoPath'', JStr (ptrString (pl_LogoPath plant) '''')),
      (''PlantPrimaryColor'', JStr (fallbackString (pl_PrimaryColor plant) ''#006B4D'')),
      (''PlantPrimaryColorValue'', JStr (TrimSpace (pl_PrimaryColor plant))),
      (''PlantButtonColor'', JStr (fallbackString (pl_ButtonColor plant) ''#006B4D'')),
      (''PlantButtonColorValue'', JStr (TrimSpace (pl_ButtonColor plant))),
      (''PlantSecondaryColor'', JStr (fallbackString (pl_SecondaryColor plant) ''#10B981'')),
      (''PlantSecondaryColorValue'', JStr (TrimSpace (pl_SecondaryColor plant))),
      (''PlantButtonTextColor'', JStr (fallbackString (pl_ButtonTextColor plant) ''#F8FAFC'')),
      (''PlantButtonTextColorValue'', JStr (TrimSpace (pl_ButtonTextColor plant)))]"

text \<open>The day's sales: every ticket created today that is not voided, whatever else became of it.\<close>

definition todays_tickets :: "time \<Rightarrow> uuid \<Rightarrow> db \<Rightarrow> ticket list" where
  "todays_tickets day plantID d =
     filter (\<lambda>t. tk_PlantID t = plantID \<and> day \<le> tk_CreatedAt t \<and> tk_Status t \<noteq> Voided) (db_tickets d)"

definition sum_over :: "('r \<Rightarrow> int) \<Rightarrow> 'r list \<Rightarrow> int" where
  "sum_over f rows = sum_list (map f rows)"

definition sales_columns :: "ticket list \<Rightarrow> int list" where
  "sales_columns ts =
     [int (length ts), sum_over tk_Amount ts, sum_over tk_SizeGrams ts,
      sum_over (\<lambda>t. if tk_Channel t = ''cash'' then tk_Amount t else 0) ts,
      sum_over (\<lambda>t. if tk_Channel t \<noteq> ''cash'' then tk_Amount t else 0) ts,
      sum_over (\<lambda>t. case tk_NetGrams t of None \<Rightarrow> 0 | Some n \<Rightarrow> n) ts]"

record day_sales =
  ds_Count :: int
  ds_TotalAmount :: int
  ds_PaidGrams :: int
  ds_CashAmount :: int
  ds_ElectronicAmount :: int
  ds_FilledGrams :: int

definition sales_of :: "int list \<Rightarrow> day_sales" where
  "sales_of cols = \<lparr>ds_Count = cols ! 0, ds_TotalAmount = cols ! 1, ds_PaidGrams = cols ! 2,
     ds_CashAmount = cols ! 3, ds_ElectronicAmount = cols ! 4, ds_FilledGrams = cols ! 5\<rparr>"

definition loadDaySales :: "uuid \<Rightarrow> day_sales act" where
  "loadDaySales plantID =
     bind (attempt (query_at (\<lambda>v now d.
       sales_of (scan_int64s (sales_columns (todays_tickets (e_day_start v now) plantID d)))))) (\<lambda>r.
     ret (case r of Inl e \<Rightarrow> sales_of (replicate 6 0) | Inr s \<Rightarrow> s))"

definition sales_fields :: "int \<Rightarrow> day_sales \<Rightarrow> (string \<times> json) list" where
  "sales_fields latestPrice s =
     (let diffGrams = wrap64 (ds_FilledGrams s - ds_PaidGrams s) in
      [(''SalesCount'', JInt (ds_Count s)),
       (''MoneyToday'', JStr (formatNaira (ds_TotalAmount s))),
       (''GasSoldKg'', JStr (formatKg (ds_PaidGrams s))),
       (''CashTotal'', JStr (formatNaira (ds_CashAmount s))),
       (''ElectronicTotal'', JStr (formatNaira (ds_ElectronicAmount s))),
       (''PaidForKg'', JStr (formatKg (ds_PaidGrams s))),
       (''FilledKg'', JStr (formatKg (ds_FilledGrams s))),
       (''DiffKg'', JStr (signedKg diffGrams)),
       (''DiffAmount'', JStr (if 0 < latestPrice
          then signedNaira (quot (wrap64 (diffGrams * latestPrice)) 1000) else ''Coming soon''))])"

definition latest_price :: "uuid \<Rightarrow> int option act" where
  "latest_price plantID =
     bind (attempt (query_row (\<lambda>d. map_option pr_PricePerKg
       (first_by (\<lambda>p. - pr_EffectiveFrom p) (filter (\<lambda>p. pr_PlantID p = plantID) (db_prices d)))))) (\<lambda>r.
     ret (case r of Inl e \<Rightarrow> None | Inr k \<Rightarrow> Some k))"

definition loadOwnerDashboard :: "plant \<Rightarrow> (string \<times> json) list act" where
  "loadOwnerDashboard plant =
     (let plantID = pl_ID plant in
      bind time_Now (\<lambda>now.
      bind ask_env (\<lambda>v.
      bind (loadPlantProfile plantID) (\<lambda>profile.
      bind (latest_price plantID) (\<lambda>price.
      bind (loadDaySales plantID) (\<lambda>sales.
      bind (loadOwnerTickets plantID) (\<lambda>tickets.
      bind (loadOwnerStaff plantID) (\<lambda>staff.
      bind (loadOwnerShifts plantID) (\<lambda>shifts.
      bind (loadOwnerCashMovements plantID) (\<lambda>cash.
      bind (loadOwnerPriceHistory plantID) (\<lambda>prices.
      bind (loadOwnerHours plantID) (\<lambda>hours.
      bind (loadOwnerPumps plantID) (\<lambda>pumps.
      bind (loadOwnerReviews plant) (\<lambda>(reviews, reviewCount, reviewAverage).
      bind (loadActivity (Some plantID) 6) (\<lambda>activity.
      ret (plant_header plant (date_text v now) @ profile
        @ [(''CurrentPrice'', JStr (case price of None \<Rightarrow> ''Price coming soon''
             | Some k \<Rightarrow> formatNaira k @ ''/kg''))]
        @ sales_fields (case price of None \<Rightarrow> 0 | Some k \<Rightarrow> k) sales
        @ [(''RecentTickets'', JArr tickets), (''Staff'', JArr staff), (''Shifts'', JArr shifts),
           (''CashMovements'', JArr cash), (''PriceHistory'', JArr prices), (''Hours'', JArr hours),
           (''Pumps'', JArr pumps), (''Reviews'', JArr reviews), (''ReviewCount'', JInt (int reviewCount)),
           (''ReviewAverage'', JStr reviewAverage), (''Activity'', JArr activity)]))))))))))))))))"

text \<open>
  A manager's permissions are read again for each page; a manager who is no longer active loses
  the session cookie, one whose permissions cannot be read has none.
\<close>

definition refresh_permissions :: "uuid \<Rightarrow> Actor \<Rightarrow> ('s, Actor option) hact" where
  "refresh_permissions plantID actor =
     (if ac_Role actor \<noteq> RoleManager then ret (Some actor)
      else
        bind (in_tenant plantID (query_row (\<lambda>d. map_option
            (\<lambda>u. (us_CanEditPrice u, us_CanManageStaff u, us_CanManagePumps u))
            (first_row (active_manager plantID (ac_UserID actor)) (db_users d))))) (\<lambda>r.
        ret (case r of
            Inr (a, b, c) \<Rightarrow> Some (actor\<lparr>ac_CanEditPrice := a, ac_CanManageStaff := b, ac_CanManagePumps := c\<rparr>)
          | Inl e \<Rightarrow> if errors_is e ErrNoRows then None
              else Some (actor\<lparr>ac_CanEditPrice := False, ac_CanManageStaff := False,
                               ac_CanManagePumps := False\<rparr>))))"

definition actor_fields :: "'s server \<Rightarrow> Actor \<Rightarrow> (string \<times> json) list" where
  "actor_fields sv actor =
     (let owner = (ac_Role actor = RoleOwner) in
      [(''CSRFToken'', JStr (csrf_token_or_empty sv (ac_Token actor))),
       (''CanEditPrice'', JBool (owner \<or> ac_CanEditPrice actor)),
       (''CanManageStaff'', JBool (owner \<or> ac_CanManageStaff actor)),
       (''CanManagePumps'', JBool (owner \<or> ac_CanManagePumps actor)),
       (''CanGrantManagerPermissions'', JBool owner)])"

definition ownerDashboardHandler :: "'s server \<Rightarrow> plant option \<Rightarrow> Actor option \<Rightarrow> 's handler" where
  "ownerDashboardHandler sv plant0 actor0 r =
     (case plant0 of None \<Rightarrow> ret not_found_page | Some plant \<Rightarrow>
      let page = (\<lambda>data. ret (plain (Page 200 ''OwnerDashboard''
            (data @ [(''ErrorMessage'', JStr (ownerErrorMessage (hr_Query r ''error'')))]))))
      in bind (in_tenant (pl_ID plant) (loadOwnerDashboard plant)) (\<lambda>res.
         case res of
           Inl e \<Rightarrow> ret (http_error 500 ''Could not load dashboard'')
         | Inr data \<Rightarrow>
             case actor0 of
               None \<Rightarrow> page data
             | Some actor \<Rightarrow>
                 bind (refresh_permissions (pl_ID plant) actor) (\<lambda>fresh.
                 case fresh of
                   None \<Rightarrow> ret (with_cookies (ClearCookie (sv_APP_ENV sv) CookieOwner) (redirect ''/owner/login''))
                 | Some a \<Rightarrow> page (data @ actor_fields sv a))))"

section \<open>The customer's and the terminal's pages\<close>

text \<open>
  Both keep what their transaction's closure has assigned even when the commit then fails. The
  closure runs if the connection is acquired, the transaction begun and the scope set.
\<close>

definition tenant_body :: "uuid \<Rightarrow> world \<Rightarrow> world option" where
  "tenant_body plantID w0 =
     (case request (Wrap ''tenantdb: acquire connection'' DriverErr) w0 of
        (Inl e, w) \<Rightarrow> None
      | (Inr _, w) \<Rightarrow>
     (case request (Wrap ''tenantdb: begin transaction'' DriverErr) w of
        (Inl e, w) \<Rightarrow> None
      | (Inr _, w) \<Rightarrow>
     (case exec_stmt (\<lambda>v. Inr ((), w_db v)) (in_tx (AppRole None) w) of
        (Inl e, w1) \<Rightarrow> None
      | (Inr _, w1) \<Rightarrow> Some (w1\<lparr>w_role := AppRole (Some plantID)\<rparr>))))"

definition assigned_in_tenant :: "uuid \<Rightarrow> 'a \<Rightarrow> 'a act \<Rightarrow> 'a act" where
  "assigned_in_tenant plantID a0 m w0 =
     (Inr (case tenant_body plantID w0 of
             None \<Rightarrow> a0
           | Some w1 \<Rightarrow> (case fst (m w1) of Inl e \<Rightarrow> a0 | Inr a \<Rightarrow> a)),
      snd (WithTenant plantID m w0))"

definition customerHome_tx :: "'s server \<Rightarrow> plant \<Rightarrow> (int \<times> TodayStatus) act" where
  "customerHome_tx sv plant =
     bind (attempt (loadCurrentPrice (pl_ID plant))) (\<lambda>price.
     bind (attempt (StatusNow (sv_LoadLocation sv) (pl_ID plant) (pl_Timezone plant))) (\<lambda>status.
     ret (case price of Inl e \<Rightarrow> 0 | Inr (_, k) \<Rightarrow> k,
          case status of Inl e \<Rightarrow> \<lparr>ts_IsOpen = True, ts_Label = ''Hours not set''\<rparr> | Inr s \<Rightarrow> s)))"

definition customerHomeHandler :: "'s server \<Rightarrow> plant option \<Rightarrow> 's handler" where
  "customerHomeHandler sv plant0 r =
     (case plant0 of None \<Rightarrow> ret not_found_page | Some plant \<Rightarrow>
      bind (db_act (assigned_in_tenant (pl_ID plant) (0, \<lparr>ts_IsOpen = True, ts_Label = ''Hours not set''\<rparr>)
         (customerHome_tx sv plant))) (\<lambda>(pricePerKg, openStatus).
      bind (EnsurePublicCSRFCookie sv r) (\<lambda>(csrfToken, cookies).
      ret (with_cookies cookies (plain (Page 200 ''CustomerHome''
        [(''plant'', JStr (pl_Name plant)), (''price'', JInt pricePerKg), (''csrf'', JStr csrfToken),
         (''error'', JStr (buyGasErrorMessage (hr_Query r ''error''))),
         (''is_open'', JBool (ts_IsOpen openStatus)), (''hours'', JStr (ts_Label openStatus))]))))))"

record terminal_lists =
  tl_Staff :: "StaffMember list"
  tl_Price :: int
  tl_OpenSince :: "uuid \<rightharpoonup> time"
  tl_Pumps :: "Pump list"
  tl_Manage :: "terminalManageStaff list"
  tl_Reviews :: "json list"
  tl_ReviewCount :: nat
  tl_ReviewAverage :: string

definition no_lists :: terminal_lists where
  "no_lists = \<lparr>tl_Staff = [], tl_Price = 0, tl_OpenSince = Map.empty, tl_Pumps = [], tl_Manage = [],
     tl_Reviews = [], tl_ReviewCount = 0, tl_ReviewAverage = ''''\<rparr>"

definition terminal_tx :: "plant \<Rightarrow> terminal_lists act" where
  "terminal_tx plant =
     (let plantID = pl_ID plant in
      bind (loaded (ListStaff plantID)) (\<lambda>staff.
      bind (attempt (loadCurrentPrice plantID)) (\<lambda>price.
      bind (attempt (OpenShiftStarts plantID)) (\<lambda>since.
      bind (loaded (pumps_List plantID)) (\<lambda>pumps.
      bind (loaded (listTerminalManageStaff plantID)) (\<lambda>manage.
      bind (loadTerminalReviews plant) (\<lambda>(reviews, count, average).
      ret \<lparr>tl_Staff = staff, tl_Price = (case price of Inl e \<Rightarrow> 0 | Inr (_, k) \<Rightarrow> k),
           tl_OpenSince = (case since of Inl e \<Rightarrow> Map.empty | Inr m \<Rightarrow> m), tl_Pumps = pumps,
           tl_Manage = manage, tl_Reviews = reviews, tl_ReviewCount = count,
           tl_ReviewAverage = (if average = '''' then ''No reviews yet'' else average)\<rparr>)))))))"

definition BrandMarkPrimary :: string where
  "BrandMarkPrimary = ''/static/images/gatstogo-logo/svg/gatstogo-mark-primary.svg''"

definition terminal_staff_json :: "env \<Rightarrow> (uuid \<rightharpoonup> time) \<Rightarrow> StaffMember \<Rightarrow> json" where
  "terminal_staff_json v since m =
     JObj ([(''id'', JUuid (sm_ID m)), (''name'', JStr (sm_Name m)), (''role'', JStr (sm_Role m))]
       @ (case since (sm_ID m) of
            None \<Rightarrow> []
          | Some t \<Rightarrow> [(''shiftOpenSince'', JStr (time_Format (e_zone v) layout_clock t))]))"

definition session_json :: "env \<Rightarrow> terminalSessionPayload \<Rightarrow> json" where
  "session_json v p =
     (let (fills, grams, cash) = tp_Summary p in
      JObj [(''shift_id'', JUuid (tp_ShiftID p)), (''user_id'', JUuid (tp_UserID p)), (''name'', JStr (tp_Name p)),
        (''role'', JStr (tp_Role p)), (''opening_cash_kobo'', JInt (tp_OpeningCashKobo p)),
        (''pump_id'', JStr (case tp_PumpID p of None \<Rightarrow> '''' | Some i \<Rightarrow> e_uuid_str v i)),
        (''pump_name'', JStr (tp_PumpName p)), (''fills_completed'', JInt (int fills)),
        (''grams_dispensed'', JInt grams), (''cash_held_kobo'', JInt cash),
        (''can_edit_price'', JBool (tp_CanEditPrice p)), (''can_manage_staff'', JBool (tp_CanManageStaff p)),
        (''can_manage_pumps'', JBool (tp_CanManagePumps p)), (''csrf_token'', JStr (tp_CSRFToken p))])"

definition terminal_payload ::
  "env \<Rightarrow> plant \<Rightarrow> time \<Rightarrow> terminal_lists \<Rightarrow> string \<Rightarrow> terminalSessionPayload option \<Rightarrow> (string \<times> json) list" where
  "terminal_payload v plant now l csrfToken current =
     [(''plantName'', JStr (fallbackString (pl_Name plant) ''Gas plant'')),
      (''plantLogo'', JStr (ptrString (pl_LogoPath plant) BrandMarkPrimary)),
      (''todayLabel'', JStr (date_text v now)),
      (''staff'', JArr (map (terminal_staff_json v (tl_OpenSince l)) (tl_Staff l))),
      (''manageStaff'', JArr (map manage_staff_json (tl_Manage l))),
      (''pumps'', JArr (map pump_json (tl_Pumps l))), (''reviews'', JArr (tl_Reviews l)),
      (''reviewCount'', JInt (int (tl_ReviewCount l))), (''reviewAverage'', JStr (tl_ReviewAverage l)),
      (''csrfToken'', JStr csrfToken), (''pricePerKgKobo'', JInt (tl_Price l))]
     @ (case current of None \<Rightarrow> [] | Some p \<Rightarrow> [(''currentSession'', session_json v p)])"

definition terminalPageHandler :: "'s server \<Rightarrow> plant option \<Rightarrow> 's handler" where
  "terminalPageHandler sv plant0 r =
     (case plant0 of None \<Rightarrow> ret not_found_page | Some plant \<Rightarrow>
      bind (db_act (assigned_in_tenant (pl_ID plant) no_lists (terminal_tx plant))) (\<lambda>lists.
      bind (db_act ask_env) (\<lambda>v.
      bind (db_act time_Now) (\<lambda>now.
      bind (EnsurePublicCSRFCookie sv r) (\<lambda>(csrfToken, cookies).
      bind (loadCurrentTerminalSession sv (pl_ID plant) r) (\<lambda>(current, more).
      ret (with_cookies (cookies @ more) (plain (Page 200 ''StaffTerminal''
        (terminal_payload v plant now lists csrfToken current))))))))))"

section \<open>Pages that hold a form\<close>

definition ownerLoginPageHandler :: "'s server \<Rightarrow> plant option \<Rightarrow> 's handler" where
  "ownerLoginPageHandler sv plant0 r =
     (case plant0 of None \<Rightarrow> ret not_found_page | Some plant \<Rightarrow>
      bind (EnsurePublicCSRFCookie sv r) (\<lambda>(csrfToken, cookies).
      ret (with_cookies cookies (plain (Page 200 ''OwnerLogin''
        [(''plant'', JStr (pl_Name plant)), (''error'', JStr ''''), (''csrf'', JStr csrfToken)])))))"

definition ownerForgotPasswordPageHandler :: "'s server \<Rightarrow> plant option \<Rightarrow> 's handler" where
  "ownerForgotPasswordPageHandler sv plant0 r =
     (case plant0 of None \<Rightarrow> ret not_found_page | Some plant \<Rightarrow>
      bind (EnsurePublicCSRFCookie sv r) (\<lambda>(csrfToken, cookies).
      ret (with_cookies cookies (plain (Page 200 ''OwnerForgotPassword''
        [(''plant'', JStr (pl_Name plant)),
         (''error'', JStr (ownerForgotPasswordErrorMessage (hr_Query r ''error''))),
         (''submitted'', JBool (hr_Query r ''submitted'' = ''1'')), (''csrf'', JStr csrfToken)])))))"

text \<open>The token is only looked at, so that a link that is fetched ahead of its reader stays good.\<close>

definition ownerResetPasswordPageHandler :: "'s server \<Rightarrow> plant option \<Rightarrow> 's handler" where
  "ownerResetPasswordPageHandler sv plant0 r =
     (case plant0 of None \<Rightarrow> ret not_found_page | Some plant \<Rightarrow>
      bind (EnsurePublicCSRFCookie sv r) (\<lambda>(csrfToken, cookies).
      let token = hr_Query r ''token'' in
      bind (attempt (Peek (sv_Redis sv) token)) (\<lambda>peeked.
      ret (with_cookies cookies (plain (Page 200 ''OwnerResetPassword''
        [(''plant'', JStr (pl_Name plant)),
         (''error'', JStr (ownerResetPasswordErrorMessage (hr_Query r ''error''))),
         (''token'', JStr token),
         (''token_valid'', JBool (case peeked of Inl e \<Rightarrow> False | Inr u \<Rightarrow> True)),
         (''csrf'', JStr csrfToken)]))))))"

definition ownerChangePasswordPageHandler :: "'s server \<Rightarrow> plant option \<Rightarrow> Actor option \<Rightarrow> 's handler" where
  "ownerChangePasswordPageHandler sv plant0 actor0 r =
     (case (plant0, actor0) of
        (Some plant, Some actor) \<Rightarrow>
          let errorMsg = ownerErrorMessage (hr_Query r ''error'') in
          ret (plain (Page 200 ''OwnerChangePassword''
            [(''plant'', JStr (pl_Name plant)), (''error'', JStr errorMsg),
             (''done'', JBool (hr_Query r ''done'' = ''1'' \<and> errorMsg = '''')),
             (''csrf'', JStr (csrf_token_or_empty sv (ac_Token actor)))]))
      | _ \<Rightarrow> ret (http_error 404 ''Not found''))"

end
