(* ===== verification/TenantLaws.thy ===== *)
theory TenantLaws
  imports Dashboard
begin

text \<open>
  Row-level security at work: every operation of the components, and so the body of every
  transaction that a handler runs for a tenant, writes rows of that tenant only. The proofs
  follow the code with the rules of \<open>tenant_rules\<close>.
\<close>

section \<open>Operations\<close>

lemma writes_own_not_empty_or [tenant_rules]: "writes_own p (not_empty_or m rs)"
  unfolding not_empty_or_def by (intro tenant_rules)

lemma writes_own_returning_one [tenant_rules]: "writes_own p (returning_one f m rs)"
  unfolding returning_one_def by (cases rs) (auto intro: tenant_rules)

lemma writes_own_purchase_attempts [tenant_rules]:
  "writes_own p (purchase_attempts params reference paidAt n)"
  by (induction n) (auto simp: NewCode_def intro!: tenant_rules)

lemma writes_own_Tickets [tenant_rules]:
  "writes_own p (Purchase params)" "writes_own p (CreatePending params)" "writes_own p (CreatePaidCash params s h)"
  "writes_own p (StartDispensing q t a)" "writes_own p (CloseFilled q t s a note)"
  "writes_own p (BulkCloseFilled q i s a note)" "writes_own p (Fill q t s)" "writes_own p (MarkPaid q t)"
  "writes_own p (Void q t a reason)" "writes_own p (Confirm q ref ph)"
  unfolding CreatePending_def CreatePaidCash_def Purchase_def NewReference_def randomHex_def StartDispensing_def
    CloseFilled_def BulkCloseFilled_def Fill_def MarkPaid_def Void_def Confirm_def close_row_def
  by (intro tenant_rules; simp)+

lemma writes_own_ticket_reads [tenant_rules]:
  "writes_own p (Redeem q c)" "writes_own p (ListByPhone q ph)" "writes_own p (GetReceipt q ref ph)"
  "writes_own p (ListDispensingForPump q i)"
  unfolding Redeem_def ListByPhone_def GetReceipt_def ListDispensingForPump_def
  by (intro tenant_rules)+

lemma writes_own_Shifts [tenant_rules]:
  "writes_own p (findOpen q u)" "writes_own p (StartOrResume q u cash dev pump)"
  "writes_own p (Close q s u cash notes)" "writes_own p (IncrementTokensIssued q s)"
  "writes_own p (IncrementTokensReturned q s)" "writes_own p (Summary q s)"
  "writes_own p (MostRecentOpenShiftID q)" "writes_own p (RecordCashMovement q s k a c u n)"
  "writes_own p (ListStaff q)" "writes_own p (OpenShiftStarts q)"
  unfolding findOpen_def StartOrResume_def Close_def IncrementTokensIssued_def IncrementTokensReturned_def
    Summary_def MostRecentOpenShiftID_def RecordCashMovement_def ListStaff_def OpenShiftStarts_def
  by (intro tenant_rules; simp)+

text \<open>The one statement on tickets that is not a plain \<^verbatim>\<open>UPDATE\<close>.\<close>

lemma writes_own_assign_stmt [tenant_rules]: "writes_own p (assign_stmt q t)"
  unfolding assign_stmt_def
proof (rule writes_own_exec_stmt)
  fix w a d
  let ?free = "\<lambda>x. visible (w_role w) (Some (tk_PlantID x)) \<and> tk_ID x = t \<and> tk_PlantID x = q \<and> tk_PumpID x = None"
  assume r: "w_role w = AppRole (Some p)"
  have own: "others p (w_db w\<lparr>db_tickets := upd_where ?free
      (\<lambda>x. x\<lparr>tk_PumpID := Some i, tk_UpdatedAt := w_now w\<rparr>) (db_tickets (w_db w))\<rparr>) = others p (w_db w)" for i
  proof -
    have "filter (\<lambda>x. t_plant tickets_tab x \<noteq> Some p) (upd_where ?free
        (\<lambda>x. x\<lparr>tk_PumpID := Some i, tk_UpdatedAt := w_now w\<rparr>) (db_tickets (w_db w)))
      = filter (\<lambda>x. t_plant tickets_tab x \<noteq> Some p) (t_rows tickets_tab (w_db w))"
      using r by simp (rule filter_upd_where_other, simp)
    from tickets_tt.others_put [OF this] show ?thesis by simp
  qed
  assume "(let d = w_db w; v = visible_db (w_role w) d; free = ?free
     in case candidate q v of
          Some c \<Rightarrow>
            if \<exists>x \<in> set (db_tickets d). free x
            then checked tickets_tab (Some (pump_result v c))
                   (d\<lparr>db_tickets := upd_where free (\<lambda>x. x\<lparr>tk_PumpID := Some (pu_ID c), tk_UpdatedAt := w_now w\<rparr>)
                        (db_tickets d)\<rparr>)
            else Inr (map_option (pump_result v) (existing_pump q t v), d)
        | None \<Rightarrow> Inr (map_option (pump_result v) (existing_pump q t v), d)) = Inr (a, d)"
  then show "others p d = others p (w_db w)"
    using own by (auto simp: checked_def Let_def split: option.splits if_splits)
qed

lemma writes_own_Pumps [tenant_rules]:
  "writes_own p (EnsureDefault q)" "writes_own p (pumps_List q)" "writes_own p (AssignLeastBusy q t)"
  "writes_own p (ValidateShiftPump q i u)" "writes_own p (Upsert q j n st so)"
  unfolding EnsureDefault_def pumps_List_def AssignLeastBusy_def ValidateShiftPump_def Upsert_def Let_def
  by (intro tenant_rules; simp)+

lemma writes_own_HashPassword [tenant_rules]: "writes_own p (HashPassword bc pw)"
  by (simp add: HashPassword_def writes_own_def)

lemma writes_own_Staff [tenant_rules]:
  "writes_own p (prices_Set q k u)" "writes_own p (loadCurrentPrice q)" "writes_own p (pinAlreadyUsed bc q pin)"
  "writes_own p (staff_Create bc q params)" "writes_own p (staff_SetActive q u b)"
  unfolding prices_Set_def loadCurrentPrice_def pinAlreadyUsed_def staff_Create_def staff_SetActive_def Let_def
  by (intro tenant_rules; simp)+

lemma writes_own_request_attempts [tenant_rules]: "writes_own p (request_attempts q t n)"
  by (induction n) (auto simp: newToken_def select_request_def intro!: tenant_rules)

lemma writes_own_Reviews [tenant_rules]:
  "writes_own p (EnsureRequest q t)" "writes_own p (GetTarget q tok)" "writes_own p (Submit q tok n note)"
  unfolding EnsureRequest_def select_request_def GetTarget_def Submit_def Let_def
  by (intro tenant_rules; simp)+

lemma writes_own_insert_segments [tenant_rules]: "writes_own p (insert_segments q ss)"
  by (induction ss) (auto intro!: tenant_rules)

lemma writes_own_Hours [tenant_rules]:
  "writes_own p (StatusNow L q tz)" "writes_own p (ReplaceWeek q ss)"
  unfolding StatusNow_def ReplaceWeek_def Let_def by (intro tenant_rules)+

section \<open>Transactions\<close>

lemma writes_own_wrap_error [tenant_rules]: "writes_own p m \<Longrightarrow> writes_own p (wrap_error msg m)"
  unfolding wrap_error_def by (intro tenant_rules)

lemma writes_own_customer_tx [tenant_rules]:
  "writes_own p (buyGas_tx L plant a c n ph)" "writes_own p (callback_tx q ref v)"
  "writes_own p (webhook_tx q t ref x)" "writes_own p (void_tx q ref u reason)"
  "writes_own p (confirm_tx q ref ph)" "writes_own p (review_tx q tok rating note)"
  unfolding buyGas_tx_def callback_tx_def webhook_tx_def void_tx_def confirm_tx_def review_tx_def Let_def
  by (intro tenant_rules)+

lemma writes_own_terminal_parts [tenant_rules]:
  "writes_own p (terminalManagerCan q u perm)" "writes_own p (listTerminalManageStaff q)"
  "writes_own p (shiftCashHeld q s)" "writes_own p (shift_pump_name q i)" "writes_own p (assign_or_none q t)"
  "writes_own p (fill_texts q t)"
  unfolding terminalManagerCan_def listTerminalManageStaff_def shiftCashHeld_def shift_pump_name_def
    assign_or_none_def fill_texts_def
  by (intro tenant_rules)+

lemma writes_own_terminal_tx [tenant_rules]:
  "writes_own p (start_shift_tx q u cash dev pump)" "writes_own p (fill_tx url plant t actor)"
  "writes_own p (cashSale_tx L plant u s amt ph)" "writes_own p (closeReceipt_tx q t s u note)"
  "writes_own p (bulkClose_tx q i s u note)" "writes_own p (pump_tx q u j n st so)"
  "writes_own p (staffStatus_tx q a u b)" "writes_own p (setPrice_tx q u k)" "writes_own p (shiftEnd_tx q s u cash notes)"
  unfolding start_shift_tx_def fill_tx_def cashSale_tx_def closeReceipt_tx_def bulkClose_tx_def pump_tx_def
    staffStatus_tx_def setPrice_tx_def shiftEnd_tx_def Let_def
  by (intro tenant_rules)+

lemma writes_own_owner_tx [tenant_rules]:
  "writes_own p (ownerSetPrice_tx q u k)" "writes_own p (createStaff_tx bc q u params)"
  "writes_own p (ownerStaffStatus_tx q a u b)" "writes_own p (permissions_tx q a u x y z)"
  "writes_own p (hours_tx q a ss)" "writes_own p (ownerPump_tx q a i n st so)"
  "writes_own p (settings_tx q a n c ad ph cols logo)" "writes_own p (changePassword_tx bc q u cur new)"
  "writes_own p (reset_tx q u h)"
  unfolding ownerSetPrice_tx_def createStaff_tx_def ownerStaffStatus_tx_def permissions_tx_def hours_tx_def
    ownerPump_tx_def settings_tx_def changePassword_tx_def reset_tx_def Let_def
  by (intro tenant_rules; simp)+

text \<open>The pages' own transactions, which may create the default pump.\<close>

lemma writes_own_lists [tenant_rules]:
  "writes_own p (Stats q)" "writes_own p (reviews_List q k)" "writes_own p (Week q)"
  unfolding Stats_def reviews_List_def Week_def Let_def by (intro tenant_rules)+

lemma writes_own_loads [tenant_rules]:
  "writes_own p m \<Longrightarrow> writes_own p (loaded m)" "writes_own p (reviews_with f k q)"
  "writes_own p (loadOwnerReviews plant)" "writes_own p (loadTerminalReviews plant)"
  "writes_own p (loadOwnerTickets q)" "writes_own p (loadOwnerStaff q)" "writes_own p (loadOwnerShifts q)"
  "writes_own p (loadOwnerCashMovements q)" "writes_own p (loadOwnerPriceHistory q)" "writes_own p (loadOwnerHours q)"
  "writes_own p (loadOwnerPumps q)" "writes_own p (loadActivity i n)" "writes_own p (loadPlantProfile q)"
  "writes_own p (loadDaySales q)" "writes_own p (latest_price q)"
  unfolding loaded_def reviews_with_def loadOwnerReviews_def loadTerminalReviews_def loadOwnerTickets_def
    loadOwnerStaff_def loadOwnerShifts_def loadOwnerCashMovements_def loadOwnerPriceHistory_def loadOwnerHours_def
    loadOwnerPumps_def loadActivity_def loadPlantProfile_def loadDaySales_def latest_price_def Let_def
  by (intro tenant_rules; assumption?)+

lemma writes_own_page_tx [tenant_rules]:
  "writes_own p (loadOwnerDashboard plant)" "writes_own p (terminal_tx plant)"
  unfolding loadOwnerDashboard_def terminal_tx_def Let_def
  by (intro tenant_rules)+

end
