(* ===== verification/TicketLaws.thy ===== *)
theory TicketLaws
  imports Tickets
begin

text \<open>
  What the ticket operations promise. The state machine of one ticket is the relation \<open>tstep\<close>;
  \<open>tickets_evolve\<close> says that every row of the table moved along it and every new row started at
  one of its two initial states; the operations of \<open>Tickets\<close> are shown to keep it, whatever
  their outcome. The rows it leads to satisfy \<open>ticket_wf\<close>, and nothing that was agreed at
  purchase ever changes. Then the functional behaviour of the single operations.
\<close>

section \<open>The state machine of a ticket\<close>

inductive tstep :: "ticket \<Rightarrow> ticket \<Rightarrow> bool" where
  pay: "tk_Status t = Pending \<Longrightarrow>
    tstep t (t\<lparr>tk_Status := Paid, tk_PaidAt := Some n, tk_UpdatedAt := m\<rparr>)"
| assign: "tk_PumpID t = None \<Longrightarrow> tstep t (t\<lparr>tk_PumpID := Some i, tk_UpdatedAt := m\<rparr>)"
| start: "tk_Status t = Paid \<Longrightarrow>
    tstep t (t\<lparr>tk_Status := Dispensing, tk_DispensingStartedAt := Some n,
               tk_DispensingStartedBy := Some a, tk_UpdatedAt := m\<rparr>)"
| close: "tk_Status t = Dispensing \<Longrightarrow>
    tstep t ((close_row s a note n t)\<lparr>tk_UpdatedAt := m\<rparr>)"
| fill: "tk_Status t = Paid \<or> tk_Status t = Dispensing \<Longrightarrow> g \<noteq> None \<Longrightarrow>
    tstep t (t\<lparr>tk_Status := Filled, tk_FilledAt := Some n, tk_FilledShiftID := Some s,
               tk_NetGrams := g, tk_UpdatedAt := m\<rparr>)"
| void: "tk_Status t = Pending \<or> tk_Status t = Paid \<Longrightarrow>
    tstep t (t\<lparr>tk_Status := Voided, tk_VoidReason := Some r, tk_VoidedBy := Some a,
               tk_VoidedAt := Some n, tk_UpdatedAt := m\<rparr>)"
| confirm: "tk_Status t = Filled \<Longrightarrow> tk_ConfirmedAt t = None \<Longrightarrow>
    tstep t (t\<lparr>tk_ConfirmedAt := Some n, tk_UpdatedAt := m\<rparr>)"

text \<open>A row as \<open>Purchase\<close> inserts it.\<close>

definition born :: "ticket \<Rightarrow> bool" where
  "born t \<longleftrightarrow> (tk_Status t = Pending \<and> tk_PaidAt t = None \<or> tk_Status t = Paid \<and> tk_PaidAt t \<noteq> None) \<and>
     tk_NetGrams t = None \<and> tk_FilledAt t = None \<and> tk_FilledShiftID t = None \<and>
     tk_ConfirmedAt t = None \<and> tk_PumpID t = None \<and> tk_DispensingStartedAt t = None \<and>
     tk_DispensingStartedBy t = None \<and> tk_VoidReason t = None \<and> tk_VoidedBy t = None \<and>
     tk_VoidedAt t = None"

text \<open>What a ticket keeps from its purchase on.\<close>

definition terms_of :: "ticket \<Rightarrow> (uuid \<times> uuid \<times> string \<times> string) \<times> (int \<times> int \<times> uuid option \<times> int \<times> string)
    \<times> (string option \<times> string option \<times> uuid option \<times> uuid option \<times> time)" where
  "terms_of t = ((tk_ID t, tk_PlantID t, tk_Reference t, tk_Code t),
     (tk_SizeGrams t, tk_RatePerKg t, tk_PriceID t, tk_Amount t, tk_Channel t),
     (tk_CustomerName t, tk_CustomerPhone t, tk_SoldBy t, tk_ShiftID t, tk_CreatedAt t))"

lemma tstep_terms: "tstep t t' \<Longrightarrow> terms_of t' = terms_of t"
  by (induction rule: tstep.induct) (simp_all add: terms_of_def close_row_def)

lemma tsteps_terms: "tstep\<^sup>*\<^sup>* t t' \<Longrightarrow> terms_of t' = terms_of t"
  by (induction rule: rtranclp_induct) (auto dest: tstep_terms)

text \<open>The status graph, and the order in which a ticket passes through it.\<close>

fun stage :: "ticket_status \<Rightarrow> nat" where
  "stage Pending = 0"
| "stage Paid = 1"
| "stage Dispensing = 2"
| "stage Filled = 3"
| "stage _ = 4"

lemma tstep_stage:
  "tstep t t' \<Longrightarrow> tk_Status t' = tk_Status t \<or> stage (tk_Status t) < stage (tk_Status t') \<and> tk_Status t \<noteq> Filled"
  by (induction rule: tstep.induct) (auto simp: close_row_def)

lemma tsteps_stage: "tstep\<^sup>*\<^sup>* t t' \<Longrightarrow> stage (tk_Status t) \<le> stage (tk_Status t')"
  by (induction rule: rtranclp_induct) (auto dest!: tstep_stage)

lemma tstep_final:
  "tstep t t' \<Longrightarrow> tk_Status t \<in> {Filled, Voided} \<Longrightarrow> tk_Status t' = tk_Status t"
  by (induction rule: tstep.induct) auto

lemma tsteps_final:
  "tstep\<^sup>*\<^sup>* t t' \<Longrightarrow> tk_Status t \<in> {Filled, Voided} \<Longrightarrow> tk_Status t' = tk_Status t"
  by (induction rule: rtranclp_induct) (auto dest: tstep_final)

text \<open>A pump, a payment, a fill and a confirmation are recorded once.\<close>

lemma tstep_pump: "tstep t t' \<Longrightarrow> tk_PumpID t = Some i \<Longrightarrow> tk_PumpID t' = Some i"
  by (induction rule: tstep.induct) (auto simp: close_row_def)

text \<open>The relation between the columns and the status.\<close>

definition unfilled :: "ticket \<Rightarrow> bool" where
  "unfilled t \<longleftrightarrow> tk_FilledAt t = None \<and> tk_FilledShiftID t = None \<and> tk_NetGrams t = None \<and>
     tk_ConfirmedAt t = None"

definition unvoided :: "ticket \<Rightarrow> bool" where
  "unvoided t \<longleftrightarrow> tk_VoidReason t = None \<and> tk_VoidedBy t = None \<and> tk_VoidedAt t = None"

definition undispensed :: "ticket \<Rightarrow> bool" where
  "undispensed t \<longleftrightarrow> tk_DispensingStartedAt t = None \<and> tk_DispensingStartedBy t = None"

definition ticket_wf :: "ticket \<Rightarrow> bool" where
  "ticket_wf t = (case tk_Status t of
     Pending \<Rightarrow> tk_PaidAt t = None \<and> undispensed t \<and> unfilled t \<and> unvoided t
   | Paid \<Rightarrow> tk_PaidAt t \<noteq> None \<and> undispensed t \<and> unfilled t \<and> unvoided t
   | Dispensing \<Rightarrow> tk_PaidAt t \<noteq> None \<and> tk_DispensingStartedAt t \<noteq> None \<and>
       tk_DispensingStartedBy t \<noteq> None \<and> unfilled t \<and> unvoided t
   | Filled \<Rightarrow> tk_PaidAt t \<noteq> None \<and> tk_FilledAt t \<noteq> None \<and> tk_FilledShiftID t \<noteq> None \<and>
       tk_NetGrams t \<noteq> None \<and> unvoided t
   | Voided \<Rightarrow> undispensed t \<and> unfilled t \<and> tk_VoidReason t \<noteq> None \<and> tk_VoidedBy t \<noteq> None \<and>
       tk_VoidedAt t \<noteq> None
   | _ \<Rightarrow> False)"

lemmas wf_defs = ticket_wf_def unfilled_def unvoided_def undispensed_def

lemma born_wf: "born t \<Longrightarrow> ticket_wf t"
  by (auto simp: born_def wf_defs)

lemma tstep_wf: "tstep t t' \<Longrightarrow> ticket_wf t \<Longrightarrow> ticket_wf t'"
  by (induction rule: tstep.induct)
    (auto simp: wf_defs close_row_def split: option.splits ticket_status.splits)

lemma tsteps_wf: "tstep\<^sup>*\<^sup>* t t' \<Longrightarrow> ticket_wf t \<Longrightarrow> ticket_wf t'"
  by (induction rule: rtranclp_induct) (auto dest: tstep_wf)

section \<open>The table\<close>

text \<open>
  A code is given out again only once its earlier tickets are closed: of two rows with the same
  plant and code the one inserted first is no longer redeemable.
\<close>

definition code_released :: "ticket \<Rightarrow> ticket \<Rightarrow> bool" where
  "code_released t u \<longleftrightarrow> (tk_PlantID t = tk_PlantID u \<and> tk_Code t = tk_Code u \<longrightarrow> \<not> open_code t)"

definition ticket_keys_ok :: "db \<Rightarrow> bool" where
  "ticket_keys_ok d \<longleftrightarrow> distinct (map tk_ID (db_tickets d)) \<and>
     distinct (map (\<lambda>t. (tk_PlantID t, tk_Reference t)) (db_tickets d)) \<and>
     sorted_wrt code_released (db_tickets d)"

lemma tstep_open: "tstep t t' \<Longrightarrow> open_code t' \<Longrightarrow> open_code t"
  by (induction rule: tstep.induct) (auto simp: open_code_def close_row_def)

lemma tsteps_open: "tstep\<^sup>*\<^sup>* t t' \<Longrightarrow> open_code t' \<Longrightarrow> open_code t"
  by (induction rule: rtranclp_induct) (auto dest: tstep_open)

lemma tsteps_released:
  "tstep\<^sup>*\<^sup>* t t' \<Longrightarrow> tstep\<^sup>*\<^sup>* u u' \<Longrightarrow> code_released t u \<Longrightarrow> code_released t' u'"
  using tsteps_terms [of t t'] tsteps_terms [of u u'] tsteps_open [of t t']
  by (auto simp: code_released_def terms_of_def)

lemma list_all2_sorted_wrt:
  assumes "list_all2 R xs ys" "sorted_wrt S xs"
    and "\<And>x x' y y'. R x x' \<Longrightarrow> R y y' \<Longrightarrow> S x y \<Longrightarrow> S x' y'"
  shows "sorted_wrt S ys"
  using assms(1,2)
proof (induction rule: list_all2_induct)
  case (Cons x xs y ys)
  have "S y y'" if "y' \<in> set ys" for y'
  proof -
    from that Cons.hyps(2) obtain x' where "x' \<in> set xs" "R x' y'"
      by (metis in_set_conv_nth list_all2_conv_all_nth)
    with Cons assms(3) show ?thesis by auto
  qed
  with Cons show ?case by auto
qed simp

definition tickets_evolve :: "db \<Rightarrow> db \<Rightarrow> bool" where
  "tickets_evolve d d' \<longleftrightarrow> (ticket_keys_ok d \<longrightarrow> ticket_keys_ok d' \<and>
     (\<exists>old new. db_tickets d' = old @ new \<and> list_all2 tstep\<^sup>*\<^sup>* (db_tickets d) old \<and>
        (\<forall>t \<in> set new. \<exists>t0. born t0 \<and> tstep\<^sup>*\<^sup>* t0 t)))"

lemma list_all2_rtranclp_trans:
  "list_all2 r\<^sup>*\<^sup>* xs ys \<Longrightarrow> list_all2 r\<^sup>*\<^sup>* ys zs \<Longrightarrow> list_all2 r\<^sup>*\<^sup>* xs zs"
  by (rule list_all2_trans [of "r\<^sup>*\<^sup>*" "r\<^sup>*\<^sup>*"]) auto

lemma list_all2_map_eq: "list_all2 R xs ys \<Longrightarrow> (\<And>x y. R x y \<Longrightarrow> f y = f x) \<Longrightarrow> map f ys = map f xs"
  by (induction rule: list_all2_induct) auto

lemma list_all2_upd_where:
  "(\<And>x. x \<in> set xs \<Longrightarrow> P x \<Longrightarrow> R x (f x)) \<Longrightarrow> (\<And>x. R x x) \<Longrightarrow> list_all2 R xs (upd_where P f xs)"
  by (induction xs) auto

lemma evolve_same: "db_tickets d' = db_tickets d \<Longrightarrow> tickets_evolve d d'"
  unfolding tickets_evolve_def ticket_keys_ok_def
  by (intro impI conjI exI [of _ "db_tickets d"] exI [of _ "[]"]) (auto simp: list.rel_refl)

lemma evolve_steps:
  assumes "ticket_keys_ok d \<Longrightarrow> list_all2 tstep\<^sup>*\<^sup>* (db_tickets d) (db_tickets d')"
  shows "tickets_evolve d d'"
proof (unfold tickets_evolve_def, intro impI conjI)
  assume k: "ticket_keys_ok d"
  note s = assms [OF k]
  have "map terms_of (db_tickets d') = map terms_of (db_tickets d)"
    using s tsteps_terms by (rule list_all2_map_eq)
  then have "map (fst \<circ> terms_of) (db_tickets d') = map (fst \<circ> terms_of) (db_tickets d)"
    by (simp only: map_map [symmetric])
  then have e: "map (h \<circ> (fst \<circ> terms_of)) (db_tickets d') = map (h \<circ> (fst \<circ> terms_of)) (db_tickets d)" for h :: "uuid \<times> uuid \<times> string \<times> string \<Rightarrow> 'b"
    by (simp only: map_map [symmetric])
  show "ticket_keys_ok d'"
    using k e [of fst] e [of "\<lambda>(i, p, r, c). (p, r)"] list_all2_sorted_wrt [OF s _ tsteps_released]
    by (simp add: ticket_keys_ok_def terms_of_def comp_def)
  show "\<exists>old new. db_tickets d' = old @ new \<and> list_all2 tstep\<^sup>*\<^sup>* (db_tickets d) old \<and>
      (\<forall>t \<in> set new. \<exists>t0. born t0 \<and> tstep\<^sup>*\<^sup>* t0 t)"
    using s by (intro exI [of _ "db_tickets d'"] exI [of _ "[]"]) simp
qed

lemma evolve_insert:
  assumes "tickets_viol (d\<lparr>db_tickets := db_tickets d @ [t]\<rparr>) = None" "born t"
  shows "tickets_evolve d (d\<lparr>db_tickets := db_tickets d @ [t]\<rparr>)"
proof (unfold tickets_evolve_def, intro impI conjI)
  assume k: "ticket_keys_ok d"
  have "open_code t" using assms(2) by (auto simp: born_def open_code_def)
  moreover from assms(1) have "distinct (code_keys (db_tickets d @ [t]))"
    by (simp add: tickets_viol_def split: if_splits)
  ultimately have "(tk_PlantID t, tk_Code t) \<notin> (\<lambda>x. (tk_PlantID x, tk_Code x)) ` {x \<in> set (db_tickets d). open_code x}"
    by (simp add: code_keys_def)
  then have "\<forall>u \<in> set (db_tickets d). code_released u t"
    unfolding code_released_def image_iff by (metis (mono_tags, lifting) mem_Collect_eq)
  with k assms(1) show "ticket_keys_ok (d\<lparr>db_tickets := db_tickets d @ [t]\<rparr>)"
    by (simp add: tickets_viol_def ticket_keys_ok_def sorted_wrt_append split: if_splits)
  show "\<exists>old new. db_tickets (d\<lparr>db_tickets := db_tickets d @ [t]\<rparr>) = old @ new \<and>
      list_all2 tstep\<^sup>*\<^sup>* (db_tickets d) old \<and> (\<forall>t \<in> set new. \<exists>t0. born t0 \<and> tstep\<^sup>*\<^sup>* t0 t)"
    using assms(2)
    by (intro exI [of _ "db_tickets d"] exI [of _ "[t]"]) (auto simp: list.rel_refl)
qed

interpretation life: db_preorder tickets_evolve
proof
  show "tickets_evolve d d" for d by (rule evolve_same) simp
next
  fix d d' d'' assume 1: "tickets_evolve d d'" and 2: "tickets_evolve d' d''"
  show "tickets_evolve d d''"
  proof (unfold tickets_evolve_def, intro impI)
    assume k: "ticket_keys_ok d"
    with 1 obtain old new where d': "ticket_keys_ok d'" "db_tickets d' = old @ new"
      "list_all2 tstep\<^sup>*\<^sup>* (db_tickets d) old" "\<forall>t \<in> set new. \<exists>t0. born t0 \<and> tstep\<^sup>*\<^sup>* t0 t"
      by (auto simp: tickets_evolve_def)
    with 2 obtain old' new' where d'': "ticket_keys_ok d''" "db_tickets d'' = old' @ new'"
      "list_all2 tstep\<^sup>*\<^sup>* (old @ new) old'" "\<forall>t \<in> set new'. \<exists>t0. born t0 \<and> tstep\<^sup>*\<^sup>* t0 t"
      by (auto simp: tickets_evolve_def)
    from d''(3) obtain a b where ab: "old' = a @ b" "list_all2 tstep\<^sup>*\<^sup>* old a" "list_all2 tstep\<^sup>*\<^sup>* new b"
      by (auto simp: list_all2_append1)
    have "\<exists>t0. born t0 \<and> tstep\<^sup>*\<^sup>* t0 t" if t: "t \<in> set b" for t
    proof -
      from t ab(3) obtain u where "u \<in> set new" "tstep\<^sup>*\<^sup>* u t"
        by (metis in_set_conv_nth list_all2_conv_all_nth)
      with d'(4) show ?thesis by (meson rtranclp_trans)
    qed
    with d' d'' ab show "ticket_keys_ok d'' \<and> (\<exists>old new. db_tickets d'' = old @ new \<and>
        list_all2 tstep\<^sup>*\<^sup>* (db_tickets d) old \<and> (\<forall>t \<in> set new. \<exists>t0. born t0 \<and> tstep\<^sup>*\<^sup>* t0 t))"
      by (intro conjI exI [of _ a] exI [of _ "b @ new'"]) (auto intro: list_all2_rtranclp_trans)
  qed
qed

text \<open>Every row of a database that evolved from the empty one is a ticket in good order.\<close>

lemma evolve_wf:
  assumes "tickets_evolve d d'" "ticket_keys_ok d" "\<forall>t \<in> set (db_tickets d). ticket_wf t"
  shows "\<forall>t \<in> set (db_tickets d'). ticket_wf t"
proof
  fix t assume t: "t \<in> set (db_tickets d')"
  from assms(1,2) obtain old new where o: "db_tickets d' = old @ new"
    "list_all2 tstep\<^sup>*\<^sup>* (db_tickets d) old" "\<forall>t \<in> set new. \<exists>t0. born t0 \<and> tstep\<^sup>*\<^sup>* t0 t"
    by (auto simp: tickets_evolve_def)
  from t o(1) consider "t \<in> set old" | "t \<in> set new" by auto
  then show "ticket_wf t"
  proof cases
    case 1
    with o(2) obtain u where "u \<in> set (db_tickets d)" "tstep\<^sup>*\<^sup>* u t"
      by (metis in_set_conv_nth list_all2_conv_all_nth)
    with assms(3) show ?thesis by (auto intro: tsteps_wf)
  next
    case 2
    with o(3) show ?thesis by (meson born_wf tsteps_wf)
  qed
qed

section \<open>The operations keep the life cycle\<close>

text \<open>An update whose rows each move along the state machine.\<close>

lemma evolve_update:
  assumes "\<And>t. t \<in> set (db_tickets d) \<Longrightarrow> ticket_keys_ok d \<Longrightarrow> P t \<Longrightarrow> tstep t (g t)"
  shows "tickets_evolve d (d\<lparr>db_tickets := upd_where P g (db_tickets d)\<rparr>)"
  by (rule evolve_steps) (auto intro!: list_all2_upd_where assms)

lemma keeps_ticket_update:
  assumes "\<And>t n. P t \<Longrightarrow> tstep t ((f n t)\<lparr>tk_UpdatedAt := n\<rparr>)"
  shows "keeps tickets_evolve (exec_update tickets_tab P f)"
  by (rule life.keeps_update) (auto intro!: evolve_update assms)

lemma keeps_not_empty_or [keeps_rules]: "keeps tickets_evolve (not_empty_or m rs)"
  unfolding not_empty_or_def by (intro keeps_rules)

text \<open>Statements on other tables.\<close>

lemma life_any:
  assumes "\<And>rs d. db_tickets (t_put T rs d) = db_tickets d"
  shows "keeps tickets_evolve (exec_update T P f)" "keeps tickets_evolve (exec_insert T mk)"
    "keeps tickets_evolve (exec_insert_when T C mk)" "keeps tickets_evolve (exec_upsert T key mk g)"
    "keeps tickets_evolve (exec_delete T P)"
  by (intro life.keeps_any evolve_same assms)+

lemmas life_other [keeps_rules] =
  life_any [of plants_tab, simplified]
  life_any [of users_tab, simplified]
  life_any [of prices_tab, simplified]
  life_any [of shifts_tab, simplified]
  life_any [of cash_tab, simplified]
  life_any [of log_tab, simplified]
  life_any [of pumps_tab, simplified]
  life_any [of hours_tab, simplified]
  life_any [of reviews_tab, simplified]

lemma keeps_Log [keeps_rules]: "keeps tickets_evolve (Log q a act s d)"
  unfolding Log_def by (intro keeps_rules)

lemma keeps_purchase_attempts:
  assumes "pp_Paid p \<longleftrightarrow> paidAt \<noteq> None"
  shows "keeps tickets_evolve (purchase_attempts p reference paidAt n)"
proof (induction n)
  case 0
  show ?case by (auto intro: keeps_rules)
next
  case (Suc n)
  have "keeps tickets_evolve (exec_insert tickets_tab (purchase_row p reference code paidAt))" for code
    using assms
    by (intro life.keeps_insert) (auto simp: born_def purchase_row_def intro!: evolve_insert)
  with Suc show ?case
    by (auto simp: NewCode_def intro!: keeps_rules split: sum.splits)
qed

lemma keeps_Purchase [keeps_rules]: "keeps tickets_evolve (Purchase p)"
proof -
  have attempts: "keeps tickets_evolve (bind (if pp_Paid p then bind time_Now (\<lambda>now. ret (Some now)) else ret None)
     (\<lambda>paidAt. purchase_attempts p reference paidAt n))" for reference n
  proof (unfold keeps_def, intro allI)
    fix w
    show "tickets_evolve (w_db w) (w_db (snd (bind (if pp_Paid p then bind time_Now (\<lambda>now. ret (Some now))
        else ret None) (\<lambda>paidAt. purchase_attempts p reference paidAt n) w)))"
      using keeps_purchase_attempts [of p "Some (e_wall (w_env w) (w_tick w))" reference n]
        keeps_purchase_attempts [of p None reference n]
      by (cases "pp_Paid p") (auto simp: bind_def time_Now_def ret_def keeps_def dest: spec [of _ "w\<lparr>w_tick := Suc (w_tick w)\<rparr>"])
  qed
  show ?thesis
    unfolding Purchase_def NewReference_def randomHex_def
    by (rule life.keeps_bind) (intro keeps_rules, rule attempts)
qed

lemma keeps_create [keeps_rules]:
  "keeps tickets_evolve (CreatePending p)" "keeps tickets_evolve (CreatePaidCash p s h)"
  unfolding CreatePending_def CreatePaidCash_def by (intro keeps_rules)+

lemma keeps_Redeem [keeps_rules]: "keeps tickets_evolve (Redeem p c)"
  unfolding Redeem_def
  by (intro keeps_rules) (auto intro: keeps_rules split: ticket_status.splits)

lemma keeps_reads [keeps_rules]:
  "keeps tickets_evolve (ListByPhone p ph)" "keeps tickets_evolve (GetReceipt p ref ph)"
  "keeps tickets_evolve (ListDispensingForPump p i)" "keeps tickets_evolve (LookupPlantByReference ref)"
  unfolding ListByPhone_def GetReceipt_def ListDispensingForPump_def LookupPlantByReference_def
  by (intro keeps_rules)+

lemma keeps_StartDispensing [keeps_rules]: "keeps tickets_evolve (StartDispensing p t a)"
  unfolding StartDispensing_def
  by (intro keeps_rules keeps_ticket_update) (auto intro: tstep.start)

lemma keeps_CloseFilled [keeps_rules]:
  "keeps tickets_evolve (CloseFilled p t s a note)" "keeps tickets_evolve (BulkCloseFilled p i s a note)"
  unfolding CloseFilled_def BulkCloseFilled_def
  by (intro keeps_rules keeps_ticket_update, auto intro: tstep.close)+

lemma keeps_Fill [keeps_rules]: "keeps tickets_evolve (Fill p t s)"
  unfolding Fill_def
  by (intro keeps_rules keeps_ticket_update) (auto intro!: tstep.fill split: option.splits)

lemma keeps_Void [keeps_rules]: "keeps tickets_evolve (Void p t a r)"
  unfolding Void_def
  by (intro keeps_rules keeps_ticket_update) (auto intro: tstep.void)

lemma updated_tickets:
  "w_role w = AppRole (Some p) \<Longrightarrow>
   updated tickets_tab P f w = upd_where (\<lambda>t. tk_PlantID t = p \<and> P t)
     (\<lambda>t. (f (w_now w) t)\<lparr>tk_UpdatedAt := w_now w\<rparr>) (db_tickets (w_db w))"
  by (simp add: updated_def)

lemma seen_ticket: "first_row P (db_tickets (visible_db r d)) = Some t \<Longrightarrow> t \<in> set (db_tickets d) \<and> P t"
  by (auto simp: visible_db_def restrict_db_def dest!: first_row_SomeD)

lemma keeps_MarkPaid [keeps_rules]: "keeps tickets_evolve (MarkPaid p i)"
  unfolding MarkPaid_def
proof (rule life.keeps_bind_query_row)
  fix s :: ticket_status and w :: world
  let ?m = "\<lambda>s. case s of Paid \<Rightarrow> ret True | Dispensing \<Rightarrow> ret True | Filled \<Rightarrow> ret True
     | Pending \<Rightarrow> bind (exec_update tickets_tab (\<lambda>t. tk_ID t = i \<and> tk_PlantID t = p)
           (\<lambda>now t. t\<lparr>tk_Status := Paid, tk_PaidAt := Some now\<rparr>)) (\<lambda>_. ret True)
     | _ \<Rightarrow> ret False"
  assume "map_option tk_Status (first_row (\<lambda>t. tk_ID t = i \<and> tk_PlantID t = p)
    (db_tickets (visible_db (w_role w) (w_db w)))) = Some s"
  then obtain t where t: "t \<in> set (db_tickets (w_db w))" "tk_ID t = i" "tk_Status t = s"
    by (auto dest: seen_ticket)
  have "tickets_evolve (w_db w) (w_db (snd (exec_update tickets_tab (\<lambda>t. tk_ID t = i \<and> tk_PlantID t = p)
         (\<lambda>now t. t\<lparr>tk_Status := Paid, tk_PaidAt := Some now\<rparr>) w)))" if "s = Pending"
    using t that
    by (intro life.update_at)
      (auto simp: updated_def ticket_keys_ok_def dest: distinct_map_eqD intro!: evolve_update tstep.pay)
  then show "tickets_evolve (w_db w) (w_db (snd (?m s w)))"
    by (cases s) (auto simp: ret_def bind_def life.refl split: prod.splits sum.splits)
qed

lemma keeps_Confirm [keeps_rules]: "keeps tickets_evolve (Confirm p ref ph)"
  unfolding Confirm_def
proof (rule life.keeps_bind_attempt_query_row)
  fix a :: "ticket_status \<times> time option" and w :: world
  assume "map_option (\<lambda>t. (tk_Status t, tk_ConfirmedAt t)) (first_row
      (\<lambda>t. tk_PlantID t = p \<and> tk_Reference t = ref \<and> phoneMatchSQL t ph)
      (db_tickets (visible_db (w_role w) (w_db w)))) = Some a"
  then obtain t where t: "t \<in> set (db_tickets (w_db w))" "tk_PlantID t = p" "tk_Reference t = ref"
      "a = (tk_Status t, tk_ConfirmedAt t)"
    by (auto dest: seen_ticket)
  have "tickets_evolve (w_db w) (w_db (snd (exec_update tickets_tab
         (\<lambda>t. tk_PlantID t = p \<and> tk_Reference t = ref) (\<lambda>now t. t\<lparr>tk_ConfirmedAt := Some now\<rparr>) w)))"
    if "tk_Status t = Filled" "tk_ConfirmedAt t = None"
  proof (rule life.update_at, simp add: updated_def, rule evolve_update)
    fix u assume u: "u \<in> set (db_tickets (w_db w))" "ticket_keys_ok (w_db w)"
      "visible (w_role w) (Some (tk_PlantID u)) \<and> tk_PlantID u = p \<and> tk_Reference u = ref"
    then have "u = t"
      using t by (intro distinct_map_eqD [of "\<lambda>t. (tk_PlantID t, tk_Reference t)"])
        (auto simp: ticket_keys_ok_def)
    with that show "tstep u (u\<lparr>tk_ConfirmedAt := Some (w_now w), tk_UpdatedAt := w_now w\<rparr>)"
      by (auto intro: tstep.confirm)
  qed
  then show "tickets_evolve (w_db w) (w_db (snd ((case (Inr a :: go_err + _) of
      Inl e \<Rightarrow> fail (if errors_is e ErrNoRows then ErrTicketNotConfirmable else e)
    | Inr (status, confirmedAt) \<Rightarrow>
        if status \<noteq> Filled then fail ErrTicketNotConfirmable
        else if confirmedAt \<noteq> None then ret ()
        else bind (exec_update tickets_tab (\<lambda>t. tk_PlantID t = p \<and> tk_Reference t = ref)
               (\<lambda>now t. t\<lparr>tk_ConfirmedAt := Some now\<rparr>)) (\<lambda>_. ret ())) w)))"
    using t(4) by (auto simp: ret_def fail_def bind_def life.refl split: prod.splits sum.splits)
qed (auto intro: keeps_rules)

end
