(* ===== verification/Plants.thy ===== *)
theory Plants
  imports Prices Staff Uploads Payments
begin

text \<open>
  \<^verbatim>\<open>internal/plants/plants.go\<close>: the validation of an application, the one transaction that
  creates a plant with its owner and its first price, founding ranks, and the changes of status
  and settlement. These run on the administrator's pool. An advisory lock is a statement
  without an effect on rows; what it excludes is another transaction between the statements of
  this one, which the model does not interleave.
\<close>

definition plants_ErrMissingField :: go_err where
  "plants_ErrMissingField = Sentinel ''plants: plant name, slug, business details, bank details, owner details, and starting price are all required''"
definition plants_ErrInvalidSlug :: go_err where
  "plants_ErrInvalidSlug = Sentinel (''plants: slug must be lowercase letters, numbers, and hyphens only, and can'' @ [CHR 0x27] @ ''t start or end with a hyphen'')"
definition ErrReservedSlug :: go_err where
  "ErrReservedSlug = Sentinel (''plants: that slug is reserved and can'' @ [CHR 0x27] @ ''t be used'')"
definition ErrSlugTaken :: go_err where
  "ErrSlugTaken = Sentinel ''plants: that slug is already in use''"
definition plants_ErrInvalidPrice :: go_err where
  "plants_ErrInvalidPrice = Sentinel ''plants: starting price per kg must be greater than zero''"
definition plants_ErrInvalidEmail :: go_err where
  "plants_ErrInvalidEmail = Sentinel ''plants: owner email is not a valid email address''"
definition plants_ErrNotFound :: go_err where
  "plants_ErrNotFound = Sentinel ''plants: not found''"
definition ErrInvalidStatus :: go_err where
  "ErrInvalidStatus = Sentinel ''plants: status must be provisioning, active, suspended, or closed''"

lemmas plants_error_defs = plants_ErrMissingField_def plants_ErrInvalidSlug_def ErrReservedSlug_def
  ErrSlugTaken_def plants_ErrInvalidPrice_def plants_ErrInvalidEmail_def plants_ErrNotFound_def
  ErrInvalidStatus_def

section \<open>Validation\<close>

text \<open>The pattern \<^verbatim>\<open>^[^\s@]+@[^\s@]+\.[^\s@]+$\<close>; the class \<^verbatim>\<open>\s\<close> is ASCII.\<close>

definition email_char :: "char \<Rightarrow> bool" where
  "email_char c \<longleftrightarrow> c \<notin> {CHR 0x09, CHR 0x0A, CHR 0x0C, CHR 0x0D, CHR '' '', CHR ''@''}"

definition validEmail :: "string \<Rightarrow> bool" where
  "validEmail value =
     (case before_char (CHR ''@'') value of
        None \<Rightarrow> False
      | Some local \<Rightarrow>
          let domain = drop (length local + 1) value in
          local \<noteq> [] \<and> list_all email_char local \<and> list_all email_char domain \<and>
          CHR ''.'' \<in> set (butlast (tl domain)))"

definition NigerianStates :: "string list" where
  "NigerianStates =
     [''Abia'', ''Adamawa'', ''Akwa Ibom'', ''Anambra'', ''Bauchi'', ''Bayelsa'', ''Benue'',
      ''Borno'', ''Cross River'', ''Delta'', ''Ebonyi'', ''Edo'', ''Ekiti'', ''Enugu'',
      ''Gombe'', ''Imo'', ''Jigawa'', ''Kaduna'', ''Kano'', ''Katsina'', ''Kebbi'', ''Kogi'',
      ''Kwara'', ''Lagos'', ''Nasarawa'', ''Niger'', ''Ogun'', ''Ondo'', ''Osun'', ''Oyo'',
      ''Plateau'', ''Rivers'', ''Sokoto'', ''Taraba'', ''Yobe'', ''Zamfara'',
      ''FCT (Abuja)'']"

definition hex_color_char :: "char \<Rightarrow> bool" where
  "hex_color_char c \<longleftrightarrow> is_digit c \<or> is_hex_letter c"

definition validHexColor :: "string \<Rightarrow> bool" where
  "validHexColor value \<longleftrightarrow> (length value = 4 \<or> length value = 7) \<and> HasPrefix value ''#'' \<and>
     list_all hex_color_char (tl value)"

definition validHexColorOr :: "string \<Rightarrow> string \<Rightarrow> string" where
  "validHexColorOr value fallback =
     (if validHexColor (TrimSpace value) then TrimSpace value else fallback)"

definition validStatuses :: "string \<Rightarrow> bool" where
  "validStatuses s \<longleftrightarrow> s = ''provisioning'' \<or> s = ''active'' \<or> s = ''suspended'' \<or> s = ''closed''"

record PlantParams =
  qp_Name :: string
  qp_Slug :: string
  qp_City :: string
  qp_Phone :: string
  qp_Address :: string
  qp_State :: string
  qp_PrimaryColor :: string
  qp_ButtonColor :: string
  qp_SecondaryColor :: string
  qp_ButtonTextColor :: string
  qp_LogoPath :: string
  qp_LegalBusinessName :: string
  qp_CACNumber :: string
  qp_NMDPRALicenseNumber :: string
  qp_BankCode :: string
  qp_BankName :: string
  qp_BankAccountNumber :: string
  qp_BankAccountName :: string
  qp_PaystackSubaccountCode :: string
  qp_DeferSettlement :: bool
  qp_ClaimFoundingSpot :: bool
  qp_OwnerName :: string
  qp_OwnerPhone :: string
  qp_OwnerEmail :: string
  qp_OwnerPassword :: string
  qp_StartingPriceKobo :: int
  qp_TermsAcceptedAt :: "time option"   \<comment> \<open>\<open>None\<close> for the zero time\<close>
  qp_Status :: string

record validated =
  vd_name :: string
  vd_slug :: string
  vd_state :: string
  vd_legalBusinessName :: string
  vd_cacNumber :: string
  vd_nmdpraLicenseNumber :: string
  vd_bankCode :: string
  vd_bankAccountNumber :: string
  vd_ownerName :: string
  vd_ownerPhone :: string
  vd_ownerEmail :: string
  vd_status :: string
  vd_primaryColor :: string
  vd_buttonColor :: string
  vd_secondaryColor :: string
  vd_buttonTextColor :: string

definition normalized :: "PlantParams \<Rightarrow> validated" where
  "normalized p =
     \<lparr>vd_name = TrimSpace (qp_Name p), vd_slug = ToLower (TrimSpace (qp_Slug p)),
      vd_state = TrimSpace (qp_State p), vd_legalBusinessName = TrimSpace (qp_LegalBusinessName p),
      vd_cacNumber = TrimSpace (qp_CACNumber p),
      vd_nmdpraLicenseNumber = TrimSpace (qp_NMDPRALicenseNumber p),
      vd_bankCode = TrimSpace (qp_BankCode p), vd_bankAccountNumber = TrimSpace (qp_BankAccountNumber p),
      vd_ownerName = TrimSpace (qp_OwnerName p), vd_ownerPhone = TrimSpace (qp_OwnerPhone p),
      vd_ownerEmail = TrimSpace (qp_OwnerEmail p),
      vd_status = (if TrimSpace (qp_Status p) = '''' then ''active'' else TrimSpace (qp_Status p)),
      vd_primaryColor = validHexColorOr (qp_PrimaryColor p) ''#006B4D'',
      vd_buttonColor = validHexColorOr (qp_ButtonColor p) ''#006B4D'',
      vd_secondaryColor = validHexColorOr (qp_SecondaryColor p) ''#10B981'',
      vd_buttonTextColor = validHexColorOr (qp_ButtonTextColor p) ''#F8FAFC''\<rparr>"

definition required_missing :: "validated \<Rightarrow> PlantParams \<Rightarrow> bool" where
  "required_missing v p \<longleftrightarrow>
     vd_name v = '''' \<or> vd_slug v = '''' \<or> vd_state v = '''' \<or> vd_legalBusinessName v = '''' \<or>
     vd_cacNumber v = '''' \<or> vd_nmdpraLicenseNumber v = '''' \<or> vd_bankCode v = '''' \<or>
     vd_bankAccountNumber v = '''' \<or> vd_ownerName v = '''' \<or> vd_ownerPhone v = '''' \<or>
     vd_ownerEmail v = '''' \<or> qp_OwnerPassword p = '''' \<or> qp_StartingPriceKobo p = 0"

definition validate :: "PlantParams \<Rightarrow> go_err + validated" where
  "validate p =
     (let v = normalized p in
      if required_missing v p then Inl plants_ErrMissingField
      else if vd_state v \<notin> set NigerianStates then Inl plants_ErrMissingField
      else if \<not> slugPattern (vd_slug v) then Inl plants_ErrInvalidSlug
      else if \<not> validEmail (vd_ownerEmail v) then Inl plants_ErrInvalidEmail
      else if qp_StartingPriceKobo p \<le> 0 then Inl plants_ErrInvalidPrice
      else if \<not> validStatuses (vd_status v) then Inl ErrInvalidStatus
      else Inr v)"

definition ValidateParams :: "PlantParams \<Rightarrow> go_err option" where
  "ValidateParams p = (case validate p of Inl e \<Rightarrow> Some e | Inr _ \<Rightarrow> None)"

section \<open>Creation\<close>

definition FoundingSpots :: int where "FoundingSpots = 50"

definition plants_nullIfEmpty :: "string \<Rightarrow> string option" where
  "plants_nullIfEmpty s = (if TrimSpace s = '''' then None else Some (TrimSpace s))"

definition new_plant :: "PlantParams \<Rightarrow> validated \<Rightarrow> int option \<Rightarrow> time \<Rightarrow> uuid \<Rightarrow> plant_row" where
  "new_plant p v rank now i =
     \<lparr>pl_ID = i, pl_Slug = vd_slug v, pl_Name = vd_name v, pl_City = plants_nullIfEmpty (qp_City p),
      pl_Address = plants_nullIfEmpty (qp_Address p), pl_Phone = plants_nullIfEmpty (qp_Phone p),
      pl_LogoPath = plants_nullIfEmpty (qp_LogoPath p), pl_CustomDomain = None, pl_DomainStatus = ''none'',
      pl_Status = vd_status v, pl_Timezone = ''Africa/Lagos'', pl_PrimaryColor = vd_primaryColor v,
      pl_SecondaryColor = vd_secondaryColor v, pl_ButtonColor = vd_buttonColor v,
      pl_ButtonTextColor = vd_buttonTextColor v, pl_FontFamily = ''Inter, sans-serif'',
      pl_TermiiSenderID = None,
      pl_PaystackSubaccountCode = plants_nullIfEmpty (qp_PaystackSubaccountCode p),
      pl_CreatedAt = now, pl_UpdatedAt = now, pl_LegalBusinessName = Some (vd_legalBusinessName v),
      pl_CACNumber = Some (vd_cacNumber v), pl_State = Some (vd_state v),
      pl_NMDPRALicenseNumber = Some (vd_nmdpraLicenseNumber v), pl_BankCode = Some (vd_bankCode v),
      pl_BankName = plants_nullIfEmpty (qp_BankName p), pl_BankAccountNumber = Some (vd_bankAccountNumber v),
      pl_BankAccountName = plants_nullIfEmpty (qp_BankAccountName p), pl_FoundingRank = rank\<rparr>"

definition new_owner :: "uuid \<Rightarrow> validated \<Rightarrow> string \<Rightarrow> time \<Rightarrow> uuid \<Rightarrow> user_row" where
  "new_owner plantID v passwordHash now i =
     \<lparr>us_ID = i, us_PlantID = plantID, us_Name = vd_ownerName v, us_Phone = vd_ownerPhone v, us_Role = ''owner'',
      us_PinHash = None, us_PasswordHash = Some passwordHash, us_Active = True, us_CanEditPrice = False,
      us_CanManageStaff = False, us_CanManagePumps = False, us_CreatedAt = now, us_UpdatedAt = now,
      us_Email = Some (vd_ownerEmail v)\<rparr>"

definition advisory_lock :: "unit act" where
  "advisory_lock = exec_stmt (\<lambda>w. Inr ((), w_db w))"

definition claimed_ranks :: "db \<Rightarrow> int" where
  "claimed_ranks d = foldl max 0 (List.map_filter pl_FoundingRank (db_plants d))"

definition founding_rank :: "bool \<Rightarrow> int option act" where
  "founding_rank claim =
     (if \<not> claim then ret None
      else
        bind advisory_lock (\<lambda>_.
        bind (query claimed_ranks) (\<lambda>claimed.
        ret (if claimed < FoundingSpots then Some (claimed + 1) else None))))"

definition create_tx :: "PlantParams \<Rightarrow> validated \<Rightarrow> string \<Rightarrow> uuid option \<Rightarrow> (uuid \<times> string) act" where
  "create_tx p v passwordHash actorID =
     bind (query (\<lambda>d. vd_slug v \<in> set (db_reserved d))) (\<lambda>reserved.
     if reserved then fail ErrReservedSlug
     else
       bind (founding_rank (qp_ClaimFoundingSpot p)) (\<lambda>rank.
       bind (attempt (exec_insert plants_tab (new_plant p v rank))) (\<lambda>inserted.
       case inserted of
         Inl e \<Rightarrow> fail (if isUniqueViolation e then ErrSlugTaken else e)
       | Inr plant \<Rightarrow>
         let plantID = pl_ID plant in
         bind (exec_insert users_tab (new_owner plantID v passwordHash)) (\<lambda>_.
         bind (exec_insert prices_tab (\<lambda>now i. \<lparr>pr_ID = i, pr_PlantID = plantID,
             pr_PricePerKg = qp_StartingPriceKobo p, pr_EffectiveFrom = now, pr_SetBy = None, pr_CreatedAt = now\<rparr>)) (\<lambda>_.
         bind (Log (Some plantID) actorID ''plant.created'' (vd_slug v)
           (case qp_TermsAcceptedAt p of None \<Rightarrow> [] | Some t \<Rightarrow> [(''terms_accepted_at'', DTime t)])) (\<lambda>_.
         ret (plantID, vd_slug v)))))))"

definition plants_Create :: "bcrypt \<Rightarrow> PlantParams \<Rightarrow> uuid option \<Rightarrow> (uuid \<times> string) act" where
  "plants_Create bc p actorID =
     (case validate p of
        Inl e \<Rightarrow> fail e
      | Inr v \<Rightarrow>
        if \<not> qp_DeferSettlement p \<and> (TrimSpace (qp_BankName p) = '''' \<or> TrimSpace (qp_BankAccountName p) = '''' \<or>
             TrimSpace (qp_PaystackSubaccountCode p) = '''')
        then fail plants_ErrMissingField
        else
          bind (HashPassword bc (qp_OwnerPassword p)) (\<lambda>passwordHash.
          with_admin_tx (create_tx p v passwordHash actorID)))"

section \<open>Status and settlement\<close>

definition setStatus_tx :: "uuid \<Rightarrow> string \<Rightarrow> uuid \<Rightarrow> unit act" where
  "setStatus_tx plantID status actorID =
     bind (exec_update plants_tab (\<lambda>p. pl_ID p = plantID) (\<lambda>now p. p\<lparr>pl_Status := status\<rparr>)) (\<lambda>rs.
     if rs = [] then fail plants_ErrNotFound
     else Log (Some plantID) (Some actorID) ''plant.status_changed'' status [])"

definition plants_SetStatus :: "uuid \<Rightarrow> string \<Rightarrow> uuid \<Rightarrow> unit act" where
  "plants_SetStatus plantID status actorID =
     (if \<not> validStatuses status then fail ErrInvalidStatus
      else with_admin_tx (setStatus_tx plantID status actorID))"

definition settlement_tx :: "uuid \<Rightarrow> string \<Rightarrow> string \<Rightarrow> uuid \<Rightarrow> unit act" where
  "settlement_tx plantID bankAccountName subaccountCode actorID =
     bind (exec_update plants_tab (\<lambda>p. pl_ID p = plantID)
       (\<lambda>now p. p\<lparr>pl_BankAccountName := Some bankAccountName, pl_PaystackSubaccountCode := Some subaccountCode\<rparr>)) (\<lambda>rs.
     if rs = [] then fail plants_ErrNotFound
     else Log (Some plantID) (Some actorID) ''plant.settlement_set'' subaccountCode [])"

definition SetSettlement :: "uuid \<Rightarrow> string \<Rightarrow> string \<Rightarrow> uuid \<Rightarrow> unit act" where
  "SetSettlement plantID bankAccountName subaccountCode actorID =
     with_admin_tx (settlement_tx plantID bankAccountName subaccountCode actorID)"

definition FoundingSpotsClaimed :: "nat act" where
  "FoundingSpotsClaimed = on_admin_pool (query (\<lambda>d. count_where (\<lambda>p. pl_FoundingRank p \<noteq> None) (db_plants d)))"

end
