(* ===== verification/Buyers.thy ===== *)
theory Buyers
  imports Plants Tickets
begin

text \<open>
  \<^verbatim>\<open>internal/buyers/buyers.go\<close>: the waiting list of gas buyers and its fifty offer spots. The
  table belongs to no tenant and only the administrator's role may use it. \<^verbatim>\<open>mail.ParseAddress\<close>
  is a parameter.
\<close>

definition buyers_viol :: "db \<Rightarrow> string option" where
  "buyers_viol d = first_violation
     [(\<not> distinct (map by_ID (db_buyers d)), ''23505''),
      (\<not> distinct (map by_PhoneKey (db_buyers d)), ''23505'')]"

definition buyers_tab :: "buyer_row tab" where
  "buyers_tab = \<lparr>t_rows = db_buyers, t_put = (\<lambda>rs d. d\<lparr>db_buyers := rs\<rparr>),
     t_plant = (\<lambda>r. None), t_viol = buyers_viol, t_touch = (\<lambda>_ r. r)\<rparr>"

definition OfferSpots :: int where "OfferSpots = 50"

definition buyers_ErrMissingField :: go_err where
  "buyers_ErrMissingField = Sentinel ''buyers: missing field''"
definition buyers_ErrInvalidPhone :: go_err where
  "buyers_ErrInvalidPhone = Sentinel ''buyers: invalid phone''"
definition buyers_ErrInvalidEmail :: go_err where
  "buyers_ErrInvalidEmail = Sentinel ''buyers: invalid email''"
definition buyers_ErrInvalidState :: go_err where
  "buyers_ErrInvalidState = Sentinel ''buyers: invalid state''"

record SignupParams =
  sp_Name :: string
  sp_Phone :: string
  sp_Email :: string
  sp_State :: string
  sp_Source :: string

record SignupResult =
  sr_Created :: bool
  sr_OfferRank :: int

definition offers_claimed :: "db \<Rightarrow> nat" where
  "offers_claimed d = count_where (\<lambda>b. by_OfferRank b \<noteq> None) (db_buyers d)"

definition new_buyer ::
  "string \<Rightarrow> string \<Rightarrow> string \<Rightarrow> string \<Rightarrow> string \<Rightarrow> int option \<Rightarrow> time \<Rightarrow> uuid \<Rightarrow> buyer_row" where
  "new_buyer name key email state source rank now i =
     (let nullif = (\<lambda>s. if s = '''' then None else Some s) in
      \<lparr>by_ID = i, by_Name = name, by_Phone = ''0'' @ key, by_PhoneKey = key, by_Email = nullif email,
       by_State = state, by_Source = nullif source, by_OfferRank = rank,
       by_CreatedAt = now\<rparr>)"

text \<open>A number that is already on the list ends the transaction with a rollback.\<close>

definition already_on_list :: go_err where
  "already_on_list = Sentinel ''already on the list''"

definition signup_tx :: "string \<Rightarrow> string \<Rightarrow> string \<Rightarrow> string \<Rightarrow> string \<Rightarrow> SignupResult act" where
  "signup_tx name key email state source =
     bind advisory_lock (\<lambda>_.
     bind (attempt (query_row (\<lambda>d. first_row (\<lambda>b. by_PhoneKey b = key) (db_buyers d)))) (\<lambda>existing.
     case existing of
       Inr _ \<Rightarrow> fail already_on_list
     | Inl e \<Rightarrow>
       if \<not> errors_is e ErrNoRows then fail e
       else
         bind (query offers_claimed) (\<lambda>claimed.
         let rank = (if int claimed < OfferSpots then Some (int claimed + 1) else None) in
         bind (exec_insert buyers_tab (new_buyer name key email state source rank)) (\<lambda>_.
         ret \<lparr>sr_Created = True, sr_OfferRank = (case rank of None \<Rightarrow> 0 | Some r \<Rightarrow> r)\<rparr>))))"

definition Signup :: "(string \<Rightarrow> bool) \<Rightarrow> SignupParams \<Rightarrow> SignupResult act" where
  "Signup ParseAddress p =
     (let name = TrimSpace (sp_Name p); key = NormalizePhone (sp_Phone p); email = TrimSpace (sp_Email p);
          state = TrimSpace (sp_State p); source = take 40 (TrimSpace (sp_Source p))
      in if name = '''' \<or> 120 < length name then fail buyers_ErrMissingField
         else if length key \<noteq> 10 then fail buyers_ErrInvalidPhone
         else if email \<noteq> '''' \<and> (\<not> ParseAddress email \<or> 200 < length email) then fail buyers_ErrInvalidEmail
         else if state \<notin> set NigerianStates then fail buyers_ErrInvalidState
         else
           bind (attempt (with_admin_tx (signup_tx name key email state source))) (\<lambda>res.
           case res of
             Inr result \<Rightarrow> ret result
           | Inl e \<Rightarrow> if e = already_on_list then ret \<lparr>sr_Created = False, sr_OfferRank = 0\<rparr> else fail e))"

definition SpotsClaimed :: "nat act" where
  "SpotsClaimed = on_admin_pool (query offers_claimed)"

end
