(* ===== verification/ServerAdmin.thy ===== *)
theory ServerAdmin
  imports ServerOwner Buyers
begin

text \<open>
  The platform administrator's side: login and logout (\<^verbatim>\<open>cmd/server/auth.go\<close>), provisioning a
  plant, its status, its settlement account and its SMS sender (\<^verbatim>\<open>cmd/server/admin_write.go\<close>).
  All of it runs on the pool that bypasses row-level security. The text of an error
  (\<^verbatim>\<open>err.Error()\<close>), which one redirect carries, is a parameter.
\<close>

section \<open>Login\<close>

definition renderAdminLoginError :: "'s server \<Rightarrow> http_request \<Rightarrow> string \<Rightarrow> ('s, response) hact" where
  "renderAdminLoginError sv r message =
     bind (EnsurePublicCSRFCookie sv r) (\<lambda>(csrfToken, cookies).
     ret (with_cookies cookies (plain (Page 401 ''AdminLogin'' [(''error'', JStr message), (''csrf'', JStr csrfToken)]))))"

text \<open>The rows are looked at one by one; the first that is active and verifies is taken.\<close>

definition admin_candidates :: "string \<Rightarrow> user_row list act" where
  "admin_candidates phone =
     query (\<lambda>d. take 5 (filter (\<lambda>u. us_Phone u = phone \<and> us_Role u = ''admin'') (db_users d)))"

definition admin_match :: "bcrypt \<Rightarrow> string \<Rightarrow> user_row list \<Rightarrow> user_row option" where
  "admin_match bc password us =
     first_row (\<lambda>u. us_Active u \<and> VerifyPassword bc (case us_PasswordHash u of None \<Rightarrow> '''' | Some h \<Rightarrow> h) password) us"

definition admin_session :: "env \<Rightarrow> user_row \<Rightarrow> Data" where
  "admin_session v u =
     \<lparr>sd_UserID = e_uuid_str v (us_ID u), sd_Role = RoleAdmin, sd_Name = us_Name u, sd_PlantID = '''',
      sd_ShiftID = '''', sd_PumpID = '''', sd_Phone = '''', sd_CanEditPrice = False,
      sd_CanManageStaff = False, sd_CanManagePumps = False, sd_CreatedAt = 0\<rparr>"

definition adminLoginSubmitHandler :: "'s server \<Rightarrow> 's handler" where
  "adminLoginSubmitHandler sv r =
     (let wrong = renderAdminLoginError sv r in
      if \<not> hr_form_ok r then wrong ''Could not read that submission. Try again.''
      else
        bind (rate_limited sv ''admin_login_rl:'' r loginRateLimitMax loginRateLimitWindow) (\<lambda>limited.
        if limited then wrong ''Too many attempts. Please wait a few minutes and try again.''
        else
          let phone = form r ''phone''; password = hr_FormValue r ''password'' in
          if phone = '''' \<or> password = '''' then wrong ''Enter your phone number and password.''
          else
            bind (attempt (db_act (on_admin_pool (admin_candidates phone)))) (\<lambda>res.
            case res of
              Inl e \<Rightarrow> wrong ''Something went wrong. Try again.''
            | Inr users \<Rightarrow>
              case admin_match (sv_bcrypt sv) password users of
                None \<Rightarrow> wrong ''Incorrect phone number or password.''
              | Some u \<Rightarrow>
                bind (db_act ask_env) (\<lambda>v.
                bind (attempt (session_Create (sv_Redis sv) (sv_codec sv) (admin_session v u) OwnerTTL)) (\<lambda>created.
                case created of
                  Inl e \<Rightarrow> wrong ''Something went wrong. Try again.''
                | Inr token \<Rightarrow> ret (with_cookies (WriteCookie (sv_APP_ENV sv) CookieAdmin token OwnerTTL) (redirect ''/admin'')))))))"

definition adminLogoutHandler :: "'s server \<Rightarrow> 's handler" where
  "adminLogoutHandler sv r = logout_cookie sv r CookieAdmin ''/admin/login''"

section \<open>Provisioning\<close>

text \<open>The two wrapper types of errors, told apart by their text as \<^verbatim>\<open>errors.As\<close> tells them by type.\<close>

definition bankVerificationError :: "go_err \<Rightarrow> go_err" where
  "bankVerificationError e = Wrap ''provision plant: bank verification failed'' e"

definition logoUploadError :: "go_err \<Rightarrow> go_err" where
  "logoUploadError e = Wrap ''provision plant: logo upload failed'' e"

fun errors_as :: "(go_err \<Rightarrow> go_err) \<Rightarrow> go_err \<Rightarrow> bool" where
  "errors_as T (Wrap m e) = (T e = Wrap m e \<or> errors_as T e)"
| "errors_as T e = False"

text \<open>A failing step of the provider wraps its error.\<close>

definition bank_step :: "'a act \<Rightarrow> 'a act" where
  "bank_step m = bind (attempt m) (\<lambda>r. case r of Inl e \<Rightarrow> fail (bankVerificationError e) | Inr a \<Rightarrow> ret a)"

definition provision_logo :: "(string \<Rightarrow> string) \<Rightarrow> PlantParams \<Rightarrow> logo \<Rightarrow> PlantParams act" where
  "provision_logo detect params logo =
     (case logo of
        None \<Rightarrow> ret params
      | Some (content, declared) \<Rightarrow>
          bind (attempt (SaveLogo detect (ToLower (TrimSpace (qp_Slug params))) content (Some declared))) (\<lambda>saved.
          case saved of
            Inl e \<Rightarrow> fail (logoUploadError e)
          | Inr path \<Rightarrow> ret (params\<lparr>qp_LogoPath := path\<rparr>)))"

definition provisionPlant ::
  "'s server \<Rightarrow> (string \<Rightarrow> string) \<Rightarrow> PlantParams \<Rightarrow> logo \<Rightarrow> uuid option \<Rightarrow> (uuid \<times> string) act" where
  "provisionPlant sv detect params0 logo actorID =
     (case ValidateParams params0 of
        Some e \<Rightarrow> fail e
      | None \<Rightarrow>
        bind (provision_logo detect params0 logo) (\<lambda>params.
        let bankCode = TrimSpace (qp_BankCode params); accountNumber = TrimSpace (qp_BankAccountNumber params) in
        if qp_DeferSettlement params
        then
          bind (BankName (sv_Paystack sv) bankCode) (\<lambda>bankName.
          plants_Create (sv_bcrypt sv) (params\<lparr>qp_BankName := bankName\<rparr>) actorID)
        else
          bind (bank_step (ResolveAccount (sv_Paystack sv) accountNumber bankCode)) (\<lambda>accountName.
          bind (bank_step (CreateSubaccount (sv_Paystack sv)
            \<lparr>cs_BusinessName = TrimSpace (qp_LegalBusinessName params), cs_SettlementBank = bankCode,
             cs_AccountNumber = accountNumber, cs_PercentageCharge = PlantSettlementPercentage\<rparr>)) (\<lambda>subaccount.
          bind (BankName (sv_Paystack sv) bankCode) (\<lambda>bankName.
          plants_Create (sv_bcrypt sv)
            (params\<lparr>qp_BankName := bankName, qp_BankAccountName := accountName,
                    qp_PaystackSubaccountCode := subaccount\<rparr>) actorID)))))"

definition adminPlantErrorCode :: "go_err \<Rightarrow> string" where
  "adminPlantErrorCode err =
     (if errors_as bankVerificationError err then ''bank''
      else if errors_as logoUploadError err then ''logo''
      else if errors_is err plants_ErrMissingField then ''missing''
      else if errors_is err plants_ErrInvalidSlug then ''slug''
      else if errors_is err ErrReservedSlug then ''reserved-slug''
      else if errors_is err ErrSlugTaken then ''slug-taken''
      else if errors_is err plants_ErrInvalidPrice then ''price''
      else if errors_is err plants_ErrInvalidEmail then ''email''
      else ''plant'')"

text \<open>
  The fields that both application forms read; the price is dropped when it does not parse, and
  everything else has the zero value.
\<close>

definition plant_form :: "http_request \<Rightarrow> PlantParams" where
  "plant_form r =
     \<lparr>qp_Name = hr_FormValue r ''name'', qp_Slug = hr_FormValue r ''slug'', qp_City = hr_FormValue r ''city'',
      qp_Phone = hr_FormValue r ''phone'', qp_Address = hr_FormValue r ''address'', qp_State = hr_FormValue r ''state'',
      qp_PrimaryColor = hr_FormValue r ''primary_color'', qp_ButtonColor = hr_FormValue r ''button_color'',
      qp_SecondaryColor = hr_FormValue r ''secondary_color'', qp_ButtonTextColor = hr_FormValue r ''button_text_color'',
      qp_LogoPath = '''', qp_LegalBusinessName = hr_FormValue r ''legal_business_name'',
      qp_CACNumber = hr_FormValue r ''cac_number'', qp_NMDPRALicenseNumber = hr_FormValue r ''nmdpra_license_number'',
      qp_BankCode = hr_FormValue r ''bank_code'', qp_BankName = '''',
      qp_BankAccountNumber = hr_FormValue r ''bank_account_number'', qp_BankAccountName = '''',
      qp_PaystackSubaccountCode = '''', qp_DeferSettlement = False, qp_ClaimFoundingSpot = False,
      qp_OwnerName = hr_FormValue r ''owner_name'', qp_OwnerPhone = hr_FormValue r ''owner_phone'',
      qp_OwnerEmail = hr_FormValue r ''owner_email'', qp_OwnerPassword = hr_FormValue r ''owner_password'',
      qp_StartingPriceKobo = (case ParseFloat (form r ''starting_price'') of None \<Rightarrow> 0 | Some p \<Rightarrow> kobo_of p),
      qp_TermsAcceptedAt = None, qp_Status = ''''\<rparr>"

definition adminCreatePlantHandler :: "'s server \<Rightarrow> (string \<Rightarrow> string) \<Rightarrow> logo \<Rightarrow> Actor option \<Rightarrow> 's handler" where
  "adminCreatePlantHandler sv detect logo actor0 r =
     (case actor0 of None \<Rightarrow> ret (http_error 404 ''Not found'') | Some actor \<Rightarrow>
      if \<not> hr_form_ok r then ret (redirect ''/admin?error=form#onboarding'')
      else
        bind (attempt (db_act (provisionPlant sv detect (plant_form r) logo (Some (ac_UserID actor))))) (\<lambda>res.
        ret (redirect (case res of
            Inl e \<Rightarrow> ''/admin?error='' @ adminPlantErrorCode e @ ''#onboarding''
          | Inr _ \<Rightarrow> ''/admin#plants''))))"

section \<open>Status\<close>

definition loadPlantApprovalNotification :: "uuid \<Rightarrow> plantApprovalNotification act" where
  "loadPlantApprovalNotification plantID =
     on_admin_pool (query_row (\<lambda>d.
       map_option (\<lambda>p.
         let owner = first_by us_CreatedAt (filter (\<lambda>u. us_PlantID u = pl_ID p \<and> us_Role u = ''owner'') (db_users d));
             coalesce = (\<lambda>x. case x of None \<Rightarrow> '''' | Some s \<Rightarrow> s)
         in \<lparr>an_PlantName = pl_Name p, an_Slug = pl_Slug p, an_PreviousStatus = pl_Status p,
             an_OwnerName = (case owner of None \<Rightarrow> '''' | Some u \<Rightarrow> us_Name u),
             an_OwnerPhone = (case owner of None \<Rightarrow> '''' | Some u \<Rightarrow> us_Phone u),
             an_OwnerEmail = (case owner of None \<Rightarrow> '''' | Some u \<Rightarrow> coalesce (us_Email u)),
             an_TermiiSenderID = coalesce (pl_TermiiSenderID p)\<rparr>)
         (first_row (\<lambda>p. pl_ID p = plantID) (db_plants d))))"

text \<open>The subaccount's code, empty when there is none or it cannot be read.\<close>

definition subaccount_code :: "uuid \<Rightarrow> string act" where
  "subaccount_code plantID =
     bind (attempt (on_admin_pool (query_row (\<lambda>d. map_option
       (\<lambda>p. case pl_PaystackSubaccountCode p of None \<Rightarrow> '''' | Some c \<Rightarrow> c)
       (first_row (\<lambda>p. pl_ID p = plantID) (db_plants d)))))) (\<lambda>r.
     ret (case r of Inl e \<Rightarrow> '''' | Inr c \<Rightarrow> c))"

definition adminPlantStatusHandler :: "'s server \<Rightarrow> Actor option \<Rightarrow> 's handler" where
  "adminPlantStatusHandler sv actor0 r =
     (case actor0 of None \<Rightarrow> ret (http_error 404 ''Not found'') | Some actor \<Rightarrow>
      if \<not> hr_form_ok r then ret (redirect ''/admin?error=form#plants'')
      else
        bind (db_act ask_env) (\<lambda>v.
        case e_uuid_parse v (hr_URLParam r ''id'') of
          None \<Rightarrow> ret (redirect ''/admin?error=status#plants'')
        | Some plantID \<Rightarrow>
          let status = hr_FormValue r ''status'' in
          bind (if status = ''active'' then bind (db_act (subaccount_code plantID)) (\<lambda>code. ret (code = ''''))
                else ret False) (\<lambda>unsettled.
          if unsettled then ret (redirect (''/admin/plants/'' @ e_uuid_str v plantID @ ''?notice=no-subaccount''))
          else
            bind (attempt (db_act (loadPlantApprovalNotification plantID))) (\<lambda>notice.
            bind (attempt (db_act (plants_SetStatus plantID status (ac_UserID actor)))) (\<lambda>res.
            case res of
              Inl e \<Rightarrow> ret (redirect ''/admin?error=status#plants'')
            | Inr _ \<Rightarrow>
                let messages = (case notice of
                    Inl e \<Rightarrow> []
                  | Inr n \<Rightarrow> if shouldNotifyPlantApproved (an_PreviousStatus n) status
                            then notifyPlantApproved (sv_ParseURL sv) (sv_AppBaseURL sv) n else [])
                in ret (sending messages (redirect ''/admin#plants'')))))))"

section \<open>Settlement\<close>

definition settlement_details :: "uuid \<Rightarrow> (string \<times> string \<times> string) act" where
  "settlement_details plantID =
     on_admin_pool (query_row (\<lambda>d. map_option
       (\<lambda>p. let coalesce = (\<lambda>x. case x of None \<Rightarrow> '''' | Some s \<Rightarrow> s)
            in (coalesce (pl_BankCode p), coalesce (pl_BankAccountNumber p), coalesce (pl_LegalBusinessName p)))
       (first_row (\<lambda>p. pl_ID p = plantID) (db_plants d))))"

definition adminPlantSubaccountHandler :: "'s server \<Rightarrow> (go_err \<Rightarrow> string) \<Rightarrow> Actor option \<Rightarrow> 's handler" where
  "adminPlantSubaccountHandler sv err_text actor0 r =
     (case actor0 of None \<Rightarrow> ret (http_error 404 ''Not found'') | Some actor \<Rightarrow>
      bind (db_act ask_env) (\<lambda>v.
      case e_uuid_parse v (hr_URLParam r ''id'') of
        None \<Rightarrow> ret (redirect ''/admin?error=form#plants'')
      | Some plantID \<Rightarrow>
        let back = (\<lambda>s. ret (redirect (''/admin/plants/'' @ e_uuid_str v plantID @ s))) in
        bind (attempt (db_act (settlement_details plantID))) (\<lambda>details.
        case details of
          Inl e \<Rightarrow> back ''?notice=subaccount-missing''
        | Inr (bankCode, accountNumber, legalName) \<Rightarrow>
          if bankCode = '''' \<or> accountNumber = '''' then back ''?notice=subaccount-missing''
          else
            bind (attempt (db_act (ResolveAccount (sv_Paystack sv) accountNumber bankCode))) (\<lambda>resolved.
            case resolved of
              Inl e \<Rightarrow> back (''?notice=resolve-failed&detail='' @ QueryEscape (err_text e))
            | Inr accountName \<Rightarrow>
              bind (attempt (db_act (CreateSubaccount (sv_Paystack sv)
                \<lparr>cs_BusinessName = legalName, cs_SettlementBank = bankCode, cs_AccountNumber = accountNumber,
                 cs_PercentageCharge = PlantSettlementPercentage\<rparr>))) (\<lambda>created.
              case created of
                Inl e \<Rightarrow> back (''?notice=create-failed&detail='' @ QueryEscape (err_text e))
              | Inr subaccount \<Rightarrow>
                bind (attempt (db_act (SetSettlement plantID accountName subaccount (ac_UserID actor)))) (\<lambda>saved.
                case saved of
                  Inl e \<Rightarrow> back ''?notice=save-failed''
                | Inr _ \<Rightarrow> back ''?notice=subaccount-ok''))))))"

section \<open>Messaging\<close>

definition control_char :: "char \<Rightarrow> bool" where
  "control_char c \<longleftrightarrow> c = CHR 0x0D \<or> c = CHR 0x0A \<or> c = CHR 0x09"

definition messaging_tx :: "uuid \<Rightarrow> string \<Rightarrow> uuid \<Rightarrow> unit act" where
  "messaging_tx plantID senderID actorID =
     bind (exec_update plants_tab (\<lambda>p. pl_ID p = plantID)
       (\<lambda>now p. p\<lparr>pl_TermiiSenderID := (if senderID = '''' then None else Some senderID)\<rparr>)) (\<lambda>rs.
     if rs = [] then fail plants_ErrNotFound
     else
       bind ask_env (\<lambda>v.
       Log (Some plantID) (Some actorID) ''plant.messaging_updated'' (e_uuid_str v plantID)
         [(''termii_sender_id_set'', DBool (senderID \<noteq> ''''))]))"

definition adminPlantMessagingHandler :: "'s server \<Rightarrow> Actor option \<Rightarrow> 's handler" where
  "adminPlantMessagingHandler sv actor0 r =
     (case actor0 of None \<Rightarrow> ret (http_error 404 ''Not found'') | Some actor \<Rightarrow>
      if \<not> hr_form_ok r then ret (redirect ''/admin?error=form#plants'')
      else
        bind (db_act ask_env) (\<lambda>v.
        case e_uuid_parse v (hr_URLParam r ''id'') of
          None \<Rightarrow> ret (redirect ''/admin?error=form#plants'')
        | Some plantID \<Rightarrow>
          let senderID = form r ''termii_sender_id''; page = ''/admin/plants/'' @ e_uuid_str v plantID in
          if 32 < length senderID \<or> list_ex control_char senderID then ret (redirect (page @ ''?error=form''))
          else
            bind (attempt (db_act (with_admin_tx (messaging_tx plantID senderID (ac_UserID actor))))) (\<lambda>res.
            ret (redirect (case res of Inl e \<Rightarrow> page @ ''?error=form'' | Inr _ \<Rightarrow> page)))))"

section \<open>Exports\<close>

text \<open>A typed value never starts a formula in a spreadsheet.\<close>

definition csvSafe :: "string \<Rightarrow> string" where
  "csvSafe v =
     (if v \<noteq> '''' \<and> hd v \<in> {CHR ''='', CHR ''+'', CHR ''-'', CHR ''@'', CHR 0x09, CHR 0x0D}
      then CHR 0x27 # v else v)"

end
