(* ===== verification/ServerMarketing.thy ===== *)
theory ServerMarketing
  imports ServerAdmin
begin

text \<open>
  The public platform site (\<^verbatim>\<open>cmd/server/marketing.go\<close>, \<^verbatim>\<open>cmd/server/support_pages.go\<close>): which
  host serves what, the application of a plant, the waiting list of buyers and the login
  finder. \<^verbatim>\<open>mail.ParseAddress\<close> is a parameter, as in \<open>Buyers\<close>.
\<close>

definition apostrophe :: string where "apostrophe = [CHR 0x27]"

section \<open>Hosts\<close>

definition marketingLandingHandler :: "'s handler" where
  "marketingLandingHandler r = ret (plain (Page 200 ''Landing'' []))"

definition plant_state :: "string \<Rightarrow> (string \<times> string) act" where
  "plant_state slug = on_admin_pool (query_row (\<lambda>d.
     map_option (\<lambda>p. (pl_Name p, pl_Status p)) (first_row (\<lambda>p. pl_Slug p = slug) (db_plants d))))"

definition serveTenantOrReview :: "'s server \<Rightarrow> (plant \<Rightarrow> 's handler) \<Rightarrow> 's handler" where
  "serveTenantOrReview sv tenantHandler r =
     (if \<not> IsTenantHost (hr_Host r) (sv_BaseDomain sv) then ret not_found_page
      else
        bind (attempt (db_act (plant_state (ExtractSubdomain (hr_Host r))))) (\<lambda>res.
        case res of
          Inl e \<Rightarrow> ret not_found_page
        | Inr (name, status) \<Rightarrow>
          if EqualFold status ''provisioning''
          then ret (plain (Page 200 ''PlantUnderReview'' [(''plant'', JStr name), (''app'', JStr (sv_AppBaseURL sv))]))
          else if \<not> EqualFold status ''active'' then ret not_found_page
          else Tenant sv tenantHandler r))"

definition rootOrTenant :: "'s server \<Rightarrow> (plant \<Rightarrow> 's handler) \<Rightarrow> 's handler" where
  "rootOrTenant sv tenantHandler r =
     (if IsMarketingHost (hr_Host r) (sv_BaseDomain sv) then marketingLandingHandler r
      else serveTenantOrReview sv tenantHandler r)"

definition tenantOrReview :: "'s server \<Rightarrow> (plant \<Rightarrow> 's handler) \<Rightarrow> 's handler" where
  "tenantOrReview sv tenantHandler r = serveTenantOrReview sv tenantHandler r"

definition marketingHostOnly :: "'s server \<Rightarrow> 's handler \<Rightarrow> 's handler" where
  "marketingHostOnly sv next r =
     (if \<not> IsMarketingHost (hr_Host r) (sv_BaseDomain sv) then ret not_found_page else next r)"

section \<open>The application form\<close>

definition signupErrorMessage :: "string \<Rightarrow> string" where
  "signupErrorMessage code =
     (if code = ''missing'' then ''Fill in every field: plant name, web address, business details, bank details, your name, phone number, email, password, and a starting price are all required.''
      else if code = ''slug'' then ''Your web address can only contain lowercase letters, numbers, and hyphens, and can'' @ apostrophe @ ''t start or end with a hyphen.''
      else if code = ''reserved-slug'' then ''That web address is reserved. Please choose a different one.''
      else if code = ''slug-taken'' then ''That web address is already taken. Please choose a different one.''
      else if code = ''price'' then ''Enter a starting price per kg greater than zero.''
      else if code = ''email'' then ''Enter a valid email address.''
      else if code = ''bank'' then ''We couldn'' @ apostrophe @ ''t verify that bank account. Double-check the bank and account number, and try again.''
      else if code = ''plant'' then ''Something went wrong submitting your application. Please try again.''
      else '''')"

definition signupRateLimitMax :: int where "signupRateLimitMax = 10"
definition signupRateLimitWindow :: time where "signupRateLimitWindow = Hour"

text \<open>An error of the limiter lets the attempt through.\<close>

definition allowSignupAttempt :: "'s redis \<Rightarrow> string \<Rightarrow> ('s, bool) hact" where
  "allowSignupAttempt rdb ip =
     bind (checkIPRateLimit rdb ''signup_rl:'' ip signupRateLimitMax signupRateLimitWindow) (\<lambda>(allowed, err).
     ret (if err \<noteq> None then True else allowed))"

definition signupTab :: "string \<Rightarrow> string" where
  "signupTab v = (if v = ''buyer'' then ''buyer'' else ''owner'')"

definition atoiOr :: "string \<Rightarrow> int \<Rightarrow> int" where
  "atoiOr v fallback = (case Atoi (TrimSpace v) of None \<Rightarrow> fallback | Some n \<Rightarrow> n)"

text \<open>The two counters; one that cannot be read stays at zero.\<close>

definition fillSignupCounters :: "(string \<times> json) list act" where
  "fillSignupCounters =
     bind (attempt FoundingSpotsClaimed) (\<lambda>owners.
     bind (attempt SpotsClaimed) (\<lambda>buyers.
     let count = (\<lambda>r. case r of Inl e \<Rightarrow> 0 | Inr n \<Rightarrow> int n)
     in ret [(''owner_spots_total'', JInt FoundingSpots), (''buyer_spots_total'', JInt OfferSpots),
             (''owner_spots_claimed'', JInt (count owners)), (''buyer_spots_claimed'', JInt (count buyers))]))"

definition bank_json :: "Bank \<Rightarrow> json" where
  "bank_json b = JObj [(''name'', JStr (bk_Name b)), (''code'', JStr (bk_Code b))]"

definition signupPageHandler :: "'s server \<Rightarrow> 's handler" where
  "signupPageHandler sv r =
     bind (EnsurePublicCSRFCookie sv r) (\<lambda>(csrfToken, cookies).
     bind (db_act (BanksWithFallback (sv_Paystack sv))) (\<lambda>banks.
     let submitted = hr_Query r ''submitted'';
         rank = atoiOr (hr_Query r ''rank'') 0;
         buyer = (if submitted = ''buyer''
                  then [(''buyer_submitted'', JBool True),
                        (''buyer_offer_rank'', JInt (if rank < 0 \<or> OfferSpots < rank then 0 else rank))]
                  else [(''buyer_submitted'', JBool False), (''buyer_offer_rank'', JInt 0)])
     in bind (db_act fillSignupCounters) (\<lambda>counters.
        ret (with_cookies cookies (plain (Page 200 ''Signup''
          ([(''csrf'', JStr csrfToken), (''error'', JStr (signupErrorMessage (hr_Query r ''error''))),
            (''submitted'', JBool (submitted = ''1'')), (''banks'', JArr (map bank_json banks)),
            (''tab'', JStr (signupTab (hr_Query r ''for''))), (''source'', JStr (hr_Query r ''src''))]
           @ buyer @ counters)))))))"

text \<open>What is echoed into the form: every field but the passwords.\<close>

definition echoed_fields :: "string list" where
  "echoed_fields = [''name'', ''slug'', ''city'', ''address'', ''phone'', ''state'', ''legal_business_name'',
     ''cac_number'', ''nmdpra_license_number'', ''bank_code'', ''bank_account_number'', ''primary_color'',
     ''button_color'', ''secondary_color'', ''button_text_color'', ''owner_name'', ''owner_phone'',
     ''owner_email'', ''starting_price'']"

definition renderSignupForm :: "'s server \<Rightarrow> http_request \<Rightarrow> string \<Rightarrow> ('s, response) hact" where
  "renderSignupForm sv r errorMsg =
     bind (EnsurePublicCSRFCookie sv r) (\<lambda>(csrfToken, cookies).
     bind (db_act (BanksWithFallback (sv_Paystack sv))) (\<lambda>banks.
     bind (db_act fillSignupCounters) (\<lambda>counters.
     ret (with_cookies cookies (plain (Page 200 ''Signup''
       ([(''csrf'', JStr csrfToken), (''error'', JStr errorMsg)]
        @ map (\<lambda>k. (k, JStr (hr_FormValue r k))) echoed_fields
        @ [(''banks'', JArr (map bank_json banks)), (''tab'', JStr ''owner'')] @ counters)))))))"

definition trim_digits :: "string \<Rightarrow> string" where
  "trim_digits s = rev (dropWhile is_digit (rev (dropWhile is_digit s)))"

definition signup_form :: "http_request \<Rightarrow> time \<Rightarrow> PlantParams" where
  "signup_form r now = (plant_form r)\<lparr>qp_Status := ''provisioning'', qp_DeferSettlement := True,
     qp_ClaimFoundingSpot := True, qp_TermsAcceptedAt := Some now\<rparr>"

definition application_notice :: "env \<Rightarrow> PlantParams \<Rightarrow> uuid \<times> string \<Rightarrow> plantApplicationNotification" where
  "application_notice v params plant =
     \<lparr>pa_PlantID = e_uuid_str v (fst plant), pa_PlantName = qp_Name params, pa_Slug = snd plant,
      pa_City = qp_City params, pa_State = qp_State params, pa_OwnerName = qp_OwnerName params,
      pa_OwnerPhone = qp_OwnerPhone params, pa_OwnerEmail = qp_OwnerEmail params,
      pa_LegalBusinessName = qp_LegalBusinessName params, pa_CACNumber = qp_CACNumber params,
      pa_NMDPRALicense = qp_NMDPRALicenseNumber params\<rparr>"

definition signupSubmitHandler :: "'s server \<Rightarrow> (string \<Rightarrow> string) \<Rightarrow> 's handler" where
  "signupSubmitHandler sv detect r =
     (let again = renderSignupForm sv r in
      if \<not> hr_form_ok r then again ''Could not read that submission. Try again.''
      else
        let password = hr_FormValue r ''owner_password''; acct = form r ''bank_account_number'' in
        if password \<noteq> hr_FormValue r ''owner_password_confirm''
        then again (''Those passwords don'' @ apostrophe @ ''t match.'')
        else if length password < ownerMinPasswordLength then again ''Your password needs at least 8 characters.''
        else if length acct \<noteq> 10 \<or> trim_digits acct \<noteq> '''' then again ''Enter your 10-digit bank account number.''
        else if hr_FormValue r ''accept_terms'' \<noteq> ''yes''
        then again ''Please agree to the Terms of Service and Privacy Policy to submit your application.''
        else
          bind (db_act time_Now) (\<lambda>now.
          let params = signup_form r now in
          bind (allowSignupAttempt (sv_Redis sv) (clientIP r)) (\<lambda>allowed.
          if \<not> allowed
          then again ''Too many applications from this connection. Please wait a while and try again, or contact us if you need help.''
          else
            bind (attempt (db_act (provisionPlant sv detect params None None))) (\<lambda>res.
            case res of
              Inl e \<Rightarrow> again (signupErrorMessage (adminPlantErrorCode e))
            | Inr plant \<Rightarrow>
                bind (db_act ask_env) (\<lambda>v.
                ret (sending (notifyNewApplication (sv_SupportEmail sv) (sv_AppBaseURL sv) (application_notice v params plant))
                  (redirect ''/get-started?submitted=1'')))))))"

section \<open>The waiting list of buyers\<close>

definition buyer_again :: "'s server \<Rightarrow> http_request \<Rightarrow> string \<Rightarrow> ('s, response) hact" where
  "buyer_again sv r msg =
     bind (EnsurePublicCSRFCookie sv r) (\<lambda>(csrfToken, cookies).
     bind (db_act (BanksWithFallback (sv_Paystack sv))) (\<lambda>banks.
     bind (db_act fillSignupCounters) (\<lambda>counters.
     ret (with_cookies cookies (plain (Page 200 ''Signup''
       ([(''csrf'', JStr csrfToken), (''tab'', JStr ''buyer''), (''buyer_error'', JStr msg)]
        @ map (\<lambda>k. (k, JStr (hr_FormValue r k))) [''buyer_name'', ''buyer_phone'', ''buyer_email'', ''buyer_state'', ''src'']
        @ [(''banks'', JArr (map bank_json banks))] @ counters)))))))"

definition buyerErrorMessage :: "go_err \<Rightarrow> string" where
  "buyerErrorMessage e =
     (if errors_is e buyers_ErrMissingField then ''Enter your name.''
      else if errors_is e buyers_ErrInvalidPhone then ''Enter a valid Nigerian phone number, for example 0803 000 0000.''
      else if errors_is e buyers_ErrInvalidEmail
      then ''That email address doesn'' @ apostrophe @ ''t look right. You can also leave it blank.''
      else if errors_is e buyers_ErrInvalidState then ''Choose your state.''
      else ''Something went wrong. Please try again.'')"

definition buyerSignupHandler :: "'s server \<Rightarrow> (string \<Rightarrow> bool) \<Rightarrow> 's handler" where
  "buyerSignupHandler sv ParseAddress r =
     (let again = buyer_again sv r in
      if \<not> hr_form_ok r then again ''Could not read that submission. Try again.''
      else if hr_FormValue r ''accept_contact'' \<noteq> ''yes''
      then again ''Please tick the box so we can text you when a plant near you joins.''
      else
        bind (allowSignupAttempt (sv_Redis sv) (clientIP r)) (\<lambda>allowed.
        if \<not> allowed then again ''Too many sign-ups from this connection. Please wait a while and try again.''
        else
          bind (attempt (db_act (Signup ParseAddress
            \<lparr>sp_Name = hr_FormValue r ''buyer_name'', sp_Phone = hr_FormValue r ''buyer_phone'',
             sp_Email = hr_FormValue r ''buyer_email'', sp_State = hr_FormValue r ''buyer_state'',
             sp_Source = hr_FormValue r ''src''\<rparr>))) (\<lambda>res.
          case res of
            Inl e \<Rightarrow> again (buyerErrorMessage e)
          | Inr result \<Rightarrow>
              ret (redirect (''/get-started?submitted=buyer&for=buyer&rank='' @ itoa (sr_OfferRank result))))))"

section \<open>Finding the login page\<close>

definition before_byte :: "char \<Rightarrow> string \<Rightarrow> string" where
  "before_byte c s = takeWhile (\<lambda>x. x \<noteq> c) s"

definition plantSlugFromInput :: "url_parser \<Rightarrow> string \<Rightarrow> string" where
  "plantSlugFromInput parse input =
     (let s0 = ToLower (TrimSpace input);
          s1 = (if contains_text s0 ''://'' then (case parse s0 of None \<Rightarrow> s0 | Some (_, _, host) \<Rightarrow> host) else s0);
          s = before_byte (CHR ''.'') (before_byte (CHR '':'') (before_byte (CHR ''/'') s1))
      in if list_all (\<lambda>c. slug_alnum c \<or> c = CHR ''-'') s then s else '''')"

definition loginFinderRateLimitMax :: int where "loginFinderRateLimitMax = 30"
definition loginFinderRateLimitWindow :: time where "loginFinderRateLimitWindow = 15 * Minute"

definition login_finder_page :: "nat \<Rightarrow> string \<Rightarrow> string \<Rightarrow> response" where
  "login_finder_page status input msg =
     plain (Page status ''LoginFinder'' [(''plant'', JStr input), (''message'', JStr msg)])"

definition loginFinderHandler :: "'s server \<Rightarrow> 's handler" where
  "loginFinderHandler sv r =
     (let input = TrimSpace (hr_Query r ''plant''); say = (\<lambda>msg. ret (login_finder_page 200 input msg)) in
      if input = '''' then say ''''
      else
        bind (rate_limited sv ''login_finder_rl:'' r loginFinderRateLimitMax loginFinderRateLimitWindow) (\<lambda>limited.
        if limited then ret (login_finder_page 429 input ''Too many lookups. Please wait a few minutes and try again.'')
        else
          let slug = plantSlugFromInput (sv_ParseURL sv) input in
          if slug = ''''
          then say (''Enter your plant'' @ apostrophe @ ''s web address, for example sunrise or sunrise.'' @ sv_BaseDomain sv @ ''.'')
          else
            bind (attempt (db_act (plant_state slug))) (\<lambda>res.
            case res of
              Inl e \<Rightarrow>
                if errors_is e ErrNoRows
                then say (''We couldn'' @ apostrophe @ ''t find a plant at that address. Check the link you were given at setup, or contact us.'')
                else say ''Something went wrong. Please try again.''
            | Inr (_, status) \<Rightarrow>
                if status = ''active''
                then ret (redirect (tenantAbsoluteURL (sv_ParseURL sv) (sv_AppBaseURL sv) slug ''/owner/login''))
                else if status = ''provisioning''
                then say (''That plant is still under review. We'' @ apostrophe @ ''ll email and SMS the owner with login details once it'' @ apostrophe @ ''s approved.'')
                else say (''That plant isn'' @ apostrophe @ ''t active on GatsToGo right now. Contact us if you think this is a mistake.''))))"

end
