(* ===== verification/Migrate.thy ===== *)
theory Migrate
  imports TenantDB GoParse "HOL-Library.List_Lexorder" "HOL-Library.Char_ord"
begin

text \<open>
  \<^verbatim>\<open>internal/migrate/migrate.go\<close>: applying the SQL files of \<^verbatim>\<open>migrations/\<close>. The tables that the
  files create are an abstract state \<open>'x\<close>; what a statement does to it, which files there are and
  what is in them are parameters, and so is what happens to each request to the server (the
  \<open>fault\<close> of \<open>TenantDB\<close>). The versions recorded in \<^verbatim>\<open>schema_migrations\<close> are a list, in the
  order of their rows, \<open>None\<close> as long as the table does not exist.
\<close>

section \<open>Parameters and state\<close>

record 'x target =
  tg_run :: "string \<Rightarrow> 'x \<Rightarrow> go_err + 'x"
  tg_fault :: "nat \<Rightarrow> fault"
  tg_Glob :: "string \<Rightarrow> go_err + string list"   \<comment> \<open>the files \<^verbatim>\<open>*.up.sql\<close> of a directory\<close>
  tg_ReadFile :: "string \<Rightarrow> go_err + string"
  tg_APP_ENV :: string

record 'x conn =
  mc_versions :: "string list option"
  mc_schema :: 'x
  mc_tick :: nat

type_synonym ('x, 'a) mig = "('x conn, 'a) sact"

record Config =
  mg_Dir :: string
  mg_SeedDevData :: bool
  mg_AppRolePassword :: string
  mg_AdminRolePassword :: string
  mg_AllowProdSeed :: bool
  mg_RefuseSeedInProdEnv :: bool

record Result =
  mr_Applied :: "string list"
  mr_Skipped :: "string list"

record StatusRow =
  st_Version :: string
  st_Applied :: bool
  st_Seed :: bool

section \<open>Files\<close>

definition isSeedFile :: "string \<Rightarrow> bool" where
  "isSeedFile name = contains_text name ''_seed_data.up.sql''"

definition isRoleCredentialsFile :: "string \<Rightarrow> bool" where
  "isRoleCredentialsFile name = contains_text name ''_role_credentials.up.sql''"

text \<open>\<^verbatim>\<open>filepath.Base\<close> of a path that does not end in a slash.\<close>

definition Base :: "string \<Rightarrow> string" where
  "Base path = rev (takeWhile (\<lambda>c. c \<noteq> CHR ''/'') (rev path))"

definition listUpFiles :: "'x target \<Rightarrow> string \<Rightarrow> ('x, string list) mig" where
  "listUpFiles m dir =
     (case tg_Glob m dir of
        Inl e \<Rightarrow> fail e
      | Inr matches \<Rightarrow>
        if matches = [] then fail (ErrorString (''no *.up.sql files in '' @ dir))
        else ret (sort matches))"

definition up_files :: "'x target \<Rightarrow> Config \<Rightarrow> string list" where
  "up_files m cfg = (case tg_Glob m (mg_Dir cfg) of Inl e \<Rightarrow> [] | Inr matches \<Rightarrow> matches)"

definition guardSeed :: "'x target \<Rightarrow> Config \<Rightarrow> ('x, unit) mig" where
  "guardSeed m cfg =
     (if \<not> mg_RefuseSeedInProdEnv cfg then ret ()
      else if EqualFold (tg_APP_ENV m) ''production'' \<and> \<not> mg_AllowProdSeed cfg
      then fail (ErrorString ''refusing to seed while APP_ENV=production (known demo passwords); use a staging Neon branch, or pass --force if you really mean it'')
      else ret ())"

section \<open>Quoting\<close>

text \<open>The tag grows until the text does not contain it; a tag longer than the text ends that.\<close>

function dollar_tag :: "string \<Rightarrow> string \<Rightarrow> string" where
  "dollar_tag s tag =
     (if contains_text s (''$'' @ tag @ ''$'') then dollar_tag s (tag @ ''x'') else tag)"
  by pat_completeness auto
termination
  by (relation "measure (\<lambda>(s, tag). length s - length tag)") (auto dest!: contains_text_length)

declare dollar_tag.simps [simp del]

definition dollarQuote :: "string \<Rightarrow> string" where
  "dollarQuote s = (let tag = dollar_tag s ''gtg'' in ''$'' @ tag @ ''$'' @ s @ ''$'' @ tag @ ''$'')"

section \<open>Applying\<close>

definition next_tick :: "'x conn \<Rightarrow> 'x conn" where
  "next_tick c = c\<lparr>mc_tick := Suc (mc_tick c)\<rparr>"

text \<open>One statement outside a transaction; \<open>BrokenApplied\<close> means that only its answer is lost.\<close>

definition ensureTable :: "'x target \<Rightarrow> ('x, unit) mig" where
  "ensureTable m c =
     (let c' = next_tick c;
          made = c'\<lparr>mc_versions := Some (case mc_versions c of None \<Rightarrow> [] | Some vs \<Rightarrow> vs)\<rparr>
      in case tg_fault m (mc_tick c) of
           Fine \<Rightarrow> (Inr (), made)
         | Broken \<Rightarrow> (Inl (Wrap ''create schema_migrations'' DriverErr), c')
         | BrokenApplied \<Rightarrow> (Inl (Wrap ''create schema_migrations'' DriverErr), made))"

definition alreadyApplied :: "'x target \<Rightarrow> string \<Rightarrow> ('x, bool) mig" where
  "alreadyApplied m version c =
     (case (tg_fault m (mc_tick c), mc_versions c) of
        (Fine, Some vs) \<Rightarrow> (Inr (version \<in> set vs), next_tick c)
      | (Fine, None) \<Rightarrow> (Inl (PgError ''42P01''), next_tick c)
      | _ \<Rightarrow> (Inl DriverErr, next_tick c))"

text \<open>
  The statements of a file, each with the text that its error is wrapped in; the file with the
  roles' passwords is replaced by two statements of its own.
\<close>

definition statements :: "'x target \<Rightarrow> Config \<Rightarrow> string \<Rightarrow> string \<Rightarrow> go_err + (string \<times> string) list" where
  "statements m cfg path version =
     (if isRoleCredentialsFile version
      then if mg_AppRolePassword cfg = '''' \<or> mg_AdminRolePassword cfg = ''''
           then Inl (ErrorString (version @ '' requires GATSTOGO_APP_ROLE_PASSWORD and GATSTOGO_ADMIN_ROLE_PASSWORD''))
           else Inr [(version @ '': alter gatstogo_app'', ''ALTER ROLE gatstogo_app WITH PASSWORD '' @ dollarQuote (mg_AppRolePassword cfg)),
                     (version @ '': alter gatstogo_admin'', ''ALTER ROLE gatstogo_admin WITH PASSWORD '' @ dollarQuote (mg_AdminRolePassword cfg))]
      else case tg_ReadFile m path of Inl e \<Rightarrow> Inl e | Inr body \<Rightarrow> Inr [(version, body)])"

text \<open>The statements one after the other, each a request, on the transaction's own state.\<close>

fun run_all :: "'x target \<Rightarrow> (string \<times> string) list \<Rightarrow> 'x \<Rightarrow> nat \<Rightarrow> go_err + 'x" where
  "run_all m [] x n = Inr x"
| "run_all m ((label, q) # qs) x n =
     (if tg_fault m n \<noteq> Fine then Inl (Wrap label DriverErr)
      else case tg_run m q x of Inl e \<Rightarrow> Inl (Wrap label e) | Inr y \<Rightarrow> run_all m qs y (Suc n))"

text \<open>
  One file in one transaction: its statements, the record of its version (the primary key
  refuses a second one), the commit. An error before the commit leaves everything as it was.
\<close>

definition applyOne :: "'x target \<Rightarrow> string \<Rightarrow> string \<Rightarrow> Config \<Rightarrow> ('x, unit) mig" where
  "applyOne m path version cfg c =
     (let n = mc_tick c;
          after = (\<lambda>k. c\<lparr>mc_tick := k\<rparr>)
      in if tg_fault m n \<noteq> Fine then (Inl DriverErr, after (Suc n))
         else case statements m cfg path version of
           Inl e \<Rightarrow> (Inl e, after (Suc n))
         | Inr qs \<Rightarrow>
           (case run_all m qs (mc_schema c) (Suc n) of
              Inl e \<Rightarrow> (Inl e, after (Suc n + length qs))
            | Inr x \<Rightarrow>
              (let k = Suc n + length qs in
               case mc_versions c of
                 None \<Rightarrow> (Inl (Wrap (''record '' @ version) (PgError ''42P01'')), after (Suc k))
               | Some vs \<Rightarrow>
                 if tg_fault m k \<noteq> Fine then (Inl (Wrap (''record '' @ version) DriverErr), after (Suc k))
                 else if version \<in> set vs then (Inl (Wrap (''record '' @ version) (PgError ''23505'')), after (Suc k))
                 else
                   let done = c\<lparr>mc_versions := Some (vs @ [version]), mc_schema := x, mc_tick := Suc (Suc k)\<rparr>
                   in case tg_fault m (Suc k) of
                        Fine \<Rightarrow> (Inr (), done)
                      | Broken \<Rightarrow> (Inl DriverErr, after (Suc (Suc k)))
                      | BrokenApplied \<Rightarrow> (Inl DriverErr, done))))"

definition skip :: "Result \<Rightarrow> string \<Rightarrow> string \<Rightarrow> Result" where
  "skip out version why = out\<lparr>mr_Skipped := mr_Skipped out @ [version @ why]\<rparr>"

definition applied :: "Result \<Rightarrow> string \<Rightarrow> Result" where
  "applied out version = out\<lparr>mr_Applied := mr_Applied out @ [version]\<rparr>"

definition no_result :: Result where "no_result = \<lparr>mr_Applied = [], mr_Skipped = []\<rparr>"

text \<open>The part that \<open>Up\<close> and \<open>Seed\<close> share: apply a file unless it is recorded.\<close>

definition apply_pending ::
  "'x target \<Rightarrow> Config \<Rightarrow> string \<Rightarrow> Result \<Rightarrow> ('x, Result) mig" where
  "apply_pending m cfg file out =
     (let version = Base file in
      bind (alreadyApplied m version) (\<lambda>ok.
      if ok then ret (skip out version '' (already applied)'')
      else bind (applyOne m file version cfg) (\<lambda>_. ret (applied out version))))"

fun up_loop :: "'x target \<Rightarrow> Config \<Rightarrow> string list \<Rightarrow> Result \<Rightarrow> ('x, Result) mig" where
  "up_loop m cfg [] out = ret out"
| "up_loop m cfg (file # files) out =
     (let version = Base file; seed = isSeedFile version in
      if seed \<and> \<not> mg_SeedDevData cfg
      then up_loop m cfg files (skip out version '' (seed disabled; pass --seed or SEED_DEV_DATA=true)'')
      else
        bind (if seed then guardSeed m cfg else ret ()) (\<lambda>_.
        bind (apply_pending m cfg file out) (\<lambda>out'. up_loop m cfg files out')))"

definition Up :: "'x target \<Rightarrow> Config \<Rightarrow> ('x, Result) mig" where
  "Up m cfg =
     bind (ensureTable m) (\<lambda>_.
     bind (listUpFiles m (mg_Dir cfg)) (\<lambda>files. up_loop m cfg files no_result))"

fun seed_loop :: "'x target \<Rightarrow> Config \<Rightarrow> string list \<Rightarrow> Result \<Rightarrow> ('x, Result) mig" where
  "seed_loop m cfg [] out = ret out"
| "seed_loop m cfg (file # files) out =
     (if \<not> isSeedFile (Base file) then seed_loop m cfg files out
      else bind (apply_pending m cfg file out) (\<lambda>out'. seed_loop m cfg files out'))"

definition Seed :: "'x target \<Rightarrow> Config \<Rightarrow> ('x, Result) mig" where
  "Seed m cfg0 =
     (let cfg = cfg0\<lparr>mg_SeedDevData := True\<rparr> in
      bind (guardSeed m cfg) (\<lambda>_.
      bind (ensureTable m) (\<lambda>_.
      bind (listUpFiles m (mg_Dir cfg)) (\<lambda>files.
      bind (seed_loop m cfg files no_result) (\<lambda>out.
      if mr_Applied out = [] \<and> mr_Skipped out = []
      then fail (ErrorString (''no *_seed_data.up.sql files found in '' @ mg_Dir cfg))
      else ret out)))))"

fun status_rows :: "'x target \<Rightarrow> string list \<Rightarrow> ('x, StatusRow list) mig" where
  "status_rows m [] = ret []"
| "status_rows m (file # files) =
     bind (alreadyApplied m (Base file)) (\<lambda>ok.
     bind (status_rows m files) (\<lambda>rows.
     ret (\<lparr>st_Version = Base file, st_Applied = ok, st_Seed = isSeedFile (Base file)\<rparr> # rows)))"

definition Status :: "'x target \<Rightarrow> Config \<Rightarrow> ('x, StatusRow list) mig" where
  "Status m cfg =
     bind (ensureTable m) (\<lambda>_.
     bind (listUpFiles m (mg_Dir cfg)) (\<lambda>files. status_rows m files))"

section \<open>What a quoted text reads as\<close>

text \<open>
  How the server reads a dollar-quoted literal: the opening tag, then everything up to the
  first place where the same tag follows; the rest of the statement is the second component.
\<close>

fun until :: "string \<Rightarrow> string \<Rightarrow> (string \<times> string) option" where
  "until d [] = None"
| "until d (c # s) =
     (if take (length d) (c # s) = d then Some ([], drop (length d) (c # s))
      else map_option (\<lambda>(a, r). (c # a, r)) (until d s))"

definition read_literal :: "string \<Rightarrow> (string \<times> string) option" where
  "read_literal lit =
     (let tag = takeWhile (\<lambda>c. c \<noteq> CHR ''$'') (tl lit)
      in until (''$'' @ tag @ ''$'') (drop (length tag + 2) lit))"

lemma until_first:
  assumes "d \<noteq> []"
  shows "until d (s @ d) = Some (s, []) \<longleftrightarrow> (\<forall>k < length s. take (length d) (drop k (s @ d)) \<noteq> d)"
proof (induction s)
  case Nil
  from assms show ?case by (cases d) auto
next
  case (Cons c s)
  have "(\<forall>k < length (c # s). take (length d) (drop k ((c # s) @ d)) \<noteq> d) \<longleftrightarrow>
      take (length d) (c # s @ d) \<noteq> d \<and> (\<forall>k < length s. take (length d) (drop k (s @ d)) \<noteq> d)"
    by (auto simp: less_Suc_eq_0_disj)
  then show ?case using Cons.IH by auto
qed

text \<open>Where a delimiter can begin early: only with the end of the text, if that is the tag itself.\<close>

lemma early_delimiter:
  assumes "CHR ''$'' \<notin> set tag" and "\<not> contains_text s (''$'' @ tag @ ''$'')"
  defines "d \<equiv> ''$'' @ tag @ ''$''"
  shows "(\<exists>k < length s. take (length d) (drop k (s @ d)) = d) \<longleftrightarrow> HasSuffix s (''$'' @ tag)"
proof
  assume "HasSuffix s (''$'' @ tag)"
  then obtain r where "s = r @ ''$'' @ tag" by (auto simp: HasSuffix_iff)
  then have "take (length d) (drop (length r) (s @ d)) = d" "length r < length s"
    by (simp_all add: d_def)
  then show "\<exists>k < length s. take (length d) (drop k (s @ d)) = d" by blast
next
  assume "\<exists>k < length s. take (length d) (drop k (s @ d)) = d"
  then obtain k where k: "k < length s" "take (length d) (drop k (s @ d)) = d" by blast
  define u where "u = drop k s"
  have s: "s = take k s @ u" and u0: "u \<noteq> []" using k(1) by (simp_all add: u_def)
  have ud: "take (length d) (u @ d) = d" using k by (simp add: u_def)
  have short: "length u < length d"
  proof (rule ccontr)
    assume "\<not> length u < length d"
    then have "take (length d) u = d" using ud by simp
    then have "u = d @ drop (length d) u" by (metis append_take_drop_id)
    then have "s = take k s @ d @ drop (length d) u" using s by simp
    then show False using assms(2) by (auto simp: contains_text_iff d_def)
  qed
  then have d: "d = u @ take (length d - length u) d" using ud by simp
  then have "d ! length u = d ! 0"
    using short by (metis nth_append_length_plus add.right_neutral nth_take zero_less_diff)
  then have dollar: "d ! length u = CHR ''$''" by (simp add: d_def)
  have "length u = length d - 1"
  proof (rule ccontr)
    assume "length u \<noteq> length d - 1"
    moreover from u0 obtain n where n: "length u = Suc n" by (cases u) auto
    ultimately have "n < length tag" "d ! length u = tag ! n"
      using short by (auto simp: d_def nth_append)
    with dollar assms(1) show False by (metis nth_mem)
  qed
  then have "u = take (length d - 1) d" using d by (metis append_eq_conv_conj)
  then have "u = ''$'' @ tag" by (simp add: d_def butlast_conv_take [symmetric])
  then show "HasSuffix s (''$'' @ tag)" using s by (metis HasSuffix_iff)
qed

lemma dollar_tag_form: "\<exists>n. dollar_tag s tag = tag @ replicate n (CHR ''x'')"
proof (induction s tag rule: dollar_tag.induct)
  case (1 s tag)
  show ?case
  proof (cases "contains_text s (''$'' @ tag @ ''$'')")
    case True
    with 1 obtain n where "dollar_tag s (tag @ ''x'') = (tag @ ''x'') @ replicate n (CHR ''x'')" by blast
    with True have "dollar_tag s tag = tag @ replicate (Suc n) (CHR ''x'')"
      by (subst dollar_tag.simps) simp
    then show ?thesis by blast
  next
    case False
    then have "dollar_tag s tag = tag @ replicate 0 (CHR ''x'')"
      by (subst dollar_tag.simps) simp
    then show ?thesis by blast
  qed
qed

lemma dollar_tag_absent: "\<not> contains_text s (''$'' @ dollar_tag s tag @ ''$'')"
proof (induction s tag rule: dollar_tag.induct)
  case (1 s tag)
  then show ?case by (subst dollar_tag.simps) auto
qed

lemma dollar_tag_chars: "CHR ''$'' \<notin> set (dollar_tag s ''gtg'')"
proof -
  obtain n where "dollar_tag s ''gtg'' = ''gtg'' @ replicate n (CHR ''x'')"
    using dollar_tag_form by blast
  then show ?thesis by auto
qed

theorem dollar_quote_reads:
  "read_literal (dollarQuote s) = Some (s, []) \<longleftrightarrow> \<not> HasSuffix s (''$'' @ dollar_tag s ''gtg'')"
proof -
  let ?tag = "dollar_tag s ''gtg''"
  let ?d = "''$'' @ ?tag @ ''$''"
  have tag: "takeWhile (\<lambda>c. c \<noteq> CHR ''$'') (?tag @ CHR ''$'' # r) = ?tag" for r
    using dollar_tag_chars [of s] by (subst takeWhile_append2) auto
  have "read_literal (dollarQuote s) = until ?d (s @ ?d)"
    by (simp add: read_literal_def dollarQuote_def Let_def tag)
  then show ?thesis
    using until_first [of ?d s] early_delimiter [OF dollar_tag_chars dollar_tag_absent, of s] by auto
qed

section \<open>Steps of a migration\<close>

text \<open>
  What a file does when all goes well, and the only way in which the record and the schema
  change: a file's statements run completely and its version, not recorded before, is added.
\<close>

definition whole_file :: "'x target \<Rightarrow> Config \<Rightarrow> string \<Rightarrow> 'x \<Rightarrow> 'x \<Rightarrow> bool" where
  "whole_file m cfg path x y \<longleftrightarrow>
     (\<exists>qs n. statements m cfg path (Base path) = Inr qs \<and> run_all m qs x n = Inr y)"

inductive mig_step :: "'x target \<Rightarrow> Config \<Rightarrow> string list \<times> 'x \<Rightarrow> string list \<times> 'x \<Rightarrow> bool"
  for m cfg where
  file_applied: "path \<in> set (up_files m cfg) \<Longrightarrow> Base path \<notin> set vs \<Longrightarrow> whole_file m cfg path x y \<Longrightarrow>
     mig_step m cfg (vs, x) (vs @ [Base path], y)"

definition recorded :: "'x conn \<Rightarrow> string list \<times> 'x" where
  "recorded c = ((case mc_versions c of None \<Rightarrow> [] | Some vs \<Rightarrow> vs), mc_schema c)"

lemma steps_distinct: "(mig_step m cfg)\<^sup>*\<^sup>* a b \<Longrightarrow> distinct (fst a) \<Longrightarrow> distinct (fst b)"
  by (induction rule: rtranclp_induct) (auto elim!: mig_step.cases)

lemma steps_extend: "(mig_step m cfg)\<^sup>*\<^sup>* a b \<Longrightarrow> \<exists>new. fst b = fst a @ new"
  by (induction rule: rtranclp_induct) (auto elim!: mig_step.cases)

text \<open>Actions that change the connection by such steps only.\<close>

definition migrates :: "'x target \<Rightarrow> Config \<Rightarrow> ('x, 'a) mig \<Rightarrow> bool" where
  "migrates m cfg act \<longleftrightarrow> (\<forall>c. (mig_step m cfg)\<^sup>*\<^sup>* (recorded c) (recorded (snd (act c))))"

named_theorems mig_rules \<open>actions that migrate by whole files\<close>

lemma migrates_pure [mig_rules]: "migrates m cfg (ret a)" "migrates m cfg (fail e)"
  by (simp_all add: migrates_def ret_def fail_def)

lemma migrates_bind [mig_rules]:
  assumes "migrates m cfg act" "\<And>a. migrates m cfg (k a)"
  shows "migrates m cfg (bind act k)"
proof (unfold migrates_def, intro allI)
  fix c
  obtain r c1 where 1: "act c = (r, c1)" by (cases "act c")
  with assms(1) have "(mig_step m cfg)\<^sup>*\<^sup>* (recorded c) (recorded c1)"
    by (metis migrates_def snd_conv)
  moreover have "(mig_step m cfg)\<^sup>*\<^sup>* (recorded c1) (recorded (snd (k a c1)))" for a
    using assms(2) by (auto simp: migrates_def)
  ultimately show "(mig_step m cfg)\<^sup>*\<^sup>* (recorded c) (recorded (snd (bind act k c)))"
    using 1 by (cases r) (auto simp: bind_def intro: rtranclp_trans)
qed

lemma migrates_if [mig_rules]:
  "migrates m cfg a \<Longrightarrow> migrates m cfg b \<Longrightarrow> migrates m cfg (if P then a else b)"
  by simp

lemma migrates_ensureTable [mig_rules]: "migrates m cfg (ensureTable m)"
  by (auto simp: migrates_def ensureTable_def recorded_def next_tick_def Let_def split: fault.splits option.splits)

lemma migrates_alreadyApplied [mig_rules]: "migrates m cfg (alreadyApplied m v)"
  by (auto simp: migrates_def alreadyApplied_def recorded_def next_tick_def split: fault.splits option.splits)

lemma migrates_listUpFiles [mig_rules]: "migrates m cfg (listUpFiles m d)"
  unfolding listUpFiles_def by (auto intro: mig_rules split: sum.split)

lemma migrates_guardSeed [mig_rules]: "migrates m cfg (guardSeed m cfg')"
  unfolding guardSeed_def by (intro mig_rules)

text \<open>The outcomes of \<open>applyOne\<close>: nothing recorded changes, or the whole file is applied.\<close>

lemma applyOne_cases:
  assumes "applyOne m path version cfg c = (r, c')"
  obtains e where "r = Inl e" "mc_versions c' = mc_versions c" "mc_schema c' = mc_schema c"
  | vs qs n where "mc_versions c = Some vs" "version \<notin> set vs" "statements m cfg path version = Inr qs"
      "run_all m qs (mc_schema c) n = Inr (mc_schema c')" "mc_versions c' = Some (vs @ [version])"
  using assms unfolding applyOne_def Let_def
  by (auto split: if_splits sum.splits option.splits fault.splits)

lemma migrates_applyOne [mig_rules]:
  assumes "path \<in> set (up_files m cfg)"
  shows "migrates m cfg (applyOne m path (Base path) cfg)"
proof (unfold migrates_def, intro allI)
  fix c
  obtain r c' where a: "applyOne m path (Base path) cfg c = (r, c')" by (cases "applyOne m path (Base path) cfg c")
  from a show "(mig_step m cfg)\<^sup>*\<^sup>* (recorded c) (recorded (snd (applyOne m path (Base path) cfg c)))"
  proof (cases rule: applyOne_cases)
    case 1
    with a 1 show ?thesis by (simp add: recorded_def)
  next
    case (2 vs qs n)
    then have "mig_step m cfg (vs, mc_schema c) (vs @ [Base path], mc_schema c')"
      using assms by (intro mig_step.intros) (auto simp: whole_file_def)
    with a 2 show ?thesis by (simp add: recorded_def r_into_rtranclp)
  qed
qed

lemma migrates_apply_pending [mig_rules]:
  "file \<in> set (up_files m cfg) \<Longrightarrow> migrates m cfg (apply_pending m cfg file out)"
  unfolding apply_pending_def Let_def by (intro mig_rules)

lemma migrates_up_loop [mig_rules]:
  "set files \<subseteq> set (up_files m cfg) \<Longrightarrow> migrates m cfg (up_loop m cfg files out)"
proof (induction files arbitrary: out)
  case (Cons path paths)
  then show ?case
    by (auto simp: Let_def intro!: mig_rules)
qed (simp add: mig_rules)

lemma migrates_seed_loop [mig_rules]:
  "set files \<subseteq> set (up_files m cfg) \<Longrightarrow> migrates m cfg (seed_loop m cfg files out)"
proof (induction files arbitrary: out)
  case (Cons path paths)
  then show ?case by (auto intro!: mig_rules)
qed (simp add: mig_rules)

text \<open>A continuation that migrates only on the values which the first part can return.\<close>

lemma migrates_bind_result:
  assumes "migrates m cfg act" "\<And>a c c'. act c = (Inr a, c') \<Longrightarrow> migrates m cfg (k a)"
  shows "migrates m cfg (bind act k)"
proof (unfold migrates_def, intro allI)
  fix c
  obtain r c1 where 1: "act c = (r, c1)" by (cases "act c")
  with assms(1) have "(mig_step m cfg)\<^sup>*\<^sup>* (recorded c) (recorded c1)"
    by (metis migrates_def snd_conv)
  moreover have "(mig_step m cfg)\<^sup>*\<^sup>* (recorded c1) (recorded (snd (k a c1)))" if "r = Inr a" for a
    using assms(2) 1 that by (auto simp: migrates_def)
  ultimately show "(mig_step m cfg)\<^sup>*\<^sup>* (recorded c) (recorded (snd (bind act k c)))"
    using 1 by (cases r) (auto simp: bind_def intro: rtranclp_trans)
qed

lemma listUpFiles_files: "listUpFiles m (mg_Dir cfg) c = (Inr files, c') \<Longrightarrow> set files = set (up_files m cfg)"
  by (auto simp: listUpFiles_def up_files_def ret_def fail_def split: sum.splits if_splits)

lemma migrates_Up: "migrates m cfg (Up m cfg)"
  unfolding Up_def
  by (intro mig_rules migrates_bind_result) (simp add: listUpFiles_files)

section \<open>Every file once\<close>

definition wanted :: "Config \<Rightarrow> string \<Rightarrow> bool" where
  "wanted cfg path \<longleftrightarrow> (isSeedFile (Base path) \<longrightarrow> mg_SeedDevData cfg)"

lemma apply_pending_records:
  assumes "apply_pending m cfg path out c = (Inr res, c')"
  shows "Base path \<in> set (fst (recorded c'))"
proof -
  obtain ok c1 where 1: "alreadyApplied m (Base path) c = (Inr ok, c1)"
    using assms by (cases "fst (alreadyApplied m (Base path) c)"; cases "alreadyApplied m (Base path) c")
      (auto simp: apply_pending_def bind_def Let_def)
  then obtain vs where vs: "mc_versions c = Some vs" "ok = (Base path \<in> set vs)" "c1 = next_tick c"
    by (auto simp: alreadyApplied_def split: fault.splits option.splits)
  show ?thesis
  proof (cases ok)
    case True
    with assms 1 vs show ?thesis
      by (auto simp: apply_pending_def bind_def ret_def recorded_def next_tick_def Let_def)
  next
    case False
    with assms 1 obtain u where "applyOne m path (Base path) cfg c1 = (Inr u, c')"
      by (auto simp: apply_pending_def bind_def ret_def Let_def split: sum.splits prod.splits)
    then show ?thesis by (cases rule: applyOne_cases) (auto simp: recorded_def)
  qed
qed

lemma up_loop_records:
  "up_loop m cfg paths out c = (Inr res, c') \<Longrightarrow> set paths \<subseteq> set (up_files m cfg) \<Longrightarrow>
   path \<in> set paths \<Longrightarrow> wanted cfg path \<Longrightarrow> Base path \<in> set (fst (recorded c'))"
proof (induction paths arbitrary: out c)
  case (Cons p paths)
  show ?case
  proof (cases "wanted cfg p")
    case False
    with Cons show ?thesis by (auto simp: wanted_def Let_def)
  next
    case True
    with Cons.prems(1) obtain c0 out' c1 where
      1: "apply_pending m cfg p out c0 = (Inr out', c1)" "up_loop m cfg paths out' c1 = (Inr res, c')"
      by (auto simp: wanted_def Let_def bind_def split: sum.splits prod.splits)
    have "migrates m cfg (up_loop m cfg paths out')"
      using Cons.prems(2) by (intro mig_rules) auto
    then have "(mig_step m cfg)\<^sup>*\<^sup>* (recorded c1) (recorded c')"
      using 1(2) by (metis migrates_def snd_conv)
    then obtain new where "fst (recorded c') = fst (recorded c1) @ new" using steps_extend by blast
    with apply_pending_records [OF 1(1)] have "Base p \<in> set (fst (recorded c'))" by auto
    with Cons 1(2) show ?thesis by auto
  qed
qed simp

lemma apply_pending_idle:
  "mc_versions c = Some vs \<Longrightarrow> Base path \<in> set vs \<Longrightarrow>
   \<exists>n. snd (apply_pending m cfg path out c) = c\<lparr>mc_tick := n\<rparr>"
  by (auto simp: apply_pending_def alreadyApplied_def bind_def ret_def next_tick_def Let_def split: fault.splits)

lemma up_loop_idle:
  "mc_versions c = Some vs \<Longrightarrow> (\<And>path. path \<in> set paths \<Longrightarrow> wanted cfg path \<Longrightarrow> Base path \<in> set vs) \<Longrightarrow>
   recorded (snd (up_loop m cfg paths out c)) = recorded c"
proof (induction paths arbitrary: out c)
  case (Cons p paths)
  show ?case
  proof (cases "wanted cfg p")
    case False
    with Cons show ?thesis by (auto simp: wanted_def Let_def)
  next
    case True
    obtain n r where p: "apply_pending m cfg p out c = (r, c\<lparr>mc_tick := n\<rparr>)"
      using apply_pending_idle [of c vs p m cfg out] Cons.prems True by (metis list.set_intros(1) prod.collapse)
    have IH: "recorded (snd (up_loop m cfg paths out' (c\<lparr>mc_tick := n\<rparr>))) = recorded c" for out'
      using Cons.IH [of "c\<lparr>mc_tick := n\<rparr>" out'] Cons.prems by (simp add: recorded_def)
    have g: "snd (guardSeed m cfg c) = c" by (simp add: guardSeed_def ret_def fail_def)
    then obtain rg where "guardSeed m cfg c = (rg, c)" by (metis prod.collapse)
    with True p IH show ?thesis
      by (cases r; cases rg) (auto simp: wanted_def Let_def bind_def ret_def recorded_def)
  qed
qed (simp add: ret_def)

lemma Up_idle:
  assumes "\<And>path. path \<in> set (up_files m cfg) \<Longrightarrow> wanted cfg path \<Longrightarrow> Base path \<in> set (fst (recorded c))"
  shows "recorded (snd (Up m cfg c)) = recorded c"
proof (cases "ensureTable m c")
  case (Pair r c1)
  then have c1: "recorded c1 = recorded c" "r = Inr u \<Longrightarrow> \<exists>vs. mc_versions c1 = Some vs" for u
    by (auto simp: ensureTable_def recorded_def next_tick_def Let_def split: fault.splits option.splits)
  show ?thesis
  proof (cases r)
    case (Inr u)
    then obtain vs where vs: "mc_versions c1 = Some vs" using c1 by blast
    then have "fst (recorded c) = vs" using c1(1) by (metis fst_conv option.simps(5) recorded_def)
    then have "recorded (snd (up_loop m cfg files no_result c1)) = recorded c"
      if "set files = set (up_files m cfg)" for files
      using up_loop_idle [OF vs, of files cfg m no_result] assms that c1(1) by auto
    then show ?thesis
      using Pair Inr c1 listUpFiles_files [of m cfg c1]
      by (auto simp: Up_def bind_def listUpFiles_def ret_def fail_def split: sum.splits prod.splits)
  qed (use Pair c1 in \<open>auto simp: Up_def bind_def\<close>)
qed

lemma Up_records:
  assumes "Up m cfg c = (Inr res, c')" and "path \<in> set (up_files m cfg)" and "wanted cfg path"
  shows "Base path \<in> set (fst (recorded c'))"
proof -
  obtain files c1 where "up_loop m cfg files no_result c1 = (Inr res, c')" "set files = set (up_files m cfg)"
    using assms(1) by (auto simp: Up_def bind_def dest: listUpFiles_files split: sum.splits prod.splits)
  with assms(2,3) show ?thesis by (metis up_loop_records order_refl)
qed

text \<open>
  C32: Whatever happens on the connection, Up changes the database by whole files only: the
  statements of a file run completely and its version, which was not recorded before, is recorded
  with them. When Up reports success every file is recorded (those with seed data if seeding is
  on), and running it again changes nothing.
\<close>

theorem migrations_once:
  "(mig_step m cfg)\<^sup>*\<^sup>* (recorded c) (recorded (snd (Up m cfg c))) \<and>
   (distinct (fst (recorded c)) \<longrightarrow> distinct (fst (recorded (snd (Up m cfg c))))) \<and>
   (\<forall>res c'. Up m cfg c = (Inr res, c') \<longrightarrow>
      (\<forall>path \<in> set (up_files m cfg). wanted cfg path \<longrightarrow> Base path \<in> set (fst (recorded c'))) \<and>
      recorded (snd (Up m cfg c')) = recorded c')"
proof -
  have "(mig_step m cfg)\<^sup>*\<^sup>* (recorded c) (recorded (snd (Up m cfg c)))"
    using migrates_Up by (auto simp: migrates_def)
  then show ?thesis
    using steps_distinct Up_records [of m cfg c] Up_idle [of m cfg] by blast
qed

text \<open>Two schema files and one of seed data, on a server that answers every request.\<close>

definition demo_target :: "string list target" where
  "demo_target =
     \<lparr>tg_run = (\<lambda>q x. Inr (x @ [q])), tg_fault = (\<lambda>_. Fine),
      tg_Glob = (\<lambda>_. Inr [''m/0002_seed_data.up.sql'', ''m/0003_role_credentials.up.sql'', ''m/0001_init.up.sql'']),
      tg_ReadFile = (\<lambda>path. Inr (''-- '' @ path)), tg_APP_ENV = ''production''\<rparr>"

definition demo_config :: Config where
  "demo_config =
     \<lparr>mg_Dir = ''m'', mg_SeedDevData = False, mg_AppRolePassword = ''a$gtg$b'', mg_AdminRolePassword = ''c'',
      mg_AllowProdSeed = False, mg_RefuseSeedInProdEnv = True\<rparr>"

definition demo_database :: "string list conn" where
  "demo_database = \<lparr>mc_versions = None, mc_schema = [], mc_tick = 0\<rparr>"

lemma demo_up:
  "Up demo_target demo_config demo_database =
     (Inr \<lparr>mr_Applied = [''0001_init.up.sql'', ''0003_role_credentials.up.sql''],
           mr_Skipped = [''0002_seed_data.up.sql (seed disabled; pass --seed or SEED_DEV_DATA=true)'']\<rparr>,
      \<lparr>mc_versions = Some [''0001_init.up.sql'', ''0003_role_credentials.up.sql''],
       mc_schema = [''-- m/0001_init.up.sql'',
         ''ALTER ROLE gatstogo_app WITH PASSWORD $gtgx$a$gtg$b$gtgx$'',
         ''ALTER ROLE gatstogo_admin WITH PASSWORD $gtg$c$gtg$''],
       mc_tick = 12\<rparr>)"
  by code_simp

theorem migrations_once_witness:
  "\<exists>c'. snd (Up demo_target demo_config demo_database) = c' \<and>
     distinct (fst (recorded c')) \<and>
     ''0001_init.up.sql'' \<in> set (fst (recorded c')) \<and>
     recorded (snd (Up demo_target demo_config c')) = recorded c'"
proof -
  obtain res c' where up: "Up demo_target demo_config demo_database = (Inr res, c')"
    using demo_up by blast
  have "distinct (fst (recorded demo_database))" by (simp add: recorded_def demo_database_def)
  moreover have "''m/0001_init.up.sql'' \<in> set (up_files demo_target demo_config)"
    by (simp add: up_files_def demo_target_def demo_config_def)
  moreover have "wanted demo_config ''m/0001_init.up.sql''" "Base ''m/0001_init.up.sql'' = ''0001_init.up.sql''"
    by code_simp+
  ultimately show ?thesis
    using migrations_once [of demo_target demo_config demo_database] up by (metis snd_conv)
qed

end
