(* ===== verification/Fixtures.thy ===== *)
theory Fixtures
  imports Tickets
begin

text \<open>
  A small concrete installation on which the properties' witnesses are evaluated: two plants
  with a member of staff, a price, a pump and a shift each, and tickets in the different
  statuses; a calm environment whose requests all succeed, and one that fails at a chosen step.
\<close>

definition demo_plant :: "uuid \<Rightarrow> string \<Rightarrow> plant_row" where
  "demo_plant i slug = \<lparr>pl_ID = i, pl_Slug = slug, pl_Name = slug, pl_City = None, pl_Address = None,
     pl_Phone = None, pl_LogoPath = None, pl_CustomDomain = None, pl_DomainStatus = ''none'',
     pl_Status = ''active'', pl_Timezone = ''T'', pl_PrimaryColor = '''',
     pl_SecondaryColor = '''', pl_ButtonColor = '''', pl_ButtonTextColor = '''', pl_FontFamily = '''',
     pl_TermiiSenderID = None, pl_PaystackSubaccountCode = None, pl_CreatedAt = 0, pl_UpdatedAt = 0,
     pl_LegalBusinessName = None, pl_CACNumber = None, pl_State = None, pl_NMDPRALicenseNumber = None,
     pl_BankCode = None, pl_BankName = None, pl_BankAccountNumber = None, pl_BankAccountName = None,
     pl_FoundingRank = None\<rparr>"

definition demo_user :: "uuid \<Rightarrow> uuid \<Rightarrow> string \<Rightarrow> string \<Rightarrow> user_row" where
  "demo_user i p role phone = \<lparr>us_ID = i, us_PlantID = p, us_Name = role, us_Phone = phone, us_Role = role,
     us_PinHash = Some ''h'', us_PasswordHash = None, us_Active = True, us_CanEditPrice = False,
     us_CanManageStaff = False, us_CanManagePumps = False, us_CreatedAt = 0, us_UpdatedAt = 0,
     us_Email = None\<rparr>"

definition demo_ticket :: "uuid \<Rightarrow> uuid \<Rightarrow> string \<Rightarrow> ticket_status \<Rightarrow> ticket" where
  "demo_ticket i p code status = \<lparr>tk_ID = i, tk_PlantID = p, tk_Reference = ''r'' @ code, tk_Code = code,
     tk_CustomerName = Some ''a b'', tk_CustomerPhone = Some ''08'',
     tk_SizeGrams = 12500, tk_RatePerKg = 120000, tk_PriceID = Some 30, tk_Amount = 1500000,
     tk_Channel = ''cash'', tk_Status = status, tk_NetGrams = None, tk_EmptyWeightGrams = None,
     tk_FilledWeightGrams = None, tk_FilledAt = None, tk_FilledShiftID = None, tk_ConfirmedAt = None,
     tk_PaidAt = None, tk_ExpiresAt = None, tk_SoldBy = None, tk_ShiftID = None,
     tk_PumpID = Some 40, tk_DispensingStartedAt = None, tk_DispensingStartedBy = None,
     tk_ClosedBy = None, tk_CloseNote = None, tk_VoidReason = None, tk_VoidedBy = None,
     tk_VoidedAt = None, tk_IdempotencyKey = None, tk_CreatedAt = 5, tk_UpdatedAt = 5\<rparr>"

definition demo_shift :: "uuid \<Rightarrow> uuid \<Rightarrow> uuid \<Rightarrow> shift" where
  "demo_shift i p u = \<lparr>sh_ID = i, sh_PlantID = p, sh_UserID = u, sh_DeviceID = None, sh_PumpID = Some 40,
     sh_OpenedAt = 3, sh_ClosedAt = None, sh_OpeningCashKobo = 0, sh_ClosingCashKobo = None,
     sh_TokensIssued = 0, sh_TokensReturned = None, sh_Notes = None, sh_CreatedAt = 3, sh_UpdatedAt = 3\<rparr>"

definition demo_pump :: "uuid \<Rightarrow> uuid \<Rightarrow> string \<Rightarrow> pump_row" where
  "demo_pump i p name = \<lparr>pu_ID = i, pu_PlantID = p, pu_Name = name, pu_Status = ''working'',
     pu_SortOrder = 1, pu_CreatedAt = 0, pu_UpdatedAt = 0\<rparr>"

text \<open>The installation with the given tickets.\<close>

definition demo_db :: "ticket list \<Rightarrow> db" where
  "demo_db ts = \<lparr>db_plants = [demo_plant 7 ''a'', demo_plant 8 ''b''], db_reserved = [''www''],
     db_users = [demo_user 20 7 ''cashier'' ''1''],
     db_prices = [\<lparr>pr_ID = 30, pr_PlantID = 7, pr_PricePerKg = 120000, pr_EffectiveFrom = 0,
       pr_SetBy = None, pr_CreatedAt = 0\<rparr>],
     db_shifts = [demo_shift 50 7 20], db_tickets = ts,
     db_cash = [], db_log = [], db_pumps = [demo_pump 40 7 ''P'', demo_pump 41 7 ''Q''],
     db_hours = [], db_reviews = [], db_buyers = []\<rparr>"

text \<open>The identifiers that the environment hands out start at 100.\<close>

definition demo_env :: env where
  "demo_env = \<lparr>e_fault = (\<lambda>n. Fine), e_uuid = (\<lambda>n. 100 + n), e_rand = (\<lambda>n. Some (7 + n)),
     e_wall = (\<lambda>n. 1000 + int n), e_uuid_str = (\<lambda>i. replicate i (CHR ''u'')),
     e_uuid_parse = (\<lambda>s. Some (length s)), e_upper = (\<lambda>s. s), e_zone = (\<lambda>t. 0),
     e_days_ago = (\<lambda>n t. t - n * 86400000000), e_day_start = (\<lambda>t. 0)\<rparr>"

definition demo_world :: "db \<Rightarrow> world" where
  "demo_world d = \<lparr>w_db = d, w_role = AppRole (Some 7), w_aborted = False, w_now = 1000,
     w_tick = 0, w_files = Map.empty, w_banks = ([], 0), w_env = demo_env\<rparr>"

lemmas demo_defs = demo_plant_def demo_user_def demo_ticket_def demo_shift_def demo_pump_def
  demo_db_def

text \<open>What evaluates a run on it: statements get through, and constraints are decided.\<close>

lemma demo_world_simps [simp]:
  "w_db (demo_world d) = d" "w_role (demo_world d) = AppRole (Some 7)"
  "w_env (demo_world d) = demo_env" "w_now (demo_world d) = 1000" "w_tick (demo_world d) = 0"
  "w_aborted (demo_world d) = False"
  by (simp_all add: demo_world_def)

lemma demo_env_simps [simp]:
  "e_fault demo_env n = Fine" "e_uuid demo_env n = 100 + n" "e_rand demo_env n = Some (7 + n)"
  "e_wall demo_env n = 1000 + int n" "e_upper demo_env s = s"
  "e_zone demo_env t = 0" "e_day_start demo_env t = 0" "e_days_ago demo_env k t = t - k * 86400000000"
  "e_uuid_str demo_env i = replicate i (CHR ''u'')" "e_uuid_parse demo_env s = Some (length s)"
  by (simp_all add: demo_env_def)

lemma ready_demo [simp]:
  "ready (demo_world d)" "ready (stepped (demo_world d) d1)"
  "ready (stepped (stepped (demo_world d) d1) d2)"
  "ready (stepped (stepped (stepped (demo_world d) d1) d2) d3)"
  by (simp_all add: ready_def)

text \<open>Inside a transaction that \<^verbatim>\<open>WithTenant\<close> has opened for plant 7.\<close>

definition demo_tx :: "db \<Rightarrow> world" where
  "demo_tx d = (demo_world d)\<lparr>w_now := 1002, w_tick := Suc (Suc (Suc 0))\<rparr>"

lemma demo_tx_simps [simp]:
  "w_db (demo_tx d) = d" "w_role (demo_tx d) = AppRole (Some 7)" "w_env (demo_tx d) = demo_env"
  "w_now (demo_tx d) = 1002" "w_tick (demo_tx d) = 3" "w_aborted (demo_tx d) = False"
  by (simp_all add: demo_tx_def)

lemma ready_calm [simp]: "w_env w = demo_env \<Longrightarrow> \<not> w_aborted w \<Longrightarrow> ready w"
  by (simp add: ready_def)

lemma WithTenant_demo:
  assumes "runs m (demo_tx d) a w2" "\<not> w_aborted w2" "w_env w2 = demo_env"
  shows "\<exists>w'. WithTenant 7 m (demo_world d) = (Inr a, w') \<and> w_db w' = w_db w2"
proof -
  have "m (demo_tx d) = (Inr a, w2)" using assms(1) by (simp add: runs_def)
  then show ?thesis
    using assms(2,3)
    by (simp add: WithTenant_def request_def exec_stmt_def in_tx_def demo_tx_def demo_world_def commit_def Let_def)
qed

lemmas constraint_evals = plants_viol_def users_viol_def prices_viol_def shifts_viol_def
  tickets_viol_def cash_viol_def log_viol_def pumps_viol_def hours_viol_def reviews_viol_def
  ticket_ranges_def ticket_check_def ticket_fks_def id_list_defs code_keys_def open_code_def open_shifts_def int4_def

lemmas run_evals = run_simps updated_def inserted_def upd_where_def constraint_evals demo_defs

lemma runs_evaluated: "fst (m w) = Inr a \<Longrightarrow> runs m w a (snd (m w))"
  by (simp add: runs_def prod_eq_iff)

end
