(* ===== verification/Operator.thy ===== *)
theory Operator
  imports Plants Migrate Fixtures
begin

text \<open>
  The operator's command line (\<^verbatim>\<open>cmd/gtg/main.go\<close>, \<^verbatim>\<open>admin.go\<close>): which command the arguments name,
  the connection it opens, and the commands themselves - applying and listing migrations, and
  creating and deleting an administrator of the platform. The terminal (what is typed and
  answered) and \<^verbatim>\<open>net/mail.ParseAddress\<close> are parameters. The operator connects as the owner of
  the database, which the deployment gives \<^verbatim>\<open>BYPASSRLS\<close>; its statements therefore see every row,
  as those of \<open>AdminRole\<close> do.
\<close>

section \<open>Arguments and environment\<close>

type_synonym environment = "string \<Rightarrow> string"

definition flagSet :: "string list \<Rightarrow> string \<Rightarrow> bool" where
  "flagSet args name = list_ex (\<lambda>a. a = name) args"

fun flagValue :: "string list \<Rightarrow> string \<Rightarrow> string" where
  "flagValue [] name = ''''"
| "flagValue (a # rest) name =
     (if a = name \<and> rest \<noteq> [] then TrimSpace (hd rest)
      else if HasPrefix a (name @ ''='') then TrimSpace (TrimPrefix a (name @ ''=''))
      else flagValue rest name)"

datatype command =
    PrintUsage nat                  \<comment> \<open>with the exit status\<close>
  | UnknownCommand string
  | MigrateStatus
  | MigrateUp bool
  | SeedOnly bool
  | CreateAdmin "string list"
  | DeleteAdmin "string list"

definition command_of :: "string list \<Rightarrow> command" where
  "command_of argv =
     (case argv of
        prog # name # rest \<Rightarrow>
          if name = ''migrate''
          then if rest \<noteq> [] \<and> hd rest = ''status'' then MigrateStatus else MigrateUp (flagSet rest ''--seed'')
          else if name = ''db:seed'' then SeedOnly (flagSet rest ''--force'')
          else if name = ''create-admin'' then CreateAdmin rest
          else if name = ''delete-admin'' then DeleteAdmin rest
          else if name \<in> {''help'', ''-h'', ''--help''} then PrintUsage 0
          else UnknownCommand name
      | _ \<Rightarrow> PrintUsage 2)"

definition envTruthy :: "environment \<Rightarrow> string \<Rightarrow> bool" where
  "envTruthy g key = (let v = ToLower (TrimSpace (g key)) in v = ''1'' \<or> v = ''true'' \<or> v = ''yes'')"

fun firstNonEmpty :: "string list \<Rightarrow> string" where
  "firstNonEmpty [] = ''''"
| "firstNonEmpty (v # vals) = (if TrimSpace v \<noteq> '''' then v else firstNonEmpty vals)"

definition getenv :: "environment \<Rightarrow> string \<Rightarrow> string \<Rightarrow> string" where
  "getenv g k fallback = (if g k \<noteq> '''' then g k else fallback)"

section \<open>The connection\<close>

text \<open>What \<^verbatim>\<open>url.URL.String\<close> leaves as it is in a user's name or password, a host and a path.\<close>

definition url_escape :: "string \<Rightarrow> string \<Rightarrow> string" where
  "url_escape keep s = concat (map (\<lambda>c. if unreserved c \<or> c \<in> set keep then [c] else percent c) s)"

definition user_keeps :: string where "user_keeps = ''$&+,;=''"
definition host_keeps :: string where
  "host_keeps = ''!$&()*+,;=:[]<>'' @ [CHR 39, CHR 34]"
definition path_keeps :: string where "path_keeps = ''$&+,/:;=@''"

definition migrateDSN :: "environment \<Rightarrow> go_err + string" where
  "migrateDSN g =
     (let u = firstNonEmpty [g ''MIGRATE_DATABASE_URL'', g ''DATABASE_URL''] in
      if u \<noteq> '''' then Inr u
      else
        let host = getenv g ''PGHOST'' ''localhost''; user = getenv g ''PGUSER'' ''gatstogo'';
            pass = g ''PGPASSWORD''
        in if pass = ''''
           then Inl (ErrorString ''set MIGRATE_DATABASE_URL (Neon direct owner URL) or PGPASSWORD / DATABASE_URL'')
           else
             let db = getenv g ''PGDATABASE'' ''gatstogo''; ssl = getenv g ''PGSSLMODE'' ''require'';
                 port = getenv g ''PGPORT'' ''5432''
             in Inr (''postgres://'' @ url_escape user_keeps user @ '':'' @ url_escape user_keeps pass @ ''@'' @
                  url_escape host_keeps (host @ '':'' @ port) @ url_escape path_keeps (''/'' @ db) @
                  ''?sslmode='' @ QueryEscape ssl))"

fun first_dir :: "(string \<Rightarrow> bool) \<Rightarrow> string list \<Rightarrow> string" where
  "first_dir isDir [] = ''migrations''"
| "first_dir isDir (c # cs) = (if isDir c then c else first_dir isDir cs)"

definition defaultMigrationsDir :: "(string \<Rightarrow> bool) \<Rightarrow> string" where
  "defaultMigrationsDir isDir = first_dir isDir [''migrations'', ''/migrations'', ''../../migrations'']"

definition open_config :: "environment \<Rightarrow> (string \<Rightarrow> bool) \<Rightarrow> Config" where
  "open_config g isDir =
     \<lparr>mg_Dir = (if g ''MIGRATIONS_DIR'' = '''' then defaultMigrationsDir isDir else g ''MIGRATIONS_DIR''),
      mg_SeedDevData = False, mg_AppRolePassword = g ''GATSTOGO_APP_ROLE_PASSWORD'',
      mg_AdminRolePassword = g ''GATSTOGO_ADMIN_ROLE_PASSWORD'', mg_AllowProdSeed = False,
      mg_RefuseSeedInProdEnv = False\<rparr>"

definition open_migrations :: "'x target \<Rightarrow> environment \<Rightarrow> (string \<Rightarrow> bool) \<Rightarrow> ('x, Config) mig" where
  "open_migrations m g isDir =
     (case migrateDSN g of
        Inl e \<Rightarrow> fail e
      | Inr _ \<Rightarrow> (\<lambda>c. (if tg_fault m (mc_tick c) = Fine then Inr (open_config g isDir) else Inl (Wrap ''connect'' DriverErr),
                     next_tick c)))"

section \<open>Migrations\<close>

definition printResult :: "Result \<Rightarrow> string list" where
  "printResult res = map (\<lambda>s. ''skip '' @ s) (mr_Skipped res) @ map (\<lambda>a. ''ok   '' @ a) (mr_Applied res)"

text \<open>A command's value is what it prints.\<close>

definition cmdMigrate ::
  "'x target \<Rightarrow> environment \<Rightarrow> (string \<Rightarrow> bool) \<Rightarrow> bool \<Rightarrow> ('x, string list) mig" where
  "cmdMigrate m0 g isDir seed =
     (let m = m0\<lparr>tg_APP_ENV := g ''APP_ENV''\<rparr> in
      bind (open_migrations m g isDir) (\<lambda>cfg.
      bind (Up m (cfg\<lparr>mg_SeedDevData := seed \<or> envTruthy g ''SEED_DEV_DATA'', mg_RefuseSeedInProdEnv := True\<rparr>)) (\<lambda>res.
      ret (printResult res @ [''migrations complete'']))))"

definition cmdSeed ::
  "'x target \<Rightarrow> environment \<Rightarrow> (string \<Rightarrow> bool) \<Rightarrow> bool \<Rightarrow> ('x, string list) mig" where
  "cmdSeed m0 g isDir force =
     (let m = m0\<lparr>tg_APP_ENV := g ''APP_ENV''\<rparr> in
      bind (open_migrations m g isDir) (\<lambda>cfg.
      bind (Seed m (cfg\<lparr>mg_RefuseSeedInProdEnv := True, mg_AllowProdSeed := force\<rparr>)) (\<lambda>res.
      ret (printResult res @ [''seed complete'']))))"

definition status_line :: "StatusRow \<Rightarrow> string" where
  "status_line row =
     (if st_Applied row then ''applied '' else ''pending '') @ ''  '' @ st_Version row @
     (if st_Seed row then '' [seed]'' else '''')"

definition cmdStatus :: "'x target \<Rightarrow> environment \<Rightarrow> (string \<Rightarrow> bool) \<Rightarrow> ('x, string list) mig" where
  "cmdStatus m g isDir =
     bind (open_migrations m g isDir) (\<lambda>cfg.
     bind (Status m cfg) (\<lambda>rows. ret (map status_line rows)))"

section \<open>Administrators\<close>

record operator_io =
  io_Getenv :: environment
  io_IsTerminal :: bool
  io_First :: "go_err + string"       \<comment> \<open>\<^verbatim>\<open>term.ReadPassword\<close>\<close>
  io_Second :: "go_err + string"
  io_Answer :: string                 \<comment> \<open>the line typed at a question\<close>
  io_ParseAddress :: "string \<Rightarrow> bool"  \<comment> \<open>whether \<^verbatim>\<open>mail.ParseAddress\<close> accepts it\<close>

definition minAdminPasswordLength :: nat where "minAdminPasswordLength = 14"
definition devAdminPhone :: string where "devAdminPhone = ''08000000000''"
definition platformPlantSlug :: string where "platformPlantSlug = ''gatstogo-platform''"

text \<open>\<^verbatim>\<open>[]rune(s)\<close>.\<close>

function runes :: "string \<Rightarrow> string list" where
  "runes [] = []"
| "runes (c # s) = first_rune (c # s) # runes (drop (rune_width (c # s) - 1) s)"
  by pat_completeness auto
termination by (relation "measure length") auto

definition allSameRune :: "string \<Rightarrow> bool" where
  "allSameRune s = (let r = runes s in list_all (\<lambda>c. c = r ! 0) r \<and> 0 < length r)"

definition only_digits :: "string \<Rightarrow> bool" where
  "only_digits s = (rev (dropWhile is_digit (rev (dropWhile is_digit s))) = '''')"

text \<open>The text of the error, if there is one.\<close>

definition validateAdminInput :: "(string \<Rightarrow> bool) \<Rightarrow> string \<Rightarrow> string \<Rightarrow> string \<Rightarrow> string \<Rightarrow> string option" where
  "validateAdminInput ParseAddress name phone email password =
     (if TrimSpace name = '''' then Some ''--name is required''
      else if length phone \<noteq> 11 \<or> \<not> only_digits phone \<or> \<not> HasPrefix phone ''0''
      then Some ''--phone must be an 11-digit Nigerian number such as 08031234567''
      else if phone = devAdminPhone then Some ''--phone is the demo admin's number; use your own''
      else if email \<noteq> '''' \<and> \<not> ParseAddress email then Some ''--email is not a valid email address''
      else if length (runes password) < minAdminPasswordLength
      then Some (''password must be at least '' @ dec_of minAdminPasswordLength @ '' characters'')
      else if contains_text (ToLower password) ''platform-admin-dev'' \<or> contains_text (ToLower password) ''password''
      then Some ''password is too guessable''
      else if contains_text password phone \<or> contains_text password (TrimPrefix phone ''0'')
      then Some ''password must not contain the phone number''
      else if allSameRune password then Some ''password is too guessable''
      else None)"

definition readPasswordTwice :: "operator_io \<Rightarrow> go_err + string" where
  "readPasswordTwice io =
     (if \<not> io_IsTerminal io
      then Inl (ErrorString ''create-admin must run in an interactive terminal so the password can be typed hidden'')
      else case io_First io of
        Inl e \<Rightarrow> Inl e
      | Inr a \<Rightarrow>
        (case io_Second io of
           Inl e \<Rightarrow> Inl e
         | Inr b \<Rightarrow> if a \<noteq> b then Inl (ErrorString ''passwords do not match'') else Inr a))"

definition confirm :: "operator_io \<Rightarrow> bool" where
  "confirm io = EqualFold (TrimSpace (io_Answer io)) ''y''"

definition open_conn :: "environment \<Rightarrow> unit act" where
  "open_conn g = (case migrateDSN g of Inl e \<Rightarrow> fail e | Inr _ \<Rightarrow> request (Wrap ''connect'' DriverErr))"

definition admins_with_phone :: "string \<Rightarrow> db \<Rightarrow> nat" where
  "admins_with_phone phone d = count_where (\<lambda>u. us_Role u = ''admin'' \<and> us_Phone u = phone) (db_users d)"

text \<open>The closed plant that administrators hang off, with the column defaults of the migrations.\<close>

definition platform_plant :: "time \<Rightarrow> uuid \<Rightarrow> plant_row" where
  "platform_plant now i =
     \<lparr>pl_ID = i, pl_Slug = platformPlantSlug, pl_Name = ''GatsToGo Platform'', pl_City = None,
      pl_Address = None, pl_Phone = None, pl_LogoPath = None, pl_CustomDomain = None, pl_DomainStatus = ''none'',
      pl_Status = ''closed'', pl_Timezone = ''Africa/Lagos'', pl_PrimaryColor = ''#2563eb'',
      pl_SecondaryColor = ''#1e40af'', pl_ButtonColor = ''#2563eb'', pl_ButtonTextColor = ''#ffffff'',
      pl_FontFamily = ''Inter, sans-serif'', pl_TermiiSenderID = None, pl_PaystackSubaccountCode = None,
      pl_CreatedAt = now, pl_UpdatedAt = now, pl_LegalBusinessName = None, pl_CACNumber = None,
      pl_State = None, pl_NMDPRALicenseNumber = None, pl_BankCode = None, pl_BankName = None,
      pl_BankAccountNumber = None, pl_BankAccountName = None, pl_FoundingRank = None\<rparr>"

definition new_admin :: "uuid \<Rightarrow> string \<Rightarrow> string \<Rightarrow> string \<Rightarrow> string \<Rightarrow> time \<Rightarrow> uuid \<Rightarrow> user_row" where
  "new_admin plantID name phone email hash now i =
     \<lparr>us_ID = i, us_PlantID = plantID, us_Name = name, us_Phone = phone, us_Role = ''admin'', us_PinHash = None,
      us_PasswordHash = Some hash, us_Active = True, us_CanEditPrice = False, us_CanManageStaff = False,
      us_CanManagePumps = False, us_CreatedAt = now, us_UpdatedAt = now,
      us_Email = (if email = '''' then None else Some email)\<rparr>"

definition create_admin_tx :: "string \<Rightarrow> string \<Rightarrow> string \<Rightarrow> string \<Rightarrow> unit act" where
  "create_admin_tx name phone email hash =
     bind (query (\<lambda>d. find (\<lambda>p. pl_Slug p = platformPlantSlug) (db_plants d))) (\<lambda>found.
     bind (case found of
             Some p \<Rightarrow> ret (pl_ID p)
           | None \<Rightarrow> bind (exec_insert plants_tab platform_plant) (\<lambda>p. ret (pl_ID p))) (\<lambda>plantID.
     bind (exec_insert users_tab (new_admin plantID name phone email hash)) (\<lambda>_.
     Log None None ''admin.created'' phone [(''via'', DStr ''gtg create-admin'')])))"

definition cmdCreateAdmin :: "operator_io \<Rightarrow> bcrypt \<Rightarrow> string list \<Rightarrow> string act" where
  "cmdCreateAdmin io bc args =
     (let name = flagValue args ''--name''; phone = flagValue args ''--phone''; email = flagValue args ''--email'';
          valid = validateAdminInput (io_ParseAddress io) name phone email;
          early = valid (replicate minAdminPasswordLength (CHR ''x''))
      in if early \<noteq> None \<and> \<not> contains_text (the early) ''password'' then fail (ErrorString (the early))
         else case readPasswordTwice io of
           Inl e \<Rightarrow> fail e
         | Inr password \<Rightarrow>
           if valid password \<noteq> None then fail (ErrorString (the (valid password)))
           else
             bind (HashPassword bc password) (\<lambda>hash.
             bind (open_conn (io_Getenv io)) (\<lambda>_.
             bind (on_admin_pool (query (admins_with_phone phone))) (\<lambda>existing.
             if 0 < existing then fail (ErrorString (''an admin with phone '' @ phone @ '' already exists''))
             else
               bind (on_admin_pool (query (admins_with_phone devAdminPhone))) (\<lambda>devAdmins.
               if \<not> flagSet args ''--yes'' \<and> \<not> confirm io then fail (ErrorString ''cancelled'')
               else
                 bind (with_admin_tx (create_admin_tx name phone email hash)) (\<lambda>_.
                 ret (''created platform admin '' @ name @ '' ('' @ phone @ '')'')))))))"

definition active_admin :: "user_row \<Rightarrow> bool" where
  "active_admin u \<longleftrightarrow> us_Role u = ''admin'' \<and> us_Active u"

definition delete_admin_tx :: "string \<Rightarrow> unit act" where
  "delete_admin_tx phone =
     bind ask_env (\<lambda>env.
     bind (exec_update users_tab (\<lambda>u. us_Role u = ''admin'' \<and> us_Active u \<and> us_Phone u = phone)
       (\<lambda>now u. u\<lparr>us_Active := False, us_PasswordHash := None, us_Phone := ''deleted-'' @ e_uuid_str env (us_ID u)\<rparr>)) (\<lambda>_.
     Log None None ''admin.deleted'' phone [(''via'', DStr ''gtg delete-admin'')]))"

definition count_admins :: "string \<Rightarrow> (nat \<times> nat) act" where
  "count_admins phone =
     on_admin_pool (query (\<lambda>d.
       (count_where active_admin (db_users d),
        count_where (\<lambda>u. active_admin u \<and> us_Phone u = phone) (db_users d))))"

definition cmdDeleteAdmin :: "operator_io \<Rightarrow> string list \<Rightarrow> string act" where
  "cmdDeleteAdmin io args =
     (let phone = flagValue args ''--phone'' in
      if phone = '''' then fail (ErrorString ''--phone is required'')
      else
        bind (open_conn (io_Getenv io)) (\<lambda>_.
        bind (count_admins phone) (\<lambda>(total, matching).
        if matching = 0 then fail (ErrorString (''no admin with phone '' @ phone))
        else if total - matching < 1
        then fail (ErrorString ''refusing to delete the only platform admin; create another first'')
        else if \<not> flagSet args ''--yes'' \<and> \<not> confirm io then fail (ErrorString ''cancelled'')
        else
          bind (with_admin_tx (delete_admin_tx phone)) (\<lambda>_.
          ret (''removed platform admin '' @ phone)))))"

section \<open>What a deletion leaves\<close>

text \<open>A direct connection changes the database in its transactions only.\<close>

lemma with_admin_tx_cases:
  assumes "with_admin_tx m w = (r, w')"
  obtains e where "r = Inl e" "w_db w' = w_db w"
  | a v v' where "w_db v = w_db w" "w_role v = AdminRole" "w_env v = w_env w" "\<not> w_aborted v"
      "m v = (Inr a, v')" "w_db w' = w_db v'"
proof -
  obtain q v0 where q: "request DriverErr w = (q, v0)" by (cases "request DriverErr w")
  note db = request_db [OF q]
  show thesis
  proof (cases q)
    case (Inl e)
    with assms q db show ?thesis by (auto simp: with_admin_tx_def intro: that(1))
  next
    case (Inr u)
    let ?v = "in_tx AdminRole v0"
    obtain x v' where m: "m ?v = (x, v')" by (cases "m ?v")
    have v: "w_db ?v = w_db w" "w_role ?v = AdminRole" "w_env ?v = w_env w" "\<not> w_aborted ?v"
      using db by (simp_all add: in_tx_def)
    show ?thesis
    proof (cases x)
      case (Inl e)
      with assms q Inr m show ?thesis by (auto simp: with_admin_tx_def intro: that(1))
    next
      case (Inr a)
      from assms q \<open>q = Inr u\<close> m Inr have c: "(case commit w v' of (Inl e, w3) \<Rightarrow> (Inl e, w3) | (Inr _, w3) \<Rightarrow> (Inr a, w3)) = (r, w')"
        by (simp add: with_admin_tx_def)
      then have "(\<exists>e. r = Inl e) \<and> w_db w' = w_db w \<or> w_db w' = w_db v'"
        by (auto simp: commit_def rollback_def Let_def split: if_splits fault.splits)
      with that(1) that(2) [OF v, of a v'] m Inr show ?thesis by auto
    qed
  qed
qed

text \<open>The rows that a deletion of the administrators with a phone leaves.\<close>

definition retired :: "env \<Rightarrow> time \<Rightarrow> user_row \<Rightarrow> user_row" where
  "retired env now u =
     u\<lparr>us_Active := False, us_PasswordHash := None, us_Phone := ''deleted-'' @ e_uuid_str env (us_ID u),
       us_UpdatedAt := now\<rparr>"

lemma delete_admin_tx_users:
  assumes "delete_admin_tx phone v = (Inr a, v')" "w_role v = AdminRole"
  shows "db_users (w_db v') = upd_where (\<lambda>u. active_admin u \<and> us_Phone u = phone)
    (retired (w_env v) (w_now v)) (db_users (w_db v))"
  using assms
  by (auto simp: delete_admin_tx_def ask_env_def bind_def exec_update_def exec_stmt_def checked_def Log_def ret_def
      exec_insert_def Let_def retired_def [abs_def] active_admin_def conj_assoc
      split: if_splits option.splits sum.splits prod.splits)

text \<open>
  The outcomes of \<open>cmdDeleteAdmin\<close>: the database is as it was, or another administrator is left
  and those with the phone are retired.
\<close>

lemma count_admins_db:
  "count_admins phone w = (Inr (n, k), w') \<Longrightarrow> w_db w' = w_db w \<and>
     n = count_where active_admin (db_users (w_db w)) \<and>
     k = count_where (\<lambda>u. active_admin u \<and> us_Phone u = phone) (db_users (w_db w))"
  "w_db (snd (count_admins phone w)) = w_db w"
  "w_env (snd (count_admins phone w)) = w_env w"
  by (auto simp: count_admins_def on_admin_pool_def query_def exec_stmt_def in_tx_def Let_def split: if_splits)

lemma open_conn_db: "open_conn g w = (r, w') \<Longrightarrow> w_db w' = w_db w \<and> w_env w' = w_env w"
  by (auto simp: open_conn_def fail_def split: sum.splits dest: request_db)

lemma delete_outcomes:
  assumes "cmdDeleteAdmin io args w = (r, w')"
  defines "phone \<equiv> flagValue args ''--phone''"
  obtains e where "r = Inl e" "w_db w' = w_db w"
  | now where "count_where (\<lambda>u. active_admin u \<and> us_Phone u = phone) (db_users (w_db w)) < count_where active_admin (db_users (w_db w))"
      "db_users (w_db w') = upd_where (\<lambda>u. active_admin u \<and> us_Phone u = phone) (retired (w_env w) now) (db_users (w_db w))"
proof (cases "phone = ''''")
  case True
  with assms that(1) show ?thesis by (auto simp: cmdDeleteAdmin_def phone_def fail_def)
next
  case False
  obtain q w1 where q: "open_conn (io_Getenv io) w = (q, w1)" by (cases "open_conn (io_Getenv io) w")
  obtain k w2 where k: "count_admins phone w1 = (k, w2)" by (cases "count_admins phone w1")
  have db: "w_db w1 = w_db w" "w_db w2 = w_db w" "w_env w2 = w_env w"
    using open_conn_db [OF q] count_admins_db(2,3) [of phone w1] k by auto
  show ?thesis
  proof (cases "\<exists>u total matching. q = Inr u \<and> k = Inr (total, matching) \<and> matching \<noteq> 0 \<and> \<not> total - matching < 1 \<and>
      (flagSet args ''--yes'' \<or> confirm io)")
    case False
    with assms(1) \<open>phone \<noteq> ''''\<close> q k db that(1) show ?thesis
      by (cases q; cases k) (auto simp: cmdDeleteAdmin_def phone_def Let_def bind_def fail_def split: if_splits)
  next
    case True
    then obtain u total matching where T: "q = Inr u" "k = Inr (total, matching)" "matching \<noteq> 0"
      "\<not> total - matching < 1" "flagSet args ''--yes'' \<or> confirm io" by blast
    obtain x w3 where x: "with_admin_tx (delete_admin_tx phone) w2 = (x, w3)"
      by (cases "with_admin_tx (delete_admin_tx phone) w2")
    have out: "w' = w3" "\<And>e. x = Inl e \<Longrightarrow> r = Inl e"
      using assms(1) \<open>phone \<noteq> ''''\<close> q k T x by (cases x; auto simp: cmdDeleteAdmin_def phone_def Let_def bind_def ret_def)+
    from k T have "matching < total" by simp
    with count_admins_db(1) [of phone w1 total matching w2] k T db have more:
      "count_where (\<lambda>u. active_admin u \<and> us_Phone u = phone) (db_users (w_db w)) < count_where active_admin (db_users (w_db w))"
      by auto
    from x show ?thesis
    proof (cases rule: with_admin_tx_cases)
      case (1 e)
      with out db that(1) show ?thesis by auto
    next
      case (2 a v v')
      with delete_admin_tx_users [OF 2(5,2)] out db more that(2) [of "w_now v"] show ?thesis by simp
    qed
  qed
qed

text \<open>
  C31: The command gtg delete-admin, whatever happens to its connection: a platform that has an active
  administrator keeps one, and no other user is changed. When it reports success no active
  administrator has the phone any more, and those who had are there without a password.
\<close>

theorem last_admin_kept:
  assumes "cmdDeleteAdmin io args w = (r, w')"
  shows "((\<exists>u \<in> set (db_users (w_db w)). active_admin u) \<longrightarrow> (\<exists>u \<in> set (db_users (w_db w')). active_admin u)) \<and>
    (\<forall>u \<in> set (db_users (w_db w)). \<not> (active_admin u \<and> us_Phone u = flagValue args ''--phone'') \<longrightarrow>
       u \<in> set (db_users (w_db w'))) \<and>
    (\<forall>msg. r = Inr msg \<longrightarrow>
       (\<forall>u \<in> set (db_users (w_db w')). active_admin u \<longrightarrow> us_Phone u \<noteq> flagValue args ''--phone'') \<and>
       (\<forall>u \<in> set (db_users (w_db w)). active_admin u \<and> us_Phone u = flagValue args ''--phone'' \<longrightarrow>
          (\<exists>u' \<in> set (db_users (w_db w')). us_ID u' = us_ID u \<and> \<not> us_Active u' \<and> us_PasswordHash u' = None)))"
  using assms
proof (cases rule: delete_outcomes)
  case (2 now)
  let ?phone = "flagValue args ''--phone''"
  let ?gone = "\<lambda>u. active_admin u \<and> us_Phone u = ?phone"
  have "\<exists>u \<in> set (db_users (w_db w)). active_admin u \<and> \<not> ?gone u"
  proof (rule ccontr)
    assume "\<not> ?thesis"
    then have "filter active_admin (db_users (w_db w)) = filter ?gone (db_users (w_db w))"
      by (intro filter_cong) auto
    with 2(1) show False by (simp add: count_where_def)
  qed
  moreover have "\<exists>u' \<in> set (db_users (w_db w')). us_ID u' = us_ID u \<and> \<not> us_Active u' \<and> us_PasswordHash u' = None"
    if "u \<in> set (db_users (w_db w))" "?gone u" for u
    using that unfolding 2(2) upd_where_def by (intro bexI [of _ "retired (w_env w) now u"]) (auto simp: retired_def)
  ultimately show ?thesis
    unfolding 2(2) upd_where_def by (auto simp: active_admin_def) (auto simp: retired_def)
qed auto

definition demo_admin :: "uuid \<Rightarrow> string \<Rightarrow> user_row" where
  "demo_admin i phone = new_admin 7 ''Ada'' phone '''' ''h'' 0 i"

definition demo_admins :: "world" where
  "demo_admins = demo_world ((demo_db [])\<lparr>db_users := [demo_admin 1 ''A'', demo_admin 2 ''B'']\<rparr>)"

definition demo_terminal :: operator_io where
  "demo_terminal = \<lparr>io_Getenv = (\<lambda>k. if k = ''DATABASE_URL'' then ''postgres://'' else ''''), io_IsTerminal = True,
     io_First = Inr '''', io_Second = Inr '''', io_Answer = '' y'', io_ParseAddress = (\<lambda>_. True)\<rparr>"

lemmas admin_evals = demo_admins_def demo_admin_def new_admin_def demo_world_def demo_db_def demo_plant_def
  demo_env_def with_admin_tx_def request_def in_tx_def commit_def delete_admin_tx_def ask_env_def bind_def ret_def
  exec_update_def exec_stmt_def checked_def Log_def exec_insert_def Let_def upd_where_def constraint_evals

lemma demo_delete:
  "\<exists>w'. cmdDeleteAdmin demo_terminal [''--phone=A''] demo_admins = (Inr ''removed platform admin A'', w')"
proof -
  have args: "flagValue [''--phone=A''] ''--phone'' = ''A''" "\<not> flagSet [''--phone=A''] ''--yes''"
    "confirm demo_terminal" by code_simp+
  have "migrateDSN (io_Getenv demo_terminal) = Inr ''postgres://''" by code_simp
  with args show ?thesis
    by (simp add: cmdDeleteAdmin_def open_conn_def count_admins_def on_admin_pool_def query_def active_admin_def
        visible_db_admin admin_evals)
qed

theorem last_admin_kept_witness:
  "\<exists>w'. cmdDeleteAdmin demo_terminal [''--phone=A''] demo_admins = (Inr ''removed platform admin A'', w') \<and>
     (\<exists>u \<in> set (db_users (w_db w')). active_admin u) \<and>
     (\<exists>u \<in> set (db_users (w_db w')). us_ID u = 1 \<and> us_PasswordHash u = None)"
proof -
  obtain w' where r: "cmdDeleteAdmin demo_terminal [''--phone=A''] demo_admins = (Inr ''removed platform admin A'', w')"
    using demo_delete by blast
  have phone: "flagValue [''--phone=A''] ''--phone'' = ''A''" by code_simp
  have "demo_admin 1 ''A'' \<in> set (db_users (w_db demo_admins))" "active_admin (demo_admin 1 ''A'')"
    "us_Phone (demo_admin 1 ''A'') = ''A''" "us_ID (demo_admin 1 ''A'') = 1"
    by (simp_all add: demo_admins_def demo_admin_def active_admin_def new_admin_def)
  with last_admin_kept [OF r] r phone show ?thesis by metis
qed

text \<open>
  The administrators are counted before the transaction. Two operators who delete the two last
  administrators at the same time both see two of them, and none is left.
\<close>

lemma delete_race:
  "\<exists>w1 w2. fst (count_admins ''A'' demo_admins) = Inr (2, 1) \<and> fst (count_admins ''B'' demo_admins) = Inr (2, 1) \<and>
     with_admin_tx (delete_admin_tx ''A'') demo_admins = (Inr (), w1) \<and>
     with_admin_tx (delete_admin_tx ''B'') w1 = (Inr (), w2) \<and>
     \<not> (\<exists>u \<in> set (db_users (w_db w2)). active_admin u)"
  by (simp add: count_admins_def on_admin_pool_def query_def active_admin_def visible_db_admin admin_evals
      numeral_2_eq_2)

end
