(* ===== verification/SchemaLaws.thy ===== *)
theory SchemaLaws
  imports TenantLaws TicketLaws ServerMarketing Operator
begin

text \<open>
  The constraints of the schema as an invariant: a statement is checked against the constraints
  of its own table only, so that those of the other tables survive needs that no row they refer
  to disappears. The relation \<open>sound\<close> says this of a change of the database, and that the three
  ledgers - the activity log, the prices and the cash movements - only grow. The locale
  \<open>schema_table\<close> gives the rules for the statements on one table.
\<close>

section \<open>Sound changes\<close>

definition schema_ok :: "db \<Rightarrow> bool" where
  "schema_ok d \<longleftrightarrow> plants_viol d = None \<and> users_viol d = None \<and> prices_viol d = None \<and>
     shifts_viol d = None \<and> tickets_viol d = None \<and> cash_viol d = None \<and> log_viol d = None \<and>
     pumps_viol d = None \<and> hours_viol d = None \<and> reviews_viol d = None \<and> buyers_viol d = None"

definition ids_grow :: "db \<Rightarrow> db \<Rightarrow> bool" where
  "ids_grow d d' \<longleftrightarrow> set (plant_ids d) \<subseteq> set (plant_ids d') \<and> set (user_ids d) \<subseteq> set (user_ids d') \<and>
     set (shift_ids d) \<subseteq> set (shift_ids d') \<and> set (ticket_ids d) \<subseteq> set (ticket_ids d') \<and>
     set (pump_ids d) \<subseteq> set (pump_ids d') \<and> set (price_ids d) \<subseteq> set (price_ids d')"

definition ledgers_grow :: "db \<Rightarrow> db \<Rightarrow> bool" where
  "ledgers_grow d d' \<longleftrightarrow> grows log_tab d d' \<and> grows prices_tab d d' \<and> grows cash_tab d d'"

definition sound :: "db \<Rightarrow> db \<Rightarrow> bool" where
  "sound d d' \<longleftrightarrow> ids_grow d d' \<and> ledgers_grow d d' \<and> (schema_ok d \<longrightarrow> schema_ok d')"

interpretation sound: db_preorder sound
  by unfold_locales (fastforce simp: sound_def ids_grow_def ledgers_grow_def grows_def)+

text \<open>A constraint of a table holds as long as its rows stay and the rows they refer to do.\<close>

lemma fk_mono: "fk ids x \<Longrightarrow> set ids \<subseteq> set ids' \<Longrightarrow> fk ids' x"
  by (auto simp: fk_def split: option.splits)

lemma no_violation:
  "first_violation [] = None"
  "first_violation ((b, c) # cs) = None \<longleftrightarrow> \<not> b \<and> first_violation cs = None"
  by simp_all

declare first_violation_simps [simp del]

lemma refs_grow:
  assumes "ids_grow d d'"
  shows "i \<in> set (plant_ids d) \<Longrightarrow> i \<in> set (plant_ids d')" "i \<in> set (user_ids d) \<Longrightarrow> i \<in> set (user_ids d')"
    "i \<in> set (shift_ids d) \<Longrightarrow> i \<in> set (shift_ids d')" "i \<in> set (ticket_ids d) \<Longrightarrow> i \<in> set (ticket_ids d')"
    "fk (plant_ids d) x \<Longrightarrow> fk (plant_ids d') x" "fk (user_ids d) x \<Longrightarrow> fk (user_ids d') x"
    "fk (shift_ids d) x \<Longrightarrow> fk (shift_ids d') x" "fk (ticket_ids d) x \<Longrightarrow> fk (ticket_ids d') x"
    "fk (pump_ids d) x \<Longrightarrow> fk (pump_ids d') x" "fk (price_ids d) x \<Longrightarrow> fk (price_ids d') x"
  using assms by (auto simp: ids_grow_def elim: fk_mono)

lemma tenants_kept:
  assumes "ids_grow d d'"
  shows "users_viol d = None \<Longrightarrow> db_users d' = db_users d \<Longrightarrow> users_viol d' = None"
    "prices_viol d = None \<Longrightarrow> db_prices d' = db_prices d \<Longrightarrow> prices_viol d' = None"
    "shifts_viol d = None \<Longrightarrow> db_shifts d' = db_shifts d \<Longrightarrow> shifts_viol d' = None"
    "cash_viol d = None \<Longrightarrow> db_cash d' = db_cash d \<Longrightarrow> cash_viol d' = None"
    "log_viol d = None \<Longrightarrow> db_log d' = db_log d \<Longrightarrow> log_viol d' = None"
    "pumps_viol d = None \<Longrightarrow> db_pumps d' = db_pumps d \<Longrightarrow> pumps_viol d' = None"
    "hours_viol d = None \<Longrightarrow> db_hours d' = db_hours d \<Longrightarrow> hours_viol d' = None"
    "reviews_viol d = None \<Longrightarrow> db_reviews d' = db_reviews d \<Longrightarrow> reviews_viol d' = None"
  by (auto simp: users_viol_def prices_viol_def shifts_viol_def cash_viol_def log_viol_def pumps_viol_def
      hours_viol_def reviews_viol_def no_violation intro: refs_grow [OF assms])

lemma tickets_kept:
  assumes "ids_grow d d'" "tickets_viol d = None" "db_tickets d' = db_tickets d"
  shows "tickets_viol d' = None"
proof -
  have "ticket_fks d t \<Longrightarrow> ticket_fks d' t" for t
    by (auto simp: ticket_fks_def intro: refs_grow [OF assms(1)])
  with assms(2,3) show ?thesis by (auto simp: tickets_viol_def no_violation)
qed

lemma platform_kept:
  "plants_viol d = None \<Longrightarrow> db_plants d' = db_plants d \<Longrightarrow> plants_viol d' = None"
  "buyers_viol d = None \<Longrightarrow> db_buyers d' = db_buyers d \<Longrightarrow> buyers_viol d' = None"
  by (simp_all add: plants_viol_def buyers_viol_def)

lemma soundI:
  assumes "ids_grow d d'" "ledgers_grow d d'"
    and "plants_viol d' = None \<or> db_plants d' = db_plants d" "users_viol d' = None \<or> db_users d' = db_users d"
    "prices_viol d' = None \<or> db_prices d' = db_prices d" "shifts_viol d' = None \<or> db_shifts d' = db_shifts d"
    "tickets_viol d' = None \<or> db_tickets d' = db_tickets d" "cash_viol d' = None \<or> db_cash d' = db_cash d"
    "log_viol d' = None \<or> db_log d' = db_log d" "pumps_viol d' = None \<or> db_pumps d' = db_pumps d"
    "hours_viol d' = None \<or> db_hours d' = db_hours d" "reviews_viol d' = None \<or> db_reviews d' = db_reviews d"
    "buyers_viol d' = None \<or> db_buyers d' = db_buyers d"
  shows "sound d d'"
proof -
  have "plants_viol d = None \<Longrightarrow> plants_viol d' = None" "buyers_viol d = None \<Longrightarrow> buyers_viol d' = None"
    using assms(3,13) platform_kept [of d d'] by blast+
  moreover have "users_viol d = None \<Longrightarrow> users_viol d' = None" "prices_viol d = None \<Longrightarrow> prices_viol d' = None"
    "shifts_viol d = None \<Longrightarrow> shifts_viol d' = None" "tickets_viol d = None \<Longrightarrow> tickets_viol d' = None"
    "cash_viol d = None \<Longrightarrow> cash_viol d' = None" "log_viol d = None \<Longrightarrow> log_viol d' = None"
    using assms(4-9) tenants_kept(1-5) [OF assms(1)] tickets_kept [OF assms(1)] by blast+
  moreover have "pumps_viol d = None \<Longrightarrow> pumps_viol d' = None" "hours_viol d = None \<Longrightarrow> hours_viol d' = None"
    "reviews_viol d = None \<Longrightarrow> reviews_viol d' = None"
    using assms(10-12) tenants_kept(6-8) [OF assms(1)] by blast+
  ultimately show ?thesis
    using assms(1,2) by (simp add: sound_def schema_ok_def)
qed

section \<open>Statements on one table\<close>

text \<open>
  \<open>refd\<close>: rows of other tables refer to the rows of this one by \<open>ident\<close>; \<open>ledger\<close>: the table is
  only ever appended to.
\<close>

locale schema_table =
  fixes T :: "'r tab" and ident :: "'r \<Rightarrow> uuid" and refd ledger :: bool
  assumes read_back: "t_rows T (t_put T rs d) = rs"
    and touch_ident: "ident (t_touch T n r) = ident r"
    and change: "t_viol T (t_put T rs d) = None \<Longrightarrow>
      (refd \<Longrightarrow> ident ` set (t_rows T d) \<subseteq> ident ` set rs) \<Longrightarrow>
      (ledger \<Longrightarrow> \<exists>new. rs = t_rows T d @ new) \<Longrightarrow> sound d (t_put T rs d)"
begin

lemma sound_insert: "keeps sound (exec_insert T mk)"
  by (rule sound.keeps_insert) (auto intro!: change)

lemma sound_insert_when: "keeps sound (exec_insert_when T C mk)"
  by (rule sound.keeps_insert_when) (auto intro!: change)

lemma sound_change:
  assumes "checked T a (t_put T rs (w_db w)) = Inr (a', d)"
    "refd \<Longrightarrow> ident ` set (t_rows T (w_db w)) \<subseteq> ident ` set rs" "\<not> ledger"
  shows "sound (w_db w) d"
  using assms change [of rs "w_db w"] by (auto simp: checked_def split: option.splits)

lemma ident_upd_where:
  "(\<And>r. ident (f r) = ident r) \<Longrightarrow> ident ` set rs \<subseteq> ident ` set (upd_where P f rs)"
  using map_upd_where [of rs P ident f] by (metis list.set_map order_refl)

lemma sound_update:
  assumes "\<not> ledger" "\<And>n r. ident (f n r) = ident r"
  shows "keeps sound (exec_update T P f)"
  unfolding exec_update_def Let_def
  by (intro sound.keeps_exec_stmt, erule sound_change)
    (simp_all add: ident_upd_where touch_ident assms)

lemma sound_upsert:
  assumes "\<not> ledger" "\<And>r. ident (f r) = ident r"
  shows "keeps sound (exec_upsert T key mk f)"
  unfolding exec_upsert_def Let_def
  by (intro sound.keeps_exec_stmt)
    (auto split: if_splits elim!: sound_change simp: assms(1) touch_ident assms(2)
      intro: subsetD [OF ident_upd_where])

lemma sound_delete:
  assumes "\<not> ledger" "\<not> refd"
  shows "keeps sound (exec_delete T P)"
  unfolding exec_delete_def Let_def
  by (intro sound.keeps_exec_stmt, erule sound_change) (simp_all add: assms)

end

lemmas growth_defs = ids_grow_def id_list_defs ledgers_grow_def grows_def

lemma buyers_tab_simps [simp]:
  "t_rows buyers_tab = db_buyers" "t_put buyers_tab rs d = d\<lparr>db_buyers := rs\<rparr>" "t_plant buyers_tab r = None"
  "t_viol buyers_tab = buyers_viol" "t_touch buyers_tab n r = r"
  by (simp_all add: buyers_tab_def)

interpretation plants_st: schema_table plants_tab pl_ID True False
  by unfold_locales (auto intro!: soundI simp: growth_defs)
interpretation users_st: schema_table users_tab us_ID True False
  by unfold_locales (auto intro!: soundI simp: growth_defs)
interpretation prices_st: schema_table prices_tab pr_ID True True
  by unfold_locales (auto intro!: soundI simp: growth_defs)
interpretation shifts_st: schema_table shifts_tab sh_ID True False
  by unfold_locales (auto intro!: soundI simp: growth_defs)
interpretation tickets_st: schema_table tickets_tab tk_ID True False
  by unfold_locales (auto intro!: soundI simp: growth_defs)
interpretation cash_st: schema_table cash_tab cm_ID False True
  by unfold_locales (auto intro!: soundI simp: growth_defs)
interpretation log_st: schema_table log_tab al_ID False True
  by unfold_locales (auto intro!: soundI simp: growth_defs)
interpretation pumps_st: schema_table pumps_tab pu_ID True False
  by unfold_locales (auto intro!: soundI simp: growth_defs)
interpretation hours_st: schema_table hours_tab ph_ID False False
  by unfold_locales (auto intro!: soundI simp: growth_defs)
interpretation reviews_st: schema_table reviews_tab rv_ID False False
  by unfold_locales (auto intro!: soundI simp: growth_defs)
interpretation buyers_st: schema_table buyers_tab by_ID False False
  by unfold_locales (auto intro!: soundI simp: growth_defs)

lemmas sound_statements [keeps_rules] =
  plants_st.sound_insert users_st.sound_insert prices_st.sound_insert shifts_st.sound_insert
  tickets_st.sound_insert cash_st.sound_insert log_st.sound_insert pumps_st.sound_insert
  hours_st.sound_insert reviews_st.sound_insert buyers_st.sound_insert
  pumps_st.sound_insert_when reviews_st.sound_insert_when
  plants_st.sound_update users_st.sound_update shifts_st.sound_update tickets_st.sound_update
  pumps_st.sound_update reviews_st.sound_update hours_st.sound_upsert hours_st.sound_delete

end
