(* ===== verification/ChangeLaws.thy ===== *)
theory ChangeLaws
  imports SchemaLaws
begin

text \<open>
  Every operation and every transaction of the program, a tenant's or the administrator's,
  changes the database soundly (\<open>sound\<close>) and moves every ticket along its life cycle
  (\<open>tickets_evolve\<close>), whether it succeeds or fails. The proofs follow the code with the rules of
  \<open>keeps_rules\<close>.
\<close>

lemma life_buyers [keeps_rules]: "keeps tickets_evolve (exec_insert buyers_tab mk)"
  by (rule life_any) simp

lemma keeps_status_case [keeps_rules]:
  "keeps R a \<Longrightarrow> keeps R b \<Longrightarrow> keeps R c \<Longrightarrow> keeps R d \<Longrightarrow> keeps R e \<Longrightarrow> keeps R f \<Longrightarrow> keeps R g \<Longrightarrow> keeps R h \<Longrightarrow>
   keeps R (case s of Pending \<Rightarrow> a | Paid \<Rightarrow> b | Dispensing \<Rightarrow> c | Filled \<Rightarrow> d
     | Issue \<Rightarrow> e | Cancelled \<Rightarrow> f | Expired \<Rightarrow> g | Voided \<Rightarrow> h)"
  by (cases s) auto

section \<open>Operations\<close>

lemma sound_Log [keeps_rules]: "keeps sound (Log q a act s d)"
  unfolding Log_def by (intro keeps_rules)

lemma keeps_row_results [keeps_rules]:
  "keeps sound (not_empty_or m rs)" "keeps sound (returning_one f m xs)" "keeps tickets_evolve (returning_one f m xs)"
  unfolding not_empty_or_def returning_one_def
  by (cases xs; auto intro: keeps_rules)+

lemma sound_purchase_attempts [keeps_rules]: "keeps sound (purchase_attempts params reference paidAt n)"
  by (induction n) (auto simp: NewCode_def intro!: keeps_rules)

lemma sound_Tickets [keeps_rules]:
  "keeps sound (Purchase params)" "keeps sound (CreatePending params)" "keeps sound (CreatePaidCash params s h)"
  "keeps sound (StartDispensing q t a)" "keeps sound (CloseFilled q t s a note)"
  "keeps sound (BulkCloseFilled q i s a note)" "keeps sound (Fill q t s)" "keeps sound (MarkPaid q t)"
  "keeps sound (Void q t a reason)" "keeps sound (Confirm q ref ph)"
  unfolding CreatePending_def CreatePaidCash_def Purchase_def NewReference_def randomHex_def StartDispensing_def
    CloseFilled_def BulkCloseFilled_def Fill_def MarkPaid_def Void_def Confirm_def close_row_def
  by (intro keeps_rules; simp)+

lemma sound_ticket_reads [keeps_rules]:
  "keeps sound (Redeem q c)" "keeps sound (ListByPhone q ph)" "keeps sound (GetReceipt q ref ph)"
  "keeps sound (ListDispensingForPump q i)"
  unfolding Redeem_def ListByPhone_def GetReceipt_def ListDispensingForPump_def
  by (intro keeps_rules)+

lemma keeps_Shifts [keeps_rules]:
  "keeps sound (findOpen q u)" "keeps tickets_evolve (findOpen q u)"
  "keeps sound (StartOrResume q u cash dev pump)" "keeps tickets_evolve (StartOrResume q u cash dev pump)"
  "keeps sound (Close q s u cash notes)" "keeps tickets_evolve (Close q s u cash notes)"
  "keeps sound (Summary q s)" "keeps tickets_evolve (Summary q s)"
  unfolding findOpen_def StartOrResume_def Close_def Summary_def
  by (intro keeps_rules; simp)+

text \<open>The assignment of a pump touches a ticket without one, and no other table.\<close>

lemma assign_stmt_effect:
  assumes "assign_stmt q t w = (r, w')"
  obtains (none) "w_db w' = w_db w"
  | (assigned) i P where "\<And>x. P x \<Longrightarrow> tk_PumpID x = None"
      "w_db w' = w_db w\<lparr>db_tickets := upd_where P (\<lambda>x. x\<lparr>tk_PumpID := Some i, tk_UpdatedAt := w_now w\<rparr>)
         (db_tickets (w_db w))\<rparr>" "tickets_viol (w_db w') = None"
proof -
  let ?free = "\<lambda>x. visible (w_role w) (Some (tk_PlantID x)) \<and> tk_ID x = t \<and> tk_PlantID x = q \<and> tk_PumpID x = None"
  from assms have "w_db w' = w_db w \<or> (\<exists>i. w_db w' = w_db w\<lparr>db_tickets := upd_where ?free
      (\<lambda>x. x\<lparr>tk_PumpID := Some i, tk_UpdatedAt := w_now w\<rparr>) (db_tickets (w_db w))\<rparr> \<and> tickets_viol (w_db w') = None)"
    by (auto simp: assign_stmt_def exec_stmt_def checked_def Let_def split: if_splits option.splits sum.splits prod.splits)
  then show thesis
    using none assigned [of ?free] by blast
qed

lemma keeps_assign_stmt [keeps_rules]:
  "keeps sound (assign_stmt q t)" "keeps tickets_evolve (assign_stmt q t)"
proof -
  have "sound (w_db w) (w_db w') \<and> tickets_evolve (w_db w) (w_db w')" if "assign_stmt q t w = (r, w')" for w r w'
    using that
  proof (cases rule: assign_stmt_effect)
    case none
    then show ?thesis by (simp add: sound.refl life.refl)
  next
    case (assigned i P)
    let ?g = "\<lambda>x. x\<lparr>tk_PumpID := Some i, tk_UpdatedAt := w_now w\<rparr>"
    have "sound (w_db w) (t_put tickets_tab (upd_where P ?g (db_tickets (w_db w))) (w_db w))"
      using assigned(2,3) tickets_st.ident_upd_where [of ?g "db_tickets (w_db w)" P]
      by (intro tickets_st.change) simp_all
    moreover have "tickets_evolve (w_db w) (w_db w\<lparr>db_tickets := upd_where P ?g (db_tickets (w_db w))\<rparr>)"
      using assigned(1) by (intro evolve_update tstep.assign)
    ultimately show ?thesis using assigned(2) by simp
  qed
  then show "keeps sound (assign_stmt q t)" "keeps tickets_evolve (assign_stmt q t)"
    by (auto simp: keeps_def) (metis prod.collapse)+
qed

lemma life_insert_pumps [keeps_rules]: "keeps tickets_evolve (exec_insert_when pumps_tab C mk)"
  by (rule life_any) simp

lemma keeps_Pumps [keeps_rules]:
  "keeps sound (EnsureDefault q)" "keeps tickets_evolve (EnsureDefault q)"
  "keeps sound (pumps_List q)" "keeps tickets_evolve (pumps_List q)"
  "keeps sound (AssignLeastBusy q t)" "keeps tickets_evolve (AssignLeastBusy q t)"
  "keeps sound (ValidateShiftPump q i u)" "keeps tickets_evolve (ValidateShiftPump q i u)"
  "keeps sound (Upsert q j n st so)" "keeps tickets_evolve (Upsert q j n st so)"
  unfolding EnsureDefault_def pumps_List_def AssignLeastBusy_def ValidateShiftPump_def Upsert_def Let_def
  by (intro keeps_rules; simp)+

lemma keeps_HashPassword [keeps_rules]:
  "keeps sound (HashPassword bc pw)" "keeps tickets_evolve (HashPassword bc pw)"
  by (simp_all add: HashPassword_def keeps_def sound.refl life.refl)

lemma keeps_Staff [keeps_rules]:
  "keeps sound (prices_Set q k u)" "keeps tickets_evolve (prices_Set q k u)"
  "keeps sound (loadCurrentPrice q)" "keeps tickets_evolve (loadCurrentPrice q)"
  "keeps sound (pinAlreadyUsed bc q pin)" "keeps tickets_evolve (pinAlreadyUsed bc q pin)"
  "keeps sound (staff_Create bc q params)" "keeps tickets_evolve (staff_Create bc q params)"
  "keeps sound (staff_SetActive q u b)" "keeps tickets_evolve (staff_SetActive q u b)"
  unfolding prices_Set_def loadCurrentPrice_def pinAlreadyUsed_def staff_Create_def staff_SetActive_def Let_def
  by (intro keeps_rules; simp)+

lemma keeps_request_attempts [keeps_rules]:
  "keeps sound (request_attempts q t n)" "keeps tickets_evolve (request_attempts q t n)"
  by (induction n) (auto simp: newToken_def select_request_def intro!: keeps_rules)

lemma keeps_Reviews [keeps_rules]:
  "keeps sound (EnsureRequest q t)" "keeps tickets_evolve (EnsureRequest q t)"
  "keeps sound (GetTarget q tok)" "keeps tickets_evolve (GetTarget q tok)"
  "keeps sound (Submit q tok n note)" "keeps tickets_evolve (Submit q tok n note)"
  unfolding EnsureRequest_def select_request_def GetTarget_def Submit_def Let_def
  by (intro keeps_rules; simp)+

lemma keeps_insert_segments [keeps_rules]:
  "keeps sound (insert_segments q ss)" "keeps tickets_evolve (insert_segments q ss)"
  by (induction ss) (auto intro!: keeps_rules)

lemma keeps_Hours [keeps_rules]:
  "keeps sound (StatusNow L q tz)" "keeps tickets_evolve (StatusNow L q tz)"
  "keeps sound (ReplaceWeek q ss)" "keeps tickets_evolve (ReplaceWeek q ss)"
  unfolding StatusNow_def ReplaceWeek_def Let_def by (intro keeps_rules; simp)+

section \<open>Transactions of tenants\<close>

lemma keeps_wrap_error [keeps_rules]:
  "keeps sound m \<Longrightarrow> keeps sound (wrap_error msg m)"
  "keeps tickets_evolve m \<Longrightarrow> keeps tickets_evolve (wrap_error msg m)"
  unfolding wrap_error_def by (intro keeps_rules; assumption)+

lemma keeps_customer_tx [keeps_rules]:
  "keeps sound (buyGas_tx L plant a c n ph)" "keeps tickets_evolve (buyGas_tx L plant a c n ph)"
  "keeps sound (callback_tx q ref v)" "keeps tickets_evolve (callback_tx q ref v)"
  "keeps sound (webhook_tx q t ref x)" "keeps tickets_evolve (webhook_tx q t ref x)"
  "keeps sound (void_tx q ref u reason)" "keeps tickets_evolve (void_tx q ref u reason)"
  "keeps sound (confirm_tx q ref ph)" "keeps tickets_evolve (confirm_tx q ref ph)"
  "keeps sound (review_tx q tok rating note)" "keeps tickets_evolve (review_tx q tok rating note)"
  unfolding buyGas_tx_def callback_tx_def webhook_tx_def void_tx_def confirm_tx_def review_tx_def Let_def
  by (intro keeps_rules)+

lemma keeps_terminal_parts [keeps_rules]:
  "keeps sound (terminalManagerCan q u perm)" "keeps tickets_evolve (terminalManagerCan q u perm)"
  "keeps sound (listTerminalManageStaff q)" "keeps tickets_evolve (listTerminalManageStaff q)"
  "keeps sound (shiftCashHeld q s)" "keeps tickets_evolve (shiftCashHeld q s)"
  "keeps sound (shift_pump_name q i)" "keeps tickets_evolve (shift_pump_name q i)"
  "keeps sound (assign_or_none q t)" "keeps tickets_evolve (assign_or_none q t)"
  "keeps sound (fill_texts q t)" "keeps tickets_evolve (fill_texts q t)"
  unfolding terminalManagerCan_def listTerminalManageStaff_def shiftCashHeld_def shift_pump_name_def
    assign_or_none_def fill_texts_def
  by (intro keeps_rules)+

lemma keeps_terminal_tx [keeps_rules]:
  "keeps sound (start_shift_tx q u cash dev pump)" "keeps tickets_evolve (start_shift_tx q u cash dev pump)"
  "keeps sound (fill_tx url plant t actor)" "keeps tickets_evolve (fill_tx url plant t actor)"
  "keeps sound (cashSale_tx L plant u s amt ph)" "keeps tickets_evolve (cashSale_tx L plant u s amt ph)"
  "keeps sound (closeReceipt_tx q t s u note)" "keeps tickets_evolve (closeReceipt_tx q t s u note)"
  "keeps sound (bulkClose_tx q i s u note)" "keeps tickets_evolve (bulkClose_tx q i s u note)"
  "keeps sound (pump_tx q u j n st so)" "keeps tickets_evolve (pump_tx q u j n st so)"
  "keeps sound (staffStatus_tx q a u b)" "keeps tickets_evolve (staffStatus_tx q a u b)"
  "keeps sound (setPrice_tx q u k)" "keeps tickets_evolve (setPrice_tx q u k)"
  "keeps sound (shiftEnd_tx q s u cash notes)" "keeps tickets_evolve (shiftEnd_tx q s u cash notes)"
  unfolding start_shift_tx_def fill_tx_def cashSale_tx_def closeReceipt_tx_def bulkClose_tx_def pump_tx_def
    staffStatus_tx_def setPrice_tx_def shiftEnd_tx_def Let_def
  by (intro keeps_rules)+

lemma keeps_owner_tx [keeps_rules]:
  "keeps sound (ownerSetPrice_tx q u k)" "keeps tickets_evolve (ownerSetPrice_tx q u k)"
  "keeps sound (createStaff_tx bc q u params)" "keeps tickets_evolve (createStaff_tx bc q u params)"
  "keeps sound (ownerStaffStatus_tx q a u b)" "keeps tickets_evolve (ownerStaffStatus_tx q a u b)"
  "keeps sound (permissions_tx q a u x y z)" "keeps tickets_evolve (permissions_tx q a u x y z)"
  "keeps sound (hours_tx q a ss)" "keeps tickets_evolve (hours_tx q a ss)"
  "keeps sound (ownerPump_tx q a i n st so)" "keeps tickets_evolve (ownerPump_tx q a i n st so)"
  "keeps sound (settings_tx q a n c ad ph cols logo)" "keeps tickets_evolve (settings_tx q a n c ad ph cols logo)"
  "keeps sound (changePassword_tx bc q u cur new)" "keeps tickets_evolve (changePassword_tx bc q u cur new)"
  "keeps sound (reset_tx q u h)" "keeps tickets_evolve (reset_tx q u h)"
  unfolding ownerSetPrice_tx_def createStaff_tx_def ownerStaffStatus_tx_def permissions_tx_def hours_tx_def
    ownerPump_tx_def settings_tx_def changePassword_tx_def reset_tx_def Let_def
  by (intro keeps_rules; simp)+

section \<open>Pages\<close>

lemma keeps_lists [keeps_rules]:
  "keeps sound (Stats q)" "keeps tickets_evolve (Stats q)"
  "keeps sound (reviews_List q k)" "keeps tickets_evolve (reviews_List q k)"
  "keeps sound (Week q)" "keeps tickets_evolve (Week q)"
  "keeps sound (ListStaff q)" "keeps tickets_evolve (ListStaff q)"
  "keeps sound (OpenShiftStarts q)" "keeps tickets_evolve (OpenShiftStarts q)"
  unfolding Stats_def reviews_List_def Week_def ListStaff_def OpenShiftStarts_def Let_def by (intro keeps_rules)+

lemma keeps_loads [keeps_rules]:
  "keeps sound m \<Longrightarrow> keeps sound (loaded m)" "keeps tickets_evolve m \<Longrightarrow> keeps tickets_evolve (loaded m)"
  "keeps sound (reviews_with f k q)" "keeps tickets_evolve (reviews_with f k q)"
  "keeps sound (loadOwnerReviews plant)" "keeps tickets_evolve (loadOwnerReviews plant)"
  "keeps sound (loadTerminalReviews plant)" "keeps tickets_evolve (loadTerminalReviews plant)"
  "keeps sound (loadOwnerTickets q)" "keeps tickets_evolve (loadOwnerTickets q)"
  "keeps sound (loadOwnerStaff q)" "keeps tickets_evolve (loadOwnerStaff q)"
  "keeps sound (loadOwnerShifts q)" "keeps tickets_evolve (loadOwnerShifts q)"
  "keeps sound (loadOwnerCashMovements q)" "keeps tickets_evolve (loadOwnerCashMovements q)"
  "keeps sound (loadOwnerPriceHistory q)" "keeps tickets_evolve (loadOwnerPriceHistory q)"
  "keeps sound (loadOwnerHours q)" "keeps tickets_evolve (loadOwnerHours q)"
  "keeps sound (loadOwnerPumps q)" "keeps tickets_evolve (loadOwnerPumps q)"
  "keeps sound (loadActivity i n)" "keeps tickets_evolve (loadActivity i n)"
  "keeps sound (loadPlantProfile q)" "keeps tickets_evolve (loadPlantProfile q)"
  "keeps sound (loadDaySales q)" "keeps tickets_evolve (loadDaySales q)"
  "keeps sound (latest_price q)" "keeps tickets_evolve (latest_price q)"
  unfolding loaded_def reviews_with_def loadOwnerReviews_def loadTerminalReviews_def loadOwnerTickets_def
    loadOwnerStaff_def loadOwnerShifts_def loadOwnerCashMovements_def loadOwnerPriceHistory_def loadOwnerHours_def
    loadOwnerPumps_def loadActivity_def loadPlantProfile_def loadDaySales_def latest_price_def Let_def
  by (intro keeps_rules; assumption?)+

lemma keeps_page_tx [keeps_rules]:
  "keeps sound (loadOwnerDashboard plant)" "keeps tickets_evolve (loadOwnerDashboard plant)"
  "keeps sound (terminal_tx plant)" "keeps tickets_evolve (terminal_tx plant)"
  unfolding loadOwnerDashboard_def terminal_tx_def Let_def
  by (intro keeps_rules)+

section \<open>Transactions of the administrator\<close>

lemma keeps_advisory_lock [keeps_rules]: "keeps sound advisory_lock" "keeps tickets_evolve advisory_lock"
  unfolding advisory_lock_def
  by (rule sound.keeps_exec_stmt life.keeps_exec_stmt; simp add: sound.refl life.refl)+

lemma keeps_admin_tx [keeps_rules]:
  "keeps sound (create_tx p v h actor)" "keeps tickets_evolve (create_tx p v h actor)"
  "keeps sound (setStatus_tx i st a)" "keeps tickets_evolve (setStatus_tx i st a)"
  "keeps sound (settlement_tx i n c a)" "keeps tickets_evolve (settlement_tx i n c a)"
  "keeps sound (messaging_tx i sid a)" "keeps tickets_evolve (messaging_tx i sid a)"
  "keeps sound (signup_tx n key e s src)" "keeps tickets_evolve (signup_tx n key e s src)"
  unfolding create_tx_def founding_rank_def setStatus_tx_def settlement_tx_def messaging_tx_def signup_tx_def Let_def
  by (intro keeps_rules; simp)+

lemma keeps_operator_tx [keeps_rules]:
  "keeps sound (create_admin_tx nm ph e h)" "keeps tickets_evolve (create_admin_tx nm ph e h)"
  "keeps sound (delete_admin_tx ph)" "keeps tickets_evolve (delete_admin_tx ph)"
  unfolding create_admin_tx_def delete_admin_tx_def
  by (intro keeps_rules; simp)+

end
