(* ===== verification/Console.thy ===== *)
theory Console
  imports Dashboard ServerMarketing
begin

text \<open>
  The administrator's console (\<^verbatim>\<open>cmd/server/main.go\<close>, lines 1292 to 1540), a plant's detail page
  (\<^verbatim>\<open>admin_plant_detail.go\<close>) and the export of the waiting list (\<^verbatim>\<open>admin_buyers.go\<close>). Each query
  runs on the pool that bypasses row-level security, in a transaction of its own, so that one
  that fails leaves only its own part of the page empty.
\<close>

section \<open>Plants\<close>

definition plant_tickets :: "db \<Rightarrow> uuid \<Rightarrow> ticket list" where
  "plant_tickets d i = filter (\<lambda>t. tk_PlantID t = i) (db_tickets d)"

definition created_times :: "db \<Rightarrow> uuid \<Rightarrow> time list" where
  "created_times d i = map tk_CreatedAt (plant_tickets d i)"

text \<open>\<^verbatim>\<open>MIN\<close> and \<^verbatim>\<open>MAX\<close>, null on no rows.\<close>

definition earliest :: "time list \<Rightarrow> time option" where
  "earliest ts = (case ts of [] \<Rightarrow> None | t # r \<Rightarrow> Some (foldl min t r))"

definition latest :: "time list \<Rightarrow> time option" where
  "latest ts = (case ts of [] \<Rightarrow> None | t # r \<Rightarrow> Some (foldl max t r))"

definition tickets_7d :: "env \<Rightarrow> time \<Rightarrow> ticket list \<Rightarrow> nat" where
  "tickets_7d v now ts = count_where (\<lambda>t. e_days_ago v 7 now \<le> tk_CreatedAt t) ts"

definition volume_30d :: "env \<Rightarrow> time \<Rightarrow> ticket list \<Rightarrow> int" where
  "volume_30d v now ts = sum_over tk_SizeGrams
     (filter (\<lambda>t. e_days_ago v 30 now \<le> tk_CreatedAt t \<and> tk_Status t \<noteq> Voided) ts)"

definition first_owner :: "db \<Rightarrow> uuid \<Rightarrow> user_row option" where
  "first_owner d i = first_by us_CreatedAt (filter (\<lambda>u. us_PlantID u = i \<and> us_Role u = ''owner'') (db_users d))"

definition owner_field :: "(user_row \<Rightarrow> string) \<Rightarrow> user_row option \<Rightarrow> string" where
  "owner_field f ow = (case ow of None \<Rightarrow> '''' | Some u \<Rightarrow> f u)"

definition first_txn :: "env \<Rightarrow> time list \<Rightarrow> string" where
  "first_txn v ts = (case earliest ts of None \<Rightarrow> ''No transaction yet'' | Some t \<Rightarrow> date_text v t)"

definition last_txn :: "env \<Rightarrow> time list \<Rightarrow> string" where
  "last_txn v ts = (case latest ts of None \<Rightarrow> ''No transaction yet'' | Some t \<Rightarrow> short_time v t)"

definition plant_domain :: "plant_row \<Rightarrow> string" where
  "plant_domain p = (if blank (pl_CustomDomain p) = '''' then pl_Slug p @ ''.gatstogo.local''
     else blank (pl_CustomDomain p))"

definition raw_status :: "plant_row \<Rightarrow> string" where
  "raw_status p = ToLower (fallbackString (pl_Status p) ''provisioning'')"

definition or_text :: "string \<Rightarrow> string \<Rightarrow> string" where
  "or_text s fallback = (if s = '''' then fallback else s)"

definition domain_fields :: "plant_row \<Rightarrow> (string \<times> json) list" where
  "domain_fields p =
     (let st = ToUpper (fallbackString (pl_DomainStatus p) ''none'')
      in [(''Domain'', JStr (plant_domain p)), (''DomainStatus'', JStr st), (''DomainBadge'', JStr (badgeForDomain st))])"

definition count_fields :: "env \<Rightarrow> time \<Rightarrow> db \<Rightarrow> plant_row \<Rightarrow> (string \<times> json) list" where
  "count_fields v now d p =
     (let i = pl_ID p; ts = plant_tickets d i in
      [(''FirstTxn'', JStr (first_txn v (created_times d i))),
       (''Txns7d'', JInt (int (tickets_7d v now ts))),
       (''Volume30d'', JStr (formatKg (volume_30d v now ts))),
       (''LastTxn'', JStr (last_txn v (created_times d i))),
       (''StaffCount'', JInt (int (count_where (\<lambda>u. us_PlantID u = i) (db_users d)))),
       (''PriceCount'', JInt (int (count_where (\<lambda>x. pr_PlantID x = i) (db_prices d)))),
       (''OpenShifts'', JInt (int (count_where (\<lambda>s. sh_PlantID s = i \<and> sh_ClosedAt s = None) (db_shifts d)))),
       (''CreatedAt'', JStr (date_text v (pl_CreatedAt p))), (''UpdatedAt'', JStr (date_text v (pl_UpdatedAt p)))])"

definition admin_plant_row :: "env \<Rightarrow> time \<Rightarrow> db \<Rightarrow> plant_row \<Rightarrow> string \<times> json" where
  "admin_plant_row v now d p =
     (let raw = raw_status p; ow = first_owner d (pl_ID p) in
      (raw, JObj ([(''ID'', JUuid (pl_ID p)), (''RawStatus'', JStr raw),
        (''Name'', JStr (fallbackString (pl_Name p) ''Unnamed plant'')), (''Slug'', JStr (pl_Slug p)),
        (''City'', JStr (or_text (blank (pl_City p)) ''Coming soon'')),
        (''Address'', JStr (or_text (blank (pl_Address p)) ''Address coming soon'')),
        (''Phone'', JStr (or_text (blank (pl_Phone p)) ''Phone coming soon'')),
        (''OwnerName'', JStr (fallbackString (owner_field us_Name ow) ''Owner name coming soon'')),
        (''OwnerPhone'', JStr (fallbackString (owner_field us_Phone ow) ''Owner phone coming soon'')),
        (''OwnerEmail'', JStr (fallbackString (owner_field (\<lambda>u. blank (us_Email u)) ow) ''Owner email coming soon'')),
        (''LegalName'', JStr (fallbackString (blank (pl_LegalBusinessName p)) ''Legal name coming soon'')),
        (''CACNumber'', JStr (fallbackString (blank (pl_CACNumber p)) ''CAC number coming soon'')),
        (''NMDPRALicense'', JStr (fallbackString (blank (pl_NMDPRALicenseNumber p)) ''NMDPRA license coming soon'')),
        (''Status'', JStr (plantStatusLabel raw)), (''BadgeCSS'', JStr (badgeForStatus raw)),
        (''ActivityCount'', JInt (int (count_where (\<lambda>l. al_PlantID l = Some (pl_ID p)) (db_log d))))]
       @ domain_fields p @ count_fields v now d p)))"

text \<open>The newest forty plants, each with its status.\<close>

definition loadAdminPlants :: "(string \<times> json) list act" where
  "loadAdminPlants = loaded (on_admin_pool (query_at (\<lambda>v now d.
     map (admin_plant_row v now d) (newest pl_CreatedAt 40 (db_plants d)))))"

section \<open>The feed and the lists\<close>

definition admin_of :: "db \<Rightarrow> activity_log \<Rightarrow> user_row option" where
  "admin_of d l = first_row (\<lambda>u. Some (us_ID u) = al_ActorID l \<and> us_Role u = ''admin'') (db_users d)"

text \<open>What a change of status says instead of its action, with the colour of its badge.\<close>

definition status_change :: "string \<Rightarrow> (string \<times> string) option" where
  "status_change subject =
     (if subject = ''active'' then Some (''Plant activated'', ''badge-ok'')
      else if subject = ''suspended'' then Some (''Plant suspended'', ''badge-warn'')
      else if subject = ''closed'' then Some (''Plant closed'', ''badge-danger'')
      else if subject = ''provisioning'' then Some (''Plant moved to review'', ''badge-muted'')
      else None)"

definition admin_activity_row :: "env \<Rightarrow> db \<Rightarrow> activity_log \<times> user_row \<Rightarrow> json" where
  "admin_activity_row v d lu =
     (let l = fst lu;
          subject = blank (al_Subject l);
          plantName = (case first_row (\<lambda>p. Some (pl_ID p) = al_PlantID l) (db_plants d) of
             None \<Rightarrow> '''' | Some p \<Rightarrow> pl_Name p);
          actor = fallbackString (us_Name (snd lu)) ''Admin'';
          when = short_time v (al_CreatedAt l);
          what = fallbackString plantName subject;
          changed = (al_Action l = ''plant.status_changed'');
          change = (if changed then status_change subject else None)
      in JObj [(''Action'', JStr (case change of None \<Rightarrow> humanizeActivityAction (al_Action l) | Some (a, t) \<Rightarrow> a)),
        (''Detail'', JStr (if what = '''' then actor @ middle_dot @ when
           else actor @ middle_dot @ what @ middle_dot @ when)),
        (''Who'', JStr actor),
        (''What'', JStr (if changed then fallbackString plantName '''' else what)),
        (''When'', JStr when), (''Tone'', JStr (case change of None \<Rightarrow> '''' | Some (a, t) \<Rightarrow> t))])"

definition loadAdminActivity :: "nat \<Rightarrow> json list act" where
  "loadAdminActivity limit = bind ask_env (\<lambda>v. loaded (on_admin_pool (query (\<lambda>d.
     map (admin_activity_row v d)
       (newest (al_CreatedAt \<circ> fst) limit
         (List.map_filter (\<lambda>l. map_option (\<lambda>u. (l, u)) (admin_of d l)) (db_log d)))))))"

definition platform_staff_row :: "user_row \<Rightarrow> json" where
  "platform_staff_row u =
     JObj [(''Name'', JStr (fallbackString (us_Name u) ''Unnamed admin'')),
       (''Phone'', JStr (fallbackString (us_Phone u) ''No phone'')),
       (''Status'', JStr (if us_Active u then ''Active'' else ''Inactive'')), (''Plants'', JInt 1)]"

text \<open>A user has one plant, so that the count of distinct plants is 1.\<close>

definition loadPlatformStaff :: "json list act" where
  "loadPlatformStaff = loaded (on_admin_pool (query (\<lambda>d.
     map platform_staff_row (take 12 (sort_key (\<lambda>u. (\<not> us_Active u, us_Name u))
       (filter (\<lambda>u. us_Role u = ''admin'') (db_users d)))))))"

text \<open>The size of a table; of a name that is not allowed, 0.\<close>

definition table_size :: "db \<Rightarrow> string \<Rightarrow> nat" where
  "table_size d table =
     (if table = ''plants'' then length (db_plants d)
      else if table = ''reserved_slugs'' then length (db_reserved d)
      else if table = ''users'' then length (db_users d)
      else if table = ''prices'' then length (db_prices d)
      else if table = ''plant_hours'' then length (db_hours d)
      else if table = ''pumps'' then length (db_pumps d)
      else if table = ''shifts'' then length (db_shifts d)
      else if table = ''tickets'' then length (db_tickets d)
      else if table = ''plant_reviews'' then length (db_reviews d)
      else if table = ''cash_movements'' then length (db_cash d)
      else if table = ''activity_log'' then length (db_log d)
      else 0)"

definition allowed_tables :: "string list" where
  "allowed_tables = [''plants'', ''reserved_slugs'', ''users'', ''prices'', ''plant_hours'', ''pumps'', ''shifts'',
     ''tickets'', ''plant_reviews'', ''cash_movements'', ''activity_log'']"

definition countRows :: "string \<Rightarrow> nat act" where
  "countRows table =
     (if table \<notin> set allowed_tables then ret 0
      else bind (attempt (on_admin_pool (query (\<lambda>d. table_size d table)))) (\<lambda>r.
        ret (case r of Inl e \<Rightarrow> 0 | Inr n \<Rightarrow> n)))"

definition system_tables :: "(string \<times> string) list" where
  "system_tables =
     [(''plants'', ''Plants''), (''reserved_slugs'', ''Reserved web addresses''), (''users'', ''Staff and owners''),
      (''prices'', ''Prices''), (''plant_hours'', ''Opening hours''), (''pumps'', ''Pumps''),
      (''shifts'', ''Shifts''), (''tickets'', ''Sales''), (''plant_reviews'', ''Reviews''),
      (''cash_movements'', ''Cash movements''), (''activity_log'', ''Activity log'')]"

fun count_tables :: "(string \<times> string) list \<Rightarrow> (string \<times> nat) list act" where
  "count_tables [] = ret []"
| "count_tables ((name, label) # ts) =
     bind (countRows name) (\<lambda>n. bind (count_tables ts) (\<lambda>rest. ret ((label, n) # rest)))"

definition loadSystemTables :: "(string \<times> nat) list act" where
  "loadSystemTables = count_tables system_tables"

definition loadReservedSlugs :: "string list act" where
  "loadReservedSlugs = loaded (on_admin_pool (query (\<lambda>d. take 40 (sort (db_reserved d)))))"

section \<open>The console\<close>

definition plant_counts :: "db \<Rightarrow> (string \<times> json) list" where
  "plant_counts d =
     (let having = (\<lambda>st. JInt (int (count_where (\<lambda>p. pl_Status p = st) (db_plants d)))) in
      [(''PlantCount'', JInt (int (length (db_plants d)))), (''ActiveCount'', having ''active''),
       (''OnboardingCount'', having ''provisioning''), (''SuspendedCount'', having ''suspended''),
       (''ClosedCount'', having ''closed'')])"

definition domain_counts :: "db \<Rightarrow> (string \<times> json) list" where
  "domain_counts d =
     (let having = (\<lambda>st. JInt (int (count_where (\<lambda>p. pl_DomainStatus p = st) (db_plants d)))) in
      [(''DomainPending'', having ''pending''), (''DomainBroken'', having ''broken'')])"

definition ticket_totals :: "env \<Rightarrow> time \<Rightarrow> db \<Rightarrow> nat \<times> int" where
  "ticket_totals v now d = (tickets_7d v now (db_tickets d), volume_30d v now (db_tickets d))"

definition loadAdminConsole :: "(string \<times> json) list act" where
  "loadAdminConsole =
     bind (loaded (on_admin_pool (query plant_counts))) (\<lambda>counts.
     bind (loaded (on_admin_pool (query domain_counts))) (\<lambda>domains.
     bind (attempt (on_admin_pool (query_at ticket_totals))) (\<lambda>r.
     let (tickets7d, volume30d) = (case r of Inl e \<Rightarrow> (0, 0) | Inr x \<Rightarrow> x) in
     bind loadAdminPlants (\<lambda>plants.
     bind (loadAdminActivity 12) (\<lambda>activity.
     ret (counts @ domains
       @ [(''TotalTickets7d'', JInt (int tickets7d)), (''TotalVolume30d'', JStr (formatKg volume30d)),
          (''Plants'', JArr (map snd plants)),
          (''Applications'', JArr (map snd (filter (\<lambda>(raw, row). raw = ''provisioning'') plants))),
          (''RecentActivity'', JArr activity)]))))))"

definition adminErrorMessage :: "string \<Rightarrow> string" where
  "adminErrorMessage code =
     (if code = ''missing'' then ''Fill in every field. Plant name, slug, business details, bank details, owner name, phone, email, password, and a starting price are all required.''
      else if code = ''slug'' then ''Slugs can only contain lowercase letters, numbers, and hyphens, and can'' @ quote @ ''t start or end with a hyphen.''
      else if code = ''reserved-slug'' then ''That slug is reserved and can'' @ quote @ ''t be used for a plant.''
      else if code = ''slug-taken'' then ''That slug is already in use by another plant.''
      else if code = ''price'' then ''Enter a starting price per kg greater than zero.''
      else if code = ''email'' then ''Enter a valid owner email address.''
      else if code = ''bank'' then ''We couldn'' @ quote @ ''t verify that bank account. Double-check the bank and account number, and try again.''
      else if code = ''logo'' then ''That image didn'' @ quote @ ''t work. Use a PNG, JPEG, or WebP file under 2MB, or leave the logo blank for now.''
      else if code = ''plant'' then ''Could not create that plant. Please try again.''
      else if code = ''status'' then ''Could not update that plant'' @ quote @ ''s status.''
      else if code = ''form'' then ''Something went wrong. Please try again.''
      else '''')"

definition adminConsoleHandler :: "'s server \<Rightarrow> Actor option \<Rightarrow> 's handler" where
  "adminConsoleHandler sv actor0 r =
     (case actor0 of None \<Rightarrow> ret (http_error 404 ''Not found'') | Some actor \<Rightarrow>
      bind (db_act loadAdminConsole) (\<lambda>data.
      bind (db_act (BanksWithFallback (sv_Paystack sv))) (\<lambda>banks.
      ret (plain (Page 200 ''AdminConsole'' (data
        @ [(''CSRFToken'', JStr (csrf_token_or_empty sv (ac_Token actor))),
           (''ErrorMessage'', JStr (adminErrorMessage (hr_Query r ''error''))),
           (''Banks'', JArr (map bank_json banks))]))))))"

definition adminLoginPageHandler :: "'s server \<Rightarrow> 's handler" where
  "adminLoginPageHandler sv r =
     bind (EnsurePublicCSRFCookie sv r) (\<lambda>(csrfToken, cookies).
     ret (with_cookies cookies (plain (Page 200 ''AdminLogin''
       [(''error'', JStr ''''), (''csrf'', JStr csrfToken)]))))"

section \<open>A plant's detail page\<close>

definition adminPlantNotice :: "string \<Rightarrow> string \<Rightarrow> string \<times> bool" where
  "adminPlantNotice code detail =
     (if code = ''no-subaccount'' then (''Create the Paystack subaccount before activating this plant, otherwise its payments would not split.'', True)
      else if code = ''subaccount-ok'' then (''Paystack subaccount created. You can now activate this plant.'', False)
      else if code = ''subaccount-missing'' then (''This plant has no bank details on file.'', True)
      else if code = ''resolve-failed''
      then (''Paystack could not verify this bank account: '' @ detail @ ''. Email the owner to confirm the details.'', True)
      else if code = ''create-failed'' then (''Paystack could not create the subaccount: '' @ detail, True)
      else if code = ''save-failed'' then (''The subaccount was created but could not be saved. Try again.'', True)
      else ('''', False))"

definition detail_fields :: "string \<Rightarrow> env \<Rightarrow> time \<Rightarrow> db \<Rightarrow> plant_row \<Rightarrow> (string \<times> json) list" where
  "detail_fields defaultSender v now d p =
     (let raw = raw_status p;
          or_not_yet = (\<lambda>x. JStr (fallbackString (blank x) ''Not yet provided''));
          account = blank (pl_BankAccountNumber p)
      in [(''ID'', JUuid (pl_ID p)), (''Name'', JStr (pl_Name p)), (''Slug'', JStr (pl_Slug p)),
        (''RawStatus'', JStr raw), (''Status'', JStr (plantStatusLabel raw)), (''BadgeCSS'', JStr (badgeForStatus raw)),
        (''City'', JStr (fallbackString (blank (pl_City p)) ''Coming soon'')),
        (''Address'', JStr (fallbackString (blank (pl_Address p)) ''Address coming soon'')),
        (''Phone'', JStr (fallbackString (blank (pl_Phone p)) ''Phone coming soon'')),
        (''TermiiSenderID'', JStr (blank (pl_TermiiSenderID p))),
        (''EffectiveTermiiSenderID'', JStr (fallbackString (TrimSpace (blank (pl_TermiiSenderID p)))
           (fallbackString (TrimSpace defaultSender) ''Project default not configured''))),
        (''State'', or_not_yet (pl_State p)), (''LegalBusinessName'', or_not_yet (pl_LegalBusinessName p)),
        (''CACNumber'', or_not_yet (pl_CACNumber p)), (''NMDPRALicense'', or_not_yet (pl_NMDPRALicenseNumber p)),
        (''BankName'', or_not_yet (pl_BankName p)), (''BankAccountName'', or_not_yet (pl_BankAccountName p)),
        (''SubaccountCode'', or_not_yet (pl_PaystackSubaccountCode p)),
        (''BankAccount'', JStr (if account = '''' then ''Not yet provided'' else maskAccountNumber account)),
        (''FoundingRank'', JInt (case pl_FoundingRank p of None \<Rightarrow> 0 | Some n \<Rightarrow> n))]
       @ domain_fields p @ count_fields v now d p)"

definition owner_fields :: "go_err + (string \<times> string \<times> string) \<Rightarrow> (string \<times> json) list" where
  "owner_fields r =
     (let or_not_yet = (\<lambda>s. JStr (fallbackString s ''Not yet provided''));
          (name, phone, email) = (case r of Inl e \<Rightarrow> ('''', '''', '''') | Inr x \<Rightarrow> x)
      in [(''OwnerName'', or_not_yet name), (''OwnerPhone'', or_not_yet phone), (''OwnerEmail'', or_not_yet email)])"

text \<open>\<open>None\<close> when the plant cannot be loaded. The feed is read on the same pool.\<close>

definition loadAdminPlantDetail :: "string \<Rightarrow> uuid \<Rightarrow> (string \<times> json) list option act" where
  "loadAdminPlantDetail defaultSender plantID =
     bind (attempt (on_admin_pool (query_at (\<lambda>v now d.
       map_option (detail_fields defaultSender v now d) (first_row (\<lambda>p. pl_ID p = plantID) (db_plants d)))))) (\<lambda>r.
     case r of
       Inl e \<Rightarrow> ret None
     | Inr None \<Rightarrow> ret None
     | Inr (Some own) \<Rightarrow>
         bind (attempt (on_admin_pool (query_row (\<lambda>d.
           map_option (\<lambda>u. (us_Name u, us_Phone u, blank (us_Email u))) (first_owner d plantID))))) (\<lambda>ow.
         bind (on_admin_pool (loadActivity (Some plantID) 10)) (\<lambda>activity.
         ret (Some (own @ owner_fields ow @ [(''Activity'', JArr activity)])))))"

definition adminPlantDetailHandler :: "'s server \<Rightarrow> Actor option \<Rightarrow> 's handler" where
  "adminPlantDetailHandler sv actor0 r =
     (case actor0 of None \<Rightarrow> ret (http_error 404 ''Not found'') | Some actor \<Rightarrow>
      bind (db_act ask_env) (\<lambda>v.
      case e_uuid_parse v (hr_URLParam r ''id'') of None \<Rightarrow> ret not_found_page | Some plantID \<Rightarrow>
      bind (db_act (loadAdminPlantDetail (sv_Getenv sv ''TERMII_SENDER_ID'') plantID)) (\<lambda>res.
      case res of
        None \<Rightarrow> ret not_found_page
      | Some data \<Rightarrow>
          let (msg, isError) = adminPlantNotice (hr_Query r ''notice'') (hr_Query r ''detail'') in
          ret (plain (Page 200 ''AdminPlantDetail'' (data
            @ [(''CSRFToken'', JStr (csrf_token_or_empty sv (ac_Token actor))),
               (''Notice'', JStr msg), (''NoticeIsError'', JBool isError)]))))))"

section \<open>The export of the waiting list\<close>

text \<open>\<^verbatim>\<open>encoding/csv\<close>'s writer with its default comma and line end.\<close>

definition csv_quote_char :: char where "csv_quote_char = CHR 0x22"

definition needs_quotes :: "string \<Rightarrow> bool" where
  "needs_quotes f \<longleftrightarrow> f \<noteq> '''' \<and>
     (f = [CHR 0x5C, CHR ''.''] \<or> set f \<inter> {CHR '','', csv_quote_char, CHR 0x0D, CHR 0x0A} \<noteq> {}
      \<or> space_at f \<noteq> 0)"

definition csv_field :: "string \<Rightarrow> string" where
  "csv_field f =
     (if \<not> needs_quotes f then f
      else csv_quote_char # concat (map (\<lambda>c. if c = csv_quote_char then [c, c] else [c]) f) @ [csv_quote_char])"

fun csv_line :: "string list \<Rightarrow> string" where
  "csv_line [] = [CHR 0x0A]"
| "csv_line [f] = csv_field f @ [CHR 0x0A]"
| "csv_line (f # fs) = csv_field f @ CHR '','' # csv_line fs"

definition buyer_cells :: "env \<Rightarrow> buyer_row \<Rightarrow> string list" where
  "buyer_cells v b =
     (let rank = (case by_OfferRank b of None \<Rightarrow> 0 | Some n \<Rightarrow> n) in
      [csvSafe (by_Name b), by_Phone b, csvSafe (blank (by_Email b)), by_State b, csvSafe (blank (by_Source b)),
       if 0 < rank then itoa rank else '''', time_Format (e_zone v) layout_stamp (by_CreatedAt b)])"

definition buyers_csv :: "env \<Rightarrow> buyer_row list \<Rightarrow> string" where
  "buyers_csv v rows =
     concat (map csv_line ([''name'', ''phone'', ''email'', ''state'', ''source'', ''offer_spot'', ''signed_up'']
       # map (buyer_cells v) rows))"

definition adminBuyersCSVHandler :: "'s server \<Rightarrow> 's handler" where
  "adminBuyersCSVHandler sv r =
     bind (attempt (db_act (on_admin_pool (query (\<lambda>d. sort_key (\<lambda>b. - by_CreatedAt b) (db_buyers d)))))) (\<lambda>res.
     case res of
       Inl e \<Rightarrow> ret (http_error 500 ''Could not load buyers'')
     | Inr rows \<Rightarrow>
         bind (db_act ask_env) (\<lambda>v. ret (plain (Content ''text/csv; charset=utf-8'' (buyers_csv v rows)))))"

end
