(* ===== verification/HelpCentre.thy ===== *)
theory HelpCentre
  imports ServerMarketing
begin

text \<open>
  The help centre (\<^verbatim>\<open>web/templates/pages/help_content.go\<close>, \<^verbatim>\<open>domain.go\<close>) and the pages of the
  platform site that take no input (\<^verbatim>\<open>cmd/server/support_pages.go\<close>, \<^verbatim>\<open>marketing.go\<close>). The articles
  are data; what is proved of them is that every article is found under its own address, and
  nothing else is.
\<close>

section \<open>Articles\<close>

datatype HelpBlock =
    Para string | Heading string | Tip string   \<comment> \<open>kinds \<^verbatim>\<open>p\<close>, \<^verbatim>\<open>h\<close> and \<^verbatim>\<open>note\<close>\<close>
  | Steps "string list" | Bullets "string list"  \<comment> \<open>kinds \<^verbatim>\<open>steps\<close> and \<^verbatim>\<open>list\<close>\<close>

record HelpArticle =
  ha_Slug :: string
  ha_Title :: string
  ha_Summary :: string
  ha_Popular :: bool
  ha_Body :: "HelpBlock list"

record HelpCategory =
  hc_Slug :: string
  hc_Title :: string
  hc_Description :: string
  hc_Icon :: string
  hc_Audience :: string
  hc_Articles :: "HelpArticle list"

definition help_getting_started :: HelpCategory where
  "help_getting_started = \<lparr>hc_Slug = ''getting-started'', hc_Title = ''Getting started'',
    hc_Description = ''Apply, get approved, and make your first sale.'',
    hc_Icon = ''storefront'', hc_Audience = ''owners'',
    hc_Articles =
    [\<lparr>ha_Slug = ''how-to-apply'', ha_Title = ''How to apply to GatsToGo'',
      ha_Summary = ''Apply online in about 5 minutes. We review every application.'', ha_Popular = True,
      ha_Body =
        [Para ''Any licensed LPG plant in Nigeria can apply. The application takes about 5 minutes and is free.'',
         Steps [''Go to Get started from the top of any GatsToGo page.'',
           ''Enter your plant details: name, web address, city, phone, address, and your starting price per kg.'',
           ''Enter your business details: legal business name, CAC number, state, and NMDPRA licence number.'',
           ''Choose your bank and enter your account number. We check it with your bank and show the account name.'',
           ''Create your owner login: your name, phone number, email, and a password of at least 8 characters.'',
           ''Agree to the Terms of Service and Privacy Policy, then submit.''],
         Tip ''Have your CAC number, NMDPRA Licence to Operate, and business bank account details ready before you start.'']\<rparr>,
     \<lparr>ha_Slug = ''what-you-need'', ha_Title = ''What you need before you apply'',
      ha_Summary = ''Your CAC number, NMDPRA licence, and a business bank account.'', ha_Popular = False,
      ha_Body =
        [Bullets [''CAC registration number: RC for a registered company, or BN for a business name.'',
           ''NMDPRA licence number: as shown on your Licence to Operate.'',
           ''A business bank account: customer payments settle here. The account name should match your business.'',
           ''A phone number and email for your owner login and updates.''],
         Para ''You can also choose your brand colors during the application, or leave them for later.'']\<rparr>,
     \<lparr>ha_Slug = ''application-review'', ha_Title = ''What happens after you apply'',
      ha_Summary = ''We verify your details, then contact you by email and SMS.'', ha_Popular = True,
      ha_Body =
        [Para ''Every application is reviewed by our team before it goes live. Until then, your page shows customers that the plant is under review, and nobody can buy from it yet.'',
         Steps [''We check your CAC registration, NMDPRA licence, and that the bank account belongs to your plant.'',
           ''Once approved, we send you an email and an SMS with your login details.'',
           ''Your customer page goes live and you can start selling.'']]\<rparr>,
     \<lparr>ha_Slug = ''choosing-web-address'', ha_Title = ''Choosing your web address'',
      ha_Summary = ''Your page lives at yourname.{{base_domain}}. Pick something customers recognise.'', ha_Popular = False,
      ha_Body =
        [Para ''Your web address is the name before .{{base_domain}}, for example sunrise.{{base_domain}}. Customers buy gas there, and your owner and staff logins live there too.'',
         Bullets [''Use lowercase letters, numbers, and hyphens only.'',
           (''It can'' @ [CHR 0x27] @ ''t start or end with a hyphen.''),
           ''Some words are reserved for GatsToGo, such as admin and help.'',
           ''Each web address can only be used by one plant.''],
         Tip (''Pick a short version of your plant'' @ [CHR 0x27] @ ''s name that customers will recognise on a receipt or WhatsApp message.'')]\<rparr>,
     \<lparr>ha_Slug = ''first-sale-checklist'', ha_Title = ''Checklist for your first day'',
      ha_Summary = ''Set up staff, pumps, hours, and price before customers arrive.'', ha_Popular = False,
      ha_Body =
        [Steps [''Sign in to your owner dashboard.'',
           ''Check your gas price in Settings.'',
           ''Add your pumps and opening hours in Operations.'',
           ''Add your cashiers and operators in Staff, each with their own 4-digit PIN.'',
           (''Open your plant'' @ [CHR 0x27] @ ''s terminal on the counter device and start a test shift.''),
           ''Share your customer page link with your customers.'']]\<rparr>]\<rparr>"

definition help_signing_in :: HelpCategory where
  "help_signing_in = \<lparr>hc_Slug = ''signing-in'', hc_Title = ''Signing in and accounts'',
    hc_Description = ''Owner logins, passwords, and staff PINs.'',
    hc_Icon = ''lock'', hc_Audience = ''owners'',
    hc_Articles =
    [\<lparr>ha_Slug = ''owner-sign-in'', ha_Title = ''How to sign in as an owner'',
      ha_Summary = (''Sign in on your plant'' @ [CHR 0x27] @ ''s own login page with your phone number and password.''), ha_Popular = True,
      ha_Body =
        [Para ''Each plant has its own login page: your web address followed by /owner/login, for example sunrise.{{base_domain}}/owner/login.'',
         Steps [(''Open your plant'' @ [CHR 0x27] @ ''s login page.''),
           ''Enter the phone number you registered with.'',
           ''Enter your password and choose Sign in.''],
         Tip (''Lost the link? Use Owner sign in in the GatsToGo footer, type your web address, and we'' @ [CHR 0x27] @ ''ll take you to your login page.'')]\<rparr>,
     \<lparr>ha_Slug = ''forgot-password'', ha_Title = ''I forgot my password'',
      ha_Summary = ''Reset it from your login page. The link is sent to your email.'', ha_Popular = True,
      ha_Body =
        [Steps [(''On your plant'' @ [CHR 0x27] @ ''s login page, choose Forgot your password.''),
           ''Enter your phone number.'',
           ''Open the email we send to the address on file and follow the link.'',
           ''Choose a new password.''],
         Tip ''Reset links work once and expire after an hour. If yours has expired, just request a new one.'']\<rparr>,
     \<lparr>ha_Slug = ''change-password'', ha_Title = ''Changing your password'',
      ha_Summary = ''Update it any time from Settings, under Security.'', ha_Popular = False,
      ha_Body =
        [Steps [''In your dashboard, open Settings.'',
           ''Under Security, choose Change password.'',
           ''Enter your current password, then your new password twice.'',
           ''Choose Update password.''],
         Bullets [''Your new password needs at least 8 characters.'',
           ''It must be different from your current password.'']]\<rparr>,
     \<lparr>ha_Slug = ''managers-sign-in'', ha_Title = ''Can managers use the owner dashboard?'',
      ha_Summary = ''Yes. Managers sign in on the same login page, with the access you allow.'', ha_Popular = False,
      ha_Body =
        [Para (''Managers sign in on your plant'' @ [CHR 0x27] @ ''s owner login page. By default they can see the dashboard. As the owner, you decide whether each manager can also edit the gas price, manage staff, or manage pumps and opening hours.''),
         Para ''Set this per manager in Staff, using Manage in the Permissions column.'']\<rparr>,
     \<lparr>ha_Slug = ''staff-pin'', ha_Title = ''How staff sign in with a PIN'',
      ha_Summary = ''Staff pick their name on the terminal and enter their 4-digit PIN.'', ha_Popular = False,
      ha_Body =
        [Para (''Staff don'' @ [CHR 0x27] @ ''t use passwords. On your plant'' @ [CHR 0x27] @ ''s terminal (your web address followed by /terminal), each person taps their name and enters their own 4-digit PIN to start a shift.''),
         Bullets [''Each staff member at a plant needs a different PIN.'',
           ''After 5 wrong PIN attempts, that person is locked out for 20 seconds.'',
           (''Operators must also choose the pump they'' @ [CHR 0x27] @ ''re working on.'')]]\<rparr>,
     \<lparr>ha_Slug = ''find-my-login'', ha_Title = (''I can'' @ [CHR 0x27] @ ''t find my plant'' @ [CHR 0x27] @ ''s login page''),
      ha_Summary = ''Use Owner sign in in the footer, or check your approval email.'', ha_Popular = False,
      ha_Body =
        [Para ''Your login page address is in the approval email and SMS we sent when your plant went live.'',
         Para (''You can also use Owner sign in at the bottom of any GatsToGo page: type your plant'' @ [CHR 0x27] @ ''s web address and we'' @ [CHR 0x27] @ ''ll take you straight to your login page.'')]\<rparr>]\<rparr>"

definition help_sales_payments :: HelpCategory where
  "help_sales_payments = \<lparr>hc_Slug = ''sales-payments'', hc_Title = ''Sales and payments'',
    hc_Description = ''How customers pay, codes, cash sales, and voids.'',
    hc_Icon = ''receipt'', hc_Audience = ''owners'',
    hc_Articles =
    [\<lparr>ha_Slug = ''how-customers-pay'', ha_Title = ''How customers pay online'',
      ha_Summary = ''By bank transfer, card, or USSD, processed securely by Paystack.'', ha_Popular = True,
      ha_Body =
        [Para ''Customers open your page, enter how much they want to spend, their name and phone number, and pay by bank transfer, card, or USSD. Payments are processed by Paystack.'',
         Para (''Once paid, the customer sees a 4-digit code and how many kg they'' @ [CHR 0x27] @ ''ll get. They show the code at your counter.''),
         Tip ''Card and bank details are handled by Paystack. GatsToGo never sees or stores them.'']\<rparr>,
     \<lparr>ha_Slug = ''redeeming-codes'', ha_Title = (''Redeeming a customer'' @ [CHR 0x27] @ ''s code''),
      ha_Summary = ''Enter the code on the terminal, then fill and confirm.'', ha_Popular = False,
      ha_Body =
        [Steps [''The customer shows or reads out their 4-digit code.'',
           (''On the terminal, enter the code. You'' @ [CHR 0x27] @ ''ll see the amount paid and the kg to fill.''),
           ''Fill the cylinder and confirm the fill on the terminal.''],
         Para ''When dispensing starts, the customer gets an SMS confirming their code and the pump being used.'']\<rparr>,
     \<lparr>ha_Slug = ''cash-sales'', ha_Title = ''Recording cash sales'',
      ha_Summary = ''Record walk-in cash sales on the terminal. No fee is charged.'', ha_Popular = False,
      ha_Body =
        [Para (''Customers who pay cash at the counter are recorded on the terminal as a cash sale. The cash is added to the cashier'' @ [CHR 0x27] @ ''s drawer for that shift.''),
         Tip (''GatsToGo charges nothing on cash sales. They don'' @ [CHR 0x27] @ ''t go through Paystack.'')]\<rparr>,
     \<lparr>ha_Slug = ''ticket-statuses'', ha_Title = ''What each order status means'',
      ha_Summary = ''Pending, paid, dispensing, filled, and the rest explained.'', ha_Popular = False,
      ha_Body =
        [Bullets [(''Pending: the customer started paying but payment isn'' @ [CHR 0x27] @ ''t confirmed yet.''),
           ''Paid: payment confirmed; the code is ready to redeem.'',
           ''Dispensing: the fill has started at a pump.'',
           ''Filled: the cylinder was filled and confirmed.'',
           ''Issue: the fill was flagged for a problem.'',
           (''Expired or cancelled: payment wasn'' @ [CHR 0x27] @ ''t completed.''),
           ''Voided: an owner or manager cancelled the order.'']]\<rparr>,
     \<lparr>ha_Slug = ''void-order'', ha_Title = ''Voiding an order'',
      ha_Summary = ''Owners and managers can void an order with a reason.'', ha_Popular = False,
      ha_Body =
        [Para (''If an order was made by mistake, an owner or manager can void it from the dashboard. You'' @ [CHR 0x27] @ ''ll be asked for a reason, which is kept with the order and in your activity log.''),
         Tip (''Voiding an order doesn'' @ [CHR 0x27] @ ''t refund the customer automatically. Handle refunds directly with your customer.'')]\<rparr>,
     \<lparr>ha_Slug = ''paid-vs-filled'', ha_Title = ''Gas paid for versus gas filled'',
      ha_Summary = (''Today'' @ [CHR 0x27] @ ''s control shows if you filled more or less than was paid for.''), ha_Popular = False,
      ha_Body =
        [Para (''On your Overview, Today'' @ [CHR 0x27] @ ''s control compares the kg customers paid for today with the kg your staff recorded as filled. The difference shows in kg and in naira at your current price.''),
         Para (''A negative difference means less gas was filled than paid for so far, usually because some paid orders haven'' @ [CHR 0x27] @ ''t been filled yet. A large positive difference is worth checking with your staff.'')]\<rparr>]\<rparr>"

definition help_payouts_pricing :: HelpCategory where
  "help_payouts_pricing = \<lparr>hc_Slug = ''payouts-pricing'', hc_Title = ''Payouts and pricing'',
    hc_Description = ''Fees, settlements, bank details, and your gas price.'',
    hc_Icon = ''bank'', hc_Audience = ''owners'',
    hc_Articles =
    [\<lparr>ha_Slug = ''fees'', ha_Title = ''How much GatsToGo costs'',
      ha_Summary = ''No setup or monthly fee. 1.5% per online sale. Cash sales are free.'', ha_Popular = True,
      ha_Body =
        [Bullets [''Setup: free.'',
           ''Monthly fee: none.'',
           ''Online sales: GatsToGo keeps 1.5% of each sale.'',
           ''Cash sales: free.'',
           ''Staff, pumps, and sales: unlimited.''],
         Para (''Paystack'' @ [CHR 0x27] @ ''s own processing fee also comes out of your share: 1.5% + '' @ [CHR 0xE2, CHR 0x82, CHR 0xA6] @ ''100 per payment, capped at '' @ [CHR 0xE2, CHR 0x82, CHR 0xA6] @ ''2,000, with the '' @ [CHR 0xE2, CHR 0x82, CHR 0xA6] @ ''100 waived on payments under '' @ [CHR 0xE2, CHR 0x82, CHR 0xA6] @ ''2,500. The Pricing page has a calculator.'')]\<rparr>,
     \<lparr>ha_Slug = ''when-paid'', ha_Title = ''When do I get paid?'',
      ha_Summary = ''Paystack settles your share straight to your bank account.'', ha_Popular = True,
      ha_Body =
        [Para (''When a customer pays online, Paystack splits the payment immediately: 98.5% for your plant and 1.5% for GatsToGo. Your share, minus Paystack'' @ [CHR 0x27] @ ''s fee, settles straight into the bank account you registered, on Paystack'' @ [CHR 0x27] @ ''s normal settlement schedule.''),
         Tip (''GatsToGo never holds your money, and there'' @ [CHR 0x27] @ ''s nothing to withdraw.'')]\<rparr>,
     \<lparr>ha_Slug = ''change-bank'', ha_Title = ''Changing your bank account'',
      ha_Summary = ''Bank and business details are locked. Contact us to change them.'', ha_Popular = False,
      ha_Body =
        [Para (''Your settlement account decides where your money goes, so it'' @ [CHR 0x27] @ ''s locked to protect you. To change it, contact us. We'' @ [CHR 0x27] @ ''ll verify the request and the new account before updating it.'')]\<rparr>,
     \<lparr>ha_Slug = ''change-price'', ha_Title = ''Changing your gas price'',
      ha_Summary = ''Set a new price per kg in Settings. It applies immediately.'', ha_Popular = False,
      ha_Body =
        [Steps [''In your dashboard, open Settings.'',
           ''Under Gas price, enter the new price per kg.'',
           ''Choose Save price.''],
         Para ''The new price applies to new orders straight away. Orders already paid keep the price they were bought at. Every change is kept in your price history.'',
         Tip (''Managers can change the price only if you'' @ [CHR 0x27] @ ''ve given them that permission.'')]\<rparr>,
     \<lparr>ha_Slug = ''price-history'', ha_Title = ''Viewing your price history'',
      ha_Summary = ''Every price change is recorded with who set it and when.'', ha_Popular = False,
      ha_Body =
        [Para ''Settings shows your price history: each price, when it took effect, and who set it. Prices are never overwritten, so you always have a record.'']\<rparr>]\<rparr>"

definition help_staff_shifts :: HelpCategory where
  "help_staff_shifts = \<lparr>hc_Slug = ''staff-shifts'', hc_Title = ''Staff and shifts'',
    hc_Description = ''Add staff, set permissions, and run shifts.'',
    hc_Icon = ''users'', hc_Audience = ''owners'',
    hc_Articles =
    [\<lparr>ha_Slug = ''add-staff'', ha_Title = ''Adding a staff member'',
      ha_Summary = ''Add staff in the Staff tab with their name, phone, role, and PIN.'', ha_Popular = True,
      ha_Body =
        [Steps [''Open Staff in your dashboard.'',
           ''Under Add staff, enter their name and phone number.'',
           ''Choose a role: cashier, operator, or manager.'',
           ''Give them a 4-digit PIN that no one else at your plant uses.'',
           ''Choose Create staff.'']]\<rparr>,
     \<lparr>ha_Slug = ''staff-roles'', ha_Title = ''Staff roles explained'',
      ha_Summary = ''Cashiers, operators, and managers do different jobs.'', ha_Popular = False,
      ha_Body =
        [Bullets [''Cashier: works the terminal, redeems codes, and records cash sales.'',
           ''Operator: works a pump and must choose it when starting a shift.'',
           ''Manager: uses the terminal and can sign in to the owner dashboard, with the permissions you allow.'']]\<rparr>,
     \<lparr>ha_Slug = ''manager-permissions'', ha_Title = ''Giving managers permissions'',
      ha_Summary = ''Let a manager edit price, manage staff, or manage pumps.'', ha_Popular = False,
      ha_Body =
        [Para (''In Staff, find the manager and choose Manage under Permissions. Tick what they'' @ [CHR 0x27] @ ''re allowed to do:''),
         Bullets [''Edit gas price.'',
           ''Manage staff: add staff and deactivate terminal access.'',
           ''Manage pumps: rename pumps, change pump status, and update opening hours.''],
         Para (''Only the owner can change a manager'' @ [CHR 0x27] @ ''s permissions.'')]\<rparr>,
     \<lparr>ha_Slug = ''deactivate-staff'', ha_Title = ''Deactivating a staff member'',
      ha_Summary = ''Stop someone signing in, without losing their history.'', ha_Popular = False,
      ha_Body =
        [Para (''In Staff, choose Deactivate next to the person. They can'' @ [CHR 0x27] @ ''t sign in or use the terminal until you choose Activate again. Their past sales and shifts stay on record.'')]\<rparr>,
     \<lparr>ha_Slug = ''running-shift'', ha_Title = ''Starting and ending a shift'',
      ha_Summary = ''Count opening cash to start, count closing cash to end.'', ha_Popular = False,
      ha_Body =
        [Steps [''On the terminal, tap your name.'',
           ''Operators choose their pump.'',
           ''Enter your PIN and the opening cash in your drawer.'',
           ''Choose Start shift.'',
           ''At the end of your shift, count the cash, enter it, add a note if needed, and end the shift.''],
         Para (''Owners see each shift'' @ [CHR 0x27] @ ''s opening and closing cash in Operations.'')]\<rparr>,
     \<lparr>ha_Slug = ''cash-drawer'', ha_Title = ''Reading the cash drawer'',
      ha_Summary = ''Opening floats, cash sales, and closing counts per shift.'', ha_Popular = False,
      ha_Body =
        [Para ''Operations shows every cash movement: the opening float when a shift starts, each cash sale, deposits, and the closing count. Compare the closing count with opening cash plus cash sales to spot shortages.'']\<rparr>]\<rparr>"

definition help_plant_setup :: HelpCategory where
  "help_plant_setup = \<lparr>hc_Slug = ''plant-setup'', hc_Title = ''Plant setup'',
    hc_Description = ''Pumps, opening hours, branding, and plant details.'',
    hc_Icon = ''gear'', hc_Audience = ''owners'',
    hc_Articles =
    [\<lparr>ha_Slug = ''pumps'', ha_Title = ''Managing pumps'',
      ha_Summary = ''Add pumps and mark them working, not working, or under maintenance.'', ha_Popular = False,
      ha_Body =
        [Para ''In Operations, under Pumps, add each pump with a name and order. Set its status:'',
         Bullets [''Working: available for shifts.'',
           (''Not working or under maintenance: operators can'' @ [CHR 0x27] @ ''t choose it on the terminal.'')]]\<rparr>,
     \<lparr>ha_Slug = ''opening-hours'', ha_Title = ''Setting opening hours'',
      ha_Summary = ''Set up to two time blocks per day, or mark a day closed.'', ha_Popular = False,
      ha_Body =
        [Para (''In Operations, under Opening hours, set when you open and close each day. You can add a second block for a midday break, or tick Closed for days you don'' @ [CHR 0x27] @ ''t open.''),
         Para (''When your plant is closed, your customer page shows that you'' @ [CHR 0x27] @ ''re closed and online payment is paused until you reopen.'')]\<rparr>,
     \<lparr>ha_Slug = ''branding'', ha_Title = ''Adding your colors and logo'',
      ha_Summary = ''Brand your customer page from Settings, under Brand kit.'', ha_Popular = False,
      ha_Body =
        [Steps [''Open Settings, then Brand kit.'',
           ''Choose your primary, button, secondary, and button text colors.'',
           ''Upload your logo: PNG, JPEG, or WebP, under 2MB.'',
           ''Choose Save changes.''],
         Para ''Your colors and logo appear on your customer page and receipts screens.'']\<rparr>,
     \<lparr>ha_Slug = ''plant-details'', ha_Title = ''Updating plant name, address, or phone'',
      ha_Summary = ''Edit customer-facing details any time in Settings.'', ha_Popular = False,
      ha_Body =
        [Para ''In Settings, under Plant details, update your plant name, city, phone, and address. These appear on your customer page. Your phone number is how customers contact you about orders.'',
         Tip ''Business records like your CAC number, NMDPRA licence, and bank account are locked. Contact us to change them.'']\<rparr>]\<rparr>"

definition help_buying_gas :: HelpCategory where
  "help_buying_gas = \<lparr>hc_Slug = ''buying-gas'', hc_Title = ''Buying gas'',
    hc_Description = ''For customers: paying, codes, and receipts.'',
    hc_Icon = ''gas-pump'', hc_Audience = ''customers'',
    hc_Articles =
    [\<lparr>ha_Slug = ''how-to-buy'', ha_Title = ''How to buy gas online'',
      ha_Summary = ''Enter an amount, pay, and get a 4-digit code for the counter.'', ha_Popular = True,
      ha_Body =
        [Steps [(''Open your plant'' @ [CHR 0x27] @ ''s GatsToGo page.''),
           (''Enter how much you want to spend, or tap a popular size. You'' @ [CHR 0x27] @ ''ll see how many kg you'' @ [CHR 0x27] @ ''ll get.''),
           ''Enter your name and phone number.'',
           ''Choose bank transfer, card, or USSD, and pay.'',
           ''Note your 4-digit code. Show it at the plant to get your gas.''],
         Tip ''No app or account needed.'']\<rparr>,
     \<lparr>ha_Slug = ''using-code'', ha_Title = ''Using your code at the plant'',
      ha_Summary = ''Show or read out your code. The attendant fills what you paid for.'', ha_Popular = False,
      ha_Body =
        [Para ''At the plant, show or read your 4-digit code to the attendant. They enter it on their terminal, which tells them exactly how much gas you paid for.'',
         Para (''When filling starts, you'' @ [CHR 0x27] @ ''ll get an SMS confirming your code and which pump is being used.'')]\<rparr>,
     \<lparr>ha_Slug = ''lost-code'', ha_Title = ''I lost my code'',
      ha_Summary = ''Get it back from Receipts with the phone number you paid with.'', ha_Popular = True,
      ha_Body =
        [Steps [(''Open your plant'' @ [CHR 0x27] @ ''s GatsToGo page and choose Receipts.''),
           ''Enter the phone number you used when paying.'',
           ''Enter the one-time code we send you by SMS.'',
           (''You'' @ [CHR 0x27] @ ''ll see your orders and codes.'')]]\<rparr>,
     \<lparr>ha_Slug = ''confirm-received'', ha_Title = ''Confirming you received your gas'',
      ha_Summary = ''Confirm from Receipts once your cylinder is filled.'', ha_Popular = False,
      ha_Body =
        [Para ''After your cylinder is filled, you can confirm you received it from Receipts. This helps the plant keep accurate records.'']\<rparr>,
     \<lparr>ha_Slug = ''plant-closed'', ha_Title = (''Why can'' @ [CHR 0x27] @ ''t I pay right now?''),
      ha_Summary = ''The plant may be closed. Check its opening hours.'', ha_Popular = False,
      ha_Body =
        [Para (''If the plant is closed, its page shows that it'' @ [CHR 0x27] @ ''s closed and the pay button is paused. Today'' @ [CHR 0x27] @ ''s price is still shown so you can plan. Try again during opening hours, which are shown on the page.'')]\<rparr>]\<rparr>"

definition help_order_problems :: HelpCategory where
  "help_order_problems = \<lparr>hc_Slug = ''order-problems'', hc_Title = ''Order problems'',
    hc_Description = ''For customers: payment issues, refunds, and contacting a plant.'',
    hc_Icon = ''warning-circle'', hc_Audience = ''customers'',
    hc_Articles =
    [\<lparr>ha_Slug = ''paid-no-code'', ha_Title = (''I paid but didn'' @ [CHR 0x27] @ ''t get a code''),
      ha_Summary = ''Check Receipts. Bank transfers can take a few minutes to confirm.'', ha_Popular = False,
      ha_Body =
        [Para ''Bank transfers and USSD payments can take a few minutes to confirm. Your code appears once Paystack confirms the payment.'',
         Para (''Check Receipts on the plant'' @ [CHR 0x27] @ ''s page with the phone number you paid with. If the payment still doesn'' @ [CHR 0x27] @ ''t show, contact the plant with your payment details.'')]\<rparr>,
     \<lparr>ha_Slug = ''refunds'', ha_Title = ''How do I get a refund?'',
      ha_Summary = ''Refunds are handled by the plant you bought from.'', ha_Popular = False,
      ha_Body =
        [Para ''Each plant sets its own refund policy. Contact the plant directly: their phone number is at the top of their GatsToGo page. Have your order code or the phone number you paid with ready.'']\<rparr>,
     \<lparr>ha_Slug = ''wrong-amount'', ha_Title = ''I think I got less gas than I paid for'',
      ha_Summary = ''Your order shows exactly how many kg you paid for.'', ha_Popular = False,
      ha_Body =
        [Para ''Every order records the kg you paid for, and the attendant records the kg filled. Check your order in Receipts, then speak to the plant with your code so they can check their records.'']\<rparr>,
     \<lparr>ha_Slug = ''contact-plant'', ha_Title = ''Contacting a plant'',
      ha_Summary = ''Their phone number is at the top of their page.'', ha_Popular = False,
      ha_Body =
        [Para (''Each plant'' @ [CHR 0x27] @ ''s phone number is shown at the top of its GatsToGo page, next to its address. For orders, refunds, delivery, or opening hours, contact the plant directly.''),
         Para ''For problems with the GatsToGo website itself, contact us from the Contact page.'']\<rparr>]\<rparr>"

definition HelpCategories :: "HelpCategory list" where
  "HelpCategories = [help_getting_started, help_signing_in, help_sales_payments, help_payouts_pricing, help_staff_shifts, help_plant_setup, help_buying_gas, help_order_problems]"

section \<open>Finding them\<close>

definition FindHelpCategory :: "string \<Rightarrow> HelpCategory option" where
  "FindHelpCategory slug = List.find (\<lambda>c. hc_Slug c = slug) HelpCategories"

definition FindHelpArticle :: "string \<Rightarrow> string \<Rightarrow> (HelpCategory \<times> HelpArticle) option" where
  "FindHelpArticle categorySlug articleSlug =
     (case FindHelpCategory categorySlug of
        None \<Rightarrow> None
      | Some c \<Rightarrow> map_option (Pair c) (List.find (\<lambda>a. ha_Slug a = articleSlug) (hc_Articles c)))"

definition all_articles :: "(HelpCategory \<times> HelpArticle) list" where
  "all_articles = concat (map (\<lambda>c. map (Pair c) (hc_Articles c)) HelpCategories)"

definition PopularHelpArticles :: "(HelpCategory \<times> HelpArticle) list" where
  "PopularHelpArticles = filter (\<lambda>(c, a). ha_Popular a) all_articles"

definition helpArticleCount :: nat where
  "helpArticleCount = foldl (\<lambda>n c. n + length (hc_Articles c)) 0 HelpCategories"

definition helpArticleURL :: "HelpCategory \<Rightarrow> HelpArticle \<Rightarrow> string" where
  "helpArticleURL c a = ''/help/'' @ hc_Slug c @ ''/'' @ ha_Slug a"

definition helpCategoryURL :: "HelpCategory \<Rightarrow> string" where
  "helpCategoryURL c = ''/help/'' @ hc_Slug c"

text \<open>\<^verbatim>\<open>strings.ReplaceAll\<close> of a text that is not empty.\<close>

function replace_all :: "string \<Rightarrow> string \<Rightarrow> string \<Rightarrow> string" where
  "replace_all old new [] = []"
| "replace_all old new (c # s) =
     (if old \<noteq> [] \<and> take (length old) (c # s) = old
      then new @ replace_all old new (drop (length old) (c # s))
      else c # replace_all old new s)"
  by pat_completeness auto
termination
  by (relation "measure (\<lambda>(old, new, s). length s)") auto

definition baseDomainPlaceholder :: string where
  "baseDomainPlaceholder = ''{{base_domain}}''"

definition helpText :: "string \<Rightarrow> string \<Rightarrow> string" where
  "helpText AppBaseDomain s =
     (let domain = (if TrimSpace AppBaseDomain = '''' then ''gatstogo.com'' else TrimSpace AppBaseDomain)
      in replace_all baseDomainPlaceholder domain s)"

record helpSearchEntry =
  hs_T :: string
  hs_S :: string
  hs_C :: string
  hs_U :: string

definition helpSearchEntries :: "string \<Rightarrow> helpSearchEntry list" where
  "helpSearchEntries AppBaseDomain = map (\<lambda>(c, a).
     \<lparr>hs_T = ha_Title a, hs_S = helpText AppBaseDomain (ha_Summary a), hs_C = hc_Title c,
      hs_U = helpArticleURL c a\<rparr>) all_articles"

definition relatedHelpArticles :: "HelpCategory \<Rightarrow> HelpArticle \<Rightarrow> nat \<Rightarrow> HelpArticle list" where
  "relatedHelpArticles c current n = take n (filter (\<lambda>a. ha_Slug a \<noteq> ha_Slug current) (hc_Articles c))"

section \<open>Slugs name one article\<close>

definition slug_table :: "(string \<times> string list) list" where
  "slug_table = map (\<lambda>c. (hc_Slug c, map ha_Slug (hc_Articles c))) HelpCategories"

lemmas help_data = HelpCategories_def help_getting_started_def help_signing_in_def help_sales_payments_def
  help_payouts_pricing_def help_staff_shifts_def help_plant_setup_def help_buying_gas_def help_order_problems_def

lemma slugs_distinct: "distinct (map fst slug_table)" "list_all (\<lambda>e. distinct (snd e)) slug_table"
  by (simp_all add: slug_table_def help_data)

lemma category_slugs_distinct: "distinct (map hc_Slug HelpCategories)"
  using slugs_distinct(1) by (simp add: slug_table_def comp_def)

lemma article_slugs_distinct: "c \<in> set HelpCategories \<Longrightarrow> distinct (map ha_Slug (hc_Articles c))"
  using slugs_distinct(2) by (auto simp: slug_table_def list_all_iff)

lemma find_key:
  assumes "distinct (map f xs)" "x \<in> set xs"
  shows "List.find (\<lambda>y. f y = f x) xs = Some x"
  using assms by (induction xs) auto

theorem help_article_found:
  "FindHelpArticle cs as = Some (c, a) \<longleftrightarrow>
     (c, a) \<in> set all_articles \<and> hc_Slug c = cs \<and> ha_Slug a = as"
proof
  assume "FindHelpArticle cs as = Some (c, a)"
  then have "List.find (\<lambda>c. hc_Slug c = cs) HelpCategories = Some c"
    "List.find (\<lambda>a. ha_Slug a = as) (hc_Articles c) = Some a"
    by (auto simp: FindHelpArticle_def FindHelpCategory_def split: option.splits)
  then have "c \<in> set HelpCategories" "a \<in> set (hc_Articles c)" "hc_Slug c = cs" "ha_Slug a = as"
    by (auto simp: find_Some_iff)
  then show "(c, a) \<in> set all_articles \<and> hc_Slug c = cs \<and> ha_Slug a = as"
    by (auto simp: all_articles_def)
next
  assume "(c, a) \<in> set all_articles \<and> hc_Slug c = cs \<and> ha_Slug a = as"
  then have "c \<in> set HelpCategories" "a \<in> set (hc_Articles c)" "hc_Slug c = cs" "ha_Slug a = as"
    by (auto simp: all_articles_def)
  then show "FindHelpArticle cs as = Some (c, a)"
    using find_key [OF category_slugs_distinct] find_key [OF article_slugs_distinct]
    by (auto simp: FindHelpArticle_def FindHelpCategory_def)
qed

lemma help_article_count: "helpArticleCount = length all_articles"
proof -
  have "foldl (\<lambda>n c. n + length (hc_Articles c)) m cs = m + length (concat (map (\<lambda>c. map (Pair c) (hc_Articles c)) cs))"
    for m and cs :: "HelpCategory list"
    by (induction cs arbitrary: m) auto
  then show ?thesis by (simp add: helpArticleCount_def all_articles_def)
qed

section \<open>Handlers\<close>

definition static_page :: "string \<Rightarrow> (string \<times> json) list \<Rightarrow> 's handler" where
  "static_page name params r = ret (plain (Page 200 name params))"

definition pricingPageHandler :: "'s server \<Rightarrow> 's handler" where
  "pricingPageHandler sv = static_page ''Pricing'' []"

definition aboutPageHandler :: "'s server \<Rightarrow> 's handler" where
  "aboutPageHandler sv = static_page ''About'' [(''contact'', JStr (sv_SupportEmail sv))]"

definition termsPageHandler :: "'s server \<Rightarrow> 's handler" where
  "termsPageHandler sv = static_page ''Terms'' []"

definition privacyPageHandler :: "'s server \<Rightarrow> 's handler" where
  "privacyPageHandler sv = static_page ''Privacy'' []"

definition helpPageHandler :: "'s server \<Rightarrow> 's handler" where
  "helpPageHandler sv = static_page ''Help'' [(''contact'', JStr (sv_SupportEmail sv))]"

definition contactPageHandler :: "'s server \<Rightarrow> 's handler" where
  "contactPageHandler sv = static_page ''Contact'' [(''contact'', JStr (sv_SupportEmail sv))]"

definition helpCategoryHandler :: "'s server \<Rightarrow> 's handler" where
  "helpCategoryHandler sv r =
     (case FindHelpCategory (hr_URLParam r ''category'') of
        None \<Rightarrow> ret not_found_page
      | Some c \<Rightarrow> static_page ''HelpCategory''
          [(''category'', JStr (hc_Slug c)), (''contact'', JStr (sv_SupportEmail sv))] r)"

definition helpArticleHandler :: "'s server \<Rightarrow> 's handler" where
  "helpArticleHandler sv r =
     (case FindHelpArticle (hr_URLParam r ''category'') (hr_URLParam r ''article'') of
        None \<Rightarrow> ret not_found_page
      | Some (c, a) \<Rightarrow> static_page ''HelpArticle''
          [(''category'', JStr (hc_Slug c)), (''article'', JStr (ha_Slug a)),
           (''contact'', JStr (sv_SupportEmail sv))] r)"

text \<open>\<^verbatim>\<open>strings.SplitN(s, "/", 2)\<close>, if it gives two parts.\<close>

definition split_slash :: "string \<Rightarrow> (string \<times> string) option" where
  "split_slash s = (if CHR ''/'' \<in> set s
     then Some (before_byte (CHR ''/'') s, drop (Suc (length (before_byte (CHR ''/'') s))) s) else None)"

text \<open>A vote is only logged; what is answered is modelled.\<close>

definition helpFeedbackHandler :: "'s server \<Rightarrow> 's handler" where
  "helpFeedbackHandler sv r =
     bind (rate_limited sv ''help_feedback_rl:'' r 60 Hour) (\<lambda>limited.
     if limited then ret (plain (StatusOnly 429))
     else if \<not> hr_form_ok r then ret (plain (StatusOnly 400))
     else
       let helpful = hr_FormValue r ''helpful'' in
       case split_slash (hr_FormValue r ''article'') of
         None \<Rightarrow> ret (plain (StatusOnly 400))
       | Some (cs, as) \<Rightarrow>
           if helpful \<noteq> ''yes'' \<and> helpful \<noteq> ''no'' \<or> FindHelpArticle cs as = None
           then ret (plain (StatusOnly 400))
           else ret (plain (StatusOnly 204)))"

end
