(* ===== verification/Transports.thy ===== *)
theory Transports
  imports Payments
begin

text \<open>
  How messages leave the program (\<^verbatim>\<open>internal/sms\<close>, \<^verbatim>\<open>internal/email\<close>): the senders that only log,
  Termii for SMS and Resend for email. The exchange with a service is a parameter, which takes
  the request and gives an error or the answer's status and body; the JSON decoders of the
  answers are parameters too. Encoding the requests cannot fail.
\<close>

section \<open>Requests\<close>

record http_out =
  ho_URL :: string
  ho_Headers :: "(string \<times> string) list"
  ho_JSON :: "(string \<times> json) list"

type_synonym exchange = "http_out \<Rightarrow> go_err + (nat \<times> string)"

definition ok_status :: "nat \<Rightarrow> bool" where
  "ok_status s \<longleftrightarrow> 200 \<le> s \<and> s < 300"

text \<open>The error of an answer that is not a success: the message in it, or a fixed one.\<close>

definition api_error :: "string \<Rightarrow> string \<Rightarrow> string \<Rightarrow> nat \<Rightarrow> go_err" where
  "api_error service fallback msg status =
     ErrorString (service @ '': '' @ (if msg = '''' then fallback else msg)
       @ '' (http '' @ itoa (int status) @ '')'')"

definition answered :: "string \<Rightarrow> string \<Rightarrow> (string \<Rightarrow> string) \<Rightarrow> go_err + (nat \<times> string) \<Rightarrow> go_err + unit" where
  "answered service fallback message r =
     (case r of
        Inl e \<Rightarrow> Inl e
      | Inr (status, body) \<Rightarrow>
          if ok_status status then Inr () else Inl (api_error service fallback (message body) status))"

section \<open>Termii\<close>

record TermiiSender =
  ts_APIKey :: string
  ts_SenderID :: string
  ts_Channel :: string
  ts_BaseURL :: string

definition defaultTermiiBaseURL :: string where
  "defaultTermiiBaseURL = ''https://api.ng.termii.com''"

definition NewTermiiSender :: "string \<Rightarrow> string \<Rightarrow> string \<Rightarrow> string \<Rightarrow> TermiiSender" where
  "NewTermiiSender apiKey senderID channel0 baseURL0 =
     (let channel = (if TrimSpace channel0 = '''' then ''generic'' else channel0);
          baseURL = (if TrimSpace baseURL0 = '''' then defaultTermiiBaseURL else baseURL0)
      in \<lparr>ts_APIKey = TrimSpace apiKey, ts_SenderID = TrimSpace senderID, ts_Channel = TrimSpace channel,
          ts_BaseURL = trim_slashes (TrimSpace baseURL)\<rparr>)"

definition termii_baseURL :: "TermiiSender \<Rightarrow> string" where
  "termii_baseURL s = (if ts_BaseURL s \<noteq> '''' then trim_slashes (ts_BaseURL s) else defaultTermiiBaseURL)"

definition termii_channel :: "TermiiSender \<Rightarrow> string" where
  "termii_channel s = (if TrimSpace (ts_Channel s) \<noteq> '''' then TrimSpace (ts_Channel s) else ''generic'')"

definition termiiPhone :: "string \<Rightarrow> string" where
  "termiiPhone phone =
     (let digits = filter is_digit phone in
      if length digits = 13 \<and> take 3 digits = ''234'' then digits
      else if length digits = 11 \<and> hd digits = CHR ''0'' then ''234'' @ tl digits
      else if length digits = 10 then ''234'' @ digits
      else digits)"

text \<open>\<open>decode\<close> gives the answer's \<^verbatim>\<open>message\<close> and \<^verbatim>\<open>error\<close>, empty when it has none.\<close>

definition termiiErrorMessage :: "(string \<Rightarrow> string \<times> string) \<Rightarrow> string \<Rightarrow> string" where
  "termiiErrorMessage decode body =
     (let (message, error) = decode body in if message \<noteq> '''' then message else error)"

definition termii_request :: "TermiiSender \<Rightarrow> string \<Rightarrow> string \<Rightarrow> string \<Rightarrow> http_out" where
  "termii_request s senderID0 to message =
     (let trimmed = TrimSpace senderID0;
          senderID = (if trimmed = '''' then ts_SenderID s else trimmed)
      in \<lparr>ho_URL = termii_baseURL s @ ''/api/sms/send'', ho_Headers = [(''Content-Type'', ''application/json'')],
          ho_JSON = [(''api_key'', JStr (ts_APIKey s)), (''to'', JStr (termiiPhone to)), (''from'', JStr senderID),
            (''sms'', JStr message), (''type'', JStr ''plain''), (''channel'', JStr (termii_channel s))]\<rparr>)"

definition termii_SendFrom ::
  "exchange \<Rightarrow> (string \<Rightarrow> string \<times> string) \<Rightarrow> TermiiSender \<Rightarrow> string \<Rightarrow> string \<Rightarrow> string \<Rightarrow> go_err + unit" where
  "termii_SendFrom do decode s senderID to message =
     answered ''termii'' ''unexpected response from Termii'' (termiiErrorMessage decode)
       (do (termii_request s senderID to message))"

definition termii_Send ::
  "exchange \<Rightarrow> (string \<Rightarrow> string \<times> string) \<Rightarrow> TermiiSender \<Rightarrow> string \<Rightarrow> string \<Rightarrow> go_err + unit" where
  "termii_Send do decode s to message = termii_SendFrom do decode s (ts_SenderID s) to message"

section \<open>Choosing a sender\<close>

datatype sms_sender = LoggingSMS | TermiiSMS TermiiSender

text \<open>Both senders can override the sender ID; without one they use their own.\<close>

definition SendWithSenderID ::
  "exchange \<Rightarrow> (string \<Rightarrow> string \<times> string) \<Rightarrow> sms_sender \<Rightarrow> string \<Rightarrow> string \<Rightarrow> string \<Rightarrow> go_err + unit" where
  "SendWithSenderID do decode sender senderID to message =
     (case sender of
        LoggingSMS \<Rightarrow> Inr ()
      | TermiiSMS s \<Rightarrow>
          if senderID \<noteq> '''' then termii_SendFrom do decode s senderID to message
          else termii_Send do decode s to message)"

section \<open>Resend\<close>

record ResendSender =
  rs_APIKey :: string
  rs_From :: string
  rs_FromName :: string
  rs_ReplyTo :: string
  rs_BaseURL :: string

definition NewResendSender :: "string \<Rightarrow> string \<Rightarrow> string \<Rightarrow> string \<Rightarrow> ResendSender" where
  "NewResendSender apiKey from_addr fromName replyTo =
     \<lparr>rs_APIKey = apiKey, rs_From = from_addr, rs_FromName = fromName, rs_ReplyTo = replyTo, rs_BaseURL = ''''\<rparr>"

definition resendSandboxFrom :: string where
  "resendSandboxFrom = ''GatsToGo <onboarding@resend.dev>''"

definition formatFrom :: "string \<Rightarrow> string \<Rightarrow> string" where
  "formatFrom name0 addr0 =
     (let addr = TrimSpace addr0; name = TrimSpace name0 in
      if addr = '''' then resendSandboxFrom
      else if CHR ''<'' \<in> set addr then addr
      else if name = '''' then addr
      else name @ '' <'' @ addr @ ''>'')"

definition resend_baseURL :: "ResendSender \<Rightarrow> string" where
  "resend_baseURL c = (if rs_BaseURL c \<noteq> '''' then rs_BaseURL c else ''https://api.resend.com'')"

definition resend_request :: "ResendSender \<Rightarrow> string \<Rightarrow> string \<Rightarrow> string \<Rightarrow> http_out" where
  "resend_request c to subject body =
     (let replyTo = TrimSpace (rs_ReplyTo c) in
      \<lparr>ho_URL = resend_baseURL c @ ''/emails'',
       ho_Headers = [(''Authorization'', ''Bearer '' @ rs_APIKey c), (''Content-Type'', ''application/json'')],
       ho_JSON = [(''from'', JStr (formatFrom (rs_FromName c) (rs_From c))), (''to'', JArr [JStr to]),
          (''subject'', JStr subject), (''text'', JStr body)]
         @ (if replyTo \<noteq> '''' then [(''reply_to'', JStr replyTo)] else [])\<rparr>)"

definition resend_Send ::
  "exchange \<Rightarrow> (string \<Rightarrow> string) \<Rightarrow> ResendSender \<Rightarrow> string \<Rightarrow> string \<Rightarrow> string \<Rightarrow> go_err + unit" where
  "resend_Send do decode c to subject body =
     answered ''resend'' ''unexpected response from Resend'' decode (do (resend_request c to subject body))"

datatype email_sender = LoggingEmail | ResendEmail ResendSender

definition send_email ::
  "exchange \<Rightarrow> (string \<Rightarrow> string) \<Rightarrow> email_sender \<Rightarrow> string \<Rightarrow> string \<Rightarrow> string \<Rightarrow> go_err + unit" where
  "send_email do decode sender to subject body =
     (case sender of LoggingEmail \<Rightarrow> Inr () | ResendEmail c \<Rightarrow> resend_Send do decode c to subject body)"

section \<open>Numbers and answers\<close>

text \<open>The three ways of writing a Nigerian number reach the same subscriber.\<close>

lemma termiiPhone_forms:
  assumes "length d = 10" "list_all is_digit d"
  shows "termiiPhone d = ''234'' @ d" "termiiPhone (CHR ''0'' # d) = ''234'' @ d"
    "termiiPhone (''234'' @ d) = ''234'' @ d" "termiiPhone (''+234'' @ d) = ''234'' @ d"
proof -
  have f: "filter is_digit d = d" using assms(2) by (simp add: list_all_iff filter_id_conv)
  have "is_digit (CHR ''0'')" "is_digit (CHR ''2'')" "is_digit (CHR ''3'')" "is_digit (CHR ''4'')" "\<not> is_digit (CHR ''+'')"
    by (simp_all add: is_digit_def)
  with assms(1) f show "termiiPhone d = ''234'' @ d" "termiiPhone (CHR ''0'' # d) = ''234'' @ d"
    "termiiPhone (''234'' @ d) = ''234'' @ d" "termiiPhone (''+234'' @ d) = ''234'' @ d"
    by (simp_all add: termiiPhone_def)
qed

text \<open>A message counts as sent only if the service has answered with a success.\<close>

lemma answered_ok: "answered service fallback message r = Inr () \<longleftrightarrow> (\<exists>s b. r = Inr (s, b) \<and> ok_status s)"
  by (auto simp: answered_def split: sum.splits prod.splits if_splits)

lemma sms_sent_iff:
  "SendWithSenderID do decode (TermiiSMS s) senderID to message = Inr () \<longleftrightarrow>
     (\<exists>st b. do (termii_request s (if senderID = '''' then ts_SenderID s else senderID) to message) = Inr (st, b)
       \<and> ok_status st)"
  by (simp add: SendWithSenderID_def termii_SendFrom_def termii_Send_def answered_ok)

end
