(* ===== verification/Startup.thy ===== *)
theory Startup
  imports Http Transports
begin

text \<open>
  Starting the server (\<^verbatim>\<open>CreateNewServer\<close> and its helpers in \<^verbatim>\<open>cmd/server/main.go\<close>), the headers
  every response carries, and the health probe (\<^verbatim>\<open>health.go\<close>). The environment is a function
  from names to values, empty for a variable that is not set; opening and pinging the two
  database pools and Redis is given by what they answer. What is open is the state of the
  start-up actions, so that what a failed start leaves behind can be read off.
\<close>

section \<open>Settings\<close>

type_synonym getenv = "string \<Rightarrow> string"

definition getEnv :: "getenv \<Rightarrow> string \<Rightarrow> string \<Rightarrow> string" where
  "getEnv g key fallback = (if g key \<noteq> '''' then g key else fallback)"

definition listenPort :: "getenv \<Rightarrow> string" where
  "listenPort g = (if g ''PORT'' \<noteq> '''' then g ''PORT'' else getEnv g ''APP_PORT'' ''8080'')"

definition loadSMSSender :: "getenv \<Rightarrow> go_err + sms_sender" where
  "loadSMSSender g =
     (let provider = ToLower (TrimSpace (getEnv g ''SMS_PROVIDER'' ''logging'')) in
      if provider = '''' \<or> provider = ''logging'' \<or> provider = ''log'' then Inr LoggingSMS
      else if provider = ''termii''
      then let apiKey = TrimSpace (g ''TERMII_API_KEY''); senderID = TrimSpace (g ''TERMII_SENDER_ID'') in
           if apiKey = '''' then Inl (ErrorString ''TERMII_API_KEY is required when SMS_PROVIDER=termii'')
           else if senderID = '''' then Inl (ErrorString ''TERMII_SENDER_ID is required when SMS_PROVIDER=termii'')
           else Inr (TermiiSMS (NewTermiiSender apiKey senderID (g ''TERMII_CHANNEL'') (g ''TERMII_BASE_URL'')))
      else Inl (ErrorString (''unsupported SMS_PROVIDER '' @ g ''SMS_PROVIDER'')))"

text \<open>\<^verbatim>\<open>base64.StdEncoding.DecodeString\<close>: line breaks are skipped, the padding is required.\<close>

definition base64_value :: "char \<Rightarrow> nat option" where
  "base64_value c =
     (let n = byte c in
      if 65 \<le> n \<and> n \<le> 90 then Some (n - 65)
      else if 97 \<le> n \<and> n \<le> 122 then Some (n - 71)
      else if is_digit c then Some (n + 4)
      else if c = CHR ''+'' then Some 62 else if c = CHR ''/'' then Some 63 else None)"

fun base64_groups :: "string \<Rightarrow> nat list option" where
  "base64_groups [] = Some []"
| "base64_groups (a # b # c # d # r) =
     (case (base64_value a, base64_value b) of
        (Some x, Some y) \<Rightarrow>
          if c = CHR ''='' \<and> d = CHR ''='' \<and> r = [] then Some [x * 4 + y div 16]
          else (case base64_value c of
             None \<Rightarrow> None
           | Some z \<Rightarrow>
               if d = CHR ''='' \<and> r = [] then Some [x * 4 + y div 16, y mod 16 * 16 + z div 4]
               else (case base64_value d of
                  None \<Rightarrow> None
                | Some u \<Rightarrow> map_option (\<lambda>bs. [x * 4 + y div 16, y mod 16 * 16 + z div 4, z mod 4 * 64 + u] @ bs)
                    (base64_groups r)))
      | _ \<Rightarrow> None)"
| "base64_groups _ = None"

definition base64_decode :: "string \<Rightarrow> nat list option" where
  "base64_decode s = base64_groups (filter (\<lambda>c. c \<noteq> CHR 0x0A \<and> c \<noteq> CHR 0x0D) s)"

definition loadSessionHMACSecret :: "getenv \<Rightarrow> go_err + nat list" where
  "loadSessionHMACSecret g =
     (let raw = g ''SESSION_HMAC_SECRET'' in
      if raw = ''''
      then Inl (ErrorString ''SESSION_HMAC_SECRET is required (generate one with: openssl rand -base64 32)'')
      else case base64_decode raw of
             None \<Rightarrow> Inl (ErrorString ''SESSION_HMAC_SECRET must be base64-encoded'')
           | Some secret \<Rightarrow>
               if length secret < 16
               then Inl (ErrorString (''SESSION_HMAC_SECRET must decode to at least 16 bytes, got '' @ itoa (int (length secret))))
               else Inr secret)"

definition emailSender :: "getenv \<Rightarrow> email_sender" where
  "emailSender g =
     (if g ''RESEND_API_KEY'' = '''' then LoggingEmail
      else ResendEmail (NewResendSender (g ''RESEND_API_KEY'')
        (getEnv g ''RESEND_FROM_EMAIL'' ''noreply@notification.gatstogo.com'')
        (getEnv g ''RESEND_FROM_NAME'' ''GatsToGo'')
        (getEnv g ''RESEND_REPLY_TO'' ''support@notification.gatstogo.com'')))"

definition appBaseURL :: "getenv \<Rightarrow> string" where
  "appBaseURL g = (let u = trim_slashes (getEnv g ''APP_BASE_URL'' ''/'') in if u = '''' then ''/'' else u)"

section \<open>Starting\<close>

datatype resource = AppDB | AdminDB | RedisClient

text \<open>What the services answer: an error, or nothing.\<close>

record services =
  sc_NewPool :: "string \<Rightarrow> go_err option"
  sc_ParseRedisURL :: "string \<Rightarrow> go_err option"
  sc_Ping :: "resource \<Rightarrow> go_err option"

record config =
  cf_Secret :: "nat list"
  cf_BaseDomain :: string
  cf_PaystackKey :: string
  cf_SMS :: sms_sender
  cf_Email :: email_sender
  cf_NotificationEmail :: string
  cf_SupportEmail :: string
  cf_AppBaseURL :: string

type_synonym 'a start = "(resource list, 'a) sact"

definition opened :: "resource \<Rightarrow> go_err option \<Rightarrow> unit start" where
  "opened r answer os = (case answer of None \<Rightarrow> (Inr (), r # os) | Some e \<Rightarrow> (Inl e, os))"

definition give_up :: "resource list \<Rightarrow> go_err \<Rightarrow> 'a start" where
  "give_up rs e os = (Inl e, filter (\<lambda>r. r \<notin> set rs) os)"

text \<open>A check that closes what is open when it fails.\<close>

definition or_close :: "resource list \<Rightarrow> go_err + 'a \<Rightarrow> 'a start" where
  "or_close rs r = (case r of Inl e \<Rightarrow> give_up rs e | Inr a \<Rightarrow> ret a)"

definition answer :: "go_err option \<Rightarrow> go_err + unit" where
  "answer a = (case a of None \<Rightarrow> Inr () | Some e \<Rightarrow> Inl e)"

definition required :: "string \<Rightarrow> string \<Rightarrow> go_err + string" where
  "required v msg = (if v = '''' then Inl (ErrorString msg) else Inr v)"

text \<open>
  As in the code, the first pool is not closed when its own ping fails, nor the Redis client
  when its own does.
\<close>

definition CreateNewServer :: "services \<Rightarrow> getenv \<Rightarrow> config start" where
  "CreateNewServer sc g =
     (let all = [AppDB, AdminDB, RedisClient] in
      bind (opened AppDB (sc_NewPool sc (g ''APP_DATABASE_URL''))) (\<lambda>_.
      bind (or_close [] (answer (sc_Ping sc AppDB))) (\<lambda>_.
      bind (or_close [AppDB] (answer (sc_NewPool sc (g ''ADMIN_DATABASE_URL'')))) (\<lambda>_.
      bind (opened AdminDB None) (\<lambda>_.
      bind (or_close [AppDB, AdminDB] (answer (sc_Ping sc AdminDB))) (\<lambda>_.
      bind (or_close [AppDB, AdminDB] (answer (map_option (Wrap ''invalid REDIS_URL'')
          (sc_ParseRedisURL sc (getEnv g ''REDIS_URL'' ''redis://localhost:6379/0''))))) (\<lambda>_.
      bind (opened RedisClient None) (\<lambda>_.
      bind (or_close [AppDB, AdminDB] (answer (map_option (Wrap ''redis ping'') (sc_Ping sc RedisClient)))) (\<lambda>_.
      bind (or_close all (loadSessionHMACSecret g)) (\<lambda>secret.
      bind (or_close all (required (g ''APP_BASE_DOMAIN'') ''APP_BASE_DOMAIN is required (e.g. gatstogo.com in production, localhost for local dev)'')) (\<lambda>baseDomain.
      bind (or_close all (required (g ''PAYSTACK_SECRET_KEY'') ''PAYSTACK_SECRET_KEY is required'')) (\<lambda>paystackKey.
      bind (or_close all (loadSMSSender g)) (\<lambda>sms.
      ret \<lparr>cf_Secret = secret, cf_BaseDomain = baseDomain, cf_PaystackKey = paystackKey, cf_SMS = sms,
           cf_Email = emailSender g,
           cf_NotificationEmail = getEnv g ''TICKET_NOTIFICATION_EMAIL'' ''gatstogofficial@gmail.com'',
           cf_SupportEmail = getEnv g ''SUPPORT_EMAIL'' ''info@gatstogo.com'',
           cf_AppBaseURL = appBaseURL g\<rparr>)))))))))))))"

section \<open>Headers\<close>

definition csp :: string where
  "csp = concat
     [''default-src '' , [CHR 0x27], ''self'', [CHR 0x27], ''; script-src '', [CHR 0x27], ''self'', [CHR 0x27], '' '',
      [CHR 0x27], ''unsafe-inline'', [CHR 0x27], '' '', [CHR 0x27], ''unsafe-eval'', [CHR 0x27],
      '' https://cdn.jsdelivr.net; style-src '', [CHR 0x27], ''self'', [CHR 0x27], '' '', [CHR 0x27],
      ''unsafe-inline'', [CHR 0x27], '' https://fonts.googleapis.com; font-src '', [CHR 0x27], ''self'', [CHR 0x27],
      '' https://fonts.gstatic.com; img-src '', [CHR 0x27], ''self'', [CHR 0x27], '' data:; connect-src '',
      [CHR 0x27], ''self'', [CHR 0x27], ''; object-src '', [CHR 0x27], ''none'', [CHR 0x27], ''; base-uri '',
      [CHR 0x27], ''self'', [CHR 0x27], ''; frame-ancestors '', [CHR 0x27], ''self'', [CHR 0x27], '';'']"

definition securityHeaders :: "string \<Rightarrow> (string \<times> string) list" where
  "securityHeaders APP_ENV =
     [(''X-Content-Type-Options'', ''nosniff''), (''X-Frame-Options'', ''DENY''),
      (''Referrer-Policy'', ''strict-origin-when-cross-origin''), (''Content-Security-Policy'', csp)]
     @ (if SecureCookies APP_ENV
        then [(''Strict-Transport-Security'', ''max-age=31536000; includeSubDomains'')] else [])"

section \<open>Health\<close>

text \<open>The names of the checks that fail, in the order of the list; every check is run.\<close>

fun failing :: "(string \<times> ('s, unit) hact) list \<Rightarrow> ('s, string list) hact" where
  "failing [] = ret []"
| "failing ((name, ping) # cs) =
     bind (attempt ping) (\<lambda>r. bind (failing cs) (\<lambda>names.
     ret (case r of Inl e \<Rightarrow> name # names | Inr _ \<Rightarrow> names)))"

definition healthHandler :: "(string \<times> ('s, unit) hact) list \<Rightarrow> 's handler" where
  "healthHandler checks r =
     bind (failing checks) (\<lambda>names.
     let status = (if names = [] then 200 else 503) in
     if hr_Method r = ''HEAD'' then ret (plain (StatusOnly status))
     else if names = [] then ret (writeJSON status [(''status'', JStr ''ok'')])
     else ret (writeJSON status [(''failing'', JArr (map JStr names)), (''status'', JStr ''unavailable'')]))"

definition serverHealthChecks :: "'s server \<Rightarrow> (string \<times> ('s, unit) hact) list" where
  "serverHealthChecks sv =
     [(''database'', db_act (request DriverErr)), (''admin_database'', db_act (request DriverErr)),
      (''redis'', bind (send (sv_Redis sv) PING) (\<lambda>_. ret ()))]"

section \<open>What a start needs and leaves behind\<close>

text \<open>A server that starts has its secrets, and all three connections open.\<close>

lemma secret_long: "loadSessionHMACSecret g = Inr s \<Longrightarrow> 16 \<le> length s"
  by (auto simp: loadSessionHMACSecret_def Let_def split: if_splits option.splits)

lemma start_ok:
  assumes "CreateNewServer sc g [] = (Inr c, os)"
  shows "16 \<le> length (cf_Secret c)" "cf_BaseDomain c \<noteq> ''''" "cf_PaystackKey c \<noteq> ''''"
    "set os = {AppDB, AdminDB, RedisClient}" "cf_AppBaseURL c \<noteq> ''''"
  using assms secret_long [of g]
  by (auto simp: CreateNewServer_def bind_def opened_def or_close_def give_up_def answer_def required_def ret_def
      appBaseURL_def Let_def split: option.splits sum.splits if_splits)

text \<open>A start that fails leaves nothing open but a connection whose own ping fails: two of the three.\<close>

lemma start_failed:
  assumes "CreateNewServer sc g [] = (Inl e, os)"
  shows "os = [] \<or> os = [AppDB] \<and> sc_Ping sc AppDB = Some e \<or> os = [RedisClient] \<and> sc_Ping sc RedisClient \<noteq> None"
  using assms
  by (auto simp: CreateNewServer_def bind_def opened_def or_close_def give_up_def answer_def required_def ret_def
      Let_def split: option.splits sum.splits if_splits)

lemma failing_sound:
  assumes "failing cs w = (r, w')"
  shows "\<exists>names. r = Inr names \<and> set names \<subseteq> set (map fst cs)"
  using assms by (induction cs arbitrary: w w' r rule: failing.induct)
    (fastforce simp: bind_def attempt_def ret_def split: prod.splits sum.splits)+

end
