(* ===== verification/Router.thy ===== *)
theory Router
  imports Console HelpCentre Startup
begin

text \<open>
  \<^verbatim>\<open>MountHandlers\<close> (\<^verbatim>\<open>cmd/server/main.go\<close>): which handler answers which route, behind which
  middleware. A group's \<^verbatim>\<open>Use\<close> and a route's \<^verbatim>\<open>With\<close> are the nesting of the middleware around
  its handler. The static files under \<^verbatim>\<open>/static\<close> are left out, and so are logging and timeouts;
  the headers every response carries are \<open>securityHeaders\<close>.
\<close>

type_synonym 's route = "string \<times> string \<times> 's handler"

section \<open>Groups\<close>

text \<open>A tenant route open to the public, with or without the CSRF check.\<close>

definition tenant_public :: "'s server \<Rightarrow> (plant option \<Rightarrow> 's handler) \<Rightarrow> 's handler" where
  "tenant_public sv h = Tenant sv (\<lambda>p. h (Some p))"

definition tenant_form :: "'s server \<Rightarrow> (plant option \<Rightarrow> 's handler) \<Rightarrow> 's handler" where
  "tenant_form sv h = Tenant sv (\<lambda>p. CSRF sv None (h (Some p)))"

text \<open>The groups behind a session: the guard first, then the CSRF check of that session.\<close>

type_synonym 's actor_handler = "plant option \<Rightarrow> Actor option \<Rightarrow> 's handler"

definition receipt_group :: "'s server \<Rightarrow> 's actor_handler \<Rightarrow> 's handler" where
  "receipt_group sv h = Tenant sv (\<lambda>p. RequireReceiptSession sv (Some p) (\<lambda>a. CSRF sv (Some a) (h (Some p) (Some a))))"

definition staff_group :: "'s server \<Rightarrow> 's actor_handler \<Rightarrow> 's handler" where
  "staff_group sv h = Tenant sv (\<lambda>p. RequireStaffSession sv (Some p) (\<lambda>a. CSRF sv (Some a) (h (Some p) (Some a))))"

definition owner_group :: "'s server \<Rightarrow> 's actor_handler \<Rightarrow> 's handler" where
  "owner_group sv h = Tenant sv (\<lambda>p. RequireOwnerSession sv (Some p) (\<lambda>a. CSRF sv (Some a) (h (Some p) (Some a))))"

definition admin_group :: "'s server \<Rightarrow> (Actor option \<Rightarrow> 's handler) \<Rightarrow> 's handler" where
  "admin_group sv h =
     marketingHostOnly sv (RequireAdminSession sv (\<lambda>a. CSRF sv (Some a) (h (Some a))))"

section \<open>Routes\<close>

definition probe_routes :: "'s server \<Rightarrow> 's route list" where
  "probe_routes sv =
     [(''GET'', ''/healthz'', healthHandler (serverHealthChecks sv)),
      (''HEAD'', ''/healthz'', healthHandler (serverHealthChecks sv))]"

text \<open>Pages of the marketing site, and those that branch by host.\<close>

definition page_routes :: "'s server \<Rightarrow> 's route list" where
  "page_routes sv =
     [(''GET'', ''/admin/login'', marketingHostOnly sv (adminLoginPageHandler sv)),
      (''GET'', ''/'', rootOrTenant sv (\<lambda>p. customerHomeHandler sv (Some p))),
      (''GET'', ''/home'', rootOrTenant sv (\<lambda>p. customerHomeHandler sv (Some p))),
      (''GET'', ''/pricing'', pricingPageHandler sv),
      (''GET'', ''/about'', aboutPageHandler sv),
      (''GET'', ''/terms'', termsPageHandler sv),
      (''GET'', ''/privacy'', privacyPageHandler sv),
      (''GET'', ''/help'', marketingHostOnly sv (helpPageHandler sv)),
      (''GET'', ''/help/{category}'', marketingHostOnly sv (helpCategoryHandler sv)),
      (''GET'', ''/help/{category}/{article}'', marketingHostOnly sv (helpArticleHandler sv)),
      (''POST'', ''/help/feedback'', marketingHostOnly sv (helpFeedbackHandler sv)),
      (''GET'', ''/contact'', marketingHostOnly sv (contactPageHandler sv)),
      (''GET'', ''/terminal'', tenantOrReview sv (\<lambda>p. terminalPageHandler sv (Some p))),
      (''GET'', ''/owner/login'', tenantOrReview sv (\<lambda>p. ownerLoginPageHandler sv (Some p)))]"

definition public_routes :: "'s server \<Rightarrow> 's route list" where
  "public_routes sv =
     [(''POST'', ''/webhooks/paystack'', paystackWebhookHandler sv),
      (''POST'', ''/admin/login'', marketingHostOnly sv (CSRF sv None (adminLoginSubmitHandler sv))),
      (''GET'', ''/get-started'', signupPageHandler sv),
      (''GET'', ''/login'', marketingHostOnly sv (loginFinderHandler sv)),
      (''POST'', ''/get-started'', CSRF sv None (signupSubmitHandler sv (sv_DetectContentType sv))),
      (''POST'', ''/get-started/buyer'', CSRF sv None (buyerSignupHandler sv (sv_ParseAddress sv))),
      (''GET'', ''/accounts/resolve'', accountsResolveHandler sv)]"

definition plantSummaryHandler :: "plant option \<Rightarrow> 's handler" where
  "plantSummaryHandler plant0 r =
     (case plant0 of None \<Rightarrow> ret not_found_page
      | Some plant \<Rightarrow> ret (plain (Page 200 ''PlantSummary'' [(''plant'', JStr (pl_Name plant))])))"

definition tenant_routes :: "'s server \<Rightarrow> 's route list" where
  "tenant_routes sv =
     [(''POST'', ''/tickets'', tenant_form sv (buyGasSubmitHandler sv)),
      (''GET'', ''/tickets/{reference}/callback'', tenant_public sv (ticketCallbackHandler sv)),
      (''GET'', ''/receipts'', tenant_public sv (receiptsPageHandler sv)),
      (''POST'', ''/receipts/lookup'', tenant_form sv (receiptsLookupHandler sv)),
      (''POST'', ''/receipts/verify'', tenant_form sv (receiptsVerifyHandler sv)),
      (''GET'', ''/reviews/{token}'', tenant_public sv (reviewPageHandler sv)),
      (''POST'', ''/reviews/{token}'', tenant_form sv (reviewSubmitHandler sv)),
      (''POST'', ''/terminal/pin'', tenant_form sv (terminalPinHandler sv)),
      (''POST'', ''/owner/login'', tenant_form sv (ownerLoginSubmitHandler sv)),
      (''GET'', ''/owner/forgot-password'', tenant_public sv (ownerForgotPasswordPageHandler sv)),
      (''GET'', ''/owner/reset-password'', tenant_public sv (ownerResetPasswordPageHandler sv)),
      (''GET'', ''/home/summary'', tenant_public sv plantSummaryHandler),
      (''POST'', ''/owner/forgot-password'', tenant_form sv (ownerForgotPasswordSubmitHandler sv)),
      (''POST'', ''/owner/reset-password'', tenant_form sv (ownerResetPasswordSubmitHandler sv))]"

definition receipt_handlers :: "'s server \<Rightarrow> (string \<times> string \<times> 's actor_handler) list" where
  "receipt_handlers sv = [(''POST'', ''/tickets/{reference}/confirm'', receiptsConfirmHandler sv)]"

definition staff_handlers :: "'s server \<Rightarrow> (string \<times> string \<times> 's actor_handler) list" where
  "staff_handlers sv =
     [(''POST'', ''/terminal/redeem'', terminalRedeemHandler sv),
      (''POST'', ''/terminal/fill'', terminalFillHandler sv),
      (''GET'', ''/terminal/pump-queue'', terminalPumpQueueHandler sv),
      (''POST'', ''/terminal/receipt/close'', terminalCloseReceiptHandler sv),
      (''POST'', ''/terminal/receipt/bulk-close'', terminalBulkCloseReceiptsHandler sv),
      (''POST'', ''/terminal/cash-sale'', terminalCashSaleHandler sv),
      (''POST'', ''/terminal/price'', terminalSetPriceHandler sv),
      (''POST'', ''/terminal/pumps'', terminalPumpHandler sv),
      (''POST'', ''/terminal/staff/status'', terminalStaffStatusHandler sv),
      (''POST'', ''/terminal/shift/end'', terminalShiftEndHandler sv),
      (''POST'', ''/terminal/logout'', terminalLogoutHandler sv)]"

definition owner_handlers :: "'s server \<Rightarrow> (string \<times> string \<times> 's actor_handler) list" where
  "owner_handlers sv =
     [(''GET'', ''/owner'', ownerDashboardHandler sv),
      (''GET'', ''/owner/dashboard'', ownerDashboardHandler sv),
      (''GET'', ''/owner/password'', ownerChangePasswordPageHandler sv),
      (''POST'', ''/owner/logout'', \<lambda>_ _. ownerLogoutHandler sv),
      (''POST'', ''/tickets/{reference}/void'', ticketVoidHandler sv),
      (''POST'', ''/owner/prices'', ownerSetPriceHandler sv),
      (''POST'', ''/owner/staff'', ownerCreateStaffHandler sv),
      (''POST'', ''/owner/staff/{id}/status'', ownerStaffStatusHandler sv),
      (''POST'', ''/owner/staff/{id}/permissions'', ownerStaffPermissionsHandler sv),
      (''POST'', ''/owner/hours'', ownerHoursHandler sv),
      (''POST'', ''/owner/pumps'', ownerPumpHandler sv),
      (''POST'', ''/owner/settings'', \<lambda>p a r. ownerUpdateSettingsHandler sv (sv_DetectContentType sv) (hr_logo r) p a r),
      (''POST'', ''/owner/password'', ownerChangePasswordHandler sv)]"

definition admin_handlers :: "'s server \<Rightarrow> (string \<times> string \<times> (Actor option \<Rightarrow> 's handler)) list" where
  "admin_handlers sv =
     [(''GET'', ''/admin'', adminConsoleHandler sv),
      (''GET'', ''/admin/plants/{id}'', adminPlantDetailHandler sv),
      (''GET'', ''/admin/buyers.csv'', \<lambda>_. adminBuyersCSVHandler sv),
      (''POST'', ''/admin/logout'', \<lambda>_. adminLogoutHandler sv),
      (''POST'', ''/admin/plants'', \<lambda>a r. adminCreatePlantHandler sv (sv_DetectContentType sv) (hr_logo r) a r),
      (''POST'', ''/admin/plants/{id}/messaging'', adminPlantMessagingHandler sv),
      (''POST'', ''/admin/plants/{id}/status'', adminPlantStatusHandler sv),
      (''POST'', ''/admin/plants/{id}/subaccount'', adminPlantSubaccountHandler sv (sv_ErrText sv))]"

definition mounted :: "('h \<Rightarrow> 's handler) \<Rightarrow> (string \<times> string \<times> 'h) list \<Rightarrow> 's route list" where
  "mounted behind hs = map (\<lambda>(m, p, h). (m, p, behind h)) hs"

definition MountHandlers :: "'s server \<Rightarrow> 's route list" where
  "MountHandlers sv =
     probe_routes sv @ page_routes sv @ public_routes sv @ tenant_routes sv
     @ mounted (receipt_group sv) (receipt_handlers sv)
     @ mounted (staff_group sv) (staff_handlers sv)
     @ mounted (owner_group sv) (owner_handlers sv)
     @ mounted (admin_group sv) (admin_handlers sv)"

text \<open>A route answers the requests of its own method.\<close>

definition serves :: "'s server \<Rightarrow> http_request \<Rightarrow> 's handler \<Rightarrow> bool" where
  "serves sv r h \<longleftrightarrow> (\<exists>pattern. (hr_Method r, pattern, h) \<in> set (MountHandlers sv))"

end
