(* ===== verification/HandlerRules.thy ===== *)
theory HandlerRules
  imports ChangeLaws Router
begin

text \<open>
  Handlers between two databases: \<open>hkeeps R m\<close> says of an action of a handler what \<open>keeps R\<close>
  says of an action on the database. The locale has the rules for any preorder: the constructs
  that handlers are made of, Redis, sessions and middleware, everything that only reads, and so
  the handlers that only read. It is interpreted with the steps of the system (\<open>System\<close>) and with
  what a safe request may change (\<open>SafeMethods\<close>).
\<close>

section \<open>Reads and outside calls\<close>

definition unchanged :: "db \<Rightarrow> db \<Rightarrow> bool" where
  "unchanged d d' \<longleftrightarrow> d' = d"

interpretation same: db_preorder unchanged
  by unfold_locales (simp_all add: unchanged_def)

lemma unchanged_outside [keeps_rules]:
  "keeps unchanged (HashPassword bc pw)" "keeps unchanged (file_op g)" "keeps unchanged cached_banks"
  "keeps unchanged (cache_banks banks now)"
  by (simp_all add: HashPassword_def file_op_def cached_banks_def cache_banks_def keeps_def unchanged_def Let_def)

lemma unchanged_paystack [keeps_rules]: "keeps unchanged (paystack_do c m path b dec)"
  by (simp add: paystack_do_def keeps_def unchanged_def Let_def case_prod_unfold split: sum.splits)

lemma unchanged_remove [keeps_rules]: "keeps unchanged (remove_others slug ext es)"
  by (induction es) (auto simp: os_Remove_def intro!: keeps_rules)

lemma unchanged_SaveLogo [keeps_rules]: "keeps unchanged (SaveLogo detect slug content declared)"
  unfolding SaveLogo_def write_logo_def os_Remove_def Let_def by (intro keeps_rules)

lemma unchanged_calls [keeps_rules]:
  "keeps unchanged (Initialize c ip)" "keeps unchanged (Verify c ref)" "keeps unchanged (ResolveAccount c n b)"
  "keeps unchanged (CreateSubaccount c sp)" "keeps unchanged (ListBanks c)" "keeps unchanged NewPublicToken"
  "keeps unchanged (save_optional_logo detect slug logo)" "keeps unchanged (provision_logo detect params logo)"
  unfolding Initialize_def Verify_def ResolveAccount_def CreateSubaccount_def ListBanks_def NewPublicToken_def
    save_optional_logo_def provision_logo_def
  by (intro keeps_rules)+

lemma unchanged_banks [keeps_rules]: "keeps unchanged (BanksWithFallback c)" "keeps unchanged (BankName c code)"
proof -
  show "keeps unchanged (BanksWithFallback c)"
    unfolding BanksWithFallback_def by (intro keeps_rules)
  then show "keeps unchanged (BankName c code)"
    unfolding BankName_def by (intro keeps_rules)
qed

text \<open>The transactions and lookups that only read.\<close>

lemma unchanged_reads [keeps_rules]:
  "keeps unchanged (Redeem q c)" "keeps unchanged (ListByPhone q ph)" "keeps unchanged (GetReceipt q ref ph)"
  "keeps unchanged (ListDispensingForPump q i)" "keeps unchanged (LookupPlantByReference ref)"
  "keeps unchanged (GetTarget q tok)" "keeps unchanged (Summary q s)" "keeps unchanged (pin_lookup_tx q u)"
  "keeps unchanged (login_lookup_tx q ph)" "keeps unchanged (forgot_lookup_tx q ph)"
  "keeps unchanged (admin_candidates ph)" "keeps unchanged (plant_state slug)"
  "keeps unchanged (loadPlantApprovalNotification i)" "keeps unchanged (subaccount_code i)"
  "keeps unchanged (settlement_details i)"
  unfolding Redeem_def ListByPhone_def GetReceipt_def ListDispensingForPump_def LookupPlantByReference_def
    GetTarget_def Summary_def pin_lookup_tx_def login_lookup_tx_def forgot_lookup_tx_def admin_candidates_def
    plant_state_def loadPlantApprovalNotification_def subaccount_code_def settlement_details_def Let_def
  by (intro keeps_rules)+

lemma unchanged_views [keeps_rules]:
  "keeps unchanged (receipts_tx sv q ph t tok)" "keeps unchanged (session_tx q u s)" "keeps unchanged fillSignupCounters"
  unfolding receipts_tx_def session_tx_def fillSignupCounters_def FoundingSpotsClaimed_def SpotsClaimed_def Let_def
  by (intro keeps_rules)+

lemma unchanged_home [keeps_rules]: "keeps unchanged (customerHome_tx sv plant)"
  unfolding customerHome_tx_def loadCurrentPrice_def StatusNow_def Let_def by (intro keeps_rules)

text \<open>What the administrator's pages read, a statement at a time.\<close>

lemma unchanged_count_tables [keeps_rules]: "keeps unchanged (count_tables ts)"
  by (induction ts) (auto simp: countRows_def intro!: keeps_rules)

lemma unchanged_console [keeps_rules]:
  "keeps unchanged loadAdminPlants" "keeps unchanged (loadAdminActivity n)" "keeps unchanged loadPlatformStaff"
  "keeps unchanged loadSystemTables" "keeps unchanged loadReservedSlugs" "keeps unchanged loadAdminConsole"
  "keeps unchanged (loadActivity i n)" "keeps unchanged (loadAdminPlantDetail ds j)"
  unfolding loadAdminPlants_def loadAdminActivity_def loadPlatformStaff_def loadSystemTables_def
    loadReservedSlugs_def loadAdminConsole_def loadActivity_def loadAdminPlantDetail_def loaded_def Let_def
  by (intro keeps_rules)+

lemma unchanged_request [keeps_rules]: "keeps unchanged (request e)"
  by (simp add: keeps_def unchanged_def request_def Let_def)

lemma db_act_simps [simp]:
  "db_act (ret a) = ret a" "db_act (fail e) = fail e" "db_act (bind m f) = bind (db_act m) (\<lambda>x. db_act (f x))"
  "db_act (attempt m) = attempt (db_act m)"
  "db_act (if c then m else n) = (if c then db_act m else db_act n)"
  by (auto simp: fun_eq_iff db_act_def ret_def fail_def bind_def attempt_def split: prod.splits sum.splits)

section \<open>Rules for any preorder\<close>

named_theorems step_rules \<open>actions of handlers that change the database as a relation allows\<close>

definition hkeeps :: "(db \<Rightarrow> db \<Rightarrow> bool) \<Rightarrow> ('s, 'a) hact \<Rightarrow> bool" where
  "hkeeps R m \<longleftrightarrow> (\<forall>ws. R (w_db (fst ws)) (w_db (fst (snd (m ws)))))"

locale handler_relation = db_preorder R for R :: "db \<Rightarrow> db \<Rightarrow> bool"
begin

lemma hkeeps_ret [step_rules]: "hkeeps R (ret a)" "hkeeps R (fail e)"
  by (simp_all add: hkeeps_def ret_def fail_def refl)

lemma hkeeps_bind [step_rules]:
  assumes "hkeeps R m" "\<And>a. hkeeps R (f a)"
  shows "hkeeps R (bind m f)"
proof (unfold hkeeps_def, intro allI)
  fix ws
  obtain x ws1 where m: "m ws = (x, ws1)" by (cases "m ws")
  with assms(1) have "R (w_db (fst ws)) (w_db (fst ws1))"
    by (metis hkeeps_def snd_conv)
  moreover have "R (w_db (fst ws1)) (w_db (fst (snd (f a ws1))))" for a
    using assms(2) [of a] unfolding hkeeps_def by blast
  ultimately show "R (w_db (fst ws)) (w_db (fst (snd (bind m f ws))))"
    using m by (cases x) (auto simp: bind_def intro: trans)
qed

lemma hkeeps_attempt [step_rules]: "hkeeps R m \<Longrightarrow> hkeeps R (attempt m)"
  by (simp add: hkeeps_def attempt_def case_prod_unfold)

lemma hkeeps_ignore [step_rules]: "hkeeps R m \<Longrightarrow> hkeeps R (ignore m)"
  unfolding ignore_def by (intro step_rules)

lemma hkeeps_cases [step_rules]:
  "hkeeps R m \<Longrightarrow> hkeeps R n \<Longrightarrow> hkeeps R (if c then m else n)"
  "hkeeps R m \<Longrightarrow> (\<And>a. hkeeps R (f a)) \<Longrightarrow> hkeeps R (case x of None \<Rightarrow> m | Some a \<Rightarrow> f a)"
  "(\<And>e. hkeeps R (g e)) \<Longrightarrow> (\<And>a. hkeeps R (f a)) \<Longrightarrow> hkeeps R (case y of Inl e \<Rightarrow> g e | Inr a \<Rightarrow> f a)"
  "(\<And>a b. hkeeps R (h a b)) \<Longrightarrow> hkeeps R (case z of (a, b) \<Rightarrow> h a b)"
  by (auto split: option.splits sum.splits prod.splits)

lemma hkeeps_send [step_rules]: "hkeeps R (send rdb c)"
  by (simp add: hkeeps_def send_def case_prod_unfold refl)

lemma hkeeps_typed [step_rules]: "hkeeps R (as_string r)" "hkeeps R (as_int r)" "hkeeps R (as_bool r)"
  by (simp_all add: as_string_def as_int_def as_bool_def hkeeps_def ret_def fail_def refl split: reply.splits)

lemma hkeeps_read:
  assumes "keeps unchanged m"
  shows "hkeeps R (db_act m)"
  using assms by (simp add: hkeeps_def db_act_def keeps_def unchanged_def case_prod_unfold refl)

lemma hkeeps_tenant:
  assumes "keeps R (WithTenant p m)"
  shows "hkeeps R (in_tenant p m)"
  using assms by (simp add: hkeeps_def in_tenant_def attempt_def db_act_def keeps_def case_prod_unfold)

lemma hkeeps_tenant_read: "keeps unchanged m \<Longrightarrow> hkeeps R (in_tenant p m)"
  unfolding in_tenant_def by (intro hkeeps_attempt hkeeps_read same.keeps_WithTenant)

lemma hkeeps_assigned:
  assumes "hkeeps R (in_tenant p m)"
  shows "hkeeps R (db_act (assigned_in_tenant p a m))"
  using assms
  by (simp add: hkeeps_def in_tenant_def db_act_def attempt_def assigned_in_tenant_def case_prod_unfold)

lemma steps_reads [step_rules]:
  "hkeeps R (in_tenant p (Redeem q c))" "hkeeps R (in_tenant p (ListDispensingForPump q i))"
  "hkeeps R (in_tenant p (GetTarget q tok))" "hkeeps R (in_tenant p (pin_lookup_tx q u))"
  "hkeeps R (in_tenant p (login_lookup_tx q ph))" "hkeeps R (in_tenant p (forgot_lookup_tx q ph))"
  "hkeeps R (in_tenant p (receipts_tx sv q ph t tok))" "hkeeps R (in_tenant p (session_tx q u s))"
  "hkeeps R (in_tenant p (query_row g))"
  by (intro hkeeps_tenant_read keeps_rules)+

lemma steps_calls [step_rules]:
  "hkeeps R (db_act ask_env)" "hkeeps R (db_act time_Now)" "hkeeps R (db_act (rand_int n))"
  "hkeeps R (db_act (rand_bytes n))" "hkeeps R (db_act (HashPassword bc pw))"
  "hkeeps R (db_act (Initialize c ip))" "hkeeps R (db_act (Verify c ref))" "hkeeps R (db_act (ResolveAccount c n' b))"
  "hkeeps R (db_act (CreateSubaccount c sp))" "hkeeps R (db_act NewPublicToken)"
  "hkeeps R (db_act (save_optional_logo detect slug logo))" "hkeeps R (db_act (provision_logo detect params logo))"
  "hkeeps R (db_act (BanksWithFallback c))" "hkeeps R (db_act (BankName c code))"
  "hkeeps R (db_act (on_admin_pool (LookupPlantByReference ref)))" "hkeeps R (db_act (on_admin_pool (admin_candidates ph)))"
  "hkeeps R (db_act (on_admin_pool (query_row g)))" "hkeeps R (db_act (plant_state slug'))"
  "hkeeps R (db_act (loadPlantApprovalNotification i))" "hkeeps R (db_act (subaccount_code i))"
  "hkeeps R (db_act (settlement_details i))" "hkeeps R (db_act fillSignupCounters)"
  by (intro hkeeps_read keeps_rules)+

section \<open>Redis and sessions\<close>

lemma steps_commands [step_rules]:
  "hkeeps R (rGet rdb k)" "hkeeps R (rGetDel rdb k)" "hkeeps R (rSet rdb k v t)" "hkeeps R (rSetNX rdb k v t)"
  "hkeeps R (rIncr rdb k)" "hkeeps R (rExpire rdb k t)" "hkeeps R (rDel rdb k)" "hkeeps R (rTTL rdb k)"
  "hkeeps R (rExists rdb k)"
  unfolding rGet_def rGetDel_def rSet_def rSetNX_def rIncr_def rExpire_def rDel_def rTTL_def rExists_def
  by (intro step_rules)+

lemma steps_limits [step_rules]:
  "hkeeps R (Locked rdb u)" "hkeeps R (RecordFailure rdb u)" "hkeeps R (Reset rdb u)"
  "hkeeps R (RequestCode rdb q ph)" "hkeeps R (VerifyCode rdb q ph c)" "hkeeps R (checkIPRateLimit rdb kp ip n t)"
  unfolding Locked_def RecordFailure_def Reset_def RequestCode_def VerifyCode_def recordFailure_def newCode_def
    checkIPRateLimit_def Let_def
  by (simp_all only: db_act_simps) (intro step_rules)+

lemma steps_sessions [step_rules]:
  "hkeeps R (session_Create rdb cd d t)" "hkeeps R (session_Load rdb cd tok)" "hkeeps R (session_Touch rdb tok t)"
  "hkeeps R (session_Delete rdb tok)" "hkeeps R (IssueToken rdb u)" "hkeeps R (Consume rdb tok)" "hkeeps R (Peek rdb tok)"
  unfolding session_Create_def session_Load_def session_Touch_def session_Delete_def IssueToken_def Consume_def
    Peek_def parse_user_def newToken_def Let_def
  by (simp_all only: db_act_simps) (intro step_rules)+

section \<open>Middleware\<close>

lemma steps_middleware [step_rules]:
  "hkeeps R (EnsurePublicCSRFCookie sv r)" "hkeeps R (load_cookie sv r kind)"
  "hkeeps R k \<Longrightarrow> hkeeps R (renewing sv kind tok t k)" "hkeeps R (rate_limited sv kp r n t)"
  "hkeeps R (logout_cookie sv r kind url)"
  unfolding EnsurePublicCSRFCookie_def load_cookie_def renewing_def rate_limited_def logout_cookie_def
  by (intro step_rules; assumption?)+

lemma steps_guards [step_rules]:
  "(\<And>p. hkeeps R (h p r)) \<Longrightarrow> hkeeps R (Tenant sv h r)"
  "hkeeps R (g r) \<Longrightarrow> hkeeps R (CSRF sv a g r)"
  "hkeeps R (g r) \<Longrightarrow> hkeeps R (marketingHostOnly sv g r)"
  "(\<And>a. hkeeps R (k a r)) \<Longrightarrow> hkeeps R (RequireOwnerSession sv q k r)"
  "(\<And>a. hkeeps R (k a r)) \<Longrightarrow> hkeeps R (RequireAdminSession sv k r)"
  "(\<And>a. hkeeps R (k a r)) \<Longrightarrow> hkeeps R (RequireStaffSession sv q k r)"
  "(\<And>a. hkeeps R (k a r)) \<Longrightarrow> hkeeps R (RequireReceiptSession sv q k r)"
  unfolding Tenant_def CSRF_def marketingHostOnly_def RequireOwnerSession_def RequireAdminSession_def
    RequireStaffSession_def RequireReceiptSession_def Let_def
  by (intro step_rules; assumption?; blast?)+

section \<open>Handlers that only read\<close>

lemma reading_customer [step_rules]:
  "hkeeps R (receiptsPageHandler sv q r)" "hkeeps R (reviewPageHandler sv q r)"
  "hkeeps R (accountsResolveHandler sv r)" "hkeeps R (plantSummaryHandler q r)"
  unfolding receiptsPageHandler_def loadReceiptSession_def reviewPageHandler_def accountsResolveHandler_def
    renderReceiptsLookup_def renderReceipts_def plantSummaryHandler_def Let_def
  by (intro step_rules)+

lemma reading_home [step_rules]: "hkeeps R (customerHomeHandler sv q r)"
proof -
  have "hkeeps R (db_act (assigned_in_tenant (pl_ID plant) a (customerHome_tx sv plant)))" for plant a
    by (intro hkeeps_assigned hkeeps_tenant_read keeps_rules)
  then show ?thesis unfolding customerHomeHandler_def Let_def by (intro step_rules)
qed

lemma reading_terminal [step_rules]:
  "hkeeps R (terminalPumpQueueHandler sv q a r)" "hkeeps R (loadCurrentTerminalSession sv i r)"
  unfolding terminalPumpQueueHandler_def loadCurrentTerminalSession_def Let_def
  by (intro step_rules)+

lemma reading_owner [step_rules]:
  "hkeeps R (refresh_permissions i a)" "hkeeps R (ownerChangePasswordPageHandler sv q b r)"
  "hkeeps R (ownerLoginPageHandler sv q r)" "hkeeps R (ownerForgotPasswordPageHandler sv q r)"
  "hkeeps R (ownerResetPasswordPageHandler sv q r)"
  unfolding refresh_permissions_def ownerChangePasswordPageHandler_def ownerLoginPageHandler_def
    ownerForgotPasswordPageHandler_def ownerResetPasswordPageHandler_def Let_def
  by (intro step_rules)+

lemma reading_console [step_rules]:
  "hkeeps R (adminConsoleHandler sv a r)" "hkeeps R (adminPlantDetailHandler sv a r)"
  "hkeeps R (adminBuyersCSVHandler sv r)" "hkeeps R (adminLoginPageHandler sv r)"
proof -
  have reads: "hkeeps R (db_act loadAdminConsole)" "hkeeps R (db_act (loadAdminPlantDetail ds j))"
    "hkeeps R (db_act (on_admin_pool (query f)))" for ds j and f :: "db \<Rightarrow> buyer_row list"
    by (intro hkeeps_read keeps_rules)+
  show "hkeeps R (adminConsoleHandler sv a r)" "hkeeps R (adminPlantDetailHandler sv a r)"
    "hkeeps R (adminBuyersCSVHandler sv r)" "hkeeps R (adminLoginPageHandler sv r)"
    unfolding adminConsoleHandler_def adminPlantDetailHandler_def adminBuyersCSVHandler_def adminLoginPageHandler_def Let_def
    by (intro step_rules reads)+
qed

lemma reading_health [step_rules]: "hkeeps R (healthHandler (serverHealthChecks sv) r)"
proof -
  have all: "\<forall>c \<in> set cs. hkeeps R (snd c) \<Longrightarrow> hkeeps R (failing cs)"
    for cs :: "(string \<times> ('s, unit) hact) list"
    by (induction cs rule: failing.induct) (auto intro!: step_rules)
  have "hkeeps R (db_act (request e))" for e
    by (intro hkeeps_read keeps_rules)
  moreover have "hkeeps R (bind (send (sv_Redis sv) PING) (\<lambda>_. ret ()))" by (intro step_rules)
  ultimately have "hkeeps R (failing (serverHealthChecks sv))"
    by (intro all) (auto simp: serverHealthChecks_def)
  then show ?thesis unfolding healthHandler_def Let_def by (intro step_rules)
qed

lemma reading_marketing [step_rules]:
  "hkeeps R (signupPageHandler sv r)" "hkeeps R (loginFinderHandler sv r)" "hkeeps R (helpFeedbackHandler sv r)"
  unfolding signupPageHandler_def loginFinderHandler_def helpFeedbackHandler_def Let_def
  by (intro step_rules)+

lemma reading_static [step_rules]:
  "hkeeps R (pricingPageHandler sv r)" "hkeeps R (aboutPageHandler sv r)" "hkeeps R (termsPageHandler sv r)"
  "hkeeps R (privacyPageHandler sv r)" "hkeeps R (helpPageHandler sv r)" "hkeeps R (contactPageHandler sv r)"
  "hkeeps R (helpCategoryHandler sv r)" "hkeeps R (helpArticleHandler sv r)"
  unfolding pricingPageHandler_def aboutPageHandler_def termsPageHandler_def privacyPageHandler_def
    helpPageHandler_def contactPageHandler_def helpCategoryHandler_def helpArticleHandler_def static_page_def Let_def
  by (intro step_rules)+

lemma hosts_branch [step_rules]:
  "(\<And>p. hkeeps R (h p r)) \<Longrightarrow> hkeeps R (rootOrTenant sv h r)"
  "(\<And>p. hkeeps R (h p r)) \<Longrightarrow> hkeeps R (tenantOrReview sv h r)"
  unfolding rootOrTenant_def tenantOrReview_def serveTenantOrReview_def marketingLandingHandler_def Let_def
  by (intro step_rules; assumption?; blast?)+

text \<open>The two pages whose transaction may also write.\<close>

lemma dashboard_page:
  assumes "\<And>plant. keeps R (WithTenant (pl_ID plant) (loadOwnerDashboard plant))"
  shows "hkeeps R (ownerDashboardHandler sv q a r)"
  unfolding ownerDashboardHandler_def Let_def by (intro step_rules hkeeps_tenant assms)

lemma terminal_page:
  assumes "\<And>plant. keeps R (WithTenant (pl_ID plant) (terminal_tx plant))"
  shows "hkeeps R (terminalPageHandler sv q r)"
  unfolding terminalPageHandler_def Let_def by (intro step_rules hkeeps_assigned hkeeps_tenant assms)

end

end
