(* ===== verification/System.thy ===== *)
theory System
  imports HandlerRules
begin

text \<open>
  The server as a transition system on the database. A step is one transaction, run to whatever
  end the environment gives it; the handlers are shown to be sequences of such steps, so that an
  invariant of the steps holds after any interleaving of requests, transaction by transaction.
\<close>

section \<open>Steps\<close>

definition void :: "'a act \<Rightarrow> unit act" where
  "void m = bind m (\<lambda>_. ret ())"

text \<open>
  The transactions that the handlers run for a plant, with any arguments; those of the
  administrators, and of the operator's command line.
\<close>

inductive tenant_tx :: "uuid \<Rightarrow> unit act \<Rightarrow> bool" where
  buy: "tenant_tx (pl_ID plant) (void (buyGas_tx L plant a c n ph))"
| callback: "tenant_tx p (void (callback_tx p ref v))"
| webhook: "tenant_tx p (void (webhook_tx p t ref x))"
| void: "tenant_tx p (void (void_tx p ref u reason))"
| confirm: "tenant_tx p (void (confirm_tx p ref ph))"
| review: "tenant_tx p (void (review_tx p tok rating note))"
| start_shift: "tenant_tx p (void (start_shift_tx p u cash dev pump))"
| fill: "tenant_tx (pl_ID plant) (void (fill_tx url plant t actor))"
| cash_sale: "tenant_tx (pl_ID plant) (void (cashSale_tx L plant u s a ph))"
| close_receipt: "tenant_tx p (void (closeReceipt_tx p t s u note))"
| bulk_close: "tenant_tx p (void (bulkClose_tx p i s u note))"
| save_pump: "tenant_tx p (void (pump_tx p u j n st so))"
| staff_status: "tenant_tx p (void (staffStatus_tx p a u b))"
| set_price: "tenant_tx p (void (setPrice_tx p u k))"
| logged_out: "tenant_tx p (void (Log (Some p) u act sub det))"
| end_shift: "tenant_tx p (void (shiftEnd_tx p s u cash notes))"
| owner_price: "tenant_tx p (void (ownerSetPrice_tx p u k))"
| create_staff: "tenant_tx p (void (createStaff_tx bc p u params))"
| owner_staff_status: "tenant_tx p (void (ownerStaffStatus_tx p a u b))"
| permissions: "tenant_tx p (void (permissions_tx p a u x y z))"
| opening_hours: "tenant_tx p (void (hours_tx p a ss))"
| owner_pump: "tenant_tx p (void (ownerPump_tx p a j n st so))"
| settings: "tenant_tx p (void (settings_tx p a n c ad ph cols logo))"
| change_password: "tenant_tx p (void (changePassword_tx bc p u cur new))"
| reset_password: "tenant_tx p (void (reset_tx p u h))"
| dashboard: "tenant_tx (pl_ID plant) (void (loadOwnerDashboard plant))"
| terminal_page: "tenant_tx (pl_ID plant) (void (terminal_tx plant))"

inductive admin_tx :: "unit act \<Rightarrow> bool" where
  create: "validate q = Inr v \<Longrightarrow> admin_tx (void (create_tx q v h actor))"
| status: "validStatuses st \<Longrightarrow> admin_tx (void (setStatus_tx i st a))"
| settlement: "admin_tx (void (settlement_tx i n c a))"
| messaging: "admin_tx (void (messaging_tx i sid a))"
| signup: "admin_tx (void (signup_tx n key e s src))"
| create_admin: "admin_tx (void (create_admin_tx nm ph e h))"
| delete_admin: "admin_tx (void (delete_admin_tx ph))"

inductive server_step :: "db \<Rightarrow> db \<Rightarrow> bool" where
  tenant: "tenant_tx p m \<Longrightarrow> WithTenant p m w = (r, w') \<Longrightarrow> server_step (w_db w) (w_db w')"
| admin: "admin_tx m \<Longrightarrow> with_admin_tx m w = (r, w') \<Longrightarrow> server_step (w_db w) (w_db w')"

inductive_cases server_stepE: "server_step d d'"

text \<open>
  An installation begins with plants, users, prices and whatever else an operator put there,
  within the constraints of the schema, and without tickets.
\<close>

inductive reachable :: "db \<Rightarrow> bool" where
  init: "schema_ok d \<Longrightarrow> db_tickets d = [] \<Longrightarrow> reachable d"
| step: "reachable d \<Longrightarrow> server_step d d' \<Longrightarrow> reachable d'"

lemma reachable_steps: "server_step\<^sup>*\<^sup>* d d' \<Longrightarrow> reachable d \<Longrightarrow> reachable d'"
  by (induction rule: rtranclp_induct) (auto intro: reachable.step)

section \<open>What a step keeps\<close>

lemma keeps_void: "keeps sound m \<Longrightarrow> keeps sound (void m)" "keeps tickets_evolve m \<Longrightarrow> keeps tickets_evolve (void m)"
  unfolding void_def by (intro keeps_rules; assumption)+

lemma tenant_tx_keeps: "tenant_tx p m \<Longrightarrow> keeps sound m \<and> keeps tickets_evolve m"
  by (induction rule: tenant_tx.induct) (intro conjI keeps_void keeps_rules)+

lemma admin_tx_keeps: "admin_tx m \<Longrightarrow> keeps sound m \<and> keeps tickets_evolve m"
  by (induction rule: admin_tx.induct) (intro conjI keeps_void keeps_rules)+

lemma tenant_tx_writes_own: "tenant_tx p m \<Longrightarrow> writes_own q m"
  by (induction rule: tenant_tx.induct) (unfold void_def, (intro tenant_rules)+)

lemma step_keeps: "server_step d d' \<Longrightarrow> sound d d' \<and> tickets_evolve d d'"
proof (induction rule: server_step.induct)
  case (tenant p m w r w')
  then show ?case
    using tenant_tx_keeps [of p m] keepsD [OF sound.keeps_WithTenant] keepsD [OF life.keeps_WithTenant] by blast
next
  case (admin m w r w')
  then show ?case
    using admin_tx_keeps [of m] keepsD [OF sound.keeps_with_admin_tx] keepsD [OF life.keeps_with_admin_tx] by blast
qed

lemma steps_keep: "server_step\<^sup>*\<^sup>* d d' \<Longrightarrow> sound d d' \<and> tickets_evolve d d'"
  by (induction rule: rtranclp_induct)
    (auto intro: sound.refl life.refl dest!: step_keeps intro: sound.trans life.trans)

lemma reachable_from_init:
  "reachable d \<Longrightarrow> \<exists>d0. schema_ok d0 \<and> db_tickets d0 = [] \<and> server_step\<^sup>*\<^sup>* d0 d"
  by (induction rule: reachable.induct) (auto intro: rtranclp.rtrancl_into_rtrancl)

section \<open>Handlers as sequences of steps\<close>

abbreviation by_steps :: "('s, 'a) hact \<Rightarrow> bool" where
  "by_steps \<equiv> hkeeps (server_step\<^sup>*\<^sup>*)"

interpretation steps: handler_relation "server_step\<^sup>*\<^sup>*"
  by unfold_locales (auto intro: rtranclp_trans)

lemma WithTenant_void: "w_db (snd (WithTenant p (void m) w)) = w_db (snd (WithTenant p m w))"
  by (auto simp: WithTenant_def void_def bind_def ret_def split: prod.splits sum.splits)

lemma admin_tx_void: "w_db (snd (with_admin_tx (void m) w)) = w_db (snd (with_admin_tx m w))"
  by (auto simp: with_admin_tx_def void_def bind_def ret_def split: prod.splits sum.splits)

lemma step_tenant:
  assumes "tenant_tx p (void m)"
  shows "keeps (server_step\<^sup>*\<^sup>*) (WithTenant p m)"
proof (unfold keeps_def, intro allI r_into_rtranclp)
  fix w
  have "server_step (w_db w) (w_db (snd (WithTenant p (void m) w)))"
    by (rule server_step.tenant [OF assms prod.collapse [symmetric]])
  then show "server_step (w_db w) (w_db (snd (WithTenant p m w)))"
    by (simp add: WithTenant_void)
qed

lemmas by_steps_tenant = steps.hkeeps_tenant [OF step_tenant]

lemma by_steps_admin:
  assumes "admin_tx (void m)"
  shows "by_steps (db_act (with_admin_tx m))"
proof (unfold hkeeps_def, intro allI r_into_rtranclp)
  fix ws
  have "server_step (w_db (fst ws)) (w_db (snd (with_admin_tx (void m) (fst ws))))"
    by (rule server_step.admin [OF assms prod.collapse [symmetric]])
  then show "server_step (w_db (fst ws)) (w_db (fst (snd (db_act (with_admin_tx m) ws))))"
    by (simp add: db_act_def case_prod_unfold admin_tx_void)
qed

lemmas tenant_steps [step_rules] = tenant_tx.intros [THEN by_steps_tenant]
lemmas admin_steps [step_rules] = admin_tx.intros [THEN by_steps_admin]

end
