(* ===== verification/HandlerSteps.thy ===== *)
theory HandlerSteps
  imports System
begin

text \<open>
  Every handler that \<open>MountHandlers\<close> serves changes the database by steps of the system only,
  with its middleware around it: those that do more than read, here.
\<close>

section \<open>Customers\<close>

lemma steps_customer [step_rules]:
  "by_steps (buyGasSubmitHandler sv q r)" "by_steps (ticketCallbackHandler sv q r)"
  "by_steps (paystackWebhookHandler sv r)" "by_steps (ticketVoidHandler sv q a r)"
  "by_steps (receiptsLookupHandler sv q r)" "by_steps (receiptsVerifyHandler sv q r)"
  "by_steps (receiptsConfirmHandler sv q a r)" "by_steps (reviewSubmitHandler sv q r)"
  unfolding buyGasSubmitHandler_def ticketCallbackHandler_def paystackWebhookHandler_def ticketVoidHandler_def
    receiptsLookupHandler_def receiptsVerifyHandler_def receiptsConfirmHandler_def reviewSubmitHandler_def
    renderReceiptsLookup_def renderReceiptsVerify_def renderReceipts_def Let_def
  by (intro step_rules)+

section \<open>The terminal\<close>

lemma steps_terminal [step_rules]:
  "by_steps (terminalPinHandler sv q r)" "by_steps (terminalRedeemHandler sv q a r)"
  "by_steps (terminalFillHandler sv q a r)" "by_steps (terminalCashSaleHandler sv q a r)"
  "by_steps (terminalCloseReceiptHandler sv q a r)"
  "by_steps (terminalBulkCloseReceiptsHandler sv q a r)" "by_steps (terminalPumpHandler sv q a r)"
  "by_steps (terminalStaffStatusHandler sv q a r)" "by_steps (terminalSetPriceHandler sv q a r)"
  "by_steps (terminalLogoutHandler sv q a r)" "by_steps (terminalShiftEndHandler sv q a r)"
  unfolding terminalPinHandler_def check_pin_def pin_accepted_def terminalRedeemHandler_def terminalFillHandler_def
    terminalCashSaleHandler_def terminalCloseReceiptHandler_def
    terminalBulkCloseReceiptsHandler_def terminalPumpHandler_def terminalStaffStatusHandler_def
    terminalSetPriceHandler_def terminalLogoutHandler_def terminalShiftEndHandler_def Let_def
  by (intro step_rules)+

section \<open>Owners\<close>

lemma steps_owner_form [step_rules]:
  "by_steps (ownerActorCan q a perm)"
  "(\<And>p a. by_steps (k p a r)) \<Longrightarrow> by_steps (owner_form q' a' perm denied unreadable k r)"
  unfolding owner_form_def ownerActorCan_def
  by (intro step_rules; blast?)+

lemma steps_owner [step_rules]:
  "by_steps (ownerSetPriceHandler sv q a r)" "by_steps (ownerCreateStaffHandler sv q a r)"
  "by_steps (ownerStaffStatusHandler sv q a r)" "by_steps (ownerStaffPermissionsHandler sv q a r)"
  "by_steps (ownerHoursHandler sv q a r)" "by_steps (ownerPumpHandler sv q a r)"
  "by_steps (ownerUpdateSettingsHandler sv detect logo q a r)" "by_steps (ownerChangePasswordHandler sv q a r)"
  "by_steps (ownerLoginSubmitHandler sv q r)" "by_steps (ownerLogoutHandler sv r)"
  "by_steps (ownerForgotPasswordSubmitHandler sv q r)" "by_steps (ownerResetPasswordSubmitHandler sv q r)"
  unfolding ownerSetPriceHandler_def ownerCreateStaffHandler_def ownerStaffStatusHandler_def
    ownerStaffPermissionsHandler_def ownerHoursHandler_def ownerPumpHandler_def ownerUpdateSettingsHandler_def
    ownerChangePasswordHandler_def ownerLoginSubmitHandler_def renderOwnerLoginError_def ownerLogoutHandler_def
    ownerForgotPasswordSubmitHandler_def ownerResetPasswordSubmitHandler_def Let_def
  by (intro step_rules)+

section \<open>Pages\<close>

lemma steps_pages [step_rules]:
  "by_steps (ownerDashboardHandler sv q a r)" "by_steps (terminalPageHandler sv q r)"
  by (intro steps.dashboard_page steps.terminal_page step_tenant tenant_tx.intros)+

section \<open>The platform\<close>

lemma steps_create [step_rules]: "by_steps (db_act (plants_Create bc q actor))"
proof (cases "validate q")
  case (Inr v)
  then show ?thesis
    unfolding plants_Create_def by simp (intro step_rules impI conjI; simp)
qed (simp add: plants_Create_def step_rules)

lemma steps_provision [step_rules]: "by_steps (db_act (provisionPlant sv detect q logo actor))"
  by (cases "ValidateParams q")
    (auto simp: provisionPlant_def bank_step_def Let_def sum.case_distrib [of db_act] intro!: step_rules)

lemma steps_status [step_rules]:
  "by_steps (db_act (plants_SetStatus i st a))" "by_steps (db_act (SetSettlement i n c a))"
  "by_steps (db_act (Signup ParseAddress sp))"
  by (auto simp: plants_SetStatus_def SetSettlement_def Signup_def Let_def sum.case_distrib [of db_act]
      intro!: step_rules)

lemma steps_admin [step_rules]:
  "by_steps (adminLoginSubmitHandler sv r)" "by_steps (adminLogoutHandler sv r)"
  "by_steps (adminCreatePlantHandler sv detect logo a r)" "by_steps (adminPlantStatusHandler sv a r)"
  "by_steps (adminPlantSubaccountHandler sv et a r)" "by_steps (adminPlantMessagingHandler sv a r)"
  unfolding adminLoginSubmitHandler_def renderAdminLoginError_def adminLogoutHandler_def adminCreatePlantHandler_def
    adminPlantStatusHandler_def adminPlantSubaccountHandler_def adminPlantMessagingHandler_def Let_def
  by (intro step_rules)+

lemma steps_marketing [step_rules]:
  "by_steps (signupSubmitHandler sv detect r)" "by_steps (buyerSignupHandler sv pa r)"
  unfolding signupSubmitHandler_def renderSignupForm_def allowSignupAttempt_def buyerSignupHandler_def
    buyer_again_def Let_def
  by (intro step_rules)+

end
