(* ===== verification/TicketSpec.thy ===== *)
theory TicketSpec
  imports TicketLaws Fixtures
begin

text \<open>
  The functional behaviour of the ticket operations, one property per contract of
  \<^verbatim>\<open>internal/tickets\<close>, each with a witness on the installation of \<open>Fixtures\<close>.
\<close>

section \<open>Price conversion\<close>

lemma GramsFromAmount_exact:
  assumes "0 \<le> a" "a * 1000 < 2 ^ 52" "0 < p" "p < 2 ^ 52"
  shows "GramsFromAmount a p = (2 * (a * 1000) + p) div (2 * p)"
proof -
  have k: "of_int64 1000 = Fin (of_int 1000)" by (rule of_int64_exact) simp
  have a: "\<bar>a\<bar> < 2 ^ 53" "\<bar>a * 1000\<bar> < 2 ^ 53" "\<bar>p\<bar> < 2 ^ 53" using assms by simp_all
  show ?thesis
    unfolding GramsFromAmount_def k of_int64_exact [OF a(1)] of_int64_exact [OF a(3)] fmul_exact [OF a(2)]
    by (rule to_int64_round_quotient) (use assms in auto)
qed

lemma AmountFromGrams_exact:
  assumes "0 \<le> g" "0 < p" "p < 2 ^ 52" "g * p < 2 ^ 52"
  shows "AmountFromGrams g p = (2 * (g * p) + 1000) div 2000"
proof -
  have k: "of_int64 1000 = Fin (of_int 1000)" by (rule of_int64_exact) simp
  have gp: "0 \<le> g * p" "g \<le> g * p" using assms(1,2) by (simp_all add: mult_le_cancel_left1)
  then have g: "\<bar>g\<bar> < 2 ^ 53" "\<bar>g * p\<bar> < 2 ^ 53" "\<bar>p\<bar> < 2 ^ 53" using assms by auto
  have "AmountFromGrams g p = (2 * (g * p) + 1000) div (2 * 1000)"
    unfolding AmountFromGrams_def k of_int64_exact [OF g(1)] of_int64_exact [OF g(3)] fmul_exact [OF g(2)]
    by (rule to_int64_round_quotient) (use assms(4) gp(1) in auto)
  then show ?thesis by simp
qed

text \<open>
  C13: In the range of real sales the float64 price conversions are exact: each equals the
  rational quotient rounded half up in integer arithmetic, with no error from the intermediate
  floating-point roundings.
\<close>

theorem conversions_exact:
  assumes "0 \<le> a" "a * 1000 < 2 ^ 52" "0 < p" "p < 2 ^ 52" "0 \<le> g" "g * p < 2 ^ 52"
  shows "GramsFromAmount a p = (2 * (a * 1000) + p) div (2 * p) \<and>
         AmountFromGrams g p = (2 * (g * p) + 1000) div 2000"
  using GramsFromAmount_exact [OF assms(1-4)] AmountFromGrams_exact [OF assms(5,3,4,6)] by simp

theorem conversions_exact_witness:
  "GramsFromAmount 1500000 120000 = 12500 \<and> AmountFromGrams 12500 120000 = 1500000"
  using conversions_exact [of 1500000 120000 12500] by simp

text \<open>
  The two directions of the conversion agree: at any price above 1000 kobo per kilogram, a
  cylinder's weight priced by AmountFromGrams and paid for through GramsFromAmount is the
  weight that was asked for.
\<close>

lemma price_roundtrip:
  assumes "0 \<le> g" "1000 < p" "p < 2 ^ 52" "g * p + 500 < 2 ^ 52"
  shows "GramsFromAmount (AmountFromGrams g p) p = g"
proof -
  define A where "A = AmountFromGrams g p"
  have gp: "0 \<le> g * p" using assms(1,2) by simp
  have A: "A = (2 * (g * p) + 1000) div 2000"
    unfolding A_def using AmountFromGrams_exact [of g p] assms by auto
  have b: "2000 * A \<le> 2 * (g * p) + 1000" "2 * (g * p) + 1000 < 2000 * A + 2000"
  proof -
    have "2000 * (m div 2000) \<le> m \<and> m < 2000 * (m div 2000) + 2000" for m :: int by presburger
    from this [of "2 * (g * p) + 1000"]
    show "2000 * A \<le> 2 * (g * p) + 1000" "2 * (g * p) + 1000 < 2000 * A + 2000"
      unfolding A by auto
  qed
  have "0 \<le> A" "A * 1000 < 2 ^ 52" using b gp assms(4) by linarith+
  then have "GramsFromAmount A p = (2 * (A * 1000) + p) div (2 * p)"
    using GramsFromAmount_exact [of A p] assms by auto
  also have "\<dots> = (2 * (A * 1000) + p - g * (2 * p)) div (2 * p) + g"
    using assms(2) div_mult_self1 [of "2 * p" "2 * (A * 1000) + p - g * (2 * p)" g] by simp
  also have "\<dots> = g"
  proof -
    have "0 \<le> 2 * (A * 1000) + p - g * (2 * p)" "2 * (A * 1000) + p - g * (2 * p) < 2 * p"
      using b assms(2) by (simp_all add: algebra_simps)
    then show ?thesis by (simp add: div_pos_pos_trivial)
  qed
  finally show ?thesis by (simp add: A_def)
qed

theorem price_roundtrip_witness: "GramsFromAmount (AmountFromGrams 12500 120000) 120000 = 12500"
  by (rule price_roundtrip) simp_all

section \<open>Phones and references\<close>

lemma NormalizePhone_right: "NormalizePhone x = sql_right (filter is_digit x) 10"
  by (simp add: NormalizePhone_def sql_right_def Let_def)

lemma NormalizePhone_digits: "c \<in> set (NormalizePhone x) \<Longrightarrow> is_digit c"
  by (auto simp: NormalizePhone_right sql_right_def dest: in_set_dropD)

text \<open>
  The SQL reduction of the stored phone and the Go reduction of the entered one are the same
  function, so a lookup with a normalized number finds exactly the tickets whose customer's
  number normalizes to it; normalizing is idempotent, yields at most ten digits, and does not
  depend on the country prefix in front of a ten-digit number.
\<close>

lemma phone_match_exact:
  "(phoneMatchSQL t (NormalizePhone x) \<longleftrightarrow>
      (tk_CustomerPhone t \<noteq> None \<and> NormalizePhone (the (tk_CustomerPhone t)) = NormalizePhone x)) \<and>
   NormalizePhone (NormalizePhone x) = NormalizePhone x \<and> length (NormalizePhone x) \<le> 10 \<and>
   (length (filter is_digit y) = 10 \<longrightarrow> NormalizePhone (x @ y) = NormalizePhone y)"
proof (intro conjI impI)
  show "phoneMatchSQL t (NormalizePhone x) \<longleftrightarrow>
      tk_CustomerPhone t \<noteq> None \<and> NormalizePhone (the (tk_CustomerPhone t)) = NormalizePhone x"
    by (auto simp: phoneMatchSQL_def NormalizePhone_right split: option.splits)
  have "filter is_digit (NormalizePhone x) = NormalizePhone x"
    using NormalizePhone_digits by (simp add: filter_id_conv)
  moreover show l: "length (NormalizePhone x) \<le> 10"
    by (simp add: NormalizePhone_def Let_def)
  ultimately show "NormalizePhone (NormalizePhone x) = NormalizePhone x"
    by (simp add: NormalizePhone_def [of "NormalizePhone x"])
next
  assume "length (filter is_digit y) = 10"
  then show "NormalizePhone (x @ y) = NormalizePhone y"
    by (simp add: NormalizePhone_right sql_right_def)
qed

theorem phone_match_exact_witness:
  "NormalizePhone (''+234'' @ ''8030000000'') = NormalizePhone ''8030000000''"
  using phone_match_exact [of "demo_ticket 60 7 ''c'' Pending" "''+234''" "''8030000000''"]
  by (simp add: is_digit_def)

lemma sanitize_chars: "c \<in> set (sanitizeReferenceSegment s) \<Longrightarrow> reference_char c"
proof -
  have "\<forall>c \<in> set ''plant''. reference_char c" by (simp add: reference_char_def is_lower_def)
  then show "c \<in> set (sanitizeReferenceSegment s) \<Longrightarrow> reference_char c"
    by (cases "filter reference_char (ToLower (TrimSpace s))")
      (auto simp: sanitizeReferenceSegment_def dest: filter_eq_ConsD)
qed

lemma hex_chars: "c \<in> set (hex_of bs) \<Longrightarrow> reference_char c"
  by (auto simp: reference_char_def dest: hex_of_chars)

lemma dash: "reference_char (CHR ''-'')"
  by (simp add: reference_char_def)

lemma sanitize_nonempty: "sanitizeReferenceSegment s \<noteq> []"
  by (auto simp: sanitizeReferenceSegment_def Let_def)

lemma length_bytes_of [simp]: "length (bytes_of n k) = n"
  by (induction n arbitrary: k) auto

lemma runs_NewReference:
  "runs (NewReference slug) w r w' \<longleftrightarrow>
     (\<exists>j. e_rand (w_env w) (w_tick w) = Some j \<and>
        r = sanitizeReferenceSegment slug @ ''-'' @ hex_of (bytes_of 6 j)) \<and> w' = stepped w (w_db w)"
  by (auto simp: NewReference_def randomHex_def run_simps)

text \<open>
  Whatever the plant's slug, a reference that NewReference returns is made of the characters
  that Paystack accepts, and is a non-empty segment followed by a dash and twelve hexadecimal
  digits of randomness.
\<close>

lemma NewReference_acceptable:
  assumes "runs (NewReference slug) w r w'"
  shows "(\<forall>c \<in> set r. reference_char c) \<and> 14 \<le> length r \<and>
    (\<exists>a h. r = a @ ''-'' @ h \<and> a = sanitizeReferenceSegment slug \<and> length h = 12)"
proof -
  from assms obtain j where r: "r = sanitizeReferenceSegment slug @ ''-'' @ hex_of (bytes_of 6 j)"
    by (auto simp: runs_NewReference)
  have "\<forall>c \<in> set r. reference_char c"
    unfolding r using sanitize_chars hex_chars by (auto simp: dash)
  moreover have "1 \<le> length (sanitizeReferenceSegment slug)"
    using sanitize_nonempty [of slug] by (cases "sanitizeReferenceSegment slug") auto
  ultimately show ?thesis using r by auto
qed

section \<open>Purchase\<close>

lemma runs_NewCode:
  "runs NewCode w c w' \<longleftrightarrow>
     (\<exists>j. e_rand (w_env w) (w_tick w) = Some j \<and> c = fmt04 (j mod 10000)) \<and> w' = stepped w (w_db w)"
  by (auto simp: NewCode_def run_simps)

text \<open>After a failed insert the transaction is poisoned, and every further attempt with it.\<close>

lemma purchase_attempts_aborted:
  assumes "w_aborted w"
  shows "\<not> runs (purchase_attempts p ref pa n) w tk w'"
proof (cases n)
  case 0
  then show ?thesis by (simp add: run_simps)
next
  case (Suc m)
  show ?thesis
  proof
    assume "runs (purchase_attempts p ref pa n) w tk w'"
    then obtain c r w1 where "runs (attempt (exec_insert tickets_tab (purchase_row p ref c pa)))
        (stepped w (w_db w)) r w1"
      and k: "runs (case r of
         Inr row \<Rightarrow> ret \<lparr>Ticket_ID = tk_ID row, Ticket_Reference = ref, Ticket_Code = c\<rparr>
       | Inl e \<Rightarrow> if isUniqueViolation e then purchase_attempts p ref pa m else fail e) w1 tk w'"
      by (auto simp: Suc runs_bind runs_NewCode)
    then have "r = Inl (PgError ''25P02'')"
      using assms by (simp add: runs_def attempt_def exec_insert_aborted)
    with k show False by (simp add: run_simps)
  qed
qed

lemma runs_purchase_attempts:
  "runs (purchase_attempts p ref pa (Suc n)) w tk w' \<longleftrightarrow>
    (\<exists>c row. runs NewCode w c (stepped w (w_db w)) \<and>
       runs (exec_insert tickets_tab (purchase_row p ref c pa)) (stepped w (w_db w)) row w' \<and>
       tk = \<lparr>Ticket_ID = tk_ID row, Ticket_Reference = ref, Ticket_Code = c\<rparr>)"
proof
  assume "runs (purchase_attempts p ref pa (Suc n)) w tk w'"
  then obtain c r w1 where c: "runs NewCode w c (stepped w (w_db w))"
    and a: "runs (attempt (exec_insert tickets_tab (purchase_row p ref c pa))) (stepped w (w_db w)) r w1"
    and k: "runs (case r of
       Inr row \<Rightarrow> ret \<lparr>Ticket_ID = tk_ID row, Ticket_Reference = ref, Ticket_Code = c\<rparr>
     | Inl e \<Rightarrow> if isUniqueViolation e then purchase_attempts p ref pa n else fail e) w1 tk w'"
    by (auto simp: runs_bind runs_NewCode)
  show "\<exists>c row. runs NewCode w c (stepped w (w_db w)) \<and>
       runs (exec_insert tickets_tab (purchase_row p ref c pa)) (stepped w (w_db w)) row w' \<and>
       tk = \<lparr>Ticket_ID = tk_ID row, Ticket_Reference = ref, Ticket_Code = c\<rparr>"
  proof (cases r)
    case (Inl e)
    with a have "w_aborted w1"
      by (auto simp: runs_attempt intro: exec_insert_error_aborts)
    with k Inl show ?thesis
      by (auto simp: run_simps purchase_attempts_aborted split: if_splits)
  next
    case (Inr row)
    with k have "w1 = w'" "tk = \<lparr>Ticket_ID = tk_ID row, Ticket_Reference = ref, Ticket_Code = c\<rparr>"
      by (simp_all add: runs_ret)
    with a c Inr show ?thesis by (auto simp only: runs_attempt)
  qed
next
  assume "\<exists>c row. runs NewCode w c (stepped w (w_db w)) \<and>
       runs (exec_insert tickets_tab (purchase_row p ref c pa)) (stepped w (w_db w)) row w' \<and>
       tk = \<lparr>Ticket_ID = tk_ID row, Ticket_Reference = ref, Ticket_Code = c\<rparr>"
  then obtain c row where *: "runs NewCode w c (stepped w (w_db w))"
    "runs (exec_insert tickets_tab (purchase_row p ref c pa)) (stepped w (w_db w)) row w'"
    "tk = \<lparr>Ticket_ID = tk_ID row, Ticket_Reference = ref, Ticket_Code = c\<rparr>"
    by blast
  then have "runs (attempt (exec_insert tickets_tab (purchase_row p ref c pa))) (stepped w (w_db w)) (Inr row) w'"
    by (simp only: runs_attempt)
  with * show "runs (purchase_attempts p ref pa (Suc n)) w tk w'"
    by (simp only: purchase_attempts.simps runs_bind)
      (intro exI conjI, assumption, assumption, simp add: runs_ret)
qed

lemma runs_all_attempts:
  "runs (purchase_attempts p ref pa maxCodeAttempts) w tk w' \<longleftrightarrow>
    (\<exists>c row. runs NewCode w c (stepped w (w_db w)) \<and>
       runs (exec_insert tickets_tab (purchase_row p ref c pa)) (stepped w (w_db w)) row w' \<and>
       tk = \<lparr>Ticket_ID = tk_ID row, Ticket_Reference = ref, Ticket_Code = c\<rparr>)"
proof -
  have six: "maxCodeAttempts = Suc 5" by (simp add: maxCodeAttempts_def)
  show ?thesis unfolding six by (rule runs_purchase_attempts)
qed

lemma runs_Purchase:
  assumes "runs (Purchase p) w tk w'"
  obtains ref pa w1 where "w_db w1 = w_db w" "w_role w1 = w_role w" "w_env w1 = w_env w"
    "w_tick w1 = w_tick w + (if pp_Paid p then 2 else 1)" "pp_Paid p \<longleftrightarrow> pa \<noteq> None" "runs (purchase_attempts p ref pa maxCodeAttempts) w1 tk w'"
proof -
  from assms obtain ref pa w1 where 1: "runs (if pp_Paid p then bind time_Now (\<lambda>now. ret (Some now)) else ret None)
      (stepped w (w_db w)) pa w1" "runs (purchase_attempts p ref pa maxCodeAttempts) w1 tk w'"
    by (auto simp: Purchase_def runs_bind runs_NewReference)
  from 1(1) have "w_db w1 = w_db w" "w_role w1 = w_role w" "w_env w1 = w_env w"
    "w_tick w1 = w_tick w + (if pp_Paid p then 2 else 1)" "pp_Paid p \<longleftrightarrow> pa \<noteq> None"
    by (auto simp: run_simps split: if_splits)
  with 1(2) show thesis by (intro that)
qed

lemma Purchase_effect:
  assumes "runs (Purchase p) w tk w'" "w_role w = AppRole (Some i)"
  shows "\<exists>t. w_db w' = (w_db w)\<lparr>db_tickets := db_tickets (w_db w) @ [t]\<rparr> \<and>
     tk = \<lparr>Ticket_ID = tk_ID t, Ticket_Reference = tk_Reference t, Ticket_Code = tk_Code t\<rparr> \<and>
     pp_PlantID p = i \<and> tk_PlantID t = i \<and> tk_SizeGrams t = pp_SizeGrams p \<and> tk_Amount t = pp_AmountKobo p \<and>
     tk_RatePerKg t = pp_RatePerKgKobo p \<and> tk_PriceID t = Some (pp_PriceID p) \<and>
     tk_Channel t = pp_Channel p \<and> tk_SoldBy t = pp_SoldBy p \<and> tk_ShiftID t = pp_ShiftID p \<and>
     born t \<and> (tk_Status t = Paid \<longleftrightarrow> pp_Paid p) \<and>
     length (tk_Code t) = 4 \<and> (\<forall>c \<in> set (tk_Code t). is_digit c) \<and>
     (\<forall>u \<in> set (db_tickets (w_db w)). tk_PlantID u = i \<longrightarrow>
        tk_Reference u \<noteq> tk_Reference t \<and> (open_code u \<longrightarrow> tk_Code u \<noteq> tk_Code t))"
proof -
  obtain ref pa w1 where ref: "w_db w1 = w_db w" "w_role w1 = w_role w" "pp_Paid p \<longleftrightarrow> pa \<noteq> None"
    and r: "runs (purchase_attempts p ref pa maxCodeAttempts) w1 tk w'"
    using assms(1) by (rule runs_Purchase)
  obtain c row where c: "runs NewCode w1 c (stepped w1 (w_db w1))"
    and ins: "runs (exec_insert tickets_tab (purchase_row p ref c pa)) (stepped w1 (w_db w1)) row w'"
    and tk: "tk = \<lparr>Ticket_ID = tk_ID row, Ticket_Reference = ref, Ticket_Code = c\<rparr>"
    using r unfolding runs_all_attempts by blast
  have row: "row = purchase_row p ref c pa (w_now w1) (e_uuid (w_env w1) (Suc (w_tick w1)))"
    and vis: "tk_PlantID row = i"
    and viol: "tickets_viol ((w_db w)\<lparr>db_tickets := db_tickets (w_db w) @ [row]\<rparr>) = None"
    and db: "w_db w' = (w_db w)\<lparr>db_tickets := db_tickets (w_db w) @ [row]\<rparr>"
    using ins ref assms(2) by (auto simp: runs_exec_insert inserted_def)
  have b: "born row" using ref(3) by (auto simp: row born_def purchase_row_def)
  have "open_code row" using b by (auto simp: born_def open_code_def)
  with viol have keys: "(tk_PlantID row, tk_Reference row) \<notin> (\<lambda>t. (tk_PlantID t, tk_Reference t)) ` set (db_tickets (w_db w))"
    "(tk_PlantID row, tk_Code row) \<notin> (\<lambda>t. (tk_PlantID t, tk_Code t)) ` {t \<in> set (db_tickets (w_db w)). open_code t}"
    by (simp_all add: tickets_viol_def code_keys_def split: if_splits)
  have "\<forall>u \<in> set (db_tickets (w_db w)). tk_PlantID u = i \<longrightarrow>
        tk_Reference u \<noteq> tk_Reference row \<and> (open_code u \<longrightarrow> tk_Code u \<noteq> tk_Code row)"
    using keys vis unfolding image_iff by (metis (mono_tags, lifting) mem_Collect_eq)
  moreover have "c \<in> range fmt04" using c by (auto simp: runs_NewCode)
  moreover have "tk_Code row = c" "tk_Reference row = ref" by (simp_all add: row purchase_row_def)
  ultimately show ?thesis
    using db b tk vis
    by (intro exI [of _ row] conjI) (auto simp: row purchase_row_def fmt04_digits)
qed

text \<open>
  C11: A purchase that succeeds appends exactly one ticket, for its own plant, with the agreed
  terms: paid at once with a payment time when it is a cash sale, pending without one otherwise.
  Its four-digit code is held by no other redeemable ticket of the plant and its reference by no
  other ticket of it. The ticket returned is that row, and nothing else in the database changes.
\<close>

theorem Purchase_appends:
  assumes "runs (Purchase p) w tk w'" "w_role w = AppRole (Some i)"
  shows "\<exists>t. w_db w' = (w_db w)\<lparr>db_tickets := db_tickets (w_db w) @ [t]\<rparr> \<and>
     tk = \<lparr>Ticket_ID = tk_ID t, Ticket_Reference = tk_Reference t, Ticket_Code = tk_Code t\<rparr> \<and>
     pp_PlantID p = i \<and> tk_PlantID t = i \<and> tk_SizeGrams t = pp_SizeGrams p \<and> tk_Amount t = pp_AmountKobo p \<and>
     tk_RatePerKg t = pp_RatePerKgKobo p \<and> tk_PriceID t = Some (pp_PriceID p) \<and>
     tk_Channel t = pp_Channel p \<and> tk_SoldBy t = pp_SoldBy p \<and> tk_ShiftID t = pp_ShiftID p \<and>
     born t \<and> (tk_Status t = Paid \<longleftrightarrow> pp_Paid p) \<and>
     length (tk_Code t) = 4 \<and> (\<forall>c \<in> set (tk_Code t). is_digit c) \<and>
     (\<forall>u \<in> set (db_tickets (w_db w)). tk_PlantID u = i \<longrightarrow>
        tk_Reference u \<noteq> tk_Reference t \<and> (open_code u \<longrightarrow> tk_Code u \<noteq> tk_Code t))"
  by (rule Purchase_effect [OF assms])

definition demo_sale :: PurchaseParams where
  "demo_sale = \<lparr>pp_PlantID = 7, pp_PlantSlug = ''a'', pp_PriceID = 30, pp_RatePerKgKobo = 120000,
     pp_AmountKobo = 1500000, pp_SizeGrams = 12500, pp_Channel = ''cash'', pp_CustomerName = '''',
     pp_CustomerPhone = '''', pp_Paid = True, pp_SoldBy = Some 20, pp_ShiftID = Some 50\<rparr>"

lemma demo_sale_runs: "\<exists>tk w'. runs (Purchase demo_sale) (demo_world (demo_db [])) tk w'"
  by (simp add: Purchase_def runs_bind runs_NewReference runs_if runs_time_Now runs_ret
      runs_all_attempts runs_NewCode runs_exec_insert inserted_def
      purchase_row_def demo_sale_def constraint_evals demo_defs nullIfEmpty_def)

theorem Purchase_appends_witness:
  "\<exists>tk w' t. runs (Purchase demo_sale) (demo_world (demo_db [])) tk w' \<and>
     w_db w' = (demo_db [])\<lparr>db_tickets := [t]\<rparr> \<and> tk_Status t = Paid \<and> tk_Amount t = 1500000"
proof -
  obtain tk w' where r: "runs (Purchase demo_sale) (demo_world (demo_db [])) tk w'"
    using demo_sale_runs by blast
  from Purchase_appends [OF this, of 7] obtain t
    where "w_db w' = (demo_db [])\<lparr>db_tickets := [t]\<rparr>" "tk_Status t = Paid \<longleftrightarrow> pp_Paid demo_sale"
      "tk_Amount t = pp_AmountKobo demo_sale"
    by (auto simp: demo_db_def)
  with r show ?thesis by (auto simp: demo_sale_def)
qed

text \<open>
  C12: If the first code that is drawn belongs to another redeemable ticket of the plant, the
  purchase fails, whatever the later draws: the failed insert has poisoned the transaction that
  the retry loop goes on in.
\<close>

theorem collision_defeats_purchase:
  assumes "e_rand (w_env w) (w_tick w + (if pp_Paid p then 2 else 1)) = Some k"
    and "u \<in> set (db_tickets (w_db w))" "tk_PlantID u = pp_PlantID p" "open_code u"
    and "tk_Code u = fmt04 (k mod 10000)"
  shows "\<not> runs (Purchase p) w tk w'"
proof
  assume "runs (Purchase p) w tk w'"
  then obtain ref pa w1 where w1: "w_db w1 = w_db w" "w_env w1 = w_env w"
    "w_tick w1 = w_tick w + (if pp_Paid p then 2 else 1)" "pp_Paid p \<longleftrightarrow> pa \<noteq> None"
    and r: "runs (purchase_attempts p ref pa maxCodeAttempts) w1 tk w'"
    by (rule runs_Purchase)
  obtain row where row: "row = purchase_row p ref (fmt04 (k mod 10000)) pa (w_now w1) (e_uuid (w_env w1) (Suc (w_tick w1)))"
    and viol: "tickets_viol ((w_db w)\<lparr>db_tickets := db_tickets (w_db w) @ [row]\<rparr>) = None"
    using r assms(1) w1
    by (auto simp: runs_all_attempts runs_NewCode runs_exec_insert inserted_def)
  have "open_code row" by (simp add: row purchase_row_def open_code_def)
  with viol have "(tk_PlantID row, tk_Code row) \<notin> (\<lambda>t. (tk_PlantID t, tk_Code t)) ` {t \<in> set (db_tickets (w_db w)). open_code t}"
    by (simp add: tickets_viol_def code_keys_def split: if_splits)
  moreover have "(tk_PlantID row, tk_Code row) = (tk_PlantID u, tk_Code u)"
    by (simp add: row purchase_row_def assms(3,5))
  ultimately show False using assms(2,4) by auto
qed

theorem collision_defeats_purchase_witness:
  "\<nexists>tk w'. runs (Purchase demo_sale) (demo_world (demo_db [demo_ticket 60 7 (fmt04 9) Pending])) tk w'"
  using collision_defeats_purchase [of "demo_world (demo_db [demo_ticket 60 7 (fmt04 9) Pending])" demo_sale 9
      "demo_ticket 60 7 (fmt04 9) Pending"]
  by (auto simp: demo_sale_def demo_db_def demo_ticket_def open_code_def)

section \<open>Payment\<close>

definition payable :: "ticket_status \<Rightarrow> bool" where
  "payable s \<longleftrightarrow> s \<in> {Pending, Paid, Dispensing, Filled}"

lemma runs_MarkPaid:
  assumes "w_role w = AppRole (Some p)"
  shows "runs (MarkPaid p i) w b w' \<longleftrightarrow>
    (\<exists>t. ready w \<and> first_row (\<lambda>t. tk_PlantID t = p \<and> tk_ID t = i) (db_tickets (w_db w)) = Some t \<and>
       b = payable (tk_Status t) \<and>
       (if tk_Status t = Pending
        then \<exists>rs. runs (exec_update tickets_tab (\<lambda>t. tk_ID t = i \<and> tk_PlantID t = p)
           (\<lambda>now t. t\<lparr>tk_Status := Paid, tk_PaidAt := Some now\<rparr>)) (stepped w (w_db w)) rs w'
        else w' = stepped w (w_db w)))"
proof -
  have eq: "(\<lambda>t. tk_PlantID t = p \<and> tk_ID t = i \<and> tk_PlantID t = p) = (\<lambda>t. tk_PlantID t = p \<and> tk_ID t = i)"
    by auto
  show ?thesis
  proof (cases "first_row (\<lambda>t. tk_PlantID t = p \<and> tk_ID t = i) (db_tickets (w_db w))")
    case None
    then show ?thesis by (simp add: MarkPaid_def runs_bind runs_query_row assms eq)
  next
    case (Some t)
    then show ?thesis
      by (cases "tk_Status t")
        (auto simp: MarkPaid_def runs_bind runs_query_row assms eq payable_def runs_ret)
  qed
qed

text \<open>
  C10: MarkPaid reports paid exactly for a pending, paid, dispensing or filled ticket of the
  plant. It turns a pending one into a paid one with its payment time, changes nothing else and
  nothing in any other case, and a second confirmation of the same payment reports the same and
  changes nothing.
\<close>

theorem MarkPaid_idempotent:
  assumes "runs (MarkPaid p i) w b w'" "w_role w = AppRole (Some p)" "ticket_keys_ok (w_db w)"
  shows "\<exists>t \<in> set (db_tickets (w_db w)). tk_ID t = i \<and> tk_PlantID t = p \<and> b = payable (tk_Status t) \<and>
     w_db w' = (if tk_Status t = Pending
       then (w_db w)\<lparr>db_tickets := upd_where (\<lambda>u. u = t)
         (\<lambda>u. u\<lparr>tk_Status := Paid, tk_PaidAt := Some (w_now w), tk_UpdatedAt := w_now w\<rparr>)
         (db_tickets (w_db w))\<rparr>
       else w_db w) \<and>
     (ready w' \<longrightarrow> runs (MarkPaid p i) w' b (stepped w' (w_db w')))"
proof -
  let ?K = "\<lambda>t. tk_PlantID t = p \<and> tk_ID t = i"
  let ?g = "\<lambda>u. u\<lparr>tk_Status := Paid, tk_PaidAt := Some (w_now w), tk_UpdatedAt := w_now w\<rparr>"
  obtain t where t: "ready w" "first_row ?K (db_tickets (w_db w)) = Some t" "b = payable (tk_Status t)"
    and e: "if tk_Status t = Pending
        then \<exists>rs. runs (exec_update tickets_tab (\<lambda>t. tk_ID t = i \<and> tk_PlantID t = p)
           (\<lambda>now t. t\<lparr>tk_Status := Paid, tk_PaidAt := Some now\<rparr>)) (stepped w (w_db w)) rs w'
        else w' = stepped w (w_db w)"
    using assms(1) runs_MarkPaid [OF assms(2)] by blast
  from t(2) have tk: "t \<in> set (db_tickets (w_db w))" "tk_PlantID t = p" "tk_ID t = i"
    by (auto dest: first_row_SomeD)
  have dist: "distinct (map tk_ID (db_tickets (w_db w)))"
    using assms(3) by (simp add: ticket_keys_ok_def)
  have uq: "u = t" if "u \<in> set (db_tickets (w_db w))" "tk_ID u = tk_ID t" for u
    using distinct_map_eqD [OF dist that(1) tk(1)] that(2) by simp
  show ?thesis
  proof (cases "tk_Status t = Pending")
    case False
    with e have w': "w' = stepped w (w_db w)" by simp
    have "ready w' \<longrightarrow> runs (MarkPaid p i) w' b (stepped w' (w_db w'))"
      using False t(2,3) assms(2) by (simp add: runs_MarkPaid w')
    with tk t(3) False w' show ?thesis by (intro bexI [of _ t]) auto
  next
    case True
    with e have w': "w_role w' = w_role w"
      "w_db w' = (w_db w)\<lparr>db_tickets := upd_where (\<lambda>u. tk_PlantID u = p \<and> tk_ID u = i \<and> tk_PlantID u = p) ?g (db_tickets (w_db w))\<rparr>"
      by (auto simp: runs_exec_update updated_def assms(2))
    have upd: "upd_where (\<lambda>u. tk_PlantID u = p \<and> tk_ID u = i \<and> tk_PlantID u = p) ?g (db_tickets (w_db w))
        = upd_where (\<lambda>u. u = t) ?g (db_tickets (w_db w))"
      using tk by (intro upd_where_key [OF dist]) (auto dest: distinct_map_eqD [OF dist])
    have rows: "db_tickets (w_db w') = upd_where (\<lambda>u. u = t) ?g (db_tickets (w_db w))"
      by (simp add: w'(2) upd)
    have one: "first_row ?K (db_tickets (w_db w')) = Some (?g t)"
      unfolding rows
    proof (rule first_row_unique)
      show "?g t \<in> set (upd_where (\<lambda>u. u = t) ?g (db_tickets (w_db w)))"
        unfolding in_set_upd_where by (rule bexI [OF _ tk(1)]) simp
      fix y assume y: "y \<in> set (upd_where (\<lambda>u. u = t) ?g (db_tickets (w_db w)))" "?K y"
      then obtain u where "u \<in> set (db_tickets (w_db w))" "y = (if u = t then ?g u else u)"
        by (auto simp only: in_set_upd_where)
      with y(2) tk uq [of u] show "y = ?g t" by (cases "u = t") simp_all
    qed (use tk in simp)
    have "ready w' \<longrightarrow> runs (MarkPaid p i) w' b (stepped w' (w_db w'))"
      using one t(3) True assms(2) by (auto simp: runs_MarkPaid w'(1) payable_def)
    with tk t(3) True w'(2) upd show ?thesis by (intro bexI [of _ t]) auto
  qed
qed

theorem MarkPaid_idempotent_witness:
  "\<exists>w' w''. runs (MarkPaid 7 60) (demo_world (demo_db [demo_ticket 60 7 ''c'' Pending])) True w' \<and>
     map tk_Status (db_tickets (w_db w')) = [Paid] \<and> runs (MarkPaid 7 60) w' True w'' \<and> w_db w'' = w_db w'"
proof -
  let ?d = "demo_db [demo_ticket 60 7 ''c'' Pending]"
  have "\<exists>w'. runs (MarkPaid 7 60) (demo_world ?d) True w' \<and> ready w'"
    by (simp add: MarkPaid_def run_evals)
  then obtain w' where r: "runs (MarkPaid 7 60) (demo_world ?d) True w'" "ready w'" by blast
  have k: "ticket_keys_ok ?d" by (simp add: ticket_keys_ok_def demo_db_def)
  have "\<exists>t \<in> set (db_tickets (w_db (demo_world ?d))). tk_ID t = 60 \<and> tk_PlantID t = 7 \<and>
     True = payable (tk_Status t) \<and>
     w_db w' = (if tk_Status t = Pending
       then (w_db (demo_world ?d))\<lparr>db_tickets := upd_where (\<lambda>u. u = t)
         (\<lambda>u. u\<lparr>tk_Status := Paid, tk_PaidAt := Some (w_now (demo_world ?d)), tk_UpdatedAt := w_now (demo_world ?d)\<rparr>)
         (db_tickets (w_db (demo_world ?d)))\<rparr>
       else w_db (demo_world ?d)) \<and>
     (ready w' \<longrightarrow> runs (MarkPaid 7 60) w' True (stepped w' (w_db w')))"
    by (rule MarkPaid_idempotent [OF r(1)]) (simp, simp only: demo_world_simps k)
  then obtain t where t: "t \<in> set (db_tickets ?d)" "w_db w' = (if tk_Status t = Pending
       then ?d\<lparr>db_tickets := upd_where (\<lambda>u. u = t)
         (\<lambda>u. u\<lparr>tk_Status := Paid, tk_PaidAt := Some (w_now (demo_world ?d)), tk_UpdatedAt := w_now (demo_world ?d)\<rparr>)
         (db_tickets ?d)\<rparr> else ?d)"
      and again: "runs (MarkPaid 7 60) w' True (stepped w' (w_db w'))"
    unfolding demo_world_simps using r(2) by blast
  from t have "map tk_Status (db_tickets (w_db w')) = [Paid]"
    by (simp add: demo_db_def demo_ticket_def)
  with r(1) again show ?thesis by (intro exI [of _ w'] exI [of _ "stepped w' (w_db w')"]) simp
qed

section \<open>Redemption\<close>

definition redeemed :: "env \<Rightarrow> db \<Rightarrow> ticket \<Rightarrow> RedeemedTicket" where
  "redeemed v d t = \<lparr>rt_ID = tk_ID t, rt_Initials = initialsFromName (e_upper v) (tk_CustomerName t),
     rt_SizeGrams = tk_SizeGrams t, rt_AmountKobo = tk_Amount t, rt_Channel = tk_Channel t,
     rt_PumpID = tk_PumpID t, rt_PumpName = pump_name d t\<rparr>"

lemma latest_visible:
  "latest_with_code p c (visible_db (AppRole (Some p)) d) = latest_with_code p c d"
proof -
  have "filter (\<lambda>t. tk_PlantID t = p \<and> tk_PlantID t = p \<and> tk_Code t = c) ts
      = filter (\<lambda>t. tk_PlantID t = p \<and> tk_Code t = c) ts" for ts
    by (rule filter_cong) auto
  then show ?thesis by (simp add: latest_with_code_def)
qed

lemma Redeem_ready:
  assumes "ready w" "w_role w = AppRole (Some p)"
  shows "fst (Redeem p c w) = (case latest_with_code p c (w_db w) of
      None \<Rightarrow> Inl ErrCodeNotFound
    | Some t \<Rightarrow> (case tk_Status t of
        Paid \<Rightarrow> Inr (redeemed (w_env w) (visible_db (w_role w) (w_db w)) t)
      | Dispensing \<Rightarrow> Inl ErrCodeAlreadyRedeemed
      | Filled \<Rightarrow> Inl ErrCodeAlreadyRedeemed
      | _ \<Rightarrow> Inl ErrCodeNotPayable))"
  using assms
  by (auto simp: Redeem_def bind_def ask_env_def attempt_def query_row_ready latest_visible
      redeemed_def ret_def fail_def split: option.splits ticket_status.splits)

lemma latest_with_codeD:
  assumes "latest_with_code p c d = Some t"
  shows "t \<in> set (db_tickets d)" "tk_PlantID t = p" "tk_Code t = c"
    "u \<in> set (db_tickets d) \<Longrightarrow> tk_PlantID u = p \<Longrightarrow> tk_Code u = c \<Longrightarrow> tk_CreatedAt u \<le> tk_CreatedAt t"
  using first_by_in [OF assms [unfolded latest_with_code_def]]
    first_by_least [OF assms [unfolded latest_with_code_def], of u]
  by auto

text \<open>A redeemable ticket is the last of its code's tickets.\<close>

definition created_in_order :: "db \<Rightarrow> bool" where
  "created_in_order d \<longleftrightarrow> sorted_wrt (\<lambda>t u. tk_PlantID t = tk_PlantID u \<and> tk_Code t = tk_Code u \<longrightarrow>
     tk_CreatedAt t < tk_CreatedAt u) (db_tickets d)"

lemma open_ticket_latest:
  assumes "ticket_keys_ok d" "created_in_order d" "t \<in> set (db_tickets d)" "open_code t"
  shows "latest_with_code (tk_PlantID t) (tk_Code t) d = Some t"
proof -
  let ?Q = "\<lambda>u. tk_PlantID u = tk_PlantID t \<and> tk_Code u = tk_Code t"
  have before: "tk_CreatedAt u < tk_CreatedAt t" if u: "u \<in> set (db_tickets d)" "?Q u" "u \<noteq> t" for u
  proof -
    obtain i j where i: "i < length (db_tickets d)" "db_tickets d ! i = t"
      and j: "j < length (db_tickets d)" "db_tickets d ! j = u"
      using assms(3) u(1) by (metis in_set_conv_nth)
    with u(3) have "i \<noteq> j" by auto
    moreover have "\<not> i < j"
      using assms(1,4) i j u(2)
      by (auto simp: ticket_keys_ok_def code_released_def dest!: sorted_wrt_nth_less [where i = i and j = j])
    ultimately have "j < i" by simp
    with assms(2) i j u(2) show ?thesis
      by (auto simp: created_in_order_def dest!: sorted_wrt_nth_less [where i = j and j = i])
  qed
  show ?thesis
  proof (cases "latest_with_code (tk_PlantID t) (tk_Code t) d")
    case None
    with assms(3) show ?thesis by (auto simp: latest_with_code_def filter_empty_conv)
  next
    case (Some u)
    from latest_with_codeD [OF Some] before [of u] assms(3) show ?thesis
      using Some by force
  qed
qed

text \<open>
  C7: Every paid, undispensed ticket of the plant can be redeemed by its code, even when closed
  tickets carried the same four digits before it: Redeem answers with that ticket's own size,
  amount, channel and pump.
\<close>

theorem paid_ticket_redeemable:
  assumes "ready w" "w_role w = AppRole (Some p)" "ticket_keys_ok (w_db w)" "created_in_order (w_db w)"
    and "t \<in> set (db_tickets (w_db w))" "tk_PlantID t = p" "tk_Status t = Paid"
  shows "\<exists>rt. fst (Redeem p (tk_Code t) w) = Inr rt \<and> rt_ID rt = tk_ID t \<and>
    rt_SizeGrams rt = tk_SizeGrams t \<and> rt_AmountKobo rt = tk_Amount t \<and>
    rt_Channel rt = tk_Channel t \<and> rt_PumpID rt = tk_PumpID t"
proof -
  have "latest_with_code p (tk_Code t) (w_db w) = Some t"
    using open_ticket_latest [OF assms(3,4,5)] assms(6,7) by (simp add: open_code_def)
  then show ?thesis
    by (simp add: Redeem_ready assms(1,2,7) redeemed_def)
qed

theorem paid_ticket_redeemable_witness:
  "\<exists>rt. fst (Redeem 7 ''c'' (demo_world (demo_db [demo_ticket 59 7 ''b'' Paid, demo_ticket 60 7 ''c'' Paid]))) = Inr rt \<and>
    rt_ID rt = 60"
  using paid_ticket_redeemable [of "demo_world (demo_db [demo_ticket 59 7 ''b'' Paid, demo_ticket 60 7 ''c'' Paid])" 7
      "demo_ticket 60 7 ''c'' Paid"]
  by (auto simp: ticket_keys_ok_def created_in_order_def code_released_def demo_db_def demo_ticket_def)

text \<open>
  C8: Redeem hands out nothing else: a ticket it returns is a paid one of the caller's plant
  with that very code, and the newest with it; the code of a ticket being dispensed or filled is
  reported as used, and one of any other status as not payable.
\<close>

theorem Redeem_only_paid:
  assumes "ready w" "w_role w = AppRole (Some p)"
  shows "case fst (Redeem p c w) of
      Inr rt \<Rightarrow> \<exists>t \<in> set (db_tickets (w_db w)). tk_ID t = rt_ID rt \<and> tk_PlantID t = p \<and> tk_Code t = c \<and>
        tk_Status t = Paid \<and> tk_Amount t = rt_AmountKobo rt \<and>
        (\<forall>u \<in> set (db_tickets (w_db w)). tk_PlantID u = p \<longrightarrow> tk_Code u = c \<longrightarrow> tk_CreatedAt u \<le> tk_CreatedAt t)
    | Inl e \<Rightarrow>
        (e = ErrCodeNotFound \<and> (\<forall>u \<in> set (db_tickets (w_db w)). tk_PlantID u = p \<longrightarrow> tk_Code u \<noteq> c)) \<or>
        (\<exists>t. latest_with_code p c (w_db w) = Some t \<and>
          (e = ErrCodeAlreadyRedeemed \<and> tk_Status t \<in> {Dispensing, Filled} \<or>
           e = ErrCodeNotPayable \<and> tk_Status t \<notin> {Paid, Dispensing, Filled}))"
proof (cases "latest_with_code p c (w_db w)")
  case None
  then have "\<forall>u \<in> set (db_tickets (w_db w)). tk_PlantID u = p \<longrightarrow> tk_Code u \<noteq> c"
    by (auto simp: latest_with_code_def filter_empty_conv)
  with None show ?thesis by (simp add: Redeem_ready assms)
next
  case (Some t)
  note t = latest_with_codeD [OF Some]
  show ?thesis
  proof (cases "tk_Status t = Paid")
    case True
    with Some t show ?thesis
      by (auto simp: Redeem_ready assms redeemed_def intro!: bexI [of _ t])
  next
    case False
    with Some show ?thesis
      by (cases "tk_Status t") (simp_all add: Redeem_ready assms)
  qed
qed

theorem Redeem_only_paid_witness:
  "fst (Redeem 7 ''d'' (demo_world (demo_db [demo_ticket 60 7 ''c'' Paid]))) = Inl ErrCodeNotFound"
  using Redeem_only_paid [of "demo_world (demo_db [demo_ticket 60 7 ''c'' Paid])" 7 "''d''"]
  by (simp add: demo_db_def demo_ticket_def latest_with_code_def first_by_def split: sum.splits)

section \<open>Dispensing\<close>

lemma runs_not_empty_or [run_simps]:
  "runs (not_empty_or m rs) w b w' \<longleftrightarrow> rs \<noteq> [] \<and> w' = w"
  by (auto simp: not_empty_or_def run_simps)

lemma runs_StartDispensing:
  assumes "w_role w = AppRole (Some p)"
  shows "runs (StartDispensing p i a) w b w' \<longleftrightarrow> ready w \<and>
    (\<exists>t \<in> set (db_tickets (w_db w)). tk_ID t = i \<and> tk_PlantID t = p \<and> tk_Status t = Paid) \<and>
    (let d = (w_db w)\<lparr>db_tickets := upd_where (\<lambda>t. tk_ID t = i \<and> tk_PlantID t = p \<and> tk_Status t = Paid)
       (\<lambda>t. t\<lparr>tk_Status := Dispensing, tk_DispensingStartedAt := Some (w_now w),
              tk_DispensingStartedBy := Some a, tk_UpdatedAt := w_now w\<rparr>) (db_tickets (w_db w))\<rparr>
     in tickets_viol d = None \<and> w' = stepped w d)"
proof -
  have eq: "(\<lambda>t. tk_PlantID t = p \<and> tk_ID t = i \<and> tk_PlantID t = p \<and> tk_Status t = Paid)
      = (\<lambda>t. tk_ID t = i \<and> tk_PlantID t = p \<and> tk_Status t = Paid)"
    by auto
  show ?thesis
    unfolding StartDispensing_def Let_def
    by (auto simp: run_simps assms updated_def eq filter_empty_conv)
qed

text \<open>
  C9: A code is good for one fill: once dispensing has been started on a ticket, starting it
  again fails, and its code can no longer be redeemed for it.
\<close>

theorem dispensing_consumes_ticket:
  assumes "runs (StartDispensing p i a) w u w'" "w_role w = AppRole (Some p)" "ticket_keys_ok (w_db w)"
  shows "\<not> runs (StartDispensing p i b) w' v w'' \<and>
    (ready w' \<longrightarrow> (\<forall>rt. fst (Redeem p c w') = Inr rt \<longrightarrow> rt_ID rt \<noteq> i))"
proof -
  let ?K = "\<lambda>t. tk_ID t = i \<and> tk_PlantID t = p \<and> tk_Status t = Paid"
  obtain t where t: "t \<in> set (db_tickets (w_db w))" "?K t" and r: "w_role w' = AppRole (Some p)"
    and rows: "db_tickets (w_db w') = upd_where ?K
       (\<lambda>t. t\<lparr>tk_Status := Dispensing, tk_DispensingStartedAt := Some (w_now w),
              tk_DispensingStartedBy := Some a, tk_UpdatedAt := w_now w\<rparr>) (db_tickets (w_db w))"
    using assms(1) runs_StartDispensing [OF assms(2)] assms(2) by (auto simp: Let_def)
  have dist: "distinct (map tk_ID (db_tickets (w_db w)))"
    using assms(3) by (simp add: ticket_keys_ok_def)
  have none: "tk_Status x \<noteq> Paid" if x: "x \<in> set (db_tickets (w_db w'))" "tk_ID x = i" for x
  proof -
    from x(1) obtain y where y: "y \<in> set (db_tickets (w_db w))"
      "x = (if ?K y then y\<lparr>tk_Status := Dispensing, tk_DispensingStartedAt := Some (w_now w),
              tk_DispensingStartedBy := Some a, tk_UpdatedAt := w_now w\<rparr> else y)"
      unfolding rows in_set_upd_where by blast
    then have "tk_ID y = tk_ID t" using x(2) t(2) by (auto split: if_splits)
    with dist y(1) t(1) have "y = t" by (auto dest: distinct_map_eqD)
    with y(2) t(2) show ?thesis by simp
  qed
  have "\<not> runs (StartDispensing p i b) w' v w''"
    using none by (auto simp: runs_StartDispensing [OF r])
  moreover have "rt_ID rt \<noteq> i" if red: "ready w'" "fst (Redeem p c w') = Inr rt" for rt
  proof -
    from red obtain y where "latest_with_code p c (w_db w') = Some y" "tk_Status y = Paid" "rt_ID rt = tk_ID y"
      by (auto simp: Redeem_ready [OF red(1) r] redeemed_def split: option.splits ticket_status.splits)
    with none [of y] show ?thesis by (auto dest: latest_with_codeD)
  qed
  ultimately show ?thesis by blast
qed

theorem dispensing_consumes_ticket_witness:
  "\<exists>w'. runs (StartDispensing 7 60 20) (demo_world (demo_db [demo_ticket 60 7 ''c'' Paid])) () w' \<and>
     \<not> runs (StartDispensing 7 60 20) w' () w'"
proof -
  let ?w = "demo_world (demo_db [demo_ticket 60 7 ''c'' Paid])"
  have "\<exists>w'. runs (StartDispensing 7 60 20) ?w () w'"
    by (simp add: StartDispensing_def run_evals runs_not_empty_or)
  then obtain w' where r: "runs (StartDispensing 7 60 20) ?w () w'" by blast
  have k: "ticket_keys_ok (w_db ?w)" by (simp add: ticket_keys_ok_def demo_db_def)
  have "\<not> runs (StartDispensing 7 60 20) w' () w'"
    by (rule dispensing_consumes_ticket [OF r _ k, THEN conjunct1]) simp
  with r show ?thesis by blast
qed

text \<open>
  Closing a pump in bulk fills exactly the tickets that its queue shows: the count returned
  is the length of the queue, the queue is empty afterwards, and each of its tickets is filled
  on the closing shift with a net weight.
\<close>

lemma bulk_close_empties_queue:
  assumes "runs (ListDispensingForPump p i) w q w1" "runs (BulkCloseFilled p i s a note) w1 n w2"
    and "w_role w = AppRole (Some p)" "ready w2"
  shows "n = length q \<and> fst (ListDispensingForPump p i w2) = Inr [] \<and>
    (\<forall>x \<in> set q. \<exists>t \<in> set (db_tickets (w_db w2)). tk_ID t = pq_ID x \<and> tk_Status t = Filled \<and>
       tk_FilledShiftID t = Some s \<and> tk_ClosedBy t = Some a \<and> tk_NetGrams t \<noteq> None)"
proof -
  let ?Q = "\<lambda>t. tk_PlantID t = p \<and> tk_PumpID t = Some i \<and> tk_Status t = Dispensing"
  let ?g = "\<lambda>t. (close_row s a note (w_now w1) t)\<lparr>tk_UpdatedAt := w_now w1\<rparr>"
  have eq: "(\<lambda>t. tk_PlantID t = p \<and> ?Q t) = ?Q" by auto
  from assms(1,3) have q: "map pq_ID q = map tk_ID (sort_key queue_key (filter ?Q (db_tickets (w_db w))))"
    and w1: "w1 = stepped w (w_db w)"
    by (auto simp: ListDispensingForPump_def run_simps eq comp_def)
  from assms(2,3) have n: "n = length (filter ?Q (db_tickets (w_db w)))"
    and w2: "w_role w2 = AppRole (Some p)" "db_tickets (w_db w2) = upd_where ?Q ?g (db_tickets (w_db w))"
    by (auto simp: BulkCloseFilled_def run_simps w1 updated_def eq)
  have "n = length q"
    using arg_cong [OF q, of length] by (simp add: n)
  moreover have "filter ?Q (db_tickets (w_db w2)) = []"
    unfolding w2(2) by (rule filter_upd_where_none) (simp_all add: close_row_def)
  then have "fst (ListDispensingForPump p i w2) = Inr []"
    using assms(4) by (simp add: ListDispensingForPump_def bind_def ask_env_def query_ready w2(1) eq)
  moreover have "\<exists>t \<in> set (db_tickets (w_db w2)). tk_ID t = pq_ID x \<and> tk_Status t = Filled \<and>
       tk_FilledShiftID t = Some s \<and> tk_ClosedBy t = Some a \<and> tk_NetGrams t \<noteq> None"
    if x: "x \<in> set q" for x
  proof -
    from arg_cong [OF q, of set] have "pq_ID ` set q = tk_ID ` set (filter ?Q (db_tickets (w_db w)))"
      by (simp only: set_map set_sort)
    with x have "pq_ID x \<in> tk_ID ` set (filter ?Q (db_tickets (w_db w)))" by blast
    then obtain t where t: "t \<in> set (db_tickets (w_db w))" "?Q t" "tk_ID t = pq_ID x" by auto
    then have "?g t \<in> set (db_tickets (w_db w2))"
      unfolding w2 in_set_upd_where by (intro bexI [of _ t]) simp_all
    with t(3) show ?thesis
      by (intro bexI [of _ "?g t"]) (auto simp: close_row_def split: option.splits)
  qed
  ultimately show ?thesis by blast
qed

theorem bulk_close_empties_queue_witness:
  "\<exists>q w1 n w2. runs (ListDispensingForPump 7 40) (demo_world (demo_db [demo_ticket 60 7 ''c'' Dispensing])) q w1 \<and>
     runs (BulkCloseFilled 7 40 50 20 '''') w1 n w2 \<and> n = length q \<and>
     fst (ListDispensingForPump 7 40 w2) = Inr []"
proof -
  let ?w = "demo_world (demo_db [demo_ticket 60 7 ''c'' Dispensing])"
  have "\<exists>q w1 n w2. runs (ListDispensingForPump 7 40) ?w q w1 \<and>
      runs (BulkCloseFilled 7 40 50 20 '''') w1 n w2 \<and> ready w2"
    by (simp add: ListDispensingForPump_def BulkCloseFilled_def run_evals close_row_def nullIfEmpty_def)
  then obtain q w1 n w2 where r: "runs (ListDispensingForPump 7 40) ?w q w1"
    "runs (BulkCloseFilled 7 40 50 20 '''') w1 n w2" "ready w2" by blast
  from bulk_close_empties_queue [OF r(1,2) _ r(3)] r(1,2) show ?thesis by (metis demo_world_simps(2))
qed

section \<open>Confirmation\<close>

lemma runs_Confirm:
  assumes "w_role w = AppRole (Some p)"
  shows "runs (Confirm p ref ph) w u w' \<longleftrightarrow>
    (\<exists>t. ready w \<and> first_row (\<lambda>t. tk_PlantID t = p \<and> tk_Reference t = ref \<and> phoneMatchSQL t ph)
          (db_tickets (w_db w)) = Some t \<and> tk_Status t = Filled \<and>
       (if tk_ConfirmedAt t = None
        then \<exists>rs. runs (exec_update tickets_tab (\<lambda>t. tk_PlantID t = p \<and> tk_Reference t = ref)
           (\<lambda>now t. t\<lparr>tk_ConfirmedAt := Some now\<rparr>)) (stepped w (w_db w)) rs w'
        else w' = stepped w (w_db w)))"
    (is "_ \<longleftrightarrow> (\<exists>t. _ \<and> first_row ?K _ = Some t \<and> _)")
proof -
  have eq: "(\<lambda>t. tk_PlantID t = p \<and> ?K t) = ?K" by auto
  let ?q = "\<lambda>d. map_option (\<lambda>t. (tk_Status t, tk_ConfirmedAt t)) (first_row ?K (db_tickets d))"
  show ?thesis
  proof
    assume "runs (Confirm p ref ph) w u w'"
    then obtain r w1 where r: "runs (attempt (query_row ?q)) w r w1"
      and k: "runs (case r of
         Inl e \<Rightarrow> fail (if errors_is e ErrNoRows then ErrTicketNotConfirmable else e)
       | Inr (status, confirmedAt) \<Rightarrow>
           if status \<noteq> Filled then fail ErrTicketNotConfirmable
           else if confirmedAt \<noteq> None then ret ()
           else bind (exec_update tickets_tab (\<lambda>t. tk_PlantID t = p \<and> tk_Reference t = ref)
                  (\<lambda>now t. t\<lparr>tk_ConfirmedAt := Some now\<rparr>)) (\<lambda>_. ret ())) w1 u w'"
      unfolding Confirm_def runs_bind by blast
    from k obtain a where a: "r = Inr a" by (cases r) (simp_all add: runs_fail)
    with r obtain t where t: "ready w" "first_row ?K (db_tickets (w_db w)) = Some t"
      "a = (tk_Status t, tk_ConfirmedAt t)" "w1 = stepped w (w_db w)"
      by (auto simp: runs_attempt runs_query_row assms eq)
    with k a show "\<exists>t. ready w \<and> first_row ?K (db_tickets (w_db w)) = Some t \<and> tk_Status t = Filled \<and>
       (if tk_ConfirmedAt t = None
        then \<exists>rs. runs (exec_update tickets_tab (\<lambda>t. tk_PlantID t = p \<and> tk_Reference t = ref)
           (\<lambda>now t. t\<lparr>tk_ConfirmedAt := Some now\<rparr>)) (stepped w (w_db w)) rs w'
        else w' = stepped w (w_db w))"
      by (auto simp: runs_ret runs_bind runs_fail runs_if split: if_splits)
  next
    assume "\<exists>t. ready w \<and> first_row ?K (db_tickets (w_db w)) = Some t \<and> tk_Status t = Filled \<and>
       (if tk_ConfirmedAt t = None
        then \<exists>rs. runs (exec_update tickets_tab (\<lambda>t. tk_PlantID t = p \<and> tk_Reference t = ref)
           (\<lambda>now t. t\<lparr>tk_ConfirmedAt := Some now\<rparr>)) (stepped w (w_db w)) rs w'
        else w' = stepped w (w_db w))"
    then obtain t where t: "ready w" "first_row ?K (db_tickets (w_db w)) = Some t" "tk_Status t = Filled"
      and e: "if tk_ConfirmedAt t = None
        then \<exists>rs. runs (exec_update tickets_tab (\<lambda>t. tk_PlantID t = p \<and> tk_Reference t = ref)
           (\<lambda>now t. t\<lparr>tk_ConfirmedAt := Some now\<rparr>)) (stepped w (w_db w)) rs w'
        else w' = stepped w (w_db w)" by blast
    have "runs (attempt (query_row ?q)) w (Inr (tk_Status t, tk_ConfirmedAt t)) (stepped w (w_db w))"
      using t(1,2) by (simp add: runs_attempt runs_query_row assms eq)
    with t(3) e show "runs (Confirm p ref ph) w u w'"
      unfolding Confirm_def runs_bind
      by (intro exI [of _ "Inr (tk_Status t, tk_ConfirmedAt t)"] exI [of _ "stepped w (w_db w)"] conjI)
        (auto simp: runs_ret runs_bind)
  qed
qed

text \<open>
  Confirm succeeds only for a filled ticket of the plant that belongs to the given phone. It
  sets that ticket's confirmation time if it has none, changes nothing else, and confirming
  again succeeds without a change.
\<close>

lemma Confirm_scoped:
  assumes "runs (Confirm p ref ph) w u w'" "w_role w = AppRole (Some p)" "ticket_keys_ok (w_db w)"
  shows "\<exists>t \<in> set (db_tickets (w_db w)). tk_PlantID t = p \<and> tk_Reference t = ref \<and> phoneMatchSQL t ph \<and>
     tk_Status t = Filled \<and>
     w_db w' = (if tk_ConfirmedAt t = None
       then (w_db w)\<lparr>db_tickets := upd_where (\<lambda>u. u = t)
         (\<lambda>u. u\<lparr>tk_ConfirmedAt := Some (w_now w), tk_UpdatedAt := w_now w\<rparr>) (db_tickets (w_db w))\<rparr>
       else w_db w) \<and>
     (ready w' \<longrightarrow> runs (Confirm p ref ph) w' () (stepped w' (w_db w')))"
proof -
  let ?K = "\<lambda>t. tk_PlantID t = p \<and> tk_Reference t = ref \<and> phoneMatchSQL t ph"
  let ?g = "\<lambda>u. u\<lparr>tk_ConfirmedAt := Some (w_now w), tk_UpdatedAt := w_now w\<rparr>"
  let ?key = "\<lambda>t. (tk_PlantID t, tk_Reference t)"
  obtain t where t: "ready w" "first_row ?K (db_tickets (w_db w)) = Some t" "tk_Status t = Filled"
    and e: "if tk_ConfirmedAt t = None
        then \<exists>rs. runs (exec_update tickets_tab (\<lambda>t. tk_PlantID t = p \<and> tk_Reference t = ref)
           (\<lambda>now t. t\<lparr>tk_ConfirmedAt := Some now\<rparr>)) (stepped w (w_db w)) rs w'
        else w' = stepped w (w_db w)"
    using assms(1) runs_Confirm [OF assms(2)] by blast
  from t(2) have tk: "t \<in> set (db_tickets (w_db w))" "tk_PlantID t = p" "tk_Reference t = ref" "phoneMatchSQL t ph"
    by (auto dest: first_row_SomeD)
  have dist: "distinct (map ?key (db_tickets (w_db w)))"
    using assms(3) by (simp add: ticket_keys_ok_def)
  have uq: "u = t" if "u \<in> set (db_tickets (w_db w))" "tk_PlantID u = p" "tk_Reference u = ref" for u
    using distinct_map_eqD [OF dist that(1) tk(1)] that tk by simp
  show ?thesis
  proof (cases "tk_ConfirmedAt t = None")
    case False
    with e have w': "w' = stepped w (w_db w)" by simp
    have "ready w' \<longrightarrow> runs (Confirm p ref ph) w' () (stepped w' (w_db w'))"
      using False t(2,3) assms(2) by (auto simp: runs_Confirm w')
    with tk t(3) False w' show ?thesis by (intro bexI [of _ t]) auto
  next
    case True
    with e have w': "w_role w' = w_role w"
      "w_db w' = (w_db w)\<lparr>db_tickets := upd_where (\<lambda>u. tk_PlantID u = p \<and> tk_Reference u = ref) ?g (db_tickets (w_db w))\<rparr>"
      by (auto simp: runs_exec_update updated_def assms(2))
    have upd: "upd_where (\<lambda>u. tk_PlantID u = p \<and> tk_Reference u = ref) ?g (db_tickets (w_db w))
        = upd_where (\<lambda>u. u = t) ?g (db_tickets (w_db w))"
      using tk by (intro upd_where_key [OF dist]) auto
    have rows: "db_tickets (w_db w') = upd_where (\<lambda>u. u = t) ?g (db_tickets (w_db w))"
      by (simp add: w'(2) upd)
    have one: "first_row ?K (db_tickets (w_db w')) = Some (?g t)"
      unfolding rows
    proof (rule first_row_unique)
      show "?g t \<in> set (upd_where (\<lambda>u. u = t) ?g (db_tickets (w_db w)))"
        unfolding in_set_upd_where by (rule bexI [OF _ tk(1)]) simp
      fix y assume y: "y \<in> set (upd_where (\<lambda>u. u = t) ?g (db_tickets (w_db w)))" "?K y"
      then obtain u where u: "u \<in> set (db_tickets (w_db w))" "y = (if u = t then ?g u else u)"
        by (auto simp only: in_set_upd_where)
      show "y = ?g t"
      proof (cases "u = t")
        case False
        with u y(2) have "u = t" by (intro uq) simp_all
        with False show ?thesis by simp
      qed (use u in simp)
    qed (use tk in \<open>simp add: phoneMatchSQL_def\<close>)
    have "ready w' \<longrightarrow> runs (Confirm p ref ph) w' () (stepped w' (w_db w'))"
      using one t(3) assms(2) by (auto simp: runs_Confirm w'(1))
    with tk t(3) True w'(2) upd show ?thesis by (intro bexI [of _ t]) auto
  qed
qed

theorem Confirm_scoped_witness:
  "\<exists>w'. runs (Confirm 7 ''rc'' ''08'') (demo_world (demo_db [demo_ticket 60 7 ''c'' Filled])) () w' \<and>
     (\<exists>w''. runs (Confirm 7 ''rc'' ''08'') w' () w'')"
proof -
  let ?w = "demo_world (demo_db [demo_ticket 60 7 ''c'' Filled])"
  have "\<exists>w'. runs (Confirm 7 ''rc'' ''08'') ?w () w' \<and> ready w'"
    by (simp add: runs_Confirm [of _ 7] phoneMatchSQL_def sql_right_def is_digit_def run_evals)
  then obtain w' where r: "runs (Confirm 7 ''rc'' ''08'') ?w () w'" "ready w'" by blast
  have k: "ticket_keys_ok (w_db ?w)" by (simp add: ticket_keys_ok_def demo_db_def)
  have "ready w' \<longrightarrow> runs (Confirm 7 ''rc'' ''08'') w' () (stepped w' (w_db w'))"
    using Confirm_scoped [OF r(1) demo_world_simps(2) k] by blast
  with r show ?thesis by blast
qed

end
