(* ===== verification/SystemFixtures.thy ===== *)
theory SystemFixtures
  imports HandlerSteps TicketSpec
begin

text \<open>
  The concrete server on which the properties of handlers are evaluated: an in-memory Redis, a
  payment service that confirms every transaction, hashes that are the hashed text itself; and a
  state of the installation of \<open>Fixtures\<close> that is reached by a purchase.
\<close>

section \<open>A purchase\<close>

lemma demo_grams: "GramsFromAmount 1500000 120000 = 12500"
  using GramsFromAmount_exact [of 1500000 120000] by simp

definition demo_order :: PurchaseParams where
  "demo_order = \<lparr>pp_PlantID = 7, pp_PlantSlug = ''a'', pp_PriceID = 30, pp_RatePerKgKobo = 120000,
     pp_AmountKobo = 1500000, pp_SizeGrams = 12500, pp_Channel = ''cash'', pp_CustomerName = ''A'',
     pp_CustomerPhone = ''080'', pp_Paid = False, pp_SoldBy = None, pp_ShiftID = None\<rparr>"

definition demo_open :: world where
  "demo_open = stepped (stepped (stepped (demo_tx (demo_db [])) (demo_db [])) (demo_db [])) (demo_db [])"

lemma demo_order_runs:
  "\<exists>c w t. runs (CreatePending demo_order) demo_open c w \<and> w_db w = demo_db [t] \<and> tk_Status t = Pending \<and>
     w_env w = demo_env \<and> w_role w = AppRole (Some 7) \<and> \<not> w_aborted w"
  by (simp add: demo_order_def demo_open_def run_evals CreatePending_def Purchase_def runs_NewReference
      runs_all_attempts runs_NewCode purchase_row_def nullIfEmpty_def cong: if_cong)

lemma demo_log_runs:
  "w_db w = demo_db [t] \<Longrightarrow> w_env w = demo_env \<Longrightarrow> w_role w = AppRole (Some 7) \<Longrightarrow> \<not> w_aborted w \<Longrightarrow>
    \<exists>w'. runs (Log (Some 7) None a s ds) w () w' \<and> db_tickets (w_db w') = [t] \<and> w_env w' = demo_env \<and> \<not> w_aborted w'"
  by (simp add: run_evals Log_def)

abbreviation "demo_shop \<equiv> plant.truncate (demo_plant 7 ''a'')"
abbreviation "demo_buy \<equiv> buyGas_tx (\<lambda>_. None) demo_shop 1500000 ''cash'' ''A'' ''080''"

lemma demo_status: "runs (StatusNow (\<lambda>_. None) 7 ''T'') (demo_tx (demo_db []))
    \<lparr>ts_IsOpen = True, ts_Label = ''Hours not set''\<rparr> (stepped (stepped (demo_tx (demo_db [])) (demo_db [])) (demo_db []))"
  by (simp add: StatusNow_def run_simps Let_def) (simp add: demo_db_def)

lemma demo_price: "runs (loadCurrentPrice 7) (stepped (stepped (demo_tx (demo_db [])) (demo_db [])) (demo_db []))
    (30, 120000) demo_open"
  by (simp add: loadCurrentPrice_def run_simps demo_open_def) (simp add: demo_db_def first_by_def)

lemma demo_buy_runs:
  "\<exists>c w t. runs demo_buy (demo_tx (demo_db [])) c w \<and> db_tickets (w_db w) = [t] \<and> tk_Status t = Pending \<and>
     w_env w = demo_env \<and> \<not> w_aborted w"
proof -
  obtain c w2 t w3 where 1: "runs (CreatePending demo_order) demo_open c w2" "tk_Status t = Pending"
    "runs (Log (Some 7) None ''ticket.created'' (Ticket_Reference c)
       [(''amount_kobo'', DInt 1500000), (''size_grams'', DInt 12500), (''channel'', DStr ''cash'')]) w2 () w3"
    "db_tickets (w_db w3) = [t]" "w_env w3 = demo_env" "\<not> w_aborted w3"
    using demo_order_runs demo_log_runs by metis
  have "runs demo_buy (demo_tx (demo_db [])) c w3"
    unfolding buyGas_tx_def runs_bind
    apply (intro exI conjI)
     apply (subst runs_wrap_error)
     apply (simp add: plant.defs demo_plant_def, rule demo_status)
    using 1 demo_price unfolding demo_order_def
    apply (auto simp: runs_bind runs_if runs_ret runs_wrap_error demo_grams plant.defs demo_plant_def intro!: exI)
    done
  with 1 show ?thesis by blast
qed

section \<open>A reachable state\<close>

lemma demo_init: "reachable (demo_db [])"
  by (rule reachable.init) (simp_all add: schema_ok_def constraint_evals buyers_viol_def demo_defs)

lemma demo_step: "\<exists>d t. server_step (demo_db []) d \<and> db_tickets d = [t] \<and> tk_Status t = Pending"
proof -
  obtain c w t where 1: "runs demo_buy (demo_tx (demo_db [])) c w" "db_tickets (w_db w) = [t]"
    "tk_Status t = Pending" "w_env w = demo_env" "\<not> w_aborted w"
    using demo_buy_runs by blast
  obtain w' where "WithTenant 7 demo_buy (demo_world (demo_db [])) = (Inr c, w')" "w_db w' = w_db w"
    using WithTenant_demo [OF 1(1,5,4)] by blast
  then have "w_db (snd (WithTenant 7 (void demo_buy) (demo_world (demo_db [])))) = w_db w"
    by (simp add: WithTenant_void)
  moreover have "tenant_tx 7 (void demo_buy)"
    using tenant_tx.buy [of demo_shop] by (simp add: plant.defs demo_plant_def)
  ultimately have "server_step (demo_db []) (w_db w)"
    using server_step.tenant [OF _ prod.collapse [symmetric]] demo_world_simps(1) by metis
  with 1(2,3) show ?thesis by blast
qed

lemma demo_reachable: "\<exists>d t. reachable d \<and> db_tickets d = [t] \<and> tk_Status t = Pending"
  using demo_step reachable.step [OF demo_init] by blast

section \<open>A server\<close>

definition demo_paystack :: paystack where
  "demo_paystack = \<lparr>pc_SecretKey = ''sk'', pc_BaseURL = '''', pc_Do = (\<lambda>c n. Inr (200, hc_URL c)),
     pc_Envelope = (\<lambda>b. (True, '''')), pc_DecodeInitialize = (\<lambda>b. None),
     pc_DecodeVerify = (\<lambda>b. Some \<lparr>vr_Status = ''success'', vr_Reference = b, vr_AmountKobo = 1500000,
       vr_Channel = ''card'', vr_Currency = ''NGN'', vr_GatewayResponse = ''ok''\<rparr>),
     pc_DecodeAccountName = (\<lambda>b. Some ''A''), pc_DecodeSubaccount = (\<lambda>b. Some ''S''), pc_DecodeBanks = (\<lambda>b. None),
     pc_DecodeEvent = (\<lambda>b. None), pc_hmac512 = (\<lambda>k m. [length k, length m])\<rparr>"

definition demo_bcrypt :: bcrypt where
  "demo_bcrypt = \<lparr>bc_GenerateFromPassword = (\<lambda>n s. Inr (CHR ''h'' # s)), bc_Compare = (\<lambda>h s. h = CHR ''h'' # s)\<rparr>"

text \<open>Sessions are written as a row of fields, each after its length in unary.\<close>

fun enc :: "string list \<Rightarrow> string" where
  "enc [] = ''''"
| "enc (f # fs) = replicate (length f) (CHR ''1'') @ CHR ''0'' # f @ enc fs"

fun dec :: "nat \<Rightarrow> string \<Rightarrow> string list" where
  "dec 0 s = []"
| "dec (Suc k) s = (let n = length (takeWhile ((=) (CHR ''1'')) s); r = drop (Suc n) s in take n r # dec k (drop n r))"

lemma takeWhile_ones: "takeWhile ((=) (CHR ''1'')) (replicate n (CHR ''1'') @ CHR ''0'' # r) = replicate n (CHR ''1'')"
  by (induction n) auto

lemma dec_enc: "dec (length fs) (enc fs) = fs"
  by (induction fs) (simp_all add: takeWhile_ones Let_def)

definition enc_int :: "int \<Rightarrow> string" where
  "enc_int n = (if n < 0 then CHR ''-'' else CHR ''+'') # replicate (nat \<bar>n\<bar>) (CHR ''x'')"

definition dec_int :: "string \<Rightarrow> int" where
  "dec_int s = (if hd s = CHR ''-'' then - int (length (tl s)) else int (length (tl s)))"

lemma dec_enc_int [simp]: "dec_int (enc_int n) = n"
  by (simp add: dec_int_def enc_int_def)

definition session_fields :: "Data \<Rightarrow> string list" where
  "session_fields d = [sd_UserID d, sd_Role d, sd_Name d, sd_PlantID d, sd_ShiftID d, sd_PumpID d,
     sd_Phone d, if sd_CanEditPrice d then ''t'' else '''', if sd_CanManageStaff d then ''t'' else '''',
     if sd_CanManagePumps d then ''t'' else '''', enc_int (sd_CreatedAt d)]"

definition fields_session :: "string list \<Rightarrow> Data" where
  "fields_session f = \<lparr>sd_UserID = f ! 0, sd_Role = f ! 1, sd_Name = f ! 2, sd_PlantID = f ! 3, sd_ShiftID = f ! 4,
     sd_PumpID = f ! 5, sd_Phone = f ! 6, sd_CanEditPrice = f ! 7 \<noteq> '''', sd_CanManageStaff = f ! 8 \<noteq> '''',
     sd_CanManagePumps = f ! 9 \<noteq> '''', sd_CreatedAt = dec_int (f ! 10)\<rparr>"

definition demo_codec :: codec where
  "demo_codec = \<lparr>jc_Marshal = (\<lambda>d. Some (enc (session_fields d))), jc_Unmarshal = (\<lambda>s. Some (fields_session (dec 11 s)))\<rparr>"

lemma demo_codec_ok: "codec_ok demo_codec"
proof -
  have "length (session_fields d) = 11" for d by (simp add: session_fields_def)
  then have "dec 11 (enc (session_fields d)) = session_fields d" for d by (metis dec_enc)
  moreover have "fields_session (session_fields d) = d" for d
    by (simp add: fields_session_def session_fields_def)
  ultimately show ?thesis by (simp add: codec_ok_def demo_codec_def)
qed

definition demo_server :: "store server" where
  "demo_server = \<lparr>sv_Redis = memory_redis, sv_Paystack = demo_paystack, sv_codec = demo_codec,
     sv_bcrypt = demo_bcrypt, sv_hmac256 = (\<lambda>k m. [length k, length m]), sv_Secret = ''secret'',
     sv_APP_ENV = ''production'', sv_BaseDomain = ''gatstogo.com'', sv_AppBaseURL = ''https://gatstogo.com'',
     sv_NotificationEmail = ''n'', sv_SupportEmail = ''s'', sv_ParseURL = (\<lambda>u. None),
     sv_LoadLocation = (\<lambda>z. None), sv_DetectContentType = (\<lambda>b. ''image/png''),
     sv_ParseAddress = (\<lambda>a. a \<noteq> ''''), sv_ErrText = (\<lambda>e. ''error''),
     sv_Getenv = (\<lambda>k. '''')\<rparr>"

definition demo_request :: "string \<Rightarrow> string \<Rightarrow> (string \<times> string) list \<Rightarrow> http_request" where
  "demo_request meth host cookies = \<lparr>hr_Method = meth, hr_Host = host, hr_TLS = True, hr_RemoteAddr = ''1.2.3.4:5'',
     hr_Header = (\<lambda>k. ''''), hr_cookies = cookies, hr_form_ok = True, hr_FormValue = (\<lambda>k. ''''),
     hr_URLParam = (\<lambda>k. ''''), hr_Query = (\<lambda>k. ''''), hr_body = None, hr_logo = None\<rparr>"

end
