(* ===== verification/SystemSpec.thy ===== *)
theory SystemSpec
  imports SystemFixtures
begin

text \<open>
  What holds of the whole server: its handlers are sequences of the system's steps, and what
  every step keeps - the constraints of the schema, the life cycle of the tickets, the ledgers,
  the rows of the other tenants.
\<close>

section \<open>Handlers\<close>

text \<open>
  C1: Whatever request a route serves, and whatever fails on the way, the database it leaves is
  reached from the one it found by committed transactions of the system: no handler writes
  outside a transaction, and no failed transaction leaves a trace.
\<close>

theorem handlers_take_steps:
  assumes "serves sv r h" "h r ws = (x, ws')"
  shows "server_step\<^sup>*\<^sup>* (w_db (fst ws)) (w_db (fst ws'))"
proof -
  have "by_steps (h r)"
    using assms(1)
    unfolding serves_def MountHandlers_def mounted_def probe_routes_def page_routes_def public_routes_def tenant_routes_def receipt_handlers_def
      staff_handlers_def owner_handlers_def admin_handlers_def
    by (auto simp: tenant_public_def tenant_form_def receipt_group_def staff_group_def owner_group_def
        admin_group_def intro!: step_rules)
  then show ?thesis
    using assms(2) by (metis hkeeps_def snd_conv)
qed

theorem handlers_take_steps_witness:
  "\<exists>x w'. paystackWebhookHandler demo_server (demo_request ''POST'' ''gatstogo.com'' []) (demo_world (demo_db []), Map.empty)
     = (Inr x, w') \<and> re_body x = HttpError 400 ''bad request'' \<and> server_step\<^sup>*\<^sup>* (demo_db []) (w_db (fst w'))"
proof -
  let ?r = "demo_request ''POST'' ''gatstogo.com'' []"
  let ?h = "paystackWebhookHandler demo_server ?r (demo_world (demo_db []), Map.empty)"
  have run: "?h = (Inr (http_error 400 ''bad request''), (demo_world (demo_db []), Map.empty))"
    by (simp add: paystackWebhookHandler_def demo_request_def ret_def)
  have "serves demo_server ?r (paystackWebhookHandler demo_server)"
    by (auto simp: serves_def MountHandlers_def public_routes_def demo_request_def)
  from handlers_take_steps [OF this run] run show ?thesis by (simp add: http_error_def plain_def)
qed

section \<open>Invariants\<close>

text \<open>
  In every state that the server can reach, a member of staff has at most one open shift at
  a plant, no two redeemable tickets of a plant share a code, slugs are unique, prices are
  positive, a rating is one to five stars, founding ranks are unique and at most fifty, and
  tickets and shifts belong to plants that exist.
\<close>

lemma reachable_consistent:
  assumes "reachable d"
  shows "(distinct (map (\<lambda>s. (sh_PlantID s, sh_UserID s)) (filter (\<lambda>s. sh_ClosedAt s = None) (db_shifts d)))) \<and>
    (distinct (map (\<lambda>t. (tk_PlantID t, tk_Code t))
           (filter (\<lambda>t. tk_Status t \<in> {Pending, Paid, Dispensing}) (db_tickets d)))) \<and>
    (distinct (map pl_Slug (db_plants d))) \<and>
    (\<forall>p \<in> set (db_prices d). 0 < pr_PricePerKg p) \<and>
    (\<forall>r \<in> set (db_reviews d). \<forall>n. rv_Rating r = Some n \<longrightarrow> 1 \<le> n \<and> n \<le> 5) \<and>
    (\<forall>p \<in> set (db_plants d). \<forall>n. pl_FoundingRank p = Some n \<longrightarrow> 1 \<le> n \<and> n \<le> 50) \<and>
    (distinct (List.map_filter pl_FoundingRank (db_plants d))) \<and>
    (\<forall>t \<in> set (db_tickets d). tk_PlantID t \<in> pl_ID ` set (db_plants d)) \<and>
    (\<forall>s \<in> set (db_shifts d). sh_PlantID s \<in> pl_ID ` set (db_plants d))"
proof -
  have "schema_ok d"
    using assms by (induction rule: reachable.induct) (auto dest: step_keeps simp: sound_def)
  then have v: "shifts_viol d = None" "tickets_viol d = None" "plants_viol d = None" "prices_viol d = None"
      "reviews_viol d = None"
    by (simp_all add: schema_ok_def)
  have "distinct (map (\<lambda>s. (sh_PlantID s, sh_UserID s)) (filter (\<lambda>s. sh_ClosedAt s = None) (db_shifts d)))"
       "\<forall>s \<in> set (db_shifts d). sh_PlantID s \<in> pl_ID ` set (db_plants d)"
    using v(1) by (auto simp: shifts_viol_def no_violation open_shifts_def plant_ids_def simp del: first_violation_simps)
  moreover have "distinct (map (\<lambda>t. (tk_PlantID t, tk_Code t))
           (filter (\<lambda>t. tk_Status t \<in> {Pending, Paid, Dispensing}) (db_tickets d)))"
       "\<forall>t \<in> set (db_tickets d). tk_PlantID t \<in> pl_ID ` set (db_plants d)"
    using v(2) by (auto simp: tickets_viol_def no_violation code_keys_def open_code_def [abs_def] ticket_fks_def plant_ids_def
        simp del: first_violation_simps)
  moreover have "distinct (map pl_Slug (db_plants d))"
       "\<forall>p \<in> set (db_plants d). \<forall>n. pl_FoundingRank p = Some n \<longrightarrow> 1 \<le> n \<and> n \<le> 50"
       "distinct (List.map_filter pl_FoundingRank (db_plants d))"
    using v(3) by (fastforce simp: plants_viol_def no_violation simp del: first_violation_simps split: option.splits)+
  moreover have "\<forall>p \<in> set (db_prices d). 0 < pr_PricePerKg p"
       "\<forall>r \<in> set (db_reviews d). \<forall>n. rv_Rating r = Some n \<longrightarrow> 1 \<le> n \<and> n \<le> 5"
    using v(4,5) by (fastforce simp: prices_viol_def reviews_viol_def no_violation simp del: first_violation_simps
        split: option.splits)+
  ultimately show ?thesis by blast
qed

theorem reachable_consistent_witness:
  "\<exists>d t. reachable d \<and> db_tickets d = [t] \<and> tk_PlantID t \<in> pl_ID ` set (db_plants d)"
proof -
  obtain d t where "reachable d" "db_tickets d = [t]" using demo_reachable by blast
  with reachable_consistent [of d] show ?thesis by auto
qed

lemma reachable_evolves:
  assumes "reachable d"
  shows "\<exists>d0. db_tickets d0 = [] \<and> ticket_keys_ok d0 \<and> tickets_evolve d0 d"
  using reachable_from_init [OF assms] steps_keep by (fastforce simp: ticket_keys_ok_def)

lemma reachable_keys: "reachable d \<Longrightarrow> ticket_keys_ok d"
  using reachable_evolves by (auto simp: tickets_evolve_def)

text \<open>
  C2: In every reachable state the columns of a ticket agree with its status - a ticket that is
  not paid has no payment, dispensing, fill or confirmation on record, a filled one has all of
  its fill - and a code is handed out again only after its earlier tickets are closed.
\<close>

theorem reachable_tickets:
  assumes "reachable d"
  shows "(\<forall>t \<in> set (db_tickets d). ticket_wf t) \<and> ticket_keys_ok d"
proof -
  obtain d0 where d0: "db_tickets d0 = []" "ticket_keys_ok d0" "tickets_evolve d0 d"
    using reachable_evolves [OF assms] by blast
  have "\<forall>t \<in> set (db_tickets d). ticket_wf t"
    by (rule evolve_wf [OF d0(3,2)]) (simp add: d0(1))
  then show ?thesis using reachable_keys [OF assms] ..
qed

theorem reachable_tickets_witness: "\<exists>d t. reachable d \<and> db_tickets d = [t] \<and> ticket_wf t"
proof -
  obtain d t where "reachable d" "db_tickets d = [t]" using demo_reachable by blast
  with reachable_tickets [of d] show ?thesis by auto
qed

text \<open>
  C3: A ticket never disappears and its terms - reference, code, weight, rate, amount, channel,
  customer - never change, whatever the server does afterwards; it only moves forward through
  its stages, and one that is filled or voided stays so.
\<close>

theorem ticket_life:
  assumes "reachable d" "server_step\<^sup>*\<^sup>* d d'" "t \<in> set (db_tickets d)"
  shows "\<exists>t' \<in> set (db_tickets d'). terms_of t' = terms_of t \<and> stage (tk_Status t) \<le> stage (tk_Status t') \<and>
    (tk_Status t \<in> {Filled, Voided} \<longrightarrow> tk_Status t' = tk_Status t)"
proof -
  have "ticket_keys_ok d" using reachable_keys [OF assms(1)] .
  with steps_keep [OF assms(2)] obtain old new where
    o: "db_tickets d' = old @ new" "list_all2 tstep\<^sup>*\<^sup>* (db_tickets d) old"
    by (auto simp: tickets_evolve_def)
  with assms(3) obtain t' where "t' \<in> set old" "tstep\<^sup>*\<^sup>* t t'"
    by (metis in_set_conv_nth list_all2_conv_all_nth)
  with o(1) show ?thesis
    using tsteps_terms tsteps_stage tsteps_final by (intro bexI [of _ t']) auto
qed

theorem ticket_life_witness:
  "\<exists>d t. reachable d \<and> db_tickets d = [t] \<and> (\<exists>t' \<in> set (db_tickets d). terms_of t' = terms_of t)"
proof -
  obtain d t where d: "reachable d" "db_tickets d = [t]" using demo_reachable by blast
  then have "t \<in> set (db_tickets d)" by simp
  from ticket_life [OF d(1) rtranclp.rtrancl_refl this] d show ?thesis
    by (intro exI [of _ d] exI [of _ t]) auto
qed

text \<open>
  C6: The activity log, the price history and the cash movements are append-only: no step
  changes, reorders or removes a row of them.
\<close>

theorem ledgers_append_only:
  assumes "server_step\<^sup>*\<^sup>* d d'"
  shows "\<exists>log prices cash. db_log d' = db_log d @ log \<and> db_prices d' = db_prices d @ prices \<and>
    db_cash d' = db_cash d @ cash"
  using steps_keep [OF assms] by (auto simp: sound_def ledgers_grow_def grows_def)

theorem ledgers_append_only_witness:
  "\<exists>d. server_step (demo_db []) d \<and> (\<exists>prices. db_prices d = db_prices (demo_db []) @ prices)"
proof -
  obtain d where d: "server_step (demo_db []) d" using demo_step by blast
  then have "server_step\<^sup>*\<^sup>* (demo_db []) d" by blast
  from ledgers_append_only [OF this] d show ?thesis by blast
qed

text \<open>
  C4: Tenants are isolated: a transaction that a handler runs for a plant, committed or not,
  leaves every row of every other plant as it was, in each of the ten tables that have rows of
  plants, and the tables that belong to no plant too.
\<close>

theorem tenants_isolated:
  assumes "tenant_tx p m" "WithTenant p m w = (r, w')" "q \<noteq> p"
  shows "(filter (\<lambda>t. tk_PlantID t = q) (db_tickets (w_db w')) = filter (\<lambda>t. tk_PlantID t = q) (db_tickets (w_db w))) \<and>
    (filter (\<lambda>s. sh_PlantID s = q) (db_shifts (w_db w')) = filter (\<lambda>s. sh_PlantID s = q) (db_shifts (w_db w))) \<and>
    (filter (\<lambda>u. us_PlantID u = q) (db_users (w_db w')) = filter (\<lambda>u. us_PlantID u = q) (db_users (w_db w))) \<and>
    (filter (\<lambda>x. pr_PlantID x = q) (db_prices (w_db w')) = filter (\<lambda>x. pr_PlantID x = q) (db_prices (w_db w))) \<and>
    (filter (\<lambda>c. cm_PlantID c = q) (db_cash (w_db w')) = filter (\<lambda>c. cm_PlantID c = q) (db_cash (w_db w))) \<and>
    (filter (\<lambda>l. al_PlantID l = Some q) (db_log (w_db w')) = filter (\<lambda>l. al_PlantID l = Some q) (db_log (w_db w))) \<and>
    (filter (\<lambda>x. pl_ID x = q) (db_plants (w_db w')) = filter (\<lambda>x. pl_ID x = q) (db_plants (w_db w))) \<and>
    (filter (\<lambda>x. pu_PlantID x = q) (db_pumps (w_db w')) = filter (\<lambda>x. pu_PlantID x = q) (db_pumps (w_db w))) \<and>
    (filter (\<lambda>x. ph_PlantID x = q) (db_hours (w_db w')) = filter (\<lambda>x. ph_PlantID x = q) (db_hours (w_db w))) \<and>
    (filter (\<lambda>x. rv_PlantID x = q) (db_reviews (w_db w')) = filter (\<lambda>x. rv_PlantID x = q) (db_reviews (w_db w))) \<and>
    db_buyers (w_db w') = db_buyers (w_db w) \<and> db_reserved (w_db w') = db_reserved (w_db w)"
proof -
  have o: "others p (w_db w') = others p (w_db w)"
    using WithTenant_isolation [OF tenant_tx_writes_own [OF assms(1)] assms(2)] .
  have sub: "filter (\<lambda>x. f x = Some q) ys = filter (\<lambda>x. f x = Some q) xs"
    if "filter (\<lambda>x. f x \<noteq> Some p) ys = filter (\<lambda>x. f x \<noteq> Some p) xs" for f :: "'x \<Rightarrow> uuid option" and xs ys
  proof -
    have "filter (\<lambda>x. f x = Some q) zs = filter (\<lambda>x. f x = Some q) (filter (\<lambda>x. f x \<noteq> Some p) zs)" for zs
      using assms(3) by (induction zs) auto
    with that show ?thesis by metis
  qed
  have "filter (\<lambda>t. tk_PlantID t = q) (db_tickets (w_db w')) = filter (\<lambda>t. tk_PlantID t = q) (db_tickets (w_db w))"
    using arg_cong [OF o, of db_tickets] sub [of "\<lambda>t. Some (tk_PlantID t)"] by (simp add: others_def restrict_db_def)
  moreover have "filter (\<lambda>s. sh_PlantID s = q) (db_shifts (w_db w')) = filter (\<lambda>s. sh_PlantID s = q) (db_shifts (w_db w))"
    using arg_cong [OF o, of db_shifts] sub [of "\<lambda>t. Some (sh_PlantID t)"] by (simp add: others_def restrict_db_def)
  moreover have "filter (\<lambda>u. us_PlantID u = q) (db_users (w_db w')) = filter (\<lambda>u. us_PlantID u = q) (db_users (w_db w))"
    using arg_cong [OF o, of db_users] sub [of "\<lambda>t. Some (us_PlantID t)"] by (simp add: others_def restrict_db_def)
  moreover have "filter (\<lambda>x. pr_PlantID x = q) (db_prices (w_db w')) = filter (\<lambda>x. pr_PlantID x = q) (db_prices (w_db w))"
    using arg_cong [OF o, of db_prices] sub [of "\<lambda>t. Some (pr_PlantID t)"] by (simp add: others_def restrict_db_def)
  moreover have "filter (\<lambda>c. cm_PlantID c = q) (db_cash (w_db w')) = filter (\<lambda>c. cm_PlantID c = q) (db_cash (w_db w))"
    using arg_cong [OF o, of db_cash] sub [of "\<lambda>t. Some (cm_PlantID t)"] by (simp add: others_def restrict_db_def)
  moreover have "filter (\<lambda>l. al_PlantID l = Some q) (db_log (w_db w')) = filter (\<lambda>l. al_PlantID l = Some q) (db_log (w_db w))"
    using arg_cong [OF o, of db_log] sub [of al_PlantID] by (simp add: others_def restrict_db_def)
  moreover have "filter (\<lambda>x. pl_ID x = q) (db_plants (w_db w')) = filter (\<lambda>x. pl_ID x = q) (db_plants (w_db w))"
    using arg_cong [OF o, of db_plants] sub [of "\<lambda>t. Some (pl_ID t)"] by (simp add: others_def restrict_db_def)
  moreover have "filter (\<lambda>x. pu_PlantID x = q) (db_pumps (w_db w')) = filter (\<lambda>x. pu_PlantID x = q) (db_pumps (w_db w))"
    using arg_cong [OF o, of db_pumps] sub [of "\<lambda>t. Some (pu_PlantID t)"] by (simp add: others_def restrict_db_def)
  moreover have "filter (\<lambda>x. ph_PlantID x = q) (db_hours (w_db w')) = filter (\<lambda>x. ph_PlantID x = q) (db_hours (w_db w))"
    using arg_cong [OF o, of db_hours] sub [of "\<lambda>t. Some (ph_PlantID t)"] by (simp add: others_def restrict_db_def)
  moreover have "filter (\<lambda>x. rv_PlantID x = q) (db_reviews (w_db w')) = filter (\<lambda>x. rv_PlantID x = q) (db_reviews (w_db w))"
    using arg_cong [OF o, of db_reviews] sub [of "\<lambda>t. Some (rv_PlantID t)"] by (simp add: others_def restrict_db_def)
  moreover have "db_buyers (w_db w') = db_buyers (w_db w)" "db_reserved (w_db w') = db_reserved (w_db w)"
    using arg_cong [OF o, of db_buyers] arg_cong [OF o, of db_reserved] by (simp_all add: others_def restrict_db_def)
  ultimately show ?thesis by blast
qed

theorem tenants_isolated_witness:
  "\<exists>r w. WithTenant 7 (void demo_buy) (demo_world (demo_db [])) = (r, w) \<and>
     filter (\<lambda>x. pl_ID x = 8) (db_plants (w_db w)) = [demo_plant 8 ''b'']"
proof -
  have tx: "tenant_tx 7 (void demo_buy)"
    using tenant_tx.buy [of demo_shop] by (simp add: plant.defs demo_plant_def)
  obtain r w where run: "WithTenant 7 (void demo_buy) (demo_world (demo_db [])) = (r, w)" by fastforce
  from tenants_isolated [OF tx run, of 8] run show ?thesis
    by (simp add: demo_db_def demo_plant_def)
qed

end
