(* ===== verification/AccessFixtures.thy ===== *)
theory AccessFixtures
  imports SystemFixtures
begin

text \<open>
  Evaluation of the Redis operations on the in-memory store, for the witnesses of what sessions,
  codes and limits are good for.
\<close>

section \<open>Runs on the in-memory Redis\<close>

lemmas redis_evals = bind_def attempt_def ret_def fail_def db_act_def ask_env_def send_def memory_redis_def
  as_int_def as_string_def as_bool_def rIncr_def rExpire_def rSet_def rDel_def rGet_def rTTL_def rExists_def
  rSetNX_def rGetDel_def ignore_def

lemma demo_server_simps [simp]:
  "sv_Redis demo_server = memory_redis" "sv_codec demo_server = demo_codec" "sv_bcrypt demo_server = demo_bcrypt"
  "sv_Paystack demo_server = demo_paystack" "sv_BaseDomain demo_server = ''gatstogo.com''"
  by (simp_all add: demo_server_def)

lemma demo_request_simps [simp]:
  "hr_Method (demo_request m h cs) = m" "hr_Host (demo_request m h cs) = h" "hr_cookies (demo_request m h cs) = cs"
  by (simp_all add: demo_request_def)

lemma keys_differ [simp]: "attemptsKey v u \<noteq> lockKey v u" "lockKey v u \<noteq> attemptsKey v u"
  by (simp_all add: attemptsKey_def lockKey_def)

lemma RecordFailure_memory:
  "RecordFailure memory_redis u (w, m) =
    (case m (attemptsKey (w_env w) u) of
       None \<Rightarrow> (Inr (), w, m(attemptsKey (w_env w) u \<mapsto> (''1'', Some attemptWindow)))
     | Some (v, r) \<Rightarrow> (case counter_value v of None \<Rightarrow> (Inl DriverErr, w, m)
         | Some n \<Rightarrow> if n + 1 = 1 then (Inr (), w, m(attemptsKey (w_env w) u \<mapsto> (itoa (n + 1), Some attemptWindow)))
             else if 5 \<le> n + 1 then (Inr (), w, m(lockKey (w_env w) u \<mapsto> (''1'', Some LockoutTTL), attemptsKey (w_env w) u := None))
             else (Inr (), w, m(attemptsKey (w_env w) u \<mapsto> (itoa (n + 1), r)))))"
  by (auto simp: RecordFailure_def redis_evals MaxPINAttempts_def Let_def fun_eq_iff split: option.splits)

lemma recordFailure_memory:
  "recordFailure memory_redis p ph (w, m) =
    (case m (failKey (w_env w) p ph) of
       None \<Rightarrow> (Inr (), w, m(failKey (w_env w) p ph \<mapsto> (''1'', Some CodeTTL)))
     | Some (v, r) \<Rightarrow> (case counter_value v of None \<Rightarrow> (Inl DriverErr, w, m)
         | Some n \<Rightarrow> if n + 1 = 1 then (Inr (), w, m(failKey (w_env w) p ph \<mapsto> (itoa (n + 1), Some CodeTTL)))
             else if 5 \<le> n + 1 then (Inr (), w, m(failKey (w_env w) p ph \<mapsto> (itoa (n + 1), r),
               codeLockKey (w_env w) p ph \<mapsto> (''1'', Some VerifyLockoutTTL)))
             else (Inr (), w, m(failKey (w_env w) p ph \<mapsto> (itoa (n + 1), r)))))"
  by (auto simp: recordFailure_def redis_evals MaxVerifyAttempts_def Let_def fun_eq_iff split: option.splits)

lemma demo_five_pins:
  "pin_limit.failures u memory_redis 5 (w, Map.empty) = (Inr (), w, [lockKey (w_env w) u \<mapsto> (''1'', Some LockoutTTL)])"
  by (simp add: numeral_eq_Suc pin_limit.failures.simps bind_def ret_def RecordFailure_memory fun_eq_iff)

lemma demo_five_codes:
  "\<exists>m. code_limit.failures p ph memory_redis 5 (w, Map.empty) = (Inr (), w, m) \<and>
    m (codeLockKey (w_env w) p ph) = Some (''1'', Some VerifyLockoutTTL)"
  by (simp add: numeral_eq_Suc code_limit.failures.simps bind_def ret_def recordFailure_memory)

end
