(* ===== verification/AccessSpec.thy ===== *)
theory AccessSpec
  imports AccessFixtures
begin

text \<open>
  Who may do what: what a session, a CSRF token, a PIN, a one-time code and a reset token are
  good for, over the guards of \<^verbatim>\<open>internal/middleware\<close> and the stores of \<^verbatim>\<open>internal/session\<close>,
  \<^verbatim>\<open>internal/passwordreset\<close>, \<^verbatim>\<open>internal/receipts\<close> and \<^verbatim>\<open>internal/shifts\<close>.
\<close>

section \<open>Actions that leave the database alone\<close>

definition same_db :: "('s, 'a) hact \<Rightarrow> world \<times> 's \<Rightarrow> bool" where
  "same_db m ws \<longleftrightarrow> w_db (fst (snd (m ws))) = w_db (fst ws)"

named_theorems same_db_rules \<open>actions, and runs of actions, that leave the database alone\<close>

lemma same_db_ret [same_db_rules]: "same_db (ret a) ws" "same_db (fail e) ws"
  by (simp_all add: same_db_def ret_def fail_def)

lemma same_db_bind [same_db_rules]:
  assumes "same_db m ws" "\<And>a ws1. runs m ws a ws1 \<Longrightarrow> w_db (fst ws1) = w_db (fst ws) \<Longrightarrow> same_db (f a) ws1"
  shows "same_db (bind m f) ws"
proof -
  obtain x ws1 where m: "m ws = (x, ws1)" by (cases "m ws") blast
  with assms(1) have "w_db (fst ws1) = w_db (fst ws)" by (simp add: same_db_def)
  with assms(2) m show ?thesis
    by (cases x) (auto simp: same_db_def bind_def runs_def)
qed

lemma same_db_attempt [same_db_rules]: "same_db m ws \<Longrightarrow> same_db (attempt m) ws"
  by (simp add: same_db_def attempt_def case_prod_unfold)

lemma same_db_ignore [same_db_rules]: "same_db m ws \<Longrightarrow> same_db (ignore m) ws"
  unfolding ignore_def by (intro same_db_rules)

lemma same_db_cases [same_db_rules]:
  "same_db m ws \<Longrightarrow> same_db n ws \<Longrightarrow> same_db (if c then m else n) ws"
  "same_db m ws \<Longrightarrow> (\<And>a. same_db (f a) ws) \<Longrightarrow> same_db (case x of None \<Rightarrow> m | Some a \<Rightarrow> f a) ws"
  by (auto split: option.splits)

lemma same_db_send [same_db_rules]: "same_db (send rdb c) ws"
  by (simp add: same_db_def send_def case_prod_unfold)

lemma same_db_typed [same_db_rules]: "same_db (as_string r) ws" "same_db (as_int r) ws" "same_db (as_bool r) ws"
  by (simp_all add: as_string_def as_int_def as_bool_def same_db_def ret_def fail_def split: reply.splits)

lemma same_db_env [same_db_rules]: "same_db (db_act ask_env) ws"
  by (simp add: same_db_def db_act_def ask_env_def)

lemma same_db_query [same_db_rules]: "same_db (db_act (on_admin_pool (query_row F))) ws"
  by (auto simp: same_db_def db_act_def on_admin_pool_def query_row_def query_def exec_stmt_def bind_def in_tx_def
      ret_def fail_def Let_def split: option.splits prod.splits sum.splits if_splits)

lemma same_db_load [same_db_rules]: "same_db (session_Load rdb jc tok) ws"
  unfolding session_Load_def rGet_def by (intro same_db_rules) (auto intro: same_db_rules split: sum.splits)

lemma same_db_cookie [same_db_rules]: "same_db (load_cookie sv r kind) ws"
  unfolding load_cookie_def by (intro same_db_rules)

lemma same_db_renewing:
  assumes "\<And>ws1. w_db (fst ws1) = w_db (fst ws) \<Longrightarrow> same_db k ws1"
  shows "same_db (renewing sv kind tok ttl k) ws"
  unfolding renewing_def session_Touch_def rExpire_def by (intro same_db_rules) (auto intro: assms same_db_rules)

section \<open>Signed-in requests\<close>

definition at_plant :: "http_request \<Rightarrow> db \<Rightarrow> plant_row \<Rightarrow> bool" where
  "at_plant r d p \<longleftrightarrow> p \<in> set (db_plants d) \<and> pl_Slug p = ExtractSubdomain (hr_Host r) \<and> pl_Status p = ''active''"

definition submitted_token :: "http_request \<Rightarrow> string" where
  "submitted_token r =
     (if hr_Header r ''X-CSRF-Token'' = '''' then hr_FormValue r ''csrf_token'' else hr_Header r ''X-CSRF-Token'')"

definition signed_in :: "'s server \<Rightarrow> store \<Rightarrow> string \<Rightarrow> http_request \<Rightarrow> Data \<Rightarrow> bool" where
  "signed_in sv m kind r data \<longleftrightarrow> (\<exists>tok b t. ReadCookie (hr_cookies r) kind = Some tok \<and>
     m (keyPrefix @ tok) = Some (b, t) \<and> jc_Unmarshal (sv_codec sv) b = Some data \<and>
     csrf_Verify sv tok (submitted_token r))"

lemma runs_Tenant_query:
  assumes "runs (attempt (db_act (on_admin_pool (query_row (\<lambda>d. map_option plant.truncate
     (first_row (\<lambda>p. pl_Slug p = slug \<and> pl_Status p = ''active'') (db_plants d))))))) ws (Inr q) ws1"
  shows "\<exists>p \<in> set (db_plants (w_db (fst ws))). pl_Slug p = slug \<and> pl_Status p = ''active'' \<and> q = plant.truncate p \<and>
    snd ws1 = snd ws \<and> w_env (fst ws1) = w_env (fst ws)"
proof -
  let ?F = "\<lambda>d. map_option plant.truncate (first_row (\<lambda>p. pl_Slug p = slug \<and> pl_Status p = ''active'') (db_plants d))"
  from assms have "runs (db_act (on_admin_pool (query_row ?F))) ws q ws1" by (simp add: runs_attempt)
  then obtain w2 where "runs (query_row ?F) (in_tx AdminRole (fst ws)) q w2" "snd ws1 = snd ws" "w_env (fst ws1) = w_env w2"
    by (auto simp: runs_def db_act_def on_admin_pool_def split: prod.splits)
  then have "?F (w_db (fst ws)) = Some q" "snd ws1 = snd ws" "w_env (fst ws1) = w_env (fst ws)"
    by (auto simp: runs_query_row in_tx_def)
  then show ?thesis by (auto dest!: first_row_SomeD)
qed

lemma same_db_Tenant:
  assumes "\<And>p ws1. at_plant r (w_db (fst ws)) p \<Longrightarrow> w_db (fst ws1) = w_db (fst ws) \<Longrightarrow> snd ws1 = snd ws \<Longrightarrow>
      w_env (fst ws1) = w_env (fst ws) \<Longrightarrow> same_db (h (plant.truncate p) r) ws1"
  shows "same_db (Tenant sv h r) ws"
proof -
  have "same_db (case res of Inl e \<Rightarrow> ret not_found_page | Inr plant \<Rightarrow> h plant r) ws1"
    if "runs (attempt (db_act (on_admin_pool (query_row (\<lambda>d. map_option plant.truncate
     (first_row (\<lambda>p. pl_Slug p = ExtractSubdomain (hr_Host r) \<and> pl_Status p = ''active'') (db_plants d))))))) ws res ws1"
      "w_db (fst ws1) = w_db (fst ws)" for res ws1
  proof (cases res)
    case (Inl e)
    then show ?thesis by (simp add: same_db_rules)
  next
    case (Inr q)
    with runs_Tenant_query [of "ExtractSubdomain (hr_Host r)" ws q ws1] that obtain p where
      p: "at_plant r (w_db (fst ws)) p" "q = plant.truncate p" "snd ws1 = snd ws" "w_env (fst ws1) = w_env (fst ws)"
      by (auto simp: at_plant_def)
    from assms [OF p(1) that(2) p(3,4)] show ?thesis by (simp add: Inr p(2))
  qed
  then show ?thesis
    unfolding Tenant_def Let_def by (intro same_db_cases same_db_ret same_db_bind same_db_attempt same_db_query)
qed

lemma runs_load_cookie:
  assumes "redis_ok (sv_Redis sv) view" "runs (load_cookie sv r kind) ws (Some (tok, Inr data)) ws1"
  shows "fst ws1 = fst ws \<and> view (snd ws1) = view (snd ws) \<and> ReadCookie (hr_cookies r) kind = Some tok \<and>
    (\<exists>b t. view (snd ws) (keyPrefix @ tok) = Some (b, t) \<and> jc_Unmarshal (sv_codec sv) b = Some data)"
proof -
  from assms(2) have "ReadCookie (hr_cookies r) kind = Some tok"
    "runs (session_Load (sv_Redis sv) (sv_codec sv) tok) ws data ws1"
    by (auto simp: load_cookie_def run_simps runs_attempt split: option.splits)
  with runs_session_Load [OF assms(1) this(2)] show ?thesis by simp
qed

lemma same_db_CSRF:
  assumes "hr_Method r = ''POST''" "csrf_Verify sv (ac_Token a) (submitted_token r) \<Longrightarrow> same_db (h r) ws"
  shows "same_db (CSRF sv (Some a) h r) ws"
  using assms by (auto simp: CSRF_def submitted_token_def Let_def intro: same_db_rules)

lemma ac_Token_simps [simp]:
  "ac_Token (actor_of d u p s q tok) = tok" "ac_Token (receipt_actor d i tok) = tok"
  by (simp_all add: actor_of_def receipt_actor_def)

text \<open>The four guards have this shape.\<close>

lemma same_db_guard:
  assumes "redis_ok (sv_Redis sv) view" "hr_Method r = ''POST''"
    and "same_db (g None) ws"
    and "\<And>tok e ws1. same_db (g (Some (tok, Inl e))) ws1"
    and "\<And>tok data ws1. fst ws1 = fst ws \<Longrightarrow>
      (csrf_Verify sv tok (submitted_token r) \<Longrightarrow> signed_in sv (view (snd ws)) kind r data) \<Longrightarrow> same_db (g (Some (tok, Inr data))) ws1"
    and "\<And>ws1. same_db (g None) ws1"
  shows "same_db (bind (load_cookie sv r kind) g) ws"
proof (rule same_db_bind [OF same_db_cookie])
  fix s ws1
  assume s: "runs (load_cookie sv r kind) ws s ws1"
  consider "s = None" | tok e where "s = Some (tok, Inl e)" | tok data where "s = Some (tok, Inr data)"
    by (cases s) (auto, metis old.sum.exhaust)
  then show "same_db (g s) ws1"
  proof cases
    case (3 tok data)
    with runs_load_cookie [OF assms(1)] s assms(5) [of ws1 tok data] show ?thesis
      by (auto simp: signed_in_def)
  qed (use assms(4,6) in auto)
qed

lemma staff_group_same_db:
  fixes sv :: "'s server"
  assumes "redis_ok (sv_Redis sv) view" "hr_Method r = ''POST''"
    and none: "\<nexists>p data. at_plant r (w_db (fst ws)) p \<and> signed_in sv (view (snd ws)) CookieStaff r data \<and>
      staff_session_role (sd_Role data) \<and> sd_PlantID data = e_uuid_str (w_env (fst ws)) (pl_ID p) \<and> sd_ShiftID data \<noteq> ''''"
  shows "same_db (staff_group sv h r) ws"
  unfolding staff_group_def
proof (rule same_db_Tenant)
  fix p and ws1 :: "world \<times> 's"
  assume p: "at_plant r (w_db (fst ws)) p" "w_db (fst ws1) = w_db (fst ws)" "snd ws1 = snd ws"
    "w_env (fst ws1) = w_env (fst ws)"
  show "same_db (RequireStaffSession sv (Some (plant.truncate p))
      (\<lambda>a. CSRF sv (Some a) (h (Some (plant.truncate p)) (Some a))) r) ws1"
    unfolding RequireStaffSession_def option.case Let_def
  proof (rule same_db_guard [OF assms(1,2)], goal_cases)
    case (3 tok data ws2)
    have "\<not> csrf_Verify sv tok (submitted_token r)" if "staff_session_role (sd_Role data) \<and> sd_PlantID data = e_uuid_str (w_env (fst ws)) (pl_ID p) \<and> sd_ShiftID data \<noteq> ''''"
      using none p that 3(2) by fastforce
    then show ?case
      by (auto simp: 3(1) p(4) plant.defs runs_db_act runs_ask_env
        intro!: same_db_bind same_db_env same_db_ret same_db_renewing same_db_CSRF assms(2) split: option.splits)
  qed (auto intro: same_db_rules)
qed

lemma owner_group_same_db:
  fixes sv :: "'s server"
  assumes "redis_ok (sv_Redis sv) view" "hr_Method r = ''POST''"
    and none: "\<nexists>p data. at_plant r (w_db (fst ws)) p \<and> signed_in sv (view (snd ws)) CookieOwner r data \<and>
      (sd_Role data = RoleOwner \<or> sd_Role data = RoleManager) \<and> sd_PlantID data = e_uuid_str (w_env (fst ws)) (pl_ID p)"
  shows "same_db (owner_group sv h r) ws"
  unfolding owner_group_def
proof (rule same_db_Tenant)
  fix p and ws1 :: "world \<times> 's"
  assume p: "at_plant r (w_db (fst ws)) p" "w_db (fst ws1) = w_db (fst ws)" "snd ws1 = snd ws"
    "w_env (fst ws1) = w_env (fst ws)"
  show "same_db (RequireOwnerSession sv (Some (plant.truncate p))
      (\<lambda>a. CSRF sv (Some a) (h (Some (plant.truncate p)) (Some a))) r) ws1"
    unfolding RequireOwnerSession_def option.case Let_def
  proof (rule same_db_guard [OF assms(1,2)], goal_cases)
    case (3 tok data ws2)
    have "\<not> csrf_Verify sv tok (submitted_token r)" if "(sd_Role data = RoleOwner \<or> sd_Role data = RoleManager) \<and> sd_PlantID data = e_uuid_str (w_env (fst ws)) (pl_ID p)"
      using none p that 3(2) by fastforce
    then show ?case
      by (auto simp: 3(1) p(4) plant.defs runs_db_act runs_ask_env
        intro!: same_db_bind same_db_env same_db_ret same_db_renewing same_db_CSRF assms(2) split: option.splits)
  qed (auto intro: same_db_rules)
qed

lemma receipt_group_same_db:
  fixes sv :: "'s server"
  assumes "redis_ok (sv_Redis sv) view" "hr_Method r = ''POST''"
    and none: "\<nexists>p data. at_plant r (w_db (fst ws)) p \<and> signed_in sv (view (snd ws)) CookieReceipts r data \<and>
      sd_Role data = RoleCustomer \<and> sd_PlantID data = e_uuid_str (w_env (fst ws)) (pl_ID p) \<and> sd_Phone data \<noteq> ''''"
  shows "same_db (receipt_group sv h r) ws"
  unfolding receipt_group_def
proof (rule same_db_Tenant)
  fix p and ws1 :: "world \<times> 's"
  assume p: "at_plant r (w_db (fst ws)) p" "w_db (fst ws1) = w_db (fst ws)" "snd ws1 = snd ws"
    "w_env (fst ws1) = w_env (fst ws)"
  show "same_db (RequireReceiptSession sv (Some (plant.truncate p))
      (\<lambda>a. CSRF sv (Some a) (h (Some (plant.truncate p)) (Some a))) r) ws1"
    unfolding RequireReceiptSession_def option.case Let_def
  proof (rule same_db_guard [OF assms(1,2)], goal_cases)
    case (3 tok data ws2)
    have "\<not> csrf_Verify sv tok (submitted_token r)" if "sd_Role data = RoleCustomer \<and> sd_PlantID data = e_uuid_str (w_env (fst ws)) (pl_ID p) \<and> sd_Phone data \<noteq> ''''"
      using none p that 3(2) by fastforce
    then show ?case
      by (auto simp: 3(1) p(4) plant.defs runs_db_act runs_ask_env
        intro!: same_db_bind same_db_env same_db_ret same_db_renewing same_db_CSRF assms(2) split: option.splits)
  qed (auto intro: same_db_rules)
qed

lemma admin_group_same_db:
  fixes sv :: "'s server"
  assumes "redis_ok (sv_Redis sv) view" "hr_Method r = ''POST''"
    and none: "\<not> IsMarketingHost (hr_Host r) (sv_BaseDomain sv) \<or>
      (\<nexists>data. signed_in sv (view (snd ws)) CookieAdmin r data \<and> sd_Role data = RoleAdmin)"
  shows "same_db (admin_group sv h r) ws"
proof (cases "IsMarketingHost (hr_Host r) (sv_BaseDomain sv)")
  case False
  then show ?thesis by (simp add: admin_group_def marketingHostOnly_def same_db_ret)
next
  case True
  have "same_db (RequireAdminSession sv (\<lambda>a. CSRF sv (Some a) (h (Some a))) r) ws"
    unfolding RequireAdminSession_def Let_def
  proof (rule same_db_guard [OF assms(1,2)], goal_cases)
    case (3 tok data ws2)
    have "\<not> csrf_Verify sv tok (submitted_token r)" if "sd_Role data = RoleAdmin"
      using none True that 3(2) by fastforce
    then show ?case
      by (auto simp: 3(1) runs_db_act runs_ask_env
        intro!: same_db_bind same_db_env same_db_ret same_db_renewing same_db_CSRF assms(2) split: option.splits)
  qed (auto intro: same_db_rules)
  with True show ?thesis by (simp add: admin_group_def marketingHostOnly_def)
qed

text \<open>
  C14: A POST to a staff, owner, customer or administrator route leaves the database as it is
  unless the request carries the session cookie of that group, whose token Redis holds with a
  session of a fitting role, for the active plant of the host's subdomain (for an administrator:
  on the platform's own host), together with the CSRF token derived from it.
\<close>

theorem changes_need_session:
  fixes sv :: "'s server"
  assumes "redis_ok (sv_Redis sv) view" "hr_Method r = ''POST''"
  shows "(w_db (fst (snd (staff_group sv h r ws))) = w_db (fst ws) \<or>
      (\<exists>p data. at_plant r (w_db (fst ws)) p \<and> signed_in sv (view (snd ws)) CookieStaff r data \<and>
        staff_session_role (sd_Role data) \<and> sd_PlantID data = e_uuid_str (w_env (fst ws)) (pl_ID p) \<and> sd_ShiftID data \<noteq> '''')) \<and>
    (w_db (fst (snd (owner_group sv h r ws))) = w_db (fst ws) \<or>
      (\<exists>p data. at_plant r (w_db (fst ws)) p \<and> signed_in sv (view (snd ws)) CookieOwner r data \<and>
        (sd_Role data = RoleOwner \<or> sd_Role data = RoleManager) \<and> sd_PlantID data = e_uuid_str (w_env (fst ws)) (pl_ID p))) \<and>
    (w_db (fst (snd (receipt_group sv h r ws))) = w_db (fst ws) \<or>
      (\<exists>p data. at_plant r (w_db (fst ws)) p \<and> signed_in sv (view (snd ws)) CookieReceipts r data \<and>
        sd_Role data = RoleCustomer \<and> sd_PlantID data = e_uuid_str (w_env (fst ws)) (pl_ID p) \<and> sd_Phone data \<noteq> '''')) \<and>
    (w_db (fst (snd (admin_group sv h' r ws))) = w_db (fst ws) \<or>
      (\<exists>data. IsMarketingHost (hr_Host r) (sv_BaseDomain sv) \<and> signed_in sv (view (snd ws)) CookieAdmin r data \<and>
        sd_Role data = RoleAdmin))"
  using staff_group_same_db [OF assms, of ws h] owner_group_same_db [OF assms, of ws h]
    receipt_group_same_db [OF assms, of ws h] admin_group_same_db [OF assms, of ws h']
  unfolding same_db_def by blast

theorem changes_need_session_witness:
  "w_db (fst (snd (staff_group demo_server (\<lambda>p a. terminalCashSaleHandler demo_server p a)
     (demo_request ''POST'' ''a.gatstogo.com'' []) (demo_world (demo_db []), Map.empty)))) = demo_db []"
proof -
  have "redis_ok (sv_Redis demo_server) (\<lambda>m. m)" by (simp add: demo_server_def memory_redis_ok)
  moreover have "hr_Method (demo_request ''POST'' ''a.gatstogo.com'' []) = ''POST''" by (simp add: demo_request_def)
  moreover have "\<not> signed_in demo_server m kind (demo_request ''POST'' ''a.gatstogo.com'' []) data" for m kind data
    by (simp add: signed_in_def demo_request_def ReadCookie_def first_row_def)
  ultimately show ?thesis
    using changes_need_session [of demo_server "\<lambda>m. m" "demo_request ''POST'' ''a.gatstogo.com'' []"
        "terminalCashSaleHandler demo_server" "(demo_world (demo_db []), Map.empty)"]
    by simp
qed

section \<open>PINs and one-time codes\<close>

lemma ttl_reply_pos: "0 < ttl_reply (Some (v, Some r)) \<longleftrightarrow> 500000 \<le> r"
  by (simp add: ttl_reply_def) (smt (verit) pos_imp_zdiv_pos_iff)

lemma runs_Locked:
  assumes "redis_ok rdb view" "runs (Locked rdb u) ws a ws'"
  shows "fst a = (0 < ttl_reply (view (snd ws) (lockKey (w_env (fst ws)) u)))"
proof -
  from assms(2) obtain ttl w1 where "runs (rTTL rdb (lockKey (w_env (fst ws)) u)) ws ttl w1"
      "runs (if 0 < ttl then ret (True, ttl) else ret (False, 0)) w1 a ws'"
    by (auto simp: Locked_def runs_bind runs_db_act runs_ask_env prod_eq_iff)
  with runs_rTTL [OF assms(1) this(1)] show ?thesis by (auto simp: runs_ret split: if_splits)
qed

text \<open>
  C19: After five wrong PINs in a row a member of staff is locked out: the terminal's check says
  so until half a second before the twenty seconds are over (Redis answers in rounded seconds),
  and no longer afterwards.
\<close>

theorem five_wrong_pins_lock:
  assumes "redis_ok rdb view"
    and "runs (attempt_limiter.failures (\<lambda>rdb. RecordFailure rdb u) rdb 5) ws x ws1"
    and "counted (view (snd ws)) (attemptsKey (w_env (fst ws)) u) = 0"
    and "w_env (fst ws2) = w_env (fst ws)" "view (snd ws2) = elapse dt (view (snd ws1))"
    and "runs (Locked rdb u) ws2 (locked, remaining) ws3"
  shows "(dt \<le> LockoutTTL - 500000 \<longrightarrow> locked) \<and> (LockoutTTL \<le> dt \<longrightarrow> \<not> locked)"
proof -
  have "pin_locked u (w_env (fst ws)) (view (snd ws1))"
    by (rule pin_limit.failures_lock [OF assms(1,2)]) (simp_all add: assms(3) MaxPINAttempts_def)
  then obtain v where "view (snd ws1) (lockKey (w_env (fst ws)) u) = Some (v, Some LockoutTTL)"
    by (auto simp: pin_locked_def)
  then have "view (snd ws2) (lockKey (w_env (fst ws2)) u) =
      (if LockoutTTL \<le> dt then None else Some (v, Some (LockoutTTL - dt)))"
    by (simp add: assms(4,5) elapse_def)
  with runs_Locked [OF assms(1,6)] show ?thesis
    by (auto simp: ttl_reply_pos LockoutTTL_def duration_defs) (simp add: ttl_reply_def)
qed

theorem five_wrong_pins_lock_witness:
  "\<exists>m. runs (Locked memory_redis 20) (demo_world (demo_db []), m) (True, LockoutTTL) (demo_world (demo_db []), m)"
proof -
  let ?w = "demo_world (demo_db [])"
  let ?m = "[lockKey demo_env 20 \<mapsto> (''1'', Some LockoutTTL)]"
  have five: "runs (pin_limit.failures 20 memory_redis 5) (?w, Map.empty) () (?w, ?m)"
    by (simp add: runs_def demo_five_pins)
  have el: "elapse 0 ?m = ?m" by (auto simp: elapse_def LockoutTTL_def Second_def)
  have "\<exists>x. Locked memory_redis 20 (?w, ?m) = (Inr x, ?w, ?m) \<and> (fst x \<longrightarrow> snd x = LockoutTTL)"
    by (simp add: Locked_def redis_evals ttl_reply_def LockoutTTL_def Second_def)
  then obtain b t where lk: "runs (Locked memory_redis 20) (?w, ?m) (b, t) (?w, ?m)" "b \<longrightarrow> t = LockoutTTL"
    by (auto simp: runs_def)
  have "b"
    using five_wrong_pins_lock [OF memory_redis_ok five _ _ _ lk(1), of 0] el
    by (simp add: counted_def LockoutTTL_def Second_def)
  with lk show ?thesis by auto
qed

lemma VerifyCode_true:
  assumes "redis_ok rdb view" "runs (VerifyCode rdb p ph c) ws True ws'"
  shows "c \<noteq> '''' \<and> view (snd ws) (codeLockKey (w_env (fst ws)) p ph) = None \<and>
    (\<exists>t. view (snd ws) (codeKey (w_env (fst ws)) p ph) = Some (c, t)) \<and> fst ws' = fst ws \<and>
    (\<exists>s1 s2. view s1 = view (snd ws) \<and> runs (ignore (rDel rdb (codeKey (w_env (fst ws)) p ph))) (fst ws, s1) () (fst ws, s2) \<and>
       runs (ignore (rDel rdb (failKey (w_env (fst ws)) p ph))) (fst ws, s2) () ws')"
proof -
  let ?v = "w_env (fst ws)"
  from assms(2) obtain n w1 r w2 where 1: "c \<noteq> ''''" "runs (rExists rdb (codeLockKey ?v p ph)) ws n w1" "\<not> 0 < n"
    "runs (attempt (rGet rdb (codeKey ?v p ph))) w1 r w2"
    "runs (case r of Inl e \<Rightarrow> if errors_is e redis_Nil then ret False else fail e
       | Inr stored \<Rightarrow> if stored \<noteq> c then bind (ignore (recordFailure rdb p ph)) (\<lambda>_. ret False)
           else bind (ignore (rDel rdb (codeKey ?v p ph))) (\<lambda>_.
             bind (ignore (rDel rdb (failKey ?v p ph))) (\<lambda>_. ret True))) w2 True ws'"
    by (auto simp: VerifyCode_def runs_bind runs_db_act runs_ask_env runs_if runs_fail runs_ret prod_eq_iff split: if_splits)
  from 1(5) obtain w3 where 2: "r = Inr c" "runs (ignore (rDel rdb (codeKey ?v p ph))) w2 () w3"
    "runs (ignore (rDel rdb (failKey ?v p ph))) w3 () ws'"
    by (cases r) (auto simp: runs_bind runs_if runs_fail runs_ret split: if_splits)
  with 1(4) have get: "runs (rGet rdb (codeKey ?v p ph)) w1 c w2" by (simp add: runs_attempt)
  have w: "fst w1 = fst ws" "view (snd w1) = view (snd ws)" "view (snd ws) (codeLockKey ?v p ph) = None"
    using runs_rExists [OF assms(1) 1(2)] 1(3) by (auto split: if_splits)
  have w2: "fst w2 = fst ws" "view (snd w2) = view (snd ws)" "\<exists>t. view (snd ws) (codeKey ?v p ph) = Some (c, t)"
    using runs_rGet [OF assms(1) get] w by auto
  have "fst w3 = fst w2" "fst ws' = fst w3"
    using 2 runs_ignore_del [OF assms(1) 2(2), of "CHR ''x'' # codeKey ?v p ph"]
      runs_ignore_del [OF assms(1) 2(3), of "CHR ''x'' # failKey ?v p ph"] by auto
  with 1(1) w w2 2 show ?thesis by (metis prod.collapse)
qed

text \<open>
  C20: A one-time code is accepted only when it is the code stored for that plant and phone and
  no lockout stands. It is then spent - whatever is submitted next for the same phone is not
  accepted until another code is requested - unless Redis answered the deletion of the code with
  an error, which the code ignores.
\<close>

theorem code_good_once:
  assumes "redis_ok rdb view" "runs (VerifyCode rdb p ph c) ws True ws'"
  shows "(\<exists>t. view (snd ws) (codeKey (w_env (fst ws)) p ph) = Some (c, t)) \<and>
    view (snd ws) (codeLockKey (w_env (fst ws)) p ph) = None \<and>
    (view (snd ws') (codeKey (w_env (fst ws)) p ph) = None \<and> (\<nexists>c' ws2. runs (VerifyCode rdb p ph c') ws' True ws2) \<or>
     (\<exists>s e s'. view s = view (snd ws) \<and> rdb (DEL (codeKey (w_env (fst ws)) p ph)) s = (Inl e, s')))"
proof -
  let ?k = "codeKey (w_env (fst ws)) p ph" and ?f = "failKey (w_env (fst ws)) p ph"
  from VerifyCode_true [OF assms(1,2)] obtain s1 s2 where 1: "\<exists>t. view (snd ws) ?k = Some (c, t)"
    "view (snd ws) (codeLockKey (w_env (fst ws)) p ph) = None" "fst ws' = fst ws" "view s1 = view (snd ws)"
    "runs (ignore (rDel rdb ?k)) (fst ws, s1) () (fst ws, s2)"
    "runs (ignore (rDel rdb ?f)) (fst ws, s2) () ws'"
    by blast
  obtain x s' where x: "rdb (DEL ?k) s1 = (x, s')" by fastforce
  show ?thesis
  proof (cases x)
    case (Inl e)
    with x 1(1,2,4) show ?thesis by blast
  next
    case (Inr r)
    with x have r: "rdb (DEL ?k) s1 = (Inr r, s')" by simp
    with 1(5) have "s' = s2"
      by (auto simp: ignore_def rDel_def runs_def bind_def attempt_def send_def ret_def as_int_def fail_def
          split: prod.splits reply.splits)
    with redis_okD [OF assms(1) r] have "(view s1)(?k := None) = view s2" by simp
    then have "view s2 ?k = None" by (metis fun_upd_same)
    moreover have "?k \<noteq> ?f" by (simp add: codeKey_def failKey_def)
    ultimately have "view (snd ws') ?k = None"
      using runs_ignore_del [OF assms(1) 1(6), of ?k] by simp
    moreover from this have "\<not> runs (VerifyCode rdb p ph c') ws' True ws2" for c' ws2
      using VerifyCode_true [OF assms(1), of p ph c' ws' ws2] 1(3) by auto
    ultimately show ?thesis using 1(1,2) by blast
  qed
qed

theorem code_good_once_witness:
  "\<exists>m. runs (VerifyCode memory_redis 7 ''080'' ''123456'') (demo_world (demo_db []), [codeKey demo_env 7 ''080'' \<mapsto> (''123456'', Some 1)])
     True (demo_world (demo_db []), m) \<and>
   \<not> runs (VerifyCode memory_redis 7 ''080'' ''123456'') (demo_world (demo_db []), m) True (demo_world (demo_db []), m)"
proof -
  let ?w = "demo_world (demo_db [])" and ?m = "[codeKey demo_env 7 ''080'' \<mapsto> (''123456'', Some 1)]"
  have "\<exists>m. VerifyCode memory_redis 7 ''080'' ''123456'' (?w, ?m) = (Inr True, ?w, m)"
    by (simp add: VerifyCode_def redis_evals codeLockKey_def codeKey_def)
  then obtain m where run: "runs (VerifyCode memory_redis 7 ''080'' ''123456'') (?w, ?m) True (?w, m)"
    by (auto simp: runs_def)
  have "memory_redis (DEL k) s \<noteq> (Inl e, s')" for k s e s' by (simp add: memory_redis_def)
  with code_good_once [OF memory_redis_ok run] run show ?thesis by auto
qed

text \<open>
  Five wrong guesses at a one-time code lock the phone out: for five minutes no code, not
  even the right one, is accepted.
\<close>

lemma five_wrong_codes_lock:
  assumes "redis_ok rdb view"
    and "runs (attempt_limiter.failures (\<lambda>rdb. recordFailure rdb p ph) rdb 5) ws x ws1"
    and "counted (view (snd ws)) (failKey (w_env (fst ws)) p ph) = 0"
    and "w_env (fst ws2) = w_env (fst ws)" "view (snd ws2) = elapse dt (view (snd ws1))" "dt < VerifyLockoutTTL"
  shows "\<not> runs (VerifyCode rdb p ph c) ws2 True ws3"
proof
  assume "runs (VerifyCode rdb p ph c) ws2 True ws3"
  from VerifyCode_true [OF assms(1) this]
  have "view (snd ws2) (codeLockKey (w_env (fst ws)) p ph) = None" by (simp add: assms(4))
  moreover have "code_locked p ph (w_env (fst ws)) (view (snd ws1))"
    by (rule code_limit.failures_lock [OF assms(1,2)]) (simp_all add: assms(3) MaxVerifyAttempts_def)
  ultimately show False
    using assms(5,6) by (auto simp: code_locked_def elapse_def)
qed

theorem five_wrong_codes_lock_witness:
  "\<exists>m. \<not> runs (VerifyCode memory_redis 7 ''080'' ''123456'') (demo_world (demo_db []), m) True (demo_world (demo_db []), m)"
proof -
  obtain m where m: "code_limit.failures 7 ''080'' memory_redis 5 (demo_world (demo_db []), Map.empty) =
      (Inr (), demo_world (demo_db []), m)"
    using demo_five_codes [of 7 "''080''" "demo_world (demo_db [])"] by blast
  then have r: "runs (code_limit.failures 7 ''080'' memory_redis 5) (demo_world (demo_db []), Map.empty) ()
      (demo_world (demo_db []), m)"
    by (simp add: runs_def)
  have "\<not> runs (VerifyCode memory_redis 7 ''080'' ''123456'') (demo_world (demo_db []), elapse 0 m) True
      (demo_world (demo_db []), elapse 0 m)"
    using five_wrong_codes_lock [OF memory_redis_ok r, of "(demo_world (demo_db []), elapse 0 m)" 0]
    by (simp add: counted_def VerifyLockoutTTL_def Minute_def Second_def)
  then show ?thesis by blast
qed

section \<open>Sessions and reset tokens\<close>

lemma session_Load_answered:
  assumes "redis_ok rdb view" "rdb (GET (keyPrefix @ tok)) (snd ws) = (Inr reply, s')"
  shows "session_Load rdb jc tok ws = (case view (snd ws) (keyPrefix @ tok) of
      None \<Rightarrow> Inl session_ErrNotFound
    | Some (b, r) \<Rightarrow> (case jc_Unmarshal jc b of None \<Rightarrow> Inl DriverErr | Some d \<Rightarrow> Inr d), (fst ws, s'))"
proof -
  have "errors_is redis_Nil redis_Nil" by (simp add: redis_Nil_def)
  with redis_okD [OF assms] show ?thesis
    by (auto simp: session_Load_def rGet_def bind_def attempt_def send_def as_string_def ret_def fail_def assms(2)
        split: option.splits)
qed

text \<open>
  C21: What a login stores is what later requests read. Provided that the texts of the session
  are UTF-8, as Go's JSON encoder asks, and that Redis answers the request: a session created
  under a token loads, as long as its lifetime lasts, with the same data and the time of its
  creation; from then on the token is not found, nor is it after the session was deleted.
\<close>

theorem session_roundtrip:
  assumes "redis_ok rdb view" "codec_ok jc" "utf8_texts d" "runs (session_Create rdb jc d ttl) ws tok ws1"
    and "view (snd ws2) = elapse dt (view (snd ws1))" "rdb (GET (keyPrefix @ tok)) (snd ws2) = (Inr reply, s2)"
  shows "(\<exists>n. session_Load rdb jc tok ws2 =
      (if dt < ttl then Inr (d\<lparr>sd_CreatedAt := e_wall (w_env (fst ws)) n\<rparr>) else Inl session_ErrNotFound, (fst ws2, s2))) \<and>
    (\<forall>ws3 u ws4 dt' ws5 reply' s5. runs (session_Delete rdb tok) ws3 u ws4 \<and> view (snd ws5) = elapse dt' (view (snd ws4)) \<and>
       rdb (GET (keyPrefix @ tok)) (snd ws5) = (Inr reply', s5) \<longrightarrow>
         session_Load rdb jc tok ws5 = (Inl session_ErrNotFound, (fst ws5, s5)))"
proof -
  from runs_session_Create [OF assms(1,4)] obtain n b where
    1: "jc_Marshal jc (d\<lparr>sd_CreatedAt := e_wall (w_env (fst ws)) n\<rparr>) = Some b"
    "view (snd ws1) (keyPrefix @ tok) = Some (b, Some ttl)" by auto
  moreover have "utf8_texts (d\<lparr>sd_CreatedAt := e_wall (w_env (fst ws)) n\<rparr>)"
    using assms(3) by (simp add: utf8_texts_def)
  ultimately have decoded: "jc_Unmarshal jc b = Some (d\<lparr>sd_CreatedAt := e_wall (w_env (fst ws)) n\<rparr>)"
    using assms(2) by (simp add: codec_ok_def)
  have "session_Load rdb jc tok ws2 =
      (if dt < ttl then Inr (d\<lparr>sd_CreatedAt := e_wall (w_env (fst ws)) n\<rparr>) else Inl session_ErrNotFound, (fst ws2, s2))"
    using session_Load_answered [of rdb view tok ws2 reply s2 jc] assms(1,5,6) 1(2) decoded by (simp add: elapse_def)
  moreover have "session_Load rdb jc tok ws5 = (Inl session_ErrNotFound, (fst ws5, s5))"
    if "runs (session_Delete rdb tok) ws3 u ws4" "view (snd ws5) = elapse dt' (view (snd ws4))"
      "rdb (GET (keyPrefix @ tok)) (snd ws5) = (Inr reply', s5)" for ws3 u ws4 dt' ws5 reply' s5
  proof -
    from that(1) obtain k where "runs (rDel rdb (keyPrefix @ tok)) ws3 k ws4"
      by (auto simp: session_Delete_def runs_bind runs_ret)
    from runs_rDel [OF assms(1) this] that(2) have "view (snd ws5) (keyPrefix @ tok) = None"
      by (simp add: elapse_def)
    with session_Load_answered [of rdb view tok ws5 reply' s5 jc] assms(1) that(3) show ?thesis by simp
  qed
  ultimately show ?thesis by blast
qed

definition demo_session :: Data where
  "demo_session = \<lparr>sd_UserID = ''u'', sd_Role = RoleCashier, sd_Name = ''n'', sd_PlantID = ''uuuuuuu'', sd_ShiftID = ''uuu'',
     sd_PumpID = '''', sd_Phone = '''', sd_CanEditPrice = True, sd_CanManageStaff = False, sd_CanManagePumps = False,
     sd_CreatedAt = 0\<rparr>"

theorem session_roundtrip_witness:
  "\<exists>tok w m d. runs (session_Create memory_redis demo_codec demo_session OwnerTTL) (demo_world (demo_db []), Map.empty) tok (w, m) \<and>
     session_Load memory_redis demo_codec tok (w, m) = (Inr d, (w, m)) \<and> sd_Role d = RoleCashier \<and> sd_CanEditPrice d"
proof -
  let ?ws = "(demo_world (demo_db []), Map.empty)"
  have "\<exists>tok w b. session_Create memory_redis demo_codec demo_session OwnerTTL ?ws = (Inr tok, w, [keyPrefix @ tok \<mapsto> (b, Some OwnerTTL)])"
    by (simp add: session_Create_def redis_evals newToken_def rand_bytes_def time_Now_def Let_def demo_codec_def) blast
  then obtain tok w b where 1: "runs (session_Create memory_redis demo_codec demo_session OwnerTTL) ?ws tok
      (w, [keyPrefix @ tok \<mapsto> (b, Some OwnerTTL)])"
    by (auto simp: runs_def)
  let ?m = "[keyPrefix @ tok \<mapsto> (b, Some OwnerTTL)]"
  have "?m = elapse 0 ?m" by (auto simp: elapse_def OwnerTTL_def Hour_def Minute_def Second_def)
  then have el: "snd (w, ?m) = elapse 0 (snd (w, ?m))" unfolding snd_conv .
  have texts: "utf8_texts demo_session"
    by (simp add: utf8_texts_def demo_session_def rune_width_def rune_len_def byte_def RoleCashier_def)
  have get: "memory_redis (GET (keyPrefix @ tok)) (snd (w, ?m)) = (Inr (RStr b), ?m)" by (simp add: memory_redis_def)
  from session_roundtrip [OF memory_redis_ok demo_codec_ok texts 1 el get]
  obtain n where "session_Load memory_redis demo_codec tok (w, ?m) =
      (if 0 < OwnerTTL then Inr (demo_session\<lparr>sd_CreatedAt := e_wall (w_env (fst ?ws)) n\<rparr>) else Inl session_ErrNotFound, (w, ?m))"
    unfolding fst_conv by blast
  then have "session_Load memory_redis demo_codec tok (w, ?m) =
      (Inr (demo_session\<lparr>sd_CreatedAt := e_wall (w_env (fst ?ws)) n\<rparr>), (w, ?m))"
    by (simp add: OwnerTTL_def Hour_def Minute_def Second_def)
  with 1 show ?thesis
    by (intro exI [of _ tok] exI [of _ w] exI [of _ ?m] exI [of _ "demo_session\<lparr>sd_CreatedAt := e_wall (w_env (fst ?ws)) n\<rparr>"])
      (simp add: demo_session_def)
qed

text \<open>
  C22: A password-reset token names the user it was issued for, is good for one hour, and is
  spent by the reset that consumes it.
\<close>

theorem reset_token_once:
  assumes "redis_ok rdb view" "uuid_ok (w_env (fst ws))" "runs (IssueToken rdb u) ws tok ws1"
    and "view (snd ws2) = elapse dt (view (snd ws1))" "w_env (fst ws2) = w_env (fst ws)"
    and "runs (Consume rdb tok) ws2 u' ws3"
  shows "u' = u \<and> dt < reset_TTL \<and>
    (\<nexists>x ws4. runs (Consume rdb tok) ws3 x ws4) \<and> (\<nexists>x ws4. runs (Peek rdb tok) ws3 x ws4)"
proof -
  from runs_IssueToken [OF assms(1,3)]
  have 1: "view (snd ws1) (reset_keyPrefix @ tok) = Some (e_uuid_str (w_env (fst ws)) u, Some reset_TTL)" by simp
  from runs_Consume [OF assms(1,6)] obtain b r where 2: "view (snd ws2) (reset_keyPrefix @ tok) = Some (b, r)"
    "e_uuid_parse (w_env (fst ws)) b = Some u'" "view (snd ws3) (reset_keyPrefix @ tok) = None"
    by (auto simp: assms(5))
  with 1 assms(4) have "dt < reset_TTL" "b = e_uuid_str (w_env (fst ws)) u"
    by (auto simp: elapse_def split: if_splits)
  with 2 assms(2) have "u' = u" "dt < reset_TTL" by (auto simp: uuid_ok_def)
  moreover have "\<not> runs (Consume rdb tok) ws3 x ws4" "\<not> runs (Peek rdb tok) ws3 x ws4" for x ws4
    using runs_Consume [OF assms(1), of tok ws3 x ws4] runs_Peek [OF assms(1), of tok ws3 x ws4] 2(3) by auto
  ultimately show ?thesis by blast
qed

theorem reset_token_once_witness:
  "\<exists>tok ws1 ws2. runs (IssueToken memory_redis 20) (demo_world (demo_db []), Map.empty) tok ws1 \<and>
     runs (Consume memory_redis tok) ws1 20 ws2 \<and> \<not> runs (Peek memory_redis tok) ws2 20 ws2"
proof -
  let ?ws = "(demo_world (demo_db []), Map.empty)"
  have "\<exists>tok w. IssueToken memory_redis 20 ?ws = (Inr tok, w, [reset_keyPrefix @ tok \<mapsto> (replicate 20 (CHR ''u''), Some reset_TTL)]) \<and>
      w_env w = demo_env"
    by (simp add: IssueToken_def redis_evals rand_bytes_def Let_def)
  then obtain tok w where 1: "runs (IssueToken memory_redis 20) ?ws tok (w, [reset_keyPrefix @ tok \<mapsto> (replicate 20 (CHR ''u''), Some reset_TTL)])"
    "w_env w = demo_env"
    by (auto simp: runs_def)
  let ?m = "[reset_keyPrefix @ tok \<mapsto> (replicate 20 (CHR ''u''), Some reset_TTL)]"
  have el: "elapse 0 ?m = ?m" by (auto simp: elapse_def reset_TTL_def Hour_def Minute_def Second_def)
  have "\<exists>x. Consume memory_redis tok (w, ?m) = (Inr x, w, Map.empty)"
    by (simp add: Consume_def redis_evals parse_user_def 1(2) fun_eq_iff)
  then obtain x where 2: "runs (Consume memory_redis tok) (w, ?m) x (w, Map.empty)" by (auto simp: runs_def)
  have "uuid_ok demo_env" by (simp add: uuid_ok_def)
  with reset_token_once [OF memory_redis_ok _ 1(1) _ _ 2, of 0] el 1(2) have "x = 20"
    "\<not> runs (Peek memory_redis tok) (w, Map.empty) 20 (w, Map.empty)" by auto
  with 1(1) 2 show ?thesis by blast
qed

end
