(* ===== verification/PaymentSpec.thy ===== *)
theory PaymentSpec
  imports AccessSpec
begin

text \<open>
  When a ticket is paid: what the payment callback and the payment service's webhook need before
  they write anything, and what is asked of the service in the first place.
\<close>

section \<open>Confirmation\<close>

lemma same_db_in_tenant:
  assumes "\<And>w1 a w2. w_role w1 = AppRole (Some p) \<Longrightarrow> w_db w1 = w_db (fst ws) \<Longrightarrow> runs m w1 a w2 \<Longrightarrow> w_db w2 = w_db w1"
  shows "same_db (in_tenant p m) ws"
proof -
  obtain r w' where run: "WithTenant p m (fst ws) = (r, w')" by fastforce
  then have "w_db w' = w_db (fst ws)"
  proof (cases rule: WithTenant_cases)
    case (committed a w1 w2)
    with assms [of w1 a w2] show ?thesis by (simp add: runs_def)
  qed
  with run show ?thesis by (simp add: same_db_def in_tenant_def attempt_def db_act_def)
qed

lemma same_db_Verify [same_db_rules]: "same_db (db_act (Verify c ref)) ws"
  by (simp add: same_db_def db_act_def Verify_def paystack_do_def Let_def case_prod_unfold split: sum.splits)

lemma same_db_lookup [same_db_rules]: "same_db (db_act (on_admin_pool (LookupPlantByReference ref))) ws"
  unfolding LookupPlantByReference_def by (rule same_db_query)

lemma same_db_sum:
  "(\<And>e. x = Inl e \<Longrightarrow> same_db (f e) ws) \<Longrightarrow> (\<And>a. x = Inr a \<Longrightarrow> same_db (g a) ws) \<Longrightarrow>
    same_db (case x of Inl e \<Rightarrow> f e | Inr a \<Rightarrow> g a) ws"
  by (cases x) auto

text \<open>What Paystack answered when it was asked about the reference.\<close>

definition verified_as :: "'s server \<Rightarrow> string \<Rightarrow> VerifyResult \<Rightarrow> bool" where
  "verified_as sv ref v \<longleftrightarrow> (\<exists>w w'. runs (Verify (sv_Paystack sv) ref) w v w')"

lemma callback_unconfirmed:
  assumes "w_role w = AppRole (Some p)" "runs (callback_tx p ref res) w x w'"
    and "\<And>v t. res = Inr v \<Longrightarrow> t \<in> set (db_tickets (w_db w)) \<Longrightarrow> tk_PlantID t = p \<Longrightarrow> tk_Reference t = ref \<Longrightarrow>
      \<not> payment_confirmed v (tk_Amount t)"
  shows "w_db w' = w_db w"
proof -
  from assms(2) obtain t where t: "first_row (\<lambda>t. tk_PlantID t = p \<and> tk_Reference t = ref)
      (db_tickets (visible_db (w_role w) (w_db w))) = Some t"
    and k: "runs (let amountLabel = formatNaira (tk_Amount t); sizeLabel = formatKg (tk_SizeGrams t);
         unconfirmed = ret (False, tk_Code t, amountLabel, sizeLabel, '''')
     in case res of
          Inl e \<Rightarrow> unconfirmed
        | Inr verify \<Rightarrow>
          if \<not> payment_confirmed verify (tk_Amount t) then unconfirmed
          else
            bind (MarkPaid p (tk_ID t)) (\<lambda>ok.
            if \<not> ok then unconfirmed
            else
              bind (attempt (AssignLeastBusy p (tk_ID t))) (\<lambda>assigned.
              let pumpLabel = (case assigned of Inl e \<Rightarrow> '''' | Inr p \<Rightarrow> pm_Name p) in
              bind (Log (Some p) None ''ticket.paid'' ref [(''via'', DStr ''callback'')]) (\<lambda>_.
              ret (True, tk_Code t, amountLabel, sizeLabel, pumpLabel))))) (stepped w (w_db w)) x w'"
    unfolding callback_tx_def runs_bind runs_query_row by (auto simp del: first_row_filter visible_db_app)
  from first_row_SomeD [OF t] have "t \<in> set (db_tickets (w_db w))" "tk_PlantID t = p" "tk_Reference t = ref"
    by (auto simp: assms(1))
  with assms(3) have "\<not> payment_confirmed v (tk_Amount t)" if "res = Inr v" for v using that by blast
  with k show ?thesis by (cases res) (auto simp: Let_def runs_ret)
qed

lemma webhook_unconfirmed:
  assumes "w_role w = AppRole (Some p)" "runs (webhook_tx p i ref v) w x w'"
    and "\<And>t. t \<in> set (db_tickets (w_db w)) \<Longrightarrow> tk_PlantID t = p \<Longrightarrow> tk_ID t = i \<Longrightarrow> \<not> payment_confirmed v (tk_Amount t)"
  shows "w_db w' = w_db w"
proof -
  from assms(2) obtain t where t: "first_row (\<lambda>t. tk_ID t = i \<and> tk_PlantID t = p)
      (db_tickets (visible_db (w_role w) (w_db w))) = Some t"
    and k: "runs (if \<not> payment_confirmed v (tk_Amount t) then ret ()
     else
       bind (MarkPaid p i) (\<lambda>ok.
       if \<not> ok then ret ()
       else
         bind (attempt (AssignLeastBusy p i)) (\<lambda>_.
         Log (Some p) None ''ticket.paid'' ref
           [(''via'', DStr ''webhook''), (''gateway_response'', DStr (vr_GatewayResponse v))]))) (stepped w (w_db w)) x w'"
    unfolding webhook_tx_def runs_bind runs_query_row by (auto simp del: first_row_filter visible_db_app)
  from first_row_SomeD [OF t] have "t \<in> set (db_tickets (w_db w))" "tk_PlantID t = p" "tk_ID t = i"
    by (auto simp: assms(1))
  with assms(3) have "\<not> payment_confirmed v (tk_Amount t)" by blast
  with k show ?thesis by (auto simp: runs_ret)
qed

lemma runs_verified: "runs (attempt (db_act (Verify (sv_Paystack sv) ref))) ws (Inr v) ws1 \<Longrightarrow> verified_as sv ref v"
  unfolding runs_attempt runs_db_act verified_as_def by blast

lemma runs_lookup:
  assumes "runs (attempt (db_act (on_admin_pool (LookupPlantByReference ref)))) ws (Inr (p, i)) ws1"
  shows "\<exists>t \<in> set (db_tickets (w_db (fst ws))). tk_Reference t = ref \<and> tk_PlantID t = p \<and> tk_ID t = i"
proof -
  have "runs (db_act (on_admin_pool (LookupPlantByReference ref))) ws (p, i) ws1" using assms by (simp add: runs_attempt)
  then obtain w2 where "runs (LookupPlantByReference ref) (in_tx AdminRole (fst ws)) (p, i) w2"
    by (auto simp: runs_def db_act_def on_admin_pool_def split: prod.splits)
  then obtain t where "first_row (\<lambda>t. tk_Reference t = ref) (db_tickets (w_db (fst ws))) = Some t"
    "tk_PlantID t = p" "tk_ID t = i"
    by (auto simp: LookupPlantByReference_def runs_query_row in_tx_def)
  then show ?thesis by (auto dest: first_row_SomeD)
qed

lemma same_db_callback:
  fixes sv :: "'s server"
  assumes no: "\<And>t v. t \<in> set (db_tickets (w_db (fst ws))) \<Longrightarrow> tk_PlantID t = pl_ID plant \<Longrightarrow>
      tk_Reference t = hr_URLParam r ''reference'' \<Longrightarrow> verified_as sv (tk_Reference t) v \<Longrightarrow> \<not> payment_confirmed v (tk_Amount t)"
  shows "same_db (ticketCallbackHandler sv (Some plant) r) ws"
proof -
  let ?ref = "hr_URLParam r ''reference''"
  have tx: "same_db (in_tenant (pl_ID plant) (callback_tx (pl_ID plant) ?ref res)) ws1"
    if "runs (attempt (db_act (Verify (sv_Paystack sv) ?ref))) ws res ws1" "w_db (fst ws1) = w_db (fst ws)" for res ws1
  proof (rule same_db_in_tenant)
    fix w1 a w2 assume w: "w_role w1 = AppRole (Some (pl_ID plant))" "w_db w1 = w_db (fst ws1)"
      "runs (callback_tx (pl_ID plant) ?ref res) w1 a w2"
    show "w_db w2 = w_db w1"
    proof (rule callback_unconfirmed [OF w(1,3)])
      fix v t assume t: "res = Inr v" "t \<in> set (db_tickets (w_db w1))" "tk_PlantID t = pl_ID plant" "tk_Reference t = ?ref"
      with that(1) have "verified_as sv ?ref v" by (blast intro: runs_verified)
      with no [of t v] t that(2) w(2) show "\<not> payment_confirmed v (tk_Amount t)" by simp
    qed
  qed
  show ?thesis
    unfolding ticketCallbackHandler_def option.case Let_def
    by (intro same_db_bind [OF same_db_attempt [OF same_db_Verify]] same_db_bind [OF tx] same_db_sum)
      (auto intro: same_db_ret split: prod.splits)
qed

lemma same_db_webhook_tx:
  assumes "distinct (map tk_ID (db_tickets (w_db (fst ws))))"
    and no: "\<And>t v. t \<in> set (db_tickets (w_db (fst ws))) \<Longrightarrow> tk_Reference t = ref \<Longrightarrow> verified_as sv ref v \<Longrightarrow>
      \<not> payment_confirmed v (tk_Amount t)"
    and "runs (attempt (db_act (on_admin_pool (LookupPlantByReference ref)))) ws (Inr (p, i)) ws1"
    and "runs (attempt (db_act (Verify (sv_Paystack sv) ref))) ws1 (Inr v) ws2" "w_db (fst ws2) = w_db (fst ws)"
  shows "same_db (in_tenant p (webhook_tx p i ref v)) ws2"
proof (rule same_db_in_tenant)
  fix w1 a w2 assume w: "w_role w1 = AppRole (Some p)" "w_db w1 = w_db (fst ws2)" "runs (webhook_tx p i ref v) w1 a w2"
  obtain u where u: "u \<in> set (db_tickets (w_db (fst ws)))" "tk_Reference u = ref" "tk_ID u = i"
    using runs_lookup [OF assms(3)] by blast
  show "w_db w2 = w_db w1"
  proof (rule webhook_unconfirmed [OF w(1,3)])
    fix t assume t: "t \<in> set (db_tickets (w_db w1))" "tk_ID t = i"
    then have "t = u" using assms(1) u w(2) assms(5) by (auto dest: distinct_map_eqD)
    with no [OF u(1,2) runs_verified [OF assms(4)]] show "\<not> payment_confirmed v (tk_Amount t)" by simp
  qed
qed

lemma same_db_webhook:
  fixes sv :: "'s server"
  assumes "distinct (map tk_ID (db_tickets (w_db (fst ws))))"
    and no: "\<And>body ev t v. hr_body r = Some body \<Longrightarrow>
      VerifyWebhookSignature (sv_Paystack sv) (take 1048576 body) (hr_Header r ''X-Paystack-Signature'') \<Longrightarrow>
      pc_DecodeEvent (sv_Paystack sv) (take 1048576 body) = Some ev \<Longrightarrow> we_Event ev = ''charge.success'' \<Longrightarrow>
      t \<in> set (db_tickets (w_db (fst ws))) \<Longrightarrow> tk_Reference t = we_Reference ev \<Longrightarrow> verified_as sv (we_Reference ev) v \<Longrightarrow>
      \<not> payment_confirmed v (tk_Amount t)"
  shows "same_db (paystackWebhookHandler sv r) ws"
proof (cases "\<exists>body ev. hr_body r = Some body \<and>
    VerifyWebhookSignature (sv_Paystack sv) (take 1048576 body) (hr_Header r ''X-Paystack-Signature'') \<and>
    pc_DecodeEvent (sv_Paystack sv) (take 1048576 body) = Some ev \<and> we_Event ev = ''charge.success''")
  case False
  then show ?thesis
    by (auto simp: paystackWebhookHandler_def Let_def intro: same_db_ret split: option.splits)
next
  case True
  then obtain body ev where 1: "hr_body r = Some body"
    "VerifyWebhookSignature (sv_Paystack sv) (take 1048576 body) (hr_Header r ''X-Paystack-Signature'')"
    "pc_DecodeEvent (sv_Paystack sv) (take 1048576 body) = Some ev" "we_Event ev = ''charge.success''" by blast
  note tx = same_db_webhook_tx [OF assms(1) no [OF 1]]
  show ?thesis
    unfolding paystackWebhookHandler_def 1 option.case Let_def
    by (intro same_db_cases same_db_ret same_db_bind [OF same_db_attempt [OF same_db_lookup]] same_db_sum)
      (auto intro!: same_db_ret same_db_bind same_db_attempt same_db_Verify same_db_sum tx split: prod.splits)
qed

text \<open>
  C15: Nothing is written for a payment that the payment service does not confirm. The callback
  page changes the database only if the service, asked about the reference, reports success for
  the ticket of that reference at that plant with exactly its amount in naira; the webhook only
  for a charge event whose body carries the service's signature, and after asking likewise.
\<close>

theorem payment_needs_confirmation:
  fixes sv :: "'s server"
  assumes "distinct (map tk_ID (db_tickets (w_db (fst ws))))"
  shows "(w_db (fst (snd (ticketCallbackHandler sv (Some plant) r ws))) = w_db (fst ws) \<or>
      (\<exists>t v. t \<in> set (db_tickets (w_db (fst ws))) \<and> tk_PlantID t = pl_ID plant \<and>
         tk_Reference t = hr_URLParam r ''reference'' \<and> verified_as sv (tk_Reference t) v \<and>
         payment_confirmed v (tk_Amount t))) \<and>
    (w_db (fst (snd (paystackWebhookHandler sv r ws))) = w_db (fst ws) \<or>
      (\<exists>body ev t v. hr_body r = Some body \<and>
         VerifyWebhookSignature (sv_Paystack sv) (take 1048576 body) (hr_Header r ''X-Paystack-Signature'') \<and>
         pc_DecodeEvent (sv_Paystack sv) (take 1048576 body) = Some ev \<and> we_Event ev = ''charge.success'' \<and>
         t \<in> set (db_tickets (w_db (fst ws))) \<and> tk_Reference t = we_Reference ev \<and>
         verified_as sv (we_Reference ev) v \<and> payment_confirmed v (tk_Amount t)))"
  using same_db_callback [of ws plant r sv] same_db_webhook [OF assms, of r sv]
  unfolding same_db_def by blast

theorem payment_needs_confirmation_witness:
  "w_db (fst (snd (paystackWebhookHandler demo_server (demo_request ''POST'' ''gatstogo.com'' [])
     (demo_world (demo_db [demo_ticket 60 7 ''c'' Pending]), Map.empty)))) = demo_db [demo_ticket 60 7 ''c'' Pending]"
proof -
  let ?ws = "(demo_world (demo_db [demo_ticket 60 7 ''c'' Pending]), Map.empty)"
  have "distinct (map tk_ID (db_tickets (w_db (fst ?ws))))" by (simp add: demo_db_def)
  from payment_needs_confirmation [OF this, of demo_server demo_shop "demo_request ''POST'' ''gatstogo.com'' []"]
  show ?thesis by (simp add: demo_request_def)
qed

end
