(* ===== verification/ShiftSpec.thy ===== *)
theory ShiftSpec
  imports SystemFixtures
begin

text \<open>
  The day at the plant: shifts, pumps and staff (\<^verbatim>\<open>internal/shifts\<close>, \<^verbatim>\<open>internal/pumps\<close>,
  \<^verbatim>\<open>internal/staff\<close>).
\<close>

section \<open>Shifts\<close>

lemma runs_findOpen:
  assumes "w_role w = AppRole (Some p)"
  shows "runs (findOpen p u) w x w' \<longleftrightarrow>
    ready w \<and> x = map_option shift_view (first_row (open_shift_of p u) (db_shifts (w_db w))) \<and> w' = stepped w (w_db w)"
proof -
  have eq: "(\<lambda>x. sh_PlantID x = p \<and> open_shift_of p u x) = open_shift_of p u"
    by (auto simp: open_shift_of_def)
  have "runs (findOpen p u) w x w' \<longleftrightarrow>
    (\<exists>r w1. runs (attempt (query_row (\<lambda>d. first_row (open_shift_of p u) (db_shifts d)))) w r w1 \<and>
      runs (case r of Inl e \<Rightarrow> if errors_is e ErrNoRows then ret None else fail e | Inr s \<Rightarrow> ret (Some (shift_view s))) w1 x w')"
    by (simp add: findOpen_def runs_bind)
  also have "\<dots> \<longleftrightarrow> ready w \<and> x = map_option shift_view (first_row (open_shift_of p u) (db_shifts (w_db w))) \<and> w' = stepped w (w_db w)"
  proof (cases "first_row (open_shift_of p u) (db_shifts (w_db w))")
    case None
    then show ?thesis
      by (auto simp: runs_def attempt_def query_row_def query_def exec_stmt_def bind_def fail_def ret_def stepped_def
          ready_def assms eq Let_def split: if_splits)
  next
    case (Some s)
    then show ?thesis
      by (auto simp: runs_def attempt_def query_row_def query_def exec_stmt_def bind_def fail_def ret_def stepped_def
          ready_def assms eq Let_def split: if_splits)
  qed
  finally show ?thesis .
qed

lemma runs_StartOrResume:
  assumes "w_role w = AppRole (Some p)"
  shows "runs (StartOrResume p u cash dev pump) w (s, resumed) w' \<longleftrightarrow>
    ready w \<and>
    (case first_row (open_shift_of p u) (db_shifts (w_db w)) of
       Some r \<Rightarrow> s = shift_view r \<and> resumed \<and> w' = stepped w (w_db w)
     | None \<Rightarrow> \<not> resumed \<and> (\<exists>row mov w1. runs (exec_insert shifts_tab (new_shift p u
           (if dev \<noteq> '''' then Some dev else None) cash pump)) (stepped w (w_db w)) row w1 \<and>
         runs (exec_insert cash_tab (movement p (sh_ID row) ''opening_float'' cash None None
           (Some u) (Some ''Shift opening float''))) w1 mov w' \<and> s = shift_view row))"
  by (auto simp: StartOrResume_def runs_bind runs_findOpen [OF assms] runs_ret runs_exec_insert inserted_def
      new_shift_def shift_view_def split: option.splits)

text \<open>
  C5: Opening a shift is idempotent. Someone with an open shift resumes that shift and nothing is
  written; otherwise exactly one open shift is added, with the opening float recorded as a cash
  movement of it. Opening again resumes the same shift, whatever is asked for, and writes nothing.
\<close>

theorem start_or_resume:
  assumes "w_role w = AppRole (Some p)" "runs (StartOrResume p u cash dev pump) w (s, resumed) w'"
  shows "(resumed \<longleftrightarrow> (\<exists>r \<in> set (db_shifts (w_db w)). open_shift_of p u r)) \<and>
    (resumed \<longrightarrow> w_db w' = w_db w) \<and>
    (\<not> resumed \<longrightarrow> (\<exists>row mov. w_db w' = (w_db w)\<lparr>db_shifts := db_shifts (w_db w) @ [row], db_cash := db_cash (w_db w) @ [mov]\<rparr> \<and>
       open_shift_of p u row \<and> sh_ID row = sf_ID s \<and> sh_PumpID row = pump \<and> sh_OpeningCashKobo row = cash \<and>
       cm_ShiftID mov = sf_ID s \<and> cm_AmountKobo mov = cash \<and> cm_Kind mov = ''opening_float'')) \<and>
    (\<forall>cash' dev' pump' s' again w''. runs (StartOrResume p u cash' dev' pump') w' (s', again) w'' \<longrightarrow>
       again \<and> s' = s \<and> w_db w'' = w_db w')"
proof (cases "first_row (open_shift_of p u) (db_shifts (w_db w))")
  case (Some r)
  then have r: "r \<in> set (db_shifts (w_db w))" "open_shift_of p u r" by (auto dest: first_row_SomeD)
  have now: "s = shift_view r" "resumed" "w' = stepped w (w_db w)"
    using assms(2) Some by (auto simp: runs_StartOrResume [OF assms(1)])
  have again: "again \<and> s' = s \<and> w_db w'' = w_db w'"
    if "runs (StartOrResume p u cash' dev' pump') w' (s', again) w''" for cash' dev' pump' s' again w''
    using that Some assms(1) by (simp add: runs_StartOrResume now)
  have "w_db w' = w_db w" by (simp add: now(3))
  with r now(2) again show ?thesis by blast
next
  case None
  then have no: "\<not> (\<exists>r \<in> set (db_shifts (w_db w)). open_shift_of p u r)" by (auto simp: first_row_None)
  from assms(2) None obtain row mov w1 where 1: "\<not> resumed" "s = shift_view row"
    "runs (exec_insert shifts_tab (new_shift p u (if dev \<noteq> '''' then Some dev else None) cash pump)) (stepped w (w_db w)) row w1"
    "runs (exec_insert cash_tab (movement p (sh_ID row) ''opening_float'' cash None None (Some u) (Some ''Shift opening float''))) w1 mov w'"
    by (auto simp: runs_StartOrResume [OF assms(1)])
  have row: "open_shift_of p u row" "sh_PumpID row = pump" "sh_OpeningCashKobo row = cash"
    and w1: "w_db w1 = (w_db w)\<lparr>db_shifts := db_shifts (w_db w) @ [row]\<rparr>" "w_role w1 = AppRole (Some p)"
    using 1(3) assms(1) by (auto simp: runs_exec_insert inserted_def new_shift_def open_shift_of_def)
  have w': "w_db w' = (w_db w)\<lparr>db_shifts := db_shifts (w_db w) @ [row], db_cash := db_cash (w_db w) @ [mov]\<rparr>"
    "w_role w' = AppRole (Some p)" "cm_ShiftID mov = sh_ID row" "cm_AmountKobo mov = cash" "cm_Kind mov = ''opening_float''"
    using 1(4) w1 by (auto simp: runs_exec_insert inserted_def movement_def)
  have "first_row (open_shift_of p u) (db_shifts (w_db w')) = Some row"
    using None row(1) by (simp add: w'(1) first_row_snoc)
  then have "again \<and> s' = s \<and> w_db w'' = w_db w'"
    if "runs (StartOrResume p u cash' dev' pump') w' (s', again) w''" for cash' dev' pump' s' again w''
    using that w'(2) by (simp add: runs_StartOrResume 1(2))
  moreover have "sf_ID s = sh_ID row" by (simp add: 1(2) shift_view_def)
  ultimately show ?thesis
  proof (intro conjI impI, goal_cases)
    case 3
    then show ?case by (intro exI [of _ row] exI [of _ mov]) (use row w' in simp)
  qed (use no 1(1) in blast)+
qed

definition demo_two :: db where
  "demo_two = (demo_db [])\<lparr>db_users := [demo_user 20 7 ''cashier'' ''1'', demo_user 21 7 ''operator'' ''2'']\<rparr>"

lemma demo_two_opens:
  "\<exists>row mov w1 w2. runs (exec_insert shifts_tab (new_shift 7 21 None 5000 None)) (stepped (demo_world demo_two) demo_two) row w1 \<and>
     runs (exec_insert cash_tab (movement 7 (sh_ID row) ''opening_float'' 5000 None None (Some 21) (Some ''Shift opening float''))) w1 mov w2"
  by (simp add: demo_two_def run_evals new_shift_def movement_def)

theorem start_or_resume_witness:
  "\<exists>s w. runs (StartOrResume 7 21 5000 '''' None) (demo_world demo_two) (s, False) w \<and>
     map cm_AmountKobo (db_cash (w_db w)) = [5000]"
proof -
  have none: "first_row (open_shift_of 7 21) (db_shifts demo_two) = None"
    by (simp add: demo_two_def demo_defs first_row_def open_shift_of_def)
  obtain row w2 where run: "runs (StartOrResume 7 21 5000 '''' None) (demo_world demo_two) (shift_view row, False) w2"
    using demo_two_opens by (simp add: runs_StartOrResume none) blast
  from start_or_resume [OF _ run] have "\<exists>m. db_cash (w_db w2) = [m] \<and> cm_AmountKobo m = 5000"
    by (auto simp: demo_two_def demo_db_def)
  with run show ?thesis by fastforce
qed

text \<open>
  C18: A shift is closed once, by the person it belongs to: closing records the counted cash on
  the shift and as a closing movement, and the same shift cannot be closed again.
\<close>

theorem close_once:
  assumes "w_role w = AppRole (Some p)" "runs (Close p i u cash notes) w x w'"
  shows "(\<exists>s \<in> set (db_shifts (w_db w)). sh_ID s = i \<and> open_shift_of p u s) \<and>
    (\<forall>s \<in> set (db_shifts (w_db w')). sh_ID s = i \<and> sh_PlantID s = p \<and> sh_UserID s = u \<longrightarrow> sh_ClosedAt s \<noteq> None) \<and>
    (\<exists>s \<in> set (db_shifts (w_db w')). sh_ID s = i \<and> sh_PlantID s = p \<and> sh_UserID s = u \<and>
       sh_ClosedAt s = Some (w_now w) \<and> sh_ClosingCashKobo s = Some cash) \<and>
    (\<exists>mov. db_cash (w_db w') = db_cash (w_db w) @ [mov] \<and> cm_ShiftID mov = i \<and> cm_Kind mov = ''closing'' \<and>
       cm_AmountKobo mov = cash \<and> cm_CountedKobo mov = Some cash) \<and>
    (\<forall>cash' notes' y w''. \<not> runs (Close p i u cash' notes') w' y w'')"
proof -
  let ?P = "\<lambda>s. sh_ID s = i \<and> sh_PlantID s = p \<and> sh_UserID s = u \<and> sh_ClosedAt s = None"
  let ?f = "\<lambda>s. s\<lparr>sh_ClosedAt := Some (w_now w), sh_ClosingCashKobo := Some cash,
    sh_Notes := shifts_nullIfEmpty notes, sh_UpdatedAt := w_now w\<rparr>"
  have vis: "(\<lambda>s. sh_PlantID s = p \<and> sh_ID s = i \<and> sh_PlantID s = p \<and> sh_UserID s = u \<and> sh_ClosedAt s = None) = ?P"
    by auto
  from assms(2) obtain rs w1 mov where run: "runs (exec_update shifts_tab ?P (\<lambda>now s. s\<lparr>sh_ClosedAt := Some now,
      sh_ClosingCashKobo := Some cash, sh_Notes := shifts_nullIfEmpty notes\<rparr>)) w rs w1" "rs \<noteq> []"
    "runs (exec_insert cash_tab (movement p i ''closing'' cash (Some cash) None (Some u) (Some ''Shift closing count''))) w1 mov w'"
    by (auto simp: Close_def runs_bind runs_if runs_fail runs_ret split: if_splits)
  have 1: "rs \<noteq> []" "rs = map ?f (filter ?P (db_shifts (w_db w)))"
    "w_db w1 = (w_db w)\<lparr>db_shifts := upd_where ?P ?f (db_shifts (w_db w))\<rparr>" "w_role w1 = AppRole (Some p)"
    "runs (exec_insert cash_tab (movement p i ''closing'' cash (Some cash) None (Some u) (Some ''Shift closing count''))) w1 mov w'"
    using run by (simp_all add: runs_exec_update updated_def assms(1) vis)
  from 1(5) have 2: "db_shifts (w_db w') = upd_where ?P ?f (db_shifts (w_db w))"
    "db_cash (w_db w') = db_cash (w_db w) @ [mov]" "w_role w' = AppRole (Some p)"
    and mov: "cm_ShiftID mov = i" "cm_Kind mov = ''closing''" "cm_AmountKobo mov = cash" "cm_CountedKobo mov = Some cash"
    using 1(3,4) by (auto simp: runs_exec_insert inserted_def movement_def)
  from 1(1,2) obtain s where s: "s \<in> set (db_shifts (w_db w))" "?P s"
    by (auto simp: filter_empty_conv)
  have closed: "\<forall>s \<in> set (db_shifts (w_db w')). sh_ID s = i \<and> sh_PlantID s = p \<and> sh_UserID s = u \<longrightarrow> sh_ClosedAt s \<noteq> None"
  proof (intro ballI impI)
    fix s assume "s \<in> set (db_shifts (w_db w'))" and k: "sh_ID s = i \<and> sh_PlantID s = p \<and> sh_UserID s = u"
    then obtain r where "r \<in> set (db_shifts (w_db w))" "s = (if ?P r then ?f r else r)"
      unfolding 2(1) in_set_upd_where by blast
    with k show "sh_ClosedAt s \<noteq> None" by (cases "?P r") auto
  qed
  have "\<not> runs (Close p i u cash' notes') w' y w''" for cash' notes' y w''
  proof
    assume "runs (Close p i u cash' notes') w' y w''"
    then obtain rs2 w2 where "runs (exec_update shifts_tab ?P (\<lambda>now s. s\<lparr>sh_ClosedAt := Some now,
        sh_ClosingCashKobo := Some cash', sh_Notes := shifts_nullIfEmpty notes'\<rparr>)) w' rs2 w2" "rs2 \<noteq> []"
      by (auto simp: Close_def runs_bind runs_if runs_fail runs_ret split: if_splits)
    then have "filter ?P (db_shifts (w_db w')) \<noteq> []" by (auto simp: runs_exec_update 2(3) vis)
    with closed show False by (auto simp: filter_empty_conv)
  qed
  moreover have "?f s \<in> set (db_shifts (w_db w'))" unfolding 2(1) in_set_upd_where using s by force
  then have "\<exists>s \<in> set (db_shifts (w_db w')). sh_ID s = i \<and> sh_PlantID s = p \<and> sh_UserID s = u \<and>
       sh_ClosedAt s = Some (w_now w) \<and> sh_ClosingCashKobo s = Some cash"
    using s(2) by (intro bexI [of _ "?f s"]) simp_all
  ultimately show ?thesis
    using s closed 2(2) mov unfolding open_shift_of_def by blast
qed

theorem close_once_witness:
  "\<exists>w. runs (Close 7 50 20 8000 '''') (demo_world (demo_db [])) () w \<and> map cm_AmountKobo (db_cash (w_db w)) = [8000]"
proof -
  have "\<exists>w. runs (Close 7 50 20 8000 '''') (demo_world (demo_db [])) () w"
    by (simp add: Close_def run_evals movement_def)
  then obtain w where run: "runs (Close 7 50 20 8000 '''') (demo_world (demo_db [])) () w" by blast
  from close_once [OF _ run] have "\<exists>m. db_cash (w_db w) = [m] \<and> cm_AmountKobo m = 8000"
    by (auto simp: demo_db_def)
  with run show ?thesis by fastforce
qed

section \<open>Pumps\<close>

lemma busy_count_tickets: "db_tickets d' = db_tickets d \<Longrightarrow> busy_count d' p = busy_count d p"
  by (simp add: busy_count_def)

lemma busy_count_visible: "pu_PlantID q = p \<Longrightarrow> busy_count (visible_db (AppRole (Some p)) d) q = busy_count d q"
  by (auto simp: busy_count_def count_where_def intro!: arg_cong [of _ _ length] filter_cong)

lemma runs_EnsureDefault:
  assumes "runs (EnsureDefault p) w x w'"
  obtains ps where "w_db w' = (w_db w)\<lparr>db_pumps := ps\<rparr>" "w_role w' = w_role w" "w_env w' = w_env w"
proof -
  let ?mk = "new_pump p ''Pump 1'' ''working'' 1"
  from assms obtain y where "runs (exec_insert_when pumps_tab (\<lambda>v d r. \<forall>q \<in> set (db_pumps v). pu_PlantID q \<noteq> p) ?mk) w y w'"
    by (auto simp: EnsureDefault_def runs_bind runs_ret)
  then have "w' = stepped w ((w_db w)\<lparr>db_pumps := db_pumps (w_db w) @ [inserted pumps_tab ?mk w]\<rparr>) \<or>
      w' = stepped w ((w_db w)\<lparr>db_pumps := db_pumps (w_db w)\<rparr>)"
    unfolding runs_exec_insert_when by (simp split: if_splits)
  then obtain ps where "w' = stepped w ((w_db w)\<lparr>db_pumps := ps\<rparr>)" by blast
  then show thesis by (intro that [of ps]) simp_all
qed

definition unassigned :: "uuid \<Rightarrow> uuid \<Rightarrow> ticket \<Rightarrow> bool" where
  "unassigned p i t \<longleftrightarrow> tk_ID t = i \<and> tk_PlantID t = p \<and> tk_PumpID t = None"

text \<open>The assignment statement in a tenant's transaction.\<close>

lemma runs_assign_stmt:
  assumes "w_role w = AppRole (Some p)" "runs (assign_stmt p i) w r w'"
  shows "w_role w' = AppRole (Some p) \<and>
    (if (\<exists>t \<in> set (db_tickets (w_db w)). unassigned p i t) \<and> candidate p (visible_db (AppRole (Some p)) (w_db w)) \<noteq> None
     then \<exists>c. candidate p (visible_db (AppRole (Some p)) (w_db w)) = Some c \<and> map_option pm_ID r = Some (pu_ID c) \<and>
       w_db w' = (w_db w)\<lparr>db_tickets := upd_where (unassigned p i)
         (\<lambda>t. t\<lparr>tk_PumpID := Some (pu_ID c), tk_UpdatedAt := w_now w\<rparr>) (db_tickets (w_db w))\<rparr>
     else map_option pm_ID r = map_option pu_ID (existing_pump p i (visible_db (AppRole (Some p)) (w_db w))) \<and>
       w_db w' = w_db w)"
proof -
  have free: "(\<lambda>t. visible (w_role w) (Some (tk_PlantID t)) \<and> tk_ID t = i \<and> tk_PlantID t = p \<and> tk_PumpID t = None) = unassigned p i"
    by (auto simp: unassigned_def assms(1))
  let ?v = "visible_db (w_role w) (w_db w)"
  obtain d where d: "w' = stepped w d" "(case candidate p ?v of
      Some c \<Rightarrow>
        if \<exists>t \<in> set (db_tickets (w_db w)). unassigned p i t
        then checked tickets_tab (Some (pump_result ?v c)) ((w_db w)\<lparr>db_tickets := upd_where (unassigned p i)
               (\<lambda>t. t\<lparr>tk_PumpID := Some (pu_ID c), tk_UpdatedAt := w_now w\<rparr>) (db_tickets (w_db w))\<rparr>)
        else Inr (map_option (pump_result ?v) (existing_pump p i ?v), w_db w)
    | None \<Rightarrow> Inr (map_option (pump_result ?v) (existing_pump p i ?v), w_db w)) = Inr (r, d)"
    using assms(2) unfolding assign_stmt_def runs_exec_stmt Let_def free by blast
  have pid: "pm_ID (pump_result v q) = pu_ID q" for v q by (simp add: pump_result_def)
  then have m: "map_option pm_ID (map_option (pump_result v) x) = map_option pu_ID x" for v x by (cases x) auto
  show ?thesis
    using d pid m [of ?v] by (auto simp: assms(1) checked_def split: option.splits if_splits)
qed

lemma existing_pump_ticket:
  assumes "distinct (map tk_ID (db_tickets d))" "t \<in> set (db_tickets d)" "tk_ID t = i" "tk_PlantID t = p"
    and "existing_pump p i (visible_db (AppRole (Some p)) d) = Some q"
  shows "tk_PumpID t = Some (pu_ID q)"
proof -
  from assms(5) obtain u where "first_row (\<lambda>t. tk_ID t = i \<and> tk_PlantID t = p \<and> tk_PumpID t \<noteq> None)
      (db_tickets (visible_db (AppRole (Some p)) d)) = Some u"
    and q: "first_row (\<lambda>p. Some (pu_ID p) = tk_PumpID u \<and> pu_PlantID p = tk_PlantID u)
      (db_pumps (visible_db (AppRole (Some p)) d)) = Some q"
    unfolding existing_pump_def by (auto split: option.splits simp del: first_row_filter visible_db_app)
  from first_row_SomeD [OF this(1)] have u: "u \<in> set (db_tickets d)" "tk_ID u = i" by auto
  with assms(1-3) have "u = t" by (auto dest: distinct_map_eqD)
  with first_row_SomeD [OF q] show ?thesis by auto
qed

lemma runs_AssignLeastBusy:
  assumes "w_role w = AppRole (Some p)" "runs (AssignLeastBusy p i) w pump w'"
  obtains ps w1 where "w_db w1 = (w_db w)\<lparr>db_pumps := ps\<rparr>" "w_role w1 = AppRole (Some p)"
    "runs (assign_stmt p i) w1 (Some pump) w'"
proof -
  from assms(2) obtain x w1 r where 1: "runs (EnsureDefault p) w x w1" "runs (assign_stmt p i) w1 r w'"
    "runs (case r of None \<Rightarrow> fail ErrNoWorkingPump | Some p \<Rightarrow> ret p) w' pump w'"
    by (auto simp: AssignLeastBusy_def runs_bind runs_case_option runs_fail runs_ret)
  then have "r = Some pump" by (cases r) (simp_all add: runs_fail runs_ret)
  with 1 runs_EnsureDefault [OF 1(1)] assms(1) that show thesis by metis
qed

text \<open>
  C17: A ticket that has no pump gets the least busy working pump of its plant - no working pump
  has fewer paid or dispensing tickets; of those with as few it is the first in the order that the
  owner gave them, and of those with the same place the oldest - and keeps it: assigning again
  changes no ticket and names the same pump.
\<close>

theorem assign_least_busy:
  assumes "w_role w = AppRole (Some p)" "distinct (map tk_ID (db_tickets (w_db w)))"
    and "t \<in> set (db_tickets (w_db w))" "unassigned p i t" "runs (AssignLeastBusy p i) w pump w'"
  shows "(\<exists>c \<in> set (db_pumps (w_db w')). pu_PlantID c = p \<and> pu_Status c = ''working'' \<and> pu_ID c = pm_ID pump \<and>
      (\<forall>q \<in> set (db_pumps (w_db w')). pu_PlantID q = p \<and> pu_Status q = ''working'' \<longrightarrow>
         busy_count (w_db w) c < busy_count (w_db w) q \<or>
         busy_count (w_db w) c = busy_count (w_db w) q \<and>
           (pu_SortOrder c < pu_SortOrder q \<or> pu_SortOrder c = pu_SortOrder q \<and> pu_CreatedAt c \<le> pu_CreatedAt q))) \<and>
    (\<exists>t' \<in> set (db_tickets (w_db w')). tk_ID t' = i \<and> tk_PlantID t' = p \<and> tk_PumpID t' = Some (pm_ID pump)) \<and>
    (\<forall>pump2 w2. runs (AssignLeastBusy p i) w' pump2 w2 \<longrightarrow>
       pm_ID pump2 = pm_ID pump \<and> db_tickets (w_db w2) = db_tickets (w_db w'))"
proof -
  let ?V = "visible_db (AppRole (Some p))"
  obtain ps w1 where w1: "w_db w1 = (w_db w)\<lparr>db_pumps := ps\<rparr>" "w_role w1 = AppRole (Some p)"
    and run: "runs (assign_stmt p i) w1 (Some pump) w'"
    by (rule runs_AssignLeastBusy [OF assms(1,5)])
  have t: "\<exists>t \<in> set (db_tickets (w_db w1)). unassigned p i t" using assms(3,4) by (auto simp: w1)
  have "existing_pump p i (?V (w_db w1)) = None"
    using existing_pump_ticket [of "w_db w1" t i p] assms(2-4) by (fastforce simp: w1 unassigned_def)
  with runs_assign_stmt [OF w1(2) run] t obtain c where
    c: "candidate p (?V (w_db w1)) = Some c" "pm_ID pump = pu_ID c" "w_role w' = AppRole (Some p)"
    "w_db w' = (w_db w1)\<lparr>db_tickets := upd_where (unassigned p i)
         (\<lambda>t. t\<lparr>tk_PumpID := Some (pu_ID c), tk_UpdatedAt := w_now w1\<rparr>) (db_tickets (w_db w1))\<rparr>"
    by (auto split: if_splits)
  have cin: "c \<in> set (db_pumps (w_db w'))" "pu_PlantID c = p" "pu_Status c = ''working''"
    using first_by_in [OF c(1) [unfolded candidate_def]] by (auto simp: c(4))
  have least: "busy_count (w_db w) c < busy_count (w_db w) q \<or> busy_count (w_db w) c = busy_count (w_db w) q \<and>
      (pu_SortOrder c < pu_SortOrder q \<or> pu_SortOrder c = pu_SortOrder q \<and> pu_CreatedAt c \<le> pu_CreatedAt q)"
    if "q \<in> set (db_pumps (w_db w'))" "pu_PlantID q = p" "pu_Status q = ''working''" for q
  proof -
    have "(int (busy_count (?V (w_db w1)) c), pu_SortOrder c, pu_CreatedAt c)
        \<le> (int (busy_count (?V (w_db w1)) q), pu_SortOrder q, pu_CreatedAt q)"
      using first_by_least [OF c(1) [unfolded candidate_def], of q] that by (auto simp: c(4))
    then show ?thesis
      using busy_count_visible [of _ p "w_db w1"] busy_count_tickets [of "w_db w1" "w_db w"] cin(2) that(2)
      by (auto simp: w1)
  qed
  let ?g = "\<lambda>t. t\<lparr>tk_PumpID := Some (pu_ID c), tk_UpdatedAt := w_now w1\<rparr>"
  have t': "?g t \<in> set (db_tickets (w_db w'))" "tk_ID t = i" "tk_PlantID t = p"
    using assms(3,4) by (auto simp: c(4) w1(1) in_set_upd_where unassigned_def)
  have none: "\<not> unassigned p i u" if "u \<in> set (db_tickets (w_db w'))" for u
    using that upd_where_done [of "unassigned p i" ?g u] by (simp add: c(4) unassigned_def)
  have "map tk_ID (db_tickets (w_db w')) = map tk_ID (db_tickets (w_db w))"
    by (simp add: c(4) w1(1) map_upd_where)
  with assms(2) have d: "distinct (map tk_ID (db_tickets (w_db w')))" by simp
  have again: "pm_ID pump2 = pm_ID pump \<and> db_tickets (w_db w2) = db_tickets (w_db w')"
    if second: "runs (AssignLeastBusy p i) w' pump2 w2" for pump2 w2
  proof -
    obtain ps' w3 where w3: "w_db w3 = (w_db w')\<lparr>db_pumps := ps'\<rparr>" "w_role w3 = AppRole (Some p)"
      "runs (assign_stmt p i) w3 (Some pump2) w2"
      by (rule runs_AssignLeastBusy [OF c(3) second])
    have "\<not> (\<exists>t \<in> set (db_tickets (w_db w3)). unassigned p i t)" using none by (auto simp: w3(1))
    with runs_assign_stmt [OF w3(2,3)] obtain q where
      q: "existing_pump p i (?V (w_db w3)) = Some q" "pm_ID pump2 = pu_ID q" "w_db w2 = w_db w3"
      by (cases "existing_pump p i (?V (w_db w3))") auto
    have "tk_PumpID (?g t) = Some (pu_ID q)"
      by (rule existing_pump_ticket [OF _ _ _ _ q(1)]) (use d t' in \<open>simp_all add: w3(1)\<close>)
    then show ?thesis using q c(2) by (simp add: w3(1))
  qed
  have "\<exists>t' \<in> set (db_tickets (w_db w')). tk_ID t' = i \<and> tk_PlantID t' = p \<and> tk_PumpID t' = Some (pm_ID pump)"
    using t' c(2) by (intro bexI [of _ "?g t"]) simp_all
  moreover have "\<exists>c \<in> set (db_pumps (w_db w')). pu_PlantID c = p \<and> pu_Status c = ''working'' \<and> pu_ID c = pm_ID pump \<and>
      (\<forall>q \<in> set (db_pumps (w_db w')). pu_PlantID q = p \<and> pu_Status q = ''working'' \<longrightarrow>
         busy_count (w_db w) c < busy_count (w_db w) q \<or>
         busy_count (w_db w) c = busy_count (w_db w) q \<and>
           (pu_SortOrder c < pu_SortOrder q \<or> pu_SortOrder c = pu_SortOrder q \<and> pu_CreatedAt c \<le> pu_CreatedAt q))"
    using cin c(2) least by metis
  ultimately show ?thesis using again by blast
qed

theorem assign_least_busy_witness:
  "\<exists>pump w. runs (AssignLeastBusy 7 60)
     (demo_world (demo_db [demo_ticket 61 7 ''d'' Paid, (demo_ticket 60 7 ''c'' Paid)\<lparr>tk_PumpID := None\<rparr>])) pump w \<and>
     (\<exists>c \<in> set (db_pumps (w_db w)). pu_ID c = pm_ID pump)"
proof -
  let ?d = "demo_db [demo_ticket 61 7 ''d'' Paid, (demo_ticket 60 7 ''c'' Paid)\<lparr>tk_PumpID := None\<rparr>]"
  have "\<exists>pump w. runs (AssignLeastBusy 7 60) (demo_world ?d) pump w"
    by (simp add: AssignLeastBusy_def EnsureDefault_def run_evals new_pump_def assign_stmt_def runs_exec_stmt
        candidate_def first_by_def checked_def pump_result_def Let_def)
  then obtain pump w where run: "runs (AssignLeastBusy 7 60) (demo_world ?d) pump w" by blast
  from assign_least_busy [OF _ _ _ _ run, of "(demo_ticket 60 7 ''c'' Paid)\<lparr>tk_PumpID := None\<rparr>"]
  obtain c where "c \<in> set (db_pumps (w_db w))" "pu_ID c = pm_ID pump"
    by (auto simp: unassigned_def demo_db_def demo_ticket_def)
  with run show ?thesis by blast
qed
end
