(* ===== verification/SalesSpec.thy ===== *)
theory SalesSpec
  imports SystemFixtures
begin

text \<open>
  Selling and paying: the cash sale at the terminal, the payment service's confirmations, and
  who may sell.
\<close>

section \<open>Cash sales\<close>

text \<open>
  The terminal's own weight formula for cash sales and the conversion that online purchases
  use agree on every amount and every price.
\<close>

lemma cash_sale_grams_eq: "cash_sale_grams amountKobo pricePerKg = GramsFromAmount amountKobo pricePerKg"
  using of_int64_exact [of 1000] by (simp add: cash_sale_grams_def GramsFromAmount_def)

text \<open>What the assignment of a pump changes, whatever its outcome.\<close>

definition pump_only :: "uuid \<Rightarrow> ticket \<Rightarrow> ticket \<Rightarrow> bool" where
  "pump_only i t t' \<longleftrightarrow> t' = t \<or> tk_ID t = i \<and> (\<exists>c n. t' = t\<lparr>tk_PumpID := c, tk_UpdatedAt := n\<rparr>)"

definition assigning :: "uuid \<Rightarrow> db \<Rightarrow> db \<Rightarrow> bool" where
  "assigning i d d' \<longleftrightarrow>
     (\<exists>ps ts. d' = d\<lparr>db_pumps := ps, db_tickets := ts\<rparr> \<and> list_all2 (pump_only i) (db_tickets d) ts)"

lemma pump_only_trans:
  assumes "pump_only i a b" "pump_only i b e"
  shows "pump_only i a e"
proof (cases "b = a \<or> e = b")
  case True
  with assms show ?thesis by blast
next
  case False
  with assms obtain c n c' n' where "tk_ID a = i" "b = a\<lparr>tk_PumpID := c, tk_UpdatedAt := n\<rparr>"
    "e = b\<lparr>tk_PumpID := c', tk_UpdatedAt := n'\<rparr>"
    unfolding pump_only_def by blast
  then have "tk_ID a = i \<and> e = a\<lparr>tk_PumpID := c', tk_UpdatedAt := n'\<rparr>" by simp
  then show ?thesis unfolding pump_only_def by blast
qed

lemma pump_only_upd:
  "(\<And>t. P t \<Longrightarrow> tk_ID t = i) \<Longrightarrow>
    list_all2 (pump_only i) ts (upd_where P (\<lambda>t. t\<lparr>tk_PumpID := c, tk_UpdatedAt := n\<rparr>) ts)"
  by (induction ts) (auto simp: pump_only_def)

lemma assigning_pumps: "assigning i d (d\<lparr>db_pumps := ps\<rparr>)"
  unfolding assigning_def
  by (intro exI [of _ ps] exI [of _ "db_tickets d"]) (simp add: list.rel_refl pump_only_def)

interpretation assigning: db_preorder "assigning i" for i
proof
  fix d :: db
  show "assigning i d d" using assigning_pumps [of i d "db_pumps d"] by simp
next
  fix d d' d'' assume "assigning i d d'" "assigning i d' d''"
  then obtain ps ts ps' ts' where d': "d' = d\<lparr>db_pumps := ps, db_tickets := ts\<rparr>"
    and d'': "d'' = d'\<lparr>db_pumps := ps', db_tickets := ts'\<rparr>"
    and l: "list_all2 (pump_only i) (db_tickets d) ts" "list_all2 (pump_only i) (db_tickets d') ts'"
    unfolding assigning_def by blast
  have d: "d'' = d\<lparr>db_pumps := ps', db_tickets := ts'\<rparr>" by (simp add: d' d'')
  have l: "list_all2 (pump_only i) (db_tickets d) ts" "list_all2 (pump_only i) ts ts'"
    using l by (simp_all add: d')
  have "list_all2 (pump_only i) (db_tickets d) ts'"
    by (rule list_all2_trans [OF pump_only_trans l])
  with d show "assigning i d d''" unfolding assigning_def by blast
qed

lemma keeps_assigning:
  "keeps (assigning i) (EnsureDefault p)" "keeps (assigning i) (assign_stmt p i)" "keeps (assigning i) (assign_or_none p i)"
proof -
  have "assigning i (w_db w) d"
    if "(let r = new_pump p ''Pump 1'' ''working'' 1 (w_now w) (e_uuid (w_env w) (w_tick w))
         in if \<not> (\<forall>q \<in> set (db_pumps (visible_db (w_role w) (w_db w))). pu_PlantID q \<noteq> p) then Inr (None, w_db w)
            else if visible (w_role w) (t_plant pumps_tab r)
            then checked pumps_tab (Some r) (t_put pumps_tab (t_rows pumps_tab (w_db w) @ [r]) (w_db w))
            else Inl ''42501'') = Inr (a, d)" for w a d
    using that by (auto simp: Let_def checked_def assigning.refl intro: assigning_pumps split: if_splits option.splits)
  then show e: "keeps (assigning i) (EnsureDefault p)"
    unfolding EnsureDefault_def exec_insert_when_def
    by (intro assigning.keeps_bind assigning.keeps_exec_stmt assigning.keeps_pure) blast
  show s: "keeps (assigning i) (assign_stmt p i)"
    unfolding assign_stmt_def
  proof (rule assigning.keeps_exec_stmt)
    fix w a d
    let ?free = "\<lambda>t. visible (w_role w) (Some (tk_PlantID t)) \<and> tk_ID t = i \<and> tk_PlantID t = p \<and> tk_PumpID t = None"
    have upd: "assigning i (w_db w) ((w_db w)\<lparr>db_tickets := upd_where ?free
        (\<lambda>t. t\<lparr>tk_PumpID := c, tk_UpdatedAt := n\<rparr>) (db_tickets (w_db w))\<rparr>)" for c n
      unfolding assigning_def using pump_only_upd [of ?free i "db_tickets (w_db w)" n c]
      by (intro exI [of _ "db_pumps (w_db w)"] exI conjI [rotated]) auto
    assume "(let d = w_db w; v = visible_db (w_role w) d; free = ?free
     in case candidate p v of
          Some c \<Rightarrow>
            if \<exists>t \<in> set (db_tickets d). free t
            then checked tickets_tab (Some (pump_result v c))
                   (d\<lparr>db_tickets := upd_where free (\<lambda>t. t\<lparr>tk_PumpID := Some (pu_ID c), tk_UpdatedAt := w_now w\<rparr>)
                        (db_tickets d)\<rparr>)
            else Inr (map_option (pump_result v) (existing_pump p i v), d)
        | None \<Rightarrow> Inr (map_option (pump_result v) (existing_pump p i v), d)) = Inr (a, d)"
    then show "assigning i (w_db w) d"
      unfolding Let_def checked_def using upd
      by (cases "candidate p (visible_db (w_role w) (w_db w))")
        (auto simp: assigning.refl simp del: visible_simps split: if_splits option.splits)
  qed
  show "keeps (assigning i) (assign_or_none p i)"
    unfolding assign_or_none_def AssignLeastBusy_def
    by (intro assigning.keeps_bind assigning.keeps_attempt e s)
      (auto simp: assigning.keeps_pure split: sum.splits option.splits)
qed

lemma Purchase_ids:
  assumes "runs (Purchase p) w tk w'"
  shows "distinct (map tk_ID (db_tickets (w_db w')))"
proof -
  from assms obtain ref pa w1 where "runs (purchase_attempts p ref pa maxCodeAttempts) w1 tk w'"
    by (rule runs_Purchase)
  then obtain c row where "runs (exec_insert tickets_tab (purchase_row p ref c pa)) (stepped w1 (w_db w1)) row w'"
    unfolding runs_all_attempts by blast
  then have "tickets_viol (w_db w') = None" by (auto simp: runs_exec_insert)
  then show ?thesis by (simp add: tickets_viol_def no_violation del: first_violation_simps)
qed

lemma pump_only_last:
  assumes "list_all2 (pump_only (tk_ID t)) (ts @ [t]) us" "distinct (map tk_ID (ts @ [t]))"
  shows "\<exists>t'. us = ts @ [t'] \<and> pump_only (tk_ID t) t t'"
proof -
  from assms(1) obtain us1 t' where us: "us = us1 @ [t']" "list_all2 (pump_only (tk_ID t)) ts us1" "pump_only (tk_ID t) t t'"
    by (auto simp: list_all2_append1 list_all2_Cons1)
  have other: "tk_ID z \<noteq> tk_ID t" if "z \<in> set ts" for z
    using assms(2) that by simp (metis imageI)
  have "list_all2 (=) ts us1"
    by (rule list.rel_mono_strong [OF us(2)]) (auto simp: pump_only_def dest: other)
  with us show ?thesis by (simp add: list.rel_eq)
qed

lemma runs_role: "writes_own p m \<Longrightarrow> runs m w a w' \<Longrightarrow> w_role w = AppRole (Some p) \<Longrightarrow> w_role w' = AppRole (Some p)"
  by (metis runs_def snd_conv writes_own_def)

lemma runs_assign_or_none:
  assumes "w_role w = AppRole (Some p)" "runs (assign_or_none p i) w x w'"
  shows "assigning i (w_db w) (w_db w') \<and> w_role w' = AppRole (Some p)"
  using keepsD [OF keeps_assigning(3)] runs_role [OF _ assms(2,1)] assms(2)
  by (auto simp: runs_def intro: tenant_rules)

definition sales :: "uuid \<Rightarrow> uuid \<Rightarrow> db \<Rightarrow> int" where
  "sales p s d = sum_list (map cm_AmountKobo (filter (\<lambda>c. cm_PlantID c = p \<and> cm_ShiftID c = s \<and> cm_Kind c = ''sale'') (db_cash d)))"

lemma runs_shiftCashHeld:
  assumes "w_role w = AppRole (Some p)" "runs (shiftCashHeld p s) w x w'"
  shows "x = sales p s (w_db w) \<and> w_db w' = w_db w"
  using assms by (auto simp: shiftCashHeld_def Summary_def runs_bind runs_query runs_ret sales_def Let_def)

lemma runs_StatusNow: "runs (StatusNow L p tz) w x w' \<Longrightarrow> w_db w' = w_db w \<and> w_role w' = w_role w"
  by (auto simp: StatusNow_def runs_bind runs_time_Now runs_query Let_def)

lemma runs_Log:
  "runs (Log q u act sub det) w x w' \<Longrightarrow>
    db_tickets (w_db w') = db_tickets (w_db w) \<and> db_cash (w_db w') = db_cash (w_db w) \<and> w_role w' = w_role w \<and>
    (\<exists>e. db_log (w_db w') = db_log (w_db w) @ [e] \<and> al_PlantID e = q \<and> al_ActorID e = u \<and> al_Action e = act \<and>
       al_Subject e = Some sub \<and> al_Detail e = det)"
  by (auto simp: Log_def runs_bind runs_exec_insert runs_ret inserted_def)

text \<open>
  C16: A cash sale is accounted for: it adds exactly one paid ticket of the stated amount, sized
  at a price of the plant and sold by that member of staff in that shift, one cash movement
  of the same amount for that ticket, and one line of the activity log that names the seller, the
  ticket and the amount; the cash that the terminal shows is what the shift held before and this
  amount.
\<close>

theorem cash_sale_accounted:
  assumes "w_role w = AppRole (Some (pl_ID plant))" "runs (cashSale_tx L plant u s a ph) w res w'"
  shows "\<exists>t mov e. db_tickets (w_db w') = db_tickets (w_db w) @ [t] \<and>
    tk_ID t = Ticket_ID (ca_Ticket res) \<and> tk_PlantID t = pl_ID plant \<and> tk_Status t = Paid \<and> tk_Amount t = a \<and>
    tk_SizeGrams t = GramsFromAmount a (ca_PricePerKg res) \<and> tk_SoldBy t = Some u \<and> tk_ShiftID t = Some s \<and>
    (\<exists>r \<in> set (db_prices (w_db w)). pr_PlantID r = pl_ID plant \<and> pr_PricePerKg r = ca_PricePerKg res) \<and>
    db_cash (w_db w') = db_cash (w_db w) @ [mov] \<and> cm_Kind mov = ''sale'' \<and> cm_ShiftID mov = s \<and>
    cm_AmountKobo mov = a \<and> cm_TicketID mov = Some (tk_ID t) \<and>
    db_log (w_db w') = db_log (w_db w) @ [e] \<and> al_PlantID e = Some (pl_ID plant) \<and> al_ActorID e = Some u \<and>
    al_Action e = ''ticket.cash_sale'' \<and> al_Subject e = Some (Ticket_Reference (ca_Ticket res)) \<and>
    map_of (al_Detail e) ''amount_kobo'' = Some (DInt a) \<and>
    map_of (al_Detail e) ''size_grams'' = Some (DInt (tk_SizeGrams t)) \<and>
    ca_CashHeld res = sales (pl_ID plant) s (w_db w) + a"
proof -
  let ?p = "pl_ID plant"
  from assms(2) obtain st w1 k q w2 t0 w3 pump w4 mov w5 x w6 held where
    1: "runs (StatusNow L ?p (pl_Timezone plant)) w st w1" "runs (loadCurrentPrice ?p) w1 (q, k) w2"
    "runs (CreatePaidCash \<lparr>pp_PlantID = ?p, pp_PlantSlug = pl_Slug plant, pp_PriceID = q, pp_RatePerKgKobo = k,
       pp_AmountKobo = a, pp_SizeGrams = cash_sale_grams a k, pp_Channel = '''', pp_CustomerName = '''',
       pp_CustomerPhone = ph, pp_Paid = False, pp_SoldBy = None, pp_ShiftID = None\<rparr> u s) w2 t0 w3"
    "runs (assign_or_none ?p (Ticket_ID t0)) w3 pump w4"
    "runs (exec_insert cash_tab (movement ?p s ''sale'' a None (Some (Ticket_ID t0)) (Some u) (Some ''Cash sale at terminal''))) w4 mov w5"
    "runs (Log (Some ?p) (Some u) ''ticket.cash_sale'' (Ticket_Reference t0)
       [(''amount_kobo'', DInt a), (''size_grams'', DInt (cash_sale_grams a k)), (''pump'', DStr pump)]) w5 x w6"
    "runs (shiftCashHeld ?p s) w6 held w'"
    "res = \<lparr>ca_Ticket = t0, ca_SizeGrams = cash_sale_grams a k, ca_PricePerKg = k, ca_PumpName = pump, ca_CashHeld = held\<rparr>"
    unfolding cashSale_tx_def Let_def
    by (auto simp: runs_bind runs_if runs_fail runs_ret split: prod.splits if_splits)
  have w1: "w_db w1 = w_db w" "w_role w1 = AppRole (Some ?p)" using runs_StatusNow [OF 1(1)] assms(1) by simp_all
  have w2: "w_db w2 = w_db w" "w_role w2 = AppRole (Some ?p)"
    and price: "\<exists>r \<in> set (db_prices (w_db w)). pr_PlantID r = ?p \<and> pr_PricePerKg r = k"
    using 1(2) w1 by (auto simp: loadCurrentPrice_def runs_query_row dest!: first_by_in)
  obtain t where t: "w_db w3 = (w_db w)\<lparr>db_tickets := db_tickets (w_db w) @ [t]\<rparr>" "Ticket_ID t0 = tk_ID t"
    "tk_PlantID t = ?p" "tk_SizeGrams t = cash_sale_grams a k" "tk_Amount t = a" "tk_SoldBy t = Some u"
    "tk_ShiftID t = Some s" "tk_Status t = Paid"
    using Purchase_effect [OF 1(3) [unfolded CreatePaidCash_def] w2(2)] by (auto simp: w2(1))
  have w3: "w_role w3 = AppRole (Some ?p)" "distinct (map tk_ID (db_tickets (w_db w) @ [t]))"
    using runs_role [OF _ 1(3) w2(2)] Purchase_ids [OF 1(3) [unfolded CreatePaidCash_def]]
    by (auto intro: tenant_rules simp: t(1))
  obtain ps ts where 4: "w_db w4 = (w_db w3)\<lparr>db_pumps := ps, db_tickets := ts\<rparr>" "w_role w4 = AppRole (Some ?p)"
    "list_all2 (pump_only (tk_ID t)) (db_tickets (w_db w) @ [t]) ts"
    using runs_assign_or_none [OF w3(1) 1(4)] by (auto simp: assigning_def t)
  obtain t' where t': "ts = db_tickets (w_db w) @ [t']" "pump_only (tk_ID t) t t'"
    using pump_only_last [OF 4(3) w3(2)] by blast
  have mov: "cm_PlantID mov = ?p" "cm_Kind mov = ''sale''" "cm_ShiftID mov = s" "cm_AmountKobo mov = a" "cm_TicketID mov = Some (tk_ID t)"
    and w5: "db_tickets (w_db w5) = db_tickets (w_db w) @ [t']" "db_cash (w_db w5) = db_cash (w_db w) @ [mov]" "w_role w5 = AppRole (Some ?p)"
    and log5: "db_log (w_db w5) = db_log (w_db w)"
    using 1(5) by (auto simp: runs_exec_insert inserted_def movement_def 4(1,2) t(1,2) t'(1))
  have w': "db_tickets (w_db w') = db_tickets (w_db w) @ [t']" "db_cash (w_db w') = db_cash (w_db w) @ [mov]"
    "held = sales ?p s (w_db w) + a"
    using runs_Log [OF 1(6)] w5 runs_shiftCashHeld [OF _ 1(7)] mov by (auto simp: sales_def)
  obtain e where e: "db_log (w_db w') = db_log (w_db w) @ [e]" "al_PlantID e = Some ?p" "al_ActorID e = Some u"
    "al_Action e = ''ticket.cash_sale''" "al_Subject e = Some (Ticket_Reference t0)"
    "al_Detail e = [(''amount_kobo'', DInt a), (''size_grams'', DInt (cash_sale_grams a k)), (''pump'', DStr pump)]"
    using runs_Log [OF 1(6)] runs_shiftCashHeld [OF _ 1(7)] w5(3) log5 by auto
  have "tk_ID t' = tk_ID t" "tk_PlantID t' = tk_PlantID t" "tk_SizeGrams t' = tk_SizeGrams t" "tk_Amount t' = tk_Amount t"
    "tk_SoldBy t' = tk_SoldBy t" "tk_ShiftID t' = tk_ShiftID t" "tk_Status t' = tk_Status t"
    using t'(2) by (auto simp: pump_only_def)
  then show ?thesis
    using w' t mov e price of_int64_exact [of 1000]
    by (intro exI [of _ t'] exI [of _ mov] exI [of _ e]) (simp add: 1(8) cash_sale_grams_def GramsFromAmount_def)
qed


text \<open>The sale evaluated, statement by statement.\<close>

definition calm_at :: "world \<Rightarrow> db \<Rightarrow> bool" where
  "calm_at w d \<longleftrightarrow> w_db w = d \<and> w_env w = demo_env \<and> w_role w = AppRole (Some 7) \<and> \<not> w_aborted w"

definition demo_cash :: PurchaseParams where
  "demo_cash = \<lparr>pp_PlantID = 7, pp_PlantSlug = ''a'', pp_PriceID = 30, pp_RatePerKgKobo = 120000,
     pp_AmountKobo = 1500000, pp_SizeGrams = 12500, pp_Channel = '''', pp_CustomerName = '''',
     pp_CustomerPhone = ''080'', pp_Paid = False, pp_SoldBy = None, pp_ShiftID = None\<rparr>"

definition demo_sold :: "string \<Rightarrow> string \<Rightarrow> time \<Rightarrow> time \<Rightarrow> uuid \<Rightarrow> ticket" where
  "demo_sold r c n m i = purchase_row (demo_cash\<lparr>pp_Channel := ''cash'', pp_Paid := True, pp_SoldBy := Some 20,
     pp_ShiftID := Some 50\<rparr>) r c (Some n) m i"

lemmas sold_evals = calm_at_def run_evals demo_sold_def demo_cash_def purchase_row_def nullIfEmpty_def

lemma demo_pay_runs:
  "\<exists>t0 w r c n m. runs (CreatePaidCash demo_cash 20 50) demo_open t0 w \<and> calm_at w (demo_db [demo_sold r c n m (Ticket_ID t0)])"
  by (simp add: demo_open_def CreatePaidCash_def Purchase_def runs_NewReference runs_all_attempts runs_NewCode sold_evals
      cong: if_cong)

lemma demo_assign_runs:
  "calm_at w (demo_db [demo_sold r c n m i]) \<Longrightarrow>
     \<exists>pump w'. runs (AssignLeastBusy 7 i) w pump w' \<and>
       calm_at w' (demo_db [(demo_sold r c n m i)\<lparr>tk_PumpID := Some 40, tk_UpdatedAt := w_now w\<rparr>])"
  by (simp add: AssignLeastBusy_def EnsureDefault_def new_pump_def assign_stmt_def runs_exec_stmt
      candidate_def first_by_def checked_def pump_result_def busy_count_def sold_evals Let_def)

lemma demo_movement_runs:
  "calm_at w (demo_db [(demo_sold r c n m i)\<lparr>tk_PumpID := Some 40, tk_UpdatedAt := k\<rparr>]) \<Longrightarrow>
     \<exists>mov w'. runs (exec_insert cash_tab (movement 7 50 ''sale'' 1500000 None (Some i) (Some 20) (Some ''Cash sale at terminal''))) w mov w' \<and>
       calm_at w' ((demo_db [(demo_sold r c n m i)\<lparr>tk_PumpID := Some 40, tk_UpdatedAt := k\<rparr>])\<lparr>db_cash := [mov]\<rparr>)"
  by (simp add: movement_def sold_evals)

lemma demo_sale_logged:
  "calm_at w ((demo_db [t])\<lparr>db_cash := [mov]\<rparr>) \<Longrightarrow>
     \<exists>w' held w''. runs (Log (Some 7) (Some 20) ''ticket.cash_sale'' ref ds) w () w' \<and> runs (shiftCashHeld 7 50) w' held w''"
  by (simp add: Log_def shiftCashHeld_def Summary_def sold_evals Let_def)

lemma demo_cash_runs: "\<exists>res w. runs (cashSale_tx (\<lambda>_. None) demo_shop 20 50 1500000 ''080'') (demo_tx (demo_db [])) res w"
proof -
  obtain t0 w3 r c n m where 3: "runs (CreatePaidCash demo_cash 20 50) demo_open t0 w3"
    "calm_at w3 (demo_db [demo_sold r c n m (Ticket_ID t0)])"
    using demo_pay_runs by blast
  obtain pump w4 where 4: "runs (AssignLeastBusy 7 (Ticket_ID t0)) w3 pump w4"
    "calm_at w4 (demo_db [(demo_sold r c n m (Ticket_ID t0))\<lparr>tk_PumpID := Some 40, tk_UpdatedAt := w_now w3\<rparr>])"
    using demo_assign_runs [OF 3(2)] by blast
  obtain mov w5 where 5: "runs (exec_insert cash_tab (movement 7 50 ''sale'' 1500000 None (Some (Ticket_ID t0)) (Some 20) (Some ''Cash sale at terminal''))) w4 mov w5"
    "calm_at w5 ((demo_db [(demo_sold r c n m (Ticket_ID t0))\<lparr>tk_PumpID := Some 40, tk_UpdatedAt := w_now w3\<rparr>])\<lparr>db_cash := [mov]\<rparr>)"
    using demo_movement_runs [OF 4(2)] by blast
  obtain w6 held w7 where 6: "runs (Log (Some 7) (Some 20) ''ticket.cash_sale'' (Ticket_Reference t0)
       [(''amount_kobo'', DInt 1500000), (''size_grams'', DInt 12500), (''pump'', DStr (pm_Name pump))]) w5 () w6"
    "runs (shiftCashHeld 7 50) w6 held w7"
    using demo_sale_logged [OF 5(2)] by blast
  have assigned: "runs (assign_or_none 7 (Ticket_ID t0)) w3 (pm_Name pump) w4"
    using 4(1) by (auto simp: assign_or_none_def runs_def bind_def attempt_def ret_def)
  have shop: "pl_ID demo_shop = 7" "pl_Slug demo_shop = ''a''" "pl_Timezone demo_shop = ''T''"
    by (simp_all add: plant.defs demo_plant_def)
  have grams: "cash_sale_grams 1500000 120000 = 12500"
    using demo_grams of_int64_exact [of 1000] by (simp add: cash_sale_grams_def GramsFromAmount_def)
  show ?thesis
    unfolding cashSale_tx_def shop
    using demo_status demo_price 3(1) assigned 5(1) 6
    by (auto simp: runs_bind runs_if runs_ret grams demo_cash_def Let_def intro!: exI)
qed

theorem cash_sale_accounted_witness:
  "\<exists>res w t. runs (cashSale_tx (\<lambda>_. None) demo_shop 20 50 1500000 ''080'') (demo_tx (demo_db [])) res w \<and>
     db_tickets (w_db w) = [t] \<and> tk_Status t = Paid \<and> ca_CashHeld res = 1500000 \<and>
     map al_Action (db_log (w_db w)) = [''ticket.cash_sale'']"
proof -
  obtain res w where run: "runs (cashSale_tx (\<lambda>_. None) demo_shop 20 50 1500000 ''080'') (demo_tx (demo_db [])) res w"
    using demo_cash_runs by blast
  have "w_role (demo_tx (demo_db [])) = AppRole (Some (pl_ID demo_shop))" by (simp add: plant.defs demo_plant_def)
  from cash_sale_accounted [OF this run] obtain t e where "db_tickets (w_db w) = [t]" "tk_Status t = Paid"
    "ca_CashHeld res = 1500000" "db_log (w_db w) = [e]" "al_Action e = ''ticket.cash_sale''"
    by (auto simp: sales_def demo_db_def)
  with run show ?thesis by (intro exI [of _ res] exI [of _ w] exI [of _ t]) simp
qed

end
