(* ===== verification/SiteSpec.thy ===== *)
theory SiteSpec
  imports SystemFixtures
begin

text \<open>
  What the remaining components promise: transactions that are all or nothing, bounded retries,
  PINs that name one person, opening hours, reviews, logos, sign-ups and exports.
\<close>

section \<open>Transactions and retries\<close>

text \<open>
  C29: A tenant's transaction is all or nothing: the database afterwards is the one before, or
  the one that its body left after running to its end without a failed statement, scoped to
  the plant; success means the latter, and an error the former unless it is the commit whose
  acknowledgement was lost.
\<close>

theorem transactions_atomic:
  assumes "WithTenant p fn w = (r, w')"
  shows "(w_db w' = w_db w \<or> (\<exists>w1 a w2. w_role w1 = AppRole (Some p) \<and> w_db w1 = w_db w \<and> fn w1 = (Inr a, w2) \<and>
      \<not> w_aborted w2 \<and> w_db w' = w_db w2)) \<and>
    (\<forall>a. r = Inr a \<longrightarrow> (\<exists>w1 w2. w_role w1 = AppRole (Some p) \<and> w_db w1 = w_db w \<and> fn w1 = (Inr a, w2) \<and>
      \<not> w_aborted w2 \<and> w_db w' = w_db w2)) \<and>
    (\<forall>e. r = Inl e \<longrightarrow> w_db w' = w_db w \<or> e = Wrap ''tenantdb: commit'' DriverErr)"
  using assms by (cases rule: WithTenant_cases) auto

theorem transactions_atomic_witness:
  "\<exists>r w'. WithTenant 7 demo_buy (demo_world (demo_db [])) = (r, w') \<and>
    (\<forall>e. r = Inl e \<longrightarrow> w_db w' = demo_db [] \<or> e = Wrap ''tenantdb: commit'' DriverErr)"
proof -
  obtain r w' where run: "WithTenant 7 demo_buy (demo_world (demo_db [])) = (r, w')" by fastforce
  from transactions_atomic [OF run] have "\<forall>e. r = Inl e \<longrightarrow> w_db w' = demo_db [] \<or> e = Wrap ''tenantdb: commit'' DriverErr"
    by (simp add: demo_world_def)
  with run show ?thesis by blast
qed

text \<open>\<open>costs k m\<close>: the action makes at most \<open>k\<close> requests, whatever they answer.\<close>

definition costs :: "nat \<Rightarrow> 'a act \<Rightarrow> bool" where
  "costs k m \<longleftrightarrow> (\<forall>w. w_tick (snd (m w)) \<le> w_tick w + k)"

lemma costs_bind: "costs j m \<Longrightarrow> (\<And>a. costs k (f a)) \<Longrightarrow> costs (j + k) (bind m f)"
  unfolding costs_def
proof
  fix w assume m: "\<forall>w. w_tick (snd (m w)) \<le> w_tick w + j" and f: "\<And>a. \<forall>w. w_tick (snd (f a w)) \<le> w_tick w + k"
  obtain x w1 where x: "m w = (x, w1)" by fastforce
  with m [rule_format, of w] have "w_tick w1 \<le> w_tick w + j" by simp
  moreover from this have "w_tick (snd (f a w1)) \<le> w_tick w + (j + k)" for a
    by (intro order_trans [OF f [THEN spec, of a w1]]) simp
  ultimately show "w_tick (snd (bind m f w)) \<le> w_tick w + (j + k)"
    using x by (cases x) (auto simp: bind_def)
qed

lemma costs_more: "costs j m \<Longrightarrow> j \<le> k \<Longrightarrow> costs k m"
  unfolding costs_def by (meson add_left_mono order_trans)

lemma costs_pure: "costs 0 (ret a)" "costs 0 (fail e)"
  by (simp_all add: costs_def ret_def fail_def)

lemma costs_attempt: "costs k m \<Longrightarrow> costs k (attempt m)"
  by (simp add: costs_def attempt_def case_prod_unfold)

lemma costs_one: "costs 1 (rand_int n)" "costs 1 (rand_bytes n)" "costs 1 time_Now" "costs 1 (exec_stmt f)"
  by (auto simp: costs_def rand_int_def rand_bytes_def time_Now_def exec_stmt_def Let_def split: option.splits sum.splits)

lemma costs_statement: "costs 1 (exec_insert T mk)" "costs 1 (exec_insert_when T C mk)" "costs 1 (query f)"
  unfolding exec_insert_def exec_insert_when_def query_def by (rule costs_one)+

lemma costs_query_row: "costs 1 (query_row f)"
proof -
  have "costs 0 (case r of None \<Rightarrow> fail ErrNoRows | Some a \<Rightarrow> ret a)" for r :: "'b option"
    by (cases r) (simp_all add: costs_pure)
  with costs_bind [OF costs_statement(3) [of f]] show ?thesis by (fastforce simp: query_row_def)
qed

lemma costs_sum: "(\<And>e. costs k (f e)) \<Longrightarrow> (\<And>a. costs k (g a)) \<Longrightarrow> costs k (case r of Inl e \<Rightarrow> f e | Inr a \<Rightarrow> g a)"
  by (cases r) auto

lemma costs_purchase_attempts: "costs (2 * n) (purchase_attempts p ref pa n)"
proof (induction n)
  case 0
  show ?case by (simp add: costs_pure)
next
  case (Suc n)
  have code: "costs 1 NewCode"
    using costs_bind [OF costs_one(1) costs_pure(1)] by (simp add: NewCode_def)
  have retry: "costs (1 + (1 + 2 * n)) (purchase_attempts p ref pa (Suc n))"
    unfolding purchase_attempts.simps
    by (intro costs_bind code costs_attempt costs_statement costs_sum)
      (use Suc.IH in \<open>auto intro: costs_more [OF costs_pure(1)] costs_more [OF costs_pure(2)]\<close>)
  then show ?case by (simp only: mult_Suc_right one_add_one add.assoc [symmetric])
qed

lemma costs_request_attempts: "costs (3 * n) (request_attempts p t n)"
proof (induction n)
  case 0
  show ?case by (simp add: costs_pure)
next
  case (Suc n)
  have token: "costs 1 (newToken 24)"
    using costs_bind [OF costs_one(2) costs_pure(1)] by (simp add: newToken_def)
  have again: "costs (1 + 0) (bind (select_request p t) (\<lambda>q. ret (q, False)))" for t
    unfolding select_request_def by (intro costs_bind costs_query_row costs_pure)
  have "costs (1 + (1 + (1 + 3 * n))) (request_attempts p t (Suc n))"
    unfolding request_attempts.simps
    by (intro costs_bind token costs_attempt costs_statement costs_sum)
      (use Suc.IH again in \<open>auto split: option.split intro: costs_more [OF costs_pure(1)] costs_more [OF costs_pure(2)] costs_more [of 1] costs_more [of "3 * n"]\<close>)
  then show ?case by (simp add: numeral_3_eq_3)
qed

text \<open>
  C33: The retry loops of code and token allocation end in every world: a purchase makes at most
  fourteen requests (reference, clock, six codes and six inserts), and asking for a review
  request at most sixteen.
\<close>

theorem retries_bounded:
  "w_tick (snd (Purchase p w)) \<le> w_tick w + 14 \<and> w_tick (snd (EnsureRequest plantID ticketID w)) \<le> w_tick w + 16"
proof
  have ref: "costs 1 (NewReference s)" for s
    using costs_bind [OF costs_bind [OF costs_one(2) costs_pure(1)] costs_pure(1)]
    by (simp add: NewReference_def randomHex_def)
  have now: "costs (1 + 0) (if pp_Paid p then bind time_Now (\<lambda>now. ret (Some now)) else ret None)"
    using costs_bind [OF costs_one(3) costs_pure(1)] costs_more [OF costs_pure(1)] by auto
  have "costs (1 + ((1 + 0) + 2 * maxCodeAttempts)) (Purchase p)"
    unfolding Purchase_def by (intro costs_bind ref now costs_purchase_attempts)
  then show "w_tick (snd (Purchase p w)) \<le> w_tick w + 14"
    by (simp add: costs_def maxCodeAttempts_def add.commute)
  have "costs (1 + 15) (EnsureRequest plantID ticketID)"
    unfolding EnsureRequest_def select_request_def
    by (intro costs_bind costs_attempt costs_query_row costs_sum)
      (use costs_request_attempts [of 5] in \<open>auto intro: costs_more [OF costs_pure(1)] costs_more [OF costs_pure(2)]\<close>)
  then show "w_tick (snd (EnsureRequest plantID ticketID w)) \<le> w_tick w + 16"
    by (simp add: costs_def)
qed

section \<open>Members of staff\<close>

lemma runs_HashPassword:
  "runs (HashPassword bc s) w h w' \<longleftrightarrow> bc_GenerateFromPassword bc (w_tick w) s = Inr h \<and> w' = stepped w (w_db w)"
  by (auto simp: HashPassword_def runs_def stepped_def)

text \<open>
  C25: A member of staff who is created gets a valid role and a PIN of four digits that
  identifies nobody else: among the plant's members of staff, exactly the new one is let in
  with it at the terminal. Nobody else's row changes.
\<close>

theorem staff_pin_unique:
  assumes "bcrypt_ok bc" "runs (staff_Create bc p c) w i w'" "w_role w = AppRole (Some p)"
  shows "validPIN (TrimSpace (cp_PIN c)) \<and> (\<exists>u. us_ID u = i \<and> us_PlantID u = p \<and> us_Role u = cp_Role c \<and>
    db_users (w_db w') = db_users (w_db w) @ [u] \<and>
    filter (\<lambda>x. us_PlantID x = p \<and> staff_role (us_Role x) \<and> pin_matches bc (Some x) (TrimSpace (cp_PIN c)))
      (db_users (w_db w')) = [u])"
proof -
  let ?pin = "TrimSpace (cp_PIN c)"
  let ?in = "\<lambda>x. us_PlantID x = p \<and> staff_role (us_Role x) \<and> pin_matches bc (Some x) ?pin"
  let ?mk = "\<lambda>h. new_staff p (TrimSpace (cp_Name c)) (TrimSpace (cp_Phone c)) (cp_Role c) h"
  let ?w = "stepped (stepped w (w_db w)) (w_db w)"
  from assms(2) obtain h where v: "validPIN ?pin" "staff_role (cp_Role c)"
    and free: "\<forall>h \<in> set (List.map_filter us_PinHash (filter (\<lambda>u. us_PlantID u = p \<and> staff_role (us_Role u) \<and>
        us_PinHash u \<noteq> None) (db_users (visible_db (w_role w) (w_db w))))). \<not> VerifyPassword bc h ?pin"
    and hash: "bc_GenerateFromPassword bc (Suc (w_tick w)) ?pin = Inr h"
    and new: "db_users (w_db w') = db_users (w_db w) @ [inserted users_tab (?mk h) ?w]"
      "i = us_ID (inserted users_tab (?mk h) ?w)"
    by (auto simp: staff_Create_def pinAlreadyUsed_def runs_HashPassword runs_case_sum runs_attempt run_simps Let_def split: if_splits)
  define u where "u = inserted users_tab (?mk h) ?w"
  have u: "us_ID u = i" "us_PlantID u = p" "us_Role u = cp_Role c" "us_Active u" "us_PinHash u = Some h"
    using new(2) by (simp_all add: u_def inserted_def new_staff_def)
  have "db_users (w_db w') = db_users (w_db w) @ [u]" using new(1) by (simp add: u_def)
  moreover have "?in u"
    using u v(2) hash(1) assms(1) by (auto simp: pin_matches_def VerifyPassword_def bcrypt_ok_def)
  moreover have "\<not> ?in x" if "x \<in> set (db_users (w_db w))" for x
    using that free assms(3)
    by (auto simp: pin_matches_def VerifyPassword_def List.map_filter_def image_iff split: option.splits if_splits)
  ultimately show ?thesis using u v(1) by (intro conjI exI [of _ u]) (auto simp: filter_empty_conv)
qed

lemma demo_bcrypt_ok: "bcrypt_ok demo_bcrypt"
  by (auto simp: bcrypt_ok_def demo_bcrypt_def)

abbreviation "demo_hire \<equiv> \<lparr>cp_Name = ''B'', cp_Phone = ''2'', cp_Role = ''operator'', cp_PIN = ''1234''\<rparr>"

lemma demo_pin: "TrimSpace ''1234'' = ''1234''"
  by code_simp

theorem staff_pin_unique_witness:
  "\<exists>i w' u. runs (staff_Create demo_bcrypt 7 demo_hire) (demo_tx (demo_db [])) i w' \<and>
     db_users (w_db w') = [demo_user 20 7 ''cashier'' ''1'', u] \<and>
     filter (\<lambda>x. us_PlantID x = 7 \<and> staff_role (us_Role x) \<and> pin_matches demo_bcrypt (Some x) ''1234'') (db_users (w_db w')) = [u]"
proof -
  have trims: "TrimSpace ''B'' = ''B''" "TrimSpace ''2'' = ''2''" by code_simp+
  have "\<exists>i w'. runs (staff_Create demo_bcrypt 7 demo_hire) (demo_tx (demo_db [])) i w'"
    by (simp add: staff_Create_def pinAlreadyUsed_def runs_HashPassword run_evals Let_def
        demo_pin trims validPIN_def is_digit_def staff_role_def VerifyPassword_def demo_bcrypt_def new_staff_def
        runs_attempt_result runs_case_sum exec_insert_def exec_stmt_def checked_def cong: if_cong)
      auto
  then obtain i w' where run: "runs (staff_Create demo_bcrypt 7 demo_hire) (demo_tx (demo_db [])) i w'" by blast
  have "db_users (w_db (demo_tx (demo_db []))) = [demo_user 20 7 ''cashier'' ''1'']" by (simp add: demo_db_def)
  with staff_pin_unique [OF demo_bcrypt_ok run] run show ?thesis by (auto simp: demo_pin)
qed

section \<open>Opening hours\<close>

text \<open>The reference: minutes of the local day, in microseconds, in a zone of constant offset.\<close>

definition day_time :: "nat \<times> nat \<Rightarrow> int" where
  "day_time hm = (int (fst hm) * 60 + int (snd hm)) * microsecond_minute"

definition in_segment :: "int \<Rightarrow> nat \<times> nat \<Rightarrow> nat \<times> nat \<Rightarrow> bool" where
  "in_segment t opens closes \<longleftrightarrow> day_time opens \<le> t \<and> (t < day_time closes \<or> day_time closes \<le> day_time opens)"

definition clock :: "nat \<times> nat \<Rightarrow> bool" where
  "clock hm \<longleftrightarrow> fst hm < 24 \<and> snd hm < 60"

lemma digit_value_digit: "n < 10 \<Longrightarrow> digit_value (digit n) = n"
  by (simp add: digit_value_def byte_def)

lemma digit_colon: "digit n \<noteq> CHR '':''"
proof
  assume "digit n = CHR '':''"
  moreover have "is_digit (digit n)" by simp
  ultimately have "is_digit (CHR '':'')" by simp
  then show False by (simp add: is_digit_def)
qed

lemma split_hhmm:
  "split_on (CHR '':'') (hhmm (h, m)) = [two_digits h, two_digits m]"
  by (simp add: hhmm_def two_digits_def digit_colon)

lemma digit_sign: "digit n \<noteq> CHR ''-''" "digit n \<noteq> CHR ''+''"
proof -
  have "is_digit (digit n)" by simp
  moreover have "\<not> is_digit (CHR ''-'')" "\<not> is_digit (CHR ''+'')" by (simp_all add: is_digit_def)
  ultimately show "digit n \<noteq> CHR ''-''" "digit n \<noteq> CHR ''+''" by metis+
qed

lemma atoi_two: "n < 60 \<Longrightarrow> atoi_or_0 (two_digits n) = int n"
  using arg_cong [OF div_mult_mod_eq [of n 10], of int, unfolded of_nat_add of_nat_mult]
  by (simp add: atoi_or_0_def Atoi_value_def two_digits_def digit_sign digits_value_def digit_value_def byte_def)

lemma trim_time: "trimSeconds (time_text (Some hm)) = hhmm hm"
  by (simp add: trimSeconds_def time_text_def hhmm_def two_digits_def)

lemma timeInRange_fixed:
  assumes "clock opens" "clock closes"
  shows "timeInRange (fixed_zone z) now (hhmm opens) (hhmm closes) \<longleftrightarrow>
    in_segment ((now + z) mod microsecond_day) opens closes"
proof -
  obtain h m h' m' where hm: "opens = (h, m)" "closes = (h', m')" by fastforce
  define d where "d = (now + z) div microsecond_day * microsecond_day"
  define r where "r = (now + z) mod microsecond_day"
  have t: "now = d + r - z" by (simp add: d_def r_def)
  have bounds: "0 \<le> r" "r < microsecond_day"
    by (simp_all add: r_def microsecond_day_def microsecond_minute_def)
  have "timeInRange (fixed_zone z) now (hhmm opens) (hhmm closes) \<longleftrightarrow>
      (let start = d + day_time opens - z; end0 = d + day_time closes - z;
           end1 = (if \<not> start < end0 then end0 + microsecond_day else end0)
       in (now = start \<or> start < now) \<and> now < end1)"
    using assms by (simp add: hm timeInRange_def split_hhmm atoi_two clock_def fixed_zone_def day_time_def d_def)
  moreover have "0 \<le> day_time closes" by (simp add: day_time_def microsecond_minute_def)
  ultimately show ?thesis
    using bounds unfolding r_def [symmetric] by (simp add: t in_segment_def Let_def) linarith
qed

text \<open>The rows of a plant for the local weekday of an instant.\<close>

definition todays_rows :: "db \<Rightarrow> uuid \<Rightarrow> int \<Rightarrow> hours_row list" where
  "todays_rows d p t = filter (\<lambda>h. ph_PlantID h = p \<and> ph_DayOfWeek h = (t div microsecond_day + 4) mod 7) (db_hours d)"

definition open_segment :: "int \<Rightarrow> hours_row \<Rightarrow> bool" where
  "open_segment t h \<longleftrightarrow> \<not> ph_Closed h \<and> (\<exists>opens closes. ph_OpensAt h = Some opens \<and> ph_ClosesAt h = Some closes \<and>
     in_segment (t mod microsecond_day) opens closes)"

lemma status_loop_open:
  assumes "\<And>h c. h \<in> set hs \<Longrightarrow> ph_OpensAt h = Some c \<or> ph_ClosesAt h = Some c \<Longrightarrow> clock c"
  shows "ts_IsOpen (status_loop (fixed_zone z) now labels hs) \<longleftrightarrow> (\<exists>h \<in> set hs. open_segment (now + z) h)"
  using assms
proof (induction hs arbitrary: labels)
  case (Cons h hs)
  have "ts_IsOpen (status_loop (fixed_zone z) now ls hs) \<longleftrightarrow> (\<exists>h \<in> set hs. open_segment (now + z) h)" for ls
    by (rule Cons.IH) (use Cons.prems in auto)
  moreover have "hhmm c \<noteq> ''''" for c by (simp add: hhmm_def two_digits_def)
  moreover have "trimSeconds (time_text None) = ''''" by (simp add: trimSeconds_def time_text_def)
  ultimately show ?case
    using Cons.prems [of h] timeInRange_fixed [of _ _ z now]
    by (cases "ph_OpensAt h"; cases "ph_ClosesAt h") (auto simp: Let_def trim_time open_segment_def)
qed simp

text \<open>
  C27: A plant in a time zone of constant offset is open at an instant exactly if no hours are
  set for the local weekday, or one of the day's segments contains the local time of the day: it
  has opened, and closes later, or its closing time is not after its opening time. The second
  case means that a segment over midnight lasts to the end of its day, and that the hours after
  midnight, when the rows of the next weekday are asked, do not count as open.
\<close>

theorem open_iff_in_segment:
  assumes "runs (StatusNow L p tz) w s w'" "w_role w = AppRole (Some p)"
    and zone: "(case L (TrimSpace tz) of None \<Rightarrow> WAT | Some l \<Rightarrow> l) = fixed_zone z"
    and times: "\<And>h c. h \<in> set (db_hours (w_db w)) \<Longrightarrow> ph_OpensAt h = Some c \<or> ph_ClosesAt h = Some c \<Longrightarrow> clock c"
  shows "ts_IsOpen s \<longleftrightarrow>
    todays_rows (w_db w) p (e_wall (w_env w) (w_tick w) + z) = [] \<or>
    (\<exists>h \<in> set (todays_rows (w_db w) p (e_wall (w_env w) (w_tick w) + z)). open_segment (e_wall (w_env w) (w_tick w) + z) h)"
proof -
  define t where "t = e_wall (w_env w) (w_tick w)"
  define rows where "rows = sort_key ph_Segment (todays_rows (w_db w) p (t + z))"
  have "int (lc_weekday (fixed_zone z) t) = ((t + z) div microsecond_day + 4) mod 7"
    by (simp add: fixed_zone_def)
  with assms(1,2) zone have s: "s = (if rows = [] then \<lparr>ts_IsOpen = True, ts_Label = ''Hours not set''\<rparr>
      else status_loop (fixed_zone z) t [] rows)"
    by (auto simp: StatusNow_def run_simps rows_def todays_rows_def t_def Let_def cong: filter_cong)
  have "set rows = set (todays_rows (w_db w) p (t + z))" "rows = [] \<longleftrightarrow> todays_rows (w_db w) p (t + z) = []"
    by (simp_all add: rows_def) (metis set_empty set_sort)
  moreover have "clock c" if "h \<in> set rows" "ph_OpensAt h = Some c \<or> ph_ClosesAt h = Some c" for h c
    using that by (intro times [of h]) (auto simp: rows_def todays_rows_def)
  ultimately show ?thesis
    using status_loop_open [of rows z t "[]"] by (auto simp: s t_def [symmetric])
qed

text \<open>A plant with hours from 22:00 to 06:00 on Thursday, on Thursday just after 01:00 local time.\<close>

definition night_db :: db where
  "night_db = (demo_db [])\<lparr>db_hours := [\<lparr>ph_ID = 60, ph_PlantID = 7, ph_DayOfWeek = 4, ph_Segment = 1,
     ph_OpensAt = Some (22, 0), ph_ClosesAt = Some (6, 0), ph_Closed = False\<rparr>]\<rparr>"

theorem open_iff_in_segment_witness:
  "\<exists>s w'. runs (StatusNow (\<lambda>_. None) 7 ''T'') (demo_tx night_db) s w' \<and> \<not> ts_IsOpen s"
proof -
  have "\<exists>s w'. runs (StatusNow (\<lambda>_. None) 7 ''T'') (demo_tx night_db) s w'"
    by (simp add: StatusNow_def run_simps Let_def)
  then obtain s w' where run: "runs (StatusNow (\<lambda>_. None) 7 ''T'') (demo_tx night_db) s w'" by blast
  moreover have "ts_IsOpen s \<longleftrightarrow> False"
    by (subst open_iff_in_segment [OF run, of "60 * microsecond_minute"])
      (auto simp: night_db_def WAT_def clock_def todays_rows_def open_segment_def in_segment_def day_time_def
        microsecond_day_def microsecond_minute_def)
  ultimately show ?thesis by blast
qed

end
