(* ===== verification/PlatformSpec.thy ===== *)
theory PlatformSpec
  imports SiteSpec
begin

text \<open>
  What the components around the shop promise: one review per ticket, logos that are whole and
  touch nobody else's files, plants that are created with their owner and price, and the
  waiting list with its limited offer.
\<close>

section \<open>Reviews\<close>

abbreviation "review_key r \<equiv> (rv_PlantID r, rv_TicketID r)"

lemma no_attempts_aborted: "w_aborted w \<Longrightarrow> \<not> runs (request_attempts p t n) w x w'"
  by (cases n) (auto simp: newToken_def bind_def rand_bytes_def attempt_def exec_insert_when_def exec_stmt_def
      runs_def fail_def ret_def Let_def split: option.splits prod.splits sum.splits)

definition insert_review :: "uuid \<Rightarrow> uuid \<Rightarrow> string \<Rightarrow> review_row option act" where
  "insert_review p t token = exec_insert_when reviews_tab
     (\<lambda>v d r. \<forall>x \<in> set (db_reviews d). review_key x \<noteq> review_key r) (new_review p t token)"

lemma runs_request_attempts:
  assumes "runs (request_attempts p t n) w x w'"
  obtains (inserted) token w1 row where "w_db w1 = w_db w" "w_role w1 = w_role w"
      "runs (insert_review p t token) w1 (Some row) w'"
      "x = (\<lparr>rq_ID = rv_ID row, rq_Token = token, rq_TicketID = t\<rparr>, True)"
  | (found) token w1 w2 q where "w_db w1 = w_db w" "w_role w1 = w_role w"
      "runs (insert_review p t token) w1 None w2" "runs (select_request p t) w2 q w'" "x = (q, False)"
proof (cases n)
  case 0
  with assms show thesis by (simp add: runs_fail)
next
  case (Suc m)
  let ?w1 = "stepped w (w_db w)"
  from assms obtain token r w2 where 1: "insert_review p t token ?w1 = (r, w2)" and 2: "runs (case r of Inr (Some row) \<Rightarrow> ret (\<lparr>rq_ID = rv_ID row, rq_Token = token, rq_TicketID = t\<rparr>, True)
       | Inr None \<Rightarrow> bind (select_request p t) (\<lambda>q. ret (q, False))
       | Inl e \<Rightarrow> if isUniqueViolation e then request_attempts p t m else fail e) w2 x w'"
    unfolding Suc request_attempts.simps insert_review_def [symmetric]
    by (auto simp: newToken_def runs_bind runs_ret runs_rand_bytes runs_attempt_result)
  show thesis
  proof (cases r)
    case (Inl e)
    then have "w_aborted w2" using 1 unfolding insert_review_def exec_insert_when_def by (auto intro: exec_stmt_error_aborts)
    with 2 Inl no_attempts_aborted show thesis by (auto simp: runs_fail split: if_splits)
  next
    case (Inr row)
    with 1 have "runs (insert_review p t token) ?w1 row w2" by (simp add: runs_def)
    with 2 Inr inserted [of ?w1 token] found [of ?w1 token] show thesis
      by (cases row) (auto simp: runs_bind runs_ret)
  qed
qed

lemma runs_EnsureRequest_found:
  assumes "first_row (\<lambda>r. rv_PlantID r = p \<and> rv_TicketID r = t) (db_reviews (w_db w)) = Some r" "w_role w = AppRole (Some p)"
    and "runs (EnsureRequest p t) w x w'"
  shows "x = (\<lparr>rq_ID = rv_ID r, rq_Token = rv_Token r, rq_TicketID = t\<rparr>, False) \<and> w_db w' = w_db w"
proof -
  have sel: "first_row (\<lambda>r. rv_PlantID r = p \<and> rv_TicketID r = t) (db_reviews (visible_db (w_role w) (w_db w))) = Some r"
    using assms(1,2) by (simp add: conj_commute conj_left_commute)
  from assms(3) obtain q w1 where q: "select_request p t w = (q, w1)"
    and rest: "runs (case q of Inr q \<Rightarrow> ret (q, False) | Inl e \<Rightarrow> if \<not> errors_is e ErrNoRows then fail e else request_attempts p t 5) w1 x w'"
    by (auto simp: EnsureRequest_def runs_bind runs_attempt_result)
  show ?thesis
  proof (cases "ready w")
    case True
    with q sel rest show ?thesis by (auto simp: select_request_def query_row_ready runs_ret)
  next
    case False
    with q have "\<exists>e. q = Inl e \<and> \<not> errors_is e ErrNoRows"
      by (auto simp: select_request_def query_row_def query_def exec_stmt_def bind_def ready_def Let_def split: if_splits)
    with rest show ?thesis by (auto simp: runs_fail)
  qed
qed

text \<open>
  A ticket gets one review request. Asking returns the request of the ticket, the only one
  that is there afterwards; a new one is made exactly if there was none; and whoever asks again,
  later but with the reviews unchanged, gets the same request and adds nothing.
\<close>

lemma one_request_per_ticket:
  assumes "runs (EnsureRequest p t) w (q, created) w'" "w_role w = AppRole (Some p)"
    and "reviews_viol (w_db w) = None"
  shows "(created \<longleftrightarrow> (\<forall>r \<in> set (db_reviews (w_db w)). review_key r \<noteq> (p, t))) \<and>
    (\<exists>r. filter (\<lambda>r. review_key r = (p, t)) (db_reviews (w_db w')) = [r] \<and> rv_ID r = rq_ID q \<and> rv_Token r = rq_Token q) \<and>
    (\<forall>w2 q2 c2 w3. db_reviews (w_db w2) = db_reviews (w_db w') \<longrightarrow> w_role w2 = AppRole (Some p) \<longrightarrow>
      runs (EnsureRequest p t) w2 (q2, c2) w3 \<longrightarrow> q2 = q \<and> \<not> c2 \<and> w_db w3 = w_db w2)"
proof (cases "first_row (\<lambda>r. rv_PlantID r = p \<and> rv_TicketID r = t) (db_reviews (w_db w))")
  case (Some r)
  note 1 = runs_EnsureRequest_found [OF this assms(2,1)]
  have r: "r \<in> set (db_reviews (w_db w))" "review_key r = (p, t)" using first_row_SomeD [OF Some] by auto
  have "distinct (map review_key (db_reviews (w_db w)))"
    using assms(3) unfolding reviews_viol_def no_violation by simp
  from filter_key [OF this r(1)] r(2) have "filter (\<lambda>r. review_key r = (p, t)) (db_reviews (w_db w)) = [r]" by simp
  moreover have "q2 = q \<and> \<not> c2 \<and> w_db w3 = w_db w2"
    if "db_reviews (w_db w2) = db_reviews (w_db w')" "w_role w2 = AppRole (Some p)" "runs (EnsureRequest p t) w2 (q2, c2) w3" for w2 q2 c2 w3
    using runs_EnsureRequest_found [of p t w2 r "(q2, c2)" w3] that Some 1 by simp
  moreover from 1 have "\<not> created" "w_db w' = w_db w" "rv_ID r = rq_ID q" "rv_Token r = rq_Token q" by simp_all
  ultimately show ?thesis using r by metis
next
  case None
  then have none: "\<forall>r \<in> set (db_reviews (w_db w)). review_key r \<noteq> (p, t)" by (auto simp: first_row_None)
  from assms(1) obtain res w1 where q: "select_request p t w = (res, w1)"
    and rest: "runs (case res of Inr q \<Rightarrow> ret (q, False) | Inl e \<Rightarrow> if \<not> errors_is e ErrNoRows then fail e else request_attempts p t 5) w1 (q, created) w'"
    by (auto simp: EnsureRequest_def runs_bind runs_attempt_result)
  note sel = query_row_result [OF q [unfolded select_request_def]]
  have "\<nexists>a. res = Inr a" using sel(5) None assms(2) by (force simp: first_row_None)
  then obtain e where "res = Inl e" by (cases res) auto
  with rest have "runs (request_attempts p t 5) w1 (q, created) w'" by (auto simp: runs_fail split: if_splits)
  then show ?thesis
  proof (cases rule: runs_request_attempts)
    case (inserted token w2 row)
    from inserted(3) have new: "row = inserted reviews_tab (new_review p t token) w2" "db_reviews (w_db w') = db_reviews (w_db w) @ [row]"
      using inserted(1) sel(1) by (auto simp: insert_review_def runs_exec_insert_when split: if_splits)
    then have row: "review_key row = (p, t)" "rv_Token row = token" by (simp_all add: inserted_def new_review_def)
    have first: "first_row (\<lambda>r. rv_PlantID r = p \<and> rv_TicketID r = t) (db_reviews (w_db w')) = Some row"
      using None row by (simp add: new(2) first_row_snoc)
    have "q2 = q \<and> \<not> c2 \<and> w_db w3 = w_db w2"
      if "db_reviews (w_db w2) = db_reviews (w_db w')" "w_role w2 = AppRole (Some p)" "runs (EnsureRequest p t) w2 (q2, c2) w3" for w2 q2 c2 w3
      using runs_EnsureRequest_found [of p t w2 row "(q2, c2)" w3] that first inserted(4) row by simp
    moreover have "filter (\<lambda>r. review_key r = (p, t)) (db_reviews (w_db w')) = [row]"
      using none row(1) by (auto simp: new(2) filter_empty_conv)
    moreover have "created" "rv_ID row = rq_ID q" "rv_Token row = rq_Token q" using inserted(4) row by simp_all
    ultimately show ?thesis using none by metis
  next
    case (found token w2 w3 q2)
    then have "\<not> (\<forall>x \<in> set (db_reviews (w_db w2)). review_key x \<noteq> review_key (inserted reviews_tab (new_review p t token) w2))"
      by (auto simp: insert_review_def runs_exec_insert_when split: if_splits)
    moreover have "review_key (inserted reviews_tab (new_review p t token) w2) = (p, t)" by (simp add: inserted_def new_review_def)
    ultimately show ?thesis using none found(1) sel(1) by auto
  qed
qed

theorem one_request_per_ticket_witness:
  "\<exists>q w'. runs (EnsureRequest 7 70) (demo_tx (demo_db [demo_ticket 70 7 ''0001'' Filled])) (q, True) w' \<and>
    (\<exists>r. filter (\<lambda>r. review_key r = (7, 70)) (db_reviews (w_db w')) = [r] \<and> rv_ID r = rq_ID q \<and> rv_Token r = rq_Token q)"
proof -
  let ?w = "demo_tx (demo_db [demo_ticket 70 7 ''0001'' Filled])"
  have sel: "select_request 7 70 ?w = (Inl ErrNoRows, stepped ?w (w_db ?w))"
    by (simp add: select_request_def query_row_ready) (simp add: demo_db_def)
  have "\<exists>row w'. runs (insert_review 7 70 (base64url (bytes_of 24 11))) (stepped (stepped ?w (w_db ?w)) (w_db ?w)) (Some row) w'"
    by (simp add: insert_review_def run_evals new_review_def)
  then obtain row w' where ins: "insert_review 7 70 (base64url (bytes_of 24 11)) (stepped (stepped ?w (w_db ?w)) (w_db ?w)) = (Inr (Some row), w')"
    by (auto simp: runs_def)
  have five: "5 = Suc 4" by simp
  have "runs (request_attempts 7 70 5) (stepped ?w (w_db ?w)) (\<lparr>rq_ID = rv_ID row, rq_Token = base64url (bytes_of 24 11), rq_TicketID = 70\<rparr>, True) w'"
    unfolding five request_attempts.simps insert_review_def [symmetric]
    using ins by (simp add: newToken_def runs_bind runs_ret runs_rand_bytes runs_attempt_result)
  then have run: "runs (EnsureRequest 7 70) ?w (\<lparr>rq_ID = rv_ID row, rq_Token = base64url (bytes_of 24 11), rq_TicketID = 70\<rparr>, True) w'"
    by (simp add: EnsureRequest_def runs_bind runs_attempt_result sel)
  have role: "w_role ?w = AppRole (Some 7)" and viol: "reviews_viol (w_db ?w) = None"
    by (simp_all add: constraint_evals demo_defs)
  from one_request_per_ticket [OF run role viol] run show ?thesis by blast
qed

text \<open>
  C26: A review is given once: submitting fills in the rating, the note and the time of the
  unsubmitted reviews of the plant that have the token, of which there is one, and changes
  nothing else; the rating is from one to five; and no later submission with the token succeeds.
\<close>

theorem submit_once:
  assumes "runs (Submit p token rating note) w u w'" "w_role w = AppRole (Some p)"
  shows "1 \<le> rating \<and> rating \<le> 5 \<and>
    (\<exists>r \<in> set (db_reviews (w_db w)). rv_PlantID r = p \<and> rv_Token r = TrimSpace token \<and> rv_SubmittedAt r = None) \<and>
    w_db w' = (w_db w)\<lparr>db_reviews := map (\<lambda>r.
      if rv_PlantID r = p \<and> rv_Token r = TrimSpace token \<and> rv_SubmittedAt r = None
      then r\<lparr>rv_Rating := Some rating, rv_Note := (if TrimSpace note = '''' then None else Some (TrimSpace note)),
             rv_SubmittedAt := Some (w_now w)\<rparr> else r) (db_reviews (w_db w))\<rparr> \<and>
    (\<forall>w2 rating2 note2 w3. db_reviews (w_db w2) = db_reviews (w_db w') \<longrightarrow> w_role w2 = AppRole (Some p) \<longrightarrow>
      \<not> runs (Submit p token rating2 note2) w2 u w3)"
proof -
  let ?P = "\<lambda>r. rv_PlantID r = p \<and> rv_Token r = TrimSpace token \<and> rv_SubmittedAt r = None"
  have step: "1 \<le> rating \<and> rating \<le> 5 \<and> (\<exists>r \<in> set (db_reviews (w_db w)). ?P r) \<and>
      w_db w' = (w_db w)\<lparr>db_reviews := map (\<lambda>r. if ?P r
        then r\<lparr>rv_Rating := Some rating, rv_Note := (if TrimSpace n = '''' then None else Some (TrimSpace n)),
             rv_SubmittedAt := Some (w_now w)\<rparr> else r) (db_reviews (w_db w))\<rparr>"
    if "runs (Submit p token rating n) w u w'" "w_role w = AppRole (Some p)" for rating n w w'
  proof -
    let ?f = "\<lambda>now r. r\<lparr>rv_Rating := Some rating, rv_Note := (if TrimSpace n = '''' then None else Some (TrimSpace n)),
             rv_SubmittedAt := Some now\<rparr>"
    from that(1) obtain rs w1 where u: "runs (exec_update reviews_tab ?P ?f) w rs w1" and range: "1 \<le> rating" "rating \<le> 5"
      and rest: "runs (if rs = [] then bind (GetTarget p token) (\<lambda>t.
             if tg_SubmittedAt t \<noteq> None then fail ErrAlreadySubmitted else fail reviews_ErrNotFound) else ret ()) w1 u w'"
      by (auto simp: Submit_def runs_bind Let_def runs_fail split: if_splits)
    from rest have "rs \<noteq> []" "w1 = w'" by (auto simp: runs_bind runs_if runs_fail runs_ret)
    with u range that(2) show ?thesis
      by (auto simp: runs_exec_update updated_def upd_where_def filter_empty_conv cong: if_cong)
  qed
  have "\<not> ?P r" if "r \<in> set (db_reviews (w_db w'))" for r
    using that step [OF assms] by auto
  then have "\<not> runs (Submit p token rating2 note2) w2 u w3"
    if "db_reviews (w_db w2) = db_reviews (w_db w')" "w_role w2 = AppRole (Some p)" for w2 rating2 note2 w3
    using step [of rating2 note2 w2 w3] that by metis
  with step [OF assms] show ?thesis by blast
qed

abbreviation "demo_review \<equiv> new_review 7 70 ''k'' 5 90"

theorem submit_once_witness:
  "\<exists>w'. runs (Submit 7 ''k'' 4 '''') (demo_tx ((demo_db [demo_ticket 70 7 ''0001'' Filled])\<lparr>db_reviews := [demo_review]\<rparr>)) () w' \<and>
    db_reviews (w_db w') = [demo_review\<lparr>rv_Rating := Some 4, rv_Note := None, rv_SubmittedAt := Some 1002\<rparr>]"
proof -
  have trims: "TrimSpace ''k'' = ''k''" "TrimSpace '''' = ''''" by code_simp+
  have "\<exists>w'. runs (Submit 7 ''k'' 4 '''') (demo_tx ((demo_db [demo_ticket 70 7 ''0001'' Filled])\<lparr>db_reviews := [demo_review]\<rparr>)) () w'"
    by (simp add: Submit_def trims run_evals new_review_def)
  then obtain w' where run: "runs (Submit 7 ''k'' 4 '''') (demo_tx ((demo_db [demo_ticket 70 7 ''0001'' Filled])\<lparr>db_reviews := [demo_review]\<rparr>)) () w'"
    by blast
  from submit_once [OF run] have "w_db w' = (demo_db [demo_ticket 70 7 ''0001'' Filled])\<lparr>db_reviews :=
      [demo_review\<lparr>rv_Rating := Some 4, rv_Note := None, rv_SubmittedAt := Some 1002\<rparr>]\<rparr>"
    by (simp add: trims new_review_def)
  with run show ?thesis by auto
qed

section \<open>Logos\<close>

text \<open>\<open>confined F m\<close>: whatever happens in \<open>m\<close>, only files in \<open>F\<close> change.\<close>

definition confined :: "string set \<Rightarrow> 'a act \<Rightarrow> bool" where
  "confined F m \<longleftrightarrow> (\<forall>w f. f \<notin> F \<longrightarrow> w_files (snd (m w)) f = w_files w f)"

lemma confined_bind: "confined F m \<Longrightarrow> (\<And>a. confined F (f a)) \<Longrightarrow> confined F (bind m f)"
  by (simp add: confined_def bind_def split: prod.splits sum.splits) (metis snd_conv)

lemma confined_pure: "confined F (ret a)" "confined F (fail e)"
  by (simp_all add: confined_def ret_def fail_def)

lemma confined_attempt: "confined F m \<Longrightarrow> confined F (attempt m)"
  by (simp add: confined_def attempt_def case_prod_unfold)

lemma confined_op:
  "dest \<in> F \<Longrightarrow> confined F (file_op (\<lambda>m. m(dest \<mapsto> s)))" "dest \<in> F \<Longrightarrow> confined F (file_op (\<lambda>m. m(dest := None)))"
  "confined F (file_op (\<lambda>m. m))"
  by (auto simp: confined_def file_op_def Let_def)

lemma confined_sum: "(\<And>e. confined F (f e)) \<Longrightarrow> (\<And>a. confined F (g a)) \<Longrightarrow> confined F (case r of Inl e \<Rightarrow> f e | Inr a \<Rightarrow> g a)"
  by (cases r) auto

lemma confined_if: "(c \<Longrightarrow> confined F m) \<Longrightarrow> (\<not> c \<Longrightarrow> confined F n) \<Longrightarrow> confined F (if c then m else n)"
  by simp

lemma confined_Remove: "dest \<in> F \<Longrightarrow> confined F (os_Remove dest)"
  unfolding os_Remove_def by (intro confined_bind confined_attempt confined_op confined_pure)

lemma confined_remove_others: "\<forall>e \<in> set es. logo_file slug e \<in> F \<Longrightarrow> confined F (remove_others slug ext es)"
  by (induction es) (auto intro!: confined_bind confined_if confined_Remove confined_pure)

lemma confined_write: "dest \<in> F \<Longrightarrow> confined F (write_logo dest content)"
  unfolding write_logo_def Let_def
  by (intro confined_bind confined_sum confined_if confined_attempt confined_op confined_Remove confined_pure)

definition logo_files :: "string \<Rightarrow> string set" where
  "logo_files slug = (\<lambda>ext. logo_file slug ext) ` snd ` set allowedLogoTypes"

lemma confined_SaveLogo: "confined (logo_files slug) (SaveLogo detect slug content declared)"
proof -
  have "logo_file slug ext \<in> logo_files slug" if "map_of allowedLogoTypes m = Some ext" for m ext
    using map_of_SomeD [OF that] by (force simp: logo_files_def)
  then show ?thesis
    unfolding SaveLogo_def
    by (intro confined_if confined_pure confined_bind confined_op)
      (auto split: option.split intro!: confined_bind confined_pure confined_op confined_remove_others confined_write
        simp: logo_files_def)
qed

lemma slash_free: "slugPattern s \<Longrightarrow> CHR ''/'' \<notin> set s"
  by (auto simp: slugPattern_def list_all_iff slug_alnum_def)

lemma logo_file_inj: "slugPattern s \<Longrightarrow> slugPattern t \<Longrightarrow> logo_file s x = logo_file t y \<Longrightarrow> s = t"
proof -
  assume a: "slugPattern s" "slugPattern t" "logo_file s x = logo_file t y"
  have "takeWhile (\<lambda>c. c \<noteq> CHR ''/'') (logo_file s x) = s" if "slugPattern s" for s x
    using slash_free [OF that] by (auto simp: logo_file_def takeWhile_append)
  with a show "s = t" by metis
qed

lemma runs_write_logo:
  assumes "runs (write_logo dest content) w u w'"
  shows "w_files w' dest = Some content \<and> length content \<le> MaxLogoBytes"
proof -
  let ?rest = "drop 512 content" let ?n = "MaxLogoBytes - length (take 512 content)"
  have op: "runs (file_op f) w u w' \<longleftrightarrow> e_fault (w_env w) (w_tick w) = Fine \<and> w' = w\<lparr>w_tick := Suc (w_tick w), w_files := f (w_files w)\<rparr>" for f w u w'
    by (auto simp: runs_def file_op_def Let_def)
  from assms have fits: "length (take (?n + 1) ?rest) \<le> ?n" and stored: "w_files w' dest = Some (take 512 content @ take (?n + 1) ?rest)"
    by (auto simp: write_logo_def runs_bind runs_case_sum runs_attempt op Let_def runs_if runs_fail runs_ret)
  from fits have len: "length ?rest \<le> ?n" by simp
  then have "take (?n + 1) ?rest = ?rest" by simp
  with stored have "w_files w' dest = Some content" by simp
  moreover have "length content \<le> MaxLogoBytes"
    using len by (simp add: MaxLogoBytes_def)
  ultimately show ?thesis by blast
qed

text \<open>
  C28: A logo that was saved is there whole, of at most the allowed size, under the path that is
  returned and with the extension of its detected type, which is an image type; whether or not
  saving succeeds, no file of another plant changes.
\<close>

theorem logo_saved_whole:
  assumes "SaveLogo detect slug content declared w = (r, w')"
  shows "(\<forall>path. r = Inr path \<longrightarrow> slugPattern slug \<and> length content \<le> MaxLogoBytes \<and>
      (\<exists>ext. map_of allowedLogoTypes (detect (take 512 content)) = Some ext \<and>
        path = PublicPrefix @ ''/'' @ logo_file slug ext \<and> w_files w' (logo_file slug ext) = Some content)) \<and>
    (\<forall>other ext. slugPattern slug \<longrightarrow> slugPattern other \<longrightarrow> other \<noteq> slug \<longrightarrow>
      w_files w' (logo_file other ext) = w_files w (logo_file other ext))"
proof (intro conjI allI impI)
  fix path assume "r = Inr path"
  with assms have "runs (SaveLogo detect slug content declared) w path w'" by (simp add: runs_def)
  then show "slugPattern slug" "length content \<le> MaxLogoBytes"
    "\<exists>ext. map_of allowedLogoTypes (detect (take 512 content)) = Some ext \<and>
        path = PublicPrefix @ ''/'' @ logo_file slug ext \<and> w_files w' (logo_file slug ext) = Some content"
    by (auto simp: SaveLogo_def runs_bind runs_ret runs_fail dest!: runs_write_logo split: if_splits option.splits)
next
  fix other ext assume "slugPattern slug" "slugPattern other" "other \<noteq> slug"
  then have "logo_file other ext \<notin> logo_files slug" by (auto simp: logo_files_def dest: logo_file_inj)
  then show "w_files w' (logo_file other ext) = w_files w (logo_file other ext)"
    using confined_SaveLogo [of slug detect content declared] assms by (auto simp: confined_def dest: spec [of _ w])
qed

theorem logo_saved_whole_witness:
  "\<exists>path w'. SaveLogo (\<lambda>b. ''image/png'') ''a'' ''x'' None (demo_world (demo_db [])) = (Inr path, w') \<and>
    w_files w' ''a/logo.png'' = Some ''x''"
proof -
  have "slugPattern ''a''" by (simp add: slugPattern_def slug_alnum_def)
  then have "\<exists>path w'. SaveLogo (\<lambda>b. ''image/png'') ''a'' ''x'' None (demo_world (demo_db [])) = (Inr path, w')"
    by (simp add: SaveLogo_def bind_def ret_def fail_def attempt_def file_op_def write_logo_def os_Remove_def
        demo_world_def allowedLogoTypes_def MaxLogoBytes_def Let_def)
  then obtain path w' where run: "SaveLogo (\<lambda>b. ''image/png'') ''a'' ''x'' None (demo_world (demo_db [])) = (Inr path, w')" by blast
  with logo_saved_whole [OF run] show ?thesis by (auto simp: allowedLogoTypes_def logo_file_def)
qed

section \<open>Plants\<close>

lemma runs_founding_rank:
  assumes "runs (founding_rank claim) w rank w'" "w_role w = AdminRole"
  shows "w_db w' = w_db w \<and> w_role w' = AdminRole \<and>
    rank = (if claim \<and> claimed_ranks (w_db w) < FoundingSpots then Some (claimed_ranks (w_db w) + 1) else None)"
  using assms by (auto simp: founding_rank_def advisory_lock_def run_simps runs_exec_stmt)

lemma claimed_ranks_bound: "0 \<le> claimed_ranks d \<and> (\<forall>q \<in> set (db_plants d). \<forall>r. pl_FoundingRank q = Some r \<longrightarrow> r \<le> claimed_ranks d)"
proof -
  have "n \<le> foldl max n rs \<and> (\<forall>r \<in> set rs. r \<le> foldl max n rs)" for n :: int and rs
  proof (induction rs arbitrary: n)
    case (Cons r rs)
    from Cons [of "max n r"] show ?case by auto
  qed simp
  from this [of 0 "List.map_filter pl_FoundingRank (db_plants d)"] show ?thesis
    by (force simp: claimed_ranks_def List.map_filter_def)
qed

text \<open>
  C23: Creating a plant is one piece: exactly one plant with the requested, unreserved and so far
  unused slug and the requested status, one owner of it with the given password hash, one
  positive price and one entry of the log are added, and nothing else changes. A founding rank
  is claimed only on request; it lies between 1 and 50 and is above every earlier one.
\<close>

theorem plant_created_whole:
  assumes "runs (create_tx p v hash actor) w (i, slug) w'" "w_role w = AdminRole" "validate p = Inr v"
  shows "slug = vd_slug v \<and> slugPattern slug \<and> slug \<notin> set (db_reserved (w_db w)) \<and>
    slug \<notin> pl_Slug ` set (db_plants (w_db w)) \<and>
    (\<exists>q u pr l. w_db w' = (w_db w)\<lparr>db_plants := db_plants (w_db w) @ [q], db_users := db_users (w_db w) @ [u],
        db_prices := db_prices (w_db w) @ [pr], db_log := db_log (w_db w) @ [l]\<rparr> \<and>
      pl_ID q = i \<and> pl_Slug q = slug \<and> pl_Status q = vd_status v \<and>
      us_PlantID u = i \<and> us_Role u = ''owner'' \<and> us_PasswordHash u = Some hash \<and>
      pr_PlantID pr = i \<and> pr_PricePerKg pr = qp_StartingPriceKobo p \<and> 0 < pr_PricePerKg pr \<and>
      al_PlantID l = Some i \<and> al_ActorID l = actor \<and> al_Action l = ''plant.created'' \<and>
      (\<forall>r. pl_FoundingRank q = Some r \<longrightarrow> qp_ClaimFoundingSpot p \<and> 1 \<le> r \<and> r \<le> 50 \<and>
        (\<forall>x \<in> set (db_plants (w_db w)). \<forall>s. pl_FoundingRank x = Some s \<longrightarrow> s < r)))"
proof -
  define terms where "terms = (case qp_TermsAcceptedAt p of None \<Rightarrow> [] | Some t \<Rightarrow> [(''terms_accepted_at'', DTime t)])"
  from assms(1,2) obtain rank w1 w2 w3 w4 q u pr where fresh: "vd_slug v \<notin> set (db_reserved (w_db w))"
    and rank: "runs (founding_rank (qp_ClaimFoundingSpot p)) (stepped w (w_db w)) rank w1"
    and q: "runs (exec_insert plants_tab (new_plant p v rank)) w1 q w2"
    and u: "runs (exec_insert users_tab (new_owner (pl_ID q) v hash)) w2 u w3"
    and pr: "runs (exec_insert prices_tab (\<lambda>now i. \<lparr>pr_ID = i, pr_PlantID = pl_ID q,
             pr_PricePerKg = qp_StartingPriceKobo p, pr_EffectiveFrom = now, pr_SetBy = None, pr_CreatedAt = now\<rparr>)) w3 pr w4"
    and l: "runs (Log (Some (pl_ID q)) actor ''plant.created'' (vd_slug v) terms) w4 () w'"
    and out: "i = pl_ID q" "slug = vd_slug v"
    unfolding create_tx_def terms_def [symmetric] Let_def
    by (auto simp: runs_bind runs_query runs_if runs_fail runs_case_sum runs_attempt runs_ret)
  note r = runs_founding_rank [OF rank]
  have price: "0 < qp_StartingPriceKobo p" and slug: "slugPattern (vd_slug v)"
    using assms(3) by (auto simp: validate_def Let_def split: if_splits)
  have dbs: "w_db w2 = (w_db w)\<lparr>db_plants := db_plants (w_db w) @ [q]\<rparr>"
    "w_db w3 = (w_db w2)\<lparr>db_users := db_users (w_db w2) @ [u]\<rparr>"
    "w_db w4 = (w_db w3)\<lparr>db_prices := db_prices (w_db w3) @ [pr]\<rparr>"
    using q u pr r assms(2) by (simp_all add: runs_exec_insert)
  obtain l' where l': "w_db w' = (w_db w4)\<lparr>db_log := db_log (w_db w4) @ [l']\<rparr>" "al_PlantID l' = Some (pl_ID q)"
    "al_ActorID l' = actor" "al_Action l' = ''plant.created''"
    using l by (auto simp: Log_def runs_bind runs_exec_insert runs_ret inserted_def)
  have row: "pl_Slug q = vd_slug v" "pl_Status q = vd_status v" "pl_FoundingRank q = rank"
    "us_PlantID u = pl_ID q" "us_Role u = ''owner''" "us_PasswordHash u = Some hash"
    "pr_PlantID pr = pl_ID q" "pr_PricePerKg pr = qp_StartingPriceKobo p"
    using q u pr by (simp_all add: runs_exec_insert inserted_def new_plant_def new_owner_def)
  have "plants_viol (w_db w2) = None" using q by (auto simp: runs_exec_insert)
  then have "distinct (map pl_Slug (db_plants (w_db w2)))" unfolding plants_viol_def no_violation by blast
  then have unused: "vd_slug v \<notin> pl_Slug ` set (db_plants (w_db w))" using dbs(1) row(1) by simp
  have "qp_ClaimFoundingSpot p \<and> 1 \<le> s \<and> s \<le> 50 \<and> (\<forall>x \<in> set (db_plants (w_db w)). \<forall>t. pl_FoundingRank x = Some t \<longrightarrow> t < s)"
    if "pl_FoundingRank q = Some s" for s
    using that row(3) r assms(2) claimed_ranks_bound [of "w_db w"] by (fastforce simp: FoundingSpots_def split: if_splits)
  moreover have "w_db w' = (w_db w)\<lparr>db_plants := db_plants (w_db w) @ [q], db_users := db_users (w_db w) @ [u],
        db_prices := db_prices (w_db w) @ [pr], db_log := db_log (w_db w) @ [l']\<rparr>"
    by (simp add: l'(1) dbs)
  ultimately show ?thesis
    using fresh slug unused out row l' price by (intro conjI exI [of _ q] exI [of _ u] exI [of _ pr] exI [of _ l']) simp_all
qed

abbreviation "demo_application \<equiv> \<lparr>qp_Name = ''N'', qp_Slug = ''new'', qp_City = '''', qp_Phone = '''', qp_Address = '''',
  qp_State = ''Lagos'', qp_PrimaryColor = '''', qp_ButtonColor = '''', qp_SecondaryColor = '''', qp_ButtonTextColor = '''',
  qp_LogoPath = '''', qp_LegalBusinessName = ''L'', qp_CACNumber = ''1'', qp_NMDPRALicenseNumber = ''2'', qp_BankCode = ''3'',
  qp_BankName = '''', qp_BankAccountNumber = ''4'', qp_BankAccountName = '''', qp_PaystackSubaccountCode = '''',
  qp_DeferSettlement = True, qp_ClaimFoundingSpot = True, qp_OwnerName = ''O'', qp_OwnerPhone = ''5'',
  qp_OwnerEmail = ''o@x.ng'', qp_OwnerPassword = ''secret'', qp_StartingPriceKobo = 120000, qp_TermsAcceptedAt = Some 9,
  qp_Status = ''provisioning''\<rparr>"

lemma demo_valid: "case validate demo_application of Inl e \<Rightarrow> False
    | Inr v \<Rightarrow> vd_slug v = ''new'' \<and> vd_status v = ''provisioning'' \<and> vd_ownerPhone v = ''5''"
  by code_simp

theorem plant_created_whole_witness:
  "\<exists>v i w'. runs (create_tx demo_application v ''h'' None) ((demo_tx (demo_db []))\<lparr>w_role := AdminRole\<rparr>) (i, ''new'') w' \<and>
    length (db_plants (w_db w')) = 3"
proof -
  let ?w = "(demo_tx (demo_db []))\<lparr>w_role := AdminRole\<rparr>"
  obtain v where v: "validate demo_application = Inr v" "vd_slug v = ''new''" "vd_status v = ''provisioning''" "vd_ownerPhone v = ''5''"
    using demo_valid by (cases "validate demo_application") auto
  have claimed: "claimed_ranks (demo_db []) = 0" by (simp add: claimed_ranks_def demo_defs List.map_filter_def)
  have "\<exists>i w'. runs (create_tx demo_application v ''h'' None) ?w (i, ''new'') w'"
    using v claimed by (simp add: create_tx_def founding_rank_def advisory_lock_def runs_exec_stmt runs_case_sum runs_attempt_result Let_def
       run_evals new_plant_def new_owner_def Log_def exec_insert_def exec_stmt_def checked_def FoundingSpots_def claimed_ranks_def) auto
  then obtain i w' where run: "runs (create_tx demo_application v ''h'' None) ?w (i, ''new'') w'" by blast
  have "w_role ?w = AdminRole" by simp
  from plant_created_whole [OF run this v(1)] obtain q where "db_plants (w_db w') = db_plants (demo_db []) @ [q]" by auto
  then have "length (db_plants (w_db w')) = 3" by (simp add: demo_db_def)
  with run show ?thesis by blast
qed

section \<open>The waiting list\<close>

lemma runs_signup_tx:
  assumes "runs (signup_tx name key email state source) w res w'" "w_role w = AdminRole"
  shows "sr_Created res \<and> key \<notin> by_PhoneKey ` set (db_buyers (w_db w)) \<and>
    (\<exists>b. w_db w' = (w_db w)\<lparr>db_buyers := db_buyers (w_db w) @ [b]\<rparr> \<and> by_PhoneKey b = key \<and>
      by_OfferRank b = (if offers_claimed (w_db w) < 50 then Some (int (offers_claimed (w_db w)) + 1) else None) \<and>
      sr_OfferRank res = (case by_OfferRank b of None \<Rightarrow> 0 | Some r \<Rightarrow> r))"
proof -
  from assms obtain e w1 w2 b where q: "query_row (\<lambda>d. first_row (\<lambda>b. by_PhoneKey b = key) (db_buyers d)) (stepped w (w_db w)) = (Inl e, w1)"
    and e: "errors_is e ErrNoRows"
    and ins: "runs (exec_insert buyers_tab (new_buyer name key email state source
        (if int (offers_claimed (visible_db (w_role w1) (w_db w1))) < OfferSpots
         then Some (int (offers_claimed (visible_db (w_role w1) (w_db w1))) + 1) else None))) (stepped w1 (w_db w1)) b w'"
    and res: "res = \<lparr>sr_Created = True, sr_OfferRank = (case (if int (offers_claimed (visible_db (w_role w1) (w_db w1))) < OfferSpots
         then Some (int (offers_claimed (visible_db (w_role w1) (w_db w1))) + 1) else None) of None \<Rightarrow> 0 | Some r \<Rightarrow> r)\<rparr>"
    by (auto simp: signup_tx_def advisory_lock_def runs_bind runs_exec_stmt runs_query runs_attempt_result runs_case_sum
        runs_if runs_fail runs_ret Let_def split: if_splits)
  note s = query_row_result [OF q]
  have "first_row (\<lambda>b. by_PhoneKey b = key) (db_buyers (w_db w)) = None"
    using q e assms(2) by (auto simp: query_row_def query_def exec_stmt_def bind_def fail_def ret_def Let_def
        split: if_splits option.splits)
  then have "key \<notin> by_PhoneKey ` set (db_buyers (w_db w))" by (auto simp: first_row_None)
  moreover have "by_PhoneKey b = key" "w_db w' = (w_db w)\<lparr>db_buyers := db_buyers (w_db w) @ [b]\<rparr>"
    "by_OfferRank b = (if offers_claimed (w_db w) < 50 then Some (int (offers_claimed (w_db w)) + 1) else None)"
    "sr_OfferRank res = (case by_OfferRank b of None \<Rightarrow> 0 | Some r \<Rightarrow> r)" "sr_Created res"
    using ins res s(1,2) assms(2)
    by (auto simp: runs_exec_insert inserted_def new_buyer_def buyers_tab_def OfferSpots_def Let_def)
  ultimately show ?thesis by blast
qed

lemma signup_tx_again:
  assumes "signup_tx name key email state source w = (Inl already_on_list, w')" "w_role w = AdminRole"
  shows "key \<in> by_PhoneKey ` set (db_buyers (w_db w))"
proof (rule ccontr)
  assume "key \<notin> by_PhoneKey ` set (db_buyers (w_db w))"
  then have "first_row (\<lambda>b. by_PhoneKey b = key) (db_buyers (w_db w)) = None" by (auto simp: first_row_None)
  with assms show False
    by (auto simp: signup_tx_def advisory_lock_def bind_def exec_stmt_def attempt_def query_row_def query_def
        exec_insert_def checked_def fail_def ret_def already_on_list_def Let_def split: if_splits option.splits)
qed

lemma with_admin_tx_sentinel:
  assumes "with_admin_tx fn w = (Inl (Sentinel m), w')"
  obtains w1 w2 where "fn w1 = (Inl (Sentinel m), w2)" "w_role w1 = AdminRole" "w_db w1 = w_db w" "w_db w' = w_db w"
proof -
  obtain r u where u: "request DriverErr w = (r, u)" by (cases "request DriverErr w")
  from request_db [OF u] u assms show thesis
    by (intro that [of "in_tx AdminRole u" "snd (fn (in_tx AdminRole u))"])
      (auto simp: with_admin_tx_def in_tx_def commit_def request_def Let_def
        split: prod.splits sum.splits if_splits fault.splits)
qed

text \<open>
  C24: A number signs up once and the offer has at most fifty spots: a sign-up has a number of ten
  digits, and it reports a new entry exactly if the number was not on the list. Then one row with
  the number is appended, whose offer rank is the next one if fewer than fifty spots were taken
  and is missing otherwise, which is reported as 0; if the number was there, nothing changes.
\<close>

theorem signup_once:
  assumes "runs (Signup parse sp) w res w'"
  shows "length (NormalizePhone (sp_Phone sp)) = 10 \<and>
    (sr_Created res \<longleftrightarrow> NormalizePhone (sp_Phone sp) \<notin> by_PhoneKey ` set (db_buyers (w_db w))) \<and>
    (\<not> sr_Created res \<longrightarrow> w_db w' = w_db w) \<and>
    (sr_Created res \<longrightarrow> (\<exists>b. w_db w' = (w_db w)\<lparr>db_buyers := db_buyers (w_db w) @ [b]\<rparr> \<and>
      by_PhoneKey b = NormalizePhone (sp_Phone sp) \<and>
      by_OfferRank b = (if offers_claimed (w_db w) < 50 then Some (int (offers_claimed (w_db w)) + 1) else None) \<and>
      sr_OfferRank res = (case by_OfferRank b of None \<Rightarrow> 0 | Some r \<Rightarrow> r)))"
proof -
  let ?key = "NormalizePhone (sp_Phone sp)"
  from assms obtain name email state source r w1 where len: "length ?key = 10"
    and tx: "with_admin_tx (signup_tx name ?key email state source) w = (r, w1)"
    and out: "runs (case r of Inr result \<Rightarrow> ret result
       | Inl e \<Rightarrow> if e = already_on_list then ret \<lparr>sr_Created = False, sr_OfferRank = 0\<rparr> else fail e) w1 res w'"
    by (auto simp: Signup_def runs_bind runs_attempt_result runs_fail Let_def split: if_splits)
  show ?thesis
  proof (cases r)
    case (Inr a)
    with tx have "runs (with_admin_tx (signup_tx name ?key email state source)) w a w1" by (simp add: runs_def)
    then obtain w2 w3 where 1: "w_role w2 = AdminRole" "w_db w2 = w_db w" "runs (signup_tx name ?key email state source) w2 a w3"
      "w_db w1 = w_db w3" by (rule runs_with_admin_tx)
    from Inr out 1(4) have out: "res = a" "w_db w' = w_db w3" by (simp_all add: runs_ret)
    show ?thesis unfolding out using runs_signup_tx [OF 1(3,1), unfolded 1(2)] len by blast
  next
    case (Inl e)
    with out have 1: "e = already_on_list" "res = \<lparr>sr_Created = False, sr_OfferRank = 0\<rparr>" "w' = w1"
      by (auto simp: runs_fail runs_ret split: if_splits)
    from tx Inl 1(1) have "with_admin_tx (signup_tx name ?key email state source) w = (Inl (Sentinel ''already on the list''), w1)"
      by (simp add: already_on_list_def)
    then obtain w2 w3 where 2: "signup_tx name ?key email state source w2 = (Inl (Sentinel ''already on the list''), w3)"
      "w_role w2 = AdminRole" "w_db w2 = w_db w" "w_db w1 = w_db w"
      by (rule with_admin_tx_sentinel)
    from signup_tx_again [unfolded already_on_list_def, OF 2(1,2)] 2 1 len show ?thesis by simp
  qed
qed

abbreviation "demo_buyer \<equiv> \<lparr>sp_Name = ''A'', sp_Phone = ''08012345678'', sp_Email = '''', sp_State = ''Lagos'', sp_Source = ''''\<rparr>"

theorem signup_once_witness:
  "\<exists>res w'. runs (Signup (\<lambda>e. True) demo_buyer) (demo_world (demo_db [])) res w' \<and> sr_Created res"
proof -
  have evals: "TrimSpace ''A'' = ''A''" "TrimSpace '''' = ''''" "TrimSpace ''Lagos'' = ''Lagos''"
    "NormalizePhone ''08012345678'' = ''8012345678''" "''Lagos'' \<in> set NigerianStates" by code_simp+
  have "\<exists>res w'. runs (Signup (\<lambda>e. True) demo_buyer) (demo_world (demo_db [])) res w'"
    by (simp add: Signup_def evals runs_def bind_def attempt_def with_admin_tx_def request_def signup_tx_def advisory_lock_def
        exec_stmt_def query_row_def query_def exec_insert_def checked_def fail_def ret_def in_tx_def commit_def
        buyers_tab_def buyers_viol_def new_buyer_def OfferSpots_def offers_claimed_def demo_defs Let_def)
  then obtain res w' where run: "runs (Signup (\<lambda>e. True) demo_buyer) (demo_world (demo_db [])) res w'" by blast
  with signup_once [OF run] have "sr_Created res" by (simp add: demo_db_def)
  with run show ?thesis by blast
qed

end
