(* ===== verification/SafeMethods.thy ===== *)
theory SafeMethods
  imports HandlerRules SystemFixtures
begin

text \<open>
  The CSRF check lets every \<^verbatim>\<open>GET\<close> through, so that no page may change what belongs to a tenant.
  What a page may do is the relation \<open>only_default_pumps\<close>: \<open>pumps.List\<close> gives a plant without
  pumps a first one. In Redis a page may lengthen the life of sessions and count the visits of an
  address, the relation \<open>only_visits\<close>. The route back from the payment service is the one that does
  more.
\<close>

section \<open>The database\<close>

definition only_default_pumps :: "db \<Rightarrow> db \<Rightarrow> bool" where
  "only_default_pumps d d' \<longleftrightarrow>
     (\<exists>ps. d' = d\<lparr>db_pumps := db_pumps d @ ps\<rparr> \<and> distinct (map pu_PlantID ps) \<and>
       (\<forall>p \<in> set ps. pu_Name p = ''Pump 1'' \<and> pu_Status p = ''working'' \<and>
          (\<forall>q \<in> set (db_pumps d). pu_PlantID q \<noteq> pu_PlantID p)))"

lemma only_default_pumps_refl: "only_default_pumps d d"
  unfolding only_default_pumps_def by (intro exI [of _ "[]"]) simp

lemma only_default_pumps_trans:
  assumes "only_default_pumps d d'" "only_default_pumps d' d''"
  shows "only_default_pumps d d''"
proof -
  obtain ps where ps: "d' = d\<lparr>db_pumps := db_pumps d @ ps\<rparr>" "distinct (map pu_PlantID ps)"
    "\<forall>p \<in> set ps. pu_Name p = ''Pump 1'' \<and> pu_Status p = ''working'' \<and> (\<forall>q \<in> set (db_pumps d). pu_PlantID q \<noteq> pu_PlantID p)"
    using assms(1) unfolding only_default_pumps_def by blast
  obtain qs where qs: "d'' = d'\<lparr>db_pumps := db_pumps d' @ qs\<rparr>" "distinct (map pu_PlantID qs)"
    "\<forall>p \<in> set qs. pu_Name p = ''Pump 1'' \<and> pu_Status p = ''working'' \<and> (\<forall>q \<in> set (db_pumps d'). pu_PlantID q \<noteq> pu_PlantID p)"
    using assms(2) unfolding only_default_pumps_def by blast
  have "pu_PlantID ` set ps \<inter> pu_PlantID ` set qs = {}"
    using qs(3) ps(1) by auto
  then have "distinct (map pu_PlantID (ps @ qs))" using ps(2) qs(2) by simp
  moreover have "d'' = d\<lparr>db_pumps := db_pumps d @ ps @ qs\<rparr>" using ps(1) qs(1) by simp
  moreover have "\<forall>p \<in> set (ps @ qs). pu_Name p = ''Pump 1'' \<and> pu_Status p = ''working'' \<and>
      (\<forall>q \<in> set (db_pumps d). pu_PlantID q \<noteq> pu_PlantID p)"
    using ps(1,3) qs(3) by auto
  ultimately show ?thesis unfolding only_default_pumps_def by blast
qed

interpretation page: handler_relation only_default_pumps
  by unfold_locales (fact only_default_pumps_refl, erule (1) only_default_pumps_trans)

text \<open>The default pump is inserted only where the role sees all pumps of the plant, and sees none.\<close>

lemma page_EnsureDefault [keeps_rules]: "keeps only_default_pumps (EnsureDefault q)"
proof -
  have "only_default_pumps (w_db w) d"
    if "(let r = new_pump q ''Pump 1'' ''working'' 1 (w_now w) (e_uuid (w_env w) (w_tick w))
         in if \<not> (\<forall>p \<in> set (db_pumps (visible_db (w_role w) (w_db w))). pu_PlantID p \<noteq> q) then Inr (None, w_db w)
            else if visible (w_role w) (t_plant pumps_tab r)
            then checked pumps_tab (Some r) (t_put pumps_tab (t_rows pumps_tab (w_db w) @ [r]) (w_db w))
            else Inl ''42501'') = Inr (a, d)" for w a d
  proof (cases "d = w_db w")
    case False
    let ?r = "new_pump q ''Pump 1'' ''working'' 1 (w_now w) (e_uuid (w_env w) (w_tick w))"
    have none: "\<forall>p \<in> set (db_pumps (visible_db (w_role w) (w_db w))). pu_PlantID p \<noteq> q"
      and sees: "visible (w_role w) (Some q)" and d: "d = w_db w\<lparr>db_pumps := db_pumps (w_db w) @ [?r]\<rparr>"
      using that False by (auto simp: Let_def checked_def new_pump_def split: if_splits option.splits)
    have "\<forall>p \<in> set (db_pumps (w_db w)). pu_PlantID p \<noteq> q"
      using none sees by (cases "w_role w" rule: role.exhaust) (auto simp: visible_db_def restrict_db_def visible_def split: option.splits)
    with d show ?thesis
      unfolding only_default_pumps_def by (intro exI [of _ "[?r]"]) (simp add: new_pump_def)
  qed (simp add: only_default_pumps_refl)
  then have "keeps only_default_pumps (exec_insert_when pumps_tab (\<lambda>v d r. \<forall>p \<in> set (db_pumps v). pu_PlantID p \<noteq> q)
      (new_pump q ''Pump 1'' ''working'' 1))"
    unfolding exec_insert_when_def by (intro page.keeps_exec_stmt) blast
  then show ?thesis
    unfolding EnsureDefault_def by (intro keeps_rules)
qed

lemma page_lists [keeps_rules]:
  "keeps only_default_pumps (pumps_List q)" "keeps only_default_pumps (Stats q)"
  "keeps only_default_pumps (reviews_List q k)" "keeps only_default_pumps (Week q)"
  "keeps only_default_pumps (ListStaff q)" "keeps only_default_pumps (OpenShiftStarts q)"
  "keeps only_default_pumps (loadCurrentPrice q)" "keeps only_default_pumps (listTerminalManageStaff q)"
  unfolding pumps_List_def Stats_def reviews_List_def Week_def ListStaff_def OpenShiftStarts_def
    loadCurrentPrice_def listTerminalManageStaff_def Let_def
  by (intro keeps_rules)+

lemma page_loads [keeps_rules]:
  "keeps only_default_pumps m \<Longrightarrow> keeps only_default_pumps (loaded m)"
  "keeps only_default_pumps (reviews_with f k q)"
  "keeps only_default_pumps (loadOwnerReviews plant)" "keeps only_default_pumps (loadTerminalReviews plant)"
  "keeps only_default_pumps (loadOwnerTickets q)" "keeps only_default_pumps (loadOwnerStaff q)"
  "keeps only_default_pumps (loadOwnerShifts q)" "keeps only_default_pumps (loadOwnerCashMovements q)"
  "keeps only_default_pumps (loadOwnerPriceHistory q)" "keeps only_default_pumps (loadOwnerHours q)"
  "keeps only_default_pumps (loadOwnerPumps q)" "keeps only_default_pumps (loadActivity i n)"
  "keeps only_default_pumps (loadPlantProfile q)" "keeps only_default_pumps (loadDaySales q)"
  "keeps only_default_pumps (latest_price q)"
  unfolding loaded_def reviews_with_def loadOwnerReviews_def loadTerminalReviews_def loadOwnerTickets_def
    loadOwnerStaff_def loadOwnerShifts_def loadOwnerCashMovements_def loadOwnerPriceHistory_def loadOwnerHours_def
    loadOwnerPumps_def loadActivity_def loadPlantProfile_def loadDaySales_def latest_price_def Let_def
  by (intro keeps_rules; assumption?)+

lemma page_tx:
  "keeps only_default_pumps (loadOwnerDashboard plant)" "keeps only_default_pumps (terminal_tx plant)"
  unfolding loadOwnerDashboard_def terminal_tx_def Let_def
  by (intro keeps_rules)+

lemma page_handlers [step_rules]:
  "hkeeps only_default_pumps (ownerDashboardHandler sv q a r)" "hkeeps only_default_pumps (terminalPageHandler sv q r)"
  by (intro page.dashboard_page page.terminal_page page.keeps_WithTenant page_tx)+

section \<open>Redis\<close>

definition visit_counters :: "http_request \<Rightarrow> string list" where
  "visit_counters r = [''accounts_resolve_rl:'' @ clientIP r, ''login_finder_rl:'' @ clientIP r]"

definition only_visits :: "http_request \<Rightarrow> store \<Rightarrow> store \<Rightarrow> bool" where
  "only_visits r m m' \<longleftrightarrow> (\<forall>k. m' k = m k \<or> k \<in> set (visit_counters r) \<or>
     HasPrefix k keyPrefix \<and> map_option fst (m' k) = map_option fst (m k))"

lemma only_visits_refl: "only_visits r m m"
  by (simp add: only_visits_def)

lemma only_visits_trans: "only_visits r a b \<Longrightarrow> only_visits r b c \<Longrightarrow> only_visits r a c"
  unfolding only_visits_def by metis

definition quiet :: "'s redis \<Rightarrow> http_request \<Rightarrow> ('s, 'a) hact \<Rightarrow> bool" where
  "quiet rdb r m \<longleftrightarrow>
     (\<forall>view ws. redis_ok rdb view \<longrightarrow> only_visits r (view (snd ws)) (view (snd (snd (m ws)))))"

named_theorems quiet_rules \<open>actions that leave in Redis what a visit may leave\<close>

lemma quiet_ret [quiet_rules]: "quiet rdb r (ret a)" "quiet rdb r (fail e)"
  by (simp_all add: quiet_def ret_def fail_def only_visits_refl)

lemma quiet_db_act [quiet_rules]: "quiet rdb r (db_act m)" "quiet rdb r (in_tenant p n)"
  by (simp_all add: quiet_def in_tenant_def attempt_def db_act_def only_visits_refl case_prod_unfold)

lemma quiet_bind [quiet_rules]:
  assumes "quiet rdb r m" "\<And>a. quiet rdb r (f a)"
  shows "quiet rdb r (bind m f)"
proof (unfold quiet_def, intro allI impI)
  fix view :: "'a \<Rightarrow> store" and ws :: "world \<times> 'a" assume ok: "redis_ok rdb view"
  obtain x ws1 where m: "m ws = (x, ws1)" by (cases "m ws")
  with assms(1) ok have "only_visits r (view (snd ws)) (view (snd ws1))"
    by (metis quiet_def snd_conv)
  moreover have "only_visits r (view (snd ws1)) (view (snd (snd (f a ws1))))" for a
    using assms(2) [of a] ok unfolding quiet_def by blast
  ultimately show "only_visits r (view (snd ws)) (view (snd (snd (bind m f ws))))"
    using m by (cases x) (auto simp: bind_def intro: only_visits_trans)
qed

lemma quiet_attempt [quiet_rules]: "quiet rdb r m \<Longrightarrow> quiet rdb r (attempt m)"
  by (simp add: quiet_def attempt_def case_prod_unfold)

lemma quiet_ignore [quiet_rules]: "quiet rdb r m \<Longrightarrow> quiet rdb r (ignore m)"
  unfolding ignore_def by (intro quiet_rules)

lemma quiet_cases [quiet_rules]:
  "quiet rdb r m \<Longrightarrow> quiet rdb r n \<Longrightarrow> quiet rdb r (if c then m else n)"
  "quiet rdb r m \<Longrightarrow> (\<And>a. quiet rdb r (f a)) \<Longrightarrow> quiet rdb r (case x of None \<Rightarrow> m | Some a \<Rightarrow> f a)"
  "(\<And>e. quiet rdb r (g e)) \<Longrightarrow> (\<And>a. quiet rdb r (f a)) \<Longrightarrow> quiet rdb r (case y of Inl e \<Rightarrow> g e | Inr a \<Rightarrow> f a)"
  "(\<And>a b. quiet rdb r (h a b)) \<Longrightarrow> quiet rdb r (case z of (a, b) \<Rightarrow> h a b)"
  by (auto split: option.splits sum.splits prod.splits)

lemma quiet_typed [quiet_rules]: "quiet rdb r (as_string v)" "quiet rdb r (as_int v)" "quiet rdb r (as_bool v)"
  by (simp_all add: as_string_def as_int_def as_bool_def quiet_ret split: reply.splits)

text \<open>A command is quiet when its documented effect is, whether or not it is answered.\<close>

lemma quiet_send:
  assumes "\<And>m. only_visits r m (snd (redis_doc c m))"
  shows "quiet rdb r (send rdb c)"
proof (unfold quiet_def, intro allI impI)
  fix view :: "'a \<Rightarrow> store" and ws :: "world \<times> 'a" assume ok: "redis_ok rdb view"
  obtain x s' where x: "rdb c (snd ws) = (x, s')" by fastforce
  have "view s' = view (snd ws) \<or> view s' = snd (redis_doc c (view (snd ws)))"
    using x ok [unfolded redis_ok_def, THEN spec [of _ c], THEN spec [of _ "snd ws"]] by (cases x) auto
  with assms x show "only_visits r (view (snd ws)) (view (snd (snd (send rdb c ws))))"
    by (auto simp: send_def only_visits_refl)
qed

lemma quiet_reads [quiet_rules]:
  "quiet rdb r (send rdb (GET k))" "quiet rdb r (send rdb (TTL k))" "quiet rdb r (send rdb (EXISTS k))"
  "quiet rdb r (send rdb PING)"
  by (rule quiet_send; simp add: only_visits_refl)+

lemma quiet_touch [quiet_rules]: "quiet rdb r (send rdb (EXPIRE (keyPrefix @ tok) t))"
  by (rule quiet_send) (auto simp: only_visits_def HasPrefix_iff split: option.splits)

lemma quiet_count:
  assumes "k \<in> set (visit_counters r)"
  shows "quiet rdb r (send rdb (INCR k))" "quiet rdb r (send rdb (EXPIRE k t))"
  by (rule quiet_send; use assms in \<open>auto simp: only_visits_def split: option.splits\<close>)+

lemma quiet_commands [quiet_rules]:
  "quiet rdb r (rGet rdb k)" "quiet rdb r (rTTL rdb k)" "quiet rdb r (rExists rdb k)"
  "quiet rdb r (rExpire rdb (keyPrefix @ tok) t)"
  unfolding rGet_def rTTL_def rExists_def rExpire_def by (intro quiet_rules)+

lemma quiet_limit [quiet_rules]:
  "quiet rdb r (checkIPRateLimit rdb ''accounts_resolve_rl:'' (clientIP r) n t)"
  "quiet rdb r (checkIPRateLimit rdb ''login_finder_rl:'' (clientIP r) n t)"
  unfolding checkIPRateLimit_def rIncr_def rExpire_def Let_def
  by (intro quiet_rules quiet_count; simp add: visit_counters_def)+

lemma quiet_sessions [quiet_rules]:
  "quiet rdb r (session_Load rdb cd tok)" "quiet rdb r (session_Touch rdb tok t)" "quiet rdb r (Peek rdb tok)"
  unfolding session_Load_def session_Touch_def Peek_def parse_user_def by (intro quiet_rules)+

lemma quiet_middleware [quiet_rules]:
  "quiet rdb r (EnsurePublicCSRFCookie sv r)" "quiet (sv_Redis sv) r (load_cookie sv r kind)"
  "quiet (sv_Redis sv) r k \<Longrightarrow> quiet (sv_Redis sv) r (renewing sv kind tok t k)"
  "quiet (sv_Redis sv) r (rate_limited sv ''login_finder_rl:'' r n t)"
  unfolding EnsurePublicCSRFCookie_def load_cookie_def renewing_def rate_limited_def
  by (intro quiet_rules; assumption?)+

lemma quiet_guards [quiet_rules]:
  "(\<And>p. quiet (sv_Redis sv) r (h p r)) \<Longrightarrow> quiet (sv_Redis sv) r (Tenant sv h r)"
  "quiet (sv_Redis sv) r (g r) \<Longrightarrow> quiet (sv_Redis sv) r (CSRF sv a g r)"
  "quiet (sv_Redis sv) r (g r) \<Longrightarrow> quiet (sv_Redis sv) r (marketingHostOnly sv g r)"
  "(\<And>a. quiet (sv_Redis sv) r (k a r)) \<Longrightarrow> quiet (sv_Redis sv) r (RequireOwnerSession sv q k r)"
  "(\<And>a. quiet (sv_Redis sv) r (k a r)) \<Longrightarrow> quiet (sv_Redis sv) r (RequireAdminSession sv k r)"
  "(\<And>a. quiet (sv_Redis sv) r (k a r)) \<Longrightarrow> quiet (sv_Redis sv) r (RequireStaffSession sv q k r)"
  unfolding Tenant_def CSRF_def marketingHostOnly_def RequireOwnerSession_def RequireAdminSession_def
    RequireStaffSession_def Let_def
  by (intro quiet_rules; assumption?; blast?)+

lemma quiet_hosts [quiet_rules]:
  "(\<And>p. quiet (sv_Redis sv) r (h p r)) \<Longrightarrow> quiet (sv_Redis sv) r (rootOrTenant sv h r)"
  "(\<And>p. quiet (sv_Redis sv) r (h p r)) \<Longrightarrow> quiet (sv_Redis sv) r (tenantOrReview sv h r)"
  unfolding rootOrTenant_def tenantOrReview_def serveTenantOrReview_def marketingLandingHandler_def Let_def
  by (intro quiet_rules; assumption?; blast?)+

lemma quiet_customer [quiet_rules]:
  "quiet (sv_Redis sv) r (receiptsPageHandler sv q r)" "quiet (sv_Redis sv) r (reviewPageHandler sv q r)"
  "quiet (sv_Redis sv) r (accountsResolveHandler sv r)" "quiet rdb r (plantSummaryHandler q r)"
  "quiet (sv_Redis sv) r (customerHomeHandler sv q r)"
  unfolding receiptsPageHandler_def loadReceiptSession_def reviewPageHandler_def accountsResolveHandler_def
    renderReceiptsLookup_def renderReceipts_def plantSummaryHandler_def customerHomeHandler_def Let_def
  by (intro quiet_rules)+

lemma quiet_staff [quiet_rules]:
  "quiet (sv_Redis sv) r (loadCurrentTerminalSession sv i r)" "quiet (sv_Redis sv) r (terminalPumpQueueHandler sv q a r)"
  "quiet (sv_Redis sv) r (terminalPageHandler sv q r)"
  unfolding terminalPumpQueueHandler_def loadCurrentTerminalSession_def terminalPageHandler_def Let_def
  by (intro quiet_rules)+

lemma quiet_owner [quiet_rules]:
  "quiet rdb r (refresh_permissions i a)" "quiet (sv_Redis sv) r (ownerChangePasswordPageHandler sv q b r)"
  "quiet (sv_Redis sv) r (ownerLoginPageHandler sv q r)" "quiet (sv_Redis sv) r (ownerForgotPasswordPageHandler sv q r)"
  "quiet (sv_Redis sv) r (ownerResetPasswordPageHandler sv q r)" "quiet (sv_Redis sv) r (ownerDashboardHandler sv q b r)"
  unfolding refresh_permissions_def ownerChangePasswordPageHandler_def ownerLoginPageHandler_def
    ownerForgotPasswordPageHandler_def ownerResetPasswordPageHandler_def ownerDashboardHandler_def Let_def
  by (intro quiet_rules)+

lemma quiet_console [quiet_rules]:
  "quiet (sv_Redis sv) r (adminConsoleHandler sv a r)" "quiet (sv_Redis sv) r (adminPlantDetailHandler sv a r)"
  "quiet (sv_Redis sv) r (adminBuyersCSVHandler sv r)" "quiet (sv_Redis sv) r (adminLoginPageHandler sv r)"
  unfolding adminConsoleHandler_def adminPlantDetailHandler_def adminBuyersCSVHandler_def adminLoginPageHandler_def Let_def
  by (intro quiet_rules)+

lemma quiet_health [quiet_rules]: "quiet (sv_Redis sv) r (healthHandler (serverHealthChecks sv) r)"
proof -
  have all: "\<forall>c \<in> set cs. quiet (sv_Redis sv) r (snd c) \<Longrightarrow> quiet (sv_Redis sv) r (failing cs)"
    for cs :: "(string \<times> ('s, unit) hact) list" and sv :: "'s server"
    by (induction cs rule: failing.induct) (auto intro!: quiet_rules)
  have "quiet (sv_Redis sv) r (failing (serverHealthChecks sv))"
    by (intro all) (auto simp: serverHealthChecks_def intro!: quiet_rules)
  then show ?thesis unfolding healthHandler_def Let_def by (intro quiet_rules)
qed

lemma quiet_marketing [quiet_rules]:
  "quiet (sv_Redis sv) r (signupPageHandler sv r)" "quiet (sv_Redis sv) r (loginFinderHandler sv r)"
  "quiet (sv_Redis sv) r (pricingPageHandler sv r)" "quiet (sv_Redis sv) r (aboutPageHandler sv r)"
  "quiet (sv_Redis sv) r (termsPageHandler sv r)" "quiet (sv_Redis sv) r (privacyPageHandler sv r)"
  "quiet (sv_Redis sv) r (helpPageHandler sv r)" "quiet (sv_Redis sv) r (contactPageHandler sv r)"
  "quiet (sv_Redis sv) r (helpCategoryHandler sv r)" "quiet (sv_Redis sv) r (helpArticleHandler sv r)"
  unfolding signupPageHandler_def loginFinderHandler_def pricingPageHandler_def aboutPageHandler_def
    termsPageHandler_def privacyPageHandler_def helpPageHandler_def contactPageHandler_def
    helpCategoryHandler_def helpArticleHandler_def static_page_def Let_def
  by (intro quiet_rules)+

section \<open>Every safe route\<close>

text \<open>
  C30: A GET request, on every route but the one on which the payment service sends the customer
  back, changes nothing in the database except that plants without pumps may get their first
  pump, and nothing in Redis except that sessions may last longer and that the visits of the
  request's address to the two routes that are limited are counted - whatever the request holds
  and whatever fails. The CSRF check lets these requests through.
\<close>

theorem get_requests_safe:
  fixes sv :: "'s server"
  assumes "(''GET'', pattern, h) \<in> set (MountHandlers sv)" "pattern \<noteq> ''/tickets/{reference}/callback''"
    and "h r ws = (x, ws')"
  shows "only_default_pumps (w_db (fst ws)) (w_db (fst ws')) \<and>
    (\<forall>view. redis_ok (sv_Redis sv) view \<longrightarrow> only_visits r (view (snd ws)) (view (snd ws')))"
proof -
  have "hkeeps only_default_pumps (h r)"
    using assms(1,2)
    unfolding MountHandlers_def mounted_def probe_routes_def page_routes_def public_routes_def tenant_routes_def
      receipt_handlers_def staff_handlers_def owner_handlers_def admin_handlers_def
    by (auto simp: tenant_public_def staff_group_def owner_group_def admin_group_def intro!: step_rules)
  then have "only_default_pumps (w_db (fst ws)) (w_db (fst ws'))"
    using assms(3) by (metis hkeeps_def snd_conv)
  moreover have "quiet (sv_Redis sv) r (h r)"
    using assms(1,2)
    unfolding MountHandlers_def mounted_def probe_routes_def page_routes_def public_routes_def tenant_routes_def
      receipt_handlers_def staff_handlers_def owner_handlers_def admin_handlers_def
    by (auto simp: tenant_public_def staff_group_def owner_group_def admin_group_def intro!: quiet_rules)
  ultimately show ?thesis
    using assms(3) unfolding quiet_def by (metis snd_conv)
qed

theorem get_requests_safe_witness:
  "\<exists>x d m. tenantOrReview demo_server (\<lambda>p. terminalPageHandler demo_server (Some p))
     (demo_request ''GET'' ''a.gatstogo.com'' []) (demo_world (demo_db []), Map.empty) = (x, d, m) \<and>
     only_default_pumps (demo_db []) (w_db d) \<and> only_visits (demo_request ''GET'' ''a.gatstogo.com'' []) Map.empty m"
proof -
  let ?h = "tenantOrReview demo_server (\<lambda>p. terminalPageHandler demo_server (Some p))"
  have "(''GET'', ''/terminal'', ?h) \<in> set (MountHandlers demo_server)"
    by (simp add: MountHandlers_def page_routes_def)
  moreover have "''/terminal'' \<noteq> ''/tickets/{reference}/callback''" by simp
  moreover obtain x d m where run: "?h (demo_request ''GET'' ''a.gatstogo.com'' []) (demo_world (demo_db []), Map.empty) = (x, d, m)"
    by (metis prod_cases3)
  ultimately have "only_default_pumps (demo_db []) (w_db d) \<and>
      (\<forall>view. redis_ok (sv_Redis demo_server) view \<longrightarrow>
         only_visits (demo_request ''GET'' ''a.gatstogo.com'' []) (view Map.empty) (view m))"
    using get_requests_safe [of "''/terminal''" ?h demo_server] by fastforce
  moreover have "redis_ok (sv_Redis demo_server) (\<lambda>m. m)" by (simp add: demo_server_def memory_redis_ok)
  ultimately show ?thesis using run by blast
qed

end
