(* ===== verification/Html.thy ===== *)
theory Html
  imports Format
begin

text \<open>
  Documents as the components of \<^verbatim>\<open>web/templates\<close> build them. The \<^verbatim>\<open>_templ.go\<close> files write
  pieces of markup to a buffer; here a component is the list of nodes that these pieces spell.
  Text and attribute values say how they reach the page: as written in the template, or through a
  function of the \<^verbatim>\<open>templ\<close> library, which is a parameter of \<open>render\<close>. White space between
  elements and the text of \<^verbatim>\<open>script\<close> elements are left out.

  \<open>render\<close> gives the bytes, \<open>scan\<close> reads them the way a browser finds tags, and
  \<open>scan_render\<close> shows that it finds the tags of the template and no others. What a visitor can
  do on a page is read off the nodes in \<open>Forms\<close>.
\<close>

section \<open>Nodes\<close>

datatype attr =
    At string string                  \<comment> \<open>as written in the template\<close>
  | Av string string                  \<comment> \<open>\<^verbatim>\<open>templ.ResolveAttributeValue\<close>\<close>
  | Asafe string string               \<comment> \<open>\<^verbatim>\<open>templ.SafeURL\<close>, escaped\<close>
  | Aurl string string                \<comment> \<open>\<^verbatim>\<open>templ.JoinURLErrs\<close> of a plain string, escaped\<close>
  | Aclass "(string \<times> bool) list"     \<comment> \<open>\<^verbatim>\<open>templ.CSSClasses\<close>, each with whether it is on\<close>
  | Astyle string                     \<comment> \<open>\<^verbatim>\<open>templruntime.SanitizeStyleAttributeValues\<close>, escaped\<close>
  | Aflag string                      \<comment> \<open>an attribute without a value\<close>

datatype node =
    El string "attr list" "node list"
  | Raw string                        \<comment> \<open>text of the template\<close>
  | Text string                       \<comment> \<open>\<^verbatim>\<open>templ.EscapeString\<close>\<close>
  | Doctype
  | JSONScript string json            \<comment> \<open>\<^verbatim>\<open>templ.JSONScript\<close>\<close>

text \<open>Elements without content.\<close>

definition void_tags :: "string list" where
  "void_tags = [''meta'', ''link'', ''input'', ''br'', ''img'', ''hr'']"

text \<open>Characters of the templates that a string literal does not hold.\<close>

definition apos :: string where "apos = [CHR 0x27]"
definition quote_mark :: string where "quote_mark = [CHR 0x22]"
definition dot_sep :: string where "dot_sep = [CHR 0xC2, CHR 0xB7]"
definition em_dash :: string where "em_dash = [CHR 0xE2, CHR 0x80, CHR 0x94]"
definition en_dash :: string where "en_dash = [CHR 0xE2, CHR 0x80, CHR 0x93]"
definition minus_sign :: string where "minus_sign = [CHR 0xE2, CHR 0x88, CHR 0x92]"
definition left_arrow :: string where "left_arrow = [CHR 0xE2, CHR 0x86, CHR 0x90]"
definition copyright_sign :: string where "copyright_sign = [CHR 0xC2, CHR 0xA9]"

lemmas text_chars = apos_def quote_mark_def dot_sep_def em_dash_def en_dash_def minus_sign_def left_arrow_def
  copyright_sign_def naira_sign_def star_def no_star_def

section \<open>Rendering\<close>

record templ_runtime =
  tm_EscapeString :: "string \<Rightarrow> string"
  tm_ResolveAttributeValue :: "string \<Rightarrow> string"
  tm_URL :: "string \<Rightarrow> string"
  tm_CSSClasses :: "(string \<times> bool) list \<Rightarrow> string"
  tm_Style :: "string \<Rightarrow> string"
  tm_JSON :: "json \<Rightarrow> string"

definition dquote :: char where "dquote = CHR 0x22"
definition lt_sign :: char where "lt_sign = CHR 0x3C"
definition gt_sign :: char where "gt_sign = CHR 0x3E"

fun attr_name :: "attr \<Rightarrow> string" where
  "attr_name (At n v) = n"
| "attr_name (Av n v) = n"
| "attr_name (Asafe n v) = n"
| "attr_name (Aurl n v) = n"
| "attr_name (Aclass cs) = ''class''"
| "attr_name (Astyle s) = ''style''"
| "attr_name (Aflag n) = n"

fun attr_text :: "templ_runtime \<Rightarrow> attr \<Rightarrow> string option" where
  "attr_text rt (At n v) = Some v"
| "attr_text rt (Av n v) = Some (tm_ResolveAttributeValue rt v)"
| "attr_text rt (Asafe n v) = Some (tm_EscapeString rt v)"
| "attr_text rt (Aurl n v) = Some (tm_EscapeString rt (tm_URL rt v))"
| "attr_text rt (Aclass cs) = Some (tm_ResolveAttributeValue rt (tm_CSSClasses rt cs))"
| "attr_text rt (Astyle s) = Some (tm_EscapeString rt (tm_Style rt s))"
| "attr_text rt (Aflag n) = None"

definition render_attr :: "templ_runtime \<Rightarrow> attr \<Rightarrow> string" where
  "render_attr rt a = CHR '' '' # attr_name a
     @ (case attr_text rt a of None \<Rightarrow> '''' | Some v \<Rightarrow> CHR ''='' # dquote # v @ [dquote])"

definition open_tag :: "templ_runtime \<Rightarrow> string \<Rightarrow> attr list \<Rightarrow> string" where
  "open_tag rt t as = lt_sign # t @ concat (map (render_attr rt) as) @ [gt_sign]"

definition close_tag :: "string \<Rightarrow> string" where
  "close_tag t = (if t \<in> set void_tags then '''' else lt_sign # CHR ''/'' # t @ [gt_sign])"

fun render :: "templ_runtime \<Rightarrow> node \<Rightarrow> string" where
  "render rt (El t as ks) = open_tag rt t as @ concat (map (render rt) ks) @ close_tag t"
| "render rt (Raw s) = s"
| "render rt (Text s) = tm_EscapeString rt s"
| "render rt Doctype = lt_sign # ''!doctype html'' @ [gt_sign]"
| "render rt (JSONScript i j) =
     open_tag rt ''script'' [Av ''id'' i, At ''type'' ''application/json''] @ tm_JSON rt j @ close_tag ''script''"

definition render_page :: "templ_runtime \<Rightarrow> node list \<Rightarrow> string" where
  "render_page rt ns = concat (map (render rt) ns)"

section \<open>Reading the tags back\<close>

text \<open>
  A browser's tokenizer as far as the templates use it: a tag starts at \<open><\<close>, and \<open>>\<close> ends it
  unless it stands in a quoted value. What is kept of a tag is its text without the values.
\<close>

datatype place = InText | InTag string | InValue string

fun scan :: "place \<Rightarrow> string \<Rightarrow> string list" where
  "scan InText [] = []"
| "scan InText (c # s) = (if c = lt_sign then scan (InTag []) s else scan InText s)"
| "scan (InTag acc) [] = [acc]"
| "scan (InTag acc) (c # s) =
     (if c = gt_sign then acc # scan InText s
      else if c = dquote then scan (InValue (acc @ [c])) s
      else scan (InTag (acc @ [c])) s)"
| "scan (InValue acc) [] = [acc]"
| "scan (InValue acc) (c # s) =
     (if c = dquote then scan (InTag (acc @ [c])) s else scan (InValue acc) s)"

definition attr_mark :: "attr \<Rightarrow> string" where
  "attr_mark a = CHR '' '' # attr_name a @ (case a of Aflag n \<Rightarrow> '''' | _ \<Rightarrow> [CHR ''='', dquote, dquote])"

fun tags :: "node \<Rightarrow> string list" where
  "tags (El t as ks) = (t @ concat (map attr_mark as)) # concat (map tags ks)
     @ (if t \<in> set void_tags then [] else [CHR ''/'' # t])"
| "tags (Raw s) = []"
| "tags (Text s) = []"
| "tags Doctype = [''!doctype html'']"
| "tags (JSONScript i j) = [''script id='' @ [dquote, dquote] @ '' type='' @ [dquote, dquote], ''/script'']"

definition page_tags :: "node list \<Rightarrow> string list" where
  "page_tags ns = concat (map tags ns)"

text \<open>What a template has to keep to for that: its own text opens no tag, its own values close none.\<close>

definition plain_name :: "string \<Rightarrow> bool" where
  "plain_name n \<longleftrightarrow> list_all (\<lambda>c. c \<noteq> gt_sign \<and> c \<noteq> dquote) n"

fun clean_attr :: "attr \<Rightarrow> bool" where
  "clean_attr (At n v) \<longleftrightarrow> plain_name n \<and> list_all (\<lambda>c. c \<noteq> dquote) v"
| "clean_attr a \<longleftrightarrow> plain_name (attr_name a)"

fun clean :: "node \<Rightarrow> bool" where
  "clean (El t as ks) \<longleftrightarrow> plain_name t \<and> list_all clean_attr as \<and> (\<forall>k \<in> set ks. clean k)"
| "clean (Raw s) \<longleftrightarrow> list_all (\<lambda>c. c \<noteq> lt_sign) s"
| "clean _ \<longleftrightarrow> True"

definition clean_page :: "node list \<Rightarrow> bool" where
  "clean_page ns \<longleftrightarrow> (\<forall>n \<in> set ns. clean n)"

text \<open>What the library documents of its escaping.\<close>

definition escapes :: "templ_runtime \<Rightarrow> bool" where
  "escapes rt \<longleftrightarrow>
     (\<forall>s. lt_sign \<notin> set (tm_EscapeString rt s) \<and> dquote \<notin> set (tm_EscapeString rt s)) \<and>
     (\<forall>s. dquote \<notin> set (tm_ResolveAttributeValue rt s)) \<and>
     (\<forall>j. lt_sign \<notin> set (tm_JSON rt j))"

lemma scan_text: "lt_sign \<notin> set s \<Longrightarrow> scan InText (s @ r) = scan InText r"
  by (induction s) auto

lemma scan_value: "dquote \<notin> set s \<Longrightarrow> scan (InValue acc) (s @ r) = scan (InValue acc) r"
  by (induction s) auto

lemma scan_name: "plain_name n \<Longrightarrow> scan (InTag acc) (n @ r) = scan (InTag (acc @ n)) r"
  by (induction n arbitrary: acc) (auto simp: plain_name_def)

lemma scan_attr:
  assumes "escapes rt" "clean_attr a"
  shows "scan (InTag acc) (render_attr rt a @ r) = scan (InTag (acc @ attr_mark a)) r"
proof -
  have name: "plain_name (attr_name a)" using assms(2) by (cases a) auto
  have quoted: "dquote \<notin> set v" if "attr_text rt a = Some v" for v
    using assms that by (cases a) (auto simp: escapes_def list_all_iff)
  have flag: "(attr_text rt a = None) = (\<exists>n. a = Aflag n)" by (cases a) auto
  have step: "scan (InTag acc) (CHR '' '' # attr_name a @ r') = scan (InTag (acc @ CHR '' '' # attr_name a)) r'" for r'
    using scan_name [OF name, of "acc @ '' ''"] by (simp add: gt_sign_def dquote_def)
  show ?thesis
  proof (cases "attr_text rt a")
    case None
    then show ?thesis using flag step by (auto simp: render_attr_def attr_mark_def)
  next
    case (Some v)
    then have "attr_mark a = CHR '' '' # attr_name a @ [CHR ''='', dquote, dquote]"
      using flag by (cases a) (auto simp: attr_mark_def)
    moreover have "CHR ''='' \<noteq> gt_sign" "CHR ''='' \<noteq> dquote" "dquote \<noteq> gt_sign" by (simp_all add: gt_sign_def dquote_def)
    ultimately show ?thesis
      using Some step scan_value [OF quoted [OF Some]] by (simp add: render_attr_def)
  qed
qed

lemma scan_open:
  assumes "escapes rt" "plain_name t" "list_all clean_attr as"
  shows "scan InText (open_tag rt t as @ r) = (t @ concat (map attr_mark as)) # scan InText r"
proof -
  have "scan (InTag acc) (concat (map (render_attr rt) as) @ gt_sign # r) = (acc @ concat (map attr_mark as)) # scan InText r"
    for acc
    using assms(3)
  proof (induction as arbitrary: acc)
    case (Cons a as)
    then show ?case using scan_attr [OF assms(1), of a] by simp
  qed simp
  then show ?thesis
    using scan_name [OF assms(2), of "[]"] by (simp add: open_tag_def)
qed

lemma scan_close:
  "plain_name t \<Longrightarrow> scan InText (close_tag t @ r) = (if t \<in> set void_tags then [] else [CHR ''/'' # t]) @ scan InText r"
  using scan_name [of t "''/''"] by (simp add: close_tag_def) (simp add: gt_sign_def dquote_def)

lemma scan_render:
  assumes "escapes rt" "clean n"
  shows "scan InText (render rt n @ r) = tags n @ scan InText r"
  using assms(2)
proof (induction n arbitrary: r)
  case (El t as ks)
  have kids: "scan InText (concat (map (render rt) ks') @ r') = concat (map tags ks') @ scan InText r'"
    if "set ks' \<subseteq> set ks" for ks' r'
    using that El by (induction ks' arbitrary: r') auto
  show ?case
    using El.prems scan_open [OF assms(1)] scan_close kids [OF subset_refl] by simp
next
  case (Raw s)
  then show ?case using scan_text [of s] by (auto simp: list_all_iff)
next
  case (Text s)
  then show ?case using scan_text assms(1) by (simp add: escapes_def)
next
  case Doctype
  then show ?case by (simp add: lt_sign_def gt_sign_def dquote_def)
next
  case (JSONScript i j)
  have "plain_name ''script''" "list_all clean_attr [Av ''id'' i, At ''type'' ''application/json'']"
    by (simp_all add: plain_name_def gt_sign_def dquote_def)
  then show ?case
    using scan_open [OF assms(1)] scan_close scan_text assms(1)
    by (simp add: escapes_def void_tags_def attr_mark_def)
qed

lemma scan_page:
  assumes "escapes rt" "clean_page ns"
  shows "scan InText (render_page rt ns) = page_tags ns"
proof -
  have "scan InText (concat (map (render rt) ns) @ []) = concat (map tags ns) @ scan InText []"
    using assms(2) by (induction ns) (auto simp: clean_page_def scan_render [OF assms(1)] simp del: append_Nil2)
  then show ?thesis by (simp add: render_page_def page_tags_def)
qed

end
