(* ===== verification/Forms.thy ===== *)
theory Forms
  imports Router Html
begin

text \<open>
  What a visitor can do on a page: the forms and the links of its nodes, the requests that a
  browser makes of a form, and which route of \<open>Router\<close> takes them. A form is its method, its
  action, its controls in the order of the page and whether it has a submit button.
\<close>

section \<open>Attributes\<close>

fun attr_value :: "attr \<Rightarrow> string option" where
  "attr_value (At n v) = Some v"
| "attr_value (Av n v) = Some v"
| "attr_value (Asafe n v) = Some v"
| "attr_value (Aurl n v) = Some v"
| "attr_value (Aclass cs) = None"
| "attr_value (Astyle s) = Some s"
| "attr_value (Aflag n) = Some []"

text \<open>The first attribute of a name counts.\<close>

fun attr_of :: "string \<Rightarrow> attr list \<Rightarrow> string option" where
  "attr_of k [] = None"
| "attr_of k (a # as) = (if attr_name a = k then attr_value a else attr_of k as)"

definition attr_or :: "string \<Rightarrow> string \<Rightarrow> attr list \<Rightarrow> string" where
  "attr_or k v0 as = (case attr_of k as of None \<Rightarrow> v0 | Some v \<Rightarrow> v)"

definition attr_set :: "string \<Rightarrow> attr list \<Rightarrow> bool" where
  "attr_set k as = list_ex (\<lambda>a. attr_name a = k) as"

section \<open>Controls and forms\<close>

record control =
  ct_Name :: string
  ct_Type :: string
  ct_Value :: string
  ct_On :: bool         \<comment> \<open>checked, for a box or a radio button\<close>

record page_form =
  fm_Method :: string
  fm_Action :: string
  fm_Controls :: "control list"
  fm_Submit :: bool

fun text_of :: "node \<Rightarrow> string" where
  "text_of (El t as ks) = concat (map text_of ks)"
| "text_of (Raw s) = s"
| "text_of (Text s) = s"
| "text_of _ = []"

fun options_of :: "node \<Rightarrow> (string \<times> bool) list" where
  "options_of (El t as ks) =
     (if t = ''option'' then [(attr_or ''value'' (concat (map text_of ks)) as, attr_set ''selected'' as)]
      else concat (map options_of ks))"
| "options_of _ = []"

text \<open>The option a select starts with: the selected one, else the first.\<close>

definition chosen :: "(string \<times> bool) list \<Rightarrow> string" where
  "chosen os = (if list_ex snd os then fst (hd (filter snd os)) else if os = [] then [] else fst (hd os))"

text \<open>A control without a name is not sent.\<close>

definition named :: "attr list \<Rightarrow> string \<Rightarrow> string \<Rightarrow> control list" where
  "named as typ v =
     (case attr_of ''name'' as of None \<Rightarrow> []
      | Some n \<Rightarrow> [\<lparr>ct_Name = n, ct_Type = typ, ct_Value = v, ct_On = attr_set ''checked'' as\<rparr>])"

fun controls :: "node \<Rightarrow> control list" where
  "controls (El t as ks) =
     (if t = ''input'' then named as (attr_or ''type'' ''text'' as) (attr_or ''value'' [] as)
      else if t = ''select'' then named as ''select'' (chosen (concat (map options_of ks)))
      else if t = ''textarea'' then named as ''textarea'' (concat (map text_of ks))
      else concat (map controls ks))"
| "controls _ = []"

text \<open>The buttons by their type; one without a type submits.\<close>

fun buttons :: "node \<Rightarrow> string list" where
  "buttons (El t as ks) = (if t = ''button'' then [attr_or ''type'' ''submit'' as] else concat (map buttons ks))"
| "buttons _ = []"

fun forms :: "node \<Rightarrow> page_form list" where
  "forms (El t as ks) =
     (if t = ''form''
      then [\<lparr>fm_Method = attr_or ''method'' ''get'' as, fm_Action = attr_or ''action'' [] as,
             fm_Controls = concat (map controls ks), fm_Submit = (''submit'' \<in> set (concat (map buttons ks)))\<rparr>]
      else concat (map forms ks))"
| "forms _ = []"

fun links :: "node \<Rightarrow> string list" where
  "links (El t as ks) =
     (if t = ''a'' then (case attr_of ''href'' as of None \<Rightarrow> [] | Some v \<Rightarrow> [v]) else []) @ concat (map links ks)"
| "links _ = []"

definition page_forms :: "node list \<Rightarrow> page_form list" where
  "page_forms ns = concat (map forms ns)"

definition page_controls :: "node list \<Rightarrow> control list" where
  "page_controls ns = concat (map controls ns)"

definition page_links :: "node list \<Rightarrow> string list" where
  "page_links ns = concat (map links ns)"

definition page_options :: "node list \<Rightarrow> (string \<times> bool) list" where
  "page_options ns = concat (map options_of ns)"

definition page_buttons :: "node list \<Rightarrow> string list" where
  "page_buttons ns = concat (map buttons ns)"

section \<open>Reading a page piece by piece\<close>

text \<open>
  Whatever is collected from the nodes one by one can be collected from the pieces that a
  component was put together from. Every reader of pages is an instance.
\<close>

locale reader =
  fixes one :: "node \<Rightarrow> 'a list"
    and whole :: "node list \<Rightarrow> 'a list"
  assumes whole: "whole ns = concat (map one ns)"
begin

lemma nil: "whole [] = []"
  by (simp add: whole)

lemma cons: "whole (n # ns) = one n @ whole ns"
  by (simp add: whole)

lemma append: "whole (xs @ ys) = whole xs @ whole ys"
  by (simp add: whole)

lemma concat: "whole (concat nss) = concat (map whole nss)"
  by (induction nss) (simp_all add: nil append)

lemma branch: "whole (if c then xs else ys) = (if c then whole xs else whole ys)"
  by simp

lemma skip: "one n = [] \<Longrightarrow> whole (n # ns) = whole ns"
  by (simp add: cons)

lemma mapped: "whole (map f xs) = List.concat (map (\<lambda>x. whole [f x]) xs)"
  by (induction xs) (simp_all add: nil cons)

lemmas pieces = nil append concat branch mapped

end

interpretation forms: reader forms page_forms
  by unfold_locales (rule page_forms_def)

interpretation controls: reader controls page_controls
  by unfold_locales (rule page_controls_def)

interpretation links: reader links page_links
  by unfold_locales (rule page_links_def)

interpretation options: reader options_of page_options
  by unfold_locales (rule page_options_def)

interpretation buttons: reader buttons page_buttons
  by unfold_locales (rule page_buttons_def)

named_theorems reading

lemmas [reading] = forms.pieces controls.pieces links.pieces options.pieces buttons.pieces

lemma page_element [reading]:
  "t = ''form'' \<Longrightarrow> page_forms (El t as ks # ns) =
     \<lparr>fm_Method = attr_or ''method'' ''get'' as, fm_Action = attr_or ''action'' [] as,
      fm_Controls = page_controls ks, fm_Submit = (''submit'' \<in> set (page_buttons ks))\<rparr> # page_forms ns"
  "t \<noteq> ''form'' \<Longrightarrow> page_forms (El t as ks # ns) = page_forms ks @ page_forms ns"
  "t = ''input'' \<Longrightarrow> page_controls (El t as ks # ns) =
     named as (attr_or ''type'' ''text'' as) (attr_or ''value'' [] as) @ page_controls ns"
  "t = ''select'' \<Longrightarrow> page_controls (El t as ks # ns) =
     named as ''select'' (chosen (page_options ks)) @ page_controls ns"
  "t = ''textarea'' \<Longrightarrow> page_controls (El t as ks # ns) =
     named as ''textarea'' (concat (map text_of ks)) @ page_controls ns"
  "t \<notin> {''input'', ''select'', ''textarea''} \<Longrightarrow> page_controls (El t as ks # ns) = page_controls ks @ page_controls ns"
  "t = ''a'' \<Longrightarrow> page_links (El t as ks # ns) =
     (case attr_of ''href'' as of None \<Rightarrow> [] | Some v \<Rightarrow> [v]) @ page_links ks @ page_links ns"
  "t \<noteq> ''a'' \<Longrightarrow> page_links (El t as ks # ns) = page_links ks @ page_links ns"
  "t = ''option'' \<Longrightarrow> page_options (El t as ks # ns) =
     (attr_or ''value'' (concat (map text_of ks)) as, attr_set ''selected'' as) # page_options ns"
  "t \<noteq> ''option'' \<Longrightarrow> page_options (El t as ks # ns) = page_options ks @ page_options ns"
  "t = ''button'' \<Longrightarrow> page_buttons (El t as ks # ns) = attr_or ''type'' ''submit'' as # page_buttons ns"
  "t \<noteq> ''button'' \<Longrightarrow> page_buttons (El t as ks # ns) = page_buttons ks @ page_buttons ns"
  by (simp_all add: forms.cons controls.cons links.cons options.cons buttons.cons
    page_forms_def page_controls_def page_links_def page_options_def page_buttons_def)

lemma page_text [reading]:
  assumes "\<And>t as ks. n \<noteq> El t as ks"
  shows "page_forms (n # ns) = page_forms ns" "page_controls (n # ns) = page_controls ns"
    "page_links (n # ns) = page_links ns" "page_options (n # ns) = page_options ns"
    "page_buttons (n # ns) = page_buttons ns"
  using assms by (cases n; simp add: forms.skip controls.skip links.skip options.skip buttons.skip)+

lemma attr_of_first [reading]:
  "attr_name a = k \<Longrightarrow> attr_of k (a # as) = attr_value a" "attr_name a \<noteq> k \<Longrightarrow> attr_of k (a # as) = attr_of k as"
  by simp_all

declare attr_of.simps(2) [simp del]

lemma attr_of_pieces [reading]:
  "attr_of k (as @ bs) = (if list_ex (\<lambda>a. attr_name a = k) as then attr_of k as else attr_of k bs)"
  "attr_of k (if c then as else bs) = (if c then attr_of k as else attr_of k bs)"
  by (induction as) (auto simp: attr_of.simps(2))

lemma concat_nothing [reading]: "concat (map (\<lambda>x. []) xs) = []"
  by (induction xs) auto

lemma list_all_pieces [reading]:
  "list_all P (concat (map f zs)) \<longleftrightarrow> (\<forall>z \<in> set zs. list_all P (f z))"
  "list_all P (map g zs) \<longleftrightarrow> (\<forall>z \<in> set zs. P (g z))"
  "list_all P (if c then xs else ys) \<longleftrightarrow> (if c then list_all P xs else list_all P ys)"
  by (auto simp: list_all_iff)

lemmas reading_attrs = attr_or_def attr_set_def named_def

section \<open>Requests of a form\<close>

text \<open>
  A browser sends the controls in order, each with a value of its choice or not at all: a hidden
  one as it is, a box or a radio button with its own value if it is on, a file apart from the rest.
\<close>

type_synonym choice = "control \<Rightarrow> string option"

definition admissible :: "choice \<Rightarrow> control \<Rightarrow> bool" where
  "admissible choice c \<longleftrightarrow>
     (if ct_Type c = ''hidden'' then choice c = Some (ct_Value c)
      else if ct_Type c = ''checkbox'' \<or> ct_Type c = ''radio'' then choice c = None \<or> choice c = Some (ct_Value c)
      else if ct_Type c = ''file'' then choice c = None
      else choice c \<noteq> None)"

definition untouched :: choice where
  "untouched c =
     (if ct_Type c = ''checkbox'' \<or> ct_Type c = ''radio'' then (if ct_On c then Some (ct_Value c) else None)
      else if ct_Type c = ''file'' then None else Some (ct_Value c))"

lemma untouched_admissible: "admissible untouched c"
  by (simp add: admissible_def untouched_def)

fun entries :: "choice \<Rightarrow> control list \<Rightarrow> (string \<times> string) list" where
  "entries choice [] = []"
| "entries choice (c # cs) =
     (case choice c of None \<Rightarrow> [] | Some v \<Rightarrow> [(ct_Name c, v)]) @ entries choice cs"

definition first_value :: "(string \<times> string) list \<Rightarrow> string \<Rightarrow> string" where
  "first_value es k = (case map_of es k of None \<Rightarrow> [] | Some v \<Rightarrow> v)"

lemma first_value_entries [simp]:
  "first_value (entries choice []) k = []"
  "first_value (entries choice (c # cs)) k =
     (case choice c of None \<Rightarrow> first_value (entries choice cs) k
      | Some v \<Rightarrow> if ct_Name c = k then v else first_value (entries choice cs) k)"
  by (auto simp: first_value_def split: option.splits)

declare entries.simps [simp del]

text \<open>A form cannot set a header of its own.\<close>

definition sends :: "choice \<Rightarrow> page_form \<Rightarrow> http_request \<Rightarrow> bool" where
  "sends choice f r \<longleftrightarrow>
     (\<forall>c \<in> set (fm_Controls f). admissible choice c) \<and> fm_Method f = ''post'' \<and> hr_Method r = ''POST'' \<and> hr_form_ok r \<and>
     hr_Header r ''X-CSRF-Token'' = [] \<and> hr_FormValue r = first_value (entries choice (fm_Controls f))"

text \<open>The form's first control of that name is the hidden token.\<close>

definition carries :: "string \<Rightarrow> page_form \<Rightarrow> bool" where
  "carries tok f \<longleftrightarrow>
     (case filter (\<lambda>c. ct_Name c = ''csrf_token'') (fm_Controls f) of [] \<Rightarrow> False
      | c # cs \<Rightarrow> ct_Type c = ''hidden'' \<and> ct_Value c = tok)"

lemma carries_sends:
  assumes "carries tok f" "sends choice f r"
  shows "hr_FormValue r ''csrf_token'' = tok"
proof -
  have sent: "choice c = Some (ct_Value c)" if "admissible choice c" "ct_Type c = ''hidden''" for c
    using that by (simp add: admissible_def)
  have "first_value (entries choice cs) ''csrf_token'' = tok"
    if "case filter (\<lambda>c. ct_Name c = ''csrf_token'') cs of [] \<Rightarrow> False | c # cs' \<Rightarrow> ct_Type c = ''hidden'' \<and> ct_Value c = tok"
      "\<forall>c \<in> set cs. admissible choice c" for cs
    using that
  proof (induction cs)
    case (Cons c cs)
    then show ?case using sent [of c] by (cases "ct_Name c = ''csrf_token''") (auto split: option.split)
  qed simp
  then show ?thesis using assms by (simp add: carries_def sends_def)
qed

section \<open>Routes\<close>

text \<open>The path of a pattern, its parameters replaced in order.\<close>

fun fill_in :: "bool \<Rightarrow> string \<Rightarrow> string list \<Rightarrow> string" where
  "fill_in inside [] vs = []"
| "fill_in True (c # p) vs = fill_in (c \<noteq> CHR 0x7D) p vs"
| "fill_in False (c # p) vs =
     (if c = CHR 0x7B then (case vs of [] \<Rightarrow> fill_in True p [] | v # vs' \<Rightarrow> v @ fill_in True p vs')
      else c # fill_in False p vs)"

definition leads_to :: "string list \<Rightarrow> string \<Rightarrow> bool" where
  "leads_to patterns path \<longleftrightarrow> (\<exists>p vs. p \<in> set patterns \<and> path = fill_in False p vs)"

lemma leads_toI: "p \<in> set patterns \<Longrightarrow> path = fill_in False p vs \<Longrightarrow> leads_to patterns path"
  by (auto simp: leads_to_def)

lemma fill_in_static: "CHR 0x7B \<notin> set p \<Longrightarrow> fill_in False p vs = p"
  by (induction p) auto

lemma leads_to_static: "p \<in> set patterns \<Longrightarrow> CHR 0x7B \<notin> set p \<Longrightarrow> leads_to patterns p"
  by (rule leads_toI [of p _ _ "[]"]) (simp_all add: fill_in_static)

text \<open>The patterns of one method in a list of routes.\<close>

definition patterns_of :: "string \<Rightarrow> (string \<times> string \<times> 'h) list \<Rightarrow> string list" where
  "patterns_of m rs = map (fst \<circ> snd) (filter (\<lambda>r. fst r = m) rs)"

lemma patterns_of_simps [simp]:
  "patterns_of m [] = []"
  "patterns_of m ((k, p, h) # rs) = (if k = m then p # patterns_of m rs else patterns_of m rs)"
  "patterns_of m (rs @ rs') = patterns_of m rs @ patterns_of m rs'"
  by (simp_all add: patterns_of_def)

end
