(* ===== verification/Theme.thy ===== *)
theory Theme
  imports Plants Format
begin

text \<open>
  How a customer's page takes on a plant's colours and contacts (the functions of
  \<^verbatim>\<open>web/templates/pages/customer_home_templ.go\<close>, lines 20 to 240): the choice of colours, the
  mixing of tints in \<^verbatim>\<open>float64\<close>, the links to a map and to WhatsApp, and the \<^verbatim>\<open>style\<close> attribute
  that carries the colours into the page. What an owner can save as a colour is free text, so
  that \<open>theme_style_safe\<close> is what keeps it out of that attribute.
\<close>

section \<open>Colours\<close>

record customerHomeTheme =
  th_Name :: string
  th_Address :: string
  th_MapHref :: string
  th_City :: string
  th_Phone :: string
  th_PhoneHref :: string
  th_LogoPath :: string
  th_Primary :: string
  th_Secondary :: string
  th_Button :: string
  th_ButtonText :: string
  th_Tint :: string
  th_SubtleTint :: string

definition customerDefaultName :: string where "customerDefaultName = ''Your LPG plant''"
definition customerDefaultAddress :: string where "customerDefaultAddress = ''Plant location coming soon''"
definition customerSamplePhone :: string where "customerSamplePhone = ''0803 000 0000''"
definition customerDefaultPrimary :: string where "customerDefaultPrimary = ''#006B4D''"
definition customerDefaultSecondary :: string where "customerDefaultSecondary = ''#10B981''"
definition customerDefaultButton :: string where "customerDefaultButton = ''#006B4D''"
definition customerDefaultButtonText :: string where "customerDefaultButtonText = ''#F8FAFC''"
definition customerDefaultText :: string where "customerDefaultText = ''#0F172A''"
definition customerDefaultPlaceholder :: string where "customerDefaultPlaceholder = ''Coming soon''"

text \<open>
  The check of a page, which trims; \<open>Plants.validHexColor\<close> is the one on saving, which does not.
  A byte of a rune outside ASCII is not a hexadecimal digit, so that the loop over runes is one
  over bytes.
\<close>

definition page_validHexColor :: "string \<Rightarrow> bool" where
  "page_validHexColor value0 =
     (let value = TrimSpace value0 in
      if length value \<noteq> 4 \<and> length value \<noteq> 7 then False
      else if \<not> HasPrefix value ''#'' then False
      else list_all hex_color_char (tl value))"

definition page_validHexColorOr :: "string \<Rightarrow> string \<Rightarrow> string" where
  "page_validHexColorOr value0 fallback =
     (let value = TrimSpace value0 in if page_validHexColor value then value else fallback)"

text \<open>\<^verbatim>\<open>strconv.ParseInt(s, 16, 64)\<close> of at most fifteen digits.\<close>

definition ParseInt16 :: "string \<Rightarrow> int option" where
  "ParseInt16 s =
     (let (neg, ds) = take_sign s in
      if ds = '''' \<or> \<not> list_all hex_color_char ds then None
      else let n = foldl (\<lambda>n c. 16 * n + int (digit_of c)) 0 ds in Some (if neg then - n else n))"

definition parsed_or_0 :: "string \<Rightarrow> int" where
  "parsed_or_0 s = (case ParseInt16 s of None \<Rightarrow> 0 | Some n \<Rightarrow> n)"

text \<open>
  \<^verbatim>\<open>string(hex[0])\<close> of a byte outside ASCII is longer than a byte; both that string and the one
  below are refused, by its length or by its digits.
\<close>

definition hexToRGB :: "string \<Rightarrow> int \<times> int \<times> int \<times> bool" where
  "hexToRGB hex0 =
     (let hex1 = TrimPrefix (TrimSpace hex0) ''#'';
          hex = (case hex1 of [a, b, c] \<Rightarrow> [a, a, b, b, c, c] | _ \<Rightarrow> hex1) in
      if length hex \<noteq> 6 then (0, 0, 0, False)
      else
        let rs = take 2 hex; gs = take 2 (drop 2 hex); bs = drop 4 hex in
        (parsed_or_0 rs, parsed_or_0 gs, parsed_or_0 bs,
         ParseInt16 rs \<noteq> None \<and> ParseInt16 gs \<noteq> None \<and> ParseInt16 bs \<noteq> None))"

text \<open>Sums of \<^verbatim>\<open>float64\<close> values.\<close>

fun fneg :: "float64 \<Rightarrow> float64" where
  "fneg (Fin x) = Fin (- x)"
| "fneg PosInf = NegInf"
| "fneg NegInf = PosInf"
| "fneg NaN = NaN"

fun fadd :: "float64 \<Rightarrow> float64 \<Rightarrow> float64" where
  "fadd (Fin x) (Fin y) = fl (x + y)"
| "fadd NaN b = NaN"
| "fadd a NaN = NaN"
| "fadd PosInf NegInf = NaN"
| "fadd NegInf PosInf = NaN"
| "fadd (Fin x) b = b"
| "fadd a b = a"

definition fsub :: "float64 \<Rightarrow> float64 \<Rightarrow> float64" where
  "fsub a b = fadd a (fneg b)"

definition luminance :: "int \<Rightarrow> int \<Rightarrow> int \<Rightarrow> float64" where
  "luminance r g b =
     fadd (fadd (fmul (fl 0.299) (of_int64 r)) (fmul (fl 0.587) (of_int64 g))) (fmul (fl 0.114) (of_int64 b))"

definition readableTextColor :: "string \<Rightarrow> string" where
  "readableTextColor hex =
     (let (r, g, b, ok) = hexToRGB hex in
      if \<not> ok then customerDefaultButtonText
      else if flt (of_int64 150) (luminance r g b) then customerDefaultText
      else customerDefaultButtonText)"

definition mix_channel :: "int \<Rightarrow> int \<Rightarrow> float64 \<Rightarrow> int" where
  "mix_channel a b amount = to_int64 (fadd (of_int64 a) (fmul (fsub (of_int64 b) (of_int64 a)) amount))"

definition rgb_text :: "int \<Rightarrow> int \<Rightarrow> int \<Rightarrow> string" where
  "rgb_text r g b = ''rgb('' @ itoa r @ '','' @ itoa g @ '','' @ itoa b @ '')''"

definition mixHex :: "string \<Rightarrow> string \<Rightarrow> float64 \<Rightarrow> string" where
  "mixHex hex target amount =
     (let (ar, ag, ab, okA) = hexToRGB hex; (br, bg, bb, okB) = hexToRGB target in
      if \<not> okA \<or> \<not> okB then ''#F8FAFC''
      else rgb_text (mix_channel ar br amount) (mix_channel ag bg amount) (mix_channel ab bb amount))"

section \<open>Links\<close>

definition googleMapsHref :: "string \<Rightarrow> string" where
  "googleMapsHref address0 =
     (let address = TrimSpace address0 in
      if address = '''' \<or> address = customerDefaultAddress then ''''
      else ''https://www.google.com/maps/search/?api=1&query='' @ QueryEscape address)"

definition whatsappHref :: "string \<Rightarrow> string" where
  "whatsappHref phone =
     (let digits = filter is_digit phone in if digits = '''' then ''#'' else ''https://wa.me/'' @ digits)"

section \<open>The theme\<close>

definition given :: "string option \<Rightarrow> string option" where
  "given s = (case s of None \<Rightarrow> None | Some x \<Rightarrow> if TrimSpace x \<noteq> '''' then Some (TrimSpace x) else None)"

definition or_else :: "string option \<Rightarrow> string \<Rightarrow> string" where
  "or_else s d = (case s of None \<Rightarrow> d | Some x \<Rightarrow> x)"

definition theme_address :: "plant option \<Rightarrow> string \<times> string" where
  "theme_address plant =
     (case plant of
        None \<Rightarrow> (customerDefaultAddress, '''')
      | Some p \<Rightarrow>
          (case (given (pl_Address p), given (pl_City p)) of
             (None, None) \<Rightarrow> (customerDefaultAddress, '''')
           | (Some a, None) \<Rightarrow> (a, googleMapsHref a)
           | (None, Some c) \<Rightarrow> (c, googleMapsHref c)
           | (Some a, Some c) \<Rightarrow> (a @ '', '' @ c, googleMapsHref (a @ '', '' @ c))))"

definition theme_colours :: "plant option \<Rightarrow> string \<times> string \<times> string \<times> string" where
  "theme_colours plant =
     (case plant of
        None \<Rightarrow> (customerDefaultPrimary, customerDefaultSecondary, customerDefaultButton, customerDefaultButtonText)
      | Some p \<Rightarrow>
          (let primary = page_validHexColorOr (pl_PrimaryColor p) customerDefaultPrimary;
               secondary = page_validHexColorOr (pl_SecondaryColor p) customerDefaultSecondary;
               button = page_validHexColorOr (pl_ButtonColor p) primary
           in (primary, secondary, button,
               if page_validHexColor (pl_ButtonTextColor p) then TrimSpace (pl_ButtonTextColor p)
               else readableTextColor button)))"

definition customerTheme :: "plant option \<Rightarrow> customerHomeTheme" where
  "customerTheme plant =
     (let field = (\<lambda>f. case plant of None \<Rightarrow> None | Some p \<Rightarrow> given (f p));
          name = or_else (field (\<lambda>p. Some (pl_Name p))) customerDefaultName;
          (address, mapHref) = theme_address plant;
          phone = or_else (field pl_Phone) customerSamplePhone;
          (primary, secondary, button, buttonText) = theme_colours plant
      in \<lparr>th_Name = name, th_Address = address, th_MapHref = mapHref,
          th_City = or_else (field pl_City) customerDefaultPlaceholder,
          th_Phone = phone, th_PhoneHref = whatsappHref phone,
          th_LogoPath = or_else (field pl_LogoPath) '''',
          th_Primary = primary, th_Secondary = secondary, th_Button = button, th_ButtonText = buttonText,
          th_Tint = mixHex primary ''#FFFFFF'' (fl 0.92),
          th_SubtleTint = mixHex primary ''#FFFFFF'' (fl 0.96)\<rparr>)"

definition customerCSSVars :: "customerHomeTheme \<Rightarrow> string" where
  "customerCSSVars theme =
     ''--brand:'' @ th_Primary theme @ '';--brand-secondary:'' @ th_Secondary theme
     @ '';--brand-button:'' @ th_Button theme @ '';--brand-button-text:'' @ th_ButtonText theme
     @ '';--brand-tint:'' @ th_Tint theme @ '';--brand-subtle:'' @ th_SubtleTint theme"

section \<open>Only colours reach the style attribute\<close>

text \<open>A colour as the style sheet takes it: three or six digits, or three channels of a byte.\<close>

definition hex_colour :: "string \<Rightarrow> bool" where
  "hex_colour s \<longleftrightarrow> (length s = 4 \<or> length s = 7) \<and> take 1 s = ''#'' \<and> list_all hex_color_char (tl s)"

definition byte_channel :: "int \<Rightarrow> bool" where
  "byte_channel n \<longleftrightarrow> 0 \<le> n \<and> n \<le> 255"

definition rgb_colour :: "string \<Rightarrow> bool" where
  "rgb_colour s \<longleftrightarrow> (\<exists>r g b. byte_channel r \<and> byte_channel g \<and> byte_channel b \<and> s = rgb_text r g b)"

lemma default_colours [simp]:
  "hex_colour customerDefaultPrimary" "hex_colour customerDefaultSecondary" "hex_colour customerDefaultButton"
  "hex_colour customerDefaultButtonText" "hex_colour customerDefaultText"
  by (simp_all add: hex_colour_def customerDefaultPrimary_def customerDefaultSecondary_def
      customerDefaultButton_def customerDefaultButtonText_def customerDefaultText_def
      hex_color_char_def is_digit_def is_hex_letter_def lower_byte_def byte_def)

lemma page_valid_hex: "page_validHexColor s \<Longrightarrow> hex_colour (TrimSpace s)"
  by (auto simp: page_validHexColor_def hex_colour_def HasPrefix_def Let_def split: if_splits)

lemma page_valid_or: "hex_colour d \<Longrightarrow> hex_colour (page_validHexColorOr s d)"
  using page_valid_hex [of "TrimSpace s"]
  by (auto simp: page_validHexColorOr_def Let_def TrimSpace_idem)


lemma hex_char_digit: "hex_color_char c \<Longrightarrow> digit_of c < 16"
  by (auto simp: hex_color_char_def digit_of_def is_digit_def is_hex_letter_def byte_def)

lemma hex_char_sign: "hex_color_char c \<Longrightarrow> c \<noteq> CHR ''-'' \<and> c \<noteq> CHR ''+''"
  by (auto simp: hex_color_char_def is_digit_def is_hex_letter_def lower_byte_def byte_def)

lemma ParseInt16_two:
  assumes "hex_color_char x" "hex_color_char y"
  shows "ParseInt16 [x, y] = Some (16 * int (digit_of x) + int (digit_of y))"
  using assms hex_char_sign by (auto simp: ParseInt16_def take_sign_def)

lemma channel_two:
  assumes "hex_color_char x" "hex_color_char y"
  shows "byte_channel (parsed_or_0 [x, y])" "ParseInt16 [x, y] \<noteq> None"
  using ParseInt16_two [OF assms] hex_char_digit [OF assms(1)] hex_char_digit [OF assms(2)]
  by (auto simp: parsed_or_0_def byte_channel_def)

text \<open>White space neither starts nor ends with a character of a colour, so that trimming keeps one.\<close>

lemma spaces_no_colour:
  "list_all (\<lambda>e. e \<noteq> [] \<and> \<not> hex_color_char (List.last e) \<and> hd e \<noteq> CHR ''#'') space_encodings"
  by (simp add: space_encodings_def hex_color_char_def is_digit_def is_hex_letter_def lower_byte_def byte_def)

lemma hex_colour_trim:
  assumes "hex_colour s"
  shows "TrimSpace s = s"
proof -
  have s: "s \<noteq> []" "hd s = CHR ''#''" "hex_color_char (List.last s)"
    using assms by (cases s; auto simp: hex_colour_def list_all_iff)+
  have no_space: "\<not> prefix e s" "\<not> suffix e s" if "e \<in> set space_encodings" for e
  proof -
    have e: "e \<noteq> []" "\<not> hex_color_char (List.last e)" "hd e \<noteq> CHR ''#''"
      using that spaces_no_colour unfolding list_all_iff by blast+
    show "\<not> prefix e s" using e(1,3) s(2) by (auto elim!: prefixE)
    show "\<not> suffix e s" using e(1,2) s(3) by (auto elim!: suffixE)
  qed
  have "List.find (\<lambda>e. prefix e s) space_encodings = None" "List.find (\<lambda>e. suffix e s) space_encodings = None"
    using no_space by (auto simp: find_None_iff)
  then have "space_at s = 0" "space_end s = 0"
    by (simp_all add: space_at_def space_end_def)
  then show ?thesis
    by (simp add: TrimSpace_def trim_left_stop trim_right_stop)
qed

lemma six_digits:
  assumes "hex_colour s"
  obtains a b c d e f where "list_all hex_color_char [a, b, c, d, e, f]"
    "hexToRGB s = (parsed_or_0 [a, b], parsed_or_0 [c, d], parsed_or_0 [e, f],
       ParseInt16 [a, b] \<noteq> None \<and> ParseInt16 [c, d] \<noteq> None \<and> ParseInt16 [e, f] \<noteq> None)"
proof -
  obtain ds where s: "s = CHR ''#'' # ds" and ds: "length ds = 3 \<or> length ds = 6" "list_all hex_color_char ds"
    using assms by (cases s) (auto simp: hex_colour_def)
  have trimmed: "TrimPrefix (TrimSpace s) ''#'' = ds"
    using hex_colour_trim [OF assms] s by (simp add: TrimPrefix_def HasPrefix_def)
  show thesis
  proof (cases "length ds = 3")
    case True
    then obtain a b c where "ds = [a, b, c]" by (auto simp: length_Suc_conv eval_nat_numeral)
    then show thesis using trimmed ds by (intro that [of a a b b c c]) (auto simp: hexToRGB_def Let_def)
  next
    case False
    then obtain a b c d e f where "ds = [a, b, c, d, e, f]" using ds(1) by (auto simp: length_Suc_conv eval_nat_numeral)
    then show thesis using trimmed ds by (intro that [of a b c d e f]) (auto simp: hexToRGB_def Let_def)
  qed
qed

lemma hexToRGB_channels:
  assumes "hex_colour s"
  obtains r g b where "hexToRGB s = (r, g, b, True)" "byte_channel r" "byte_channel g" "byte_channel b"
  proof -
  obtain a b c d e f where ds: "list_all hex_color_char [a, b, c, d, e, f]"
    and rgb: "hexToRGB s = (parsed_or_0 [a, b], parsed_or_0 [c, d], parsed_or_0 [e, f],
       ParseInt16 [a, b] \<noteq> None \<and> ParseInt16 [c, d] \<noteq> None \<and> ParseInt16 [e, f] \<noteq> None)"
    using six_digits [OF assms] by blast
  show thesis
    using ds channel_two rgb by (intro that [of "parsed_or_0 [a, b]" "parsed_or_0 [c, d]" "parsed_or_0 [e, f]"]) auto
qed

lemma readable_hex: "hex_colour (readableTextColor s)"
  by (auto simp: readableTextColor_def split: prod.splits)

text \<open>Mixing towards white by less than the whole stays within a byte, rounding included.\<close>

lemma fl_near:
  assumes "0 \<le> x" "x \<le> 1000" "x = 0 \<or> 1 / 1000 \<le> x"
  obtains y where "fl x = Fin y" "\<bar>y - x\<bar> \<le> x / 2 ^ 53"
proof (cases "x = 0")
  case True
  then show thesis by (intro that [of 0]) (auto simp: fl_def)
next
  case False
  have "(2 :: rat) powi (- 1022) \<le> 2 powi (- 10)" by (intro power_int_increasing) auto
  also have "\<dots> \<le> 1 / 1000" by (simp add: power_int_def power_divide)
  finally have "2 powi (- 1022) \<le> x" using False assms(3) by linarith
  moreover have "x \<le> 2 ^ 1000" using assms(2) by (rule order_trans) simp
  ultimately show thesis using fl_finite that by blast
qed

lemma mix_white:
  assumes "byte_channel a" "1 / 2 \<le> p" "p \<le> 99 / 100" "fl p = Fin q" "\<bar>q - p\<bar> \<le> p / 2 ^ 53"
  shows "byte_channel (mix_channel a 255 (Fin q))"
proof -
  have a: "0 \<le> a" "a \<le> 255" using assms(1) by (auto simp: byte_channel_def)
  have "\<bar>q - p\<bar> \<le> 1 / 1000" using assms(3,5) by (rule_tac order_trans [of _ "p / 2 ^ 53"]) auto
  then have q: "1 / 4 \<le> q" "q \<le> 995 / 1000" using assms(2,3) unfolding abs_le_iff by linarith+
  define m where "m = (of_int (255 - a) :: rat)"
  have m: "m = 0 \<or> 1 \<le> m" "0 \<le> m" "m \<le> 255" "of_int a = 255 - m" using a by (auto simp: m_def)
  obtain y where y: "fl (m * q) = Fin y" "\<bar>y - m * q\<bar> \<le> m * q / 2 ^ 53"
  proof (rule fl_near [of "m * q"])
    show "0 \<le> m * q" using m q by simp
    show "m * q \<le> 1000" using mult_mono [of m 255 q 1] m q by simp
    show "m * q = 0 \<or> 1 / 1000 \<le> m * q" using m(1) q mult_mono [of 1 m "1 / 4" q] by auto
  qed
  have mq: "0 \<le> m * q" "m * q \<le> m * (995 / 1000)" using m q by (auto intro: mult_left_mono)
  have "\<bar>y - m * q\<bar> \<le> m * q * (1 / 1000)"
    using y(2) mq(1) by (rule_tac order_trans [of _ "m * q / 2 ^ 53"]) auto
  then have y_bounds: "m * q * (999 / 1000) \<le> y" "y \<le> m * q * (1001 / 1000)" unfolding abs_le_iff by linarith+
  have low: "m * (1 / 5) \<le> y" using y_bounds(1) mult_left_mono [OF q(1) m(2)] m(2) by linarith
  have high: "y \<le> m * (999 / 1000)" using y_bounds(2) mq(2) m(2) by linarith
  define s where "s = of_int a + y"
  have s: "0 \<le> s" "s \<le> 255" "s = 0 \<or> 1 / 1000 \<le> s"
    using low high m a by (auto simp: s_def)
  obtain z where z: "fl s = Fin z" "\<bar>z - s\<bar> \<le> s / 2 ^ 53"
    by (rule fl_near [of s]) (use s in auto)
  have "\<bar>z - s\<bar> \<le> s * (1 / 1000)" using z(2) s(1) by (rule_tac order_trans [of _ "s / 2 ^ 53"]) auto
  then have z_bounds: "0 \<le> z" "z < 256" using s(1,2) unfolding abs_le_iff by linarith+
  then have "0 \<le> \<lfloor>z\<rfloor>" "\<lfloor>z\<rfloor> \<le> 255" by linarith+
  moreover have "fsub (of_int64 255) (of_int64 a) = Fin m"
    using fl_of_int [of "255 - a"] a of_int64_exact [of 255] of_int64_exact [of a] by (simp add: fsub_def m_def)
  then have "mix_channel a 255 (Fin q) = to_int64 (Fin z)"
    using z(1) y(1) of_int64_exact [of a] a by (simp add: mix_channel_def s_def)
  ultimately show ?thesis using z_bounds(1) by (simp add: byte_channel_def int64_min_def)
qed

lemma white_channels: "hexToRGB ''#FFFFFF'' = (255, 255, 255, True)"
proof -
  have F: "hex_color_char (CHR ''F'')" "digit_of (CHR ''F'') = 15"
    by (simp_all add: hex_color_char_def is_hex_letter_def digit_of_def is_digit_def lower_byte_def byte_def)
  then have "hex_colour ''#FFFFFF''" by (simp add: hex_colour_def)
  then have trimmed: "TrimPrefix (TrimSpace ''#FFFFFF'') ''#'' = ''FFFFFF''"
    by (simp add: hex_colour_trim TrimPrefix_def HasPrefix_def)
  have "ParseInt16 ''FF'' = Some 255" using ParseInt16_two [OF F(1) F(1)] F(2) by simp
  then show ?thesis
    unfolding hexToRGB_def trimmed by (simp add: parsed_or_0_def)
qed

lemma tint_rgb:
  assumes "hex_colour s" "1 / 2 \<le> p" "p \<le> 99 / 100"
  shows "rgb_colour (mixHex s ''#FFFFFF'' (fl p))"
proof -
  obtain q where q: "fl p = Fin q" "\<bar>q - p\<bar> \<le> p / 2 ^ 53"
    by (rule fl_near [of p]) (use assms in auto)
  obtain r g b where rgb: "hexToRGB s = (r, g, b, True)" "byte_channel r" "byte_channel g" "byte_channel b"
    using hexToRGB_channels [OF assms(1)] .
  have "mixHex s ''#FFFFFF'' (fl p)
      = rgb_text (mix_channel r 255 (Fin q)) (mix_channel g 255 (Fin q)) (mix_channel b 255 (Fin q))"
    by (simp only: mixHex_def rgb(1) white_channels q(1) Let_def split_conv simp_thms if_False)
  then show ?thesis
    unfolding rgb_colour_def using mix_white [OF _ assms(2,3) q] rgb(2-4) by metis
qed

lemma theme_colours_hex:
  assumes "theme_colours plant = (primary, secondary, button, buttonText)"
  shows "hex_colour primary" "hex_colour secondary" "hex_colour button" "hex_colour buttonText"
  using assms page_valid_or readable_hex page_valid_hex
  by (auto simp: theme_colours_def Let_def split: option.splits if_splits)

lemma theme_style_parts:
  obtains p s b t u v where "customerCSSVars (customerTheme plant) =
      ''--brand:'' @ p @ '';--brand-secondary:'' @ s @ '';--brand-button:'' @ b @ '';--brand-button-text:'' @ t
      @ '';--brand-tint:'' @ u @ '';--brand-subtle:'' @ v"
    "hex_colour p" "hex_colour s" "hex_colour b" "hex_colour t" "rgb_colour u" "rgb_colour v"
proof -
  obtain p s b t where c: "theme_colours plant = (p, s, b, t)" by (cases "theme_colours plant")
  obtain a m where ad: "theme_address plant = (a, m)" by (cases "theme_address plant")
  show thesis
    using theme_colours_hex [OF c] c ad tint_rgb [of p]
    by (intro that [of p s b t "mixHex p ''#FFFFFF'' (fl 0.92)" "mixHex p ''#FFFFFF'' (fl 0.96)"])
      (auto simp: customerCSSVars_def customerTheme_def Let_def)
qed

definition safe_style :: "string \<Rightarrow> bool" where
  "safe_style style \<longleftrightarrow> (\<exists>p s b t u v. style =
      ''--brand:'' @ p @ '';--brand-secondary:'' @ s @ '';--brand-button:'' @ b @ '';--brand-button-text:'' @ t
      @ '';--brand-tint:'' @ u @ '';--brand-subtle:'' @ v \<and>
      list_all hex_colour [p, s, b, t] \<and> list_all rgb_colour [u, v])"

text \<open>
  C38: Whatever an owner has saved as the colours of a plant, and without a plant, the style
  attribute of a customer's page is six declarations whose values are colours: four of three or six
  hexadecimal digits, and two tints of channels from 0 to 255. The mixing in floating point neither
  overflows a channel nor goes below zero.
\<close>
theorem theme_style_safe: "safe_style (customerCSSVars (customerTheme plant))"
  unfolding safe_style_def by (rule theme_style_parts [of plant]) (simp; blast)

end
