(* ===== verification/Views.thy ===== *)
theory Views
  imports Theme HelpCentre Dashboard Html
begin

text \<open>
  What the templates of \<^verbatim>\<open>web/templates\<close> compute themselves: the small functions beside the
  components in the \<^verbatim>\<open>_templ.go\<close> files, and how a component reads the data its handler gives it.
  The data of a page is the list of its fields, as in \<open>Page\<close>; a field that is not there has the
  zero value of its type, as in the structs of the code. Identifiers and instants have become
  text before a template sees them, which is what \<open>shown\<close> does.
\<close>

section \<open>The data of a page\<close>

type_synonym view = "(string \<times> json) list"

fun shown :: "(uuid \<Rightarrow> string) \<Rightarrow> (time \<Rightarrow> string) \<Rightarrow> json \<Rightarrow> json" where
  "shown fmt_id fmt_time (JUuid i) = JStr (fmt_id i)"
| "shown fmt_id fmt_time (JTime t) = JStr (fmt_time t)"
| "shown fmt_id fmt_time (JArr xs) = JArr (map (shown fmt_id fmt_time) xs)"
| "shown fmt_id fmt_time (JObj fs) = JObj (map (map_prod id (shown fmt_id fmt_time)) fs)"
| "shown fmt_id fmt_time j = j"

definition shown_view :: "(uuid \<Rightarrow> string) \<Rightarrow> (time \<Rightarrow> string) \<Rightarrow> view \<Rightarrow> view" where
  "shown_view fmt_id fmt_time = map (map_prod id (shown fmt_id fmt_time))"

definition datum :: "view \<Rightarrow> string \<Rightarrow> json" where
  "datum data k = (case map_of data k of None \<Rightarrow> JNull | Some j \<Rightarrow> j)"

definition jS :: "view \<Rightarrow> string \<Rightarrow> string" where
  "jS data k = (case datum data k of JStr s \<Rightarrow> s | _ \<Rightarrow> '''')"

definition jI :: "view \<Rightarrow> string \<Rightarrow> int" where
  "jI data k = (case datum data k of JInt n \<Rightarrow> n | _ \<Rightarrow> 0)"

definition jB :: "view \<Rightarrow> string \<Rightarrow> bool" where
  "jB data k = (case datum data k of JBool b \<Rightarrow> b | _ \<Rightarrow> False)"

definition fields_of :: "json \<Rightarrow> view" where
  "fields_of j = (case j of JObj fs \<Rightarrow> fs | _ \<Rightarrow> [])"

definition jL :: "view \<Rightarrow> string \<Rightarrow> view list" where
  "jL data k = (case datum data k of JArr xs \<Rightarrow> map fields_of xs | _ \<Rightarrow> [])"

definition jO :: "view \<Rightarrow> string \<Rightarrow> view option" where
  "jO data k = (case datum data k of JObj fs \<Rightarrow> Some fs | _ \<Rightarrow> None)"

text \<open>What every page takes from the process: the domain, the version of the assets and the year.\<close>

record site =
  si_AppBaseDomain :: string
  si_Version :: string
  si_Year :: int

definition assets_URL :: "site \<Rightarrow> string \<Rightarrow> string" where
  "assets_URL si path = path @ ''?v='' @ si_Version si"

definition cssURL :: "site \<Rightarrow> string \<Rightarrow> string" where
  "cssURL si name = assets_URL si (''/static/css/'' @ name)"

section \<open>Texts\<close>

definition FormatBool :: "bool \<Rightarrow> string" where
  "FormatBool b = (if b then ''true'' else ''false'')"

definition fallbackText :: "string \<Rightarrow> string \<Rightarrow> string" where
  "fallbackText value fallback = (if TrimSpace value = '''' then fallback else value)"

definition foundingBadgeLabel :: "int \<Rightarrow> string" where
  "foundingBadgeLabel rank =
     (if rank \<le> 0 then ''''
      else if rank = 1 then ''1st Founding Plant''
      else if rank = 2 then ''2nd Founding Plant''
      else if rank = 3 then ''3rd Founding Plant''
      else ''Founding Plant'')"

definition terminalPlantName :: "plant option \<Rightarrow> string" where
  "terminalPlantName plant =
     (case plant of None \<Rightarrow> ''Gas plant''
      | Some p \<Rightarrow> if TrimSpace (pl_Name p) = '''' then ''Gas plant'' else TrimSpace (pl_Name p))"

definition isProvided :: "string \<Rightarrow> bool" where
  "isProvided v0 =
     (let v = TrimSpace v0 in v \<noteq> '''' \<and> v \<noteq> ''Not yet provided'' \<and> \<not> HasSuffix v ''coming soon'')"

definition verifyCACURL :: string where "verifyCACURL = ''https://search.cac.gov.ng/''"
definition verifyNMDPRAURL :: string where "verifyNMDPRAURL = ''https://celps.nmdpra.gov.ng/Permit/VerifyPermit''"
definition paystackSubaccURL :: string where
  "paystackSubaccURL = ''https://dashboard.paystack.com/#/subaccounts''"

definition buyGasAlpineInit :: "int \<Rightarrow> string" where
  "buyGasAlpineInit pricePerKgKobo = ''buyGasForm('' @ itoa (quot pricePerKgKobo 100) @ '')''"

definition formatThousands :: "int \<Rightarrow> string" where
  "formatThousands n =
     (let s = itoa n in
      if length s \<le> 3 then s
      else let prefix = (if length s mod 3 = 0 then 3 else length s mod 3)
           in take prefix s @ chunks3 (drop prefix s))"

definition formatPricePerKg :: "int \<Rightarrow> string" where
  "formatPricePerKg kobo =
     (if kobo \<le> 0 then ''Price coming soon'' else naira_sign @ formatThousands (quot kobo 100))"

lemma formatThousands_shared: "formatThousands = formatWholeNumber"
  by (simp add: fun_eq_iff formatThousands_def formatWholeNumber_def)

definition receiptItemClass :: "bool \<Rightarrow> string" where
  "receiptItemClass selected = (if selected then ''receipt-item receipt-item-selected'' else ''receipt-item'')"

definition reviewStars :: "int \<Rightarrow> string" where
  "reviewStars rating0 =
     (let rating = nat (if 5 < max rating0 0 then 5 else max rating0 0)
      in concat (replicate rating star) @ concat (replicate (5 - rating) no_star))"

definition shortTicketRef :: "string \<Rightarrow> string \<Rightarrow> string" where
  "shortTicketRef reference plantSlug =
     (let trimmed = TrimPrefix reference (plantSlug @ ''-'')
      in if trimmed \<noteq> reference then trimmed else reference)"

definition slugOrPlaceholder :: "string \<Rightarrow> string" where
  "slugOrPlaceholder slug = (if slug = '''' then ''yourname'' else slug)"

definition spotsLeft :: "int \<Rightarrow> int \<Rightarrow> int" where
  "spotsLeft claimed spots = (if spots \<le> claimed then 0 else spots - claimed)"

definition spotsPercent :: "int \<Rightarrow> int \<Rightarrow> int" where
  "spotsPercent claimed spots =
     (if spots \<le> 0 \<or> claimed \<le> 0 then 0 else if spots \<le> claimed then 100 else quot (claimed * 100) spots)"

lemma spotsPercent_bounds: "0 \<le> spotsPercent claimed spots \<and> spotsPercent claimed spots \<le> 100"
proof -
  have "claimed * 100 div spots \<le> 100" if "0 < spots" "claimed < spots"
    using that zdiv_mono1 [of "claimed * 100" "spots * 100" spots] by simp
  moreover have "0 \<le> claimed * 100 div spots" if "0 < spots" "0 < claimed"
    using that by (simp add: pos_imp_zdiv_nonneg_iff)
  ultimately show ?thesis by (auto simp: spotsPercent_def quot_def)
qed

lemma spotsLeft_bounds: "0 \<le> spots \<Longrightarrow> 0 \<le> claimed \<Longrightarrow> 0 \<le> spotsLeft claimed spots \<and> spotsLeft claimed spots \<le> spots"
  by (auto simp: spotsLeft_def)

section \<open>Choices and colours\<close>

type_synonym select_option = "string \<times> string"   \<comment> \<open>\<^verbatim>\<open>themedSelectOption\<close>: the value, then the label\<close>

fun index_of :: "nat \<Rightarrow> select_option list \<Rightarrow> string \<Rightarrow> nat option" where
  "index_of i [] selected = None"
| "index_of i (opt # opts) selected = (if fst opt = selected then Some i else index_of (Suc i) opts selected)"

definition themedSelectIndexOf :: "select_option list \<Rightarrow> string \<Rightarrow> nat" where
  "themedSelectIndexOf options selected =
     (if selected \<noteq> '''' then (case index_of 0 options selected of None \<Rightarrow> 0 | Some i \<Rightarrow> i) else 0)"

lemma index_of_value: "index_of k opts v = Some i \<Longrightarrow> k \<le> i \<and> i < k + length opts \<and> fst (opts ! (i - k)) = v"
  by (induction opts arbitrary: k)
    (auto split: if_splits simp: nth_Cons' Suc_diff_le [symmetric] dest!: Suc_leD, fastforce+)

lemma themedSelectIndexOf_bound: "options \<noteq> [] \<Longrightarrow> themedSelectIndexOf options selected < length options"
  using index_of_value [of 0 options selected] by (auto simp: themedSelectIndexOf_def split: option.splits)

definition stateSelectOptions :: "select_option list" where
  "stateSelectOptions = ('''', ''Select state'') # map (\<lambda>s. (s, s)) NigerianStates"

definition bankSelectOptions :: "view list \<Rightarrow> select_option list" where
  "bankSelectOptions banks = ('''', ''Select bank'') # map (\<lambda>b. (jS b ''code'', jS b ''name'')) banks"

definition validOwnerHexColor :: "string \<Rightarrow> bool" where
  "validOwnerHexColor value0 =
     (let value = TrimSpace value0 in
      if length value \<noteq> 7 \<or> \<not> HasPrefix value ''#'' then False else list_all hex_color_char (tl value))"

definition colorInputValue :: "string \<Rightarrow> string \<Rightarrow> string" where
  "colorInputValue value0 fallback =
     (let value1 = TrimSpace value0; value = (if length value1 = 6 then ''#'' @ value1 else value1)
      in if validOwnerHexColor value then value else fallback)"

record statusConfirm =
  sc_Title :: string
  sc_Desc :: string
  sc_Tone :: string

section \<open>Brand\<close>

definition brandDir :: string where "brandDir = ''/static/images/gatstogo-logo''"
definition BrandMarkStandalone :: string where "BrandMarkStandalone = brandDir @ ''/svg/gatstogo-mark-standalone.svg''"
definition BrandMarkReversed :: string where "BrandMarkReversed = brandDir @ ''/svg/gatstogo-mark-reversed.svg''"
definition BrandMarkDarkContainer :: string where
  "BrandMarkDarkContainer = brandDir @ ''/svg/gatstogo-mark-dark-container.svg''"
definition BrandMarkAlert :: string where "BrandMarkAlert = brandDir @ ''/svg/gatstogo-mark-alert.svg''"
definition BrandFaviconICO :: string where "BrandFaviconICO = brandDir @ ''/favicon.ico''"
definition BrandMarkPNG192 :: string where "BrandMarkPNG192 = brandDir @ ''/png/gatstogo-mark-192.png''"

definition brandMarkSrc :: "string \<Rightarrow> string" where
  "brandMarkSrc variant =
     (if variant = ''reversed'' then BrandMarkReversed
      else if variant = ''dark-container'' then BrandMarkDarkContainer
      else if variant = ''standalone'' then BrandMarkStandalone
      else if variant = ''alert'' then BrandMarkAlert
      else BrandMarkPrimary)"

section \<open>Marketing\<close>

definition socialXURL :: string where "socialXURL = ''https://x.com/Gatstogo''"
definition socialFacebookURL :: string where "socialFacebookURL = ''https://www.facebook.com/1437783132749660''"
definition buyerShareURL :: string where
  "buyerShareURL = ''https://wa.me/?text=Hello%2C%20I%27d%20like%20to%20buy%20gas%20from%20you%20online%20and%20pay%20from%20my%20phone.%20Gas%20plants%20can%20set%20up%20for%20free%20on%20GatsToGo%3A%20https%3A%2F%2Fgatstogo.com%2Fget-started''"

end
