(* ===== verification/PageParts.thy ===== *)
theory PageParts
  imports Icons
begin

text \<open>
  The components the pages share: the brand, the icons, the shells of the marketing, customer,
  sign-in and dashboard pages, and the small controls of the dashboards. As in all page theories,
  one definition is one component of a \<^verbatim>\<open>_templ.go\<close> file, or an element of one that is large
  enough to have its own name; the order of elements, attributes and branches is that of the
  generated code.
\<close>

section \<open>\<^verbatim>\<open>brand_templ.go\<close>\<close>

definition BrandFavicons :: "node list" where
  "BrandFavicons =
    [El ''link'' [At ''rel'' ''icon'', Aurl ''href'' BrandFaviconICO, At ''sizes'' ''any''] [],
     El ''link'' [At ''rel'' ''icon'', Aurl ''href'' BrandMarkPrimary, At ''type'' ''image/svg+xml''] [],
     El ''link'' [At ''rel'' ''apple-touch-icon'', Aurl ''href'' BrandMarkPNG192] []]"

definition BrandMark :: "string \<Rightarrow> string \<Rightarrow> string \<Rightarrow> node list" where
  "BrandMark className variant alt =
    [El ''img'' [Aclass [(className, True)], Av ''src'' (brandMarkSrc variant), Av ''alt'' alt,
         At ''decoding'' ''async''] []]"

section \<open>\<^verbatim>\<open>icon_templ.go\<close>\<close>

definition Icon :: "string \<Rightarrow> node list" where
  "Icon name =
    [El ''svg'' [At ''class'' ''icon'', At ''viewBox'' ''0 0 256 256'', At ''fill'' ''currentColor'',
         At ''aria-hidden'' ''true'', At ''focusable'' ''false'']
       [El ''path'' [Av ''d'' (iconPath name)] []]]"

section \<open>\<^verbatim>\<open>plant_summary_templ.go\<close>\<close>

definition summary_list :: "plant \<Rightarrow> node list" where
  "summary_list plant =
    [El ''dl'' [At ''class'' ''summary-list'']
       ([El ''div'' [At ''class'' ''summary-row'']
           [El ''dt'' [] [Raw ''Status''], El ''dd'' [] [Text (pl_Status plant)]],
         El ''div'' [At ''class'' ''summary-row'']
           [El ''dt'' [] [Raw ''Slug''], El ''dd'' [] [Text (pl_Slug plant)]]]
        @ (if pl_City plant \<noteq> None then
              [El ''div'' [At ''class'' ''summary-row'']
                 [El ''dt'' [] [Raw ''City''], El ''dd'' [] [Text (the (pl_City plant))]]]
           else [])
        @ (if pl_Address plant \<noteq> None then
              [El ''div'' [At ''class'' ''summary-row'']
                 [El ''dt'' [] [Raw ''Address''], El ''dd'' [] [Text (the (pl_Address plant))]]]
           else [])
        @ (if pl_Phone plant \<noteq> None then
              [El ''div'' [At ''class'' ''summary-row'']
                 [El ''dt'' [] [Raw ''Phone''], El ''dd'' [] [Text (the (pl_Phone plant))]]]
           else [])
        @ [El ''div'' [At ''class'' ''summary-row'']
             [El ''dt'' [] [Raw ''Primary color''], El ''dd'' [] [Text (pl_PrimaryColor plant)]],
           El ''div'' [At ''class'' ''summary-row'']
             [El ''dt'' [] [Raw ''Secondary color''], El ''dd'' [] [Text (pl_SecondaryColor plant)]],
           El ''div'' [At ''class'' ''summary-row'']
             [El ''dt'' [] [Raw ''Button color''], El ''dd'' [] [Text (pl_ButtonColor plant)]],
           El ''div'' [At ''class'' ''summary-row'']
             [El ''dt'' [] [Raw ''Font''], El ''dd'' [] [Text (pl_FontFamily plant)]]])]"

definition PlantSummary :: "plant \<Rightarrow> node list" where
  "PlantSummary plant =
    [El ''section'' [At ''aria-label'' ''Plant summary'']
       ([El ''h2'' [At ''style'' ''margin: 0 0 12px; font-size: 20px; font-weight: 800;'']
           [Text (pl_Name plant)]]
        @ summary_list plant)]"

section \<open>\<^verbatim>\<open>base_templ.go\<close>\<close>

definition layouts_Base :: "site \<Rightarrow> string \<Rightarrow> plant \<Rightarrow> node list \<Rightarrow> node list" where
  "layouts_Base si title plant content =
    [Doctype,
     El ''html'' [At ''lang'' ''en'']
       [El ''head'' []
          [El ''meta'' [At ''charset'' ''utf-8''] [],
           El ''meta'' [At ''name'' ''viewport'', At ''content'' ''width=device-width, initial-scale=1''] [],
           El ''title'' [] [Text title],
           El ''script'' [At ''src'' ''https://unpkg.com/htmx.org@2.0.4''] [],
           El ''link'' [At ''rel'' ''stylesheet'', Aurl ''href'' (cssURL si ''tokens.css'')] [],
           El ''link'' [At ''rel'' ''stylesheet'', Aurl ''href'' (cssURL si ''base.css'')] []],
        El ''body'' [] content]]"

section \<open>\<^verbatim>\<open>dashboard_templ.go\<close>\<close>

definition dashboardContent :: "plant \<Rightarrow> node list" where
  "dashboardContent plant =
    [El ''main'' []
       [El ''header'' [At ''class'' ''dash-header'']
          [El ''h1'' [] [Text (pl_Name plant)],
           El ''p'' [] [Raw (''Plant dashboard '' @ dot_sep @ '' ''), Text (pl_Slug plant)]],
        El ''div'' [At ''class'' ''dash-actions'']
          [El ''button'' [At ''class'' ''button button-primary full-width'', At ''hx-get'' ''/home/summary'',
               At ''hx-target'' ''#summary'', At ''hx-swap'' ''innerHTML'']
             [Raw ''Refresh plant summary'']],
        El ''div'' [At ''id'' ''summary'', At ''class'' ''card''] (PlantSummary plant)]]"

definition pages_Dashboard :: "site \<Rightarrow> plant \<Rightarrow> node list" where
  "pages_Dashboard si plant =
    (layouts_Base si (pl_Name plant @ '' dashboard'') plant (dashboardContent plant))"

section \<open>\<^verbatim>\<open>marketing_shell_templ.go\<close>\<close>

definition marketingFooter :: "site \<Rightarrow> node list" where
  "marketingFooter si =
    [El ''footer'' [At ''class'' ''mkt-footer'']
       [El ''div'' [At ''class'' ''wrap'']
          [El ''div'' [At ''class'' ''ft-top'']
             [El ''div'' [At ''class'' ''ft-brand'']
                [El ''a'' [At ''class'' ''brand-lockup'', At ''href'' ''/'']
                   (BrandMark ''brand-mark'' ''primary'' ''GatsToGo''
                    @ [El ''strong'' [] [Raw ''GATSTOGO'']]),
                 El ''p'' []
                   [Raw ''Sell gas online and run your LPG plant from one dashboard: a branded page for customers, a terminal for staff, and live numbers for owners.'']],
              El ''div'' [At ''class'' ''ft-cta'']
                [El ''strong'' [] [Raw ''Run an LPG plant?''],
                 El ''span'' [] [Raw ''No setup fee. No monthly fee.''],
                 El ''a'' [At ''class'' ''button-primary'', At ''href'' ''/get-started'']
                   ([Raw ''Get started''] @ Icon ''arrow-right'')]],
           El ''nav'' [At ''class'' ''ft-cols'', At ''aria-label'' ''Footer'']
             [El ''div'' []
                [El ''div'' [At ''class'' ''ft-heading''] [Raw ''Product''],
                 El ''a'' [At ''href'' ''/#how-it-works''] [Raw ''How it works''],
                 El ''a'' [At ''href'' ''/pricing''] [Raw ''Pricing''],
                 El ''a'' [At ''href'' ''/pricing#calculator''] [Raw ''Fee calculator''],
                 El ''a'' [At ''href'' ''/get-started''] [Raw ''Get started'']],
              El ''div'' []
                [El ''div'' [At ''class'' ''ft-heading''] [Raw ''For plants''],
                 El ''a'' [At ''href'' ''/login''] [Raw ''Owner sign in''],
                 El ''a'' [At ''href'' ''/help/getting-started''] [Raw ''Owner help''],
                 El ''a'' [At ''href'' ''/help/buying-gas''] [Raw ''Customer help'']],
              El ''div'' []
                [El ''div'' [At ''class'' ''ft-heading''] [Raw ''Company''],
                 El ''a'' [At ''href'' ''/about''] [Raw ''About''],
                 El ''a'' [At ''href'' ''/contact''] [Raw ''Contact''],
                 El ''a'' [At ''href'' ''/help''] [Raw ''Help centre'']],
              El ''div'' []
                [El ''div'' [At ''class'' ''ft-heading''] [Raw ''Legal''],
                 El ''a'' [At ''href'' ''/terms''] [Raw ''Terms of Service''],
                 El ''a'' [At ''href'' ''/privacy''] [Raw ''Privacy Policy'']]],
           El ''div'' [At ''class'' ''ft-bottom'']
             [El ''span'' []
                [Raw (copyright_sign @ '' ''),
                 Text (itoa (si_Year si)),
                 Raw '' GatsToGo. All rights reserved.''],
              El ''span'' [At ''class'' ''ft-trust''] (Icon ''lock'' @ [Raw ''Payments secured by Paystack'']),
              El ''span'' [] [Raw ''Made for Nigerian LPG plants'']]]]]"

definition marketingHeader :: "node list" where
  "marketingHeader =
    [El ''header'' [At ''class'' ''mkt-header'']
       [El ''div'' [At ''class'' ''mkt-header-inner'']
          [El ''a'' [At ''class'' ''brand-lockup'', At ''href'' ''/'']
             (BrandMark ''brand-mark'' ''primary'' ''GatsToGo'' @ [El ''strong'' [] [Raw ''GATSTOGO'']]),
           El ''nav'' [At ''class'' ''mkt-nav'']
             [El ''a'' [At ''href'' ''/#how-it-works''] [Raw ''How it works''],
              El ''a'' [At ''href'' ''/pricing''] [Raw ''Pricing''],
              El ''a'' [At ''href'' ''/about''] [Raw ''About'']],
           El ''div'' [At ''class'' ''mkt-header-actions'']
             [El ''a'' [At ''class'' ''button-primary'', At ''href'' ''/get-started'']
                ([Raw ''Get started''] @ Icon ''arrow-right'')]]]]"

definition marketingPageShell :: "site \<Rightarrow> string \<Rightarrow> node list \<Rightarrow> node list" where
  "marketingPageShell si title content =
    [Doctype,
     El ''html'' [At ''lang'' ''en'']
       [El ''head'' []
          ([El ''meta'' [At ''charset'' ''utf-8''] [],
            El ''meta'' [At ''name'' ''viewport'', At ''content'' ''width=device-width, initial-scale=1''] [],
            El ''title'' [] [Text title]]
           @ BrandFavicons
           @ [El ''link'' [At ''rel'' ''preconnect'', At ''href'' ''https://fonts.googleapis.com''] [],
              El ''link''
                  [At ''href'' ''https://fonts.googleapis.com/css2?family=Archivo:wght@700;800&family=IBM+Plex+Sans:wght@400;500;600;700;800&family=IBM+Plex+Mono:wght@500;600;700;800&display=swap'',
                  At ''rel'' ''stylesheet''] [],
              El ''link'' [At ''rel'' ''stylesheet'', Aurl ''href'' (cssURL si ''tokens.css'')] [],
              El ''link'' [At ''rel'' ''stylesheet'', Aurl ''href'' (cssURL si ''marketing.css'')] [],
              El ''script'' [] []]),
        El ''body'' [] (marketingHeader @ content @ marketingFooter si)]]"

section \<open>\<^verbatim>\<open>account_resolve_templ.go\<close>\<close>

definition accountResolveScript :: "node list" where
  "accountResolveScript =
    [El ''script'' [] []]"

section \<open>\<^verbatim>\<open>splash_templ.go\<close>\<close>

definition splashOverlay :: "node list" where
  "splashOverlay =
    [El ''div'' [At ''class'' ''splash-overlay'', Aflag ''data-splash-overlay'', Aflag ''hidden'']
       (BrandMark ''splash-mark'' ''dark-container'' ''''
        @ [El ''p'' [At ''class'' ''splash-message'', Aflag ''data-splash-message'', At ''role'' ''status'',
               At ''aria-live'' ''polite'']
             [Raw ''Loading'']])]"

section \<open>\<^verbatim>\<open>owner_login_templ.go\<close>\<close>

definition auth_head :: "site \<Rightarrow> string \<Rightarrow> node list" where
  "auth_head si title =
    [El ''head'' []
       ([El ''meta'' [At ''charset'' ''utf-8''] [],
         El ''meta'' [At ''name'' ''viewport'', At ''content'' ''width=device-width, initial-scale=1''] [],
         El ''title'' [] [Text title]]
        @ BrandFavicons
        @ [El ''link'' [At ''rel'' ''preconnect'', At ''href'' ''https://fonts.googleapis.com''] [],
           El ''link''
               [At ''href'' ''https://fonts.googleapis.com/css2?family=Archivo:wght@700;800&family=IBM+Plex+Sans:wght@400;500;600;700;800&display=swap'',
               At ''rel'' ''stylesheet''] [],
           El ''link'' [At ''rel'' ''stylesheet'', Aurl ''href'' (cssURL si ''tokens.css'')] [],
           El ''link'' [At ''rel'' ''stylesheet'', Aurl ''href'' (cssURL si ''owner-admin.css'')] [],
           El ''script'' [] []])]"

definition auth_body :: "string \<Rightarrow> string \<Rightarrow> string \<Rightarrow> string \<Rightarrow> node list" where
  "auth_body heading errorMsg action csrfToken =
    [El ''body'' []
       ([El ''div'' [At ''class'' ''login-page'']
           [El ''div'' [At ''class'' ''login-visual'']
              [El ''a'' [At ''class'' ''login-visual-brand'', At ''href'' ''/'']
                 (BrandMark ''mark'' ''reversed'' ''GatsToGo'' @ [El ''span'' [] [Raw ''GATSTOGO'']]),
               El ''div'' [At ''class'' ''login-visual-copy'']
                 [El ''h2'' [] [Raw ''Run your plant from anywhere.''],
                  El ''p'' []
                    [Raw (''Sign in to see today'' @ apos @ ''s sales, cash position, and shift activity, live.'')]]],
            El ''div'' [At ''class'' ''login-form-col'']
              [El ''form'' [At ''class'' ''login-card'', At ''method'' ''post'', Asafe ''action'' action,
                   At ''data-splash'' ''Signing in'']
                 ([El ''div'' [At ''class'' ''login-brand'']
                     (BrandMark ''mark'' ''primary'' ''GatsToGo'' @ [El ''span'' [] [Raw ''GATSTOGO'']]),
                   El ''div'' []
                     [El ''h1'' [] [Text heading],
                      El ''p'' [At ''class'' ''login-sub'']
                        [Raw ''Enter your phone number and password to continue.'']]]
                  @ (if errorMsg \<noteq> '''' then
                        [El ''div'' [At ''class'' ''owner-error login-error'']
                           (Icon ''warning-circle'' @ [Text errorMsg])]
                     else [])
                  @ [El ''input'' [At ''type'' ''hidden'', At ''name'' ''csrf_token'', Av ''value'' csrfToken] [],
                     El ''div'' [At ''class'' ''field'']
                       [El ''label'' [At ''for'' ''login-phone''] [Raw ''Phone number''],
                        El ''input'' [At ''id'' ''login-phone'', At ''type'' ''tel'', At ''name'' ''phone'',
                            At ''placeholder'' ''0803 000 0000'', At ''autocomplete'' ''tel'',
                            Aflag ''required'', Aflag ''autofocus''] []],
                     El ''div'' [At ''class'' ''field'']
                       ([El ''label'' [At ''for'' ''login-password''] [Raw ''Password''],
                         El ''div'' [At ''class'' ''field-password'']
                           [El ''input'' [At ''id'' ''login-password'', At ''type'' ''password'', At ''name'' ''password'',
                                At ''autocomplete'' ''current-password'', Aflag ''required''] [],
                            El ''button'' [At ''type'' ''button'', At ''class'' ''field-password-toggle'',
                                At ''data-password-toggle'' ''login-password'',
                                At ''aria-label'' ''Show password'']
                              (Icon ''eye'')]]
                        @ (if action = ''/owner/login'' then
                              [El ''a'' [At ''class'' ''login-sub'',
                                   At ''style'' ''display:inline-block; margin-top:8px;'',
                                   At ''href'' ''/owner/forgot-password'']
                                 [Raw ''Forgot your password?'']]
                           else [])),
                     El ''button'' [At ''class'' ''btn primary full-width'', At ''type'' ''submit'']
                       [Raw ''Sign in'']])]]]
        @ splashOverlay)]"

definition authShell :: "site \<Rightarrow> string \<Rightarrow> string \<Rightarrow> string \<Rightarrow> string \<Rightarrow> string \<Rightarrow> node list" where
  "authShell si title heading errorMsg action csrfToken =
    [Doctype,
     El ''html'' [At ''lang'' ''en''] (auth_head si title @ auth_body heading errorMsg action csrfToken)]"

section \<open>\<^verbatim>\<open>owner_admin_templ.go\<close>\<close>

definition navLink :: "string \<Rightarrow> string \<Rightarrow> string \<Rightarrow> node list" where
  "navLink tab icon label =
    [El ''a'' [At ''class'' ''nav-button'', Asafe ''href'' (''/admin#'' @ tab)]
       [El ''span'' [At ''class'' ''nav-button-label''] (Icon icon @ [Text label])]]"

definition navButton :: "bool \<Rightarrow> string \<Rightarrow> string \<Rightarrow> string \<Rightarrow> node list" where
  "navButton active tab icon label =
    [El ''button'' [Aclass [(''nav-button'', True), (''active'', active)], At ''type'' ''button'',
         Av ''data-tab'' tab]
       [El ''span'' [At ''class'' ''nav-button-label''] (Icon icon @ [Text label])]]"

definition adminNavLinks :: "node list" where
  "adminNavLinks =
    [El ''nav'' [At ''class'' ''rail-nav'', At ''aria-label'' ''Admin sections'']
       (navLink ''overview'' ''squares-four'' ''Overview''
        @ navLink ''applications'' ''list-checks'' ''Applications''
        @ navLink ''plants'' ''factory'' ''Plants''
        @ navLink ''activity'' ''clock-counter-clockwise'' ''Admin activity'')]"

definition emptyState :: "string \<Rightarrow> string \<Rightarrow> node list" where
  "emptyState lottie message =
    [El ''div''
         [Aclass [(''empty'', True), (''empty-wide'', True), (''empty-square'',
             lottie \<noteq> ''empty-state'')]]
       [El ''lottie-player'' [At ''class'' ''empty-lottie'', Av ''src'' (''/static/lottie/'' @ lottie @ ''.json''),
            Aflag ''autoplay'', Aflag ''loop'', At ''aria-hidden'' ''true''] [],
        Raw '' '',
        Text message]]"

definition kpiLabel :: "string \<Rightarrow> string \<Rightarrow> node list" where
  "kpiLabel icon label =
    [El ''div'' [At ''class'' ''kpi-label''] (Icon icon @ [Text label])]"

definition themed_select_shell :: "string \<Rightarrow> select_option list \<Rightarrow> nat \<Rightarrow> node list" where
  "themed_select_shell name options selectedIndex =
    [El ''div'' [At ''class'' ''select-shell'', Aflag ''data-select'']
       [El ''select'' [Av ''name'' name, At ''class'' ''select-native'', Aflag ''required'']
          (concat (map (\<lambda>(i, opt).
              [El ''option''
                   ([Av ''value'' (fst opt)] @ (if i = selectedIndex then [Aflag ''selected''] else []))
                 [Text (snd opt)]]) (enumerate 0 options))),
        El ''button'' [At ''type'' ''button'', At ''class'' ''select-trigger'',
            At ''aria-haspopup'' ''listbox'', At ''aria-expanded'' ''false'']
          ([El ''span'' [At ''class'' ''select-value''] [Text (snd (options ! selectedIndex))]]
           @ Icon ''caret-down''),
        El ''ul'' [At ''class'' ''select-list'', At ''role'' ''listbox'', Aflag ''hidden'']
          (concat (map (\<lambda>(i, opt).
              [El ''li'' [At ''role'' ''option'', Av ''data-value'' (fst opt),
                   Av ''aria-selected'' (FormatBool (i = selectedIndex)),
                   Aclass [(''selected'', i = selectedIndex)]]
                 [Text (snd opt)]]) (enumerate 0 options)))]]"

definition themedSelect :: "string \<Rightarrow> select_option list \<Rightarrow> string \<Rightarrow> node list" where
  "themedSelect name options selected =
    (let selectedIndex = themedSelectIndexOf options selected in
      (themed_select_shell name options selectedIndex))"

definition brandColorField :: "string \<Rightarrow> string \<Rightarrow> string \<Rightarrow> string \<Rightarrow> node list" where
  "brandColorField label name value fallback =
    [El ''div'' [At ''class'' ''field color-field'', Aflag ''data-color-field'']
       [El ''label'' [] [Text label],
        El ''div'' [At ''class'' ''color-input-row'']
          [El ''input'' [At ''class'' ''color-text'', At ''type'' ''text'', Av ''name'' name, Av ''value'' value,
               Av ''placeholder'' fallback, At ''pattern'' ''#?[0-9A-Fa-f]{6}'', At ''maxlength'' ''7'',
               At ''title'' ''Use a 6-digit hex color, like #006B4D or 006B4D'', Aflag ''data-color-text''] [],
           El ''input'' [At ''class'' ''color-picker'', At ''type'' ''color'',
               Av ''value'' (colorInputValue value fallback), Av ''aria-label'' (label @ '' picker''),
               Aflag ''data-color-picker''] []]]]"

definition status_form :: "string \<Rightarrow> string \<Rightarrow> string \<Rightarrow> string \<Rightarrow> statusConfirm \<Rightarrow> node list" where
  "status_form plantID newStatus label csrfToken confirm =
    [El ''form'' [At ''method'' ''post'', Asafe ''action'' (''/admin/plants/'' @ plantID @ ''/status''),
         Av ''data-confirm-title'' (sc_Title confirm), Av ''data-confirm-desc'' (sc_Desc confirm),
         Av ''data-confirm-label'' label, Av ''data-confirm-tone'' (sc_Tone confirm)]
       [El ''input'' [At ''type'' ''hidden'', At ''name'' ''csrf_token'', Av ''value'' csrfToken] [],
        El ''input'' [At ''type'' ''hidden'', At ''name'' ''status'', Av ''value'' newStatus] [],
        El ''button'' [Aclass [(''btn'', True), (''primary'', newStatus = ''active'')], At ''type'' ''submit'']
          [Text label]]]"

definition plantStatusForm :: "string \<Rightarrow> string \<Rightarrow> string \<Rightarrow> string \<Rightarrow> statusConfirm \<Rightarrow> node list" where
  "plantStatusForm plantID newStatus label csrfToken confirm =
    status_form plantID newStatus label csrfToken confirm"

section \<open>\<^verbatim>\<open>verify_templ.go\<close>\<close>

definition verifyValue :: "string \<Rightarrow> string \<Rightarrow> string \<Rightarrow> node list" where
  "verifyValue value verifyURL verifyLabel =
    [El ''span'' [At ''class'' ''verify-value'']
       ([El ''span'' [At ''class'' ''mono''] [Text value]]
        @ (if isProvided value then
              [El ''span'' [At ''class'' ''verify-actions'']
                 ([El ''button'' [At ''type'' ''button'', At ''class'' ''verify-copy'', Av ''data-copy'' value,
                       Av ''aria-label'' (''Copy '' @ value), At ''title'' ''Copy'']
                     [El ''span'' [At ''class'' ''when-idle''] (Icon ''copy''),
                      El ''span'' [At ''class'' ''when-copied''] (Icon ''check'')]]
                  @ (if verifyURL \<noteq> '''' then
                        [El ''a'' [At ''class'' ''verify-link'', Asafe ''href'' verifyURL,
                             At ''target'' ''_blank'', At ''rel'' ''noopener noreferrer'']
                           ([Text verifyLabel] @ Icon ''arrow-square-out'')]
                     else []))]
           else []))]"

section \<open>\<^verbatim>\<open>owner_admin_templ.go\<close>\<close>

definition ops_head :: "site \<Rightarrow> string \<Rightarrow> node list" where
  "ops_head si title =
    [El ''head'' []
       ([El ''meta'' [At ''charset'' ''utf-8''] [],
         El ''meta'' [At ''name'' ''viewport'', At ''content'' ''width=device-width, initial-scale=1''] [],
         El ''title'' [] [Text title]]
        @ BrandFavicons
        @ [El ''link'' [At ''rel'' ''preconnect'', At ''href'' ''https://fonts.googleapis.com''] [],
           El ''link''
               [At ''href'' ''https://fonts.googleapis.com/css2?family=Archivo:wght@700;800&family=IBM+Plex+Sans:wght@400;500;600;700;800&family=IBM+Plex+Mono:wght@500;600;700;800&display=swap'',
               At ''rel'' ''stylesheet''] [],
           El ''link'' [At ''rel'' ''stylesheet'', Aurl ''href'' (cssURL si ''tokens.css'')] [],
           El ''link'' [At ''rel'' ''stylesheet'', Aurl ''href'' (cssURL si ''owner-admin.css'')] [],
           El ''script''
               [At ''src'' ''https://cdn.jsdelivr.net/npm/@lottiefiles/lottie-player@2.0.12/dist/lottie-player.js'',
               Aflag ''defer''] [],
           El ''script'' [] [],
           El ''script'' [] []])]"

definition ops_body :: "string \<Rightarrow> node list \<Rightarrow> node list \<Rightarrow> string \<Rightarrow> string \<Rightarrow> string \<Rightarrow> string \<Rightarrow> node list" where
  "ops_body railLabel nav content logoutAction csrfToken mobileTitle mobileSub =
    [El ''body'' []
       ([El ''div'' [At ''class'' ''shell'', Aflag ''data-tabs'']
           [El ''header'' [At ''class'' ''mobile-topbar'']
              [El ''span'' [At ''class'' ''mt-mark''] (BrandMark ''mark'' ''primary'' ''GatsToGo''),
               El ''div'' [At ''class'' ''mt-title'']
                 [El ''strong'' [Aflag ''data-mobile-title''] [Text mobileTitle],
                  El ''span'' [] [Text mobileSub]],
               El ''button'' [At ''class'' ''rail-toggle'', At ''type'' ''button'', Aflag ''data-rail-toggle'',
                   At ''aria-label'' ''Open menu'', At ''aria-expanded'' ''false'',
                   At ''aria-controls'' ''mobile-rail'']
                 [El ''span'' [At ''class'' ''burger'', At ''aria-hidden'' ''true'']
                    [El ''span'' [] [], El ''span'' [] [], El ''span'' [] []]]],
            El ''div'' [At ''class'' ''rail-backdrop'', Aflag ''data-rail-backdrop''] [],
            El ''aside'' [At ''class'' ''rail'', At ''id'' ''mobile-rail'']
              ([El ''div'' [At ''class'' ''brand'']
                  [El ''span'' [At ''class'' ''mark-on-dark'']
                     (BrandMark ''mark'' ''dark-container'' ''GatsToGo''),
                   El ''span'' [At ''class'' ''mark-on-light''] (BrandMark ''mark'' ''primary'' ''GatsToGo''),
                   El ''span'' [] [Raw ''GATSTOGO'']],
                El ''div'' [At ''class'' ''rail-label''] [Text railLabel, Raw '' workspace'']]
               @ nav
               @ [El ''form'' [At ''method'' ''post'', Asafe ''action'' logoutAction,
                      At ''class'' ''rail-signout'', At ''data-confirm-title'' ''Sign out?'',
                      At ''data-confirm-desc'' (''You'' @ apos @
                          ''ll need to sign in again to get back to this dashboard.''),
                      At ''data-confirm-label'' ''Sign out'', At ''data-confirm-tone'' ''warning'']
                    [El ''input'' [At ''type'' ''hidden'', At ''name'' ''csrf_token'', Av ''value'' csrfToken] [],
                     El ''button'' [At ''class'' ''nav-button'', At ''type'' ''submit'']
                       [El ''span'' [At ''class'' ''nav-button-label''] (Icon ''sign-out'' @ [Raw ''Sign out''])]]]),
            El ''main'' [At ''class'' ''main''] content],
         El ''div'' [At ''class'' ''confirm-overlay'', Aflag ''data-confirm-overlay'', Aflag ''hidden'']
           [El ''div'' [At ''class'' ''confirm-modal'', At ''role'' ''alertdialog'',
                At ''aria-modal'' ''true'', At ''aria-labelledby'' ''confirm-modal-title'',
                At ''aria-describedby'' ''confirm-modal-desc'']
              [El ''div'' [At ''class'' ''confirm-icon'']
                 [El ''span'' [At ''class'' ''confirm-icon-warn''] (Icon ''warning-circle''),
                  El ''span'' [At ''class'' ''confirm-icon-ok''] (Icon ''check-circle'')],
               El ''h2'' [At ''id'' ''confirm-modal-title'', Aflag ''data-confirm-title-el''] [],
               El ''p'' [At ''id'' ''confirm-modal-desc'', Aflag ''data-confirm-desc-el''] [],
               El ''div'' [At ''class'' ''confirm-actions'']
                 [El ''button'' [At ''type'' ''button'', At ''class'' ''btn'', Aflag ''data-confirm-cancel'']
                    [Raw ''Cancel''],
                  El ''button'' [At ''type'' ''button'', At ''class'' ''btn primary'', Aflag ''data-confirm-ok''] []]]]]
        @ splashOverlay)]"

definition opsShell :: "site \<Rightarrow> string \<Rightarrow> string \<Rightarrow> node list \<Rightarrow> node list \<Rightarrow> string \<Rightarrow> string \<Rightarrow> string \<Rightarrow> string \<Rightarrow> node list" where
  "opsShell si title railLabel nav content logoutAction csrfToken mobileTitle mobileSub =
    [Doctype,
     El ''html'' [At ''lang'' ''en'']
       (ops_head si title @ ops_body railLabel nav content logoutAction csrfToken mobileTitle mobileSub)]"

section \<open>\<^verbatim>\<open>customer_home_templ.go\<close>\<close>

definition customerBrand :: "customerHomeTheme \<Rightarrow> node list" where
  "customerBrand theme =
    [El ''div'' [At ''class'' ''brand-lockup'']
       ((if th_LogoPath theme \<noteq> '''' then
            [El ''img'' [At ''class'' ''brand-logo'', Av ''src'' (th_LogoPath theme), At ''alt'' ''''] []]
         else [])
        @ [El ''div'' []
             [El ''div'' [At ''class'' ''brand-name''] [Text (th_Name theme)],
              El ''div'' [At ''class'' ''brand-meta'']
                ((if th_MapHref theme \<noteq> '''' then
                     [El ''a'' [Aurl ''href'' (th_MapHref theme), At ''target'' ''_blank'',
                          At ''rel'' ''noreferrer'']
                        [Text (th_Address theme)]]
                  else [El ''span'' [] [Text (th_Address theme)]])
                 @ [El ''span'' [At ''class'' ''sep'', At ''aria-hidden'' ''true''] [],
                    El ''a'' [Aurl ''href'' (th_PhoneHref theme), At ''target'' ''_blank'',
                        At ''rel'' ''noreferrer'']
                      [Text (th_Phone theme)]])]])]"

definition siteFooter :: "node list" where
  "siteFooter =
    [El ''footer'' [At ''class'' ''site-footer'']
       [El ''div'' [At ''class'' ''wrap site-footer-inner'']
          [El ''a'' [At ''class'' ''site-footer-brand'', At ''href'' ''/about''] [Raw ''Powered by GatsToGo''],
           El ''nav'' [At ''class'' ''site-footer-links'']
             [El ''a'' [At ''href'' ''/terms''] [Raw ''Terms''],
              El ''a'' [At ''href'' ''/privacy''] [Raw ''Privacy'']]]]]"

definition customerPageShell :: "site \<Rightarrow> customerHomeTheme \<Rightarrow> string \<Rightarrow> node list \<Rightarrow> node list" where
  "customerPageShell si theme title content =
    [Doctype,
     El ''html'' [At ''lang'' ''en'']
       [El ''head'' []
          ([El ''meta'' [At ''charset'' ''utf-8''] [],
            El ''meta'' [At ''name'' ''viewport'', At ''content'' ''width=device-width, initial-scale=1''] [],
            El ''title'' [] [Text title]]
           @ (if th_LogoPath theme \<noteq> '''' then
                 [El ''link'' [At ''rel'' ''icon'', Aurl ''href'' (th_LogoPath theme)] []]
              else BrandFavicons)
           @ [El ''script'' [] [],
              El ''script'' [Aflag ''defer'', At ''src'' ''https://cdn.jsdelivr.net/npm/alpinejs@3.14.9/dist/cdn.min.js''] [],
              El ''link'' [At ''rel'' ''preconnect'', At ''href'' ''https://fonts.googleapis.com''] [],
              El ''link''
                  [At ''href'' ''https://fonts.googleapis.com/css2?family=Archivo:wght@700;800&family=IBM+Plex+Sans:wght@400;500;600;700;800&family=IBM+Plex+Mono:wght@500;600;700;800&display=swap'',
                  At ''rel'' ''stylesheet''] [],
              El ''link'' [At ''rel'' ''stylesheet'', Aurl ''href'' (cssURL si ''tokens.css'')] [],
              El ''link'' [At ''rel'' ''stylesheet'', Aurl ''href'' (cssURL si ''customer-home.css'')] []]),
        El ''body'' [Astyle (customerCSSVars theme)] (content @ siteFooter)]]"

section \<open>\<^verbatim>\<open>owner_change_password_templ.go\<close>\<close>

definition passwordInput :: "string \<Rightarrow> string \<Rightarrow> string \<Rightarrow> bool \<Rightarrow> node list" where
  "passwordInput id' name autocomplete autofocus =
    [El ''div'' [At ''class'' ''field-password'']
       [El ''input''
            ([Av ''id'' id', At ''type'' ''password'', Av ''name'' name, Av ''autocomplete'' autocomplete,
                Aflag ''required''] @ (if autofocus then [Aflag ''autofocus''] else [])) [],
        El ''button'' [At ''type'' ''button'', At ''class'' ''field-password-toggle'',
            Av ''data-password-toggle'' id', At ''aria-label'' ''Show password'']
          [El ''span'' [At ''class'' ''when-hidden''] (Icon ''eye''),
           El ''span'' [At ''class'' ''when-shown''] (Icon ''eye-slash'')]]]"

section \<open>\<^verbatim>\<open>signup_templ.go\<close>\<close>

definition socialLinks :: "string \<Rightarrow> node list" where
  "socialLinks heading =
    [El ''div'' [At ''class'' ''social-follow'']
       [El ''span'' [At ''class'' ''social-follow-label''] [Text heading],
        El ''div'' [At ''class'' ''social-follow-links'']
          [El ''a'' [At ''class'' ''social-link'', Asafe ''href'' socialXURL, At ''target'' ''_blank'',
               At ''rel'' ''noopener noreferrer'']
             [El ''svg'' [At ''viewBox'' ''0 0 24 24'', At ''aria-hidden'' ''true'']
                [El ''path'' [At ''fill'' ''currentColor'',
                     At ''d'' ''M18.244 2.25h3.308l-7.227 8.26 8.502 11.24H16.17l-5.214-6.817L4.99 21.75H1.68l7.73-8.835L1.254 2.25H8.08l4.713 6.231zm-1.161 17.52h1.833L7.084 4.126H5.117z''] []],
              El ''span'' [] [Raw ''Follow on X'']],
           El ''a'' [At ''class'' ''social-link'', Asafe ''href'' socialFacebookURL, At ''target'' ''_blank'',
               At ''rel'' ''noopener noreferrer'']
             [El ''svg'' [At ''viewBox'' ''0 0 24 24'', At ''aria-hidden'' ''true'']
                [El ''path'' [At ''fill'' ''currentColor'',
                     At ''d'' ''M13.5 21.9v-8.2h2.8l.5-3.3h-3.3V8.3c0-.9.4-1.7 1.8-1.7h1.6V3.7c-.3 0-1.3-.2-2.4-.2-2.5 0-4.1 1.5-4.1 4.2v2.7H7.7v3.3h2.7v8.2z''] []],
              El ''span'' [] [Raw ''Like us on Facebook'']]]]]"

section \<open>\<^verbatim>\<open>not_found_templ.go\<close>\<close>

definition NotFound :: "site \<Rightarrow> node list" where
  "NotFound si =
    [Doctype,
     El ''html'' [At ''lang'' ''en'']
       [El ''head'' []
          ([El ''meta'' [At ''charset'' ''utf-8''] [],
            El ''meta'' [At ''name'' ''viewport'', At ''content'' ''width=device-width, initial-scale=1''] [],
            El ''title'' [] [Raw ''Page not found | GatsToGo'']]
           @ BrandFavicons
           @ [El ''link'' [At ''rel'' ''preconnect'', At ''href'' ''https://fonts.googleapis.com''] [],
              El ''link''
                  [At ''href'' ''https://fonts.googleapis.com/css2?family=Archivo:wght@700;800&family=IBM+Plex+Sans:wght@400;500;600;700;800&family=IBM+Plex+Mono:wght@500;600;700;800&display=swap'',
                  At ''rel'' ''stylesheet''] [],
              El ''link'' [At ''rel'' ''stylesheet'', Aurl ''href'' (cssURL si ''tokens.css'')] [],
              El ''link'' [At ''rel'' ''stylesheet'', Aurl ''href'' (cssURL si ''marketing.css'')] [],
              El ''script''
                  [At ''src'' ''https://cdn.jsdelivr.net/npm/@lottiefiles/lottie-player@2.0.12/dist/lottie-player.js'',
                  Aflag ''defer''] []]),
        El ''body'' [At ''class'' ''error-body'']
          [El ''header'' [At ''class'' ''error-top'']
             [El ''a'' [At ''class'' ''brand-lockup'', At ''href'' ''/'']
                (BrandMark ''brand-mark'' ''primary'' ''GatsToGo'' @ [El ''strong'' [] [Raw ''GATSTOGO'']]),
              El ''a'' [At ''class'' ''button-primary'', At ''href'' ''/''] [Raw ''Go to homepage'']],
           El ''main'' [At ''class'' ''error-page'']
             [El ''lottie-player'' [At ''class'' ''error-lottie'', At ''src'' ''/static/lottie/404.json'',
                  Aflag ''autoplay'', Aflag ''loop'', At ''aria-hidden'' ''true''] [],
              El ''h1'' [] [Raw (''We couldn'' @ apos @ ''t find that page'')],
              El ''p'' [] [Raw ''The link may be mistyped, or that plant is no longer active.'']]]]]"

end
