(* ===== verification/MarketingPages.thy ===== *)
theory MarketingPages
  imports PageParts
begin

text \<open>
  The pages of the bare domain: landing, about, pricing, legal, the two forms of get-started, the
  login finder, contact and the help centre.
\<close>

section \<open>\<^verbatim>\<open>landing_templ.go\<close>\<close>

definition landingContent :: "node list" where
  "landingContent =
    [El ''main'' []
       [El ''section'' [At ''class'' ''hero'']
          [El ''div'' [At ''class'' ''wrap hero-inner'']
             [El ''div'' [At ''class'' ''section-eyebrow''] [Raw ''For LPG plant owners''],
              El ''h1'' [] [Raw ''Sell gas online. Run your plant from one dashboard.''],
              El ''p'' [At ''class'' ''lede'']
                [Raw ''GatsToGo gives your plant its own branded page to sell gas, a terminal for staff to redeem and fill orders, and a live dashboard that shows every sale, shift, and naira of cash as it happens.''],
              El ''div'' [At ''class'' ''hero-ctas'']
                [El ''a'' [At ''class'' ''button-primary'', At ''href'' ''/get-started'']
                   ([Raw ''Get started''] @ Icon ''arrow-right''),
                 El ''a'' [At ''class'' ''text-button'', At ''href'' ''#how-it-works'']
                   [Raw ''See how it works'']]]],
        El ''div'' [At ''class'' ''photo-band'',
            At ''style'' (''background-image: url('' @ apos @ ''/static/images/landing-industrial.jpg'' @
                apos @ '')''),
            At ''role'' ''img'', At ''aria-label'' ''An LPG storage plant''] [],
        El ''section'' [At ''class'' ''mkt-section'', At ''id'' ''how-it-works'']
          [El ''div'' [At ''class'' ''wrap'']
             [El ''div'' [At ''class'' ''mkt-section-head'']
                [El ''div'' [At ''class'' ''section-eyebrow''] [Raw ''How it works''],
                 El ''h2'' [] [Raw ''From sign-up to your first sale'']],
              El ''div'' [At ''class'' ''step-list'']
                [El ''div'' [At ''class'' ''step-item'']
                   [El ''div'' [At ''class'' ''step-index mono''] [Raw ''01''],
                    El ''h3'' [] [Raw ''Create your plant''],
                    El ''p'' []
                      [Raw ''Tell us your plant name and set a starting price. You get your own branded page for customers to buy from.'']],
                 El ''div'' [At ''class'' ''step-item'']
                   [El ''div'' [At ''class'' ''step-index mono''] [Raw ''02''],
                    El ''h3'' [] [Raw ''Share your link''],
                    El ''p'' []
                      [Raw ''Customers pay online and get a 4-digit code by SMS. No app to install, no account to create.'']],
                 El ''div'' [At ''class'' ''step-item'']
                   [El ''div'' [At ''class'' ''step-index mono''] [Raw ''03''],
                    El ''h3'' [] [Raw ''Staff redeem and fill''],
                    El ''p'' []
                      [Raw ''Your cashiers and operators sign in at the terminal with a PIN, enter the code, and confirm the fill.'']],
                 El ''div'' [At ''class'' ''step-item'']
                   [El ''div'' [At ''class'' ''step-index mono''] [Raw ''04''],
                    El ''h3'' [] [Raw ''Track everything live''],
                    El ''p'' []
                      [Raw ''Sales, cash, shifts, and staff activity, all in one dashboard. No more end-of-day guesswork.'']]]]],
        El ''section'' [At ''class'' ''mkt-section'']
          [El ''div'' [At ''class'' ''wrap'']
             [El ''div'' [At ''class'' ''mkt-section-head'']
                [El ''div'' [At ''class'' ''section-eyebrow''] [Raw ''What you get''],
                 El ''h2'' [] [Raw ''Everything a plant needs to run online'']]],
           El ''div'' [At ''class'' ''wrap'']
             [El ''div'' [At ''class'' ''feature-grid'']
                [El ''div'' [At ''class'' ''feature-item'']
                   (Icon ''monitor''
                    @ [El ''h3'' [] [Raw ''Live owner dashboard''],
                       El ''p'' []
                         [Raw ''Real-time sales, cash position, shift history, and staff activity, not a report you have to wait for.'']]),
                 El ''div'' [At ''class'' ''feature-item'']
                   (Icon ''credit-card''
                    @ [El ''h3'' [] [Raw ''Online payments''],
                       El ''p'' []
                         [Raw ''Customers pay by bank transfer, card, or USSD. Every ticket is tied to a real, verified payment.'']]),
                 El ''div'' [At ''class'' ''feature-item'']
                   (Icon ''device-mobile''
                    @ [El ''h3'' [] [Raw ''Staff terminal''],
                       El ''p'' []
                         [Raw ''A PIN-secured terminal for cashiers and operators to redeem codes, record cash sales, and manage shifts.'']]),
                 El ''div'' [At ''class'' ''feature-item'']
                   (Icon ''receipt''
                    @ [El ''h3'' [] [Raw ''Receipts and lookup''],
                       El ''p'' []
                         [Raw ''Customers can look up any past purchase by phone number and a one-time code. No account required.'']])]]],
        El ''section'' [At ''class'' ''cta-band'']
          [El ''div'' [At ''class'' ''wrap'']
             [El ''h2'' [] [Raw ''Ready to put your plant online?''],
              El ''p'' []
                [Raw (''Tell us about your plant, and we'' @ apos @ ''ll review and get you set up.'')],
              El ''a'' [At ''class'' ''button-primary'', At ''href'' ''/get-started'']
                ([Raw ''Get started''] @ Icon ''arrow-right'')]]]]"

definition Landing :: "site \<Rightarrow> node list" where
  "Landing si =
    marketingPageShell si ''GatsToGo | Run your gas plant online'' landingContent"

section \<open>\<^verbatim>\<open>about_templ.go\<close>\<close>

definition aboutContent :: "string \<Rightarrow> node list" where
  "aboutContent contactEmail =
    [El ''main'' [At ''class'' ''about-page'']
       [El ''section'' [At ''class'' ''about-hero'']
          [El ''div'' [At ''class'' ''wrap'']
             [El ''div'' [At ''class'' ''section-eyebrow''] [Raw ''About GatsToGo''],
              El ''h1'' [] [Raw ''Every kilogram and every naira, accounted for.''],
              El ''p'' [At ''class'' ''about-lede'']
                [Raw ''GatsToGo is the operating system for LPG plants in Nigeria. One place where customers buy gas online, staff redeem and fill orders, and owners see every sale, shift, and naira of cash as it happens.''],
              El ''figure'' [At ''class'' ''about-banner'']
                [El ''img'' [At ''src'' ''/static/images/about/lagos-street-1200.jpg'',
                     At ''srcset'' ''/static/images/about/lagos-street-1200.jpg 1200w, /static/images/about/lagos-street-2400.jpg 2400w'',
                     At ''sizes'' ''(max-width: 1120px) 100vw, 1064px'', At ''width'' ''2400'',
                     At ''height'' ''1000'',
                     At ''alt'' ''Aerial view of a busy Lagos street: yellow danfo buses, kekes, and traders under umbrellas'',
                     At ''fetchpriority'' ''high''] []]]],
        El ''section'' [At ''class'' ''mkt-section'']
          [El ''div'' [At ''class'' ''wrap about-split'']
             [El ''div'' [At ''class'' ''about-why-head'']
                [El ''div'' [At ''class'' ''mkt-section-head'']
                   [El ''div'' [At ''class'' ''section-eyebrow''] [Raw ''Why we exist''],
                    El ''h2'' []
                      [Raw (''Cooking gas is everyday business. Running a plant shouldn'' @ apos @ ''t be guesswork.'')]],
                 El ''figure'' [At ''class'' ''about-side-photo'']
                   [El ''img'' [At ''src'' ''/static/images/about/lpg-cylinders-640.jpg'',
                        At ''srcset'' ''/static/images/about/lpg-cylinders-640.jpg 640w, /static/images/about/lpg-cylinders-1100.jpg 1100w'',
                        At ''sizes'' ''(max-width: 900px) 100vw, 420px'', At ''width'' ''1100'',
                        At ''height'' ''1375'', At ''alt'' ''Rows of LPG cylinders waiting to be refilled'',
                        At ''loading'' ''lazy'', At ''decoding'' ''async''] []]],
              El ''div'' [At ''class'' ''about-prose'']
                [El ''p'' []
                   [Raw (''Nigeria uses thousands of tonnes of LPG every day, and much of it moves through neighbourhood refilling plants. Yet at most plants the day still runs on cash, memory, and a notebook. Sales, shifts, and cash are reconciled by hand at the end of a long day, and when the numbers don'' @ apos @ ''t match, there'' @ apos @ ''s no record to check.'')],
                 El ''p'' []
                   [Raw ''We built GatsToGo to make that real time: customers pay before they reach the counter, staff fill exactly what was paid for, and the owner sees it all live, from anywhere.''],
                 El ''div'' [At ''class'' ''about-stat'']
                   [El ''strong'' [] [Raw ''4,380''],
                    El ''span'' []
                      [Raw ''tonnes of LPG used in Nigeria every day, on average, in December 2025.''],
                    El ''a'' [At ''class'' ''about-source'',
                        At ''href'' ''https://www.nigeriastartupact.ng/nigeria-lpg-supply-hits-5-2k-mt-day-in-december-2025/'',
                        At ''target'' ''_blank'', At ''rel'' ''noopener noreferrer'']
                      [Raw ''Source: NMDPRA figures, via Nigeria Startup Act'']]]]],
        El ''section'' [At ''class'' ''mkt-section'']
          [El ''div'' [At ''class'' ''wrap'']
             [El ''div'' [At ''class'' ''mkt-section-head'']
                [El ''div'' [At ''class'' ''section-eyebrow''] [Raw ''What we built''],
                 El ''h2'' [] [Raw ''Three tools, one plant.'']],
              El ''div'' [At ''class'' ''about-pillars'']
                [El ''div'' [At ''class'' ''about-pillar'']
                   [El ''span'' [At ''class'' ''about-pillar-label''] [Raw ''For customers''],
                    El ''h3'' [] [Raw ''A branded buy-gas page''],
                    El ''p'' []
                      [Raw (''Your plant'' @ apos @ ''s own page, in your colors. Customers pay by transfer, card, or USSD and get a 4-digit code by SMS. No app, no account.'')]],
                 El ''div'' [At ''class'' ''about-pillar'']
                   [El ''span'' [At ''class'' ''about-pillar-label''] [Raw ''For staff''],
                    El ''h3'' [] [Raw ''A terminal at the counter''],
                    El ''p'' []
                      [Raw ''Cashiers and operators sign in with a PIN, redeem codes, record cash sales, and close their shift with a cash count.'']],
                 El ''div'' [At ''class'' ''about-pillar'']
                   [El ''span'' [At ''class'' ''about-pillar-label''] [Raw ''For owners''],
                    El ''h3'' [] [Raw ''A live dashboard''],
                    El ''p'' []
                      [Raw ''Sales, gas paid for versus gas filled, cash by shift, staff, pumps, prices, and customer reviews, updated as it happens.'']]]]],
        El ''section'' [At ''class'' ''mkt-section'']
          [El ''div'' [At ''class'' ''wrap'']
             [El ''div'' [At ''class'' ''mkt-section-head'']
                [El ''div'' [At ''class'' ''section-eyebrow''] [Raw ''What we stand for''],
                 El ''h2'' [] [Raw ''Principles we build by.'']],
              El ''div'' [At ''class'' ''about-principles'']
                [El ''div'' []
                   [El ''span'' [At ''class'' ''about-num''] [Raw ''01''],
                    El ''h3'' [] [Raw ''Your money goes straight to you''],
                    El ''p'' []
                      [Raw ''Online payments are split by Paystack at the moment of payment. Your share settles to your own bank account. GatsToGo never holds it.'']],
                 El ''div'' []
                   [El ''span'' [At ''class'' ''about-num''] [Raw ''02''],
                    El ''h3'' [] [Raw ''Real numbers only''],
                    El ''p'' []
                      [Raw ''Every sale, fill, shift, and cash movement is recorded as it happens, so the end of the day is a check, not a reconstruction.'']],
                 El ''div'' []
                   [El ''span'' [At ''class'' ''about-num''] [Raw ''03''],
                    El ''h3'' [] [Raw ''Built for the counter''],
                    El ''p'' []
                      [Raw ''PINs instead of passwords, 4-digit codes instead of printouts, and screens that work on the phone or tablet already in your plant.'']],
                 El ''div'' []
                   [El ''span'' [At ''class'' ''about-num''] [Raw ''04''],
                    El ''h3'' [] [Raw ''Fair, simple pricing''],
                    El ''p'' []
                      [Raw ''No setup fee and no monthly fee. 1.5% on online sales, nothing on cash. '',
                       El ''a'' [At ''href'' ''/pricing''] [Raw ''See pricing''],
                       Raw ''.'']]]]],
        El ''section'' [At ''class'' ''mkt-section'']
          [El ''div'' [At ''class'' ''wrap about-split'']
             [El ''div'' [At ''class'' ''mkt-section-head'']
                [El ''div'' [At ''class'' ''section-eyebrow''] [Raw ''Trust and safety''],
                 El ''h2'' [] [Raw ''Serious about who sells, and how.'']],
              El ''ul'' [At ''class'' ''about-trust'']
                [El ''li'' []
                   (Icon ''shield-check''
                    @ [El ''div'' []
                         [El ''strong'' [] [Raw ''Verified plants only''],
                          Raw ('' Every plant is reviewed before going live: CAC registration, NMDPRA licence, and a bank account confirmed in the business'' @ apos @ ''s name.'')]]),
                 El ''li'' []
                   (Icon ''lock''
                    @ [El ''div'' []
                         [El ''strong'' [] [Raw ''Payments by Paystack''],
                          Raw '' Customer card and bank details are handled by Paystack, never stored by GatsToGo.'']]),
                 El ''li'' []
                   (Icon ''identification-badge''
                    @ [El ''div'' []
                         [El ''strong'' [] [Raw ''Your data, handled with care''],
                          Raw '' We collect only what running your plant needs. Read our '',
                          El ''a'' [At ''href'' ''/privacy''] [Raw ''Privacy Policy''],
                          Raw ''.'']])]]],
        El ''section'' [At ''class'' ''mkt-section'']
          [El ''div'' [At ''class'' ''wrap about-split'']
             [El ''div'' [At ''class'' ''mkt-section-head'']
                [El ''div'' [At ''class'' ''section-eyebrow''] [Raw ''Contact''],
                 El ''h2'' [] [Raw ''Talk to us.'']],
              El ''div'' [At ''class'' ''about-contact'']
                [El ''div'' [At ''class'' ''about-contact-row'']
                   [El ''span'' [] [Raw ''Email''],
                    El ''a'' [Asafe ''href'' (''mailto:'' @ contactEmail)] [Text contactEmail]],
                 El ''div'' [At ''class'' ''about-contact-row'']
                   [El ''span'' [] [Raw ''Run a plant?''],
                    El ''a'' [At ''href'' ''/get-started''] [Raw ''Apply to get started'']],
                 El ''div'' [At ''class'' ''about-contact-row'']
                   [El ''span'' [] [Raw ''Already a customer?''],
                    El ''p'' []
                      [Raw (''Log in from your plant'' @ apos @ ''s own page, Can'' @ apos @ ''t find it? Email us.'')]]]]],
        El ''section'' [At ''class'' ''cta-band'']
          [El ''div'' [At ''class'' ''wrap'']
             [El ''h2'' [] [Raw ''Bring your plant online.''],
              El ''p'' [] [Raw ''No setup fee, no monthly fee. We review every application.''],
              El ''a'' [At ''class'' ''button-primary'', At ''href'' ''/get-started'']
                ([Raw ''Get started''] @ Icon ''arrow-right'')]]]]"

definition About :: "site \<Rightarrow> string \<Rightarrow> node list" where
  "About si contactEmail =
    marketingPageShell si ''About | GatsToGo'' (aboutContent contactEmail)"

section \<open>\<^verbatim>\<open>pricing_templ.go\<close>\<close>

definition pricing_plan_section :: "node list" where
  "pricing_plan_section =
    [El ''section'' [At ''class'' ''pricing-plan-section'']
       [El ''div'' [At ''class'' ''wrap'']
          [El ''div'' [At ''class'' ''pricing-plan'']
             [El ''div'' [At ''class'' ''pricing-plan-price'']
                [El ''div'' [At ''class'' ''pricing-plan-name''] [Raw ''One plan, everything included''],
                 El ''div'' [At ''class'' ''pricing-big'']
                   [El ''span'' [At ''class'' ''pricing-big-number''] [Raw ''1.5%''],
                    El ''span'' [At ''class'' ''pricing-big-unit''] [Raw ''per online sale'']],
                 El ''p'' [At ''class'' ''pricing-plan-note'']
                   [Raw (''Plus Paystack'' @ apos @ ''s standard processing fee on each online payment. Nothing on cash sales.'')],
                 El ''a'' [At ''class'' ''button-primary pricing-plan-cta'', At ''href'' ''/get-started'']
                   ([Raw ''Put your plant online''] @ Icon ''arrow-right'')],
              El ''div'' [At ''class'' ''pricing-plan-features'']
                [El ''div'' [At ''class'' ''pricing-features-title''] [Raw ''Everything your plant needs''],
                 El ''ul'' [At ''class'' ''pricing-features'']
                   [El ''li'' [] (Icon ''check-circle'' @ [Raw ''Branded buy-gas page for your customers'']),
                    El ''li'' [] (Icon ''check-circle'' @ [Raw ''Bank transfer, card, and USSD payments'']),
                    El ''li'' [] (Icon ''check-circle'' @ [Raw ''Payouts straight to your bank account'']),
                    El ''li'' [] (Icon ''check-circle'' @ [Raw ''Staff terminal for cash sales and fills'']),
                    El ''li'' [] (Icon ''check-circle'' @ [Raw ''Owner dashboard with live sales and cash'']),
                    El ''li'' [] (Icon ''check-circle'' @ [Raw ''Shift and cash drawer records'']),
                    El ''li'' [] (Icon ''check-circle'' @ [Raw ''Pump and opening hours management'']),
                    El ''li'' [] (Icon ''check-circle'' @ [Raw ''SMS receipts and customer reviews'']),
                    El ''li'' [] (Icon ''check-circle'' @ [Raw ''Unlimited staff, pumps, and sales'']),
                    El ''li'' [] (Icon ''check-circle'' @ [Raw ''Your own colors and logo''])]]],
           El ''div'' [At ''class'' ''pricing-zero'', At ''aria-label'' (''What you don'' @ apos @ ''t pay'')]
             [El ''div'' [At ''class'' ''pricing-zero-item'']
                [El ''strong'' [] [Raw (naira_sign @ ''0'')], El ''span'' [] [Raw ''Setup'']],
              El ''div'' [At ''class'' ''pricing-zero-item'']
                [El ''strong'' [] [Raw (naira_sign @ ''0'')], El ''span'' [] [Raw ''Monthly fee'']],
              El ''div'' [At ''class'' ''pricing-zero-item'']
                [El ''strong'' [] [Raw (naira_sign @ ''0'')], El ''span'' [] [Raw ''Per staff or pump'']],
              El ''div'' [At ''class'' ''pricing-zero-item'']
                [El ''strong'' [] [Raw (naira_sign @ ''0'')], El ''span'' [] [Raw ''On cash sales'']]]]]]"

definition pricing_questions :: "node list" where
  "pricing_questions =
    [El ''section'' [At ''class'' ''mkt-section'']
       [El ''div'' [At ''class'' ''wrap pricing-faq-wrap'']
          [El ''div'' [At ''class'' ''mkt-section-head'']
             [El ''div'' [At ''class'' ''section-eyebrow''] [Raw ''Questions''],
              El ''h2'' [] [Raw ''Pricing, answered.'']],
           El ''div'' [At ''class'' ''pricing-faq'']
             [El ''details'' [Aflag ''open'']
                [El ''summary'' []
                   ([El ''span'' [] [Raw ''Are there any setup or monthly fees?'']] @ Icon ''caret-down''),
                 El ''p'' []
                   [Raw ''No. Setting up your plant, your branded buy-gas page, the staff terminal, and the owner dashboard cost nothing. You only pay when a customer pays online.'']],
              El ''details'' []
                [El ''summary'' [] ([El ''span'' [] [Raw ''What exactly is the 1.5%?'']] @ Icon ''caret-down''),
                 El ''p'' []
                   [Raw (''GatsToGo keeps 1.5% of each online sale. Paystack splits it automatically when the customer pays, so 98.5% of the sale is your plant'' @ apos @ ''s from the start.'')]],
              El ''details'' []
                [El ''summary'' []
                   ([El ''span'' [] [Raw (''Who pays Paystack'' @ apos @ ''s fee?'')]] @ Icon ''caret-down''),
                 El ''p'' []
                   [Raw (''It comes out of your plant'' @ apos @ ''s share, at Paystack'' @ apos @ ''s standard rate: 1.5% + '' @ naira_sign @ ''100 per payment, capped at '' @ naira_sign @ ''2,000, and the '' @ naira_sign @ ''100 is waived on payments under '' @ naira_sign @ ''2,500. The calculator above includes it.'')]],
              El ''details'' []
                [El ''summary'' []
                   ([El ''span'' [] [Raw ''Do you charge on cash sales?'']] @ Icon ''caret-down''),
                 El ''p'' []
                   [Raw ''No. Cash paid at your counter and recorded on the staff terminal never goes through Paystack, so there is no GatsToGo fee on it.'']],
              El ''details'' []
                [El ''summary'' []
                   ([El ''span'' [] [Raw ''When does the money reach my bank?'']] @ Icon ''caret-down''),
                 El ''p'' []
                   [Raw ''Paystack pays your share directly into the bank account you registered at sign-up, on its normal settlement schedule. GatsToGo never holds your money.'']],
              El ''details'' []
                [El ''summary'' []
                   ([El ''span'' [] [Raw ''Are there limits on staff, pumps, or sales?'']]
                    @ Icon ''caret-down''),
                 El ''p'' []
                   [Raw ''No. Add as many staff and pumps as your plant has, and sell as much as you can. The price is the same 1.5% on every online sale.'']]]]]]"

definition pricingContent :: "node list" where
  "pricingContent =
    [El ''main'' [At ''class'' ''pricing-page'']
       ([El ''section'' [At ''class'' ''pricing-hero'']
           [El ''div'' [At ''class'' ''wrap'']
              [El ''div'' [At ''class'' ''section-eyebrow''] [Raw ''Pricing''],
               El ''h1'' [] [Raw ''Pay only when you sell gas online.''],
               El ''p'' [At ''class'' ''pricing-lede'']
                 [Raw ''No setup fee. No monthly fee. GatsToGo keeps 1.5% of each online sale, split automatically by Paystack. Cash sales at your counter are free.''],
               El ''div'' [At ''class'' ''pricing-hero-ctas'']
                 [El ''a'' [At ''class'' ''button-primary'', At ''href'' ''/get-started'']
                    ([Raw ''Get started''] @ Icon ''arrow-right''),
                  El ''a'' [At ''class'' ''text-button'', At ''href'' ''#calculator'']
                    [Raw ''Estimate your fees'']]]]]
        @ pricing_plan_section
        @ [El ''section'' [At ''class'' ''mkt-section pricing-calc-section'', At ''id'' ''calculator'']
             [El ''div'' [At ''class'' ''wrap'']
                [El ''div'' [At ''class'' ''mkt-section-head'']
                   [El ''div'' [At ''class'' ''section-eyebrow''] [Raw ''Fee calculator''],
                    El ''h2'' [] [Raw ''See exactly what reaches your bank.'']],
                 El ''div'' [At ''class'' ''pricing-calc'', Aflag ''data-pricing-calc'']
                   [El ''div'' [At ''class'' ''pricing-calc-inputs'']
                      [El ''div'' [At ''class'' ''pricing-field'']
                         [El ''label'' [At ''for'' ''calc-amount''] [Raw ''Average online sale''],
                          El ''div'' [At ''class'' ''pricing-input'']
                            [El ''span'' [] [Raw naira_sign],
                             El ''input'' [At ''id'' ''calc-amount'', At ''type'' ''number'', At ''inputmode'' ''numeric'',
                                 At ''min'' ''100'', At ''step'' ''100'', At ''value'' ''15000'',
                                 Aflag ''data-calc-amount''] []],
                          El ''div'' [At ''class'' ''pricing-chips'', At ''role'' ''group'',
                              At ''aria-label'' ''Common sale amounts'']
                            [El ''button'' [At ''type'' ''button'', At ''data-calc-preset'' ''7500'']
                               [Raw (naira_sign @ ''7,500'')],
                             El ''button'' [At ''type'' ''button'', At ''data-calc-preset'' ''15000'']
                               [Raw (naira_sign @ ''15,000'')],
                             El ''button'' [At ''type'' ''button'', At ''data-calc-preset'' ''18750'']
                               [Raw (naira_sign @ ''18,750'')],
                             El ''button'' [At ''type'' ''button'', At ''data-calc-preset'' ''37500'']
                               [Raw (naira_sign @ ''37,500'')]]],
                       El ''div'' [At ''class'' ''pricing-field'']
                         [El ''label'' [At ''for'' ''calc-sales'']
                            [Raw ''Online sales per day '',
                             El ''output'' [Aflag ''data-calc-sales-out''] [Raw ''40'']],
                          El ''input'' [At ''id'' ''calc-sales'', At ''class'' ''pricing-range'', At ''type'' ''range'',
                              At ''min'' ''1'', At ''max'' ''300'', At ''value'' ''40'',
                              Aflag ''data-calc-sales''] [],
                          El ''div'' [At ''class'' ''pricing-range-scale'']
                            [El ''span'' [] [Raw ''1''], El ''span'' [] [Raw ''300'']]]],
                    El ''div'' [At ''class'' ''pricing-calc-result'', At ''aria-live'' ''polite'']
                      [El ''div'' [At ''class'' ''pricing-calc-label''] [Raw ''Per sale''],
                       El ''dl'' [At ''class'' ''pricing-breakdown'']
                         [El ''div'' []
                            [El ''dt'' [] [Raw ''Customer pays''],
                             El ''dd'' [At ''data-calc-out'' ''amount''] [Raw (naira_sign @ ''15,000'')]],
                          El ''div'' []
                            [El ''dt'' [] [Raw ''Paystack fee''],
                             El ''dd'' [At ''data-calc-out'' ''paystack'']
                               [Raw (minus_sign @ naira_sign @ ''325'')]],
                          El ''div'' []
                            [El ''dt'' [] [Raw ''GatsToGo fee (1.5%)''],
                             El ''dd'' [At ''data-calc-out'' ''gatstogo'']
                               [Raw (minus_sign @ naira_sign @ ''225'')]],
                          El ''div'' [At ''class'' ''pricing-breakdown-total'']
                            [El ''dt'' [] [Raw ''You receive''],
                             El ''dd'' [At ''data-calc-out'' ''net''] [Raw (naira_sign @ ''14,450'')]]],
                       El ''div'' [At ''class'' ''pricing-monthly'']
                         [El ''div'' [At ''class'' ''pricing-calc-label''] [Raw ''Over 30 days''],
                          El ''div'' [At ''class'' ''pricing-monthly-net'', At ''data-calc-out'' ''monthNet'']
                            [Raw (naira_sign @ ''17,340,000'')],
                          El ''div'' [At ''class'' ''pricing-monthly-sub'']
                            [Raw ''to your bank from '',
                             El ''span'' [At ''data-calc-out'' ''monthSales''] [Raw ''1,200''],
                             Raw '' online sales. Total fees '',
                             El ''span'' [At ''data-calc-out'' ''monthFees''] [Raw (naira_sign @ ''660,000'')],
                             Raw ''.'']]]],
                 El ''p'' [At ''class'' ''pricing-footnote'']
                   [Raw (''Paystack'' @ apos @ ''s standard Nigerian rate is 1.5% + '' @ naira_sign @ ''100 per payment, capped at '' @ naira_sign @ ''2,000, with the '' @ naira_sign @ ''100 waived under '' @ naira_sign @ ''2,500. Estimates only; Paystack sets its own fees.'')]]],
           El ''section'' [At ''class'' ''mkt-section'']
             [El ''div'' [At ''class'' ''wrap'']
                [El ''div'' [At ''class'' ''mkt-section-head'']
                   [El ''div'' [At ''class'' ''section-eyebrow''] [Raw ''How payouts work''],
                    El ''h2'' [] [Raw ''Your money never sits with us.'']],
                 El ''ol'' [At ''class'' ''pricing-steps'']
                   [El ''li'' []
                      [El ''strong'' [] [Raw ''Customer pays online''],
                       El ''p'' []
                         [Raw ''By bank transfer, card, or USSD on your branded page, and gets a code for the counter.'']],
                    El ''li'' []
                      [El ''strong'' [] [Raw ''Paystack splits the payment''],
                       El ''p'' []
                         [Raw ''At the moment of payment, 98.5% is set aside for your plant and 1.5% for GatsToGo. No invoices, no manual payouts.'']],
                    El ''li'' []
                      [El ''strong'' [] [Raw ''Your share lands in your bank''],
                       El ''p'' []
                         [Raw ''Paystack settles straight into the account you registered, on its normal settlement schedule.'']]]]]]
        @ pricing_questions
        @ [El ''section'' [At ''class'' ''cta-band'']
             [El ''div'' [At ''class'' ''wrap'']
                [El ''h2'' [] [Raw ''Start selling online this week.''],
                 El ''p'' [] [Raw ''Tell us about your plant. No setup fee, no monthly fee.''],
                 El ''a'' [At ''class'' ''button-primary'', At ''href'' ''/get-started'']
                   ([Raw ''Get started''] @ Icon ''arrow-right'')]],
           El ''script'' [] []])]"

definition Pricing :: "site \<Rightarrow> node list" where
  "Pricing si =
    marketingPageShell si ''Pricing | GatsToGo'' pricingContent"

section \<open>\<^verbatim>\<open>legal_templ.go\<close>\<close>

definition termsContent :: "node list" where
  "termsContent =
    [El ''main'' [At ''class'' ''article-layout'']
       [El ''div'' [At ''class'' ''section-eyebrow''] [Raw ''Legal''],
        El ''h1'' [] [Raw ''Terms of Service''],
        El ''p'' [At ''class'' ''updated''] [Raw ''Last updated: '', Text legalUpdatedDate],
        El ''p'' []
          [Raw (''These terms govern use of GatsToGo, a software platform that lets an LPG (gas) plant business ('' @ quote_mark @ ''Plant'' @ quote_mark @ '', '' @ quote_mark @ ''you'' @ quote_mark @ '') sell gas online, manage staff and shifts, and give its own customers ('' @ quote_mark @ ''End Users'' @ quote_mark @ '') a way to buy gas and look up past purchases. By creating a plant on GatsToGo or using a plant'' @ apos @ ''s page as an End User, you agree to these terms.'')],
        El ''h2'' [] [Raw ''What GatsToGo provides''],
        El ''p'' []
          [Raw (''A branded page for a Plant'' @ apos @ ''s End Users to buy gas, a staff terminal for redeeming and fulfilling orders, and a dashboard for the Plant to track sales, cash, and staff activity. GatsToGo is not itself a gas retailer. The Plant is solely responsible for fulfilling orders, pricing accurately, and complying with any applicable regulations for selling LPG in its jurisdiction.'')],
        El ''h2'' [] [Raw ''Accounts and access''],
        El ''p'' []
          [Raw (''A Plant'' @ apos @ ''s owner account is created either through self-service sign-up (reviewed before activation) or by our team directly. The Plant is responsible for the accuracy of the information it provides, for keeping owner and staff login credentials confidential, and for any activity carried out under its account.'')],
        El ''h2'' [] [Raw ''Payments''],
        El ''p'' []
          [Raw ''End User payments are processed by Paystack, a third-party payment processor. GatsToGo does not collect or store full card details. That data is handled entirely by Paystack. A Plant is responsible for any fees Paystack charges on transactions processed through its page.''],
        El ''h2'' [] [Raw ''Plant responsibilities''],
        El ''ul'' []
          [El ''li'' []
             [Raw ''Fulfilling orders that customers have paid for, in good faith and within a reasonable time.''],
           El ''li'' [] [Raw ''Keeping listed prices accurate and up to date.''],
           El ''li'' []
             [Raw (''Restricting staff terminal access (PINs) to people actually authorized to redeem and fill orders on the Plant'' @ apos @ ''s behalf.'')],
           El ''li'' []
             [Raw ''Not using GatsToGo for any purpose other than the sale and fulfillment of LPG gas to its own End Users.'']],
        El ''h2'' [] [Raw ''Service availability''],
        El ''p'' []
          [Raw (''We aim to keep GatsToGo available and reliable, but this is an early-stage product provided on a best-effort basis without an uptime guarantee at this stage. We'' @ apos @ ''ll do our best to give notice of planned maintenance that might affect a Plant'' @ apos @ ''s page.'')],
        El ''h2'' [] [Raw ''Suspension and termination''],
        El ''p'' []
          [Raw (''We may suspend or close a Plant'' @ apos @ ''s account if it violates these terms, is used fraudulently, or if a plant becomes inactive for an extended period. A Plant may request closure of its account at any time by contacting us.'')],
        El ''h2'' [] [Raw ''Limitation of liability''],
        El ''p'' []
          [Raw (''GatsToGo is provided '' @ quote_mark @ ''as is.'' @ quote_mark @ '' To the fullest extent permitted by law, GatsToGo is not liable for indirect, incidental, or consequential damages arising from use of the platform, including losses related to payment processing delays or disputes between a Plant and its End Users.'')],
        El ''h2'' [] [Raw ''Changes to these terms''],
        El ''p'' []
          [Raw ''We may update these terms as the product evolves. Continued use of GatsToGo after a change means you accept the updated terms.''],
        El ''h2'' [] [Raw ''Contact''],
        El ''p'' []
          [Raw ''Questions about these terms can be sent to the contact address on our '',
           El ''a'' [At ''href'' ''/about''] [Raw ''About page''],
           Raw ''.'']]]"

definition TermsOfService :: "site \<Rightarrow> node list" where
  "TermsOfService si =
    marketingPageShell si ''Terms of Service | GatsToGo'' termsContent"

definition privacyContent :: "node list" where
  "privacyContent =
    [El ''main'' [At ''class'' ''article-layout'']
       [El ''div'' [At ''class'' ''section-eyebrow''] [Raw ''Legal''],
        El ''h1'' [] [Raw ''Privacy Policy''],
        El ''p'' [At ''class'' ''updated''] [Raw ''Last updated: '', Text legalUpdatedDate],
        El ''p'' []
          [Raw (''This describes what information GatsToGo collects and how it'' @ apos @ ''s used, for both Plants (the gas businesses using GatsToGo) and their End Users (the customers who buy gas through a Plant'' @ apos @ ''s page).'')],
        El ''h2'' [] [Raw ''What we collect''],
        El ''ul'' []
          [El ''li'' []
             [El ''strong'' [] [Raw ''Plant owners and staff:''],
              Raw '' name, phone number, role, and a securely hashed password or PIN (we never store these in plain text).''],
           El ''li'' []
             [El ''strong'' [] [Raw ''End Users:''],
              Raw '' phone number, and purchase records: the amount, size, timestamp, and payment channel of each order. We do not require End Users to create an account.''],
           El ''li'' []
             [El ''strong'' [] [Raw ''Payment information:''],
              Raw '' handled entirely by Paystack. GatsToGo never sees or stores full card numbers.'']],
        El ''h2'' [] [Raw ''How we use it''],
        El ''ul'' []
          [El ''li'' []
             [Raw ''To operate the service: processing orders, running the staff terminal, and showing a Plant its own sales and cash data.''],
           El ''li'' []
             [Raw (''To verify an End User'' @ apos @ ''s identity when looking up a past receipt, by sending a one-time code to the phone number they provide.'')],
           El ''li'' [] [Raw ''To detect and prevent fraud or abuse of the platform.'']],
        El ''h2'' [] [Raw (''What we don'' @ apos @ ''t do'')],
        El ''p'' []
          [Raw (''We don'' @ apos @ ''t sell personal data to third parties. We don'' @ apos @ ''t share an End User'' @ apos @ ''s information across different Plants. Each Plant only sees the purchases made on its own page.'')],
        El ''h2'' [] [Raw ''Data sharing''],
        El ''p'' []
          [Raw (''Payment data is shared with Paystack, as required to process a transaction. We don'' @ apos @ ''t share data with any other third party except where required by law.'')],
        El ''h2'' [] [Raw ''Data retention''],
        El ''p'' []
          [Raw (''We keep purchase and account records for as long as a Plant'' @ apos @ ''s account is active, and for a reasonable period afterward for accounting and legal purposes.'')],
        El ''h2'' [] [Raw ''Your rights''],
        El ''p'' []
          [Raw (''You can ask us what personal data we hold about you, or ask us to correct or delete it, subject to what we'' @ apos @ ''re legally required to keep (such as transaction records). Contact us using the details on our ''),
           El ''a'' [At ''href'' ''/about''] [Raw ''About page''],
           Raw ''.''],
        El ''h2'' [] [Raw ''Changes to this policy''],
        El ''p'' []
          [Raw (''We may update this policy as the product evolves. We'' @ apos @ ''ll update the date at the top of this page when we do.'')]]]"

definition PrivacyPolicy :: "site \<Rightarrow> node list" where
  "PrivacyPolicy si =
    marketingPageShell si ''Privacy Policy | GatsToGo'' privacyContent"

section \<open>\<^verbatim>\<open>signup_templ.go\<close>\<close>

definition spots_banner_empty :: "string \<Rightarrow> int \<Rightarrow> int \<Rightarrow> string \<Rightarrow> string \<Rightarrow> string \<Rightarrow> node list" where
  "spots_banner_empty kind claimed spots emptyTitle emptyText liveLabel =
    [El ''div'' [At ''class'' ''spots-banner spots-empty'', Av ''data-spots'' kind]
       [El ''svg'' [At ''class'' ''spots-medal'', At ''viewBox'' ''0 0 64 64'', At ''aria-hidden'' ''true'']
          [El ''circle'' [At ''cx'' ''32'', At ''cy'' ''26'', At ''r'' ''18'', At ''fill'' ''#006B4D''] [],
           El ''circle'' [At ''cx'' ''32'', At ''cy'' ''26'', At ''r'' ''12'', At ''fill'' ''none'',
               At ''stroke'' ''#10B981'', At ''stroke-width'' ''3''] [],
           El ''path'' [At ''d'' ''M22 42l-6 16 12-5 4 8 4-14zM42 42l6 16-12-5-4 8-4-14z'', At ''fill'' ''#10B981''] [],
           El ''path'' [At ''d'' ''M32 18l2.6 5.4 5.9.8-4.3 4.1 1 5.9-5.2-2.8-5.2 2.8 1-5.9-4.3-4.1 5.9-.8z'',
               At ''fill'' ''#FFFFFF''] []],
        El ''div'' [At ''class'' ''spots-empty-body'']
          [El ''strong'' [] [Text emptyTitle],
           El ''p'' [] [Text emptyText],
           El ''div'' [At ''class'' ''spots-count spots-count-inline'']
             [El ''span'' [At ''class'' ''spots-num''] [Text (itoa (spotsLeft claimed spots))],
              El ''span'' [At ''class'' ''spots-of'']
                [Raw ''of '', Text (itoa spots), Raw '' '', Text liveLabel]],
           El ''div'' [At ''class'' ''spots-bar'', At ''role'' ''img'',
               Av ''aria-label'' (itoa (spotsLeft claimed spots) @ '' of '' @ itoa spots @ '' spots left'')]
             [El ''span'' [At ''style'' ''width:0%''] []]]]]"

definition spots_banner_full :: "string \<Rightarrow> int \<Rightarrow> string \<Rightarrow> string \<Rightarrow> node list" where
  "spots_banner_full kind spots liveLabel fullText =
    [El ''div'' [At ''class'' ''spots-banner spots-full'', Av ''data-spots'' kind]
       [El ''div'' [At ''class'' ''spots-count'']
          [El ''span'' [At ''class'' ''spots-num''] [Raw ''0''],
           El ''span'' [At ''class'' ''spots-of''] [Raw ''of '', Text (itoa spots), Raw '' '', Text liveLabel]],
        El ''div'' [At ''class'' ''spots-full-body'']
          [El ''strong'' [] [Raw ''All '', Text (itoa spots), Raw '' spots are gone''],
           El ''p'' [] [Text fullText]],
        El ''div'' [At ''class'' ''spots-bar'', At ''role'' ''img'', At ''aria-label'' ''No spots left'']
          [El ''span'' [At ''style'' ''width:100%''] []]]]"

definition spots_banner_open :: "string \<Rightarrow> int \<Rightarrow> int \<Rightarrow> string \<Rightarrow> node list" where
  "spots_banner_open kind claimed spots liveLabel =
    [El ''div'' [At ''class'' ''spots-banner'', Av ''data-spots'' kind]
       [El ''div'' [At ''class'' ''spots-count'']
          [El ''span'' [At ''class'' ''spots-num''] [Text (itoa (spotsLeft claimed spots))],
           El ''span'' [At ''class'' ''spots-of''] [Raw ''of '', Text (itoa spots), Raw '' '', Text liveLabel]],
        El ''div'' [At ''class'' ''spots-bar'', At ''role'' ''img'',
            Av ''aria-label'' (itoa (spotsLeft claimed spots) @ '' of '' @ itoa spots @ '' spots left'')]
          [El ''span'' [Astyle (''width:'' @ itoa (spotsPercent claimed spots) @ ''%'')] []]]]"

definition spotsBanner :: "string \<Rightarrow> int \<Rightarrow> int \<Rightarrow> string \<Rightarrow> string \<Rightarrow> string \<Rightarrow> string \<Rightarrow> node list" where
  "spotsBanner kind claimed spots emptyTitle emptyText liveLabel fullText =
    (if claimed \<le> 0 then (spots_banner_empty kind claimed spots emptyTitle emptyText liveLabel)
     else if spots \<le> claimed then (spots_banner_full kind spots liveLabel fullText)
     else (spots_banner_open kind claimed spots liveLabel))"

definition signup_submitted :: "view \<Rightarrow> node list" where
  "signup_submitted data =
    [El ''div'' [At ''class'' ''signup-submitted'']
       ([El ''div'' [At ''class'' ''icon-badge''] (Icon ''check-circle''),
         El ''h1'' [] [Raw (''You'' @ apos @ ''re on the list'')]]
        @ (if 0 < jI data ''BuyerOfferRank'' then
              [El ''p'' []
                 [Raw (''You'' @ apos @ ''ve got offer spot ''),
                  El ''strong'' [] [Text (itoa (jI data ''BuyerOfferRank'')), Raw '' of 50''],
                  Raw ('': '' @ naira_sign @ ''1,000 off your first gas order on GatsToGo. We'' @ apos @ ''ll text you when a gas plant near you goes live.'')]]
           else
              [El ''p'' []
                 [Raw (''The first 50 offers are taken, but we'' @ apos @ ''ll still text you when a gas plant near you goes live.'')]])
        @ [El ''p'' []
             [Raw ''The more plants join, the sooner you can buy. Know a gas station near you? Tell them about GatsToGo.'']]
        @ socialLinks ''Follow us for launch updates''
        @ [El ''a'' [At ''class'' ''button-primary'', Asafe ''href'' buyerShareURL, At ''target'' ''_blank'',
               At ''rel'' ''noopener'']
             [Raw ''Tell my gas plant on WhatsApp'']])]"

definition signup_buyer_panel :: "view \<Rightarrow> node list" where
  "signup_buyer_panel data =
    [El ''div''
         ([At ''class'' ''signup-panel'', At ''data-tab-panel'' ''buyer''] @
             (if jS data ''Tab'' \<noteq> ''buyer'' then [Aflag ''hidden''] else []))
       [El ''div'' [At ''class'' ''signup-layout signup-split signup-buyer'']
          [El ''div'' [At ''class'' ''signup-head'']
             ([El ''div'' [At ''class'' ''section-eyebrow''] [Raw ''For gas buyers''],
               El ''h1'' [] [Raw (''Get '' @ naira_sign @ ''1,000 off your first gas order'')],
               El ''p'' [At ''class'' ''lede'']
                 [Raw (''Tell us where you are. We'' @ apos @ ''ll text you when a gas plant near you joins GatsToGo, so you can pay from your phone and skip the queue.'')]]
              @ spotsBanner ''buyer'' (jI data ''BuyerSpotsClaimed'') (jI data ''BuyerSpotsTotal'')
                    ''Be the first customer to use our service'' (''The first buyer gets '' @
                    naira_sign @ ''1,000 off their first order, and we'' @ apos @
                    ''ll shout you out on our social media.'') (naira_sign @
                    ''1,000 offers left'')
                    (''This offer has been claimed by 50 buyers, but you can still join the list and we''
                    @ apos @ ''ll text you when a plant near you goes live.'')
              @ socialLinks ''Follow us for launch updates''
              @ (if jS data ''BuyerErrorMsg'' \<noteq> '''' then
                    [El ''div'' [At ''class'' ''inline-alert'']
                       (Icon ''warning-circle'' @ [Text (jS data ''BuyerErrorMsg'')])]
                 else [])),
           El ''aside'' [At ''class'' ''signup-aside'']
             [El ''div'' [At ''class'' ''signup-aside-block'']
                [El ''div'' [At ''class'' ''signup-aside-title''] [Raw ''What you get''],
                 El ''ul'' [At ''class'' ''signup-ready'']
                   [El ''li'' []
                      (Icon ''check-circle''
                       @ [El ''span'' []
                            [El ''strong'' [] [Raw (naira_sign @ ''1,000 off'')],
                             Raw '' Your first gas order on GatsToGo'']]),
                    El ''li'' []
                      (Icon ''phone''
                       @ [El ''span'' []
                            [El ''strong'' [] [Raw ''A text from us''],
                             Raw '' When a gas plant near you goes live'']]),
                    El ''li'' []
                      (Icon ''shield-check''
                       @ [El ''span'' []
                            [El ''strong'' [] [Raw ''No payment now''],
                             Raw '' Just your name, phone and state'']])]],
              El ''div'' [At ''class'' ''signup-aside-block signup-aside-next'']
                [El ''div'' [At ''class'' ''signup-aside-title''] [Raw ''What happens next''],
                 El ''ol'' [At ''class'' ''signup-next'']
                   [El ''li'' [] [El ''strong'' [] [Raw ''You register''], Raw '' It takes under a minute.''],
                    El ''li'' []
                      [El ''strong'' [] [Raw ''Tell your gas plant''],
                       Raw '' We give you a message to send them on WhatsApp.''],
                    El ''li'' []
                      [El ''strong'' [] [Raw ''Buy and save''],
                       Raw ('' Pay from your phone and get '' @ naira_sign @ ''1,000 off.'')]]]],
           El ''form'' [At ''class'' ''signup-form'', At ''method'' ''post'',
               At ''action'' ''/get-started/buyer'']
             [El ''input'' [At ''type'' ''hidden'', At ''name'' ''csrf_token'', Av ''value'' (jS data ''CSRFToken'')] [],
              El ''input'' [At ''type'' ''hidden'', At ''name'' ''src'', Av ''value'' (jS data ''Source'')] [],
              El ''div'' [At ''class'' ''field-underline'']
                [El ''label'' [At ''for'' ''buyer_name''] [Raw ''Your name''],
                 El ''input'' [At ''id'' ''buyer_name'', At ''type'' ''text'', At ''name'' ''buyer_name'',
                     Av ''value'' (jS data ''BuyerName''), At ''placeholder'' ''Ada Nwosu'',
                     Aflag ''required''] []],
              El ''div'' [At ''class'' ''field-underline'']
                [El ''label'' [At ''for'' ''buyer_phone''] [Raw ''Phone number''],
                 El ''input'' [At ''id'' ''buyer_phone'', At ''type'' ''tel'', At ''name'' ''buyer_phone'',
                     Av ''value'' (jS data ''BuyerPhone''), At ''placeholder'' ''0803 000 0000'',
                     Aflag ''required''] []],
              El ''div'' [At ''class'' ''field-underline'']
                [El ''label'' [At ''for'' ''buyer_email''] [Raw ''Email (optional)''],
                 El ''input'' [At ''id'' ''buyer_email'', At ''type'' ''email'', At ''name'' ''buyer_email'',
                     Av ''value'' (jS data ''BuyerEmail''), At ''placeholder'' ''ada@example.com''] []],
              El ''div'' [At ''class'' ''field-underline'']
                ([El ''label'' [] [Raw ''State'']]
                 @ themedSelect ''buyer_state'' stateSelectOptions (jS data ''BuyerState'')),
              El ''label'' [At ''class'' ''signup-consent'']
                [El ''input'' [At ''type'' ''checkbox'', At ''name'' ''accept_contact'', At ''value'' ''yes'',
                     Aflag ''required''] [],
                 El ''span'' []
                   [Raw (''Text me when a gas plant near me joins GatsToGo. I'' @ apos @ ''ve read the ''),
                    El ''a'' [At ''href'' ''/privacy'', At ''target'' ''_blank'', At ''rel'' ''noopener'']
                      [Raw ''Privacy Policy''],
                    Raw ''.'']],
              El ''button'' [At ''class'' ''button-primary'', At ''type'' ''submit'']
                [Raw (''Claim my '' @ naira_sign @ ''1,000 off'')],
              El ''p'' [At ''class'' ''signup-submit-note'']
                [Raw ''No payment needed. The offer applies to your first order on GatsToGo.'']]]]]"

definition signup_plant_fields :: "site \<Rightarrow> view \<Rightarrow> node list" where
  "signup_plant_fields si data =
    [El ''div'' [At ''class'' ''field-group'']
       [El ''div'' [At ''class'' ''field-group-heading'']
          [El ''span'' [At ''class'' ''step-num''] [Raw ''01''], Raw ''Plant details''],
        El ''div'' [At ''class'' ''field-underline'']
          [El ''label'' [At ''for'' ''name''] [Raw ''Plant name''],
           El ''input'' [At ''id'' ''name'', At ''type'' ''text'', At ''name'' ''name'', Av ''value'' (jS data ''Name''),
               At ''placeholder'' ''Sunrise Gas Plant'', Aflag ''required'', Aflag ''autofocus''] []],
        El ''div'' [At ''class'' ''field-underline'']
          [El ''label'' [At ''for'' ''slug''] [Raw ''Web address''],
           El ''input'' [At ''id'' ''slug'', At ''type'' ''text'', At ''name'' ''slug'', Av ''value'' (jS data ''Slug''),
               At ''placeholder'' ''sunrise'', At ''pattern'' ''[a-z0-9]([a-z0-9-]{0,61}[a-z0-9])?'',
               Aflag ''required''] [],
           El ''p'' [At ''class'' ''slug-preview'']
             [Raw ''Customers will find you at '',
              El ''strong'' [] [Text (slugOrPlaceholder (jS data ''Slug''))],
              Raw ''.'',
              Text (si_AppBaseDomain si)]],
        El ''div'' [At ''class'' ''field-grid'']
          [El ''div'' [At ''class'' ''field-underline'']
             [El ''label'' [At ''for'' ''city''] [Raw ''City''],
              El ''input'' [At ''id'' ''city'', At ''type'' ''text'', At ''name'' ''city'', Av ''value'' (jS data ''City''),
                  At ''placeholder'' ''Owerri''] []],
           El ''div'' [At ''class'' ''field-underline'']
             [El ''label'' [At ''for'' ''phone''] [Raw ''Plant phone number''],
              El ''input'' [At ''id'' ''phone'', At ''type'' ''tel'', At ''name'' ''phone'',
                  Av ''value'' (jS data ''Phone''), At ''placeholder'' ''0803 000 0000''] []]],
        El ''div'' [At ''class'' ''field-underline'']
          [El ''label'' [At ''for'' ''address''] [Raw ''Address''],
           El ''input'' [At ''id'' ''address'', At ''type'' ''text'', At ''name'' ''address'',
               Av ''value'' (jS data ''Address''), At ''placeholder'' ''12 Wetheral Road''] []],
        El ''div'' [At ''class'' ''field-underline'']
          [El ''label'' [At ''for'' ''starting_price''] [Raw (''Starting price per kg ('' @ naira_sign @ '')'')],
           El ''input'' [At ''id'' ''starting_price'', At ''type'' ''text'', At ''name'' ''starting_price'',
               Av ''value'' (jS data ''StartingPrice''), At ''placeholder'' ''1200'',
               At ''inputmode'' ''decimal'', Aflag ''required''] [],
           El ''p'' [At ''class'' ''field-hint'']
             [Raw (''You can change this any time from your dashboard once you'' @ apos @ ''re live.'')]]]]"

definition signup_business_fields :: "view \<Rightarrow> node list" where
  "signup_business_fields data =
    [El ''div'' [At ''class'' ''field-group'']
       [El ''div'' [At ''class'' ''field-group-heading'']
          [El ''span'' [At ''class'' ''step-num''] [Raw ''02''], Raw ''Business details''],
        El ''div'' [At ''class'' ''field-grid'']
          [El ''div'' [At ''class'' ''field-underline'']
             [El ''label'' [At ''for'' ''legal_business_name''] [Raw ''Legal business name''],
              El ''input'' [At ''id'' ''legal_business_name'', At ''type'' ''text'', At ''name'' ''legal_business_name'',
                  Av ''value'' (jS data ''LegalBusinessName''), At ''placeholder'' ''As registered with CAC'',
                  Aflag ''required''] []],
           El ''div'' [At ''class'' ''field-underline'']
             [El ''label'' [At ''for'' ''cac_number''] [Raw ''CAC registration number''],
              El ''input'' [At ''id'' ''cac_number'', At ''type'' ''text'', At ''name'' ''cac_number'',
                  Av ''value'' (jS data ''CACNumber''), At ''placeholder'' ''RC 1234567 or BN 1234567'',
                  Aflag ''required''] [],
              El ''p'' [At ''class'' ''field-hint'']
                [Raw ''RC for a registered company, BN for a business name.'']]],
        El ''div'' [At ''class'' ''field-grid'']
          [El ''div'' [At ''class'' ''field-underline'']
             ([El ''label'' [] [Raw ''State'']]
              @ themedSelect ''state'' stateSelectOptions (jS data ''State'')),
           El ''div'' [At ''class'' ''field-underline'']
             [El ''label'' [At ''for'' ''nmdpra_license_number''] [Raw ''NMDPRA licence number''],
              El ''input'' [At ''id'' ''nmdpra_license_number'', At ''type'' ''text'', At ''name'' ''nmdpra_license_number'',
                  Av ''value'' (jS data ''NMDPRALicenseNumber''), At ''placeholder'' ''Licence number'',
                  Aflag ''required''] [],
              El ''p'' [At ''class'' ''field-hint''] [Raw ''As shown on your NMDPRA Licence to Operate.'']]]]]"

definition signup_brand_fields :: "view \<Rightarrow> node list" where
  "signup_brand_fields data =
    [El ''details'' [At ''class'' ''advanced-group'']
       [El ''summary'' []
          [El ''span'' [] [Raw ''Brand kit''],
           El ''small'' [] [Raw ''Optional. Use our default look now, or set yours up later.'']],
        El ''div'' [At ''class'' ''advanced-body'']
          [El ''div'' [At ''class'' ''field-grid'']
             [El ''div'' [At ''class'' ''field-underline'']
                [El ''label'' [At ''for'' ''primary_color''] [Raw ''Primary color''],
                 El ''input'' [At ''id'' ''primary_color'', At ''type'' ''text'', At ''name'' ''primary_color'',
                     Av ''value'' (jS data ''PrimaryColor''), At ''placeholder'' ''#006B4D''] []],
              El ''div'' [At ''class'' ''field-underline'']
                [El ''label'' [At ''for'' ''button_color''] [Raw ''Button color''],
                 El ''input'' [At ''id'' ''button_color'', At ''type'' ''text'', At ''name'' ''button_color'',
                     Av ''value'' (jS data ''ButtonColor''), At ''placeholder'' ''#006B4D''] []]],
           El ''div'' [At ''class'' ''field-grid'']
             [El ''div'' [At ''class'' ''field-underline'']
                [El ''label'' [At ''for'' ''secondary_color''] [Raw ''Secondary color''],
                 El ''input'' [At ''id'' ''secondary_color'', At ''type'' ''text'', At ''name'' ''secondary_color'',
                     Av ''value'' (jS data ''SecondaryColor''), At ''placeholder'' ''#10B981''] []],
              El ''div'' [At ''class'' ''field-underline'']
                [El ''label'' [At ''for'' ''button_text_color''] [Raw ''Button text color''],
                 El ''input'' [At ''id'' ''button_text_color'', At ''type'' ''text'', At ''name'' ''button_text_color'',
                     Av ''value'' (jS data ''ButtonTextColor''), At ''placeholder'' ''#F8FAFC''] []]],
           El ''p'' [At ''class'' ''field-hint'']
             [Raw ''Leave these blank to use the GatsToGo default customer-site look. Invalid colors are ignored safely.'']]]]"

definition signup_owner_form :: "site \<Rightarrow> view \<Rightarrow> node list" where
  "signup_owner_form si data =
    [El ''form'' [At ''class'' ''signup-form'', At ''method'' ''post'', At ''action'' ''/get-started'']
       ([El ''input'' [At ''type'' ''hidden'', At ''name'' ''csrf_token'', Av ''value'' (jS data ''CSRFToken'')] []]
        @ signup_plant_fields si data
        @ signup_business_fields data
        @ [El ''div'' [At ''class'' ''field-group'']
             [El ''div'' [At ''class'' ''field-group-heading'']
                [El ''span'' [At ''class'' ''step-num''] [Raw ''03''], Raw ''Payout details''],
              El ''p'' [At ''class'' ''field-hint field-group-intro'']
                [Raw ''Customer payments settle straight to this account. GatsToGo keeps 1.5% automatically, no manual payouts. The account name must match your business.''],
              El ''div'' [At ''class'' ''field-grid'']
                [El ''div'' [At ''class'' ''field-underline'']
                   ([El ''label'' [] [Raw ''Bank'']]
                    @ themedSelect ''bank_code'' (bankSelectOptions (jL data ''Banks'')) (jS data ''BankCode'')),
                 El ''div'' [At ''class'' ''field-underline'']
                   [El ''label'' [At ''for'' ''bank_account_number''] [Raw ''Account number''],
                    El ''input'' [At ''id'' ''bank_account_number'', At ''type'' ''text'', At ''name'' ''bank_account_number'',
                        Av ''value'' (jS data ''BankAccountNumber''), At ''placeholder'' ''0123456789'',
                        At ''inputmode'' ''numeric'', At ''pattern'' ''[0-9]{10}'', At ''maxlength'' ''10'',
                        Aflag ''required''] []]]],
           El ''div'' [At ''class'' ''field-group'']
             [El ''div'' [At ''class'' ''field-group-heading'']
                [El ''span'' [At ''class'' ''step-num''] [Raw ''04''], Raw ''Owner login''],
              El ''div'' [At ''class'' ''field-grid'']
                [El ''div'' [At ''class'' ''field-underline'']
                   [El ''label'' [At ''for'' ''owner_name''] [Raw ''Your name''],
                    El ''input'' [At ''id'' ''owner_name'', At ''type'' ''text'', At ''name'' ''owner_name'',
                        Av ''value'' (jS data ''OwnerName''), At ''placeholder'' ''Ada Nwosu'',
                        Aflag ''required''] []],
                 El ''div'' [At ''class'' ''field-underline'']
                   [El ''label'' [At ''for'' ''owner_phone''] [Raw ''Your phone number''],
                    El ''input'' [At ''id'' ''owner_phone'', At ''type'' ''tel'', At ''name'' ''owner_phone'',
                        Av ''value'' (jS data ''OwnerPhone''), At ''placeholder'' ''0803 000 0000'',
                        Aflag ''required''] []]],
              El ''div'' [At ''class'' ''field-underline'']
                [El ''label'' [At ''for'' ''owner_email''] [Raw ''Your email''],
                 El ''input'' [At ''id'' ''owner_email'', At ''type'' ''email'', At ''name'' ''owner_email'',
                     Av ''value'' (jS data ''OwnerEmail''), At ''placeholder'' ''ada@sunrisegas.ng'',
                     Aflag ''required''] []],
              El ''div'' [At ''class'' ''field-grid'']
                [El ''div'' [At ''class'' ''field-underline'']
                   [El ''label'' [At ''for'' ''owner_password''] [Raw ''Password''],
                    El ''input'' [At ''id'' ''owner_password'', At ''type'' ''password'', At ''name'' ''owner_password'',
                        At ''autocomplete'' ''new-password'', At ''minlength'' ''8'', Aflag ''required''] [],
                    El ''p'' [At ''class'' ''field-hint''] [Raw ''At least 8 characters.'']],
                 El ''div'' [At ''class'' ''field-underline'']
                   [El ''label'' [At ''for'' ''owner_password_confirm''] [Raw ''Confirm password''],
                    El ''input'' [At ''id'' ''owner_password_confirm'', At ''type'' ''password'',
                        At ''name'' ''owner_password_confirm'', At ''autocomplete'' ''new-password'',
                        At ''minlength'' ''8'', Aflag ''required''] []]],
              El ''p'' [At ''class'' ''field-hint'']
                [Raw (''This is what you'' @ apos @ ''ll use to log in to your plant'' @ apos @ ''s dashboard once it'' @ apos @ ''s approved: your phone number and this password, at your own plant'' @ apos @ ''s login page.'')]]]
        @ signup_brand_fields data
        @ [El ''label'' [At ''class'' ''signup-consent'']
             [El ''input'' [At ''type'' ''checkbox'', At ''name'' ''accept_terms'', At ''value'' ''yes'',
                  Aflag ''required''] [],
              El ''span'' []
                [Raw ''I agree to the '',
                 El ''a'' [At ''href'' ''/terms'', At ''target'' ''_blank'', At ''rel'' ''noopener'']
                   [Raw ''Terms of Service''],
                 Raw '' and have read the '',
                 El ''a'' [At ''href'' ''/privacy'', At ''target'' ''_blank'', At ''rel'' ''noopener'']
                   [Raw ''Privacy Policy''],
                 Raw (''. I'' @ apos @ ''m authorised to register this business.'')]],
           El ''button'' [At ''class'' ''button-primary'', At ''type'' ''submit''] [Raw ''Submit application''],
           El ''p'' [At ''class'' ''signup-submit-note'']
             [Raw ''We verify your bank account during review and email you if anything needs fixing.'']])]"

definition signup_owner_panel :: "site \<Rightarrow> view \<Rightarrow> node list" where
  "signup_owner_panel si data =
    [El ''div''
         ([At ''class'' ''signup-panel'', At ''data-tab-panel'' ''owner''] @ (if jS data ''Tab'' =
             ''buyer'' then [Aflag ''hidden''] else []))
       [El ''div'' [At ''class'' ''signup-layout signup-split'']
          ([El ''div'' [At ''class'' ''signup-head'']
              ([El ''div'' [At ''class'' ''section-eyebrow''] [Raw ''Get started''],
                El ''h1'' [] [Raw ''Tell us about your plant''],
                El ''p'' [At ''class'' ''lede'']
                  [Raw ''About 5 minutes. We set up your branded page and owner login, and review every application before it goes live.'']]
               @ spotsBanner ''owner'' (jI data ''OwnerSpotsClaimed'') (jI data ''OwnerSpotsTotal'')
                     ''Be the first plant on GatsToGo''
                     (''Get the 1st Founding Plant badge on your dashboard for good, and we''
                     @ apos @ ''ll feature you on our social media.'') ''founding spots left''
                     (''Spots have run out because so many plants applied, but applications are still open. Apply now and we''
                     @ apos @ ''ll review yours.'')
               @ socialLinks ''Follow us for launch updates''
               @ (if jS data ''ErrorMsg'' \<noteq> '''' then
                     [El ''div'' [At ''class'' ''inline-alert'']
                        (Icon ''warning-circle'' @ [Text (jS data ''ErrorMsg'')])]
                  else [])),
            El ''aside'' [At ''class'' ''signup-aside'']
              [El ''div'' [At ''class'' ''signup-aside-block'']
                 [El ''div'' [At ''class'' ''signup-aside-title''] [Raw ''Have these ready''],
                  El ''ul'' [At ''class'' ''signup-ready'']
                    [El ''li'' []
                       (Icon ''identification-badge''
                        @ [El ''span'' []
                             [El ''strong'' [] [Raw ''CAC number''],
                              Raw '' RC (company) or BN (business name)'']]),
                     El ''li'' []
                       (Icon ''shield-check''
                        @ [El ''span'' []
                             [El ''strong'' [] [Raw ''NMDPRA licence number''],
                              Raw '' From your Licence to Operate'']]),
                     El ''li'' []
                       (Icon ''bank''
                        @ [El ''span'' []
                             [El ''strong'' [] [Raw ''Business bank account''],
                              Raw '' Where customer payments settle'']]),
                     El ''li'' []
                       (Icon ''phone''
                        @ [El ''span'' []
                             [El ''strong'' [] [Raw ''Your phone and email''],
                              Raw '' For your owner login and updates'']])]],
               El ''div'' [At ''class'' ''signup-aside-block signup-aside-next'']
                 [El ''div'' [At ''class'' ''signup-aside-title''] [Raw ''What happens next''],
                  El ''ol'' [At ''class'' ''signup-next'']
                    [El ''li'' []
                       [El ''strong'' [] [Raw ''We verify your details''],
                        Raw '' CAC, NMDPRA licence, and bank account.''],
                     El ''li'' []
                       [El ''strong'' [] [Raw ''We contact you''],
                        Raw '' By email and SMS, with your login details.''],
                     El ''li'' []
                       [El ''strong'' [] [Raw ''You go live''], Raw '' Customers can buy gas on your page.'']]],
               El ''div'' [At ''class'' ''signup-aside-block signup-aside-price'']
                 [El ''strong'' [] [Raw ''1.5% per online sale.''],
                  Raw '' No setup or monthly fee. '',
                  El ''a'' [At ''href'' ''/pricing''] [Raw ''See pricing'']]]]
           @ signup_owner_form si data
           @ [El ''script'' [] [], El ''script'' [] []])]]"

definition signupContent :: "site \<Rightarrow> view \<Rightarrow> node list" where
  "signupContent si data =
    [El ''main'' []
       (if jB data ''Submitted'' then
           [El ''div'' [At ''class'' ''signup-submitted'']
              ([El ''div'' [At ''class'' ''icon-badge''] (Icon ''check-circle''),
                El ''h1'' [] [Raw (''We'' @ apos @ ''ve got your application'')],
                El ''p'' []
                  [Raw (''Thanks for telling us about your plant. Your page is now under review, so it will not go live yet. Look out for our email and SMS: once we verify your information, we'' @ apos @ ''ll contact you and confirm your platform login details.'')]]
               @ socialLinks ''Follow us for launch updates''
               @ [El ''a'' [At ''class'' ''button-primary'', At ''href'' ''/''] [Raw ''Back to homepage'']])]
        else if jB data ''BuyerSubmitted'' then (signup_submitted data)
        else
           ([El ''div'' [At ''class'' ''signup-tabs'', At ''role'' ''tablist'',
                 At ''aria-label'' ''Who are you?'']
               [El ''button'' [At ''type'' ''button'', At ''role'' ''tab'', At ''class'' ''signup-tab'',
                    At ''data-tab-btn'' ''owner'',
                    Av ''aria-selected'' (FormatBool (jS data ''Tab'' \<noteq> ''buyer''))]
                  [Raw ''I sell gas''],
                El ''button'' [At ''type'' ''button'', At ''role'' ''tab'', At ''class'' ''signup-tab'',
                    At ''data-tab-btn'' ''buyer'',
                    Av ''aria-selected'' (FormatBool (jS data ''Tab'' = ''buyer''))]
                  [Raw ''I buy gas'']]]
            @ signup_buyer_panel data
            @ signup_owner_panel si data
            @ [El ''script'' [] []]))]"

definition pages_Signup :: "site \<Rightarrow> view \<Rightarrow> node list" where
  "pages_Signup si data =
    marketingPageShell si ''Get started | GatsToGo'' (signupContent si data)"

definition plantUnderReviewContent :: "string \<Rightarrow> string \<Rightarrow> node list" where
  "plantUnderReviewContent name appBaseURL =
    [El ''main'' []
       [El ''div'' [At ''class'' ''signup-submitted review-state'']
          [El ''div'' [At ''class'' ''review-panel'']
             [El ''div'' [At ''class'' ''icon-badge''] (Icon ''clock-counter-clockwise''),
              El ''div'' [At ''class'' ''section-eyebrow''] [Raw ''Application under review''],
              El ''h1'' [] [Text name, Raw '' is not live yet''],
              El ''p'' []
                [Raw ''We are verifying this plant before customers can buy gas from it. Once approved, the owner will receive an email and SMS with the next steps for using the platform.''],
              El ''div'' [At ''class'' ''review-steps'', At ''aria-label'' ''Application progress'']
                [El ''div'' [At ''class'' ''review-step is-done'']
                   [El ''span'' [] [Raw ''1''], El ''strong'' [] [Raw ''Application received'']],
                 El ''div'' [At ''class'' ''review-step is-current'']
                   [El ''span'' [] [Raw ''2''], El ''strong'' [] [Raw ''Verification in progress'']],
                 El ''div'' [At ''class'' ''review-step'']
                   [El ''span'' [] [Raw ''3''], El ''strong'' [] [Raw ''Plant page goes live after approval'']]],
              El ''a'' [At ''class'' ''button-primary'', Asafe ''href'' appBaseURL] [Raw ''Back to GatsToGo'']]]]]"

definition PlantUnderReview :: "site \<Rightarrow> string \<Rightarrow> string \<Rightarrow> node list" where
  "PlantUnderReview si name appBaseURL =
    (marketingPageShell si (name @ '' is under review | GatsToGo'') (plantUnderReviewContent name appBaseURL))"

section \<open>\<^verbatim>\<open>support_templ.go\<close>\<close>

definition loginFinderContent :: "site \<Rightarrow> string \<Rightarrow> string \<Rightarrow> node list" where
  "loginFinderContent si input errorMsg =
    [El ''main'' [At ''class'' ''support-page'']
       [El ''div'' [At ''class'' ''wrap support-narrow'']
          [El ''div'' [At ''class'' ''section-eyebrow''] [Raw ''Owner sign in''],
           El ''h1'' [] [Raw ''Sign in to your plant''],
           El ''p'' [At ''class'' ''support-lede'']
             [Raw (''Each plant has its own login page. Enter your plant'' @ apos @ ''s web address and we'' @ apos @ ''ll take you there.'')],
           El ''form'' [At ''class'' ''finder'', At ''method'' ''get'', At ''action'' ''/login'']
             ((if errorMsg \<noteq> '''' then
                  [El ''div'' [At ''class'' ''inline-alert'', At ''role'' ''alert'']
                     (Icon ''warning-circle'' @ [Text errorMsg])]
               else [])
              @ [El ''label'' [At ''for'' ''plant''] [Raw (''Your plant'' @ apos @ ''s web address'')],
                 El ''div'' [At ''class'' ''finder-field'']
                   [El ''input'' [At ''id'' ''plant'', At ''name'' ''plant'', At ''type'' ''text'', Av ''value'' input,
                        At ''placeholder'' ''sunrise'', At ''autocomplete'' ''off'',
                        At ''autocapitalize'' ''none'', At ''spellcheck'' ''false'', Aflag ''required'',
                        Aflag ''autofocus''] [],
                    El ''span'' [At ''class'' ''finder-suffix''] [Raw ''.'', Text (si_AppBaseDomain si)]],
                 El ''button'' [At ''class'' ''button-primary'', At ''type'' ''submit'']
                   ([Raw ''Continue to sign in''] @ Icon ''arrow-right'')]),
           El ''div'' [At ''class'' ''finder-notes'']
             [El ''p'' []
                [El ''strong'' [] [Raw ''Staff?''],
                 Raw ('' Sign in on your plant'' @ apos @ ''s terminal with your PIN. Your manager has the link.'')],
              El ''p'' []
                [El ''strong'' [] [Raw (''Don'' @ apos @ ''t know your web address?'')],
                 Raw ('' It'' @ apos @ ''s in the approval email and SMS we sent you. Still stuck? ''),
                 El ''a'' [At ''href'' ''/contact''] [Raw ''Contact us''],
                 Raw ''.''],
              El ''p'' []
                [El ''strong'' [] [Raw ''Not on GatsToGo yet?''],
                 El ''a'' [At ''href'' ''/get-started''] [Raw ''Apply to get started''],
                 Raw ''.'']]]]]"

definition LoginFinder :: "site \<Rightarrow> string \<Rightarrow> string \<Rightarrow> node list" where
  "LoginFinder si input errorMsg =
    marketingPageShell si ''Owner sign in | GatsToGo'' (loginFinderContent si input errorMsg)"

definition contactContent :: "string \<Rightarrow> node list" where
  "contactContent contactEmail =
    [El ''main'' [At ''class'' ''support-page'']
       [El ''div'' [At ''class'' ''wrap'']
          [El ''div'' [At ''class'' ''support-head'']
             [El ''div'' [At ''class'' ''section-eyebrow''] [Raw ''Contact''],
              El ''h1'' [] [Raw ''Talk to us.''],
              El ''p'' [At ''class'' ''support-lede'']
                [Raw (''Whether you run a plant or buy gas from one, here'' @ apos @ ''s the quickest way to the right answer.'')]],
           El ''div'' [At ''class'' ''contact-grid'']
             [El ''div'' [At ''class'' ''contact-card'']
                [El ''span'' [At ''class'' ''contact-card-label''] [Raw ''Run an LPG plant?''],
                 El ''h2'' [] [Raw ''Bring your plant online''],
                 El ''p'' []
                   [Raw ''Apply in about 5 minutes. We review every application and contact you by email and SMS.''],
                 El ''a'' [At ''class'' ''text-button'', At ''href'' ''/get-started'']
                   [Raw ''Apply to get started'']],
              El ''div'' [At ''class'' ''contact-card'']
                [El ''span'' [At ''class'' ''contact-card-label''] [Raw ''Already on GatsToGo?''],
                 El ''h2'' [] [Raw ''Owner support''],
                 El ''p'' [] [Raw ''Questions about your dashboard, payouts, staff, or business details.''],
                 El ''a'' [At ''class'' ''text-button'', Asafe ''href'' (''mailto:'' @ contactEmail)]
                   [Text contactEmail]],
              El ''div'' [At ''class'' ''contact-card'']
                [El ''span'' [At ''class'' ''contact-card-label''] [Raw ''Buying gas?''],
                 El ''h2'' [] [Raw ''Contact your plant''],
                 El ''p'' []
                   [Raw ''For an order, refund, or opening hours, call the plant: their number is on their GatsToGo page.''],
                 El ''a'' [At ''class'' ''text-button'', At ''href'' ''/help/buying-gas'']
                   [Raw ''Customer help'']]],
           El ''div'' [At ''class'' ''contact-more'']
             [El ''div'' [At ''class'' ''about-contact-row'']
                [El ''span'' [] [Raw ''General enquiries''],
                 El ''a'' [Asafe ''href'' (''mailto:'' @ contactEmail)] [Text contactEmail]],
              El ''div'' [At ''class'' ''about-contact-row'']
                [El ''span'' [] [Raw ''Report a problem''],
                 El ''p'' []
                   [Raw ''Spotted something wrong or a security issue? Email us with the details and the page you were on.'']]]]]]"

definition Contact :: "site \<Rightarrow> string \<Rightarrow> node list" where
  "Contact si contactEmail =
    marketingPageShell si ''Contact | GatsToGo'' (contactContent contactEmail)"

section \<open>\<^verbatim>\<open>help_templ.go\<close>\<close>

definition helpCategoryTile :: "HelpCategory \<Rightarrow> node list" where
  "helpCategoryTile c =
    [El ''a'' [At ''class'' ''hc-cat'', Asafe ''href'' (helpCategoryURL c)]
       [El ''span'' [At ''class'' ''hc-cat-icon''] (Icon (hc_Icon c)),
        El ''strong'' [] [Text (hc_Title c)],
        El ''span'' [At ''class'' ''hc-cat-desc''] [Text (hc_Description c)],
        El ''span'' [At ''class'' ''hc-cat-count'']
          [Text (itoa (int (length (hc_Articles c)))), Raw '' articles'']]]"

definition helpContactBand :: "string \<Rightarrow> node list" where
  "helpContactBand contactEmail =
    [El ''div'' [At ''class'' ''hc-contact'']
       [El ''div'' []
          [El ''h2'' [] [Raw ''Still need help?''],
           El ''p'' []
             [Raw ''Plant owners can email us directly. Customers: for an order, contact the plant you bought from.'']],
        El ''div'' [At ''class'' ''hc-contact-actions'']
          [El ''a'' [At ''class'' ''button-primary'', Asafe ''href'' (''mailto:'' @ contactEmail)]
             ([Raw ''Email support''] @ Icon ''arrow-right''),
           El ''a'' [At ''class'' ''text-button'', At ''href'' ''/contact''] [Raw ''Contact options'']]]]"

definition helpSearchScript :: "site \<Rightarrow> node list" where
  "helpSearchScript si =
    ([JSONScript ''help-index'' (helpSearchJSON (si_AppBaseDomain si))] @ [El ''script'' [] []])"

definition helpHub :: "site \<Rightarrow> string \<Rightarrow> node list" where
  "helpHub si contactEmail =
    [El ''main'' [At ''class'' ''hc'']
       ([El ''section'' [At ''class'' ''hc-hero'']
           [El ''div'' [At ''class'' ''wrap'']
              [El ''div'' [At ''class'' ''section-eyebrow''] [Raw ''Help centre''],
               El ''h1'' [] [Raw ''How can we help?''],
               El ''div'' [At ''class'' ''hc-search'', Aflag ''data-help-search'']
                 (Icon ''magnifying-glass''
                  @ [El ''input'' [At ''type'' ''search'',
                         At ''placeholder'' ''Search help, for example: forgot password, payouts, lost code'',
                         At ''aria-label'' ''Search help articles'', At ''autocomplete'' ''off'',
                         Aflag ''data-help-input''] [],
                     El ''div'' [At ''class'' ''hc-results'', At ''role'' ''listbox'', Aflag ''hidden'',
                         Aflag ''data-help-results''] []]),
               El ''p'' [At ''class'' ''hc-hero-sub'']
                 [Text (itoa (int helpArticleCount)), Raw '' articles for plant owners, staff, and customers.'']]],
         El ''section'' [At ''class'' ''hc-section'']
           [El ''div'' [At ''class'' ''wrap'']
              [El ''h2'' [At ''class'' ''hc-section-title''] [Raw ''For plant owners and staff''],
               El ''div'' [At ''class'' ''hc-cats'']
                 (concat (map (\<lambda>c.
                     (if hc_Audience c = ''owners'' then (helpCategoryTile c) else [])) HelpCategories)),
               El ''h2'' [At ''class'' ''hc-section-title''] [Raw ''For customers buying gas''],
               El ''div'' [At ''class'' ''hc-cats hc-cats-2'']
                 (concat (map (\<lambda>c.
                     (if hc_Audience c = ''customers'' then (helpCategoryTile c) else [])) HelpCategories))]],
         El ''section'' [At ''class'' ''hc-section hc-popular'']
           [El ''div'' [At ''class'' ''wrap'']
              [El ''h2'' [At ''class'' ''hc-section-title''] [Raw ''Popular articles''],
               El ''ul'' [At ''class'' ''hc-popular-list'']
                 (concat (map (\<lambda>ref.
                     [El ''li'' []
                        [El ''a'' [Asafe ''href'' (helpArticleURL (fst ref) (snd ref))]
                           ([El ''span'' []
                               [El ''strong'' [] [Text (ha_Title (snd ref))],
                                El ''small'' [] [Text (hc_Title (fst ref))]]]
                            @ Icon ''arrow-right'')]]) PopularHelpArticles))]],
         El ''section'' [At ''class'' ''hc-section'']
           [El ''div'' [At ''class'' ''wrap''] (helpContactBand contactEmail)]]
        @ helpSearchScript si)]"

definition Help :: "site \<Rightarrow> string \<Rightarrow> node list" where
  "Help si contactEmail =
    marketingPageShell si ''Help centre | GatsToGo'' (helpHub si contactEmail)"

definition sidebar_category :: "string \<Rightarrow> string \<Rightarrow> node list" where
  "sidebar_category currentCategory currentArticle =
    (concat (map (\<lambda>c.
        [El ''div'' [Aclass [(''hc-side-group'', True), (''is-open'', hc_Slug c = currentCategory)]]
           ([El ''a''
                 [Aclass [(''hc-side-cat'', True), (''is-current'', hc_Slug c =
                     currentCategory \<and> currentArticle = '''')],
                 Asafe ''href'' (helpCategoryURL c)]
               [Text (hc_Title c)]]
            @ (if hc_Slug c = currentCategory then
                  [El ''ul'' []
                     (concat (map (\<lambda>a.
                         [El ''li'' []
                            [El ''a'' [Aclass [(''is-current'', ha_Slug a = currentArticle)],
                                 Asafe ''href'' (helpArticleURL c a)]
                               [Text (ha_Title a)]]]) (hc_Articles c)))]
               else []))]) HelpCategories))"

definition helpSidebar :: "string \<Rightarrow> string \<Rightarrow> node list" where
  "helpSidebar currentCategory currentArticle =
    [El ''aside'' [At ''class'' ''hc-sidebar'']
       ([El ''a'' [At ''class'' ''hc-sidebar-home'', At ''href'' ''/help'']
           (Icon ''arrow-right'' @ [Raw ''All help topics''])]
        @ sidebar_category currentCategory currentArticle)]"

definition helpCategoryContent :: "site \<Rightarrow> HelpCategory \<Rightarrow> string \<Rightarrow> node list" where
  "helpCategoryContent si c contactEmail =
    [El ''main'' [At ''class'' ''hc hc-page'']
       [El ''div'' [At ''class'' ''wrap hc-layout'']
          (helpSidebar (hc_Slug c) ''''
           @ [El ''div'' [At ''class'' ''hc-main'']
                ([El ''nav'' [At ''class'' ''hc-crumbs'', At ''aria-label'' ''Breadcrumb'']
                    [El ''a'' [At ''href'' ''/help''] [Raw ''Help centre''],
                     El ''span'' [At ''aria-hidden'' ''true''] [Raw ''/''],
                     El ''span'' [At ''aria-current'' ''page''] [Text (hc_Title c)]],
                  El ''h1'' [] [Text (hc_Title c)],
                  El ''p'' [At ''class'' ''hc-lede''] [Text (hc_Description c)],
                  El ''ul'' [At ''class'' ''hc-article-list'']
                    (concat (map (\<lambda>a.
                        [El ''li'' []
                           [El ''a'' [Asafe ''href'' (helpArticleURL c a)]
                              [El ''strong'' [] [Text (ha_Title a)],
                               El ''span'' [] [Text (helpText (si_AppBaseDomain si) (ha_Summary a))]]]]) (hc_Articles c)))]
                 @ helpContactBand contactEmail)])]]"

definition HelpCategoryPage :: "site \<Rightarrow> HelpCategory \<Rightarrow> string \<Rightarrow> node list" where
  "HelpCategoryPage si c contactEmail =
    (marketingPageShell si (hc_Title c @ '' | Help centre | GatsToGo'') (helpCategoryContent si c contactEmail))"

definition helpFeedbackScript :: "node list" where
  "helpFeedbackScript =
    [El ''script'' [] []]"

definition article_hc_body :: "site \<Rightarrow> HelpArticle \<Rightarrow> node list" where
  "article_hc_body si a =
    [El ''div'' [At ''class'' ''hc-body'']
       (concat (map (\<lambda>b.
           (case b of
               Heading t \<Rightarrow> [El ''h2'' [] [Text (helpText (si_AppBaseDomain si) t)]]
             | Steps items \<Rightarrow> [El ''ol'' [At ''class'' ''hc-steps'']
                    (concat (map (\<lambda>item.
                        [El ''li'' [] [Text (helpText (si_AppBaseDomain si) item)]]) items))]
             | Bullets items \<Rightarrow> [El ''ul'' [At ''class'' ''hc-bullets'']
                    (concat (map (\<lambda>item.
                        [El ''li'' [] [Text (helpText (si_AppBaseDomain si) item)]]) items))]
             | Tip t \<Rightarrow> [El ''div'' [At ''class'' ''hc-note'']
                    (Icon ''check-circle'' @ [El ''p'' [] [Text (helpText (si_AppBaseDomain si) t)]])]
             | Para t \<Rightarrow> [El ''p'' [] [Text (helpText (si_AppBaseDomain si) t)]])) (ha_Body a)))]"

definition helpArticleContent :: "site \<Rightarrow> HelpCategory \<Rightarrow> HelpArticle \<Rightarrow> string \<Rightarrow> node list" where
  "helpArticleContent si c a contactEmail =
    [El ''main'' [At ''class'' ''hc hc-page'']
       ([El ''div'' [At ''class'' ''wrap hc-layout'']
           (helpSidebar (hc_Slug c) (ha_Slug a)
            @ [El ''article'' [At ''class'' ''hc-main hc-article'']
                 ([El ''nav'' [At ''class'' ''hc-crumbs'', At ''aria-label'' ''Breadcrumb'']
                     [El ''a'' [At ''href'' ''/help''] [Raw ''Help centre''],
                      El ''span'' [At ''aria-hidden'' ''true''] [Raw ''/''],
                      El ''a'' [Asafe ''href'' (helpCategoryURL c)] [Text (hc_Title c)]],
                   El ''h1'' [] [Text (ha_Title a)],
                   El ''p'' [At ''class'' ''hc-lede''] [Text (helpText (si_AppBaseDomain si) (ha_Summary a))]]
                  @ article_hc_body si a
                  @ [El ''div'' [At ''class'' ''hc-feedback'',
                         Av ''data-help-feedback'' (hc_Slug c @ ''/'' @ ha_Slug a)]
                       [El ''span'' [] [Raw ''Was this article helpful?''],
                        El ''div'' [At ''class'' ''hc-feedback-buttons'']
                          [El ''button'' [At ''type'' ''button'', At ''data-vote'' ''yes''] [Raw ''Yes''],
                           El ''button'' [At ''type'' ''button'', At ''data-vote'' ''no''] [Raw ''No'']],
                        El ''p'' [At ''class'' ''hc-feedback-thanks'', Aflag ''hidden'']
                          [Raw ''Thanks for the feedback.'']]]
                  @ (let related = relatedHelpArticles c a 3 in
                      (if related \<noteq> [] then
                          [El ''div'' [At ''class'' ''hc-related'']
                             [El ''h2'' [] [Raw ''Related articles''],
                              El ''ul'' []
                                (concat (map (\<lambda>r.
                                    [El ''li'' []
                                       [El ''a'' [Asafe ''href'' (helpArticleURL c r)] [Text (ha_Title r)]]]) related))]]
                       else []))
                  @ helpContactBand contactEmail)])]
        @ helpFeedbackScript)]"

definition HelpArticlePage :: "site \<Rightarrow> HelpCategory \<Rightarrow> HelpArticle \<Rightarrow> string \<Rightarrow> node list" where
  "HelpArticlePage si c a contactEmail =
    (marketingPageShell si (ha_Title a @ '' | Help centre | GatsToGo'') (helpArticleContent si c a contactEmail))"

end
