(* ===== verification/CustomerPages.thy ===== *)
theory CustomerPages
  imports PageParts
begin

text \<open>
  The pages a customer and the staff of a plant see: the order form, the receipts and their
  one-time-code steps, the review form, the ticket and the terminal.
\<close>

section \<open>\<^verbatim>\<open>customer_home_templ.go\<close>\<close>

definition buy_form_col :: "string \<Rightarrow> string \<Rightarrow> bool \<Rightarrow> node list" where
  "buy_form_col csrfToken errorMsg isOpen =
    [El ''div'' [At ''class'' ''buy-form-col'']
       ([El ''h1'' [At ''class'' ''page-headline''] [Raw ''Buy gas''],
         El ''p'' [At ''class'' ''lede'']
           [Raw ''No signup. Enter how much you want to spend, then your name and phone.'']]
        @ (if errorMsg \<noteq> '''' then
              [El ''div'' [At ''class'' ''inline-alert''] (Icon ''warning-circle'' @ [Text errorMsg])]
           else [])
        @ (if \<not> isOpen then
              [El ''div'' [At ''class'' ''inline-alert'']
                 (Icon ''warning-circle''
                  @ [Raw (''Plant is currently closed. Today'' @ apos @ ''s price is still shown for planning.'')])]
           else [])
        @ [El ''form'' [At ''id'' ''buy-form'', At ''method'' ''post'', At ''action'' ''/tickets'']
             [El ''input'' [At ''type'' ''hidden'', At ''name'' ''csrf_token'', Av ''value'' csrfToken] [],
              El ''div'' [At ''class'' ''field-step'']
                [El ''div'' [At ''class'' ''step-index''] [Raw ''01''],
                 El ''div'' [At ''class'' ''step-body'']
                   [El ''label'' [At ''class'' ''step-title'', At ''for'' ''amount'']
                      [Raw ''How much do you want to buy?''],
                    El ''div'' [At ''class'' ''amount-field'']
                      [El ''span'' [At ''class'' ''amount-prefix''] [Raw naira_sign],
                       El ''input'' [At ''id'' ''amount'', At ''type'' ''number'', At ''name'' ''amount'',
                           At ''inputmode'' ''numeric'', At ''min'' ''1'', At ''step'' ''1'',
                           At ''placeholder'' ''14375'', At ''x-model'' ''amount'', At ''x-ref'' ''amount'',
                           At ''aria-label'' ''Amount in naira'', Aflag ''required''] [],
                       El ''button'' [At ''type'' ''button'', At ''class'' ''amount-clear'',
                           At ''x-show'' ''hasAmount'', Aflag ''x-cloak'',
                           At ''@click'' (''amount = '' @ apos @ apos @ ''; $refs.amount.focus()''),
                           At ''aria-label'' ''Clear amount'']
                         (Icon ''x-circle'')],
                    El ''div'' [At ''class'' ''presets'', At ''x-show'' ''presets.length'', Aflag ''x-cloak'']
                      [El ''div'' [At ''class'' ''presets-label'', At ''id'' ''presets-label'']
                         [Raw ''Popular sizes''],
                       El ''div'' [At ''class'' ''preset-list'', At ''role'' ''group'',
                           At ''aria-labelledby'' ''presets-label'']
                         [El ''template'' [At ''x-for'' ''p in presets'', At '':key'' ''p.kg'']
                            [El ''button'' [At ''type'' ''button'', At ''class'' ''preset'',
                                 At '':class'' (''{ '' @ apos @ ''is-selected'' @ apos @
                                     '': naira === p.amount }''),
                                 At '':aria-pressed'' ''naira === p.amount'',
                                 At '':aria-label'' (''p.label + '' @ apos @ '' for '' @ apos @
                                     '' + formatNaira(p.amount)''),
                                 At ''@click'' ''amount = String(p.amount)'']
                               [El ''span'' [At ''class'' ''preset-check'', At ''aria-hidden'' ''true'']
                                  (Icon ''check''),
                                El ''span'' [At ''class'' ''preset-kg'']
                                  [El ''span'' [At ''x-text'' ''p.kg''] [], El ''small'' [] [Raw ''kg'']],
                                El ''span'' [At ''class'' ''preset-amount'', At ''x-text'' ''formatNaira(p.amount)''] []]]]],
                    El ''p'' [At ''class'' ''kg-preview'',
                        At '':class'' (''{ '' @ apos @ ''has-kg'' @ apos @ '': naira > 0 }'')]
                      [El ''span'' [At ''x-show'' ''naira <= 0'']
                         [Raw ''Enter an amount or pick a size to see how many kg you will get.''],
                       El ''span'' [At ''x-show'' ''naira > 0'', Aflag ''x-cloak'',
                           At ''class'' ''kg-preview-result'']
                         [El ''span'' [] [Raw ''You will get''],
                          El ''strong'' [At ''x-text'' ''formatKg(kg)''] [Raw ''0.00 kg'']]]]],
              El ''div'' [At ''class'' ''field-step'']
                [El ''div'' [At ''class'' ''step-index''] [Raw ''02''],
                 El ''div'' [At ''class'' ''step-body'']
                   [El ''div'' [At ''class'' ''step-title''] [Raw ''Your details''],
                    El ''div'' [At ''class'' ''field-grid'']
                      [El ''div'' [At ''class'' ''field-underline'']
                         [El ''label'' [At ''for'' ''name''] [Raw ''Full name''],
                          El ''input'' [At ''id'' ''name'', At ''type'' ''text'', At ''name'' ''name'',
                              At ''placeholder'' ''e.g. Ada Obi'', At ''autocomplete'' ''name'',
                              Aflag ''required''] []],
                       El ''div'' [At ''class'' ''field-underline'']
                         [El ''label'' [At ''for'' ''phone''] [Raw ''Phone number''],
                          El ''div'' [At ''class'' ''phone-field'']
                            [El ''span'' [At ''class'' ''phone-prefix'', At ''aria-hidden'' ''true'']
                               [Raw ''+234''],
                             El ''input'' [At ''id'' ''phone'', At ''type'' ''tel'', At ''name'' ''phone'',
                                 At ''placeholder'' ''803 000 0000'', At ''autocomplete'' ''tel'',
                                 Aflag ''required''] []]]]]],
              El ''div'' [At ''class'' ''field-step'']
                [El ''div'' [At ''class'' ''step-index''] [Raw ''03''],
                 El ''div'' [At ''class'' ''step-body'']
                   [El ''div'' [At ''class'' ''step-title''] [Raw ''How will you pay?''],
                    El ''div'' [At ''class'' ''payment-list'', At ''role'' ''radiogroup'',
                        At ''aria-label'' ''Payment method'']
                      [El ''label'' [At ''class'' ''payment'']
                         ([El ''input'' [At ''type'' ''radio'', At ''name'' ''channel'', At ''value'' ''transfer'',
                               At ''class'' ''sr-only'', At ''x-model'' ''channel'', Aflag ''checked''] []]
                          @ Icon ''bank''
                          @ [El ''span'' [] [Raw ''Bank transfer'']]),
                       El ''label'' [At ''class'' ''payment'']
                         ([El ''input'' [At ''type'' ''radio'', At ''name'' ''channel'', At ''value'' ''terminal'',
                               At ''class'' ''sr-only'', At ''x-model'' ''channel''] []]
                          @ Icon ''credit-card''
                          @ [El ''span'' [] [Raw ''Card'']]),
                       El ''label'' [At ''class'' ''payment'']
                         ([El ''input'' [At ''type'' ''radio'', At ''name'' ''channel'', At ''value'' ''ussd'', At ''class'' ''sr-only'',
                               At ''x-model'' ''channel''] []]
                          @ Icon ''device-mobile''
                          @ [El ''span'' [] [Raw ''USSD'']])]]]]])]"

definition buy_summary_col :: "int \<Rightarrow> bool \<Rightarrow> string \<Rightarrow> node list" where
  "buy_summary_col pricePerKgKobo isOpen hoursLabel =
    [El ''aside'' [At ''class'' ''buy-summary-col'']
       [El ''div'' [At ''class'' ''section-eyebrow''] [Raw ''Order summary''],
        El ''div'' [At ''class'' ''summary-price'']
          (Icon ''gas-pump'' @ [Text (formatPricePerKg pricePerKgKobo), El ''span'' [] [Raw ''/kg'']]),
        El ''div'' [At ''class'' ''summary-rows'']
          [El ''div'' [At ''class'' ''summary-row'']
             [El ''span'' [] [Raw ''Amount''],
              El ''strong'' [At ''x-text'' (''naira > 0 ? formatNaira(naira) : '' @ apos @ em_dash @ apos)]
                [Raw em_dash]],
           El ''div'' [At ''class'' ''summary-row'']
             [El ''span'' [] [Raw (''Gas you'' @ apos @ ''ll get'')],
              El ''strong'' [At ''x-text'' (''naira > 0 ? formatKg(kg) : '' @ apos @ em_dash @ apos)]
                [Raw em_dash]],
           El ''div'' [At ''class'' ''summary-row'']
             [El ''span'' [] [Raw ''Paying by''],
              El ''strong'' [At ''x-text'' ''channelLabel''] [Raw ''Bank transfer'']],
           El ''div'' [At ''class'' ''summary-row'']
             [El ''span'' [] [Raw ''Hours''], El ''strong'' [] [Text hoursLabel]]],
        El ''div'' [At ''class'' ''summary-paybar'']
          (if isOpen then
              [El ''button'' [At ''class'' ''button-primary full-width'', At ''form'' ''buy-form'',
                   At ''type'' ''submit'', At '':disabled'' ''naira <= 0'',
                   At ''x-text'' (''naira > 0 ? '' @ apos @ ''Pay '' @ apos @ '' + formatNaira(naira) : '' @
                       apos @ ''Enter amount to pay'' @ apos)]
                 [Raw ''Enter amount to pay'']]
           else
              [El ''button'' [At ''class'' ''button-primary full-width'', At ''type'' ''button'',
                   Aflag ''disabled'']
                 [Raw ''Plant is currently closed'']]),
        El ''p'' [At ''class'' ''fine-print'']
          [Raw ''Your purchase is linked to this phone number. Keep the SMS receipt as proof of the weight you received.''],
        El ''div'' [At ''class'' ''after-payment'']
          [El ''div'' [At ''class'' ''section-eyebrow''] (Icon ''hourglass-medium'' @ [Raw ''After payment'']),
           El ''div'' [At ''class'' ''code-preview code-preview-placeholder'', At ''aria-hidden'' ''true'']
             [Raw (en_dash @ '' '' @ en_dash @ '' '' @ en_dash @ '' '' @ en_dash)],
           El ''p'' [At ''class'' ''fine-print'']
             [Raw ''Join the queue as normal. Read this code to the attendant when you reach the front.'']]]]"

definition customerHomeContent :: "customerHomeTheme \<Rightarrow> int \<Rightarrow> string \<Rightarrow> string \<Rightarrow> bool \<Rightarrow> string \<Rightarrow> node list" where
  "customerHomeContent theme pricePerKgKobo csrfToken errorMsg isOpen hoursLabel =
    [El ''div'' [At ''class'' ''page has-sticky-pay'']
       [El ''div'' [At ''class'' ''wrap'']
          [El ''header'' [At ''class'' ''site-header'']
             (customerBrand theme
              @ [El ''nav'' [At ''class'' ''site-nav'']
                   [El ''a'' [At ''href'' ''/receipts''] (Icon ''receipt'' @ [Raw ''Receipts''])]]),
           El ''main'' [At ''class'' ''buy-layout'', Av ''x-data'' (buyGasAlpineInit pricePerKgKobo)]
             (buy_form_col csrfToken errorMsg isOpen @ buy_summary_col pricePerKgKobo isOpen hoursLabel)]]]"

definition CustomerHome :: "site \<Rightarrow> plant option \<Rightarrow> int \<Rightarrow> string \<Rightarrow> string \<Rightarrow> bool \<Rightarrow> string \<Rightarrow> node list" where
  "CustomerHome si plant pricePerKgKobo csrfToken errorMsg isOpen hoursLabel =
    (let theme = customerTheme plant in
      (customerPageShell si theme (th_Name theme @ '' | Buy gas'') (customerHomeContent theme pricePerKgKobo
          csrfToken errorMsg isOpen hoursLabel)))"

definition receipt_detail_top :: "view \<Rightarrow> node list" where
  "receipt_detail_top d =
    [El ''div'' [At ''class'' ''detail-top'']
       [El ''div'' []
          [El ''div'' [At ''class'' ''section-eyebrow''] [Text (jS d ''StatusLabel'')],
           El ''div'' [At ''class'' ''muted'']
             [Text (jS d ''When''), Raw ('' '' @ dot_sep @ '' Ticket ''), Text (jS d ''Reference'')]],
        El ''span'' [Aclass [(''status-tag '' @ jS d ''BadgeCSS'', True)]] [Text (jS d ''StatusLabel'')]]]"

definition receipt_detail_rows :: "view \<Rightarrow> node list" where
  "receipt_detail_rows d =
    [El ''div'' [At ''class'' ''detail-rows'']
       [El ''div'' [At ''class'' ''detail-row'']
          [El ''span'' [] [Raw ''Weight received''], El ''span'' [] [Text (jS d ''NetKg'')]],
        El ''div'' [At ''class'' ''detail-row'']
          [El ''span'' [] [Raw ''Rate per kg''], El ''span'' [] [Text (jS d ''Rate'')]],
        El ''div'' [At ''class'' ''detail-row'']
          [El ''span'' [] [Raw ''Amount paid''], El ''span'' [] [Text (jS d ''Amount'')]],
        El ''div'' [At ''class'' ''detail-row'']
          [El ''span'' [] [Raw ''Paid by''], El ''span'' [] [Text (jS d ''Channel'')]]]]"

definition receipt_detail_actions :: "view \<Rightarrow> node list" where
  "receipt_detail_actions d =
    [El ''div'' [At ''class'' ''detail-actions'']
       ((if jB d ''CanConfirm'' then
            [El ''form'' [At ''method'' ''post'', Aurl ''action'' (jS d ''ConfirmAction'')]
               [El ''input'' [At ''type'' ''hidden'', At ''name'' ''csrf_token'', Av ''value'' (jS d ''CSRFToken'')] [],
                El ''button'' [At ''class'' ''button-primary'', At ''type'' ''submit'']
                  (Icon ''check'' @ [Raw ''Confirm received''])]]
         else [])
        @ [El ''a'' [At ''class'' ''text-button'', At ''href'' ''/''] [Raw ''Buy again'']])]"

definition receiptDetailView :: "view \<Rightarrow> node list" where
  "receiptDetailView d =
    [El ''section'' [At ''class'' ''receipt-detail-col'', At ''aria-label'' ''Receipt proof'']
       (receipt_detail_top d
        @ [El ''div'' [At ''class'' ''big-figure'']
             [El ''span'' [At ''class'' ''big-figure-label''] [Raw ''Gas you bought''],
              El ''span'' [At ''class'' ''big-figure-value''] [Text (jS d ''Kg'')]]]
        @ receipt_detail_rows d
        @ [El ''div'' [At ''class'' ''after-payment'']
             [El ''div'' [At ''class'' ''section-eyebrow''] [Raw ''Redemption code''],
              El ''div'' [At ''class'' ''code-row'']
                [El ''div'' [At ''class'' ''code-preview''] [Text (jS d ''Code'')],
                 El ''button'' [At ''type'' ''button'', At ''class'' ''copy-button'',
                     Av ''data-copy'' (jS d ''Code''), At ''aria-label'' ''Copy code'']
                   (Icon ''copy'' @ [El ''span'' [At ''class'' ''copy-label''] [Raw ''Copy'']])],
              El ''p'' [At ''class'' ''fine-print'']
                [Raw ''Show this code to the attendant to collect your gas.'']]]
        @ (if jS d ''ConfirmedAt'' \<noteq> '''' then
              [El ''div'' [At ''class'' ''confirmed-strip'']
                 (Icon ''check-circle'' @ [Raw ''Confirmed '', Text (jS d ''ConfirmedAt'')])]
           else [])
        @ receipt_detail_actions d)]"

definition receipts_column :: "view \<Rightarrow> node list" where
  "receipts_column data =
    (if jL data ''Tickets'' = [] then
        [El ''div'' [At ''class'' ''empty-state'']
           (Icon ''receipt''
            @ [El ''strong'' [] [Raw ''No purchases yet''],
               El ''p'' [] [Raw ''Receipts for anything bought with this phone number will show up here.''],
               El ''a'' [At ''class'' ''text-button'', At ''href'' ''/''] [Raw ''Buy gas'']])]
     else
        [El ''div'' [At ''class'' ''receipt-list'']
           (concat (map (\<lambda>item.
               [El ''a'' [Aclass [(receiptItemClass (jB item ''Selected''), True)],
                    Aurl ''href'' (jS item ''Href'')]
                  [El ''div'' []
                     [El ''strong'' [] [Text (jS item ''Kg'')],
                      El ''span'' [At ''class'' ''muted''] [Text (jS item ''When'')]],
                   El ''div'' [At ''class'' ''receipt-item-end'']
                     [El ''span'' [Aclass [(''status-tag '' @ jS item ''BadgeCSS'', True)]]
                        [Text (jS item ''StatusLabel'')],
                      El ''strong'' [] [Text (jS item ''Amount'')]]]]) (jL data ''Tickets'')))])"

definition receiptsListView :: "view \<Rightarrow> node list" where
  "receiptsListView data =
    [El ''main'' [At ''class'' ''receipts-layout'']
       ([El ''aside'' [At ''class'' ''receipts-list-col'']
           ([El ''div'' [At ''class'' ''section-eyebrow''] [Raw ''Receipts''],
             El ''p'' [At ''class'' ''lede'']
               [Raw ''Recent purchases linked to '', Text (jS data ''Phone''), Raw ''.'']]
            @ receipts_column data)]
        @ (if jO data ''Selected'' \<noteq> None then (receiptDetailView (the (jO data ''Selected''))) else []))]"

definition receiptsLookupView :: "view \<Rightarrow> node list" where
  "receiptsLookupView data =
    [El ''main'' [At ''class'' ''lookup-layout'']
       [El ''div'' [At ''class'' ''lookup-icon''] (Icon ''receipt''),
        El ''h1'' [At ''class'' ''page-headline''] [Raw ''Receipts''],
        El ''p'' [At ''class'' ''lede'']
          [Raw (''Enter the phone number you used to buy gas. We'' @ apos @ ''ll text you a 6-digit code to confirm it'' @ apos @ ''s you.'')],
        El ''form'' [At ''method'' ''post'', At ''action'' ''/receipts/lookup'']
          [El ''input'' [At ''type'' ''hidden'', At ''name'' ''csrf_token'', Av ''value'' (jS data ''CSRFToken'')] [],
           El ''div'' [At ''class'' ''field-underline'']
             [El ''label'' [At ''for'' ''phone''] [Raw ''Phone number''],
              El ''input'' [At ''id'' ''phone'', At ''type'' ''tel'', At ''name'' ''phone'',
                  At ''placeholder'' ''0803 000 0000'', At ''autocomplete'' ''tel'', Aflag ''required'',
                  Aflag ''autofocus''] []],
           El ''button'' [At ''class'' ''button-primary full-width'', At ''type'' ''submit'']
             ([Raw ''Send code''] @ Icon ''arrow-right'')]]]"

definition receiptsVerifyView :: "view \<Rightarrow> node list" where
  "receiptsVerifyView data =
    [El ''main'' [At ''class'' ''lookup-layout'']
       [El ''div'' [At ''class'' ''lookup-icon''] (Icon ''shield-check''),
        El ''h1'' [At ''class'' ''page-headline''] [Raw ''Enter your code''],
        El ''p'' [At ''class'' ''lede'']
          [Raw ''We sent a 6-digit code by SMS to '', Text (jS data ''Phone''), Raw ''.''],
        El ''p'' [At ''class'' ''code-timer'', At ''data-code-timer'' ''600'', At ''role'' ''status'',
            At ''aria-live'' ''polite'']
          (Icon ''clock''
           @ [El ''span'' []
                [Raw ''Expires in '', El ''span'' [At ''class'' ''code-timer-value''] [Raw ''10:00'']]]),
        El ''form'' [At ''method'' ''post'', At ''action'' ''/receipts/verify'']
          [El ''input'' [At ''type'' ''hidden'', At ''name'' ''csrf_token'', Av ''value'' (jS data ''CSRFToken'')] [],
           El ''input'' [At ''type'' ''hidden'', At ''name'' ''phone'', Av ''value'' (jS data ''Phone'')] [],
           El ''div'' [At ''class'' ''field-underline'']
             [El ''label'' [At ''for'' ''code''] [Raw ''6-digit code''],
              El ''input'' [At ''id'' ''code'', At ''type'' ''text'', At ''name'' ''code'', At ''inputmode'' ''numeric'',
                  At ''pattern'' ''[0-9]{6}'', At ''maxlength'' ''6'', At ''placeholder'' ''123456'',
                  At ''autocomplete'' ''one-time-code'', Aflag ''autofocus'', Aflag ''required''] []],
           El ''button'' [At ''class'' ''button-primary full-width'', At ''type'' ''submit'']
             ([Raw ''Verify''] @ Icon ''arrow-right'')],
        El ''form'' [At ''method'' ''post'', At ''action'' ''/receipts/lookup'', At ''class'' ''resend-form'']
          [El ''input'' [At ''type'' ''hidden'', At ''name'' ''csrf_token'', Av ''value'' (jS data ''CSRFToken'')] [],
           El ''input'' [At ''type'' ''hidden'', At ''name'' ''phone'', Av ''value'' (jS data ''Phone'')] [],
           El ''button'' [At ''class'' ''text-button full-width'', At ''type'' ''submit''] [Raw ''Resend code'']]]]"

definition customerReceiptsContent :: "customerHomeTheme \<Rightarrow> view \<Rightarrow> node list" where
  "customerReceiptsContent theme data =
    [El ''div'' [At ''class'' ''page'']
       [El ''div'' [At ''class'' ''wrap'']
          ([El ''header'' [At ''class'' ''site-header'']
              (customerBrand theme
               @ [El ''nav'' [At ''class'' ''site-nav'']
                    [El ''a'' [At ''href'' ''/''] (Icon ''gas-pump'' @ [Raw ''Buy gas''])]])]
           @ (if jS data ''ErrorMsg'' \<noteq> '''' then
                 [El ''div'' [At ''class'' ''inline-alert'']
                    (Icon ''warning-circle'' @ [Text (jS data ''ErrorMsg'')])]
              else [])
           @ (if jS data ''View'' = ''list'' then (receiptsListView data)
              else if jS data ''View'' = ''verify'' then (receiptsVerifyView data)
              else (receiptsLookupView data)))]]"

definition CustomerReceipts :: "site \<Rightarrow> plant option \<Rightarrow> view \<Rightarrow> node list" where
  "CustomerReceipts si plant data =
    (let theme = customerTheme plant in
      (customerPageShell si theme (th_Name theme @ '' | Receipts'') (customerReceiptsContent theme data)))"

section \<open>\<^verbatim>\<open>plant_review_templ.go\<close>\<close>

definition review_done :: "view \<Rightarrow> node list" where
  "review_done data =
    [El ''div'' [At ''class'' ''review-complete'']
       ([El ''div'' [At ''class'' ''review-stars-display'',
             Av ''aria-label'' (itoa (jI data ''Rating'') @ '' out of 5 stars'')]
           [Text (reviewStars (jI data ''Rating''))]]
        @ (if jS data ''Note'' \<noteq> '''' then [El ''p'' [] [Text (jS data ''Note'')]] else []))]"

definition review_entry :: "view \<Rightarrow> node list" where
  "review_entry data =
    [El ''form'' [At ''class'' ''review-form'', At ''method'' ''post'',
         Asafe ''action'' (''/reviews/'' @ jS data ''Token'')]
       [El ''input'' [At ''type'' ''hidden'', At ''name'' ''csrf_token'', Av ''value'' (jS data ''CSRFToken'')] [],
        El ''fieldset'' [At ''class'' ''star-field'']
          [El ''legend'' [] [Raw ''Rating''],
           El ''div'' [At ''class'' ''star-options'']
             (concat (map (\<lambda>i.
                 [El ''label'' []
                    ((if jI data ''Rating'' = i then
                         [El ''input'' [At ''type'' ''radio'', At ''name'' ''rating'', Av ''value'' (itoa i), Aflag ''checked'',
                              Aflag ''required''] []]
                      else
                         [El ''input'' [At ''type'' ''radio'', At ''name'' ''rating'', Av ''value'' (itoa i), Aflag ''required''] []])
                     @ [El ''span'' [] [Text (reviewStars i)], El ''em'' [] [Text (itoa i)]])]) [5, 4, 3, 2, 1]))],
        El ''div'' [At ''class'' ''field'']
          [El ''label'' [At ''for'' ''review-note''] [Raw ''Additional message optional''],
           El ''textarea'' [At ''id'' ''review-note'', At ''name'' ''note'', At ''rows'' ''5'',
               At ''placeholder'' ''Tell the plant what went well or what needs attention.'']
             [Text (jS data ''Note'')]],
        El ''button'' [At ''class'' ''primary-action'', At ''type'' ''submit''] [Raw ''Submit review'']]]"

definition plantReviewContent :: "customerHomeTheme \<Rightarrow> view \<Rightarrow> node list" where
  "plantReviewContent theme data =
    [El ''main'' [At ''class'' ''page'']
       [El ''div'' [At ''class'' ''wrap narrow-wrap'']
          (customerBrand theme
           @ [El ''section'' [At ''class'' ''review-hero'']
                ([El ''div'' [At ''class'' ''section-eyebrow''] [Raw ''Plant review'']]
                 @ (if jB data ''AlreadySubmitted'' then
                       ([El ''h1'' [] [Raw ''Thank you for your review.''],
                         El ''p'' [At ''class'' ''lede'']
                           [Raw ''Your feedback helps this plant improve how they serve customers.'']]
                        @ review_done data
                        @ [El ''a'' [At ''class'' ''primary-action link-action'', At ''href'' ''/'']
                             [Raw ''Buy gas again'']])
                    else
                       ([El ''h1'' [] [Raw ''How was your gas purchase?''],
                         El ''p'' [At ''class'' ''lede'']
                           [Raw ''Rate '',
                            Text (th_Name theme),
                            Raw '' and leave a short note if there is anything they should know.'']]
                        @ (if jS data ''ErrorMessage'' \<noteq> '''' then
                              [El ''div'' [At ''class'' ''customer-error''] [Text (jS data ''ErrorMessage'')]]
                           else [])
                        @ review_entry data)))])]]"

definition PlantReview :: "site \<Rightarrow> plant option \<Rightarrow> view \<Rightarrow> node list" where
  "PlantReview si plant data =
    (let theme = customerTheme plant in
      (customerPageShell si theme (th_Name theme @ '' | Review'') (plantReviewContent theme data)))"

section \<open>\<^verbatim>\<open>ticket_confirmation_templ.go\<close>\<close>

definition confirmation_view :: "customerHomeTheme \<Rightarrow> bool \<Rightarrow> string \<Rightarrow> string \<Rightarrow> string \<Rightarrow> string \<Rightarrow> node list" where
  "confirmation_view theme paid code amount sizeKg pump =
    [El ''div'' [At ''class'' ''page'']
       [El ''div'' [At ''class'' ''wrap'']
          [El ''header'' [At ''class'' ''site-header'']
             (customerBrand theme
              @ [El ''nav'' [At ''class'' ''site-nav'']
                   [El ''a'' [At ''href'' ''/receipts''] (Icon ''receipt'' @ [Raw ''Receipts''])]]),
           El ''main'' [At ''class'' ''lookup-layout'']
             ((if paid then
                  [El ''div'' [At ''class'' ''lookup-icon lookup-icon-success''] (Icon ''check-circle''),
                   El ''h1'' [At ''class'' ''page-headline''] [Raw ''Payment received''],
                   El ''p'' [At ''class'' ''lede'']
                     [Raw ''You paid '',
                      Text amount,
                      Raw ''. That covers '',
                      Text sizeKg,
                      Raw '' of gas. Go to the station and show code '',
                      Text code,
                      Raw ''. Your pump is '',
                      Text pump,
                      Raw ''.''],
                   El ''div'' [At ''class'' ''after-payment'']
                     [El ''div'' [At ''class'' ''section-eyebrow''] [Raw ''Your code''],
                      El ''div'' [At ''class'' ''code-row'']
                        [El ''div'' [At ''class'' ''code-preview''] [Text code],
                         El ''button'' [At ''type'' ''button'', At ''class'' ''copy-button'',
                             Av ''data-copy'' code, At ''aria-label'' ''Copy code'']
                           (Icon ''copy'' @ [El ''span'' [At ''class'' ''copy-label''] [Raw ''Copy'']])],
                      El ''p'' [At ''class'' ''fine-print'']
                        [Raw ''Keep this code. You will also need it if you look up this purchase on the receipts page.'']]]
               else
                  [El ''div'' [At ''class'' ''lookup-icon''] (Icon ''hourglass-medium''),
                   El ''h1'' [At ''class'' ''page-headline''] [Raw ''Payment not confirmed yet''],
                   El ''p'' [At ''class'' ''lede'']
                     [Raw ''We have not received confirmation of your payment yet. If money left your account, this page will not update itself. Check '',
                      El ''a'' [At ''href'' ''/receipts''] [Raw ''My receipts''],
                      Raw '' in a minute, or contact the plant if it still has not arrived.'']])
              @ [El ''a'' [At ''class'' ''button-primary full-width'', At ''href'' ''/''] [Raw ''Buy again'']])]]]"

definition ticketConfirmationContent :: "customerHomeTheme \<Rightarrow> bool \<Rightarrow> string \<Rightarrow> string \<Rightarrow> string \<Rightarrow> string \<Rightarrow> node list" where
  "ticketConfirmationContent theme paid code amount sizeKg pump =
    confirmation_view theme paid code amount sizeKg pump"

definition TicketConfirmation :: "site \<Rightarrow> plant option \<Rightarrow> bool \<Rightarrow> string \<Rightarrow> string \<Rightarrow> string \<Rightarrow> string \<Rightarrow> node list" where
  "TicketConfirmation si plant paid code amount sizeKg pump =
    (let theme = customerTheme plant in
      (customerPageShell si theme (th_Name theme @ '' | Payment'') (ticketConfirmationContent theme paid code
          amount sizeKg pump)))"

section \<open>\<^verbatim>\<open>terminal_templ.go\<close>\<close>

definition StaffTerminal :: "site \<Rightarrow> plant option \<Rightarrow> json \<Rightarrow> node list" where
  "StaffTerminal si plant init =
    [Doctype,
     El ''html'' [At ''lang'' ''en'']
       [El ''head'' []
          ([El ''meta'' [At ''charset'' ''utf-8''] [],
            El ''meta'' [At ''name'' ''viewport'', At ''content'' ''width=device-width, initial-scale=1''] [],
            El ''title'' [] [Text (terminalPlantName plant), Raw '' staff terminal'']]
           @ BrandFavicons
           @ [El ''link'' [At ''rel'' ''preconnect'', At ''href'' ''https://fonts.googleapis.com''] [],
              El ''link''
                  [At ''href'' ''https://fonts.googleapis.com/css2?family=Archivo:wght@700;800&family=IBM+Plex+Sans:wght@400;500;600;700;800&family=IBM+Plex+Mono:wght@500;600;700;800&display=swap'',
                  At ''rel'' ''stylesheet''] [],
              El ''link'' [At ''rel'' ''stylesheet'', Aurl ''href'' (cssURL si ''tokens.css'')] [],
              El ''link'' [At ''rel'' ''stylesheet'', Aurl ''href'' (cssURL si ''terminal.css'')] [],
              El ''script'' [] []]),
        El ''body'' []
          [El ''div'' [At ''class'' ''terminal-page'']
             ([JSONScript ''terminal-init'' init]
              @ [El ''div'' [Aflag ''data-terminal'', Av ''data-plant'' (terminalPlantName plant)] []])]]]"

end
