(* ===== verification/OwnerPages.thy ===== *)
theory OwnerPages
  imports PageParts
begin

text \<open>
  The pages of a plant's owner: login, the password pages, and the dashboard with its panels for
  sales, reviews, operations, staff and settings.
\<close>

section \<open>\<^verbatim>\<open>owner_login_templ.go\<close>\<close>

definition OwnerLogin :: "site \<Rightarrow> string \<Rightarrow> string \<Rightarrow> string \<Rightarrow> node list" where
  "OwnerLogin si plantName errorMsg csrfToken =
    (authShell si (plantName @ '' owner sign in'') ''Sign in'' errorMsg ''/owner/login'' csrfToken)"

section \<open>\<^verbatim>\<open>owner_password_reset_templ.go\<close>\<close>

definition forgot_page :: "site \<Rightarrow> string \<Rightarrow> string \<Rightarrow> bool \<Rightarrow> string \<Rightarrow> node list" where
  "forgot_page si plantName errorMsg submitted csrfToken =
    [El ''html'' [At ''lang'' ''en'']
       [El ''head'' []
          ([El ''meta'' [At ''charset'' ''utf-8''] [],
            El ''meta'' [At ''name'' ''viewport'', At ''content'' ''width=device-width, initial-scale=1''] [],
            El ''title'' [] [Text plantName, Raw '' owner sign in'']]
           @ BrandFavicons
           @ [El ''link'' [At ''rel'' ''preconnect'', At ''href'' ''https://fonts.googleapis.com''] [],
              El ''link''
                  [At ''href'' ''https://fonts.googleapis.com/css2?family=Archivo:wght@700;800&family=IBM+Plex+Sans:wght@400;500;600;700;800&display=swap'',
                  At ''rel'' ''stylesheet''] [],
              El ''link'' [At ''rel'' ''stylesheet'', Aurl ''href'' (cssURL si ''tokens.css'')] [],
              El ''link'' [At ''rel'' ''stylesheet'', Aurl ''href'' (cssURL si ''owner-admin.css'')] [],
              El ''script'' [] []]),
        El ''body'' []
          ([El ''div'' [At ''class'' ''login-page'']
              [El ''div'' [At ''class'' ''login-visual'']
                 [El ''a'' [At ''class'' ''login-visual-brand'', At ''href'' ''/'']
                    (BrandMark ''mark'' ''reversed'' ''GatsToGo'' @ [El ''span'' [] [Raw ''GATSTOGO'']]),
                  El ''div'' [At ''class'' ''login-visual-copy'']
                    [El ''h2'' [] [Raw ''Run your plant from anywhere.''],
                     El ''p'' []
                       [Raw (''Sign in to see today'' @ apos @ ''s sales, cash position, and shift activity, live.'')]]],
               El ''div'' [At ''class'' ''login-form-col'']
                 (if submitted then
                     [El ''div'' [At ''class'' ''login-card'']
                        [El ''div'' [At ''class'' ''login-brand'']
                           (BrandMark ''mark'' ''primary'' ''GatsToGo''
                            @ [El ''span'' [] [Raw ''GATSTOGO'']]),
                         El ''div'' []
                           [El ''h1'' [] [Raw ''Check your email''],
                            El ''p'' [At ''class'' ''login-sub'']
                              [Raw (''If an account exists for that phone number, we'' @ apos @ ''ve sent password reset instructions to the email on file. The link expires in an hour.'')]],
                         El ''a'' [At ''class'' ''btn primary full-width'', At ''href'' ''/owner/login'',
                             At ''style'' ''text-decoration:none;'']
                           [Raw ''Back to sign in'']]]
                  else
                     [El ''form'' [At ''class'' ''login-card'', At ''method'' ''post'',
                          At ''action'' ''/owner/forgot-password'', At ''data-splash'' ''Sending reset link'']
                        ([El ''div'' [At ''class'' ''login-brand'']
                            (BrandMark ''mark'' ''primary'' ''GatsToGo''
                             @ [El ''span'' [] [Raw ''GATSTOGO'']]),
                          El ''div'' []
                            [El ''h1'' [] [Raw ''Forgot your password?''],
                             El ''p'' [At ''class'' ''login-sub'']
                               [Raw (''Enter your phone number and we'' @ apos @ ''ll email a reset link to the address on file.'')]]]
                         @ (if errorMsg \<noteq> '''' then
                               [El ''div'' [At ''class'' ''owner-error login-error'']
                                  (Icon ''warning-circle'' @ [Text errorMsg])]
                            else [])
                         @ [El ''input'' [At ''type'' ''hidden'', At ''name'' ''csrf_token'', Av ''value'' csrfToken] [],
                            El ''div'' [At ''class'' ''field'']
                              [El ''label'' [At ''for'' ''phone''] [Raw ''Phone number''],
                               El ''input'' [At ''id'' ''phone'', At ''type'' ''tel'', At ''name'' ''phone'',
                                   At ''placeholder'' ''0803 000 0000'', At ''autocomplete'' ''tel'',
                                   Aflag ''required'', Aflag ''autofocus''] []],
                            El ''button'' [At ''class'' ''btn primary full-width'', At ''type'' ''submit'']
                              [Raw ''Send reset link''],
                            El ''p'' [At ''class'' ''login-sub'', At ''style'' ''margin-top:4px;'']
                              [El ''a'' [At ''href'' ''/owner/login''] [Raw ''Back to sign in'']]])])]]
           @ splashOverlay)]]"

definition OwnerForgotPassword :: "site \<Rightarrow> string \<Rightarrow> string \<Rightarrow> bool \<Rightarrow> string \<Rightarrow> node list" where
  "OwnerForgotPassword si plantName errorMsg submitted csrfToken =
    ([Doctype] @ forgot_page si plantName errorMsg submitted csrfToken)"

definition reset_head :: "site \<Rightarrow> string \<Rightarrow> node list" where
  "reset_head si plantName =
    [El ''head'' []
       ([El ''meta'' [At ''charset'' ''utf-8''] [],
         El ''meta'' [At ''name'' ''viewport'', At ''content'' ''width=device-width, initial-scale=1''] [],
         El ''title'' [] [Text plantName, Raw '' owner sign in'']]
        @ BrandFavicons
        @ [El ''link'' [At ''rel'' ''preconnect'', At ''href'' ''https://fonts.googleapis.com''] [],
           El ''link''
               [At ''href'' ''https://fonts.googleapis.com/css2?family=Archivo:wght@700;800&family=IBM+Plex+Sans:wght@400;500;600;700;800&display=swap'',
               At ''rel'' ''stylesheet''] [],
           El ''link'' [At ''rel'' ''stylesheet'', Aurl ''href'' (cssURL si ''tokens.css'')] [],
           El ''link'' [At ''rel'' ''stylesheet'', Aurl ''href'' (cssURL si ''owner-admin.css'')] [],
           El ''script'' [] []])]"

definition reset_body :: "string \<Rightarrow> string \<Rightarrow> bool \<Rightarrow> string \<Rightarrow> node list" where
  "reset_body errorMsg token tokenValid csrfToken =
    [El ''body'' []
       ([El ''div'' [At ''class'' ''login-page'']
           [El ''div'' [At ''class'' ''login-visual'']
              [El ''a'' [At ''class'' ''login-visual-brand'', At ''href'' ''/'']
                 (BrandMark ''mark'' ''reversed'' ''GatsToGo'' @ [El ''span'' [] [Raw ''GATSTOGO'']]),
               El ''div'' [At ''class'' ''login-visual-copy'']
                 [El ''h2'' [] [Raw ''Run your plant from anywhere.''],
                  El ''p'' []
                    [Raw (''Sign in to see today'' @ apos @ ''s sales, cash position, and shift activity, live.'')]]],
            El ''div'' [At ''class'' ''login-form-col'']
              (if \<not> tokenValid then
                  [El ''div'' [At ''class'' ''login-card'']
                     [El ''div'' [At ''class'' ''login-brand'']
                        (BrandMark ''mark'' ''primary'' ''GatsToGo'' @ [El ''span'' [] [Raw ''GATSTOGO'']]),
                      El ''div'' []
                        [El ''h1'' [] [Raw ''This link is invalid or expired''],
                         El ''p'' [At ''class'' ''login-sub'']
                           [Raw ''Password reset links only work once, and expire after an hour. Request a new one below.'']],
                      El ''a'' [At ''class'' ''btn primary full-width'',
                          At ''href'' ''/owner/forgot-password'', At ''style'' ''text-decoration:none;'']
                        [Raw ''Request a new link'']]]
               else
                  [El ''form'' [At ''class'' ''login-card'', At ''method'' ''post'',
                       At ''action'' ''/owner/reset-password'', At ''data-splash'' ''Resetting password'']
                     ([El ''div'' [At ''class'' ''login-brand'']
                         (BrandMark ''mark'' ''primary'' ''GatsToGo'' @ [El ''span'' [] [Raw ''GATSTOGO'']]),
                       El ''div'' []
                         [El ''h1'' [] [Raw ''Set a new password''],
                          El ''p'' [At ''class'' ''login-sub'']
                            [Raw ''Choose a new password for your owner login.'']]]
                      @ (if errorMsg \<noteq> '''' then
                            [El ''div'' [At ''class'' ''owner-error login-error'']
                               (Icon ''warning-circle'' @ [Text errorMsg])]
                         else [])
                      @ [El ''input'' [At ''type'' ''hidden'', At ''name'' ''csrf_token'', Av ''value'' csrfToken] [],
                         El ''input'' [At ''type'' ''hidden'', At ''name'' ''token'', Av ''value'' token] [],
                         El ''div'' [At ''class'' ''field'']
                           [El ''label'' [At ''for'' ''new-password''] [Raw ''New password''],
                            El ''div'' [At ''class'' ''field-password'']
                              [El ''input'' [At ''id'' ''new-password'', At ''type'' ''password'', At ''name'' ''new_password'',
                                   At ''autocomplete'' ''new-password'', Aflag ''required'',
                                   Aflag ''autofocus''] [],
                               El ''button'' [At ''type'' ''button'', At ''class'' ''field-password-toggle'',
                                   At ''data-password-toggle'' ''new-password'',
                                   At ''aria-label'' ''Show password'']
                                 (Icon ''eye'')]],
                         El ''div'' [At ''class'' ''field'']
                           [El ''label'' [At ''for'' ''new-password-confirm''] [Raw ''Confirm new password''],
                            El ''input'' [At ''id'' ''new-password-confirm'', At ''type'' ''password'',
                                At ''name'' ''new_password_confirm'', At ''autocomplete'' ''new-password'',
                                Aflag ''required''] []],
                         El ''button'' [At ''class'' ''btn primary full-width'', At ''type'' ''submit'']
                           [Raw ''Reset password'']])])]]
        @ splashOverlay)]"

definition OwnerResetPassword :: "site \<Rightarrow> string \<Rightarrow> string \<Rightarrow> string \<Rightarrow> bool \<Rightarrow> string \<Rightarrow> node list" where
  "OwnerResetPassword si plantName errorMsg token tokenValid csrfToken =
    [Doctype,
     El ''html'' [At ''lang'' ''en''] (reset_head si plantName @ reset_body errorMsg token tokenValid csrfToken)]"

section \<open>\<^verbatim>\<open>owner_change_password_templ.go\<close>\<close>

definition change_head :: "site \<Rightarrow> string \<Rightarrow> node list" where
  "change_head si plantName =
    [El ''head'' []
       ([El ''meta'' [At ''charset'' ''utf-8''] [],
         El ''meta'' [At ''name'' ''viewport'', At ''content'' ''width=device-width, initial-scale=1''] [],
         El ''title'' [] [Raw (''Change password '' @ dot_sep @ '' ''), Text plantName]]
        @ BrandFavicons
        @ [El ''link'' [At ''rel'' ''preconnect'', At ''href'' ''https://fonts.googleapis.com''] [],
           El ''link''
               [At ''href'' ''https://fonts.googleapis.com/css2?family=Archivo:wght@700;800&family=IBM+Plex+Sans:wght@400;500;600;700;800&display=swap'',
               At ''rel'' ''stylesheet''] [],
           El ''link'' [At ''rel'' ''stylesheet'', Aurl ''href'' (cssURL si ''tokens.css'')] [],
           El ''link'' [At ''rel'' ''stylesheet'', Aurl ''href'' (cssURL si ''owner-admin.css'')] [],
           El ''script'' [] []])]"

definition change_account_body :: "string \<Rightarrow> string \<Rightarrow> bool \<Rightarrow> string \<Rightarrow> node list" where
  "change_account_body plantName errorMsg done' csrfToken =
    [El ''body'' [At ''class'' ''account-body'']
       ([El ''header'' [At ''class'' ''account-top'']
           [El ''a'' [At ''class'' ''account-back'', At ''href'' ''/owner#settings'']
              [El ''span'' [At ''class'' ''icon-flip''] (Icon ''arrow-right''), Raw '' Back to settings''],
            El ''div'' [At ''class'' ''account-brand'']
              (BrandMark ''mark'' ''primary'' '''' @ [El ''span'' [] [Text plantName]])],
         El ''main'' [At ''class'' ''account-main'']
           (if done' then
               [El ''div'' [At ''class'' ''account-card account-done'']
                  [El ''div'' [At ''class'' ''account-done-icon''] (Icon ''check-circle''),
                   El ''h1'' [] [Raw ''Password updated''],
                   El ''p'' [At ''class'' ''login-sub'']
                     [Raw ''Use your new password the next time you sign in to this dashboard.''],
                   El ''a'' [At ''class'' ''btn primary full-width'', At ''href'' ''/owner'']
                     [Raw ''Back to dashboard''],
                   El ''a'' [At ''class'' ''account-secondary-link'', At ''href'' ''/owner#settings'']
                     [Raw ''Return to settings'']]]
            else
               [El ''form'' [At ''class'' ''account-card'', At ''method'' ''post'',
                    At ''action'' ''/owner/password'', At ''data-splash'' ''Updating password'',
                    Aflag ''data-change-password'']
                  ([El ''div'' []
                      [El ''div'' [At ''class'' ''eyebrow''] [Raw ''Account security''],
                       El ''h1'' [] [Raw ''Change password''],
                       El ''p'' [At ''class'' ''login-sub'']
                         [Raw (''You'' @ apos @ ''ll use the new password the next time you sign in.'')]]]
                   @ (if errorMsg \<noteq> '''' then
                         [El ''div'' [At ''class'' ''owner-error login-error'', At ''role'' ''alert'']
                            (Icon ''warning-circle'' @ [Text errorMsg])]
                      else [])
                   @ [El ''input'' [At ''type'' ''hidden'', At ''name'' ''csrf_token'', Av ''value'' csrfToken] [],
                      El ''div'' [At ''class'' ''field'']
                        ([El ''label'' [At ''for'' ''current-password''] [Raw ''Current password'']]
                         @ passwordInput ''current-password'' ''current_password'' ''current-password'' True),
                      El ''div'' [At ''class'' ''account-divider'', At ''role'' ''presentation''] [],
                      El ''div'' [At ''class'' ''field'']
                        ([El ''label'' [At ''for'' ''new-password''] [Raw ''New password'']]
                         @ passwordInput ''new-password'' ''new_password'' ''new-password'' False),
                      El ''div'' [At ''class'' ''field'']
                        ([El ''label'' [At ''for'' ''new-password-confirm''] [Raw ''Confirm new password'']]
                         @ passwordInput ''new-password-confirm'' ''new_password_confirm'' ''new-password''
                               False),
                      El ''ul'' [At ''class'' ''pw-rules'', At ''aria-label'' ''Password requirements'']
                        [El ''li'' [At ''data-rule'' ''length'']
                           (Icon ''check-circle'' @ [Raw ''At least 8 characters'']),
                         El ''li'' [At ''data-rule'' ''different'']
                           (Icon ''check-circle'' @ [Raw ''Different from your current password'']),
                         El ''li'' [At ''data-rule'' ''match'']
                           (Icon ''check-circle'' @ [Raw ''Both new passwords match''])],
                      El ''button'' [At ''class'' ''btn primary full-width'', At ''type'' ''submit'']
                        [Raw ''Update password''],
                      El ''a'' [At ''class'' ''account-secondary-link'', At ''href'' ''/owner#settings'']
                        [Raw ''Cancel'']])])]
        @ splashOverlay)]"

definition OwnerChangePassword :: "site \<Rightarrow> string \<Rightarrow> string \<Rightarrow> bool \<Rightarrow> string \<Rightarrow> node list" where
  "OwnerChangePassword si plantName errorMsg done' csrfToken =
    [Doctype,
     El ''html'' [At ''lang'' ''en'']
       (change_head si plantName @ change_account_body plantName errorMsg done' csrfToken)]"

section \<open>\<^verbatim>\<open>owner_admin_templ.go\<close>\<close>

definition ownerNav :: "node list" where
  "ownerNav =
    [El ''nav'' [At ''class'' ''rail-nav'', At ''aria-label'' ''Owner sections'']
       (navButton True ''overview'' ''squares-four'' ''Overview''
        @ navButton False ''sales'' ''receipt'' ''Sales''
        @ navButton False ''reviews'' ''check-circle'' ''Reviews''
        @ navButton False ''operations'' ''money'' ''Operations''
        @ navButton False ''staff'' ''users'' ''Staff''
        @ navButton False ''settings'' ''gear'' ''Settings'')]"

definition owner_topline :: "view \<Rightarrow> node list" where
  "owner_topline data =
    [El ''div'' [At ''class'' ''topline'']
       [El ''div'' []
          [El ''div'' [At ''class'' ''eyebrow''] [Raw ''Plant owner console''],
           El ''h1'' [] [Text (jS data ''PlantName'')],
           El ''div'' [At ''class'' ''meta-row'']
             ([El ''span'' [] [Text (jS data ''TodayLabel'')],
               El ''span'' [At ''class'' ''sep''] [],
               El ''span'' [] [Text (jS data ''PlantCity'')],
               El ''span'' [At ''class'' ''sep''] [],
               El ''span'' [At ''class'' ''mono''] [Text (jS data ''PlantSlug'')],
               El ''span'' [At ''class'' ''sep''] [],
               El ''span'' [] [Raw ''Domain '', Text (jS data ''DomainStatus'')]]
              @ (if foundingBadgeLabel (jI data ''FoundingRank'') \<noteq> '''' then
                    [El ''span'' [At ''class'' ''sep''] [],
                     El ''span'' [At ''class'' ''founding-badge'']
                       [Text (foundingBadgeLabel (jI data ''FoundingRank''))]]
                 else []))],
        El ''div'' [At ''class'' ''toolbar'']
          [El ''button'' [At ''class'' ''btn primary'', At ''type'' ''button'', At ''data-tab'' ''settings'']
             (Icon ''gas-pump'' @ [Raw ''Set price''])]]]"

definition owner_overview_kpis :: "view \<Rightarrow> node list" where
  "owner_overview_kpis data =
    [El ''div'' [At ''class'' ''kpi-row kpi-band'']
       [El ''div'' [At ''class'' ''kpi-item'']
          (kpiLabel ''wallet'' ''Money today''
           @ [El ''div'' [At ''class'' ''kpi''] [Text (jS data ''MoneyToday'')],
              El ''div'' [At ''class'' ''kpi-small'']
                [Text (itoa (jI data ''SalesCount'')), Raw '' sales recorded'']]),
        El ''div'' [At ''class'' ''kpi-item'']
          (kpiLabel ''gas-pump'' ''Gas sold''
           @ [El ''div'' [At ''class'' ''kpi''] [Text (jS data ''GasSoldKg'')],
              El ''div'' [At ''class'' ''kpi-small''] [Raw ''Paid ticket size'']]),
        El ''div'' [At ''class'' ''kpi-item'']
          (kpiLabel ''receipt'' ''Current price''
           @ [El ''div'' [At ''class'' ''kpi''] [Text (jS data ''CurrentPrice'')],
              El ''div'' [At ''class'' ''kpi-small''] [Raw ''Snapshot used for new tickets'']]),
        El ''div'' [At ''class'' ''kpi-item'']
          (kpiLabel ''bank'' ''Cash / electronic''
           @ [El ''div'' [At ''class'' ''kpi''] [Text (jS data ''CashTotal'')],
              El ''div'' [At ''class'' ''kpi-small''] [Raw ''Electronic '', Text (jS data ''ElectronicTotal'')]])]]"

definition owner_overview_grid :: "view \<Rightarrow> node list" where
  "owner_overview_grid data =
    [El ''div'' [At ''class'' ''dashboard-grid overview-grid'']
       [El ''div'' []
          [El ''div'' [At ''class'' ''section-title''] [El ''h2'' [] [Raw (''Today'' @ apos @ ''s control'')]],
           El ''div'' [At ''class'' ''stat-line'']
             [El ''div'' []
                [El ''div'' [At ''class'' ''kpi-label''] [Raw ''Gas paid for''],
                 El ''strong'' [At ''class'' ''mono''] [Text (jS data ''PaidForKg'')]],
              El ''div'' []
                [El ''div'' [At ''class'' ''kpi-label''] [Raw ''Gas filled''],
                 El ''strong'' [At ''class'' ''mono''] [Text (jS data ''FilledKg'')]],
              El ''div'' []
                [El ''div'' [At ''class'' ''kpi-label''] [Raw ''Difference''],
                 El ''strong'' [At ''class'' ''mono'']
                   [Text (jS data ''DiffKg''), Raw ('' '' @ dot_sep @ '' ''), Text (jS data ''DiffAmount'')]]],
           El ''div'' [At ''class'' ''section-title section-spaced''] [El ''h2'' [] [Raw ''Recent activity'']],
           El ''div'' [At ''class'' ''timeline activity-grid'']
             ((if jL data ''Activity'' = [] then
                  (emptyState ''empty-state''
                      ''No activity yet. Ticket, price, shift, and staff changes will appear here.'')
               else [])
              @ concat (map (\<lambda>item.
                    [El ''div'' [At ''class'' ''timeline-item'']
                       [El ''strong'' [] [Text (jS item ''Action'')],
                        El ''span'' [At ''class'' ''muted''] [Text (jS item ''Detail'')]]]) (jL data ''Activity'')))],
        El ''div'' [At ''class'' ''dash-aside'']
          [El ''div'' [At ''class'' ''section-title''] [El ''h2'' [] [Raw ''Plant basics'']],
           El ''div'' [At ''class'' ''split-list basics-list'']
             [El ''div'' [At ''class'' ''info-row'']
                [El ''span'' [] [Raw ''Address''], El ''strong'' [] [Text (jS data ''PlantAddress'')]],
              El ''div'' [At ''class'' ''info-row'']
                [El ''span'' [] [Raw ''Phone''], El ''strong'' [] [Text (jS data ''PlantPhone'')]],
              El ''div'' [At ''class'' ''info-row'']
                [El ''span'' [] [Raw ''Web address''],
                 El ''strong'' [At ''class'' ''mono''] [Text (jS data ''PlantSlug'')]],
              El ''div'' [At ''class'' ''info-row'']
                [El ''span'' [] [Raw ''Domain status''], El ''strong'' [] [Text (jS data ''DomainStatus'')]]]]]]"

definition owner_overview_panel :: "view \<Rightarrow> node list" where
  "owner_overview_panel data =
    [El ''section'' [At ''class'' ''tab-panel active'', At ''data-tab-panel'' ''overview'']
       (owner_overview_kpis data @ owner_overview_grid data)]"

definition owner_sale_row :: "view \<Rightarrow> view \<Rightarrow> node list" where
  "owner_sale_row data row =
    [El ''tr'' []
       [El ''td'' [At ''class'' ''mono'', Av ''title'' (jS row ''Reference'')]
          [Text (shortTicketRef (jS row ''Reference'') (jS data ''PlantSlug''))],
        El ''td'' []
          [Text (jS row ''Customer''), El ''div'' [At ''class'' ''muted mono''] [Text (jS row ''Phone'')]],
        El ''td'' [At ''class'' ''mono''] [Text (jS row ''Code'')],
        El ''td'' [At ''class'' ''num''] [Text (jS row ''Kg'')],
        El ''td'' [At ''class'' ''num''] [Text (jS row ''NetKg'')],
        El ''td'' [At ''class'' ''num''] [Text (jS row ''Amount'')],
        El ''td'' [] [Text (jS row ''Channel'')],
        El ''td'' [] [Text (jS row ''Pump'')],
        El ''td'' []
          [El ''span'' [Aclass [(''badge '' @ jS row ''BadgeCSS'', True)]] [Text (jS row ''Status'')]],
        El ''td'' [] [Text (jS row ''When'')],
        El ''td'' [At ''class'' ''action-strip table-actions'']
          (if jS row ''Status'' = ''PENDING'' \<or> jS row ''Status'' = ''PAID'' then
              [El ''form'' [At ''method'' ''post'',
                   Asafe ''action'' (''/tickets/'' @ jS row ''Reference'' @ ''/void''),
                   At ''data-confirm-title'' ''Void this ticket?'',
                   At ''data-confirm-desc'' (''The code stops working right away and this sale won'' @ apos @
                       ''t count anymore. This can'' @ apos @ ''t be undone.''),
                   At ''data-confirm-label'' ''Void ticket'', At ''data-confirm-tone'' ''danger'']
                 [El ''input'' [At ''type'' ''hidden'', At ''name'' ''csrf_token'', Av ''value'' (jS data ''CSRFToken'')] [],
                  El ''button'' [At ''class'' ''btn'', At ''type'' ''submit''] [Raw ''Void'']]]
           else [])]]"

definition owner_sales_table :: "view \<Rightarrow> node list" where
  "owner_sales_table data =
    [El ''div'' [At ''class'' ''table-wrap'']
       [El ''table'' [At ''style'' ''min-width:1240px'']
          [El ''thead'' []
             [El ''tr'' []
                [El ''th'' [] [Raw ''Ticket''],
                 El ''th'' [] [Raw ''Customer''],
                 El ''th'' [] [Raw ''Code''],
                 El ''th'' [At ''class'' ''num''] [Raw ''Paid kg''],
                 El ''th'' [At ''class'' ''num''] [Raw ''Filled kg''],
                 El ''th'' [At ''class'' ''num''] [Raw ''Amount''],
                 El ''th'' [] [Raw ''Channel''],
                 El ''th'' [] [Raw ''Pump''],
                 El ''th'' [] [Raw ''Status''],
                 El ''th'' [] [Raw ''Created''],
                 El ''th'' [] []]],
           El ''tbody'' []
             ((if jL data ''RecentTickets'' = [] then
                  [El ''tr'' []
                     [El ''td'' [At ''colspan'' ''11'']
                        (emptyState ''empty-state''
                            ''No sales yet. Paid customer tickets will show reference, code, weight, payment method, pump, and status here.'')]]
               else [])
              @ concat (map (\<lambda>row. (owner_sale_row data row)) (jL data ''RecentTickets'')))]]]"

definition owner_sales_panel :: "view \<Rightarrow> node list" where
  "owner_sales_panel data =
    [El ''section'' [At ''class'' ''tab-panel'', At ''data-tab-panel'' ''sales'']
       ([El ''div'' [At ''class'' ''section-title''] [El ''h2'' [] [Raw ''Sales'']]]
        @ owner_sales_table data)]"

definition owner_review_kpis :: "view \<Rightarrow> node list" where
  "owner_review_kpis data =
    [El ''div'' [At ''class'' ''kpi-row'']
       [El ''div'' [At ''class'' ''kpi-item'']
          (kpiLabel ''check-circle'' ''Average rating''
           @ [El ''div'' [At ''class'' ''kpi''] [Text (jS data ''ReviewAverage'')],
              El ''div'' [At ''class'' ''kpi-small''] [Raw ''From submitted reviews'']]),
        El ''div'' [At ''class'' ''kpi-item'']
          (kpiLabel ''receipt'' ''Review count''
           @ [El ''div'' [At ''class'' ''kpi''] [Text (itoa (jI data ''ReviewCount''))],
              El ''div'' [At ''class'' ''kpi-small''] [Raw ''Customers who responded'']]),
        El ''div'' [At ''class'' ''kpi-item'']
          (kpiLabel ''gas-pump'' ''Trigger''
           @ [El ''div'' [At ''class'' ''kpi''] [Raw ''Code''],
              El ''div'' [At ''class'' ''kpi-small''] [Raw ''Sent after dispensing starts'']]),
        El ''div'' [At ''class'' ''kpi-item'']
          (kpiLabel ''shield-check'' ''Privacy''
           @ [El ''div'' [At ''class'' ''kpi''] [Raw ''Phone''],
              El ''div'' [At ''class'' ''kpi-small''] [Raw ''No login or account required'']])]]"

definition owner_reviews_table :: "view \<Rightarrow> node list" where
  "owner_reviews_table data =
    [El ''div'' [At ''class'' ''table-wrap'']
       [El ''table'' [At ''style'' ''min-width:900px'']
          [El ''thead'' []
             [El ''tr'' []
                [El ''th'' [] [Raw ''Ticket''],
                 El ''th'' [] [Raw ''Customer phone''],
                 El ''th'' [] [Raw ''Rating''],
                 El ''th'' [] [Raw ''Message''],
                 El ''th'' [] [Raw ''Submitted'']]],
           El ''tbody'' []
             ((if jL data ''Reviews'' = [] then
                  [El ''tr'' []
                     [El ''td'' [At ''colspan'' ''5'']
                        (emptyState ''empty-state''
                            ''No reviews yet. When customers submit review links, their ratings and notes will appear here.'')]]
               else [])
              @ concat (map (\<lambda>row.
                    [El ''tr'' []
                       [El ''td'' [At ''class'' ''mono''] [Text (jS row ''Ticket'')],
                        El ''td'' [At ''class'' ''mono''] [Text (jS row ''Phone'')],
                        El ''td'' []
                          [El ''span'' [At ''class'' ''review-stars''] [Text (jS row ''Stars'')],
                           El ''span'' [At ''class'' ''muted mono'']
                             [Text (itoa (jI row ''Rating'')), Raw ''/5'']],
                        El ''td'' [] [Text (jS row ''Note'')],
                        El ''td'' [] [Text (jS row ''SubmittedAt'')]]]) (jL data ''Reviews'')))]]]"

definition owner_reviews_panel :: "view \<Rightarrow> node list" where
  "owner_reviews_panel data =
    [El ''section'' [At ''class'' ''tab-panel'', At ''data-tab-panel'' ''reviews'']
       (owner_review_kpis data
        @ [El ''div'' [At ''class'' ''section-title''] [El ''h2'' [] [Raw ''Customer reviews'']]]
        @ owner_reviews_table data)]"

definition owner_cash_drawer :: "view \<Rightarrow> node list" where
  "owner_cash_drawer data =
    [El ''div'' []
       [El ''div'' [At ''class'' ''section-title''] [El ''h2'' [] [Raw ''Cash drawer'']],
        El ''p'' [At ''class'' ''muted'']
          [Raw ''Cash is recorded from the staff terminal: opening cash when a shift starts, cash sales during the shift, and closing cash when the shift ends.''],
        El ''div'' [At ''class'' ''table-wrap section-spaced'']
          [El ''table'' [At ''style'' ''min-width:860px'']
             [El ''thead'' []
                [El ''tr'' []
                   [El ''th'' [] [Raw ''When''],
                    El ''th'' [] [Raw ''Kind''],
                    El ''th'' [At ''class'' ''num''] [Raw ''Amount''],
                    El ''th'' [At ''class'' ''num''] [Raw ''Counted''],
                    El ''th'' [] [Raw ''Recorded by''],
                    El ''th'' [] [Raw ''Ticket''],
                    El ''th'' [] [Raw ''Note'']]],
              El ''tbody'' []
                ((if jL data ''CashMovements'' = [] then
                     [El ''tr'' []
                        [El ''td'' [At ''colspan'' ''7'']
                           (emptyState ''empty-state''
                               ''No cash entries yet. Opening cash, cash sales, and closing records from the terminal will appear here.'')]]
                  else [])
                 @ concat (map (\<lambda>row.
                       [El ''tr'' []
                          [El ''td'' [] [Text (jS row ''When'')],
                           El ''td'' [] [Text (jS row ''Kind'')],
                           El ''td'' [At ''class'' ''num''] [Text (jS row ''Amount'')],
                           El ''td'' [At ''class'' ''num''] [Text (jS row ''Counted'')],
                           El ''td'' [] [Text (jS row ''Recorder'')],
                           El ''td'' [At ''class'' ''mono''] [Text (jS row ''Ticket'')],
                           El ''td'' [] [Text (jS row ''Note'')]]]) (jL data ''CashMovements'')))]]]]"

definition owner_day_row :: "view \<Rightarrow> node list" where
  "owner_day_row day =
    [El ''tr'' []
       [El ''td'' [] [El ''strong'' [] [Text (jS day ''Label'')]],
        El ''td'' []
          [El ''input'' [At ''class'' ''table-input mono'', At ''type'' ''time'',
               Av ''name'' (''open_'' @ itoa (jI day ''DayOfWeek'') @ ''_1''),
               Av ''value'' (jS day ''Open1'')] []],
        El ''td'' []
          [El ''input'' [At ''class'' ''table-input mono'', At ''type'' ''time'',
               Av ''name'' (''close_'' @ itoa (jI day ''DayOfWeek'') @ ''_1''),
               Av ''value'' (jS day ''Close1'')] []],
        El ''td'' []
          [El ''input'' [At ''class'' ''table-input mono'', At ''type'' ''time'',
               Av ''name'' (''open_'' @ itoa (jI day ''DayOfWeek'') @ ''_2''),
               Av ''value'' (jS day ''Open2'')] []],
        El ''td'' []
          [El ''input'' [At ''class'' ''table-input mono'', At ''type'' ''time'',
               Av ''name'' (''close_'' @ itoa (jI day ''DayOfWeek'') @ ''_2''),
               Av ''value'' (jS day ''Close2'')] []],
        El ''td'' []
          [El ''label'' [At ''class'' ''check-row compact-check'']
             ((if jB day ''Closed'' then
                  [El ''input'' [At ''type'' ''checkbox'', Av ''name'' (''closed_'' @ itoa (jI day ''DayOfWeek'')),
                       At ''value'' ''true'', Aflag ''checked''] []]
               else
                  [El ''input'' [At ''type'' ''checkbox'', Av ''name'' (''closed_'' @ itoa (jI day ''DayOfWeek'')),
                       At ''value'' ''true''] []])
              @ [El ''span'' [] [Raw ''Closed'']])],
        El ''td'' [] [Text (jS day ''Summary'')]]]"

definition owner_hours_table :: "view \<Rightarrow> node list" where
  "owner_hours_table data =
    [El ''div'' [At ''class'' ''table-wrap'']
       [El ''table'' [At ''style'' ''min-width:760px'']
          [El ''thead'' []
             [El ''tr'' []
                [El ''th'' [] [Raw ''Day''],
                 El ''th'' [] [Raw ''First open''],
                 El ''th'' [] [Raw ''First close''],
                 El ''th'' [] [Raw ''Second open''],
                 El ''th'' [] [Raw ''Second close''],
                 El ''th'' [] [Raw ''Closed''],
                 El ''th'' [] [Raw ''Current'']]],
           El ''tbody'' [] (concat (map (\<lambda>day. (owner_day_row day)) (jL data ''Hours'')))]]]"

definition owner_hours_form :: "view \<Rightarrow> node list" where
  "owner_hours_form data =
    [El ''form'' [At ''method'' ''post'', At ''action'' ''/owner/hours'']
       ([El ''input'' [At ''type'' ''hidden'', At ''name'' ''csrf_token'', Av ''value'' (jS data ''CSRFToken'')] []]
        @ owner_hours_table data
        @ (if jB data ''CanManagePumps'' then
              [El ''div'' [At ''class'' ''action-strip'']
                 [El ''button'' [At ''class'' ''btn primary'', At ''type'' ''submit'']
                    (Icon ''check'' @ [Raw ''Save hours''])]]
           else
              [El ''p'' [At ''class'' ''muted'']
                 [Raw ''Only the owner, or a manager granted pump-management permission, can save opening hours.'']]))]"

definition owner_hours_section :: "view \<Rightarrow> node list" where
  "owner_hours_section data =
    [El ''div'' [At ''class'' ''section-spaced'']
       [El ''div'' []
          ([El ''div'' [At ''class'' ''section-title''] [El ''h2'' [] [Raw ''Opening hours'']]]
           @ owner_hours_form data)]]"

definition owner_pump_form :: "view \<Rightarrow> view \<Rightarrow> node list" where
  "owner_pump_form data pump =
    [El ''form'' [At ''method'' ''post'', At ''action'' ''/owner/pumps'', At ''class'' ''pump-row'']
       [El ''input'' [At ''type'' ''hidden'', At ''name'' ''csrf_token'', Av ''value'' (jS data ''CSRFToken'')] [],
        El ''input'' [At ''type'' ''hidden'', At ''name'' ''id'', Av ''value'' (jS pump ''ID'')] [],
        El ''div'' [At ''class'' ''field'']
          [El ''label'' [Av ''for'' (''pump-name-'' @ jS pump ''ID'')] [Raw ''Name''],
           El ''input'' [Av ''id'' (''pump-name-'' @ jS pump ''ID''), At ''type'' ''text'', At ''name'' ''name'',
               Av ''value'' (jS pump ''Name''), Aflag ''required''] []],
        El ''div'' [At ''class'' ''field'']
          [El ''label'' [Av ''for'' (''pump-order-'' @ jS pump ''ID'')] [Raw ''Order''],
           El ''input'' [Av ''id'' (''pump-order-'' @ jS pump ''ID''), At ''type'' ''number'', At ''name'' ''sort_order'',
               Av ''value'' (itoa (jI pump ''SortOrder'')), At ''min'' ''1''] []],
        El ''div'' [At ''class'' ''field'']
          ([El ''label'' [] [Raw ''Status'']]
           @ themedSelect ''status'' [(''working'', ''Working''), (''not_working'', ''Not working''),
                 (''maintenance'', ''Under maintenance'')] (jS pump ''StatusRaw'')),
        El ''div'' [At ''class'' ''field pump-queue'']
          [El ''label'' [] [Raw ''Queue''],
           El ''strong'' [] [Text (itoa (jI pump ''BusyCount'')), Raw '' unfilled'']],
        El ''div'' [At ''class'' ''pump-action'']
          (if jB data ''CanManagePumps'' then
              [El ''button'' [At ''class'' ''btn'', At ''type'' ''submit''] (Icon ''check'' @ [Raw ''Save''])]
           else [])]]"

definition owner_pumps_section :: "view \<Rightarrow> node list" where
  "owner_pumps_section data =
    [El ''div'' [At ''class'' ''section-spaced'']
       ([El ''div'' [At ''class'' ''section-title''] [El ''h2'' [] [Raw ''Pumps'']]]
        @ (if jL data ''Pumps'' = [] then
              (emptyState ''empty-state'' ''No pumps yet. Add the first pump below.'')
           else
              [El ''div'' [At ''class'' ''pump-list'']
                 ([El ''div'' [At ''class'' ''pump-row pump-head'', At ''aria-hidden'' ''true'']
                     [El ''span'' [] [Raw ''Name''],
                      El ''span'' [] [Raw ''Order''],
                      El ''span'' [] [Raw ''Status''],
                      El ''span'' [] [Raw ''Queue''],
                      El ''span'' [] []]]
                  @ concat (map (\<lambda>pump. (owner_pump_form data pump)) (jL data ''Pumps'')))])
        @ (if jB data ''CanManagePumps'' then
              [El ''form'' [At ''method'' ''post'', At ''action'' ''/owner/pumps'', At ''class'' ''pump-add'']
                 [El ''input'' [At ''type'' ''hidden'', At ''name'' ''csrf_token'', Av ''value'' (jS data ''CSRFToken'')] [],
                  El ''div'' [At ''class'' ''field'']
                    [El ''label'' [At ''for'' ''new-pump-name''] [Raw ''New pump name''],
                     El ''input'' [At ''id'' ''new-pump-name'', At ''type'' ''text'', At ''name'' ''name'',
                         At ''placeholder'' ''Pump 2'', Aflag ''required''] []],
                  El ''div'' [At ''class'' ''field'']
                    [El ''label'' [At ''for'' ''new-pump-order''] [Raw ''Order''],
                     El ''input'' [At ''id'' ''new-pump-order'', At ''type'' ''number'', At ''name'' ''sort_order'',
                         At ''placeholder'' ''2'', At ''min'' ''1''] []],
                  El ''input'' [At ''type'' ''hidden'', At ''name'' ''status'', At ''value'' ''working''] [],
                  El ''div'' [At ''class'' ''pump-action'']
                    [El ''button'' [At ''class'' ''btn primary'', At ''type'' ''submit'']
                       (Icon ''plus'' @ [Raw ''Add pump''])]]]
           else []))]"

definition owner_register_row :: "view \<Rightarrow> node list" where
  "owner_register_row row =
    [El ''tr'' []
       [El ''td'' [] [Text (jS row ''Staff'')],
        El ''td'' [At ''class'' ''mono''] [Text (jS row ''Device'')],
        El ''td'' [] [Text (jS row ''Pump'')],
        El ''td'' [] [Text (jS row ''Opened'')],
        El ''td'' [] [Text (jS row ''Closed'')],
        El ''td'' [At ''class'' ''num''] [Text (itoa (jI row ''Tickets''))],
        El ''td'' [At ''class'' ''num'']
          [Text (itoa (jI row ''TokensIssued'')), Raw '' / '', Text (jS row ''TokensReturned'')],
        El ''td'' [At ''class'' ''num''] [Text (jS row ''OpeningCash'')],
        El ''td'' [At ''class'' ''num''] [Text (jS row ''ClosingCash'')],
        El ''td'' []
          [El ''span'' [Aclass [(''badge '' @ jS row ''BadgeCSS'', True)]] [Text (jS row ''Status'')]],
        El ''td'' [] [Text (jS row ''Notes'')]]]"

definition owner_shift_register :: "view \<Rightarrow> node list" where
  "owner_shift_register data =
    [El ''div'' [At ''class'' ''table-wrap'']
       [El ''table'' [At ''style'' ''min-width:980px'']
          [El ''thead'' []
             [El ''tr'' []
                [El ''th'' [] [Raw ''Staff''],
                 El ''th'' [] [Raw ''Device''],
                 El ''th'' [] [Raw ''Pump''],
                 El ''th'' [] [Raw ''Opened''],
                 El ''th'' [] [Raw ''Closed''],
                 El ''th'' [At ''class'' ''num''] [Raw ''Tickets''],
                 El ''th'' [At ''class'' ''num''] [Raw ''Tokens''],
                 El ''th'' [At ''class'' ''num''] [Raw ''Opening''],
                 El ''th'' [At ''class'' ''num''] [Raw ''Closing''],
                 El ''th'' [] [Raw ''Status''],
                 El ''th'' [] [Raw ''Notes'']]],
           El ''tbody'' []
             ((if jL data ''Shifts'' = [] then
                  [El ''tr'' []
                     [El ''td'' [At ''colspan'' ''11'']
                        (emptyState ''empty-state''
                            ''No shifts yet. Once a cashier opens a shift, cash float, token count, sales, and closing cash will appear here.'')]]
               else [])
              @ concat (map (\<lambda>row. (owner_register_row row)) (jL data ''Shifts'')))]]]"

definition owner_operations_panel :: "view \<Rightarrow> node list" where
  "owner_operations_panel data =
    [El ''section'' [At ''class'' ''tab-panel'', At ''data-tab-panel'' ''operations'']
       (owner_cash_drawer data
        @ owner_hours_section data
        @ owner_pumps_section data
        @ [El ''div'' [At ''class'' ''section-title section-spaced''] [El ''h2'' [] [Raw ''Shift register'']]]
        @ owner_shift_register data)]"

definition owner_staff_permissions :: "view \<Rightarrow> view \<Rightarrow> node list" where
  "owner_staff_permissions data row =
    [El ''div'' [At ''class'' ''permission-control'']
       [El ''div'' [At ''class'' ''permission-chips'', At ''aria-label'' ''Current permissions'']
          ((if jB row ''CanEditPrice'' then
               [El ''span'' [At ''class'' ''permission-chip enabled''] (Icon ''check'' @ [Raw ''Price''])]
            else [El ''span'' [At ''class'' ''permission-chip''] [Raw ''Price'']])
           @ (if jB row ''CanManageStaff'' then
                 [El ''span'' [At ''class'' ''permission-chip enabled''] (Icon ''check'' @ [Raw ''Staff''])]
              else [El ''span'' [At ''class'' ''permission-chip''] [Raw ''Staff'']])
           @ (if jB row ''CanManagePumps'' then
                 [El ''span'' [At ''class'' ''permission-chip enabled''] (Icon ''check'' @ [Raw ''Pumps''])]
              else [El ''span'' [At ''class'' ''permission-chip''] [Raw ''Pumps'']])),
        El ''details'' [At ''class'' ''permission-menu'']
          [El ''summary'' [] [Raw ''Manage''],
           El ''form'' [At ''style'' ''display: flex; flex-direction: column; gap: 12px;'',
               At ''method'' ''post'', Asafe ''action'' (''/owner/staff/'' @ jS row ''ID'' @ ''/permissions''),
               At ''class'' ''permission-form'']
             [El ''input'' [At ''type'' ''hidden'', At ''name'' ''csrf_token'', Av ''value'' (jS data ''CSRFToken'')] [],
              El ''label'' [At ''class'' ''check-row'']
                ((if jB row ''CanEditPrice'' then
                     [El ''input'' [At ''type'' ''checkbox'', At ''name'' ''can_edit_price'', At ''value'' ''true'',
                          Aflag ''checked''] []]
                  else
                     [El ''input'' [At ''type'' ''checkbox'', At ''name'' ''can_edit_price'', At ''value'' ''true''] []])
                 @ [El ''span'' []
                      [El ''strong'' [] [Raw ''Edit gas price: ''],
                       El ''em'' [] [Raw ''Can update the live customer and terminal rate.'']]]),
              El ''label'' [At ''class'' ''check-row'']
                ((if jB row ''CanManageStaff'' then
                     [El ''input'' [At ''type'' ''checkbox'', At ''name'' ''can_manage_staff'', At ''value'' ''true'',
                          Aflag ''checked''] []]
                  else
                     [El ''input'' [At ''type'' ''checkbox'', At ''name'' ''can_manage_staff'', At ''value'' ''true''] []])
                 @ [El ''span'' []
                      [El ''strong'' [] [Raw ''Manage staff: ''],
                       El ''em'' [] [Raw ''Can create staff and deactivate terminal access.'']]]),
              El ''label'' [At ''class'' ''check-row'']
                ((if jB row ''CanManagePumps'' then
                     [El ''input'' [At ''type'' ''checkbox'', At ''name'' ''can_manage_pumps'', At ''value'' ''true'',
                          Aflag ''checked''] []]
                  else
                     [El ''input'' [At ''type'' ''checkbox'', At ''name'' ''can_manage_pumps'', At ''value'' ''true''] []])
                 @ [El ''span'' []
                      [El ''strong'' [] [Raw ''Manage pumps: ''],
                       El ''em'' [] [Raw ''Can rename pumps, change pump status, and update opening hours.'']]]),
              El ''button'' [At ''class'' ''btn compact primary'', At ''type'' ''submit'']
                [Raw ''Save permission'']]]]]"

definition owner_staff_chips :: "view \<Rightarrow> node list" where
  "owner_staff_chips row =
    [El ''div'' [At ''class'' ''permission-chips muted-permissions'']
       ((if jB row ''CanEditPrice'' then
            [El ''span'' [At ''class'' ''permission-chip enabled''] (Icon ''check'' @ [Raw ''Price''])]
         else [])
        @ (if jB row ''CanManageStaff'' then
              [El ''span'' [At ''class'' ''permission-chip enabled''] (Icon ''check'' @ [Raw ''Staff''])]
           else [])
        @ (if jB row ''CanManagePumps'' then
              [El ''span'' [At ''class'' ''permission-chip enabled''] (Icon ''check'' @ [Raw ''Pumps''])]
           else [])
        @ (if \<not> jB row ''CanEditPrice'' \<and> \<not> jB row ''CanManageStaff'' \<and> \<not> jB row ''CanManagePumps'' then
              [El ''span'' [At ''class'' ''permission-chip''] [Raw ''No extra access'']]
           else []))]"

definition owner_staff_actions :: "view \<Rightarrow> view \<Rightarrow> node list" where
  "owner_staff_actions data row =
    [El ''td'' [At ''class'' ''action-strip table-actions'']
       (if jB data ''CanManageStaff'' \<and> jB row ''CanToggleActive'' then
           (if jB row ''Active'' then
               [El ''form'' [At ''method'' ''post'',
                    Asafe ''action'' (''/owner/staff/'' @ jS row ''ID'' @ ''/status''),
                    Av ''data-confirm-title'' (''Deactivate '' @ jS row ''Name'' @ ''?''),
                    At ''data-confirm-desc'' (''They won'' @ apos @
                        ''t be able to log in or use the terminal until you reactivate them.''),
                    At ''data-confirm-label'' ''Deactivate'', At ''data-confirm-tone'' ''warning'']
                  [El ''input'' [At ''type'' ''hidden'', At ''name'' ''csrf_token'', Av ''value'' (jS data ''CSRFToken'')] [],
                   El ''input'' [At ''type'' ''hidden'', At ''name'' ''active'', At ''value'' ''false''] [],
                   El ''button'' [At ''class'' ''btn'', At ''type'' ''submit''] [Raw ''Deactivate'']]]
            else
               [El ''form'' [At ''method'' ''post'',
                    Asafe ''action'' (''/owner/staff/'' @ jS row ''ID'' @ ''/status''),
                    Av ''data-confirm-title'' (''Reactivate '' @ jS row ''Name'' @ ''?''),
                    At ''data-confirm-desc'' (''They'' @ apos @
                        ''ll be able to log in and use the terminal again right away.''),
                    At ''data-confirm-label'' ''Activate'', At ''data-confirm-tone'' ''ok'']
                  [El ''input'' [At ''type'' ''hidden'', At ''name'' ''csrf_token'', Av ''value'' (jS data ''CSRFToken'')] [],
                   El ''input'' [At ''type'' ''hidden'', At ''name'' ''active'', At ''value'' ''true''] [],
                   El ''button'' [At ''class'' ''btn'', At ''type'' ''submit''] [Raw ''Activate'']]])
        else [])]"

definition owner_access_row :: "view \<Rightarrow> view \<Rightarrow> node list" where
  "owner_access_row data row =
    [El ''tr'' []
       ([El ''td'' [] [El ''strong'' [] [Text (jS row ''Name'')]],
         El ''td'' [At ''class'' ''mono''] [Text (jS row ''Phone'')],
         El ''td'' [] [Text (jS row ''Role'')],
         El ''td'' []
           [El ''span'' [Aclass [(''badge '' @ jS row ''BadgeCSS'', True)]] [Text (jS row ''Status'')]],
         El ''td'' []
           (if jB data ''CanGrantManagerPermissions'' \<and> jB row ''IsManager'' then
               (owner_staff_permissions data row)
            else if jB row ''IsManager'' then (owner_staff_chips row)
            else [El ''span'' [At ''class'' ''permission-chip terminal-only''] [Raw ''Terminal only'']]),
         El ''td'' [At ''class'' ''num''] [Text (itoa (jI row ''SalesCount''))],
         El ''td'' [At ''class'' ''num''] [Text (itoa (jI row ''ShiftsCount''))],
         El ''td'' [] [Text (jS row ''Joined'')]]
        @ owner_staff_actions data row)]"

definition owner_staff_table :: "view \<Rightarrow> node list" where
  "owner_staff_table data =
    [El ''div'' [At ''class'' ''table-wrap'']
       [El ''table'' [At ''style'' ''min-width:920px'']
          [El ''thead'' []
             [El ''tr'' []
                [El ''th'' [] [Raw ''Name''],
                 El ''th'' [] [Raw ''Phone''],
                 El ''th'' [] [Raw ''Role''],
                 El ''th'' [] [Raw ''Status''],
                 El ''th'' [] [Raw ''Permissions''],
                 El ''th'' [At ''class'' ''num''] [Raw ''Sales''],
                 El ''th'' [At ''class'' ''num''] [Raw ''Shifts''],
                 El ''th'' [] [Raw ''Joined''],
                 El ''th'' [] []]],
           El ''tbody'' []
             ((if jL data ''Staff'' = [] then
                  [El ''tr'' []
                     [El ''td'' [At ''colspan'' ''9'']
                        (emptyState ''empty-state''
                            ''No staff yet. Managers, cashiers, and operators will appear here.'')]]
               else [])
              @ concat (map (\<lambda>row. (owner_access_row data row)) (jL data ''Staff'')))]]]"

definition owner_add_staff :: "view \<Rightarrow> node list" where
  "owner_add_staff data =
    [El ''div'' [At ''class'' ''section-spaced'']
       ([El ''div'' [At ''class'' ''section-title''] [El ''h2'' [] [Raw ''Add staff'']]]
        @ (if jB data ''CanManageStaff'' then
              [El ''form'' [At ''method'' ''post'', At ''action'' ''/owner/staff'', At ''class'' ''staff-add'']
                 [El ''input'' [At ''type'' ''hidden'', At ''name'' ''csrf_token'', Av ''value'' (jS data ''CSRFToken'')] [],
                  El ''div'' [At ''class'' ''field'']
                    [El ''label'' [At ''for'' ''new-staff-name''] [Raw ''Name''],
                     El ''input'' [At ''id'' ''new-staff-name'', At ''type'' ''text'', At ''name'' ''name'',
                         At ''placeholder'' ''Full name'', Aflag ''required''] []],
                  El ''div'' [At ''class'' ''field'']
                    [El ''label'' [At ''for'' ''new-staff-phone''] [Raw ''Phone''],
                     El ''input'' [At ''id'' ''new-staff-phone'', At ''type'' ''tel'', At ''name'' ''phone'',
                         At ''placeholder'' ''0803 000 0000'', Aflag ''required''] []],
                  El ''div'' [At ''class'' ''field'']
                    ([El ''label'' [] [Raw ''Role'']]
                     @ themedSelect ''role'' [(''cashier'', ''Cashier''), (''operator'', ''Operator''),
                           (''manager'', ''Manager'')] ''''),
                  El ''div'' [At ''class'' ''field'']
                    [El ''label'' [At ''for'' ''new-staff-pin''] [Raw ''PIN''],
                     El ''input'' [At ''id'' ''new-staff-pin'', At ''type'' ''text'', At ''name'' ''pin'',
                         At ''placeholder'' ''4-digit PIN'', At ''inputmode'' ''numeric'',
                         At ''pattern'' ''[0-9]{4}'', At ''maxlength'' ''4'', Aflag ''required''] []],
                  El ''div'' [At ''class'' ''staff-add-action'']
                    [El ''button'' [At ''class'' ''btn primary'', At ''type'' ''submit'']
                       (Icon ''plus'' @ [Raw ''Create staff''])]]]
           else
              [El ''p'' [At ''class'' ''muted'']
                 [Raw ''Only the owner, or a manager granted staff-management permission, can create staff.'']]))]"

definition owner_staff_panel :: "view \<Rightarrow> node list" where
  "owner_staff_panel data =
    [El ''section'' [At ''class'' ''tab-panel'', At ''data-tab-panel'' ''staff'']
       [El ''div'' []
          ([El ''div'' []
              ([El ''div'' [At ''class'' ''section-title''] [El ''h2'' [] [Raw ''Staff access'']]]
               @ owner_staff_table data)]
           @ owner_add_staff data)]]"

definition owner_settings_price :: "view \<Rightarrow> node list" where
  "owner_settings_price data =
    [El ''section'' [At ''class'' ''settings-section'']
       [El ''div'' [At ''class'' ''settings-intro'']
          ([El ''h2'' [] [Raw ''Gas price''],
            El ''p'' []
              [Raw ''The rate customers pay online and the terminal charges. A new rate applies to new tickets immediately.''],
            El ''div'' [At ''class'' ''settings-rate-now'']
              [El ''div'' [At ''class'' ''kpi-label''] [Raw ''Current rate''],
               El ''div'' [At ''class'' ''settings-rate-value''] [Text (jS data ''CurrentPrice'')]]]
           @ (if jB data ''CanEditPrice'' then
                 [El ''form'' [At ''method'' ''post'', At ''action'' ''/owner/prices'',
                      At ''class'' ''settings-rate-stack'']
                    [El ''input'' [At ''type'' ''hidden'', At ''name'' ''csrf_token'', Av ''value'' (jS data ''CSRFToken'')] [],
                     El ''div'' [At ''class'' ''field'']
                       [El ''label'' [At ''for'' ''new-price'']
                          [Raw (''New price per kg ('' @ naira_sign @ '')'')],
                        El ''input'' [At ''id'' ''new-price'', At ''type'' ''text'', At ''name'' ''price_per_kg'',
                            At ''placeholder'' ''1150'', At ''inputmode'' ''decimal'', Aflag ''required''] []],
                     El ''button'' [At ''class'' ''btn primary'', At ''type'' ''submit'']
                       (Icon ''check'' @ [Raw ''Save price''])]]
              else
                 [El ''p'' [At ''class'' ''muted settings-rate-note'']
                    [Raw ''Only the owner, or a manager granted price-editing permission, can set the gas price.'']])),
        El ''div'' [At ''class'' ''settings-body'']
          [El ''div'' [At ''class'' ''settings-subhead settings-subhead-first''] [Raw ''Price history''],
           El ''div'' [At ''class'' ''table-wrap'']
             [El ''table'' [At ''style'' ''min-width:520px'']
                [El ''thead'' []
                   [El ''tr'' []
                      [El ''th'' [] [Raw ''Effective from''],
                       El ''th'' [At ''class'' ''num''] [Raw ''Price''],
                       El ''th'' [] [Raw ''Set by''],
                       El ''th'' [] [Raw ''Created'']]],
                 El ''tbody'' []
                   ((if jL data ''PriceHistory'' = [] then
                        [El ''tr'' []
                           [El ''td'' [At ''colspan'' ''4'']
                              (emptyState ''empty-state''
                                  ''No price history yet. Every price change is kept here instead of overwritten.'')]]
                     else [])
                    @ concat (map (\<lambda>row.
                          [El ''tr'' []
                             [El ''td'' [] [Text (jS row ''EffectiveFrom'')],
                              El ''td'' [At ''class'' ''num''] [Text (jS row ''Price'')],
                              El ''td'' [] [Text (jS row ''SetBy'')],
                              El ''td'' [] [Text (jS row ''CreatedAt'')]]]) (jL data ''PriceHistory'')))]]]]]"

definition owner_brand_form :: "view \<Rightarrow> node list" where
  "owner_brand_form data =
    [El ''form'' [At ''method'' ''post'', At ''action'' ''/owner/settings'',
         At ''enctype'' ''multipart/form-data'', At ''data-splash'' ''Saving settings'']
       [El ''input'' [At ''type'' ''hidden'', At ''name'' ''csrf_token'', Av ''value'' (jS data ''CSRFToken'')] [],
        El ''section'' [At ''class'' ''settings-section'']
          [El ''div'' [At ''class'' ''settings-intro'']
             [El ''h2'' [] [Raw ''Plant details''],
              El ''p'' [] [Raw ''Shown to customers on your buy-gas page and receipts.'']],
           El ''div'' [At ''class'' ''settings-body'']
             [El ''div'' [At ''class'' ''form-grid'']
                [El ''div'' [At ''class'' ''field'']
                   [El ''label'' [At ''for'' ''set-name''] [Raw ''Plant name''],
                    El ''input'' [At ''id'' ''set-name'', At ''type'' ''text'', At ''name'' ''name'',
                        Av ''value'' (jS data ''PlantNameValue''), At ''placeholder'' ''Your LPG plant'',
                        Aflag ''required''] []],
                 El ''div'' [At ''class'' ''field'']
                   [El ''label'' [At ''for'' ''set-city''] [Raw ''City''],
                    El ''input'' [At ''id'' ''set-city'', At ''type'' ''text'', At ''name'' ''city'',
                        Av ''value'' (jS data ''PlantCityValue''), At ''placeholder'' ''Plant city''] []],
                 El ''div'' [At ''class'' ''field'']
                   [El ''label'' [At ''for'' ''set-phone''] [Raw ''Phone''],
                    El ''input'' [At ''id'' ''set-phone'', At ''type'' ''tel'', At ''name'' ''phone'',
                        Av ''value'' (jS data ''PlantPhoneValue''), At ''placeholder'' ''0803 000 0000''] []],
                 El ''div'' [At ''class'' ''field'']
                   [El ''label'' [At ''for'' ''set-address''] [Raw ''Address''],
                    El ''input'' [At ''id'' ''set-address'', At ''type'' ''text'', At ''name'' ''address'',
                        Av ''value'' (jS data ''PlantAddressValue''), At ''placeholder'' ''Plant address''] []]]]],
        El ''section'' [At ''class'' ''settings-section'']
          [El ''div'' [At ''class'' ''settings-intro'']
             [El ''h2'' [] [Raw ''Brand kit''],
              El ''p'' [] [Raw ''Your colors and logo on the customer site and staff terminal.'']],
           El ''div'' [At ''class'' ''settings-body'']
             [El ''div'' [At ''class'' ''form-grid'']
                (brandColorField ''Primary color'' ''primary_color'' (jS data ''PlantPrimaryColorValue'')
                     ''#006B4D''
                 @ brandColorField ''Button color'' ''button_color'' (jS data ''PlantButtonColorValue'')
                       ''#006B4D''
                 @ brandColorField ''Secondary color'' ''secondary_color'' (jS data
                       ''PlantSecondaryColorValue'') ''#10B981''
                 @ brandColorField ''Button text color'' ''button_text_color'' (jS data
                       ''PlantButtonTextColorValue'') ''#F8FAFC''
                 @ [El ''div'' [At ''class'' ''field'', At ''style'' ''grid-column: 1 / -1;'']
                      [El ''label'' [] [Raw ''Logo''],
                       El ''div'' [At ''class'' ''settings-logo'']
                         ((if jS data ''PlantLogoPath'' \<noteq> '''' then
                              [El ''img'' [At ''class'' ''brand-logo-preview'', Av ''src'' (jS data ''PlantLogoPath''),
                                   At ''alt'' ''Plant logo''] []]
                           else [])
                          @ [El ''div'' [At ''class'' ''file-field'', Aflag ''data-file-input'']
                               [El ''input'' [At ''type'' ''file'', At ''id'' ''owner-logo-input'', At ''name'' ''logo'',
                                    At ''accept'' ''image/png,image/jpeg,image/webp'',
                                    At ''class'' ''file-native''] [],
                                El ''label'' [At ''class'' ''btn file-trigger'',
                                    At ''for'' ''owner-logo-input'']
                                  [Raw ''Choose file''],
                                El ''span'' [At ''class'' ''file-name'', Aflag ''data-file-name'']
                                  (if jS data ''PlantLogoPath'' \<noteq> '''' then [Raw ''Current logo saved'']
                                   else [Raw ''No file chosen''])]])]]),
              El ''div'' [At ''class'' ''settings-save'']
                [El ''span'' [At ''class'' ''muted''] [Raw ''Saves plant details and brand kit together.''],
                 El ''button'' [At ''class'' ''btn primary'', At ''type'' ''submit'']
                   (Icon ''check'' @ [Raw ''Save changes''])]]]]]"

definition owner_settings_account :: "view \<Rightarrow> node list" where
  "owner_settings_account data =
    [El ''section'' [At ''class'' ''settings-section'']
       [El ''div'' [At ''class'' ''settings-intro'']
          [El ''h2'' [] [Raw ''Business records''],
           El ''p'' [] [Raw ''Your registered business and payout account. Contact GatsToGo to change these.'']],
        El ''div'' [At ''class'' ''settings-body'']
          [El ''dl'' [At ''class'' ''settings-records'']
             [El ''div'' []
                [El ''dt'' [] [Raw ''Legal business name''],
                 El ''dd'' [] [Text (jS data ''PlantLegalBusinessName'')]],
              El ''div'' [] [El ''dt'' [] [Raw ''State''], El ''dd'' [] [Text (jS data ''PlantState'')]],
              El ''div'' []
                [El ''dt'' [] [Raw ''CAC number''],
                 El ''dd'' [At ''class'' ''mono''] [Text (jS data ''PlantCACNumber'')]],
              El ''div'' []
                [El ''dt'' [] [Raw ''NMDPRA license''],
                 El ''dd'' [At ''class'' ''mono''] [Text (jS data ''PlantNMDPRALicense'')]],
              El ''div'' []
                [El ''dt'' [] [Raw ''Settlement account''],
                 El ''dd'' [At ''class'' ''mono''] [Text (jS data ''PlantBankAccount'')]],
              El ''div'' []
                [El ''dt'' [] [Raw ''Account name''], El ''dd'' [] [Text (jS data ''PlantBankAccountName'')]]]]]]"

definition owner_settings_panel :: "view \<Rightarrow> node list" where
  "owner_settings_panel data =
    [El ''section'' [At ''class'' ''tab-panel'', At ''data-tab-panel'' ''settings'']
       [El ''div'' [At ''class'' ''settings'']
          (owner_settings_price data
           @ owner_brand_form data
           @ owner_settings_account data
           @ [El ''section'' [At ''class'' ''settings-section'']
                [El ''div'' [At ''class'' ''settings-intro'']
                   [El ''h2'' [] [Raw ''Security''], El ''p'' [] [Raw ''Keep your dashboard sign-in safe.'']],
                 El ''div'' [At ''class'' ''settings-body'']
                   [El ''div'' [At ''class'' ''settings-link-row'']
                      [El ''div'' []
                         [El ''strong'' [] [Raw ''Password''],
                          El ''span'' [At ''class'' ''muted''] [Raw ''Change the password you use to sign in.'']],
                       El ''a'' [At ''class'' ''btn'', At ''href'' ''/owner/password'']
                         ([Raw ''Change password''] @ Icon ''arrow-right'')]]]])]]"

definition ownerDashboardContent :: "view \<Rightarrow> node list" where
  "ownerDashboardContent data =
    (owner_topline data
     @ (if jS data ''ErrorMessage'' \<noteq> '''' then
           [El ''div'' [At ''class'' ''owner-error'']
              (Icon ''warning-circle'' @ [Text (jS data ''ErrorMessage'')])]
        else [])
     @ owner_overview_panel data
     @ owner_sales_panel data
     @ owner_reviews_panel data
     @ owner_operations_panel data
     @ owner_staff_panel data
     @ owner_settings_panel data)"

definition OwnerDashboard :: "site \<Rightarrow> view \<Rightarrow> node list" where
  "OwnerDashboard si data =
    (opsShell si (jS data ''PlantName'' @ '' owner dashboard'') ''Owner'' ownerNav (ownerDashboardContent data)
        ''/owner/logout'' (jS data ''CSRFToken'') ''Overview'' (jS data ''PlantName''))"

end
