(* ===== verification/AdminPages.thy ===== *)
theory AdminPages
  imports PageParts
begin

text \<open>
  The pages of the platform's administrator: login, the console with applications and plants, and
  the page of one plant.
\<close>

section \<open>\<^verbatim>\<open>admin_login_templ.go\<close>\<close>

definition AdminLogin :: "site \<Rightarrow> string \<Rightarrow> string \<Rightarrow> node list" where
  "AdminLogin si errorMsg csrfToken =
    authShell si ''GatsToGo admin sign in'' ''Admin sign in'' errorMsg ''/admin/login'' csrfToken"

section \<open>\<^verbatim>\<open>owner_admin_templ.go\<close>\<close>

definition adminNav :: "node list" where
  "adminNav =
    [El ''nav'' [At ''class'' ''rail-nav'', At ''aria-label'' ''Admin sections'']
       (navButton True ''overview'' ''squares-four'' ''Overview''
        @ navButton False ''applications'' ''list-checks'' ''Applications''
        @ navButton False ''plants'' ''factory'' ''Plants''
        @ navButton False ''activity'' ''clock-counter-clockwise'' ''Admin activity'')]"

definition console_topline :: "view \<Rightarrow> node list" where
  "console_topline data =
    [El ''div'' [At ''class'' ''topline'']
       [El ''div'' []
          [El ''div'' [At ''class'' ''eyebrow''] [Raw ''Platform admin console''],
           El ''h1'' [] [Raw ''Applications and plants''],
           El ''div'' [At ''class'' ''meta-row'']
             [El ''span'' [At ''class'' ''meta-ok''] [Text (itoa (jI data ''ActiveCount'')), Raw '' active''],
              El ''span'' [At ''class'' ''sep''] [],
              El ''span'' [At ''class'' ''meta-warn'']
                [Text (itoa (jI data ''OnboardingCount'')), Raw '' under review''],
              El ''span'' [At ''class'' ''sep''] [],
              El ''span'' [At ''class'' ''meta-danger'']
                [Text (itoa (jI data ''SuspendedCount'')), Raw '' suspended''],
              El ''span'' [At ''class'' ''sep''] [],
              El ''span'' [] [Text (itoa (jI data ''ClosedCount'')), Raw '' closed'']]],
        El ''div'' [At ''class'' ''toolbar'']
          [El ''button'' [At ''class'' ''btn primary'', At ''type'' ''button'',
               At ''data-tab'' ''applications'']
             (Icon ''list-checks'' @ [Raw ''Review applications''])]]]"

definition console_overview_kpis :: "view \<Rightarrow> node list" where
  "console_overview_kpis data =
    [El ''div'' [At ''class'' ''kpi-row kpi-band'']
       [El ''div'' [At ''class'' ''kpi-item'']
          (kpiLabel ''factory'' ''Plants''
           @ [El ''div'' [At ''class'' ''kpi''] [Text (itoa (jI data ''PlantCount''))],
              El ''div'' [At ''class'' ''kpi-small''] [Raw ''All plants on GatsToGo'']]),
        El ''div'' [At ''class'' ''kpi-item'']
          (kpiLabel ''list-checks'' ''Applications''
           @ [El ''div'' [At ''class'' ''kpi''] [Text (itoa (jI data ''OnboardingCount''))],
              El ''div'' [At ''class'' ''kpi-small''] [Raw ''Waiting for verification'']]),
        El ''div'' [At ''class'' ''kpi-item'']
          (kpiLabel ''receipt'' ''Transactions 7d''
           @ [El ''div'' [At ''class'' ''kpi''] [Text (formatThousands (jI data ''TotalTickets7d''))],
              El ''div'' [At ''class'' ''kpi-small''] [Raw ''Across active plants'']]),
        El ''div'' [At ''class'' ''kpi-item'']
          (kpiLabel ''gas-pump'' ''Volume 30d''
           @ [El ''div'' [At ''class'' ''kpi''] [Text (jS data ''TotalVolume30d'')],
              El ''div'' [At ''class'' ''kpi-small''] [Raw ''Paid ticket weight'']])]]"

definition console_overview_grid :: "view \<Rightarrow> node list" where
  "console_overview_grid data =
    [El ''div'' [At ''class'' ''dashboard-grid overview-grid'']
       [El ''div'' []
          ([El ''div'' [At ''class'' ''section-title''] [El ''h2'' [] [Raw ''New applications'']]]
           @ (if jL data ''Applications'' = [] then
                 (emptyState ''plants'' ''No plant applications are waiting for review.'')
              else
                 ([El ''div'' [At ''class'' ''timeline activity-grid'']
                     (concat (map (\<lambda>(i, row).
                         (if i < 6 then
                             [El ''div'' [At ''class'' ''timeline-item application-item'']
                                [El ''strong'' []
                                   [El ''a'' [At ''class'' ''plant-name-link'',
                                        Asafe ''href'' (''/admin/plants/'' @ jS row ''ID'')]
                                      [Text (jS row ''Name'')]],
                                 El ''span'' [At ''class'' ''muted'']
                                   [Text (jS row ''OwnerName''),
                                    Raw ('' '' @ dot_sep @ '' ''),
                                    El ''span'' [At ''class'' ''mono''] [Text (jS row ''OwnerPhone'')]],
                                 El ''span'' [At ''class'' ''muted'']
                                   [Raw ''Submitted '', Text (jS row ''CreatedAt'')],
                                 El ''div'' [At ''class'' ''application-actions'']
                                   ([El ''a'' [At ''class'' ''btn'',
                                         Asafe ''href'' (''/admin/plants/'' @ jS row ''ID'')]
                                       [Raw ''Review'']]
                                    @ plantStatusForm (jS row ''ID'') ''active'' ''Activate'' (jS data
                                          ''CSRFToken'') \<lparr>sc_Title
                                          = ''Activate '' @ jS row
                                          ''Name'' @ ''?'', sc_Desc =
                                          ''Its customer page, staff terminal, and owner login all go live immediately.'',
                                          sc_Tone = ''ok''\<rparr>)]]
                          else [])) (enumerate 0 (jL data ''Applications''))))]
                  @ (if 6 < length (jL data ''Applications'') then
                        [El ''button'' [At ''class'' ''see-all-link'', At ''type'' ''button'',
                             At ''data-tab'' ''applications'']
                           ([Raw ''See all '',
                             Text (itoa (int (length (jL data ''Applications'')))),
                             Raw '' applications'']
                            @ Icon ''arrow-right'')]
                     else [])))),
        El ''div'' [At ''class'' ''dash-aside'']
          [El ''div'' [At ''class'' ''section-title''] [El ''h2'' [] [Raw ''Review checklist'']],
           El ''div'' [At ''class'' ''split-list split-list-steps'']
             [El ''div'' [At ''class'' ''info-row'']
                [El ''span'' [] [Raw ''1''],
                 El ''strong'' [] [Raw ''Confirm CAC, NMDPRA, address, and phone details.'']],
              El ''div'' [At ''class'' ''info-row'']
                [El ''span'' [] [Raw ''2''],
                 El ''strong'' [] [Raw ''Confirm settlement account belongs to the plant.'']],
              El ''div'' [At ''class'' ''info-row'']
                [El ''span'' [] [Raw ''3''],
                 El ''strong'' [] [Raw ''Check the owner contact and opening price.'']],
              El ''div'' [At ''class'' ''info-row'']
                [El ''span'' [] [Raw ''4''],
                 El ''strong'' [] [Raw ''Activate only when the plant is ready to sell.'']]],
           El ''p'' [At ''class'' ''muted'', At ''style'' ''margin-top: 12px;'']
             [Raw ''Until activation, their customer page says the plant is under review.'']]]]"

definition console_overview_panel :: "view \<Rightarrow> node list" where
  "console_overview_panel data =
    [El ''section'' [At ''class'' ''tab-panel active'', At ''data-tab-panel'' ''overview'']
       (console_overview_kpis data @ console_overview_grid data)]"

definition console_application_cell :: "view \<Rightarrow> node list" where
  "console_application_cell row =
    [El ''div'' [At ''class'' ''app-cell'']
       [El ''span'' [At ''class'' ''app-label''] [Raw ''Plant''],
        El ''strong'' []
          [El ''a'' [At ''class'' ''plant-name-link'', Asafe ''href'' (''/admin/plants/'' @ jS row ''ID'')]
             [Text (jS row ''Name'')]],
        El ''span'' [At ''class'' ''muted mono''] [Text (jS row ''Slug'')],
        El ''span'' [At ''class'' ''muted''] [Raw ''Submitted '', Text (jS row ''CreatedAt'')]]]"

definition console_application_row :: "view \<Rightarrow> view \<Rightarrow> node list" where
  "console_application_row data row =
    [El ''div'' [At ''class'' ''app-row'']
       (console_application_cell row
        @ [El ''div'' [At ''class'' ''app-cell'']
             [El ''span'' [At ''class'' ''app-label''] [Raw ''Owner''],
              El ''strong'' [] [Text (jS row ''OwnerName'')],
              El ''span'' [At ''class'' ''muted mono''] [Text (jS row ''OwnerPhone'')],
              El ''span'' [At ''class'' ''muted app-wrap''] [Text (jS row ''OwnerEmail'')]],
           El ''div'' [At ''class'' ''app-cell'']
             [El ''span'' [At ''class'' ''app-label''] [Raw ''Business''],
              El ''strong'' [] [Text (jS row ''LegalName'')],
              El ''span'' [At ''class'' ''muted''] (verifyValue (jS row ''CACNumber'') verifyCACURL ''Verify''),
              El ''span'' [At ''class'' ''muted'']
                (verifyValue (jS row ''NMDPRALicense'') verifyNMDPRAURL ''Verify'')],
           El ''div'' [At ''class'' ''app-cell'']
             [El ''span'' [At ''class'' ''app-label''] [Raw ''Location''],
              El ''strong'' [] [Text (jS row ''City'')],
              El ''span'' [At ''class'' ''muted''] [Text (jS row ''Address'')],
              El ''span'' [At ''class'' ''muted mono''] [Text (jS row ''Phone'')]],
           El ''div'' [At ''class'' ''app-actions'']
             ([El ''a'' [At ''class'' ''btn'', Asafe ''href'' (''/admin/plants/'' @ jS row ''ID'')]
                 [Raw ''Review'']]
              @ plantStatusForm (jS row ''ID'') ''active'' ''Activate'' (jS data ''CSRFToken'')
                    \<lparr>sc_Title = ''Activate '' @ jS row ''Name'' @ ''?'', sc_Desc =
                    ''Its customer page, staff terminal, and owner login all go live immediately.'',
                    sc_Tone = ''ok''\<rparr>)])]"

definition console_applications_panel :: "view \<Rightarrow> node list" where
  "console_applications_panel data =
    [El ''section'' [At ''class'' ''tab-panel'', At ''data-tab-panel'' ''applications'']
       ([El ''div'' [At ''class'' ''section-title''] [El ''h2'' [] [Raw ''Applications under review'']]]
        @ (if jL data ''Applications'' = [] then
              [El ''div'' [At ''class'' ''app-list'']
                 (emptyState ''plants''
                     ''No pending applications. New /get-started submissions will appear here with status under review.'')]
           else
              [El ''div'' [At ''class'' ''app-list'']
                 ([El ''div'' [At ''class'' ''app-row app-head'', At ''aria-hidden'' ''true'']
                     [El ''span'' [] [Raw ''Plant''],
                      El ''span'' [] [Raw ''Owner''],
                      El ''span'' [] [Raw ''Business''],
                      El ''span'' [] [Raw ''Location''],
                      El ''span'' [] []]]
                  @ concat (map (\<lambda>row. (console_application_row data row)) (jL data ''Applications'')))]))]"

definition console_plant_cell :: "view \<Rightarrow> node list" where
  "console_plant_cell row =
    [El ''div'' [At ''class'' ''app-cell'']
       [El ''span'' [At ''class'' ''app-label''] [Raw ''Plant''],
        El ''strong'' []
          [El ''a'' [At ''class'' ''plant-name-link'', Asafe ''href'' (''/admin/plants/'' @ jS row ''ID'')]
             [Text (jS row ''Name'')]],
        El ''span'' [At ''class'' ''muted mono app-wrap'', Av ''title'' (jS row ''Slug'')]
          [Text (jS row ''Slug'')],
        El ''span'' []
          [El ''span'' [Aclass [(''badge '' @ jS row ''BadgeCSS'', True)]] [Text (jS row ''Status'')]]]]"

definition console_domain_cell :: "view \<Rightarrow> node list" where
  "console_domain_cell row =
    [El ''div'' [At ''class'' ''app-cell'']
       [El ''span'' [At ''class'' ''app-label''] [Raw ''Domain''],
        El ''strong'' [At ''class'' ''app-wrap''] [Text (jS row ''Domain'')],
        El ''span'' []
          [El ''span'' [Aclass [(''badge '' @ jS row ''DomainBadge'', True)]] [Text (jS row ''DomainStatus'')]]]]"

definition console_health_cell :: "view \<Rightarrow> node list" where
  "console_health_cell row =
    [El ''div'' [At ''class'' ''app-cell'']
       [El ''span'' [At ''class'' ''app-label''] [Raw ''Sales health''],
        El ''strong'' [At ''class'' ''mono'']
          [Text (formatThousands (jI row ''Txns7d'')),
           Raw ('' txns '' @ dot_sep @ '' ''),
           Text (jS row ''Volume30d'')],
        El ''span'' [At ''class'' ''muted''] [Raw (''Last txn '' @ dot_sep @ '' ''), Text (jS row ''LastTxn'')],
        El ''span'' [At ''class'' ''muted'']
          [Raw ''Staff '',
           Text (itoa (jI row ''StaffCount'')),
           Raw ('' '' @ dot_sep @ '' Open shifts ''),
           Text (itoa (jI row ''OpenShifts'')),
           Raw ('' '' @ dot_sep @ '' Prices ''),
           Text (itoa (jI row ''PriceCount''))]]]"

definition console_plant_actions :: "view \<Rightarrow> view \<Rightarrow> node list" where
  "console_plant_actions data row =
    [El ''div'' [At ''class'' ''app-actions'']
       ([El ''a'' [At ''class'' ''btn'', Asafe ''href'' (''/admin/plants/'' @ jS row ''ID'')] [Raw ''View'']]
        @ (if jS row ''RawStatus'' = ''active'' then
              (plantStatusForm (jS row ''ID'') ''suspended'' ''Suspend'' (jS data ''CSRFToken'')
                  \<lparr>sc_Title = ''Suspend '' @ jS row ''Name'' @ ''?'', sc_Desc =
                  ''Its customer page, staff terminal, and owner login all go offline immediately. You can reactivate it any time.'',
                  sc_Tone = ''warning''\<rparr>)
           else if jS row ''RawStatus'' = ''suspended'' then
              (plantStatusForm (jS row ''ID'') ''active'' ''Reactivate'' (jS data ''CSRFToken'')
                   \<lparr>sc_Title = ''Reactivate '' @ jS row ''Name'' @ ''?'', sc_Desc =
                   ''Its customer page, staff terminal, and owner login all come back online immediately.'',
                   sc_Tone = ''ok''\<rparr>
               @ plantStatusForm (jS row ''ID'') ''closed'' ''Close'' (jS data ''CSRFToken'') \<lparr>sc_Title
                     = ''Close '' @ jS row ''Name'' @ ''?'', sc_Desc =
                     (''Like suspending, this takes everything offline immediately. Unlike suspending, there''
                     @ apos @ ''s no reactivate button for a closed plant in this console.''),
                     sc_Tone = ''danger''\<rparr>)
           else if jS row ''RawStatus'' = ''provisioning'' then
              (plantStatusForm (jS row ''ID'') ''active'' ''Activate'' (jS data ''CSRFToken'') \<lparr>sc_Title
                  = ''Activate '' @ jS row ''Name'' @ ''?'', sc_Desc =
                  ''Its customer page, staff terminal, and owner login all go live immediately.'',
                  sc_Tone = ''ok''\<rparr>)
           else []))]"

definition console_plant_row :: "view \<Rightarrow> view \<Rightarrow> node list" where
  "console_plant_row data row =
    [El ''div'' [At ''class'' ''app-row'']
       (console_plant_cell row
        @ [El ''div'' [At ''class'' ''app-cell'']
             [El ''span'' [At ''class'' ''app-label''] [Raw ''Location''],
              El ''strong'' [] [Text (jS row ''City'')],
              El ''span'' [At ''class'' ''muted''] [Text (jS row ''Address'')],
              El ''span'' [At ''class'' ''muted mono''] [Text (jS row ''Phone'')]]]
        @ console_domain_cell row
        @ console_health_cell row
        @ console_plant_actions data row)]"

definition console_plants_panel :: "view \<Rightarrow> node list" where
  "console_plants_panel data =
    [El ''section'' [At ''class'' ''tab-panel'', At ''data-tab-panel'' ''plants'']
       ([El ''div'' [At ''class'' ''section-title''] [El ''h2'' [] [Raw ''Plants'']]]
        @ (if jL data ''Plants'' = [] then
              [El ''div'' [At ''class'' ''app-list'']
                 (emptyState ''plants''
                     ''No plants yet. Plant records with domain, staff, price, shift, and transaction health will appear here.'')]
           else
              [El ''div'' [At ''class'' ''app-list plant-list'']
                 ([El ''div'' [At ''class'' ''app-row app-head'', At ''aria-hidden'' ''true'']
                     [El ''span'' [] [Raw ''Plant''],
                      El ''span'' [] [Raw ''Location''],
                      El ''span'' [] [Raw ''Domain''],
                      El ''span'' [] [Raw ''Sales health''],
                      El ''span'' [] []]]
                  @ concat (map (\<lambda>row. (console_plant_row data row)) (jL data ''Plants'')))]))]"

definition console_activity_panel :: "view \<Rightarrow> node list" where
  "console_activity_panel data =
    [El ''section'' [At ''class'' ''tab-panel'', At ''data-tab-panel'' ''activity'']
       [El ''div'' [At ''class'' ''section-title''] [El ''h2'' [] [Raw ''Admin activity'']],
        El ''div'' [At ''class'' ''app-list'']
          (if jL data ''RecentActivity'' = [] then
              (emptyState ''activity''
                  ''No admin actions yet. Plant approvals, suspensions, and closures will appear here.'')
           else
              ([El ''div'' [At ''class'' ''app-row activity-row app-head'', At ''aria-hidden'' ''true'']
                  [El ''span'' [] [Raw ''Action''],
                   El ''span'' [] [Raw ''Plant''],
                   El ''span'' [] [Raw ''By''],
                   El ''span'' [] [Raw ''When'']]]
               @ concat (map (\<lambda>item.
                     [El ''div'' [At ''class'' ''app-row activity-row'']
                        [El ''div'' [At ''class'' ''app-cell'']
                           [El ''strong'' [Aclass [(''activity-action'', True), (jS item ''Tone'', True)]]
                              [Text (jS item ''Action'')]],
                         El ''div'' [At ''class'' ''app-cell'']
                           [El ''span'' [At ''class'' ''app-label''] [Raw ''Plant''],
                            El ''span'' [] [Text (fallbackText (jS item ''What'') em_dash)]],
                         El ''div'' [At ''class'' ''app-cell'']
                           [El ''span'' [At ''class'' ''app-label''] [Raw ''By''],
                            El ''span'' [At ''class'' ''muted''] [Text (jS item ''Who'')]],
                         El ''div'' [At ''class'' ''app-cell activity-when'']
                           [El ''span'' [At ''class'' ''mono muted''] [Text (jS item ''When'')]]]]) (jL data ''RecentActivity''))))]]"

definition adminConsoleContent :: "view \<Rightarrow> node list" where
  "adminConsoleContent data =
    (console_topline data
     @ (if jS data ''ErrorMessage'' \<noteq> '''' then
           [El ''div'' [At ''class'' ''owner-error'']
              (Icon ''warning-circle'' @ [Text (jS data ''ErrorMessage'')])]
        else [])
     @ console_overview_panel data
     @ console_applications_panel data
     @ console_plants_panel data
     @ console_activity_panel data)"

definition AdminConsole :: "site \<Rightarrow> view \<Rightarrow> node list" where
  "AdminConsole si data =
    opsShell si ''GatsToGo admin console'' ''Admin'' adminNav (adminConsoleContent data) ''/admin/logout'' (jS
        data ''CSRFToken'') ''Overview'' ''Platform admin''"

section \<open>\<^verbatim>\<open>admin_plant_detail_templ.go\<close>\<close>

definition detail_topline :: "view \<Rightarrow> node list" where
  "detail_topline data =
    [El ''div'' [At ''class'' ''topline'']
       [El ''div'' []
          [El ''a'' [At ''class'' ''back-link'', At ''href'' ''/admin#plants'']
             [Raw (left_arrow @ '' All plants'')],
           El ''div'' [At ''class'' ''eyebrow''] [Raw ''Platform admin console''],
           El ''h1'' [] [Text (jS data ''Name'')],
           El ''div'' [At ''class'' ''meta-row'']
             ([El ''span'' [Aclass [(''badge '' @ jS data ''BadgeCSS'', True)]] [Text (jS data ''Status'')],
               El ''span'' [At ''class'' ''sep''] [],
               El ''span'' [At ''class'' ''mono''] [Text (jS data ''Slug'')],
               El ''span'' [At ''class'' ''sep''] [],
               El ''span'' [] [Raw ''Created '', Text (jS data ''CreatedAt'')]]
              @ (if foundingBadgeLabel (jI data ''FoundingRank'') \<noteq> '''' then
                    [El ''span'' [At ''class'' ''sep''] [],
                     El ''span'' [At ''class'' ''founding-badge'']
                       [Text (foundingBadgeLabel (jI data ''FoundingRank''))]]
                 else []))],
        El ''div'' [At ''class'' ''toolbar action-strip'']
          (if jS data ''RawStatus'' = ''active'' then
              (plantStatusForm (jS data ''ID'') ''suspended'' ''Suspend'' (jS data ''CSRFToken'')
                  \<lparr>sc_Title = ''Suspend '' @ jS data ''Name'' @ ''?'', sc_Desc =
                  ''Its customer page, staff terminal, and owner login all go offline immediately. You can reactivate it any time.'',
                  sc_Tone = ''warning''\<rparr>)
           else if jS data ''RawStatus'' = ''suspended'' then
              (plantStatusForm (jS data ''ID'') ''active'' ''Reactivate'' (jS data ''CSRFToken'')
                   \<lparr>sc_Title = ''Reactivate '' @ jS data ''Name'' @ ''?'', sc_Desc =
                   ''Its customer page, staff terminal, and owner login all come back online immediately.'',
                   sc_Tone = ''ok''\<rparr>
               @ plantStatusForm (jS data ''ID'') ''closed'' ''Close'' (jS data ''CSRFToken'') \<lparr>sc_Title
                     = ''Close '' @ jS data ''Name'' @ ''?'', sc_Desc =
                     (''Like suspending, this takes everything offline immediately. Unlike suspending, there''
                     @ apos @ ''s no reactivate button for a closed plant in this console.''),
                     sc_Tone = ''danger''\<rparr>)
           else if jS data ''RawStatus'' = ''provisioning'' then
              (plantStatusForm (jS data ''ID'') ''active'' ''Activate'' (jS data ''CSRFToken'') \<lparr>sc_Title
                  = ''Activate '' @ jS data ''Name'' @ ''?'', sc_Desc =
                  ''Its customer page, staff terminal, and owner login all go live immediately. Review the business and payout details below first.'',
                  sc_Tone = ''ok''\<rparr>)
           else [])]]"

definition detail_kpi_row :: "view \<Rightarrow> node list" where
  "detail_kpi_row data =
    [El ''div'' [At ''class'' ''kpi-row kpi-band detail-band'']
       [El ''div'' [At ''class'' ''kpi-item'']
          (kpiLabel ''receipt'' ''Transactions 7d''
           @ [El ''div'' [At ''class'' ''kpi''] [Text (formatThousands (jI data ''Txns7d''))],
              El ''div'' [At ''class'' ''kpi-small'']
                [Raw (''Last txn '' @ dot_sep @ '' ''), Text (jS data ''LastTxn'')]]),
        El ''div'' [At ''class'' ''kpi-item'']
          (kpiLabel ''gas-pump'' ''Volume 30d''
           @ [El ''div'' [At ''class'' ''kpi''] [Text (jS data ''Volume30d'')],
              El ''div'' [At ''class'' ''kpi-small''] [Raw ''Paid ticket weight'']]),
        El ''div'' [At ''class'' ''kpi-item'']
          (kpiLabel ''users'' ''Staff''
           @ [El ''div'' [At ''class'' ''kpi''] [Text (itoa (jI data ''StaffCount''))],
              El ''div'' [At ''class'' ''kpi-small'']
                [Text (itoa (jI data ''OpenShifts'')), Raw '' open shifts'']]),
        El ''div'' [At ''class'' ''kpi-item'']
          (kpiLabel ''money'' ''Prices set''
           @ [El ''div'' [At ''class'' ''kpi''] [Text (itoa (jI data ''PriceCount''))],
              El ''div'' [At ''class'' ''kpi-small'']
                [Raw (''First txn '' @ dot_sep @ '' ''), Text (jS data ''FirstTxn'')]])]]"

definition detail_payout_section :: "view \<Rightarrow> node list" where
  "detail_payout_section data =
    [El ''section'' [At ''class'' ''settings-section'']
       [El ''div'' [At ''class'' ''settings-intro'']
          [El ''h2'' [] [Raw ''Payout details''],
           El ''p'' [] [Raw ''Where customer payments settle. The account must belong to this plant.'']],
        El ''div'' [At ''class'' ''settings-body'']
          ([El ''dl'' [At ''class'' ''settings-records'']
              [El ''div'' [] [El ''dt'' [] [Raw ''Bank''], El ''dd'' [] [Text (jS data ''BankName'')]],
               El ''div'' []
                 [El ''dt'' [] [Raw ''Account number''],
                  El ''dd'' [At ''class'' ''mono''] [Text (jS data ''BankAccount'')]],
               El ''div'' []
                 [El ''dt'' [] [Raw ''Account name''], El ''dd'' [] [Text (jS data ''BankAccountName'')]],
               El ''div'' []
                 [El ''dt'' [] [Raw ''Paystack subaccount''],
                  El ''dd'' [] (verifyValue (jS data ''SubaccountCode'') paystackSubaccURL ''Open in Paystack'')]]]
           @ (if jS data ''SubaccountCode'' = ''Not yet provided'' then
                 [El ''form'' [At ''method'' ''post'',
                      Asafe ''action'' (''/admin/plants/'' @ jS data ''ID'' @ ''/subaccount'')]
                    [El ''input'' [At ''type'' ''hidden'', At ''name'' ''csrf_token'', Av ''value'' (jS data ''CSRFToken'')] [],
                     El ''button'' [At ''class'' ''btn primary'', At ''type'' ''submit'']
                       [Raw ''Verify account and create subaccount''],
                     El ''a'' [At ''class'' ''btn'',
                         Asafe ''href'' (''mailto:'' @ jS data ''OwnerEmail'' @
                             ''?subject=Your%20GatsToGo%20application%3A%20bank%20details&body=Hi%20'' @
                             jS data ''OwnerName'' @
                             '',%0D%0A%0D%0AWe%20could%20not%20verify%20the%20bank%20account%20on%20your%20application.%20Please%20reply%20with%20the%20correct%20bank%20name%20and%20account%20number.%0D%0A%0D%0AThanks,%0D%0AGatsToGo'')]
                       [Raw ''Email owner about bank details'']]]
              else []))]]"

definition detail_record_section :: "view \<Rightarrow> node list" where
  "detail_record_section data =
    [El ''section'' [At ''class'' ''settings-section'']
       [El ''div'' [At ''class'' ''settings-intro'']
          [El ''h2'' [] [Raw ''Plant record''],
           El ''p'' [] [Raw ''Location, contact, and web address on GatsToGo.'']],
        El ''div'' [At ''class'' ''settings-body'']
          [El ''dl'' [At ''class'' ''settings-records'']
             [El ''div'' [] [El ''dt'' [] [Raw ''Address''], El ''dd'' [] [Text (jS data ''Address'')]],
              El ''div'' [] [El ''dt'' [] [Raw ''Phone''], El ''dd'' [] [Text (jS data ''Phone'')]],
              El ''div'' []
                [El ''dt'' [] [Raw ''Domain status''],
                 El ''dd'' []
                   [El ''span'' [Aclass [(''badge '' @ jS data ''DomainBadge'', True)]]
                      [Text (jS data ''DomainStatus'')]]],
              El ''div'' [] [El ''dt'' [] [Raw ''Custom domain''], El ''dd'' [] [Text (jS data ''Domain'')]],
              El ''div'' [] [El ''dt'' [] [Raw ''Updated''], El ''dd'' [] [Text (jS data ''UpdatedAt'')]]]]]]"

definition detail_messaging_section :: "view \<Rightarrow> node list" where
  "detail_messaging_section data =
    [El ''section'' [At ''class'' ''settings-section'']
       [El ''div'' [At ''class'' ''settings-intro'']
          [El ''h2'' [] [Raw ''Messaging''],
           El ''p'' [] [Raw ''The SMS sender name customers see on receipts and codes.'']],
        El ''div'' [At ''class'' ''settings-body'']
          [El ''form'' [At ''method'' ''post'',
               Asafe ''action'' (''/admin/plants/'' @ jS data ''ID'' @ ''/messaging''),
               At ''class'' ''settings-rate-form detail-inline-form'']
             [El ''input'' [At ''type'' ''hidden'', At ''name'' ''csrf_token'', Av ''value'' (jS data ''CSRFToken'')] [],
              El ''div'' [At ''class'' ''field'']
                [El ''label'' [At ''for'' ''termii-sender''] [Raw ''Termii sender ID''],
                 El ''input'' [At ''id'' ''termii-sender'', At ''type'' ''text'', At ''name'' ''termii_sender_id'',
                     Av ''value'' (jS data ''TermiiSenderID''),
                     Av ''placeholder'' (jS data ''EffectiveTermiiSenderID'')] []],
              El ''button'' [At ''class'' ''btn primary'', At ''type'' ''submit'']
                (Icon ''check'' @ [Raw ''Save sender ID''])],
           El ''p'' [At ''class'' ''muted detail-hint'']
             [Raw ''Leave blank to use the project default sender ID.'']]]]"

definition adminPlantDetailContent :: "view \<Rightarrow> node list" where
  "adminPlantDetailContent data =
    (detail_topline data
     @ (if jS data ''Notice'' \<noteq> '''' then
           [El ''div'' [Aclass [(''owner-error'', True), (''owner-ok'', \<not> jB data ''NoticeIsError'')]]
              (Icon ''warning-circle'' @ [Text (jS data ''Notice'')])]
        else [])
     @ detail_kpi_row data
     @ [El ''div'' [At ''class'' ''settings'']
          ([El ''section'' [At ''class'' ''settings-section'']
              [El ''div'' [At ''class'' ''settings-intro'']
                 [El ''h2'' [] [Raw ''Business details''],
                  El ''p'' []
                    [Raw ''The registered business. Check these against the CAC and NMDPRA records before activating.'']],
               El ''div'' [At ''class'' ''settings-body'']
                 [El ''dl'' [At ''class'' ''settings-records'']
                    [El ''div'' []
                       [El ''dt'' [] [Raw ''Legal business name''],
                        El ''dd'' [] [Text (jS data ''LegalBusinessName'')]],
                     El ''div'' [] [El ''dt'' [] [Raw ''State''], El ''dd'' [] [Text (jS data ''State'')]],
                     El ''div'' []
                       [El ''dt'' [] [Raw ''CAC number''],
                        El ''dd'' [] (verifyValue (jS data ''CACNumber'') verifyCACURL ''Verify on CAC'')],
                     El ''div'' []
                       [El ''dt'' [] [Raw ''NMDPRA license''],
                        El ''dd'' []
                          (verifyValue (jS data ''NMDPRALicense'') verifyNMDPRAURL ''Verify on NMDPRA'')]]]]]
           @ detail_payout_section data
           @ [El ''section'' [At ''class'' ''settings-section'']
                [El ''div'' [At ''class'' ''settings-intro'']
                   [El ''h2'' [] [Raw ''Owner access''],
                    El ''p'' [] [Raw (''Who signs in to this plant'' @ apos @ ''s owner dashboard.'')]],
                 El ''div'' [At ''class'' ''settings-body'']
                   [El ''dl'' [At ''class'' ''settings-records'']
                      [El ''div'' [] [El ''dt'' [] [Raw ''Name''], El ''dd'' [] [Text (jS data ''OwnerName'')]],
                       El ''div'' []
                         [El ''dt'' [] [Raw ''Phone''],
                          El ''dd'' [At ''class'' ''mono''] [Text (jS data ''OwnerPhone'')]],
                       El ''div'' []
                         [El ''dt'' [] [Raw ''Email''], El ''dd'' [] [Text (jS data ''OwnerEmail'')]]]]]]
           @ detail_record_section data
           @ detail_messaging_section data
           @ [El ''section'' [At ''class'' ''settings-section'']
                [El ''div'' [At ''class'' ''settings-intro'']
                   [El ''h2'' [] [Raw ''Activity''],
                    El ''p'' [] [Raw ''Everything recorded for this plant, newest first.'']],
                 El ''div'' [At ''class'' ''settings-body'']
                   [El ''div'' [At ''class'' ''timeline'']
                      ((if jL data ''Activity'' = [] then
                           (emptyState ''activity'' ''No activity recorded for this plant yet.'')
                        else [])
                       @ concat (map (\<lambda>row.
                             [El ''div'' [At ''class'' ''timeline-item'']
                                [El ''strong'' [] [Text (jS row ''Action'')],
                                 El ''span'' [At ''class'' ''muted''] [Text (jS row ''Detail'')]]]) (jL data ''Activity'')))]]])])"

definition AdminPlantDetail :: "site \<Rightarrow> view \<Rightarrow> node list" where
  "AdminPlantDetail si data =
    (opsShell si (jS data ''Name'' @ '' | Admin console'') ''Admin'' adminNavLinks (adminPlantDetailContent
        data) ''/admin/logout'' (jS data ''CSRFToken'') ''Plant review'' (jS data ''Name''))"

end
