(* ===== verification/FormSpec.thy ===== *)
theory FormSpec
  imports Forms MarketingPages CustomerPages OwnerPages AdminPages
begin

text \<open>
  The pages and the routes together: every form that a page shows is sent to a route of the group
  that the page belongs to, with the token that the group's CSRF check asks for; a form is offered
  to those whom its handler lets through.
\<close>

section \<open>Parts that every page uses\<close>

lemma part_reading [reading]:
  "page_forms (Icon n) = []" "page_controls (Icon n) = []" "page_links (Icon n) = []" "page_buttons (Icon n) = []"
  "page_forms (BrandMark c v a) = []" "page_controls (BrandMark c v a) = []" "page_links (BrandMark c v a) = []"
  "page_buttons (BrandMark c v a) = []"
  by (simp_all add: Icon_def BrandMark_def reading)

lemma small_reading [reading]:
  "page_forms BrandFavicons = []" "page_links BrandFavicons = []"
  "page_forms splashOverlay = []" "page_links splashOverlay = []"
  "page_forms accountResolveScript = []" "page_links accountResolveScript = []"
  "page_forms (emptyState l m) = []" "page_links (emptyState l m) = []"
  "page_forms (kpiLabel i l) = []" "page_links (kpiLabel i l) = []"
  "page_forms (navButton on t i l) = []" "page_links (navButton on t i l) = []"
  "page_forms (verifyValue v u l) = []" "page_forms (customerBrand th) = []" "page_forms siteFooter = []"
  "page_forms (socialLinks c) = []" "page_forms (marketingFooter si) = []" "page_forms marketingHeader = []"
  by (simp_all add: BrandFavicons_def splashOverlay_def accountResolveScript_def emptyState_def kpiLabel_def verifyValue_def
    navButton_def customerBrand_def siteFooter_def socialLinks_def marketingFooter_def marketingHeader_def reading)

lemma brandColorField_reading [reading]:
  "page_controls (brandColorField l n v d) = [\<lparr>ct_Name = n, ct_Type = ''text'', ct_Value = v, ct_On = False\<rparr>]"
  "page_forms (brandColorField l n v d) = []" "page_links (brandColorField l n v d) = []"
  "page_buttons (brandColorField l n v d) = []"
  by (simp_all add: brandColorField_def reading reading_attrs)

lemma themedSelect_reading [reading]:
  "page_forms (themedSelect n os v) = []" "page_links (themedSelect n os v) = []"
  "page_buttons (themedSelect n os v) = [''button'']"
  by (simp_all add: themedSelect_def themed_select_shell_def Let_def reading reading_attrs case_prod_unfold)

lemma passwordInput_reading [reading]:
  "page_forms (passwordInput i n a fo) = []" "page_links (passwordInput i n a fo) = []"
  "page_controls (passwordInput i n a fo) = [\<lparr>ct_Name = n, ct_Type = ''password'', ct_Value = [], ct_On = False\<rparr>]"
  "page_buttons (passwordInput i n a fo) = [''button'']"
  by (simp_all add: passwordInput_def reading reading_attrs cong: if_cong)

definition form_ok :: "string \<Rightarrow> string list \<Rightarrow> page_form \<Rightarrow> bool" where
  "form_ok tok pats f \<longleftrightarrow> (fm_Method f = ''post'' \<longrightarrow> carries tok f \<and> leads_to pats (fm_Action f))"

lemma carries_first:
  "ct_Name c = ''csrf_token'' \<Longrightarrow>
   carries tok \<lparr>fm_Method = m, fm_Action = a, fm_Controls = c # cs, fm_Submit = s\<rparr> \<longleftrightarrow> ct_Type c = ''hidden'' \<and> ct_Value c = tok"
  by (simp add: carries_def)

section \<open>Owner pages\<close>

definition owner_posts :: "string list" where
  "owner_posts = [''/owner/logout'', ''/tickets/{reference}/void'', ''/owner/prices'', ''/owner/staff'',
     ''/owner/staff/{id}/status'', ''/owner/staff/{id}/permissions'', ''/owner/hours'', ''/owner/pumps'',
     ''/owner/settings'', ''/owner/password'']"

lemma owner_posts: "patterns_of ''POST'' (owner_handlers sv) = owner_posts"
  by (simp add: owner_handlers_def owner_posts_def)

lemma owner_posts_static:
  "list_all (leads_to owner_posts) [''/owner/logout'', ''/owner/prices'', ''/owner/staff'', ''/owner/hours'',
     ''/owner/pumps'', ''/owner/settings'', ''/owner/password'']"
  by (simp add: leads_to_static owner_posts_def)

lemma owner_posts_with:
  "leads_to owner_posts (''/tickets/'' @ s @ ''/void'')" "leads_to owner_posts (''/owner/staff/'' @ s @ ''/status'')"
  "leads_to owner_posts (''/owner/staff/'' @ s @ ''/permissions'')"
  by (rule leads_toI [where vs = "[s]" and p = "''/tickets/{reference}/void''"]
    leads_toI [where vs = "[s]" and p = "''/owner/staff/{id}/status''"]
    leads_toI [where vs = "[s]" and p = "''/owner/staff/{id}/permissions''"]; simp add: owner_posts_def)+

lemmas owner_leads = owner_posts_static [simplified] owner_posts_with [simplified]

lemmas form_rules = reading reading_attrs form_ok_def carries_first

lemma owner_operations_forms:
  "list_all (form_ok (jS data ''CSRFToken'') owner_posts) (page_forms (owner_operations_panel data))"
proof -
  have "page_forms (owner_cash_drawer data) = []" "page_forms (owner_shift_register data) = []"
    by (simp_all add: owner_cash_drawer_def owner_shift_register_def owner_register_row_def reading cong: if_cong)
  moreover have "list_all (form_ok (jS data ''CSRFToken'') owner_posts) (page_forms (owner_hours_section data))"
    "list_all (form_ok (jS data ''CSRFToken'') owner_posts) (page_forms (owner_pumps_section data))"
    by (simp_all add: owner_hours_section_def owner_hours_form_def owner_hours_table_def owner_pumps_section_def
      owner_pump_form_def form_rules owner_leads cong: if_cong)
  ultimately show ?thesis by (simp add: owner_operations_panel_def reading)
qed

lemma owner_staff_forms:
  "list_all (form_ok (jS data ''CSRFToken'') owner_posts) (page_forms (owner_staff_panel data))"
proof -
  have "list_all (form_ok (jS data ''CSRFToken'') owner_posts) (page_forms (owner_staff_permissions data row))" for row
    by (simp add: owner_staff_permissions_def form_rules owner_leads cong: if_cong)
  moreover have "list_all (form_ok (jS data ''CSRFToken'') owner_posts) (page_forms (owner_staff_actions data row))" for row
    by (simp add: owner_staff_actions_def form_rules owner_leads cong: if_cong)
  moreover have "page_forms (owner_staff_chips row) = []" for row
    by (simp add: owner_staff_chips_def reading)
  moreover have "list_all (form_ok (jS data ''CSRFToken'') owner_posts) (page_forms (owner_add_staff data))"
    by (simp add: owner_add_staff_def form_rules owner_leads cong: if_cong)
  ultimately show ?thesis by (simp add: owner_staff_panel_def owner_staff_table_def owner_access_row_def reading)
qed

lemma owner_settings_forms:
  "list_all (form_ok (jS data ''CSRFToken'') owner_posts) (page_forms (owner_settings_panel data))"
proof -
  have "list_all (form_ok (jS data ''CSRFToken'') owner_posts) (page_forms (owner_settings_price data))"
    "list_all (form_ok (jS data ''CSRFToken'') owner_posts) (page_forms (owner_brand_form data))"
    by (simp_all add: owner_settings_price_def owner_brand_form_def form_rules owner_leads cong: if_cong)
  then show ?thesis by (simp add: owner_settings_panel_def owner_settings_account_def reading)
qed

lemma ops_forms:
  assumes "list_all (form_ok tok pats) (page_forms nav)" "list_all (form_ok tok pats) (page_forms content)"
    "leads_to pats logoutAction"
  shows "list_all (form_ok tok pats) (page_forms (opsShell si title label nav content logoutAction tok mt ms))"
  using assms by (simp add: opsShell_def ops_head_def ops_body_def form_rules)

lemma OwnerDashboard_forms:
  "list_all (form_ok (jS data ''CSRFToken'') owner_posts) (page_forms (OwnerDashboard si data))"
proof -
  have "page_forms (owner_topline data) = []" "page_forms (owner_overview_panel data) = []"
    "page_forms (owner_reviews_panel data) = []"
    by (simp_all add: owner_topline_def owner_overview_panel_def owner_overview_kpis_def owner_overview_grid_def
      owner_reviews_panel_def owner_review_kpis_def owner_reviews_table_def reading cong: if_cong)
  moreover have "list_all (form_ok (jS data ''CSRFToken'') owner_posts) (page_forms (owner_sales_panel data))"
    by (simp add: owner_sales_panel_def owner_sales_table_def owner_sale_row_def form_rules owner_leads cong: if_cong)
  ultimately have "list_all (form_ok (jS data ''CSRFToken'') owner_posts) (page_forms (ownerDashboardContent data))"
    by (simp add: ownerDashboardContent_def owner_operations_forms owner_staff_forms owner_settings_forms reading)
  then show ?thesis
    unfolding OwnerDashboard_def by (intro ops_forms) (simp_all add: ownerNav_def reading owner_leads)
qed

lemma OwnerChangePassword_forms:
  "list_all (form_ok tok owner_posts) (page_forms (OwnerChangePassword si plant err don tok))"
  by (simp add: OwnerChangePassword_def change_head_def change_account_body_def form_rules owner_leads cong: if_cong)

section \<open>Administrator's pages\<close>

definition admin_posts :: "string list" where
  "admin_posts = [''/admin/logout'', ''/admin/plants'', ''/admin/plants/{id}/messaging'', ''/admin/plants/{id}/status'',
     ''/admin/plants/{id}/subaccount'']"

lemma admin_posts: "patterns_of ''POST'' (admin_handlers sv) = admin_posts"
  by (simp add: admin_handlers_def admin_posts_def)

lemma admin_posts_with:
  "leads_to admin_posts (''/admin/plants/'' @ s @ ''/messaging'')" "leads_to admin_posts (''/admin/plants/'' @ s @ ''/status'')"
  "leads_to admin_posts (''/admin/plants/'' @ s @ ''/subaccount'')"
  by (rule leads_toI [where vs = "[s]" and p = "''/admin/plants/{id}/messaging''"]
    leads_toI [where vs = "[s]" and p = "''/admin/plants/{id}/status''"]
    leads_toI [where vs = "[s]" and p = "''/admin/plants/{id}/subaccount''"]; simp add: admin_posts_def)+

lemma admin_logout: "leads_to admin_posts ''/admin/logout''"
  by (simp add: leads_to_static admin_posts_def)

lemmas admin_leads = admin_posts_with [simplified] admin_logout

lemma status_forms: "list_all (form_ok tok admin_posts) (page_forms (plantStatusForm i st l tok c))"
  by (simp add: plantStatusForm_def status_form_def form_rules admin_leads)

lemma AdminPlantDetail_forms:
  "list_all (form_ok (jS data ''CSRFToken'') admin_posts) (page_forms (AdminPlantDetail si data))"
proof -
  have "page_forms (detail_kpi_row data) = []" "page_forms (detail_record_section data) = []"
    by (simp_all add: detail_kpi_row_def detail_record_section_def reading)
  moreover have "list_all (form_ok (jS data ''CSRFToken'') admin_posts) (page_forms (detail_topline data))"
    by (simp add: detail_topline_def status_forms reading)
  moreover have "list_all (form_ok (jS data ''CSRFToken'') admin_posts) (page_forms (detail_payout_section data))"
    "list_all (form_ok (jS data ''CSRFToken'') admin_posts) (page_forms (detail_messaging_section data))"
    by (simp_all add: detail_payout_section_def detail_messaging_section_def form_rules admin_leads cong: if_cong)
  ultimately have "list_all (form_ok (jS data ''CSRFToken'') admin_posts) (page_forms (adminPlantDetailContent data))"
    by (simp add: adminPlantDetailContent_def reading cong: if_cong)
  then show ?thesis
    unfolding AdminPlantDetail_def
    by (intro ops_forms) (simp_all add: adminNavLinks_def navLink_def reading admin_leads)
qed

lemma AdminConsole_forms:
  "list_all (form_ok (jS data ''CSRFToken'') admin_posts) (page_forms (AdminConsole si data))"
proof -
  have "page_forms (console_topline data) = []" "page_forms (console_activity_panel data) = []"
    "page_forms (console_overview_kpis data) = []"
    by (simp_all add: console_topline_def console_activity_panel_def console_overview_kpis_def reading cong: if_cong)
  moreover have "list_all (form_ok (jS data ''CSRFToken'') admin_posts) (page_forms (console_overview_grid data))"
    by (simp add: console_overview_grid_def status_forms reading case_prod_unfold cong: if_cong)
  moreover have "list_all (form_ok (jS data ''CSRFToken'') admin_posts) (page_forms (console_application_row data row))" for row
    by (simp add: console_application_row_def console_application_cell_def status_forms reading)
  moreover have "list_all (form_ok (jS data ''CSRFToken'') admin_posts) (page_forms (console_plant_row data row))" for row
    by (simp add: console_plant_row_def console_plant_cell_def console_domain_cell_def console_health_cell_def console_plant_actions_def
      status_forms reading)
  ultimately have "list_all (form_ok (jS data ''CSRFToken'') admin_posts) (page_forms (adminConsoleContent data))"
    by (simp add: adminConsoleContent_def console_overview_panel_def console_applications_panel_def console_plants_panel_def reading)
  then show ?thesis
    unfolding AdminConsole_def by (intro ops_forms) (simp_all add: adminNav_def reading admin_leads)
qed

section \<open>Pages without a session\<close>

definition public_posts :: "string list" where
  "public_posts = [''/tickets'', ''/receipts/lookup'', ''/receipts/verify'', ''/reviews/{token}'', ''/terminal/pin'',
     ''/owner/login'', ''/owner/forgot-password'', ''/owner/reset-password'', ''/admin/login'', ''/get-started'',
     ''/get-started/buyer'']"

lemma public_posts_static:
  "list_all (leads_to public_posts) [''/tickets'', ''/receipts/lookup'', ''/receipts/verify'', ''/owner/login'',
     ''/owner/forgot-password'', ''/owner/reset-password'', ''/admin/login'', ''/get-started'', ''/get-started/buyer'']"
  by (simp add: leads_to_static public_posts_def)

lemma public_posts_with: "leads_to public_posts (''/reviews/'' @ s)"
  by (rule leads_toI [where vs = "[s]" and p = "''/reviews/{token}''"]) (simp_all add: public_posts_def)

lemmas public_leads = public_posts_static [simplified] public_posts_with [simplified]

lemma login_forms:
  "leads_to pats action \<Longrightarrow> list_all (form_ok tok pats) (page_forms (authShell si title heading err action tok))"
  by (simp add: authShell_def auth_head_def auth_body_def form_rules cong: if_cong)

lemma OwnerLogin_forms: "list_all (form_ok tok public_posts) (page_forms (OwnerLogin si plant err tok))"
  by (simp add: OwnerLogin_def login_forms public_leads)

lemma AdminLogin_forms: "list_all (form_ok tok public_posts) (page_forms (AdminLogin si err tok))"
  by (simp add: AdminLogin_def login_forms public_leads)

lemma OwnerForgotPassword_forms: "list_all (form_ok tok public_posts) (page_forms (OwnerForgotPassword si plant err sub tok))"
  by (simp add: OwnerForgotPassword_def forgot_page_def form_rules public_leads)

lemma OwnerResetPassword_forms: "list_all (form_ok tok public_posts) (page_forms (OwnerResetPassword si plant err t val tok))"
proof -
  have "page_forms (reset_head si plant) = []"
    by (simp add: reset_head_def reading)
  moreover have "list_all (form_ok tok public_posts) (page_forms (reset_body err t val tok))"
    by (simp add: reset_body_def form_rules public_leads)
  ultimately show ?thesis by (simp add: OwnerResetPassword_def reading)
qed

lemma shell_forms: "page_forms (customerPageShell si th title content) = page_forms content"
  by (simp add: customerPageShell_def reading cong: if_cong)

lemma CustomerHome_forms: "list_all (form_ok tok public_posts) (page_forms (CustomerHome si plant price tok err op hrs))"
proof -
  have "page_forms (buy_summary_col price op hrs) = []"
    by (simp add: buy_summary_col_def reading cong: if_cong)
  moreover have "list_all (form_ok tok public_posts) (page_forms (buy_form_col tok err op))"
    by (simp add: buy_form_col_def form_rules public_leads)
  ultimately show ?thesis by (simp add: CustomerHome_def customerHomeContent_def Let_def shell_forms reading)
qed

lemma PlantReview_forms: "list_all (form_ok (jS data ''CSRFToken'') public_posts) (page_forms (PlantReview si plant data))"
proof -
  have "page_forms (review_done data) = []"
    by (simp add: review_done_def reading cong: if_cong)
  moreover have "list_all (form_ok (jS data ''CSRFToken'') public_posts) (page_forms (review_entry data))"
    by (simp add: review_entry_def form_rules public_leads)
  ultimately show ?thesis by (simp add: PlantReview_def plantReviewContent_def Let_def shell_forms reading)
qed

lemma receipts_public_forms:
  assumes "jS data ''View'' \<noteq> ''list''"
  shows "list_all (form_ok (jS data ''CSRFToken'') public_posts) (page_forms (CustomerReceipts si plant data))"
proof -
  have "list_all (form_ok (jS data ''CSRFToken'') public_posts) (page_forms (receiptsVerifyView data))"
    "list_all (form_ok (jS data ''CSRFToken'') public_posts) (page_forms (receiptsLookupView data))"
    by (simp_all add: receiptsVerifyView_def receiptsLookupView_def form_rules public_leads)
  then show ?thesis
    using assms by (simp add: CustomerReceipts_def customerReceiptsContent_def Let_def shell_forms reading)
qed

definition receipt_posts :: "string list" where
  "receipt_posts = [''/tickets/{reference}/confirm'']"

lemma receipts_list_forms:
  assumes "jS data ''View'' = ''list''"
    and "\<And>d. jO data ''Selected'' = Some d \<Longrightarrow> jS d ''CSRFToken'' = tok \<and> leads_to receipt_posts (jS d ''ConfirmAction'')"
  shows "list_all (form_ok tok receipt_posts) (page_forms (CustomerReceipts si plant data))"
proof -
  have "page_forms (receipt_detail_top d) = []" "page_forms (receipt_detail_rows d) = []" for d
    by (simp_all add: receipt_detail_top_def receipt_detail_rows_def reading cong: if_cong)
  moreover have "list_all (form_ok tok receipt_posts) (page_forms (receipt_detail_actions d))"
    if "jO data ''Selected'' = Some d" for d
    using assms(2) [OF that] by (simp add: receipt_detail_actions_def form_rules)
  moreover have "page_forms (receipts_column data) = []"
    by (simp add: receipts_column_def reading cong: if_cong)
  ultimately show ?thesis
    using assms(1) by (auto simp: CustomerReceipts_def customerReceiptsContent_def receiptsListView_def receiptDetailView_def
      Let_def shell_forms reading)
qed

lemma signup_forms: "list_all (form_ok (jS data ''CSRFToken'') public_posts) (page_forms (pages_Signup si data))"
proof -
  have "page_forms (spotsBanner k c t et ex ll f) = []" for k c t et ex ll f
    by (simp add: spotsBanner_def spots_banner_empty_def spots_banner_full_def spots_banner_open_def reading cong: if_cong)
  then have "list_all (form_ok (jS data ''CSRFToken'') public_posts) (page_forms (signup_buyer_panel data))"
    "list_all (form_ok (jS data ''CSRFToken'') public_posts) (page_forms (signup_owner_panel si data))"
    by (simp_all add: signup_buyer_panel_def signup_owner_panel_def signup_owner_form_def form_rules public_leads cong: if_cong)
  moreover have "page_forms (signup_submitted data) = []"
    by (simp add: signup_submitted_def reading cong: if_cong)
  ultimately show ?thesis
    by (simp add: pages_Signup_def signupContent_def marketingPageShell_def reading cong: if_cong)
qed

end
