(* ===== verification/PageSpec.thy ===== *)
theory PageSpec
  imports FormSpec AccessFixtures
begin

text \<open>
  What a page's forms do when a visitor sends them: they reach a handler of the group that the page
  belongs to, past that group's CSRF check.
\<close>

section \<open>Every form reaches its handler\<close>

text \<open>Which check stands in front of the handlers that a page's forms go to.\<close>

datatype guard = Public | ReceiptSession | OwnerSession | AdminSession

definition guarded_posts :: "'s server \<Rightarrow> guard \<Rightarrow> string list" where
  "guarded_posts sv g =
     (case g of
        Public \<Rightarrow> patterns_of ''POST'' (tenant_routes sv) @ [''/admin/login'', ''/get-started'', ''/get-started/buyer'']
      | ReceiptSession \<Rightarrow> patterns_of ''POST'' (receipt_handlers sv)
      | OwnerSession \<Rightarrow> patterns_of ''POST'' (owner_handlers sv)
      | AdminSession \<Rightarrow> patterns_of ''POST'' (admin_handlers sv))"

text \<open>The pages that hold forms, each with the token it is given.\<close>

inductive page_of :: "site \<Rightarrow> guard \<Rightarrow> string \<Rightarrow> node list \<Rightarrow> bool" for si where
  home: "page_of si Public tok (CustomerHome si plant price tok err isOpen hours)"
| receipts_lookup: "jS data ''View'' \<noteq> ''list'' \<Longrightarrow> page_of si Public (jS data ''CSRFToken'') (CustomerReceipts si plant data)"
| review: "page_of si Public (jS data ''CSRFToken'') (PlantReview si plant data)"
| signup: "page_of si Public (jS data ''CSRFToken'') (pages_Signup si data)"
| owner_login: "page_of si Public tok (OwnerLogin si plantName err tok)"
| forgot: "page_of si Public tok (OwnerForgotPassword si plantName err submitted tok)"
| reset: "page_of si Public tok (OwnerResetPassword si plantName err token valid tok)"
| admin_login: "page_of si Public tok (AdminLogin si err tok)"
| receipts_list: "jS data ''View'' = ''list'' \<Longrightarrow> jO data ''Selected'' = Some d \<Longrightarrow>
    jS d ''ConfirmAction'' = ''/tickets/'' @ reference @ ''/confirm'' \<Longrightarrow>
    page_of si ReceiptSession (jS d ''CSRFToken'') (CustomerReceipts si plant data)"
| dashboard: "page_of si OwnerSession (jS data ''CSRFToken'') (OwnerDashboard si data)"
| change_password: "page_of si OwnerSession tok (OwnerChangePassword si plantName err changed tok)"
| console: "page_of si AdminSession (jS data ''CSRFToken'') (AdminConsole si data)"
| detail: "page_of si AdminSession (jS data ''CSRFToken'') (AdminPlantDetail si data)"

text \<open>The token is the one that the check compares with.\<close>

definition token_for :: "'s server \<Rightarrow> guard \<Rightarrow> Actor option \<Rightarrow> string \<Rightarrow> http_request \<Rightarrow> bool" where
  "token_for sv g actor tok r \<longleftrightarrow>
     (case actor of
        None \<Rightarrow> g = Public \<and> tok \<noteq> [] \<and> request_cookie r PublicCSRFCookie = Some tok
      | Some a \<Rightarrow> g \<noteq> Public \<and> csrf_Verify sv (ac_Token a) tok)"

lemma receipt_posts: "patterns_of ''POST'' (receipt_handlers sv) = receipt_posts"
  by (simp add: receipt_handlers_def receipt_posts_def)

lemma confirm_leads: "leads_to receipt_posts (''/tickets/'' @ reference @ ''/confirm'')"
  by (rule leads_toI [where vs = "[reference]" and p = "''/tickets/{reference}/confirm''"]) (simp_all add: receipt_posts_def)

lemma page_forms_ok: "page_of si g tok ns \<Longrightarrow> list_all (form_ok tok (guarded_posts sv g)) (page_forms ns)"
proof (induction rule: page_of.induct)
  case (receipts_list data d reference plant)
  have "leads_to receipt_posts (jS d ''ConfirmAction'')"
    unfolding receipts_list(3) by (rule confirm_leads)
  then have "list_all (form_ok (jS d ''CSRFToken'') receipt_posts) (page_forms (CustomerReceipts si plant data))"
    using receipts_list(2) by (intro receipts_list_forms [OF receipts_list(1)]) simp
  then show ?case by (simp add: guarded_posts_def receipt_posts)
qed (simp_all add: guarded_posts_def owner_posts admin_posts OwnerDashboard_forms OwnerChangePassword_forms AdminConsole_forms
  AdminPlantDetail_forms tenant_routes_def CustomerHome_forms receipts_public_forms PlantReview_forms signup_forms OwnerLogin_forms
  OwnerForgotPassword_forms OwnerResetPassword_forms AdminLogin_forms public_posts_def [symmetric])

text \<open>
  C34: Every POST form of every page goes to a route of the group that the page belongs to, and
  whatever the visitor enters, a browser's request for it passes that group's CSRF check: it
  carries the page's token, and the next handler gets the request.
\<close>
theorem forms_reach_handlers:
  assumes "page_of si g tok ns" "f \<in> set (page_forms ns)" "fm_Method f = ''post''"
    and "sends choice f r" "token_for sv g actor tok r"
  shows "leads_to (guarded_posts sv g) (fm_Action f) \<and> CSRF sv actor next r = next r"
proof -
  have ok: "carries tok f" "leads_to (guarded_posts sv g) (fm_Action f)"
    using page_forms_ok [OF assms(1), of sv] assms(2, 3) by (auto simp: list_all_iff form_ok_def)
  have "hr_FormValue r ''csrf_token'' = tok" by (rule carries_sends [OF ok(1) assms(4)])
  moreover have "hr_Header r ''X-CSRF-Token'' = []" using assms(4) by (simp add: sends_def)
  ultimately show ?thesis
    using ok(2) assms(5) by (auto simp: CSRF_def Let_def token_for_def VerifyPublic_def split: option.splits)
qed

lemma forms_reach_handlers_witness:
  "\<exists>f r si. f \<in> set (page_forms (OwnerForgotPassword si ''Plant'' '''' False ''tok'')) \<and> sends untouched f r \<and>
     leads_to (guarded_posts demo_server Public) (fm_Action f) \<and> CSRF demo_server None (\<lambda>_. ret (redirect (hr_FormValue r ''email''))) r = ret (redirect (hr_FormValue r ''email''))"
proof -
  fix si
  let ?ns = "OwnerForgotPassword si ''Plant'' '''' False ''tok''"
  obtain f where f: "page_forms ?ns = [f]" "fm_Method f = ''post''"
    by (simp add: OwnerForgotPassword_def forgot_page_def reading reading_attrs)
  define r where "r = (demo_request ''POST'' ''a.gatstogo.com'' [(PublicCSRFCookie, ''tok'')])
    \<lparr>hr_form_ok := True, hr_Header := (\<lambda>_. []), hr_FormValue := first_value (entries untouched (fm_Controls f))\<rparr>"
  have sent: "sends untouched f r" using f by (simp add: sends_def untouched_admissible r_def)
  have mine: "f \<in> set (page_forms ?ns)" by (simp only: f(1) list.set insertI1)
  have "token_for demo_server Public None ''tok'' r" by (simp add: token_for_def request_cookie_def r_def)
  then have "leads_to (guarded_posts demo_server Public) (fm_Action f) \<and> CSRF demo_server None (\<lambda>_. ret (redirect (hr_FormValue r ''email''))) r = ret (redirect (hr_FormValue r ''email''))"
    by (rule forms_reach_handlers [OF page_of.forgot mine f(2) sent])
  with mine sent show ?thesis by blast
qed

end
