(* ===== verification/PageFixtures.thy ===== *)
theory PageFixtures
  imports AccessFixtures Dashboard
begin

text \<open>
  An owner, a plant with colours, a pump, and a run of the owner's dashboard, for the witnesses of
  what the pages and the handlers say of each other.
\<close>

section \<open>An owner's data\<close>

definition demo_owner :: Actor where
  "demo_owner = \<lparr>ac_UserID = 21, ac_Name = ''o'', ac_Role = RoleOwner, ac_PlantID = Some 7, ac_ShiftID = None,
     ac_PumpID = None, ac_Phone = ''1'', ac_Token = ''t'', ac_CanEditPrice = False, ac_CanManageStaff = False,
     ac_CanManagePumps = False\<rparr>"

definition demo_branded :: plant where
  "demo_branded = demo_shop\<lparr>pl_PrimaryColor := ''#006B4D'', pl_ButtonColor := ''#006B4D'',
     pl_SecondaryColor := ''#10B981'', pl_ButtonTextColor := ''#F8FAFC''\<rparr>"

definition demo_pump_shown :: Pump where
  "demo_pump_shown = \<lparr>pm_ID = 40, pm_Name = ''P'', pm_Status = ''working'', pm_SortOrder = 1, pm_BusyCount = 0,
     pm_OpenShift = False\<rparr>"

section \<open>A dashboard\<close>

text \<open>In a transaction that meets no fault every loader returns.\<close>

definition calm :: "world \<Rightarrow> bool" where
  "calm w \<longleftrightarrow> \<not> w_aborted w \<and> w_env w = demo_env \<and> w_db w = demo_db [] \<and> w_role w = AppRole (Some 7)"

definition smooth :: "'a act \<Rightarrow> bool" where
  "smooth m \<longleftrightarrow> (\<forall>w. calm w \<longrightarrow> (\<exists>a w'. m w = (Inr a, w') \<and> calm w'))"

named_theorems smooth_rules

lemma smooth_basic [smooth_rules]:
  "smooth (ret a)" "smooth ask_env" "smooth time_Now" "smooth (query f)" "smooth (query_at g)"
  "smooth (attempt (query_row h))"
  by (auto simp: smooth_def calm_def ret_def ask_env_def time_Now_def query_def query_at_def exec_stmt_def
    query_row_def attempt_def bind_def fail_def Let_def split: option.splits)

lemma smooth_bind [smooth_rules]:
  assumes "smooth m" "\<And>a. smooth (f a)"
  shows "smooth (bind m f)"
  using assms by (fastforce simp: smooth_def bind_def)

lemma smooth_attempt [smooth_rules]: "smooth m \<Longrightarrow> smooth (attempt m)"
  by (fastforce simp: smooth_def attempt_def)

lemma smooth_cases [smooth_rules]:
  "(\<And>e. smooth (f e)) \<Longrightarrow> (\<And>x. smooth (g x)) \<Longrightarrow> smooth (case r of Inl e \<Rightarrow> f e | Inr x \<Rightarrow> g x)"
  "(\<And>x y. smooth (k x y)) \<Longrightarrow> smooth (case p of (x, y) \<Rightarrow> k x y)"
  by (auto split: sum.split prod.split)

lemma smooth_EnsureDefault: "smooth (EnsureDefault 7)"
proof -
  have pumps: "db_pumps (demo_db []) = [demo_pump 40 7 ''P'', demo_pump 41 7 ''Q'']"
    and plant: "pu_PlantID (demo_pump i q n) = q" for i q n
    by (simp_all add: demo_defs)
  show ?thesis
    by (auto simp: smooth_def calm_def EnsureDefault_def exec_insert_when_def exec_stmt_def bind_def ret_def Let_def pumps plant)
qed

lemma smooth_dashboard: "smooth (loadOwnerDashboard demo_shop)"
proof -
  have id: "pl_ID demo_shop = 7" by (simp add: plant.defs demo_plant_def)
  show ?thesis
    unfolding loadOwnerDashboard_def id loadPlantProfile_def latest_price_def loadDaySales_def loadOwnerTickets_def
      loadOwnerStaff_def loadOwnerShifts_def loadOwnerCashMovements_def loadOwnerPriceHistory_def loadOwnerHours_def
      loadOwnerPumps_def loadOwnerReviews_def loadActivity_def loaded_def pumps_List_def Week_def reviews_with_def
      Stats_def reviews_List_def Let_def
    by (intro smooth_rules smooth_EnsureDefault)+
qed

lemma demo_dashboard:
  "\<exists>data ws. in_tenant 7 (loadOwnerDashboard demo_shop) (demo_world (demo_db []), s) = (Inr (Inr data), ws)"
proof -
  have "calm (demo_tx (demo_db []))" by (simp add: calm_def)
  then obtain data w where "loadOwnerDashboard demo_shop (demo_tx (demo_db [])) = (Inr data, w)" "calm w"
    using smooth_dashboard unfolding smooth_def by blast
  then obtain w' where "WithTenant 7 (loadOwnerDashboard demo_shop) (demo_world (demo_db [])) = (Inr data, w')"
    using WithTenant_demo [of "loadOwnerDashboard demo_shop" "demo_db []" data w] by (auto simp: runs_def calm_def)
  then show ?thesis by (simp add: in_tenant_def attempt_def db_act_def)
qed

end
