(* ===== verification/OfferSpec.thy ===== *)
theory OfferSpec
  imports FormSpec PageFixtures
begin

text \<open>
  The owner's dashboard against the handlers behind its forms: what it offers to a session is what
  they allow to it.
\<close>

section \<open>Offered to those who are allowed\<close>

definition offers :: "node list \<Rightarrow> string \<Rightarrow> bool" where
  "offers ns action \<longleftrightarrow> list_ex (\<lambda>f. fm_Action f = action \<and> fm_Submit f) (page_forms ns)"

lemma list_ex_pieces:
  "list_ex P (concat (map f zs)) \<longleftrightarrow> (\<exists>z \<in> set zs. list_ex P (f z))"
  "list_ex P (map g zs) \<longleftrightarrow> (\<exists>z \<in> set zs. P (g z))"
  "list_ex P (if c then xs else ys) \<longleftrightarrow> (if c then list_ex P xs else list_ex P ys)"
  "list_ex P (xs @ ys) \<longleftrightarrow> list_ex P xs \<or> list_ex P ys"
  by (auto simp: list_ex_iff)

lemma offers_pieces:
  "offers (xs @ ys) a \<longleftrightarrow> offers xs a \<or> offers ys a"
  "offers (concat (map f zs)) a \<longleftrightarrow> (\<exists>z \<in> set zs. offers (f z) a)"
  "page_forms ns = [] \<Longrightarrow> \<not> offers ns a"
  by (simp_all add: offers_def reading list_ex_pieces)

definition gated_action :: "string \<Rightarrow> bool" where
  "gated_action a \<longleftrightarrow> a \<in> set [''/owner/prices'', ''/owner/staff'', ''/owner/pumps'', ''/owner/hours''] \<or>
     (\<exists>i. a = ''/owner/staff/'' @ i)"

text \<open>The forms of a line of the staff table.\<close>

definition status_action :: "string \<Rightarrow> string" where
  "status_action i = ''/owner/staff/'' @ i @ ''/status''"

definition permissions_action :: "string \<Rightarrow> string" where
  "permissions_action i = ''/owner/staff/'' @ i @ ''/permissions''"

lemma row_actions [simp]:
  "status_action i = status_action j \<longleftrightarrow> i = j" "permissions_action i = permissions_action j \<longleftrightarrow> i = j"
  "status_action i \<noteq> permissions_action j" "permissions_action i \<noteq> status_action j"
  "gated_action (status_action i)" "gated_action (permissions_action i)"
proof -
  show "status_action i \<noteq> permissions_action j"
    using arg_cong [of "i @ ''/status''" "j @ ''/permissions''" rev] by (auto simp: status_action_def permissions_action_def)
  then show "permissions_action i \<noteq> status_action j"
    using arg_cong [of "j @ ''/status''" "i @ ''/permissions''" rev] by (auto simp: status_action_def permissions_action_def)
qed (auto simp: status_action_def permissions_action_def gated_action_def)

lemma offers_dashboard:
  "offers (OwnerDashboard si data) ''/owner/prices'' \<longleftrightarrow> jB data ''CanEditPrice''"
  "offers (OwnerDashboard si data) ''/owner/staff'' \<longleftrightarrow> jB data ''CanManageStaff''"
  "offers (OwnerDashboard si data) ''/owner/pumps'' \<longleftrightarrow> jB data ''CanManagePumps''"
  "offers (OwnerDashboard si data) ''/owner/hours'' \<longleftrightarrow> jB data ''CanManagePumps''"
  "offers (OwnerDashboard si data) (status_action i) \<longleftrightarrow> jB data ''CanManageStaff'' \<and>
     (\<exists>row \<in> set (jL data ''Staff''). jS row ''ID'' = i \<and> jB row ''CanToggleActive'')"
  "offers (OwnerDashboard si data) (permissions_action i) \<longleftrightarrow> jB data ''CanGrantManagerPermissions'' \<and>
     (\<exists>row \<in> set (jL data ''Staff''). jS row ''ID'' = i \<and> jB row ''IsManager'')"
proof -
  have quiet: "page_forms (owner_topline data) = []" "page_forms (owner_overview_panel data) = []"
    "page_forms (owner_reviews_panel data) = []" "page_forms (owner_cash_drawer data) = []"
    "page_forms (owner_shift_register data) = []" "page_forms (owner_settings_account data) = []" "page_forms ownerNav = []"
    by (simp_all add: owner_topline_def owner_overview_panel_def owner_overview_kpis_def owner_overview_grid_def
      owner_reviews_panel_def owner_review_kpis_def owner_reviews_table_def owner_cash_drawer_def owner_shift_register_def
      owner_register_row_def owner_settings_account_def ownerNav_def reading cong: if_cong)
  have sales: "\<not> offers (owner_sales_panel data) a" if "gated_action a" for a
    using that by (auto simp: gated_action_def offers_def owner_sales_panel_def owner_sales_table_def owner_sale_row_def
      reading reading_attrs list_ex_pieces cong: if_cong)
  have hours: "offers (owner_hours_section data) a \<longleftrightarrow> a = ''/owner/hours'' \<and> jB data ''CanManagePumps''" for a
    by (auto simp: offers_def owner_hours_section_def owner_hours_form_def owner_hours_table_def
      owner_day_row_def reading reading_attrs list_ex_pieces cong: if_cong)
  have pump: "offers (owner_pump_form data row) a \<longleftrightarrow> a = ''/owner/pumps'' \<and> jB data ''CanManagePumps''" for a row
    by (auto simp: offers_def owner_pump_form_def reading reading_attrs)
  have pumps: "offers (owner_pumps_section data) a \<longleftrightarrow> a = ''/owner/pumps'' \<and> jB data ''CanManagePumps''" for a
    by (auto simp: owner_pumps_section_def pump [unfolded offers_def] offers_def reading reading_attrs list_ex_pieces cong: if_cong)
  have status: "offers (owner_staff_actions data row) a \<longleftrightarrow>
      a = status_action (jS row ''ID'') \<and> jB data ''CanManageStaff'' \<and> jB row ''CanToggleActive''" for row a
    by (auto simp: offers_def owner_staff_actions_def status_action_def reading reading_attrs list_ex_pieces cong: if_cong)
  have permissions: "offers (owner_staff_permissions data row) a \<longleftrightarrow> a = permissions_action (jS row ''ID'')" for row a
    by (auto simp: offers_def owner_staff_permissions_def permissions_action_def reading reading_attrs list_ex_pieces cong: if_cong)
  have chips: "page_forms (owner_staff_chips row) = []" for row
    by (simp add: owner_staff_chips_def reading)
  have row: "offers (owner_access_row data row) a \<longleftrightarrow>
      a = status_action (jS row ''ID'') \<and> jB data ''CanManageStaff'' \<and> jB row ''CanToggleActive'' \<or>
      a = permissions_action (jS row ''ID'') \<and> jB data ''CanGrantManagerPermissions'' \<and> jB row ''IsManager''" for row a
    using status [of row a] permissions [of row a]
    by (auto simp: owner_access_row_def chips offers_def reading list_ex_pieces cong: if_cong)
  have table: "offers (owner_staff_table data) a \<longleftrightarrow> (\<exists>row \<in> set (jL data ''Staff''). offers (owner_access_row data row) a)" for a
    by (auto simp: owner_staff_table_def offers_def reading list_ex_pieces cong: if_cong)
  have add: "offers (owner_add_staff data) a \<longleftrightarrow> a = ''/owner/staff'' \<and> jB data ''CanManageStaff''" for a
    by (auto simp: offers_def owner_add_staff_def reading reading_attrs list_ex_pieces cong: if_cong)
  have price: "offers (owner_settings_price data) a \<longleftrightarrow> a = ''/owner/prices'' \<and> jB data ''CanEditPrice''" for a
    by (auto simp: offers_def owner_settings_price_def reading reading_attrs list_ex_pieces cong: if_cong)
  have brand: "\<not> offers (owner_brand_form data) a" if "gated_action a" for a
    using that by (auto simp: gated_action_def offers_def owner_brand_form_def reading reading_attrs cong: if_cong)
  have shell: "offers (OwnerDashboard si data) a \<longleftrightarrow> offers (ownerDashboardContent data) a" if "gated_action a" for a
    using that by (auto simp: gated_action_def offers_def OwnerDashboard_def opsShell_def ops_head_def ops_body_def quiet reading reading_attrs)
  have content: "offers (OwnerDashboard si data) a \<longleftrightarrow>
      offers (owner_hours_section data) a \<or> offers (owner_pumps_section data) a \<or> offers (owner_add_staff data) a
      \<or> offers (owner_staff_table data) a \<or> offers (owner_settings_price data) a" if "gated_action a" for a
    using sales [OF that] brand [OF that] unfolding shell [OF that]
    by (auto simp: ownerDashboardContent_def owner_operations_panel_def owner_staff_panel_def owner_settings_panel_def
      offers_def quiet reading list_ex_pieces cong: if_cong)
  show "offers (OwnerDashboard si data) ''/owner/prices'' \<longleftrightarrow> jB data ''CanEditPrice''"
    "offers (OwnerDashboard si data) ''/owner/staff'' \<longleftrightarrow> jB data ''CanManageStaff''"
    "offers (OwnerDashboard si data) ''/owner/pumps'' \<longleftrightarrow> jB data ''CanManagePumps''"
    "offers (OwnerDashboard si data) ''/owner/hours'' \<longleftrightarrow> jB data ''CanManagePumps''"
    by (auto simp: content gated_action_def hours pumps add price table row status_action_def permissions_action_def)
  show "offers (OwnerDashboard si data) (status_action i) \<longleftrightarrow> jB data ''CanManageStaff'' \<and>
     (\<exists>row \<in> set (jL data ''Staff''). jS row ''ID'' = i \<and> jB row ''CanToggleActive'')"
    by (auto simp: content hours pumps add price table row) (auto simp: status_action_def)
  show "offers (OwnerDashboard si data) (permissions_action i) \<longleftrightarrow> jB data ''CanGrantManagerPermissions'' \<and>
     (\<exists>row \<in> set (jL data ''Staff''). jS row ''ID'' = i \<and> jB row ''IsManager'')"
    by (auto simp: content hours pumps add price table row) (auto simp: permissions_action_def)
qed

section \<open>The permissions behind them\<close>

lemma in_tenant_query_map:
  "in_tenant pid (query_row (\<lambda>d. map_option g (X d))) ws =
     (case in_tenant pid (query_row X) ws of (r, ws') \<Rightarrow> (map_sum id (map_sum id g) r, ws'))"
proof -
  have body: "query_row (\<lambda>d. map_option g (X d)) w = (case query_row X w of (r, w') \<Rightarrow> (map_sum id g r, w'))" for w
    by (simp add: query_row_def query_def bind_def exec_stmt_def fail_def ret_def Let_def split: option.splits)
  have "WithTenant pid (query_row (\<lambda>d. map_option g (X d))) w =
      (case WithTenant pid (query_row X) w of (r, w') \<Rightarrow> (map_sum id g r, w'))" for w
    by (auto simp: WithTenant_def body split: prod.splits sum.splits)
  then show ?thesis
    by (simp add: in_tenant_def attempt_def db_act_def split: prod.splits)
qed

text \<open>What the page says of a session's permissions is what the handlers' check answers in the same state.\<close>

lemma refreshed_permissions:
  assumes "refresh_permissions pid a ws = (Inr (Some a'), ws')" "ac_Role a = RoleOwner \<or> ac_Role a = RoleManager"
  shows "ac_Role a' = ac_Role a"
    "fst (ownerActorCan pid a ''can_edit_price'' ws) = Inr (Inr True) \<longleftrightarrow> ac_Role a = RoleOwner \<or> ac_CanEditPrice a'"
    "fst (ownerActorCan pid a ''can_manage_staff'' ws) = Inr (Inr True) \<longleftrightarrow> ac_Role a = RoleOwner \<or> ac_CanManageStaff a'"
    "fst (ownerActorCan pid a ''can_manage_pumps'' ws) = Inr (Inr True) \<longleftrightarrow> ac_Role a = RoleOwner \<or> ac_CanManagePumps a'"
proof -
  obtain r ws1 where run: "in_tenant pid (query_row (\<lambda>d. first_row (active_manager pid (ac_UserID a)) (db_users d))) ws = (Inr r, ws1)"
    by (cases "in_tenant pid (query_row (\<lambda>d. first_row (active_manager pid (ac_UserID a)) (db_users d))) ws")
      (auto simp: in_tenant_def attempt_def split: prod.splits)
  have roles: "RoleOwner \<noteq> RoleManager" by (simp add: RoleOwner_def RoleManager_def)
  show "ac_Role a' = ac_Role a"
    "fst (ownerActorCan pid a ''can_edit_price'' ws) = Inr (Inr True) \<longleftrightarrow> ac_Role a = RoleOwner \<or> ac_CanEditPrice a'"
    "fst (ownerActorCan pid a ''can_manage_staff'' ws) = Inr (Inr True) \<longleftrightarrow> ac_Role a = RoleOwner \<or> ac_CanManageStaff a'"
    "fst (ownerActorCan pid a ''can_manage_pumps'' ws) = Inr (Inr True) \<longleftrightarrow> ac_Role a = RoleOwner \<or> ac_CanManagePumps a'"
    using assms roles
    by (cases r; auto simp: refresh_permissions_def ownerActorCan_def permission_of_def in_tenant_query_map run bind_def ret_def
      split: sum.splits if_splits prod.splits)+
qed

section \<open>The data of the dashboard\<close>

definition actor_keys :: "string list" where
  "actor_keys = [''CSRFToken'', ''CanEditPrice'', ''CanManageStaff'', ''CanManagePumps'', ''CanGrantManagerPermissions'']"

lemma datum_append: "k \<notin> fst ` set xs \<Longrightarrow> datum (xs @ ys) k = datum ys k"
  by (simp add: datum_def map_add_def map_of_eq_None_iff [THEN iffD2])

lemma datum_shown: "datum (shown_view fid ft xs) k = shown fid ft (datum xs k)"
  by (induction xs) (auto simp: datum_def shown_view_def)

lemma shown_data:
  "jS (shown_view fid ft xs) k = (case datum xs k of JStr s \<Rightarrow> s | JUuid i \<Rightarrow> fid i | JTime t \<Rightarrow> ft t | _ \<Rightarrow> [])"
  "jB (shown_view fid ft xs) k = jB xs k" "jI (shown_view fid ft xs) k = jI xs k"
  by (cases "datum xs k"; simp add: jS_def jB_def jI_def datum_shown)+

lemma profile_keys:
  assumes "runs (loadPlantProfile pid) w profile w'"
  shows "set actor_keys \<inter> fst ` set profile = {}"
proof -
  obtain r w1 where "profile = (case r of Inl e \<Rightarrow> [] | Inr xs \<Rightarrow> xs)"
    and r: "runs (attempt (query_row (\<lambda>d. map_option profile_fields (first_row (\<lambda>p. pl_ID p = pid) (db_plants d))))) w r w1"
    using assms by (auto simp: loadPlantProfile_def loaded_def runs_bind runs_ret)
  moreover have "\<exists>p. xs = profile_fields p" if "r = Inr xs" for xs
    using r that by (auto simp: runs_attempt run_simps)
  ultimately show ?thesis
    by (cases r) (auto simp: profile_fields_def actor_keys_def split: option.splits)
qed

lemma dashboard_keys:
  assumes "in_tenant pid (loadOwnerDashboard plant) ws = (Inr (Inr data), ws')"
  shows "set actor_keys \<inter> fst ` set data = {}"
proof -
  from assms have "runs (WithTenant pid (loadOwnerDashboard plant)) (fst ws) data (fst ws')"
    by (auto simp: in_tenant_def attempt_def db_act_def runs_def split: prod.splits)
  then obtain w1 w2 where "runs (loadOwnerDashboard plant) w1 data w2" by (rule runs_WithTenant)
  then have "\<exists>today profile rest w3 w4. runs (loadPlantProfile (pl_ID plant)) w3 profile w4 \<and>
    data = plant_header plant today @ profile @ rest \<and> set actor_keys \<inter> fst ` set rest = {}"
    by (clarsimp simp only: loadOwnerDashboard_def Let_def runs_bind runs_ret case_prod_unfold)
      (intro exI conjI, assumption, rule refl, simp add: sales_fields_def actor_keys_def Let_def)
  then obtain today profile rest w3 w4 where profile: "runs (loadPlantProfile (pl_ID plant)) w3 profile w4"
    and data: "data = plant_header plant today @ profile @ rest" and rest: "set actor_keys \<inter> fst ` set rest = {}" by blast
  have "set actor_keys \<inter> fst ` set (plant_header plant today) = {}"
    by (simp add: plant_header_def actor_keys_def)
  with profile_keys [OF profile] rest show ?thesis by (simp add: data image_Un Int_Un_distrib)
qed

section \<open>Who is refused\<close>

lemma redirect_same [simp]: "redirect x = redirect y \<longleftrightarrow> x = y"
  by (simp add: redirect_def plain_def)

lemma ownerActorCan_answers: "\<exists>x. fst (ownerActorCan pid a permission ws) = Inr x"
  by (auto simp: ownerActorCan_def ret_def bind_def in_tenant_def attempt_def split: option.splits prod.splits)

lemma owner_form_refuses:
  assumes "unreadable \<noteq> denied" "\<And>ws. fst (k p a r ws) \<noteq> Inr (redirect denied)"
  shows "fst (owner_form (Some p) (Some a) permission denied unreadable k r ws) = Inr (redirect denied)
    \<longleftrightarrow> fst (ownerActorCan (pl_ID p) a permission ws) \<noteq> Inr (Inr True)"
  using assms ownerActorCan_answers [of "pl_ID p" a permission ws]
  by (auto simp: owner_form_def bind_def ret_def split: prod.splits)

lemma tenant_answer:
  "fst (bind (in_tenant pid m) (\<lambda>res. ret (redirect (case res of Inl e \<Rightarrow> f e | Inr x \<Rightarrow> g x))) ws) = Inr (redirect u)
   \<Longrightarrow> (\<exists>e. u = f e) \<or> (\<exists>x. u = g x)"
  by (auto simp: in_tenant_def attempt_def bind_def ret_def split: prod.splits sum.splits)

definition gates :: "(string \<times> ('s server \<Rightarrow> plant option \<Rightarrow> Actor option \<Rightarrow> 's handler) \<times> string \<times> string) list" where
  "gates =
     [(''/owner/prices'', ownerSetPriceHandler, ''can_edit_price'', ''/owner?error=price-permission#settings''),
      (''/owner/staff'', ownerCreateStaffHandler, ''can_manage_staff'', ''/owner?error=staff-permission#staff''),
      (''/owner/pumps'', ownerPumpHandler, ''can_manage_pumps'', ''/owner?error=pump-permission#operations''),
      (''/owner/hours'', ownerHoursHandler, ''can_manage_pumps'', ''/owner?error=pump-permission#operations'')]"

lemma gates_refuse:
  assumes "(action, handler, permission, denied) \<in> set gates"
  shows "fst (handler sv (Some p) (Some a) r ws) = Inr (redirect denied)
    \<longleftrightarrow> fst (ownerActorCan (pl_ID p) a permission ws) \<noteq> Inr (Inr True)"
proof -
  have "fst (ownerSetPriceHandler sv (Some p) (Some a) r ws) = Inr (redirect ''/owner?error=price-permission#settings'')
      \<longleftrightarrow> fst (ownerActorCan (pl_ID p) a ''can_edit_price'' ws) \<noteq> Inr (Inr True)"
    unfolding ownerSetPriceHandler_def
    by (rule owner_form_refuses; force dest: tenant_answer simp: ret_def split: option.splits if_splits)
  moreover have "fst (ownerCreateStaffHandler sv (Some p) (Some a) r ws) = Inr (redirect ''/owner?error=staff-permission#staff'')
      \<longleftrightarrow> fst (ownerActorCan (pl_ID p) a ''can_manage_staff'' ws) \<noteq> Inr (Inr True)"
    unfolding ownerCreateStaffHandler_def Let_def
    by (rule owner_form_refuses; force dest: tenant_answer split: if_splits)
  moreover have "fst (ownerPumpHandler sv (Some p) (Some a) r ws) = Inr (redirect ''/owner?error=pump-permission#operations'')
      \<longleftrightarrow> fst (ownerActorCan (pl_ID p) a ''can_manage_pumps'' ws) \<noteq> Inr (Inr True)"
    unfolding ownerPumpHandler_def bind_def [of "db_act ask_env"]
    by (rule owner_form_refuses; force dest: tenant_answer simp: ret_def db_act_def ask_env_def split: option.splits prod.splits)
  moreover have "fst (ownerHoursHandler sv (Some p) (Some a) r ws) = Inr (redirect ''/owner?error=pump-permission#operations'')
      \<longleftrightarrow> fst (ownerActorCan (pl_ID p) a ''can_manage_pumps'' ws) \<noteq> Inr (Inr True)"
    unfolding ownerHoursHandler_def by (rule owner_form_refuses; force dest: tenant_answer)
  ultimately show ?thesis using assms by (auto simp: gates_def)
qed

lemma row_refused:
  "fst (ownerStaffStatusHandler sv (Some p) (Some a) r ws) = Inr (redirect ''/owner?error=staff-permission#staff'')
    \<longleftrightarrow> fst (ownerActorCan (pl_ID p) a ''can_manage_staff'' ws) \<noteq> Inr (Inr True)"
  "fst (ownerStaffPermissionsHandler sv (Some p) (Some a) r ws) = Inr (redirect ''/owner?error=staff-permission#staff'')
    \<longleftrightarrow> ac_Role a \<noteq> RoleOwner"
proof -
  show "fst (ownerStaffStatusHandler sv (Some p) (Some a) r ws) = Inr (redirect ''/owner?error=staff-permission#staff'')
    \<longleftrightarrow> fst (ownerActorCan (pl_ID p) a ''can_manage_staff'' ws) \<noteq> Inr (Inr True)"
    unfolding ownerStaffStatusHandler_def bind_def [of "db_act ask_env"]
    by (rule owner_form_refuses; force dest: tenant_answer simp: ret_def db_act_def ask_env_def split: option.splits prod.splits if_splits)
  show "fst (ownerStaffPermissionsHandler sv (Some p) (Some a) r ws) = Inr (redirect ''/owner?error=staff-permission#staff'')
    \<longleftrightarrow> ac_Role a \<noteq> RoleOwner"
    unfolding ownerStaffPermissionsHandler_def bind_def [of "db_act ask_env"]
    by (force dest: tenant_answer simp: ret_def db_act_def ask_env_def split: option.splits prod.splits if_splits)
qed

section \<open>Offers and refusals\<close>

text \<open>
  C35: The owner dashboard that a handler sends has a submit button for each form that asks for a
  permission - prices, new staff, pumps, opening hours, and in the lines of the staff table the
  status of someone with a staff role and the permissions of a manager - exactly when the handler
  of that form, asked for anything in the state in which the page was put together, does not turn
  the session away for want of the permission: nobody is offered what will be refused for that
  reason, and nobody who is allowed is kept from it.
\<close>

theorem offered_iff_allowed:
  assumes "in_tenant (pl_ID plant) (loadOwnerDashboard plant) ws0 = (Inr (Inr data0), ws)"
    and "ownerDashboardHandler sv (Some plant) (Some a) r ws0 = (Inr resp, ws')"
    and "re_body resp = Page 200 ''OwnerDashboard'' data"
    and "ac_Role a = RoleOwner \<or> ac_Role a = RoleManager"
  shows "(\<forall>(action, handler, permission, denied) \<in> set gates.
      offers (OwnerDashboard si (shown_view fid ft data)) action
      \<longleftrightarrow> fst (handler sv (Some plant) (Some a) r' ws) \<noteq> Inr (redirect denied)) \<and>
    (\<forall>i. offers (OwnerDashboard si (shown_view fid ft data)) (status_action i)
      \<longleftrightarrow> (\<exists>row \<in> set (jL (shown_view fid ft data) ''Staff''). jS row ''ID'' = i \<and> jB row ''CanToggleActive'') \<and>
        fst (ownerStaffStatusHandler sv (Some plant) (Some a) r' ws) \<noteq> Inr (redirect ''/owner?error=staff-permission#staff'')) \<and>
    (\<forall>i. offers (OwnerDashboard si (shown_view fid ft data)) (permissions_action i)
      \<longleftrightarrow> (\<exists>row \<in> set (jL (shown_view fid ft data) ''Staff''). jS row ''ID'' = i \<and> jB row ''IsManager'') \<and>
        fst (ownerStaffPermissionsHandler sv (Some plant) (Some a) r' ws) \<noteq> Inr (redirect ''/owner?error=staff-permission#staff''))"
proof -
  obtain a' ws1 where fresh: "refresh_permissions (pl_ID plant) a ws = (Inr (Some a'), ws1)"
    and data: "data = data0 @ actor_fields sv a' @ [(''ErrorMessage'', JStr (ownerErrorMessage (hr_Query r ''error'')))]"
    using assms(1-3) by (auto simp: ownerDashboardHandler_def bind_def Let_def plain_def redirect_def with_cookies_def ret_def
      split: option.splits sum.splits prod.splits)
  have keys: "k \<notin> fst ` set data0" if "k \<in> set actor_keys" for k
    using dashboard_keys [OF assms(1)] that by blast
  have flags: "jB data ''CanEditPrice'' \<longleftrightarrow> ac_Role a' = RoleOwner \<or> ac_CanEditPrice a'"
    "jB data ''CanManageStaff'' \<longleftrightarrow> ac_Role a' = RoleOwner \<or> ac_CanManageStaff a'"
    "jB data ''CanManagePumps'' \<longleftrightarrow> ac_Role a' = RoleOwner \<or> ac_CanManagePumps a'"
    "jB data ''CanGrantManagerPermissions'' \<longleftrightarrow> ac_Role a' = RoleOwner"
    by (simp_all add: data jB_def datum_append [OF keys] actor_keys_def) (simp_all add: datum_def actor_fields_def Let_def)
  have "offers (OwnerDashboard si (shown_view fid ft data)) action
      \<longleftrightarrow> fst (ownerActorCan (pl_ID plant) a permission ws) = Inr (Inr True)"
    if "(action, permission) \<in> {(''/owner/prices'', ''can_edit_price''), (''/owner/staff'', ''can_manage_staff''),
        (''/owner/pumps'', ''can_manage_pumps''), (''/owner/hours'', ''can_manage_pumps'')}" for action permission
    using that by (auto simp: offers_dashboard shown_data flags refreshed_permissions [OF fresh assms(4)])
  note allowed = this
  have "offers (OwnerDashboard si (shown_view fid ft data)) action
      \<longleftrightarrow> fst (handler sv (Some plant) (Some a) r' ws) \<noteq> Inr (redirect denied)"
    if g: "(action, handler, permission, denied) \<in> set gates" for action handler permission denied
  proof -
    have "(action, permission) \<in> {(''/owner/prices'', ''can_edit_price''), (''/owner/staff'', ''can_manage_staff''),
        (''/owner/pumps'', ''can_manage_pumps''), (''/owner/hours'', ''can_manage_pumps'')}"
      using g by (auto simp: gates_def)
    with allowed gates_refuse [OF g] show ?thesis by simp
  qed
  then have "\<forall>(action, handler, permission, denied) \<in> set gates.
      offers (OwnerDashboard si (shown_view fid ft data)) action
      \<longleftrightarrow> fst (handler sv (Some plant) (Some a) r' ws) \<noteq> Inr (redirect denied)" by blast
  moreover have "\<forall>i. offers (OwnerDashboard si (shown_view fid ft data)) (status_action i)
      \<longleftrightarrow> (\<exists>row \<in> set (jL (shown_view fid ft data) ''Staff''). jS row ''ID'' = i \<and> jB row ''CanToggleActive'') \<and>
        fst (ownerStaffStatusHandler sv (Some plant) (Some a) r' ws) \<noteq> Inr (redirect ''/owner?error=staff-permission#staff'')"
    unfolding row_refused
    by (auto simp: offers_dashboard shown_data flags refreshed_permissions [OF fresh assms(4)])
  moreover have "\<forall>i. offers (OwnerDashboard si (shown_view fid ft data)) (permissions_action i)
      \<longleftrightarrow> (\<exists>row \<in> set (jL (shown_view fid ft data) ''Staff''). jS row ''ID'' = i \<and> jB row ''IsManager'') \<and>
        fst (ownerStaffPermissionsHandler sv (Some plant) (Some a) r' ws) \<noteq> Inr (redirect ''/owner?error=staff-permission#staff'')"
    unfolding row_refused
    by (auto simp: offers_dashboard shown_data flags refreshed_permissions [OF fresh assms(4)])
  ultimately show ?thesis by blast
qed

theorem offered_iff_allowed_witness:
  "\<exists>si data resp ws ws'. ownerDashboardHandler demo_server (Some demo_shop) (Some demo_owner) (demo_request ''GET'' ''a.gatstogo.com'' [])
       (demo_world (demo_db []), Map.empty) = (Inr resp, ws') \<and> re_body resp = Page 200 ''OwnerDashboard'' data \<and>
     offers (OwnerDashboard si (shown_view (\<lambda>i. []) (\<lambda>t. []) data)) ''/owner/prices'' \<and>
     fst (ownerSetPriceHandler demo_server (Some demo_shop) (Some demo_owner) (demo_request ''POST'' ''a.gatstogo.com'' []) ws)
       \<noteq> Inr (redirect ''/owner?error=price-permission#settings'')"
proof -
  fix si
  let ?w = "(demo_world (demo_db []), Map.empty) :: world \<times> store"
  let ?r = "demo_request ''GET'' ''a.gatstogo.com'' []"
  let ?r' = "demo_request ''POST'' ''a.gatstogo.com'' []"
  have id: "pl_ID demo_shop = 7" by (simp add: plant.defs demo_plant_def)
  have owner: "ac_Role demo_owner = RoleOwner" by (simp add: demo_owner_def)
  obtain data0 and ws :: "world \<times> store"
    where "in_tenant 7 (loadOwnerDashboard demo_shop) ?w = (Inr (Inr data0), ws)"
    using demo_dashboard [of "Map.empty :: store"] by blast
  then have load: "in_tenant (pl_ID demo_shop) (loadOwnerDashboard demo_shop) ?w = (Inr (Inr data0), ws)"
    by (simp only: id)
  define data where "data = data0 @ actor_fields demo_server demo_owner @ [(''ErrorMessage'', JStr (ownerErrorMessage []))]"
  have run: "ownerDashboardHandler demo_server (Some demo_shop) (Some demo_owner) ?r ?w =
      (Inr (plain (Page 200 ''OwnerDashboard'' data)), ws)"
    using load owner by (simp add: ownerDashboardHandler_def bind_def refresh_permissions_def RoleOwner_def RoleManager_def
      ret_def demo_request_def data_def Let_def)
  have body: "re_body (plain (Page 200 ''OwnerDashboard'' data)) = Page 200 ''OwnerDashboard'' data" by (simp add: plain_def)
  have can: "fst (ownerSetPriceHandler demo_server (Some demo_shop) (Some demo_owner) ?r' ws)
      \<noteq> Inr (redirect ''/owner?error=price-permission#settings'')"
    using gates_refuse [of "''/owner/prices''" ownerSetPriceHandler "''can_edit_price''" _ demo_server demo_shop demo_owner ?r' ws]
    by (simp add: gates_def ownerActorCan_def owner ret_def)
  with offered_iff_allowed [THEN conjunct1, OF load run body disjI1, OF owner, of si "\<lambda>i. []" "\<lambda>t. []" ?r']
  have "offers (OwnerDashboard si (shown_view (\<lambda>i. []) (\<lambda>t. []) data)) ''/owner/prices''"
    by (simp add: gates_def)
  with run body can show ?thesis by blast
qed

end
