(* ===== verification/RoundTrips.thy ===== *)
theory RoundTrips
  imports FormSpec PageFixtures
begin

text \<open>
  The forms of the dashboard show what is stored: sent back as they are shown, they ask the handler
  to store the same again.
\<close>

section \<open>A form sent as it is shown changes nothing\<close>

lemma settings_form:
  "page_forms (owner_brand_form data) =
     [\<lparr>fm_Method = ''post'', fm_Action = ''/owner/settings'', fm_Controls =
        map (\<lambda>(n, t, v). \<lparr>ct_Name = n, ct_Type = t, ct_Value = v, ct_On = False\<rparr>)
          [(''csrf_token'', ''hidden'', jS data ''CSRFToken''), (''name'', ''text'', jS data ''PlantNameValue''),
           (''city'', ''text'', jS data ''PlantCityValue''), (''phone'', ''tel'', jS data ''PlantPhoneValue''),
           (''address'', ''text'', jS data ''PlantAddressValue''),
           (''primary_color'', ''text'', jS data ''PlantPrimaryColorValue''),
           (''button_color'', ''text'', jS data ''PlantButtonColorValue''),
           (''secondary_color'', ''text'', jS data ''PlantSecondaryColorValue''),
           (''button_text_color'', ''text'', jS data ''PlantButtonTextColorValue''), (''logo'', ''file'', [])],
      fm_Submit = True\<rparr>]"
  by (simp add: owner_brand_form_def reading reading_attrs cong: if_cong)

text \<open>
  The colours that \<^verbatim>\<open>plants.Create\<close> stores have three digits or six (\<open>validHexColor\<close>); the handler
  takes six only and writes them in capital letters.
\<close>

definition colours :: "plant \<Rightarrow> string list" where
  "colours p = [pl_PrimaryColor p, pl_ButtonColor p, pl_SecondaryColor p, pl_ButtonTextColor p]"

definition three_digits :: "string \<Rightarrow> bool" where
  "three_digits c \<longleftrightarrow> validHexColor c \<and> length c = 4"

definition six_digits :: "string \<Rightarrow> bool" where
  "six_digits c \<longleftrightarrow> validHexColor c \<and> length c = 7"

lemma validHexColor_cases: "validHexColor c \<longleftrightarrow> three_digits c \<or> six_digits c"
  by (auto simp: three_digits_def six_digits_def validHexColor_def)

lemma hex_colour_trimmed:
  assumes "validHexColor c"
  shows "TrimSpace c = c"
proof -
  have ends: "\<forall>e \<in> set space_encodings. e \<noteq> [] \<and> \<not> hex_color_char (last e) \<and> hd e \<noteq> CHR ''#'' \<and> last e \<noteq> CHR ''#''"
    by code_simp
  from assms obtain ds where c: "c = CHR ''#'' # ds" "length ds = 3 \<or> length ds = 6" "list_all hex_color_char ds"
    by (cases c) (auto simp: validHexColor_def HasPrefix_def)
  then have "hex_color_char (last c)" by (cases ds) (auto simp: list_all_iff)
  with ends have "\<not> suffix e c" if "e \<in> set space_encodings" for e
    using that by (auto simp: suffix_def)
  moreover have "\<not> prefix e c" if "e \<in> set space_encodings" for e
    using bspec [OF ends that] c(1) by (cases e) auto
  ultimately have "List.find (\<lambda>e. prefix e c) space_encodings = None" "List.find (\<lambda>e. suffix e c) space_encodings = None"
    by (auto simp: find_None_iff)
  then show ?thesis
    by (simp add: TrimSpace_def space_at_def space_end_def trim_left_stop trim_right_stop)
qed

lemma ownerHexColor_stored:
  "six_digits c \<Longrightarrow> ownerHexColorOrDefault c d = Some (map upper_byte c)"
  "three_digits c \<Longrightarrow> ownerHexColorOrDefault c d = None"
proof -
  have same: "is_hex_char = hex_color_char" by (simp add: fun_eq_iff is_hex_char_def hex_color_char_def)
  have "HasPrefix c ''#'' \<and> c \<noteq> [] \<and> hd c = CHR ''#''" if "validHexColor c"
    using that by (cases c) (auto simp: validHexColor_def HasPrefix_def)
  then show "six_digits c \<Longrightarrow> ownerHexColorOrDefault c d = Some (map upper_byte c)"
    "three_digits c \<Longrightarrow> ownerHexColorOrDefault c d = None"
    using hex_colour_trimmed [of c]
    by (auto simp: ownerHexColorOrDefault_def six_digits_def three_digits_def validHexColor_def same Let_def)
qed

definition own_settings :: "Actor \<Rightarrow> plant \<Rightarrow> unit act" where
  "own_settings a p =
     settings_tx (pl_ID p) (ac_UserID a) (TrimSpace (pl_Name p)) (TrimSpace (blank (pl_City p)))
       (TrimSpace (blank (pl_Address p))) (TrimSpace (blank (pl_Phone p)))
       (map upper_byte (pl_PrimaryColor p), map upper_byte (pl_ButtonColor p), map upper_byte (pl_SecondaryColor p),
        map upper_byte (pl_ButtonTextColor p)) []"

text \<open>
  C36: The settings form of the dashboard, sent as it is shown, asks the handler to save what the
  plant already has: its own name, city, address and phone without surrounding spaces, its own
  colours in capital letters, and no logo - for every plant that has a name and whose colours have
  six digits. A colour may also be stored with three digits; then the form is refused as it
  stands. A plant without a name is refused too.
\<close>

theorem settings_form_roundtrip:
  assumes "f \<in> set (page_forms (owner_brand_form (shown_view fid ft (plant_header p today @ rest))))"
    and "sends untouched f r"
  shows "(TrimSpace (pl_Name p) \<noteq> [] \<and> list_all six_digits (colours p) \<longrightarrow>
      ownerUpdateSettingsHandler sv detect None (Some p) (Some a) r =
      bind (in_tenant (pl_ID p) (own_settings a p)) (\<lambda>res.
      ret (redirect (case res of Inl e \<Rightarrow> ''/owner?error=settings#settings'' | Inr _ \<Rightarrow> ''/owner#settings'')))) \<and>
    (TrimSpace (pl_Name p) \<noteq> [] \<and> list_all validHexColor (colours p) \<and> list_ex three_digits (colours p) \<longrightarrow>
      ownerUpdateSettingsHandler sv detect None (Some p) (Some a) r = ret (redirect ''/owner?error=color#settings'')) \<and>
    (TrimSpace (pl_Name p) = [] \<longrightarrow>
      ownerUpdateSettingsHandler sv detect None (Some p) (Some a) r = ret (redirect ''/owner?error=settings#settings''))"
proof -
  have shown: "jS (shown_view fid ft (plant_header p today @ rest)) ''PlantNameValue'' = TrimSpace (pl_Name p)"
    "jS (shown_view fid ft (plant_header p today @ rest)) ''PlantCityValue'' = TrimSpace (blank (pl_City p))"
    "jS (shown_view fid ft (plant_header p today @ rest)) ''PlantAddressValue'' = TrimSpace (blank (pl_Address p))"
    "jS (shown_view fid ft (plant_header p today @ rest)) ''PlantPhoneValue'' = TrimSpace (blank (pl_Phone p))"
    "jS (shown_view fid ft (plant_header p today @ rest)) ''PlantPrimaryColorValue'' = TrimSpace (pl_PrimaryColor p)"
    "jS (shown_view fid ft (plant_header p today @ rest)) ''PlantButtonColorValue'' = TrimSpace (pl_ButtonColor p)"
    "jS (shown_view fid ft (plant_header p today @ rest)) ''PlantSecondaryColorValue'' = TrimSpace (pl_SecondaryColor p)"
    "jS (shown_view fid ft (plant_header p today @ rest)) ''PlantButtonTextColorValue'' = TrimSpace (pl_ButtonTextColor p)"
    by (auto simp: shown_view_def jS_def datum_def plant_header_def ptrString_def blank_def split: option.splits)
  have f: "page_forms (owner_brand_form (shown_view fid ft (plant_header p today @ rest))) = [f]"
    using assms(1) by (simp add: settings_form)
  have sent: "hr_FormValue r ''name'' = TrimSpace (pl_Name p)" "hr_FormValue r ''city'' = TrimSpace (blank (pl_City p))"
    "hr_FormValue r ''address'' = TrimSpace (blank (pl_Address p))" "hr_FormValue r ''phone'' = TrimSpace (blank (pl_Phone p))"
    "hr_FormValue r ''primary_color'' = TrimSpace (pl_PrimaryColor p)" "hr_FormValue r ''button_color'' = TrimSpace (pl_ButtonColor p)"
    "hr_FormValue r ''secondary_color'' = TrimSpace (pl_SecondaryColor p)"
    "hr_FormValue r ''button_text_color'' = TrimSpace (pl_ButtonTextColor p)"
    using assms(2) f by (auto simp: settings_form shown sends_def untouched_def)
  have ok: "hr_form_ok r" using assms(2) by (simp add: sends_def)
  have colour: "ownerHexColorOrDefault (TrimSpace c) d = (if six_digits c then Some (map upper_byte c) else None)"
    if "validHexColor c" for c d
    using that ownerHexColor_stored [of c d] hex_colour_trimmed [OF that] validHexColor_cases [of c] by auto
  note handler = ownerUpdateSettingsHandler_def own_settings_def form_def sent ok Let_def
    save_optional_logo_def bind_def attempt_def db_act_def ret_def fun_eq_iff
  have six: "six_digits c \<Longrightarrow> validHexColor c" "three_digits c \<Longrightarrow> \<not> six_digits c" for c
    by (simp_all add: six_digits_def three_digits_def)
  show ?thesis
    by (intro conjI impI) (auto simp: handler colours_def colour six)
qed

theorem settings_form_roundtrip_witness:
  "\<exists>f r. f \<in> set (page_forms (owner_brand_form (shown_view (\<lambda>i. []) (\<lambda>t. []) (plant_header demo_branded [] @ [])))) \<and>
     sends untouched f r \<and>
     ownerUpdateSettingsHandler demo_server (\<lambda>b. []) None (Some demo_branded) (Some demo_owner) r =
      bind (in_tenant (pl_ID demo_branded) (own_settings demo_owner demo_branded)) (\<lambda>res.
      ret (redirect (case res of Inl e \<Rightarrow> ''/owner?error=settings#settings'' | Inr _ \<Rightarrow> ''/owner#settings'')))"
proof -
  let ?ns = "owner_brand_form (shown_view (\<lambda>i. []) (\<lambda>t. []) (plant_header demo_branded [] @ []))"
  obtain f where f: "page_forms ?ns = [f]" "fm_Method f = ''post''" by (simp add: settings_form)
  define r where "r = (demo_request ''POST'' ''a.gatstogo.com'' [])
    \<lparr>hr_form_ok := True, hr_Header := (\<lambda>_. []), hr_FormValue := first_value (entries untouched (fm_Controls f))\<rparr>"
  have sent: "sends untouched f r" using f by (simp add: sends_def untouched_admissible r_def)
  have mine: "f \<in> set (page_forms ?ns)" by (simp only: f(1) list.set insertI1)
  have "TrimSpace (pl_Name demo_branded) \<noteq> [] \<and> list_all six_digits (colours demo_branded)" by code_simp
  with settings_form_roundtrip [OF mine sent, of demo_server "\<lambda>b. []" demo_owner] mine sent
  show ?thesis by blast
qed

section \<open>The choice of a select\<close>

lemma index_of_found: "v \<in> fst ` set os \<Longrightarrow> index_of k os v \<noteq> None"
  by (induction os arbitrary: k) auto

lemma filter_upt: "filter (\<lambda>i. i = n) [0..<m] = (if n < m then [n] else [])"
  by (induction m) auto

lemma list_ex_filter: "list_ex P xs \<longleftrightarrow> filter P xs \<noteq> []"
  by (induction xs) auto

lemma chosen_at:
  assumes "n < length os"
  shows "chosen (map (\<lambda>p. (fst (snd p), fst p = n)) (enumerate 0 os)) = fst (os ! n)"
proof -
  have "enumerate 0 os = map (\<lambda>i. (i, os ! i)) [0..<length os]"
    by (rule nth_equalityI) (simp_all add: nth_enumerate_eq)
  then have "filter snd (map (\<lambda>p. (fst (snd p), fst p = n)) (enumerate 0 os)) = [(fst (os ! n), True)]"
    using assms by (simp add: filter_map o_def filter_upt)
  moreover from this have "list_ex snd (map (\<lambda>p. (fst (snd p), fst p = n)) (enumerate 0 os))"
    by (simp add: list_ex_filter)
  ultimately show ?thesis by (simp add: chosen_def)
qed

lemma if_bool: "(if c then True else False) \<longleftrightarrow> c"
  by simp

lemma attr_set_pieces [reading]:
  "attr_set k (as @ bs) \<longleftrightarrow> attr_set k as \<or> attr_set k bs" "attr_set k [] \<longleftrightarrow> False"
  "attr_set k (a # as) \<longleftrightarrow> attr_name a = k \<or> attr_set k as"
  "attr_set k (if c then as else bs) \<longleftrightarrow> (if c then attr_set k as else attr_set k bs)"
  by (simp_all add: attr_set_def)

lemma themedSelect_controls [reading]:
  assumes "v \<noteq> []" "v \<in> fst ` set os"
  shows "page_controls (themedSelect n os v) = [\<lparr>ct_Name = n, ct_Type = ''select'', ct_Value = v, ct_On = False\<rparr>]"
proof -
  let ?n = "themedSelectIndexOf os v"
  obtain i where i: "index_of 0 os v = Some i" using index_of_found [OF assms(2), of 0] by auto
  then have n: "?n = i" "i < length os" "fst (os ! i) = v"
    using assms(1) index_of_value [OF i] by (auto simp: themedSelectIndexOf_def)
  show ?thesis
    using chosen_at [OF n(2)] n
    by (simp add: themedSelect_def themed_select_shell_def Let_def reading attr_or_def named_def case_prod_unfold if_bool cong: if_cong)
qed

lemma pump_form:
  assumes "jS row ''StatusRaw'' \<in> {''working'', ''not_working'', ''maintenance''}"
  shows "page_forms (owner_pump_form data row) =
     [\<lparr>fm_Method = ''post'', fm_Action = ''/owner/pumps'', fm_Controls =
        map (\<lambda>(n, t, v). \<lparr>ct_Name = n, ct_Type = t, ct_Value = v, ct_On = False\<rparr>)
          [(''csrf_token'', ''hidden'', jS data ''CSRFToken''), (''id'', ''hidden'', jS row ''ID''), (''name'', ''text'', jS row ''Name''),
           (''sort_order'', ''number'', itoa (jI row ''SortOrder'')), (''status'', ''select'', jS row ''StatusRaw'')],
      fm_Submit = jB data ''CanManagePumps''\<rparr>]"
  using assms by (auto simp: owner_pump_form_def reading reading_attrs)

section \<open>A pump's form\<close>

lemma digits_trimmed:
  assumes "list_all is_digit s"
  shows "TrimSpace s = s"
proof -
  have "\<forall>e \<in> set space_encodings. e \<noteq> [] \<and> \<not> is_digit (hd e)"
    by (simp add: space_encodings_def is_digit_def byte_def)
  then have "\<not> prefix e s \<and> \<not> suffix e s" if "e \<in> set space_encodings" for e
    using that assms set_mono_prefix [of e s] set_mono_suffix [of e s] by (force simp: list_all_iff)
  then have "List.find (\<lambda>e. prefix e s) space_encodings = None" "List.find (\<lambda>e. suffix e s) space_encodings = None"
    by (auto simp: find_None_iff)
  then show ?thesis
    by (simp add: TrimSpace_def space_at_def space_end_def trim_left_stop trim_right_stop)
qed

lemma atoi_itoa:
  assumes "0 \<le> n" "n < 2 ^ 63"
  shows "TrimSpace (itoa n) = itoa n" "atoi_or_0 (itoa n) = n"
proof -
  have d: "itoa n \<noteq> []" "list_all is_digit (itoa n)" "digits_value (itoa n) = n"
    using dec_of_digits [of "nat n"] assms(1) by (simp_all add: itoa_def digits_value_def digits_int_def digit_value_def)
  then show "TrimSpace (itoa n) = itoa n" by (simp add: digits_trimmed)
  obtain c s where "itoa n = c # s" using d(1) by (cases "itoa n") auto
  moreover have "c \<noteq> CHR ''-''" "c \<noteq> CHR ''+''"
    using d(2) calculation by (auto simp: is_digit_def byte_def)
  ultimately show "atoi_or_0 (itoa n) = n"
    using d assms by (simp add: atoi_or_0_def Atoi_value_def)
qed

text \<open>
  C37: A pump's row on the dashboard, sent as it is shown, sets the pump to what it is: its own
  identifier, name, status and order are the arguments of the handler's transaction. The status
  is the option that the select starts with.
\<close>
theorem pump_form_roundtrip:
  assumes "Dashboard.owner_pump_row pm = JObj row"
    and "f \<in> set (page_forms (owner_pump_form data (shown_view fid ft row)))" "sends untouched f r"
    and "pm_Status pm \<in> {''working'', ''not_working'', ''maintenance''}" "pm_Name pm \<noteq> []" "TrimSpace (pm_Name pm) = pm_Name pm"
    and "0 \<le> pm_SortOrder pm" "pm_SortOrder pm < 2 ^ 63"
    and "ownerActorCan (pl_ID p) a ''can_manage_pumps'' ws = (Inr (Inr True), ws1)"
    and "fid (pm_ID pm) \<noteq> []" "TrimSpace (fid (pm_ID pm)) = fid (pm_ID pm)"
    and "e_uuid_parse (w_env (fst ws1)) (fid (pm_ID pm)) = Some (pm_ID pm)"
  shows "ownerPumpHandler sv (Some p) (Some a) r ws =
      bind (in_tenant (pl_ID p) (ownerPump_tx (pl_ID p) (ac_UserID a) (Some (pm_ID pm)) (pm_Name pm) (pm_Status pm) (pm_SortOrder pm)))
        (\<lambda>res. ret (redirect (case res of Inl e \<Rightarrow> ''/owner?error=pump#operations'' | Inr _ \<Rightarrow> ''/owner#operations''))) ws1"
proof -
  have shown: "jS (shown_view fid ft row) ''ID'' = fid (pm_ID pm)" "jS (shown_view fid ft row) ''Name'' = pm_Name pm"
    "jS (shown_view fid ft row) ''StatusRaw'' = pm_Status pm" "jI (shown_view fid ft row) ''SortOrder'' = pm_SortOrder pm"
    using assms(1) [symmetric] assms(5, 6)
    by (simp_all add: Dashboard.owner_pump_row_def shown_view_def jS_def jI_def datum_def fallbackString_def)
  have "page_forms (owner_pump_form data (shown_view fid ft row)) = [f]"
    using assms(2, 4) by (simp add: pump_form shown)
  then have sent: "hr_FormValue r ''id'' = fid (pm_ID pm)" "hr_FormValue r ''name'' = pm_Name pm"
    "hr_FormValue r ''status'' = pm_Status pm" "hr_FormValue r ''sort_order'' = itoa (pm_SortOrder pm)" "hr_form_ok r"
    using assms(3, 4) by (auto simp: pump_form shown sends_def untouched_def)
  have request: "Http.form r ''id'' = fid (pm_ID pm)" "atoi_or_0 (Http.form r ''sort_order'') = pm_SortOrder pm"
    using assms(7, 8, 11) by (simp_all add: form_def sent atoi_itoa)
  have run: "bind (ownerActorCan (pl_ID p) a ''can_manage_pumps'') k ws = k (Inr True) ws1" for k :: "go_err + bool \<Rightarrow> ('a, response) hact"
    using assms(9) by (simp add: bind_def)
  have env: "bind (db_act ask_env) k ws1 = k (w_env (fst ws1)) ws1" for k :: "env \<Rightarrow> ('a, response) hact"
    by (simp add: bind_def db_act_def ask_env_def)
  show ?thesis
    using assms(10, 12) by (simp add: ownerPumpHandler_def owner_form_def run env request sent optional_uuid_def)
qed

theorem pump_form_roundtrip_witness:
  "\<exists>row f r. Dashboard.owner_pump_row demo_pump_shown = JObj row \<and>
     f \<in> set (page_forms (owner_pump_form [] (shown_view (e_uuid_str demo_env) (\<lambda>t. []) row))) \<and> sends untouched f r \<and>
     ownerPumpHandler demo_server (Some demo_branded) (Some demo_owner) r (demo_world (demo_db []), Map.empty) =
       bind (in_tenant (pl_ID demo_branded) (ownerPump_tx (pl_ID demo_branded) (ac_UserID demo_owner) (Some 40) ''P'' ''working'' 1))
        (\<lambda>res. ret (redirect (case res of Inl e \<Rightarrow> ''/owner?error=pump#operations'' | Inr _ \<Rightarrow> ''/owner#operations'')))
        (demo_world (demo_db []), Map.empty)"
proof -
  obtain row where row: "Dashboard.owner_pump_row demo_pump_shown = JObj row" by (simp add: Dashboard.owner_pump_row_def)
  let ?ns = "owner_pump_form [] (shown_view (e_uuid_str demo_env) (\<lambda>t. []) row)"
  have "jS (shown_view (e_uuid_str demo_env) (\<lambda>t. []) row) ''StatusRaw'' = ''working''"
    using row [symmetric] by (simp add: Dashboard.owner_pump_row_def demo_pump_shown_def shown_view_def jS_def datum_def)
  then obtain f where f: "page_forms ?ns = [f]" "fm_Method f = ''post''" by (simp add: pump_form)
  define r where "r = (demo_request ''POST'' ''a.gatstogo.com'' [])
    \<lparr>hr_form_ok := True, hr_Header := (\<lambda>_. []), hr_FormValue := first_value (entries untouched (fm_Controls f))\<rparr>"
  have sent: "sends untouched f r" using f by (simp add: sends_def untouched_admissible r_def)
  have mine: "f \<in> set (page_forms ?ns)" by (simp only: f(1) list.set insertI1)
  have pump: "pm_ID demo_pump_shown = 40" "pm_Name demo_pump_shown = ''P''" "pm_Status demo_pump_shown = ''working''"
    "pm_SortOrder demo_pump_shown = 1"
    by (simp_all add: demo_pump_shown_def)
  have can: "ownerActorCan (pl_ID demo_branded) demo_owner ''can_manage_pumps'' ws = (Inr (Inr True), ws)" for ws :: "world \<times> store"
    by (simp add: ownerActorCan_def demo_owner_def ret_def)
  have "TrimSpace ''P'' = ''P''" "TrimSpace (e_uuid_str demo_env 40) = e_uuid_str demo_env 40" by code_simp+
  with pump_form_roundtrip [OF row mine sent, of demo_branded demo_owner _ _ demo_server, OF _ _ _ _ _ can] row mine sent pump
  show ?thesis by fastforce
qed

end
