(* ===== verification/SealedPages.thy ===== *)
theory SealedPages
  imports PageParts MarketingPages CustomerPages OwnerPages AdminPages
begin

text \<open>
  What a page lets its data do. A page is sealed when what it takes from its data can only become
  text and quoted values: the names of its elements and attributes are those of the template, no
  event handler or directive of Alpine has a value out of the data (save the number that starts the
  buyer's form), no such value is the target of a link or a form unless \<^verbatim>\<open>templ\<close> has sanitized it,
  and what is passed on as a safe URL starts like one.
\<close>

section \<open>Sealed nodes\<close>

text \<open>Attributes whose value a browser, or Alpine, runs.\<close>

definition live_name :: "string \<Rightarrow> bool" where
  "live_name n \<longleftrightarrow> take 2 n \<in> {''on'', ''x-''} \<or> take 1 n \<in> {''@'', '':''}"

definition anchored :: "string \<Rightarrow> bool" where
  "anchored url \<longleftrightarrow> take 1 url = ''/'' \<or> take 8 url = ''https://'' \<or> take 7 url = ''mailto:''"

fun sealed_attr :: "attr \<Rightarrow> bool" where
  "sealed_attr (At n v) \<longleftrightarrow> True"
| "sealed_attr (Av n v) \<longleftrightarrow> n \<notin> {''href'', ''action'', ''formaction'', ''style''} \<and>
     (live_name n \<longrightarrow> n = ''x-data'' \<and> (\<exists>k. v = buyGasAlpineInit k))"
| "sealed_attr (Asafe n v) \<longleftrightarrow> \<not> live_name n \<and> anchored v"
| "sealed_attr (Aurl n v) \<longleftrightarrow> \<not> live_name n"
| "sealed_attr _ \<longleftrightarrow> True"

fun sealed :: "node \<Rightarrow> bool" where
  "sealed (El t as ks) \<longleftrightarrow> clean (El t as []) \<and> list_all sealed_attr as \<and> (\<forall>k \<in> set ks. sealed k)"
| "sealed k \<longleftrightarrow> clean k"

definition sealed_page :: "node list \<Rightarrow> bool" where
  "sealed_page ns \<longleftrightarrow> (\<forall>k \<in> set ns. sealed k)"

lemma sealed_clean: "sealed k \<Longrightarrow> clean k"
  by (induction k rule: sealed.induct) auto

lemma sealed_clean_page: "sealed_page ns \<Longrightarrow> clean_page ns"
  by (auto simp: sealed_page_def clean_page_def intro: sealed_clean)

named_theorems sealing

lemma sealed_pieces [sealing]:
  "sealed_page []" "sealed_page (xs @ ys) \<longleftrightarrow> sealed_page xs \<and> sealed_page ys"
  "sealed_page (concat (map f zs)) \<longleftrightarrow> (\<forall>z \<in> set zs. sealed_page (f z))"
  "sealed_page (map g zs) \<longleftrightarrow> (\<forall>z \<in> set zs. sealed_page [g z])"
  "sealed_page (if c then xs else ys) \<longleftrightarrow> (if c then sealed_page xs else sealed_page ys)"
  "sealed_page (El t as ks # ns) \<longleftrightarrow>
     plain_name t \<and> list_all clean_attr as \<and> list_all sealed_attr as \<and> sealed_page ks \<and> sealed_page ns"
  "sealed_page (Raw s # ns) \<longleftrightarrow> list_all (\<lambda>c. c \<noteq> lt_sign) s \<and> sealed_page ns"
  "sealed_page (Text s # ns) \<longleftrightarrow> sealed_page ns" "sealed_page (Doctype # ns) \<longleftrightarrow> sealed_page ns"
  "sealed_page (JSONScript i j # ns) \<longleftrightarrow> sealed_page ns"
  by (auto simp: sealed_page_def)

lemma list_all_if: "list_all P (if c then xs else ys) \<longleftrightarrow> (if c then list_all P xs else list_all P ys)"
  by simp

lemma anchored_URLs:
  "anchored (helpCategoryURL c)" "anchored (helpArticleURL c a)" "anchored socialXURL" "anchored socialFacebookURL"
  "anchored buyerShareURL" "anchored verifyCACURL" "anchored verifyNMDPRAURL" "anchored paystackSubaccURL"
  by (simp_all add: anchored_def helpCategoryURL_def helpArticleURL_def socialXURL_def socialFacebookURL_def buyerShareURL_def
    verifyCACURL_def verifyNMDPRAURL_def paystackSubaccURL_def)

lemma anchored_starts:
  "anchored (CHR ''/'' # s)" "anchored (''mailto:'' @ s)" "anchored (''https://'' @ s)"
  by (simp_all add: anchored_def)

lemma sealed_start: "\<exists>k'. buyGasAlpineInit k = buyGasAlpineInit k'"
  by blast

lemmas [sealing] = list_all_if anchored_URLs anchored_starts [simplified] sealed_start live_name_def plain_name_def lt_sign_def
  gt_sign_def dquote_def text_chars Let_def case_prod_unfold

section \<open>The parts and the pages\<close>

lemma BrandFavicons_sealed [sealing]: "sealed_page BrandFavicons"
  by (simp add: BrandFavicons_def sealing cong: if_cong)

lemma BrandMark_sealed [sealing]: "sealed_page (BrandMark className variant alt)"
  by (simp add: BrandMark_def sealing cong: if_cong)

lemma Icon_sealed [sealing]: "sealed_page (Icon name)"
  by (simp add: Icon_def sealing cong: if_cong)

lemma layouts_Base_sealed [sealing]: "sealed_page content \<Longrightarrow> sealed_page (layouts_Base si title plant content)"
  by (simp add: layouts_Base_def sealing cong: if_cong)

lemma pages_Dashboard_sealed [sealing]: "sealed_page (pages_Dashboard si plant)"
  by (simp add: pages_Dashboard_def dashboardContent_def PlantSummary_def summary_list_def sealing cong: if_cong)

lemma marketingPageShell_sealed [sealing]: "sealed_page content \<Longrightarrow> sealed_page (marketingPageShell si title content)"
  by (simp add: marketingPageShell_def marketingHeader_def marketingFooter_def sealing cong: if_cong)

lemma accountResolveScript_sealed [sealing]: "sealed_page accountResolveScript"
  by (simp add: accountResolveScript_def sealing cong: if_cong)

lemma splashOverlay_sealed [sealing]: "sealed_page splashOverlay"
  by (simp add: splashOverlay_def sealing cong: if_cong)

lemma authShell_sealed [sealing]: "anchored action \<Longrightarrow> sealed_page (authShell si title heading errorMsg action csrfToken)"
  by (simp add: authShell_def auth_head_def auth_body_def sealing cong: if_cong)

lemma navButton_sealed [sealing]: "sealed_page (navButton active tab icon label)"
  by (simp add: navButton_def sealing cong: if_cong)

lemma emptyState_sealed [sealing]: "sealed_page (emptyState lottie message)"
  by (simp add: emptyState_def sealing cong: if_cong)

lemma kpiLabel_sealed [sealing]: "sealed_page (kpiLabel icon label)"
  by (simp add: kpiLabel_def sealing cong: if_cong)

lemma themedSelect_sealed [sealing]: "sealed_page (themedSelect name options selected)"
  by (simp add: themedSelect_def themed_select_shell_def sealing cong: if_cong)

lemma plantStatusForm_sealed [sealing]: "sealed_page (plantStatusForm plantID newStatus label csrfToken confirm)"
  by (simp add: plantStatusForm_def status_form_def sealing cong: if_cong)

lemma verifyValue_sealed [sealing]: "anchored verifyURL \<Longrightarrow> sealed_page (verifyValue value verifyURL verifyLabel)"
  by (simp add: verifyValue_def sealing cong: if_cong)

lemma ops_body_sealed [sealing]: "sealed_page nav \<Longrightarrow> sealed_page content \<Longrightarrow> anchored logoutAction \<Longrightarrow> sealed_page (ops_body railLabel nav content logoutAction csrfToken mobileTitle mobileSub)"
  by (simp add: ops_body_def sealing cong: if_cong)

lemma opsShell_sealed [sealing]: "sealed_page nav \<Longrightarrow> sealed_page content \<Longrightarrow> anchored logoutAction \<Longrightarrow> sealed_page (opsShell si title railLabel nav content logoutAction csrfToken mobileTitle mobileSub)"
  by (simp add: opsShell_def ops_head_def sealing cong: if_cong)

lemma customerBrand_sealed [sealing]: "sealed_page (customerBrand theme)"
  by (simp add: customerBrand_def sealing cong: if_cong)

lemma customerPageShell_sealed [sealing]: "sealed_page content \<Longrightarrow> sealed_page (customerPageShell si theme title content)"
  by (simp add: customerPageShell_def siteFooter_def sealing cong: if_cong)

lemma socialLinks_sealed [sealing]: "sealed_page (socialLinks heading)"
  by (simp add: socialLinks_def sealing cong: if_cong)

lemma NotFound_sealed [sealing]: "sealed_page (NotFound si)"
  by (simp add: NotFound_def sealing cong: if_cong)

lemma Landing_sealed [sealing]: "sealed_page (Landing si)"
  by (simp add: Landing_def landingContent_def sealing cong: if_cong)

lemma About_sealed [sealing]: "sealed_page (About si contactEmail)"
  by (simp add: About_def aboutContent_def sealing cong: if_cong)

lemma Pricing_sealed [sealing]: "sealed_page (Pricing si)"
  by (simp add: Pricing_def pricingContent_def pricing_plan_section_def pricing_questions_def sealing cong: if_cong)

lemma TermsOfService_sealed [sealing]: "sealed_page (TermsOfService si)"
  by (simp add: TermsOfService_def termsContent_def sealing cong: if_cong)

lemma PrivacyPolicy_sealed [sealing]: "sealed_page (PrivacyPolicy si)"
  by (simp add: PrivacyPolicy_def privacyContent_def sealing cong: if_cong)

lemma spotsBanner_sealed [sealing]: "sealed_page (spotsBanner kind claimed spots emptyTitle emptyText liveLabel fullText)"
  by (simp add: spotsBanner_def spots_banner_empty_def spots_banner_full_def spots_banner_open_def sealing cong: if_cong)

lemma pages_Signup_sealed [sealing]: "sealed_page (pages_Signup si data)"
  by (simp add: pages_Signup_def signupContent_def signup_submitted_def signup_buyer_panel_def
    signup_owner_panel_def signup_owner_form_def signup_plant_fields_def signup_business_fields_def
    signup_brand_fields_def sealing cong: if_cong)

lemma PlantUnderReview_sealed [sealing]: "anchored appBaseURL \<Longrightarrow> sealed_page (PlantUnderReview si name appBaseURL)"
  by (simp add: PlantUnderReview_def plantUnderReviewContent_def sealing cong: if_cong)

lemma LoginFinder_sealed [sealing]: "sealed_page (LoginFinder si input errorMsg)"
  by (simp add: LoginFinder_def loginFinderContent_def sealing cong: if_cong)

lemma Contact_sealed [sealing]: "sealed_page (Contact si contactEmail)"
  by (simp add: Contact_def contactContent_def sealing cong: if_cong)

lemma helpContactBand_sealed [sealing]: "sealed_page (helpContactBand contactEmail)"
  by (simp add: helpContactBand_def sealing cong: if_cong)

lemma Help_sealed [sealing]: "sealed_page (Help si contactEmail)"
  by (simp add: Help_def helpHub_def helpCategoryTile_def helpSearchScript_def sealing cong: if_cong)

lemma helpSidebar_sealed [sealing]: "sealed_page (helpSidebar currentCategory currentArticle)"
  by (simp add: helpSidebar_def sidebar_category_def sealing cong: if_cong)

lemma HelpCategoryPage_sealed [sealing]: "sealed_page (HelpCategoryPage si c contactEmail)"
  by (simp add: HelpCategoryPage_def helpCategoryContent_def sealing cong: if_cong)

lemma HelpArticlePage_sealed [sealing]: "sealed_page (HelpArticlePage si c a contactEmail)"
  by (simp add: HelpArticlePage_def helpArticleContent_def article_hc_body_def helpFeedbackScript_def sealing cong: if_cong split: HelpBlock.splits)

lemma CustomerHome_sealed [sealing]: "sealed_page (CustomerHome si plant pricePerKgKobo csrfToken errorMsg isOpen hoursLabel)"
  by (simp add: CustomerHome_def customerHomeContent_def buy_form_col_def buy_summary_col_def sealing cong: if_cong)

lemma CustomerReceipts_sealed [sealing]: "sealed_page (CustomerReceipts si plant data)"
  by (simp add: CustomerReceipts_def customerReceiptsContent_def receiptsListView_def receipts_column_def
    receiptDetailView_def receipt_detail_top_def receipt_detail_rows_def receipt_detail_actions_def
    receiptsVerifyView_def receiptsLookupView_def sealing cong: if_cong)

lemma PlantReview_sealed [sealing]: "sealed_page (PlantReview si plant data)"
  by (simp add: PlantReview_def plantReviewContent_def review_done_def review_entry_def sealing cong: if_cong)

lemma TicketConfirmation_sealed [sealing]: "sealed_page (TicketConfirmation si plant paid code amount sizeKg pump)"
  by (simp add: TicketConfirmation_def ticketConfirmationContent_def confirmation_view_def sealing cong: if_cong)

lemma StaffTerminal_sealed [sealing]: "sealed_page (StaffTerminal si plant init)"
  by (simp add: StaffTerminal_def sealing cong: if_cong)

lemma OwnerLogin_sealed [sealing]: "sealed_page (OwnerLogin si plantName errorMsg csrfToken)"
  by (simp add: OwnerLogin_def sealing cong: if_cong)

lemma OwnerForgotPassword_sealed [sealing]: "sealed_page (OwnerForgotPassword si plantName errorMsg submitted csrfToken)"
  by (simp add: OwnerForgotPassword_def forgot_page_def sealing cong: if_cong)

lemma OwnerResetPassword_sealed [sealing]: "sealed_page (OwnerResetPassword si plantName errorMsg token tokenValid csrfToken)"
  by (simp add: OwnerResetPassword_def reset_head_def reset_body_def sealing cong: if_cong)

lemma OwnerChangePassword_sealed [sealing]: "sealed_page (OwnerChangePassword si plantName errorMsg done' csrfToken)"
  by (simp add: OwnerChangePassword_def change_head_def change_account_body_def passwordInput_def sealing cong: if_cong)

lemma owner_operations_panel_sealed [sealing]: "sealed_page (owner_operations_panel data)"
  by (simp add: owner_operations_panel_def owner_cash_drawer_def owner_hours_section_def owner_hours_form_def
    owner_hours_table_def owner_day_row_def owner_pumps_section_def owner_pump_form_def
    owner_shift_register_def owner_register_row_def sealing cong: if_cong)

lemma ownerDashboardContent_sealed [sealing]: "sealed_page (ownerDashboardContent data)"
  by (simp add: ownerDashboardContent_def owner_topline_def owner_overview_panel_def owner_overview_kpis_def
    owner_overview_grid_def owner_sales_panel_def owner_sales_table_def owner_sale_row_def
    owner_reviews_panel_def owner_review_kpis_def owner_reviews_table_def owner_staff_panel_def
    owner_staff_table_def owner_access_row_def owner_staff_permissions_def owner_staff_chips_def
    owner_staff_actions_def owner_add_staff_def owner_settings_panel_def owner_settings_price_def
    owner_brand_form_def brandColorField_def owner_settings_account_def sealing cong: if_cong)

lemma OwnerDashboard_sealed [sealing]: "sealed_page (OwnerDashboard si data)"
  by (simp add: OwnerDashboard_def ownerNav_def sealing cong: if_cong)

lemma AdminLogin_sealed [sealing]: "sealed_page (AdminLogin si errorMsg csrfToken)"
  by (simp add: AdminLogin_def sealing cong: if_cong)

lemma AdminConsole_sealed [sealing]: "sealed_page (AdminConsole si data)"
  by (simp add: AdminConsole_def adminNav_def adminConsoleContent_def console_topline_def console_overview_panel_def
    console_overview_kpis_def console_overview_grid_def console_applications_panel_def
    console_application_row_def console_application_cell_def console_plants_panel_def console_plant_row_def
    console_plant_cell_def console_domain_cell_def console_health_cell_def console_plant_actions_def
    console_activity_panel_def sealing cong: if_cong)

lemma AdminPlantDetail_sealed [sealing]: "sealed_page (AdminPlantDetail si data)"
  by (simp add: AdminPlantDetail_def adminNavLinks_def navLink_def adminPlantDetailContent_def detail_topline_def
    detail_kpi_row_def detail_payout_section_def detail_record_section_def detail_messaging_section_def
    sealing cong: if_cong)

section \<open>Every page\<close>

text \<open>The pages with whatever arguments they are given.\<close>

inductive site_page :: "site \<Rightarrow> node list \<Rightarrow> bool" for si where
  dashboard_page: "site_page si (pages_Dashboard si plant)"
| not_found: "site_page si (NotFound si)"
| landing: "site_page si (Landing si)"
| about: "site_page si (About si contactEmail)"
| pricing: "site_page si (Pricing si)"
| terms_of_service: "site_page si (TermsOfService si)"
| privacy_policy: "site_page si (PrivacyPolicy si)"
| signup: "site_page si (pages_Signup si data)"
| plant_under_review: "anchored appBaseURL \<Longrightarrow> site_page si (PlantUnderReview si name appBaseURL)"
| login_finder: "site_page si (LoginFinder si input errorMsg)"
| contact: "site_page si (Contact si contactEmail)"
| help_page: "site_page si (Help si contactEmail)"
| help_category_page: "site_page si (HelpCategoryPage si c contactEmail)"
| help_article_page: "site_page si (HelpArticlePage si c a contactEmail)"
| customer_home: "site_page si (CustomerHome si plant pricePerKgKobo csrfToken errorMsg isOpen hoursLabel)"
| customer_receipts: "site_page si (CustomerReceipts si plant data)"
| plant_review: "site_page si (PlantReview si plant data)"
| ticket_confirmation: "site_page si (TicketConfirmation si plant paid code amount sizeKg pump)"
| staff_terminal: "site_page si (StaffTerminal si plant init)"
| owner_login: "site_page si (OwnerLogin si plantName errorMsg csrfToken)"
| owner_forgot_password: "site_page si (OwnerForgotPassword si plantName errorMsg submitted csrfToken)"
| owner_reset_password: "site_page si (OwnerResetPassword si plantName errorMsg token tokenValid csrfToken)"
| owner_change_password: "site_page si (OwnerChangePassword si plantName errorMsg done' csrfToken)"
| owner_dashboard: "site_page si (OwnerDashboard si data)"
| admin_login: "site_page si (AdminLogin si errorMsg csrfToken)"
| admin_console: "site_page si (AdminConsole si data)"
| admin_plant_detail: "site_page si (AdminPlantDetail si data)"

lemma site_page_sealed: "site_page si ns \<Longrightarrow> sealed_page ns"
  by (induction rule: site_page.induct) (simp_all add: sealing)

text \<open>An escaping as \<^verbatim>\<open>html.EscapeString\<close> does it.\<close>

definition html_escape :: "string \<Rightarrow> string" where
  "html_escape s = concat (map (\<lambda>c. if c = lt_sign then ''&lt;'' else if c = gt_sign then ''&gt;''
     else if c = dquote then ''&#34;'' else if c = CHR 0x27 then ''&#39;'' else if c = CHR ''&'' then ''&amp;'' else [c]) s)"

definition demo_runtime :: templ_runtime where
  "demo_runtime = \<lparr>tm_EscapeString = html_escape, tm_ResolveAttributeValue = html_escape, tm_URL = (\<lambda>s. s),
     tm_CSSClasses = (\<lambda>cs. concat (map fst cs)), tm_Style = (\<lambda>s. s), tm_JSON = (\<lambda>j. [])\<rparr>"

lemma html_escape_quiet: "lt_sign \<notin> set (html_escape s)" "dquote \<notin> set (html_escape s)"
  by (induction s) (auto simp: html_escape_def lt_sign_def dquote_def gt_sign_def)

lemma escapes_demo: "escapes demo_runtime"
  by (simp add: escapes_def demo_runtime_def html_escape_quiet)

text \<open>
  C39: Data stays data. On every page, with any data whatever, a browser finds in the bytes that are
  sent exactly the tags of the template: no name, note, phone number or message adds an element,
  closes one or adds an attribute. And no value out of the data is where a browser or Alpine would
  run it, or is the target of a link or a form as a safe URL without starting like one.
\<close>
theorem data_stays_data:
  assumes "site_page si ns" "escapes rt"
  shows "scan InText (render_page rt ns) = page_tags ns \<and> sealed_page ns"
  using site_page_sealed [OF assms(1)] scan_page [OF assms(2) sealed_clean_page] by blast

lemma data_stays_data_witness:
  "scan InText (render_page demo_runtime (OwnerLogin \<lparr>si_AppBaseDomain = ''d'', si_Version = ''v'', si_Year = 2026\<rparr>
      (lt_sign # ''script'' @ [gt_sign]) (dquote # ''onclick'') ''t''))
   = page_tags (OwnerLogin \<lparr>si_AppBaseDomain = ''d'', si_Version = ''v'', si_Year = 2026\<rparr>
      (lt_sign # ''script'' @ [gt_sign]) (dquote # ''onclick'') ''t'')"
  using data_stays_data [OF site_page.owner_login escapes_demo] by blast

end
