(* ===== verification/LinkSpec.thy ===== *)
theory LinkSpec
  imports FormSpec AccessFixtures
begin

text \<open>
  Where the links of the pages lead. A host of the marketing site and one of a plant answer
  different routes; the links of a page are to be followed on the host that the page is for.
\<close>

section \<open>What each kind of host answers\<close>


text \<open>The routes of the other kind, which the guards in front of them hide.\<close>

definition marketing_only :: "string list" where
  "marketing_only = [''/admin/login'', ''/help'', ''/help/{category}'', ''/help/{category}/{article}'', ''/contact'', ''/login'']"

definition plants_only :: "string list" where
  "plants_only = [''/terminal'', ''/owner/login'']"

lemma marketing_only_hidden:
  assumes "(''GET'', p, h) \<in> set (page_routes sv @ public_routes sv)" "p \<in> set marketing_only"
    and "\<not> IsMarketingHost (hr_Host r) (sv_BaseDomain sv)"
  shows "h r = ret not_found_page"
  using assms by (auto simp: page_routes_def public_routes_def marketing_only_def marketingHostOnly_def)

lemma plants_only_hidden:
  assumes "(''GET'', p, h) \<in> set (page_routes sv)" "p \<in> set plants_only"
    and "\<not> IsTenantHost (hr_Host r) (sv_BaseDomain sv)"
  shows "h r = ret not_found_page"
  using assms by (auto simp: page_routes_def plants_only_def tenantOrReview_def serveTenantOrReview_def)


definition marketing_gets :: "string list" where
  "marketing_gets = [''/admin/login'', ''/'', ''/home'', ''/pricing'', ''/about'', ''/terms'', ''/privacy'', ''/help'',
     ''/help/{category}'', ''/help/{category}/{article}'', ''/contact'', ''/get-started'', ''/login'', ''/accounts/resolve'',
     ''/admin'', ''/admin/plants/{id}'', ''/admin/buyers.csv'']"

definition tenant_gets :: "string list" where
  "tenant_gets = [''/'', ''/home'', ''/pricing'', ''/about'', ''/terms'', ''/privacy'', ''/terminal'', ''/owner/login'',
     ''/get-started'', ''/accounts/resolve'', ''/tickets/{reference}/callback'', ''/receipts'', ''/reviews/{token}'',
     ''/owner/forgot-password'', ''/owner/reset-password'', ''/home/summary'', ''/owner'', ''/owner/dashboard'', ''/owner/password'']"


text \<open>
  The pages of the marketing site that are also answered on the host of a plant have links to routes
  of the marketing site that this host hides.
\<close>

definition hidden_links :: "string list" where
  "hidden_links = [''/help'', ''/help/buying-gas'', ''/help/getting-started'', ''/contact'', ''/login'']"

definition shared_gets :: "string list" where
  "shared_gets = tenant_gets @ hidden_links"


section \<open>Links\<close>

text \<open>The path of a reference on the same host: up to its query or fragment.\<close>

definition path_of :: "string \<Rightarrow> string" where
  "path_of = takeWhile (\<lambda>c. c \<noteq> CHR ''#'' \<and> c \<noteq> CHR ''?'')"

definition linked_url :: "string list \<Rightarrow> string \<Rightarrow> bool" where
  "linked_url pats url \<longleftrightarrow> (take 1 url = ''/'' \<longrightarrow> leads_to pats (path_of url))"

definition linked :: "string list \<Rightarrow> node list \<Rightarrow> bool" where
  "linked pats ns \<longleftrightarrow> list_all (linked_url pats) (page_links ns)"

named_theorems linking

lemma linked_pieces [linking]:
  "linked pats []" "linked pats (xs @ ys) \<longleftrightarrow> linked pats xs \<and> linked pats ys"
  "linked pats (concat (map f zs)) \<longleftrightarrow> (\<forall>z \<in> set zs. linked pats (f z))"
  "linked pats (map g zs) \<longleftrightarrow> (\<forall>z \<in> set zs. linked pats [g z])"
  "linked pats (if c then xs else ys) \<longleftrightarrow> (if c then linked pats xs else linked pats ys)"
  by (auto simp: linked_def page_links_def list_all_iff)

lemma linked_nodes [linking]:
  "t = ''a'' \<Longrightarrow> linked pats (El t as ks # ns) \<longleftrightarrow>
     (case attr_of ''href'' as of None \<Rightarrow> True | Some u \<Rightarrow> linked_url pats u) \<and> linked pats ks \<and> linked pats ns"
  "t \<noteq> ''a'' \<Longrightarrow> linked pats (El t as ks # ns) \<longleftrightarrow> linked pats ks \<and> linked pats ns"
  "linked pats (Raw s # ns) \<longleftrightarrow> linked pats ns" "linked pats (Text s # ns) \<longleftrightarrow> linked pats ns"
  "linked pats (Doctype # ns) \<longleftrightarrow> linked pats ns" "linked pats (JSONScript i j # ns) \<longleftrightarrow> linked pats ns"
  by (cases "attr_of ''href'' as"; simp add: linked_def page_links_def; fail)+

lemma linked_urls [linking]:
  "linked_url pats []"
  "linked_url pats (c # s) \<longleftrightarrow> (c = CHR ''/'' \<longrightarrow> leads_to pats (path_of (c # s)))"
  "path_of [] = []" "path_of (c # s) = (if c = CHR ''#'' \<or> c = CHR ''?'' then [] else c # path_of s)"
  by (simp_all add: linked_url_def path_of_def)

lemma static_gets:
  "list_all (leads_to marketing_gets) [''/'', ''/about'', ''/contact'', ''/get-started'', ''/help'', ''/login'', ''/pricing'',
     ''/privacy'', ''/terms'', ''/admin'']"
  "list_all (leads_to tenant_gets) [''/'', ''/about'', ''/privacy'', ''/terms'', ''/receipts'', ''/owner'', ''/owner/login'',
     ''/owner/forgot-password'', ''/owner/password'']"
  "list_all (leads_to shared_gets) [''/'', ''/about'', ''/get-started'', ''/pricing'', ''/privacy'', ''/terms'', ''/help'',
     ''/help/buying-gas'', ''/help/getting-started'', ''/contact'', ''/login'']"
  by (simp_all add: leads_to_static marketing_gets_def tenant_gets_def shared_gets_def hidden_links_def)

lemma gets_with:
  "leads_to marketing_gets (''/admin/plants/'' @ s)" "leads_to marketing_gets (''/help/'' @ s)"
  by (rule leads_toI [where vs = "[s]" and p = "''/admin/plants/{id}''"]
    leads_toI [where vs = "[s]" and p = "''/help/{category}''"]; simp add: marketing_gets_def)+

lemma elsewhere: "take 1 u \<noteq> ''/'' \<Longrightarrow> linked_url pats u"
  by (simp add: linked_url_def)

lemma absolute_links:
  "linked_url pats verifyCACURL" "linked_url pats verifyNMDPRAURL" "linked_url pats paystackSubaccURL"
  "linked_url pats buyerShareURL" "linked_url pats socialXURL" "linked_url pats socialFacebookURL" "linked_url pats (''mailto:'' @ s)"
  by (rule elsewhere; simp add: verifyCACURL_def verifyNMDPRAURL_def paystackSubaccURL_def buyerShareURL_def socialXURL_def
    socialFacebookURL_def)+

lemma dynamic_links:
  "linked_url marketing_gets (''/admin/plants/'' @ s)" "linked_url marketing_gets (''/help/'' @ s)"
  "linked_url marketing_gets (''/admin#'' @ s)" "linked_url tenant_gets (''/receipts?ticket='' @ s)"
  using gets_with [of "path_of s"] static_gets by (simp_all add: linked_urls)

lemma help_links: "linked_url marketing_gets (helpCategoryURL c)" "linked_url marketing_gets (helpArticleURL c a)"
  by (simp_all only: helpCategoryURL_def helpArticleURL_def dynamic_links)

lemma theme_links:
  "linked_url pats (th_MapHref (customerTheme plant))" "linked_url pats (th_PhoneHref (customerTheme plant))"
proof -
  have maps: "linked_url pats (googleMapsHref a)" and phone: "linked_url pats (whatsappHref a)" for a
    by (simp_all add: linked_url_def googleMapsHref_def whatsappHref_def Let_def)
  have "linked_url pats (snd (theme_address plant))"
    by (simp add: theme_address_def maps linked_urls split: option.split)
  moreover have "th_MapHref (customerTheme plant) = snd (theme_address plant)"
    "\<exists>a. th_PhoneHref (customerTheme plant) = whatsappHref a"
    by (cases "theme_address plant"; cases "theme_colours plant"; auto simp: customerTheme_def Let_def)+
  ultimately show "linked_url pats (th_MapHref (customerTheme plant))" "linked_url pats (th_PhoneHref (customerTheme plant))"
    using phone by auto
qed

lemmas [linking] = absolute_links [simplified] dynamic_links [simplified] help_links theme_links gets_with [simplified] static_gets [simplified] attr_of_first attr_of_pieces
  Let_def case_prod_unfold

section \<open>The parts and the pages\<close>

lemma BrandFavicons_linked [linking]: "linked pats BrandFavicons"
  by (simp add: BrandFavicons_def linking cong: if_cong)

lemma BrandMark_linked [linking]: "linked pats (BrandMark className variant alt)"
  by (simp add: BrandMark_def linking cong: if_cong)

lemma Icon_linked [linking]: "linked pats (Icon name)"
  by (simp add: Icon_def linking cong: if_cong)

lemma marketingPageShell_linked [linking]: "linked marketing_gets content \<Longrightarrow> linked marketing_gets (marketingPageShell si title content)"
  by (simp add: marketingPageShell_def marketingHeader_def marketingFooter_def linking cong: if_cong)

lemma marketingPageShell_there [linking]: "linked shared_gets content \<Longrightarrow> linked shared_gets (marketingPageShell si title content)"
  by (simp add: marketingPageShell_def marketingHeader_def marketingFooter_def linking cong: if_cong)

lemma splashOverlay_linked [linking]: "linked pats splashOverlay"
  by (simp add: splashOverlay_def linking cong: if_cong)

lemma authShell_linked [linking]: "leads_to pats ''/'' \<Longrightarrow> action = ''/owner/login'' \<longrightarrow> leads_to pats ''/owner/forgot-password'' \<Longrightarrow> linked pats (authShell si title heading errorMsg action csrfToken)"
  by (simp add: authShell_def auth_head_def auth_body_def linking cong: if_cong)

lemma navButton_linked [linking]: "linked pats (navButton active tab icon label)"
  by (simp add: navButton_def linking cong: if_cong)

lemma emptyState_linked [linking]: "linked pats (emptyState lottie message)"
  by (simp add: emptyState_def linking cong: if_cong)

lemma kpiLabel_linked [linking]: "linked pats (kpiLabel icon label)"
  by (simp add: kpiLabel_def linking cong: if_cong)

lemma themedSelect_linked [linking]: "linked pats (themedSelect name options selected)"
  by (simp add: themedSelect_def themed_select_shell_def linking cong: if_cong)

lemma plantStatusForm_linked [linking]: "linked pats (plantStatusForm plantID newStatus label csrfToken conf)"
  by (simp add: plantStatusForm_def status_form_def linking cong: if_cong)

lemma verifyValue_linked [linking]: "linked_url marketing_gets verifyURL \<Longrightarrow> linked marketing_gets (verifyValue value verifyURL verifyLabel)"
  by (simp add: verifyValue_def linking cong: if_cong)

lemma ops_body_linked [linking]: "linked pats nav \<Longrightarrow> linked pats content \<Longrightarrow> linked pats (ops_body railLabel nav content logoutAction csrfToken mobileTitle mobileSub)"
  by (simp add: ops_body_def linking cong: if_cong)

lemma opsShell_linked [linking]: "linked pats nav \<Longrightarrow> linked pats content \<Longrightarrow> linked pats (opsShell si title railLabel nav content logoutAction csrfToken mobileTitle mobileSub)"
  by (simp add: opsShell_def ops_head_def linking cong: if_cong)

lemma customerBrand_linked [linking]: "linked_url tenant_gets (th_MapHref theme) \<Longrightarrow> linked_url tenant_gets (th_PhoneHref theme) \<Longrightarrow> linked tenant_gets (customerBrand theme)"
  by (simp add: customerBrand_def linking cong: if_cong)

lemma customerPageShell_linked [linking]: "linked tenant_gets content \<Longrightarrow> linked_url tenant_gets (th_MapHref theme) \<Longrightarrow> linked_url tenant_gets (th_PhoneHref theme) \<Longrightarrow> linked tenant_gets (customerPageShell si theme title content)"
  by (simp add: customerPageShell_def siteFooter_def linking cong: if_cong)

lemma socialLinks_linked [linking]: "linked marketing_gets (socialLinks heading)"
  by (simp add: socialLinks_def linking cong: if_cong)

lemma socialLinks_there [linking]: "linked shared_gets (socialLinks heading)"
  by (simp add: socialLinks_def linking cong: if_cong)

lemma NotFound_linked [linking]: "linked marketing_gets (NotFound si)"
  by (simp add: NotFound_def linking cong: if_cong)

lemma NotFound_there [linking]: "linked shared_gets (NotFound si)"
  by (simp add: NotFound_def linking cong: if_cong)

lemma Landing_linked [linking]: "linked marketing_gets (Landing si)"
  by (simp add: Landing_def landingContent_def linking cong: if_cong)

lemma About_linked [linking]: "linked marketing_gets (About si contactEmail)"
  by (simp add: About_def aboutContent_def linking cong: if_cong)

lemma About_there [linking]: "linked shared_gets (About si contactEmail)"
  by (simp add: About_def aboutContent_def linking cong: if_cong)

lemma Pricing_linked [linking]: "linked marketing_gets (Pricing si)"
  by (simp add: Pricing_def pricingContent_def pricing_plan_section_def pricing_questions_def linking cong: if_cong)

lemma Pricing_there [linking]: "linked shared_gets (Pricing si)"
  by (simp add: Pricing_def pricingContent_def pricing_plan_section_def pricing_questions_def linking cong: if_cong)

lemma TermsOfService_linked [linking]: "linked marketing_gets (TermsOfService si)"
  by (simp add: TermsOfService_def termsContent_def linking cong: if_cong)

lemma TermsOfService_there [linking]: "linked shared_gets (TermsOfService si)"
  by (simp add: TermsOfService_def termsContent_def linking cong: if_cong)

lemma PrivacyPolicy_linked [linking]: "linked marketing_gets (PrivacyPolicy si)"
  by (simp add: PrivacyPolicy_def privacyContent_def linking cong: if_cong)

lemma PrivacyPolicy_there [linking]: "linked shared_gets (PrivacyPolicy si)"
  by (simp add: PrivacyPolicy_def privacyContent_def linking cong: if_cong)

lemma spotsBanner_linked [linking]: "linked pats (spotsBanner kind claimed spots emptyTitle emptyText liveLabel fullText)"
  by (simp add: spotsBanner_def spots_banner_empty_def spots_banner_full_def spots_banner_open_def linking cong: if_cong)

lemma pages_Signup_linked [linking]: "linked marketing_gets (pages_Signup si data)"
  by (simp add: pages_Signup_def signupContent_def signup_submitted_def signup_buyer_panel_def
    signup_owner_panel_def signup_owner_form_def signup_plant_fields_def signup_business_fields_def
    signup_brand_fields_def linking cong: if_cong)

lemma pages_Signup_there [linking]: "linked shared_gets (pages_Signup si data)"
  by (simp add: pages_Signup_def signupContent_def signup_submitted_def signup_buyer_panel_def
    signup_owner_panel_def signup_owner_form_def signup_plant_fields_def signup_business_fields_def
    signup_brand_fields_def linking cong: if_cong)


lemma LoginFinder_linked [linking]: "linked marketing_gets (LoginFinder si input errorMsg)"
  by (simp add: LoginFinder_def loginFinderContent_def linking cong: if_cong)

lemma Contact_linked [linking]: "linked marketing_gets (Contact si contactEmail)"
  by (simp add: Contact_def contactContent_def linking cong: if_cong)

lemma helpContactBand_linked [linking]: "linked marketing_gets (helpContactBand contactEmail)"
  by (simp add: helpContactBand_def linking cong: if_cong)

lemma Help_linked [linking]: "linked marketing_gets (Help si contactEmail)"
  by (simp add: Help_def helpHub_def helpCategoryTile_def helpSearchScript_def linking cong: if_cong)

lemma helpSidebar_linked [linking]: "linked marketing_gets (helpSidebar currentCategory currentArticle)"
  by (simp add: helpSidebar_def sidebar_category_def linking cong: if_cong)

lemma HelpCategoryPage_linked [linking]: "linked marketing_gets (HelpCategoryPage si c contactEmail)"
  by (simp add: HelpCategoryPage_def helpCategoryContent_def linking cong: if_cong)

lemma HelpArticlePage_linked [linking]: "linked marketing_gets (HelpArticlePage si c a contactEmail)"
  by (simp add: HelpArticlePage_def helpArticleContent_def article_hc_body_def helpFeedbackScript_def linking cong: if_cong split: HelpBlock.splits)

lemma CustomerHome_linked [linking]: "linked tenant_gets (CustomerHome si plant pricePerKgKobo csrfToken errorMsg isOpen hoursLabel)"
  by (simp add: CustomerHome_def customerHomeContent_def buy_form_col_def buy_summary_col_def linking cong: if_cong)


lemma PlantReview_linked [linking]: "linked tenant_gets (PlantReview si plant data)"
  by (simp add: PlantReview_def plantReviewContent_def review_done_def review_entry_def linking cong: if_cong)

lemma TicketConfirmation_linked [linking]: "linked tenant_gets (TicketConfirmation si plant paid code amount sizeKg pump)"
  by (simp add: TicketConfirmation_def ticketConfirmationContent_def confirmation_view_def linking cong: if_cong)

lemma StaffTerminal_linked [linking]: "linked pats (StaffTerminal si plant init)"
  by (simp add: StaffTerminal_def linking cong: if_cong)

lemma OwnerLogin_linked [linking]: "linked tenant_gets (OwnerLogin si plantName errorMsg csrfToken)"
  by (simp add: OwnerLogin_def linking cong: if_cong)

lemma OwnerForgotPassword_linked [linking]: "linked tenant_gets (OwnerForgotPassword si plantName errorMsg submitted csrfToken)"
  by (simp add: OwnerForgotPassword_def forgot_page_def linking cong: if_cong)

lemma OwnerResetPassword_linked [linking]: "linked tenant_gets (OwnerResetPassword si plantName errorMsg token tokenValid csrfToken)"
  by (simp add: OwnerResetPassword_def reset_head_def reset_body_def linking cong: if_cong)

lemma OwnerChangePassword_linked [linking]: "linked tenant_gets (OwnerChangePassword si plantName errorMsg done' csrfToken)"
  by (simp add: OwnerChangePassword_def change_head_def change_account_body_def passwordInput_def linking cong: if_cong)

lemma owner_operations_panel_linked [linking]: "linked pats (owner_operations_panel data)"
  by (simp add: owner_operations_panel_def owner_cash_drawer_def owner_hours_section_def owner_hours_form_def
    owner_hours_table_def owner_day_row_def owner_pumps_section_def owner_pump_form_def
    owner_shift_register_def owner_register_row_def linking cong: if_cong)

lemma ownerDashboardContent_linked [linking]: "linked tenant_gets (ownerDashboardContent data)"
  by (simp add: ownerDashboardContent_def owner_topline_def owner_overview_panel_def owner_overview_kpis_def
    owner_overview_grid_def owner_sales_panel_def owner_sales_table_def owner_sale_row_def
    owner_reviews_panel_def owner_review_kpis_def owner_reviews_table_def owner_staff_panel_def
    owner_staff_table_def owner_access_row_def owner_staff_permissions_def owner_staff_chips_def
    owner_staff_actions_def owner_add_staff_def owner_settings_panel_def owner_settings_price_def
    owner_brand_form_def brandColorField_def owner_settings_account_def linking cong: if_cong)

lemma OwnerDashboard_linked [linking]: "linked tenant_gets (OwnerDashboard si data)"
  by (simp add: OwnerDashboard_def ownerNav_def linking cong: if_cong)

lemma AdminLogin_linked [linking]: "linked marketing_gets (AdminLogin si errorMsg csrfToken)"
  by (simp add: AdminLogin_def linking cong: if_cong)

lemma AdminConsole_linked [linking]: "linked marketing_gets (AdminConsole si data)"
  by (simp add: AdminConsole_def adminNav_def adminConsoleContent_def console_topline_def console_overview_panel_def
    console_overview_kpis_def console_overview_grid_def console_applications_panel_def
    console_application_row_def console_application_cell_def console_plants_panel_def console_plant_row_def
    console_plant_cell_def console_domain_cell_def console_health_cell_def console_plant_actions_def
    console_activity_panel_def linking cong: if_cong)

lemma AdminPlantDetail_linked [linking]: "linked marketing_gets (AdminPlantDetail si data)"
  by (simp add: AdminPlantDetail_def adminNavLinks_def navLink_def adminPlantDetailContent_def detail_topline_def
    detail_kpi_row_def detail_payout_section_def detail_record_section_def detail_messaging_section_def
    linking cong: if_cong)

section \<open>Every page on its host\<close>







text \<open>Why the five links are dead: they lead to routes of the marketing site, and to no others.\<close>

lemma hidden_links_hidden:
  assumes "p \<in> set hidden_links"
  shows "leads_to marketing_only p" "\<not> leads_to tenant_gets p"
proof -
  have "leads_to marketing_only (''/help/'' @ s)" for s
    by (rule leads_toI [where vs = "[s]" and p = "''/help/{category}''"]) (simp_all add: marketing_only_def)
  from this [of "''buying-gas''"] this [of "''getting-started''"] assms show "leads_to marketing_only p"
    by (auto simp: hidden_links_def marketing_only_def leads_to_static)
  have "take 3 (fill_in False q vs) \<notin> {''/he'', ''/co'', ''/lo''}" if "q \<in> set tenant_gets" for q vs
    using that by (auto simp: tenant_gets_def)
  moreover have "take 3 p \<in> {''/he'', ''/co'', ''/lo''}"
    using assms by (auto simp: hidden_links_def)
  ultimately show "\<not> leads_to tenant_gets p" unfolding leads_to_def by blast
qed



text \<open>
  The page that a plant under review shows on its own host has one of these links, which this host
  does not answer.
\<close>

lemma review_page_dead_link:
  "''/help'' \<in> set (page_links (PlantUnderReview si name app))"
  "\<not> IsMarketingHost (hr_Host r) (sv_BaseDomain sv) \<Longrightarrow> (''GET'', ''/help'', h) \<in> set (page_routes sv) \<Longrightarrow>
     h r = ret not_found_page"
proof -
  have "''/help'' \<in> set (page_links (marketingFooter si))"
    by (simp add: marketingFooter_def reading reading_attrs)
  then show "''/help'' \<in> set (page_links (PlantUnderReview si name app))"
    by (simp add: PlantUnderReview_def marketingPageShell_def reading)
qed (rule marketing_only_hidden [where p = "''/help''"]; simp add: marketing_only_def)

end
