(* ===== verification/Spec2Isabelle.thy ===== *)
theory Spec2Isabelle
  imports SystemSpec PaymentSpec ShiftSpec SalesSpec PlatformSpec SafeMethods PageSpec OfferSpec RoundTrips SealedPages LinkSpec
begin

text \<open>
  A model of GatsToGo, a multi-tenant server on which plants that sell cooking gas take payments,
  dispense against codes and account for their shifts. The program is Go under \<^verbatim>\<open>src/cmd\<close> and
  \<^verbatim>\<open>src/internal\<close>, with PostgreSQL (\<^verbatim>\<open>src/migrations\<close>), Redis and the payment service Paystack.

  \<^bold>\<open>How the program is put together.\<close> A request is routed by \<^verbatim>\<open>MountHandlers\<close> through middleware
  (host to plant, session cookie, CSRF) to a handler. A handler for a plant does its work in one
  transaction of \<^verbatim>\<open>tenantdb.WithTenant\<close>, which row-level security confines to the rows of that
  plant; the platform's administrators, and the operator's command line, use a role that bypasses
  it. The packages under \<^verbatim>\<open>internal\<close> hold what is done within a transaction (tickets, shifts,
  pumps, prices, staff, reviews, hours, plants, buyers, the activity log) or on Redis (sessions,
  receipt codes, limits on attempts, password resets).

  \<^bold>\<open>How it is modelled.\<close> The database is a record of tables (\<open>Domain\<close>), one record per row with
  the columns of the migrations; the constraints are those of the migrations (\<open>Schema\<close>). An action
  is a function from a world to a Go error or a value and a new world (\<open>TenantDB\<close>): statements see
  the rows that the role may see, fail with the SQLSTATE of a constraint they break, and poison
  their transaction when they fail. The record \<open>env\<close> has what the code cannot decide - the clock,
  random draws, new identifiers, and for every request to the server whether it goes through, fails
  without an effect, or takes effect with its answer lost; no theorem restricts it unless its
  statement says so. Handlers work on a world paired with the state of Redis (\<open>Http\<close>), of which
  \<open>redis_ok\<close> (\<open>Redis\<close>) states the documented behaviour. Errors are values of \<open>go_err\<close>; money and
  weights are integers; the range of an \<^verbatim>\<open>INTEGER\<close> column is checked where it is written, that of a
  \<^verbatim>\<open>BIGINT\<close> column is that of the \<^verbatim>\<open>int64\<close> the code gives it; the
  conversions through \<^verbatim>\<open>float64\<close> are computed on rational numbers rounded to 53 bits (\<open>GoFloat\<close>).

  \<^bold>\<open>Which theory models which part.\<close>
  \<^item> \<open>Prelude\<close>, \<open>Actions\<close>, \<open>GoStrings\<close>, \<open>GoFloat\<close>, \<open>GoParse\<close>, \<open>Clock\<close>: lists and tables; rules for
    actions (\<open>runs\<close>: a run with its outcome; \<open>writes_own\<close>: writes rows of one plant only;
    \<open>keeps R\<close>: relates the database before and after); the parts of Go's library that the code
    uses on text, numbers and times.
  \<^item> \<open>AuditLog\<close>, \<open>Tickets\<close>, \<open>Shifts\<close>, \<open>Pumps\<close>, \<open>Prices\<close>, \<open>Staff\<close>, \<open>Reviews\<close>, \<open>Hours\<close>, \<open>Plants\<close>, \<open>Buyers\<close>,
    \<open>Uploads\<close>, \<open>Payments\<close>: the packages of these names under \<^verbatim>\<open>internal\<close>, an operation per function.
  \<^item> \<open>Redis\<close>, \<open>RateLimits\<close>, \<open>Sessions\<close>, \<open>Middleware\<close>: the store with expiry; PIN lockout, receipt codes
    and limits per address; sessions, cookies and reset tokens; the guards in front of handlers.
  \<^item> \<open>ServerTickets\<close>, \<open>ServerCustomer\<close>, \<open>ServerTerminal\<close>, \<open>ServerShift\<close>, \<open>ServerOwner\<close>, \<open>ServerAdmin\<close>,
    \<open>ServerMarketing\<close>, \<open>Dashboard\<close>, \<open>Console\<close>, \<open>HelpCentre\<close>, \<open>Format\<close>: the handlers of \<^verbatim>\<open>cmd/server\<close>, each
    with its transaction (\<open>..._tx\<close>), its other effects and its response; a page is named with the
    data that the template gets.
  \<^item> \<open>Html\<close>, \<open>Theme\<close>, \<open>Views\<close>, \<open>Icons\<close>, \<open>PageParts\<close>, \<open>MarketingPages\<close>, \<open>CustomerPages\<close>, \<open>OwnerPages\<close>,
    \<open>AdminPages\<close>: the templates of \<^verbatim>\<open>web/templates\<close>. A component is the list of nodes that its
    \<^verbatim>\<open>_templ.go\<close> function writes, with the conditions and loops of that function; a node says
    whether a text is the template's or comes out of the data, and through which function of
    \<^verbatim>\<open>templ\<close>. \<open>Theme\<close> and \<open>Views\<close> have the functions that the templates call. Long components are cut
    into pieces, each the lines of its markup.
  \<^item> \<open>Router\<close>: every route with its middleware. \<open>Transports\<close>, \<open>Startup\<close>: the clients for messages and
    mail, settings, start and health probe. \<open>Migrate\<close>, \<open>Operator\<close>: \<^verbatim>\<open>internal/migrate\<close> and \<^verbatim>\<open>cmd/gtg\<close>.

  \<^bold>\<open>What is shown.\<close>
  \<^item> The system (\<open>System\<close>, \<open>HandlerRules\<close>, \<open>HandlerSteps\<close>, \<open>SystemSpec\<close>): a step is one transaction with
    any arguments, run to whatever end; every handler behind every route changes the database by
    such steps only. So what steps keep holds after any interleaving of requests: the constraints
    of the schema (\<open>SchemaLaws\<close>, for which every write of the model is checked), the append-only
    ledgers, the life of a ticket (\<open>TicketLaws\<close>,
    \<open>ChangeLaws\<close>), the isolation of tenants (\<open>TenantLaws\<close>). The locale \<open>db_preorder\<close> has the rules for
    relations on databases, \<open>handler_relation\<close> those for handlers; \<open>SafeMethods\<close> interprets it a
    second time, for what a GET request may change in the database, and says what one may leave in
    Redis.
  \<^item> The components (\<open>TicketSpec\<close>, \<open>ShiftSpec\<close>, \<open>SalesSpec\<close>, \<open>PlatformSpec\<close>, \<open>SiteSpec\<close>): what the
    operations do on every branch - sales, codes, dispensing, pump queues, shifts, founding ranks,
    the waiting list, uploads; the conversions between money and weight; the phone reductions in
    SQL and in Go; opening hours against the arithmetic of the day.
  \<^item> Access and payment (\<open>AccessSpec\<close>, \<open>PaymentSpec\<close>): no change without a session of the right kind and
    plant; lockouts, one-time codes and tokens; sessions that load as they were stored; no payment without
    Paystack's word.
  \<^item> Operations (\<open>Migrate\<close>, \<open>Operator\<close>, \<open>Startup\<close>): migrations are whole and applied once, the last
    administrator stays, what a failed start leaves open.
  \<^item> Pages: \<open>scan_page\<close> (\<open>Html\<close>) reads the tags of a rendered page back; with \<open>SealedPages\<close>, no data adds
    a tag or is run. \<open>Forms\<close> reads forms, links and controls off the nodes (locale \<open>reader\<close>, one
    interpretation per thing read) and says what a browser sends; \<open>FormSpec\<close> and \<open>PageSpec\<close>: every
    form reaches its handler past the CSRF check; \<open>LinkSpec\<close>: every link leads to a route of its
    host, but for five in the marketing frame on the host of a plant; \<open>OfferSpec\<close>: the dashboard
    offers what the handlers allow; \<open>RoundTrips\<close>: a form sent as it is shown asks for what is
    stored; \<open>Theme\<close>: only colours get into a style.
  \<^item> \<open>Fixtures\<close>, \<open>SystemFixtures\<close>, \<open>AccessFixtures\<close>, \<open>PageFixtures\<close>: the installation, server and Redis on which the
    hypotheses of the properties are shown to hold together.

  \<^bold>\<open>Bounds.\<close> There is no fuel: the loops of the code end structurally or by a measure. The retry loops
  of purchases and review tokens have the code's own bounds (\<open>retries_bounded\<close>). A theorem
  that an operation succeeds assumes that its requests go through (\<open>ready\<close>, \<open>calm_at\<close>).

  \<^bold>\<open>Not modelled.\<close> Transactions are run one at a time: PostgreSQL's interleaving of two transactions
  under READ COMMITTED is not, and the places where the code relies on it are noted as findings.
  Go's map order, timeouts and cancelled requests appear only as failing requests. Of the
  templates, white space between elements, comments and the text of script elements are left out;
  so are static files (with the JavaScript of the terminal), logging, the listener and its shutdown,
  and the texts that only go to a terminal. The escaping of \<^verbatim>\<open>templ\<close>, bcrypt, HMAC, JSON (with
  what \<open>codec_ok\<close> of \<open>Sessions\<close> says of it), the time zone database, content sniffing, \<^verbatim>\<open>net/url\<close> and
  \<^verbatim>\<open>net/mail\<close> parsing, Paystack, Termii and Resend are parameters.
\<close>

end
